(* ===== verification/Prelude.thy ===== *)
theory Prelude
  imports Main "HOL-Library.Word" "HOL-Library.Sublist"
begin

text \<open>
  The shared vocabulary of the development. A fallible operation of the program returns
  a value of \<open>'a result\<close>: \<open>Inr\<close> a value, or \<open>Inl\<close> a failure, which is a
  returned error status, an exception that leaves the operation, or a point where the C++
  program has no defined behaviour. The generic lemmas on lists, options and folds that
  several components share are collected here.
\<close>

unbundle bit_operations_syntax

type_synonym u8 = "8 word"
type_synonym u16 = "16 word"
type_synonym u32 = "32 word"
type_synonym u64 = "64 word"

named_theorems causal_intros "introduction rules for row-wise and causal operators"
named_theorems status_simps "evaluation of statuses and results"
named_theorems size_simps "sizes and lengths of buffers, rows and shapes"

section \<open>Status codes and results\<close>

text \<open>\<open>enum class StatusCode\<close> of \<open>src/core/status.h\<close>.\<close>

datatype status_code =
    StOK | InvalidArgument | OutOfMemory | NotImplemented | InternalError | InvalidDevice
  | UnsupportedDType | FileNotFound | InvalidModel | BackendError | UnknownStatus

text \<open>\<open>class Status\<close>: a code and a message.\<close>

datatype status = Status (st_code: status_code) (st_message: string)

definition st_ok :: "status \<Rightarrow> bool" where
  "st_ok s \<longleftrightarrow> st_code s = StOK"

definition status_OK :: status where
  "status_OK = Status StOK ''''"

text \<open>The numeric value of a code, as the enumerators give it.\<close>

fun status_code_value :: "status_code \<Rightarrow> int" where
  "status_code_value StOK = 0"
| "status_code_value InvalidArgument = 1"
| "status_code_value OutOfMemory = 2"
| "status_code_value NotImplemented = 3"
| "status_code_value InternalError = 4"
| "status_code_value InvalidDevice = 5"
| "status_code_value UnsupportedDType = 6"
| "status_code_value FileNotFound = 7"
| "status_code_value InvalidModel = 8"
| "status_code_value BackendError = 9"
| "status_code_value UnknownStatus = 99"

datatype failure =
    Failed status
  | Thrown string
  | Undef string

type_synonym 'a result = "failure + 'a"

definition fails :: "status_code \<Rightarrow> string \<Rightarrow> 'a result" where
  "fails c m = Inl (Failed (Status c m))"

definition and_then :: "'a result \<Rightarrow> ('a \<Rightarrow> 'b result) \<Rightarrow> 'b result" where
  "and_then r f = (case r of Inl e \<Rightarrow> Inl e | Inr a \<Rightarrow> f a)"

fun failure_code :: "failure \<Rightarrow> status_code option" where
  "failure_code (Failed s) = Some (st_code s)"
| "failure_code _ = None"

definition fails_with :: "'a result \<Rightarrow> status_code \<Rightarrow> bool" where
  "fails_with r c \<longleftrightarrow> (\<exists>m. r = fails c m)"

lemma st_ok_status_OK [simp, status_simps]: "st_ok status_OK"
  by (simp add: st_ok_def status_OK_def)

lemma st_ok_Status [simp, status_simps]: "st_ok (Status c m) \<longleftrightarrow> c = StOK"
  by (simp add: st_ok_def)

lemma and_then_simps [simp, status_simps]:
  "and_then (Inl e) f = Inl e"
  "and_then (Inr a) f = f a"
  by (simp_all add: and_then_def)

lemma and_then_Inr [status_simps]:
  "and_then r f = Inr b \<longleftrightarrow> (\<exists>a. r = Inr a \<and> f a = Inr b)"
  by (cases r) auto

lemma and_then_Inl:
  "and_then r f = Inl e \<longleftrightarrow> r = Inl e \<or> (\<exists>a. r = Inr a \<and> f a = Inl e)"
  by (cases r) auto

lemma fails_not_Inr [simp, status_simps]: "fails c m \<noteq> Inr a" "Inr a \<noteq> fails c m"
  by (simp_all add: fails_def)

lemma and_then_fails [simp]: "and_then (fails c m) f = fails c m"
  by (simp add: fails_def)

lemma fails_inject [simp]: "fails c m = fails c' m' \<longleftrightarrow> c = c' \<and> m = m'"
  by (simp add: fails_def)

lemma fails_with_fails [simp, intro]: "fails_with (fails c m) c"
  by (auto simp: fails_with_def)

lemma fails_with_Inr [simp]: "\<not> fails_with (Inr a) c"
  by (simp add: fails_with_def)

section \<open>Lists\<close>

text \<open>\<open>iterate n f\<close> runs a loop body \<open>f 0, f 1, \<dots>, f (n - 1)\<close> over a state.\<close>

definition for_loop :: "nat \<Rightarrow> (nat \<Rightarrow> 's \<Rightarrow> 's) \<Rightarrow> 's \<Rightarrow> 's" where
  "for_loop n body s = fold body [0..<n] s"

lemma for_loop_0 [simp]: "for_loop 0 body s = s"
  by (simp add: for_loop_def)

lemma for_loop_Suc [simp]: "for_loop (Suc n) body s = body n (for_loop n body s)"
  by (simp add: for_loop_def)

lemma for_loop_cong:
  "(\<And>i s. i < n \<Longrightarrow> body i s = body' i s) \<Longrightarrow> for_loop n body s = for_loop n body' s"
  by (induction n) auto

lemma for_loop_invariant:
  assumes "P 0 s" and "\<And>i s. i < n \<Longrightarrow> P i s \<Longrightarrow> P (Suc i) (body i s)"
  shows "P n (for_loop n body s)"
  using assms by (induction n) auto

text \<open>\<open>those_map f xs\<close> applies a fallible function to every element.\<close>

fun those_map :: "('a \<Rightarrow> 'b option) \<Rightarrow> 'a list \<Rightarrow> 'b list option" where
  "those_map f [] = Some []"
| "those_map f (x # xs) =
     (case f x of None \<Rightarrow> None
      | Some y \<Rightarrow> (case those_map f xs of None \<Rightarrow> None | Some ys \<Rightarrow> Some (y # ys)))"

lemma those_map_append:
  "those_map f (xs @ ys) =
     (case those_map f xs of None \<Rightarrow> None
      | Some us \<Rightarrow> (case those_map f ys of None \<Rightarrow> None | Some vs \<Rightarrow> Some (us @ vs)))"
  by (induction xs) (auto split: option.splits)

lemma those_map_length [size_simps]: "those_map f xs = Some ys \<Longrightarrow> length ys = length xs"
  by (induction xs arbitrary: ys) (auto split: option.splits)

lemma those_map_Some: "those_map (\<lambda>x. Some (f x)) xs = Some (map f xs)"
  by (induction xs) auto

lemma those_map_id: "(\<And>x. x \<in> set xs \<Longrightarrow> f x = Some x) \<Longrightarrow> those_map f xs = Some xs"
  by (induction xs) auto

lemma those_map_nth:
  "those_map f xs = Some ys \<Longrightarrow> i < length xs \<Longrightarrow> f (xs ! i) = Some (ys ! i)"
proof (induction xs arbitrary: ys i)
  case Nil
  then show ?case by simp
next
  case (Cons x xs)
  then show ?case by (cases i) (auto split: option.splits)
qed

text \<open>The number of leading positions where two lists agree: the scan that stops at the
  first difference.\<close>

fun match_length :: "'a list \<Rightarrow> 'a list \<Rightarrow> nat" where
  "match_length (x # xs) (y # ys) = (if x = y then Suc (match_length xs ys) else 0)"
| "match_length _ _ = 0"

lemma match_length_le: "match_length xs ys \<le> length ys" "match_length xs ys \<le> length xs"
  by (induction xs ys rule: match_length.induct) auto

lemma match_length_take: "take (match_length xs ys) xs = take (match_length xs ys) ys"
  by (induction xs ys rule: match_length.induct) auto

lemma match_length_stop:
  "match_length xs ys < length xs \<Longrightarrow> match_length xs ys < length ys \<Longrightarrow>
     xs ! match_length xs ys \<noteq> ys ! match_length xs ys"
  by (induction xs ys rule: match_length.induct) auto

lemma sum_list_concat: "length (concat xss) = sum_list (map length xss)"
  by (induction xss) auto

lemma last_append_ne: "ys \<noteq> [] \<Longrightarrow> last (xs @ ys) = last ys"
  by simp

text \<open>A nested loop over rows and columns visits the flat indices in order.\<close>

lemma concat_map_upt:
  "concat (map (\<lambda>i. map (f i) [0..<n]) [0..<m]) = map (\<lambda>k. f (k div n) (k mod n)) [0..<m * n]"
proof (induction m)
  case 0
  then show ?case by simp
next
  case (Suc m)
  let ?g = "\<lambda>k. f (k div n) (k mod n)"
  have "map ?g [0..<m * n + n] = map ?g [0..<m * n] @ map ?g [m * n..<m * n + n]"
    using upt_add_eq_append [of 0 "m * n" n] by simp
  also have "map ?g [m * n..<m * n + n] = map (f m) [0..<n]"
  proof -
    have "map ?g [m * n..<m * n + n] = map ?g (map (\<lambda>i. i + m * n) [0..<n])"
      by (simp only: map_add_upt add.commute [of "m * n"])
    also have "\<dots> = map (f m) [0..<n]"
      unfolding map_map
    proof (rule map_cong [OF refl])
      fix i assume "i \<in> set [0..<n]"
      then have "i < n" by simp
      then have "(i + m * n) div n = m" "(i + m * n) mod n = i" by simp_all
      then show "(?g \<circ> (\<lambda>i. i + m * n)) i = f m i" by (simp only: o_apply)
    qed
    finally show ?thesis .
  qed
  finally show ?case using Suc by (simp only: mult_Suc add.commute [of n]) simp
qed

lemma nth_append_shift: "(xs @ ys) ! (length xs + i) = ys ! i"
  by (simp add: nth_append)

text \<open>A loop over \<open>m + n\<close> indices is a loop over the first \<open>m\<close> and one over the rest.\<close>

lemma map_upt_split:
  assumes "\<And>i. i < m \<Longrightarrow> f i = g i" and "\<And>i. i < n \<Longrightarrow> f (m + i) = h i"
  shows "map f [0..<m + n] = map g [0..<m] @ map h [0..<n]"
proof -
  have "map f [m..<m + n] = map h [0..<n]"
    using assms(2) by (auto simp: map_equality_iff)
  with assms(1) upt_add_eq_append [of 0 m n] show ?thesis by auto
qed

lemma concat_upt_split:
  assumes "\<And>i. i < m \<Longrightarrow> f i = g i" and "\<And>i. i < n \<Longrightarrow> f (m + i) = h i"
  shows "concat (map f [0..<m + n]) = concat (map g [0..<m]) @ concat (map h [0..<n])"
  using map_upt_split [of m f g n h] assms by simp

text \<open>The flat index of a row and a column.\<close>

lemma row_index: "r < m \<Longrightarrow> c < k \<Longrightarrow> r * k + c < m * (k::nat)"
proof -
  assume "r < m" "c < k"
  then have "Suc r * k \<le> m * k" by (intro mult_le_mono1) simp
  with \<open>c < k\<close> show ?thesis by simp
qed

lemma nth_row_front: "length xs = m * k \<Longrightarrow> r < m \<Longrightarrow> c < k \<Longrightarrow> (xs @ ys) ! (r * k + c) = xs ! (r * k + c)"
  by (simp add: nth_append row_index)

lemma nth_row_back: "length xs = m * k \<Longrightarrow> (xs @ ys) ! ((m + r) * k + c) = ys ! (r * k + c)"
  by (simp add: nth_append add_mult_distrib)

lemma length_concat_const: "(\<And>x. x \<in> set xs \<Longrightarrow> length (f x) = k) \<Longrightarrow> length (concat (map f xs)) = length xs * k"
  by (induction xs) auto

section \<open>Decimal text\<close>

text \<open>\<open>std::to_string\<close> of an integer.\<close>

definition digit_char :: "nat \<Rightarrow> char" where
  "digit_char d = char_of (48 + d)"

fun string_of_nat :: "nat \<Rightarrow> string" where
  "string_of_nat n =
     (if n < 10 then [digit_char n] else string_of_nat (n div 10) @ [digit_char (n mod 10)])"

declare string_of_nat.simps [simp del]

definition string_of_int :: "int \<Rightarrow> string" where
  "string_of_int i = (if i < 0 then ''-'' @ string_of_nat (nat (- i)) else string_of_nat (nat i))"

text \<open>The value of a digit text: the left inverse of \<open>string_of_nat\<close>.\<close>

definition digits_value :: "string \<Rightarrow> nat" where
  "digits_value s = fold (\<lambda>c n. n * 10 + (of_char c - 48)) s 0"

lemma of_char_digit [simp]: "d < 10 \<Longrightarrow> (of_char (digit_char d) :: nat) = 48 + d"
  by (simp add: digit_char_def)

lemma digits_value_string_of_nat [simp]: "digits_value (string_of_nat n) = n"
proof (induction n rule: string_of_nat.induct)
  case (1 n)
  show ?case
  proof (cases "n < 10")
    case True
    then show ?thesis by (simp add: string_of_nat.simps [of n] digits_value_def)
  next
    case False
    with 1 have "fold (\<lambda>c n. n * 10 + (of_char c - 48)) (string_of_nat (n div 10)) 0 = n div 10"
      by (simp add: digits_value_def)
    with False show ?thesis by (simp add: string_of_nat.simps [of n] digits_value_def)
  qed
qed

lemma string_of_nat_inj: "string_of_nat a = string_of_nat b \<longleftrightarrow> a = b"
  by (metis digits_value_string_of_nat)

lemma string_of_nat_chars: "c \<in> set (string_of_nat n) \<Longrightarrow> 48 \<le> (of_char c :: nat) \<and> (of_char c :: nat) < 58"
proof (induction n rule: string_of_nat.induct)
  case (1 n)
  then show ?case
    by (cases "n < 10") (auto simp: string_of_nat.simps [of n])
qed

lemma string_of_nat_ne [simp]: "string_of_nat n \<noteq> []"
  by (subst string_of_nat.simps) auto

end
