(* ===== verification/Core_Types.thy ===== *)
theory Core_Types
  imports Prelude
begin

text \<open>
  The value types of \<open>src/core/\<close>: element types (\<open>dtype.h\<close>), devices
  (\<open>device.h\<close>), shapes (\<open>shape.h\<close>) and the memory types of
  \<open>src/backends/interface/backend.h\<close>.
\<close>

section \<open>Element types\<close>

datatype dtype =
    FP32 | FP16 | BF16 | FP8_E4M3 | FP8_E5M2 | INT8 | INT32 | INT64 | UINT8 | BOOL

fun SizeOfDType :: "dtype \<Rightarrow> nat" where
  "SizeOfDType FP32 = 4"
| "SizeOfDType FP16 = 2"
| "SizeOfDType BF16 = 2"
| "SizeOfDType FP8_E4M3 = 1"
| "SizeOfDType FP8_E5M2 = 1"
| "SizeOfDType INT8 = 1"
| "SizeOfDType INT32 = 4"
| "SizeOfDType INT64 = 8"
| "SizeOfDType UINT8 = 1"
| "SizeOfDType BOOL = 1"

fun DTypeToString :: "dtype \<Rightarrow> string" where
  "DTypeToString FP32 = ''fp32''"
| "DTypeToString FP16 = ''fp16''"
| "DTypeToString BF16 = ''bf16''"
| "DTypeToString FP8_E4M3 = ''fp8_e4m3''"
| "DTypeToString FP8_E5M2 = ''fp8_e5m2''"
| "DTypeToString INT8 = ''int8''"
| "DTypeToString INT32 = ''int32''"
| "DTypeToString INT64 = ''int64''"
| "DTypeToString UINT8 = ''uint8''"
| "DTypeToString BOOL = ''bool''"

lemma SizeOfDType_pos [simp, size_simps]: "0 < SizeOfDType d"
  by (cases d) auto

lemma DTypeToString_inj: "DTypeToString a = DTypeToString b \<longleftrightarrow> a = b"
  by (cases a; cases b) auto

section \<open>Devices\<close>

datatype device_type = CPU | IntegratedGPU | DiscreteGPU | UnknownDevice

text \<open>\<open>class Device\<close>. The comparison \<open>operator==\<close> ignores the
  unified-memory flag.\<close>

record device =
  dev_id :: int
  dev_type :: device_type
  dev_backend :: string
  dev_unified :: bool

definition Cpu :: device where
  "Cpu = \<lparr>dev_id = 0, dev_type = CPU, dev_backend = ''cpu'', dev_unified = False\<rparr>"

definition is_cpu :: "device \<Rightarrow> bool" where
  "is_cpu d \<longleftrightarrow> dev_type d = CPU"

definition is_gpu :: "device \<Rightarrow> bool" where
  "is_gpu d \<longleftrightarrow> dev_type d = IntegratedGPU \<or> dev_type d = DiscreteGPU"

definition device_eq :: "device \<Rightarrow> device \<Rightarrow> bool" where
  "device_eq a b \<longleftrightarrow>
     dev_id a = dev_id b \<and> dev_type a = dev_type b \<and> dev_backend a = dev_backend b"

fun DeviceTypeToString :: "device_type \<Rightarrow> string" where
  "DeviceTypeToString CPU = ''cpu''"
| "DeviceTypeToString IntegratedGPU = ''igpu''"
| "DeviceTypeToString DiscreteGPU = ''dgpu''"
| "DeviceTypeToString UnknownDevice = ''unknown''"

fun device_type_value :: "device_type \<Rightarrow> nat" where
  "device_type_value CPU = 0"
| "device_type_value IntegratedGPU = 1"
| "device_type_value DiscreteGPU = 2"
| "device_type_value UnknownDevice = 3"

lemma device_eq_refl [simp]: "device_eq d d"
  by (simp add: device_eq_def)

lemma device_eq_sym: "device_eq a b \<Longrightarrow> device_eq b a"
  by (simp add: device_eq_def)

lemma device_eq_trans: "device_eq a b \<Longrightarrow> device_eq b c \<Longrightarrow> device_eq a c"
  by (simp add: device_eq_def)

lemma Cpu_simps [simp]: "is_cpu Cpu" "\<not> is_gpu Cpu"
  by (simp_all add: Cpu_def is_cpu_def is_gpu_def)

lemma is_gpu_not_cpu: "is_gpu d \<Longrightarrow> \<not> is_cpu d"
  by (auto simp: is_gpu_def is_cpu_def)

lemma device_type_value_inj: "device_type_value a = device_type_value b \<longleftrightarrow> a = b"
  by (cases a; cases b) auto

section \<open>Memory types\<close>

datatype memory_type = DeviceMem | UnifiedMem | HostPinnedMem | HostMem

definition MemoryTypeForDevice :: "device \<Rightarrow> memory_type" where
  "MemoryTypeForDevice d = (if is_cpu d then HostMem else DeviceMem)"

section \<open>Shapes\<close>

text \<open>A shape is its vector of dimensions. \<open>numel\<close> is the product, and 0 for
  the shape without dimensions; \<open>dim\<close> is the bounds-checked \<open>at\<close>.\<close>

type_synonym shape = "int list"

definition ndim :: "shape \<Rightarrow> nat" where
  "ndim s = length s"

definition dim :: "shape \<Rightarrow> nat \<Rightarrow> int result" where
  "dim s i = (if i < length s then Inr (s ! i) else Inl (Thrown ''out_of_range''))"

definition numel :: "shape \<Rightarrow> int" where
  "numel s = (if s = [] then 0 else fold (\<lambda>d acc. acc * d) s 1)"

lemma fold_times: "fold (\<lambda>d acc. acc * d) s (a::int) = a * prod_list s"
  by (induction s arbitrary: a) (auto simp: algebra_simps)

lemma numel_prod: "s \<noteq> [] \<Longrightarrow> numel s = prod_list s"
  by (simp add: numel_def fold_times)

lemma numel_Nil [simp]: "numel [] = 0"
  by (simp add: numel_def)

lemma numel_1 [simp]: "numel [a] = a"
  by (simp add: numel_prod)

lemma numel_2 [simp]: "numel [a, b] = a * b"
  by (simp add: numel_prod)

lemma numel_3 [simp]: "numel [a, b, c] = a * b * c"
  by (simp add: numel_prod)

lemma numel_nonneg: "(\<And>d. d \<in> set s \<Longrightarrow> 0 \<le> d) \<Longrightarrow> 0 \<le> numel s"
  by (auto simp: numel_prod numel_def fold_times intro!: prod_list_nonneg)

end
