(* ===== verification/Decoder_Model.thy ===== *)
theory Decoder_Model
  imports Core_Types
begin

text \<open>
  The decoder stack that \<open>src/generator.cc\<close> drives, on the level of values: activations
  are lists of rows (one row per token), a null \<open>Tensor()\<close> is \<open>None\<close>, and the
  two cache families are records. The operators of a layer, with the weights and the
  device they run on bound in, are the fields of \<open>layer_ops\<close> and \<open>engine\<close>; the
  theory \<open>Qwen_Layers\<close> builds them from the operators of the program. Here is the
  control flow around them: the layer loop, the final norm and head
  (\<open>target_forward\<close>), the MTP head (\<open>qwen_mtp_forward_reference\<close>), the cache
  copies and swaps, and the argmax readback.
\<close>

section \<open>Caches\<close>

text \<open>
  \<open>AttentionKVCache\<close> (\<open>src/ops/attention.h\<close>): the key and the value tensors once
  allocated, the logical length and the capacity. \<open>DeltaNetCache\<close>
  (\<open>src/ops/delta_net.h\<close>): the convolution history, the recurrent state and the
  number of tokens they hold.
\<close>

record 'r kv_cache =
  kv_key :: "'r option"
  kv_value :: "'r option"
  kv_length :: int
  kv_capacity :: int

record ('s, 't) dn_cache =
  dn_conv :: "'s option"
  dn_recurrent :: "'t option"
  dn_length :: int

definition kv_empty :: "'r kv_cache" where
  "kv_empty = \<lparr>kv_key = None, kv_value = None, kv_length = 0, kv_capacity = 0\<rparr>"

definition dn_empty :: "('s, 't) dn_cache" where
  "dn_empty = \<lparr>dn_conv = None, dn_recurrent = None, dn_length = 0\<rparr>"

definition kv_initialized :: "'r kv_cache \<Rightarrow> bool" where
  "kv_initialized c \<longleftrightarrow> kv_key c \<noteq> None \<and> kv_value c \<noteq> None"

definition dn_initialized :: "('s, 't) dn_cache \<Rightarrow> bool" where
  "dn_initialized c \<longleftrightarrow> dn_conv c \<noteq> None \<and> dn_recurrent c \<noteq> None"

section \<open>Layers and the engine\<close>

record ('h, 'r, 's, 't) layer_ops =
  is_attention_layer :: bool
  move_to :: "'h list \<Rightarrow> 'h list option"
  input_norm :: "'h list \<Rightarrow> 'h list option"
  attention_mixer :: "'h list \<Rightarrow> 'r kv_cache \<Rightarrow> 'h list option \<times> 'r kv_cache"
  deltanet_mixer :: "'h list \<Rightarrow> ('s, 't) dn_cache \<Rightarrow> 'h list option \<times> ('s, 't) dn_cache"
  residual :: "'h list \<Rightarrow> 'h list \<Rightarrow> 'h list option"
  post_norm :: "'h list \<Rightarrow> 'h list option"
  mlp :: "'h list \<Rightarrow> 'h list option"
  layer_sync_ok :: bool

record ('h, 'r, 's, 't, 'l, 'f) engine =
  eng_embed :: "int list \<Rightarrow> status + 'h list"
  eng_embed_to_final :: "'h list \<Rightarrow> 'h list option"
  eng_layers :: "('h, 'r, 's, 't) layer_ops list"
  eng_to_final :: "'h list \<Rightarrow> 'h list option"
  eng_final_norm :: "'h list \<Rightarrow> 'h list option"
  eng_lm_head :: "'h list \<Rightarrow> 'l list option"
  eng_final_sync_ok :: bool
  eng_row_copy :: "'h list \<Rightarrow> nat \<Rightarrow> 'h option"
  eng_kv_clone :: "'r kv_cache \<Rightarrow> 'r kv_cache option"
  eng_dn_clone :: "('s, 't) dn_cache \<Rightarrow> ('s, 't) dn_cache option"
  eng_mtp_layers :: "('h, 'r, 's, 't) layer_ops list"
  eng_mtp_norm_embedding :: "'h list \<Rightarrow> 'h list option"
  eng_mtp_norm_hidden :: "'h list \<Rightarrow> 'h list option"
  eng_mtp_concat :: "'h list \<Rightarrow> 'h list \<Rightarrow> 'h list option"
  eng_mtp_fc :: "'h list \<Rightarrow> 'h list option"
  eng_mtp_norm :: "'h list \<Rightarrow> 'h list option"
  eng_final_is_gpu :: bool
  eng_gpu_argmax_last :: "'l list \<Rightarrow> bool \<times> int"
  eng_gpu_argmax_rows :: "'l list \<Rightarrow> bool \<times> int list"
  eng_host_logits :: "'l list \<Rightarrow> 'f list list option"
  eng_greater :: "'f \<Rightarrow> 'f \<Rightarrow> bool"
  eng_neg_infinity :: 'f

section \<open>One decoder layer and the layer loop\<close>

text \<open>
  The body of the layer loop of \<open>target_forward\<close>. A null intermediate tensor makes
  every operator behind it return a null tensor and leave its cache alone, so it is
  threaded as \<open>None\<close>.
\<close>

definition layer_mix ::
  "('h, 'r, 's, 't) layer_ops \<Rightarrow> 'h list \<Rightarrow> 'r kv_cache \<Rightarrow> ('s, 't) dn_cache \<Rightarrow>
   'h list option \<times> 'r kv_cache \<times> ('s, 't) dn_cache" where
  "layer_mix L h a d =
     (case input_norm L h of
        None \<Rightarrow> (None, a, d)
      | Some normalized \<Rightarrow>
          (if is_attention_layer L
           then (case attention_mixer L normalized a of (m, a') \<Rightarrow> (m, a', d))
           else (case deltanet_mixer L normalized d of (m, d') \<Rightarrow> (m, a, d'))))"

definition layer_tail ::
  "('h, 'r, 's, 't) layer_ops \<Rightarrow> 'h list \<Rightarrow> 'h list \<Rightarrow> 'h list option" where
  "layer_tail L h mixed =
     (case residual L h mixed of
        None \<Rightarrow> None
      | Some hidden \<Rightarrow>
          (case post_norm L hidden of
             None \<Rightarrow> None
           | Some norm \<Rightarrow>
               (case mlp L norm of
                  None \<Rightarrow> None
                | Some m \<Rightarrow> residual L hidden m)))"

definition run_layer ::
  "bool \<Rightarrow> ('h, 'r, 's, 't) layer_ops \<Rightarrow> 'h list \<Rightarrow> 'r kv_cache \<Rightarrow> ('s, 't) dn_cache \<Rightarrow>
   'h list option \<times> 'r kv_cache \<times> ('s, 't) dn_cache" where
  "run_layer profile L h a d =
     (case move_to L h of
        None \<Rightarrow> (None, a, d)
      | Some h' \<Rightarrow>
          (case layer_mix L h' a d of
             (None, a', d') \<Rightarrow> (None, a', d')
           | (Some mixed, a', d') \<Rightarrow>
               (case layer_tail L h' mixed of
                  None \<Rightarrow> (None, a', d')
                | Some out \<Rightarrow>
                    (if profile \<and> \<not> layer_sync_ok L then (None, a', d')
                     else (Some out, a', d')))))"

text \<open>The loop over \<open>weights_.layers\<close>; the caches are indexed by the same \<open>li\<close>.
  Fewer caches than layers would be an access out of range, and gives \<open>None\<close>.\<close>

fun run_layers ::
  "bool \<Rightarrow> ('h, 'r, 's, 't) layer_ops list \<Rightarrow> 'h list \<Rightarrow> 'r kv_cache list \<Rightarrow>
   ('s, 't) dn_cache list \<Rightarrow>
   'h list option \<times> 'r kv_cache list \<times> ('s, 't) dn_cache list" where
  "run_layers profile [] h as ds = (Some h, as, ds)"
| "run_layers profile (L # Ls) h (a # as) (d # ds) =
     (case run_layer profile L h a d of
        (None, a', d') \<Rightarrow> (None, a' # as, d' # ds)
      | (Some h', a', d') \<Rightarrow>
          (case run_layers profile Ls h' as ds of
             (out, as', ds') \<Rightarrow> (out, a' # as', d' # ds')))"
| "run_layers profile (L # Ls) h as ds = (None, as, ds)"

text \<open>The lambda \<open>target_forward\<close>: the final hidden rows and the logits rows, or the
  empty pair.\<close>

definition target_forward ::
  "('h, 'r, 's, 't, 'l, 'f) engine \<Rightarrow> bool \<Rightarrow> int list \<Rightarrow> 'r kv_cache list \<Rightarrow>
   ('s, 't) dn_cache list \<Rightarrow>
   ('h list \<times> 'l list) option \<times> 'r kv_cache list \<times> ('s, 't) dn_cache list" where
  "target_forward E profile ids attention deltanet =
     (case eng_embed E ids of
        Inl _ \<Rightarrow> (None, attention, deltanet)
      | Inr embedded \<Rightarrow>
          (case run_layers profile (eng_layers E) embedded attention deltanet of
             (None, as, ds) \<Rightarrow> (None, as, ds)
           | (Some hidden, as, ds) \<Rightarrow>
               (case Option.bind (eng_to_final E hidden) (eng_final_norm E) of
                  None \<Rightarrow> (None, as, ds)
                | Some final_hidden \<Rightarrow>
                    (if profile \<and> \<not> eng_final_sync_ok E then (None, as, ds)
                     else (case eng_lm_head E final_hidden of
                             None \<Rightarrow> (None, as, ds)
                           | Some logits \<Rightarrow> (Some (final_hidden, logits), as, ds))))))"

section \<open>The MTP head\<close>

text \<open>One decoder layer of the MTP head: attention only, on its own cache.\<close>

definition run_mtp_layer ::
  "('h, 'r, 's, 't) layer_ops \<Rightarrow> 'h list \<Rightarrow> 'r kv_cache \<Rightarrow> 'h list option \<times> 'r kv_cache" where
  "run_mtp_layer L current c =
     (case input_norm L current of
        None \<Rightarrow> (None, c)
      | Some normalized \<Rightarrow>
          (case attention_mixer L normalized c of
             (None, c') \<Rightarrow> (None, c')
           | (Some mixed, c') \<Rightarrow> (layer_tail L current mixed, c')))"

fun run_mtp_layers ::
  "('h, 'r, 's, 't) layer_ops list \<Rightarrow> 'h list \<Rightarrow> 'r kv_cache list \<Rightarrow>
   'h list option \<times> 'r kv_cache list" where
  "run_mtp_layers [] h cs = (Some h, cs)"
| "run_mtp_layers (L # Ls) h (c # cs) =
     (case run_mtp_layer L h c of
        (None, c') \<Rightarrow> (None, c' # cs)
      | (Some h', c') \<Rightarrow>
          (case run_mtp_layers Ls h' cs of (out, cs') \<Rightarrow> (out, c' # cs')))"
| "run_mtp_layers (L # Ls) h [] = (None, [])"

text \<open>\<open>attention_caches->resize(n)\<close>: truncate, or extend with default caches.\<close>

definition resize_caches :: "nat \<Rightarrow> 'r kv_cache list \<Rightarrow> 'r kv_cache list" where
  "resize_caches n cs = take n cs @ replicate (n - length cs) kv_empty"

definition qwen_mtp_forward_reference ::
  "('h, 'r, 's, 't, 'l, 'f) engine \<Rightarrow> 'h list \<Rightarrow> 'h list \<Rightarrow> 'r kv_cache list \<Rightarrow>
   'h list option \<times> 'r kv_cache list" where
  "qwen_mtp_forward_reference E embedding hidden caches =
     (if eng_mtp_layers E = [] \<or> length embedding \<noteq> length hidden then (None, caches)
      else
        (case (eng_mtp_norm_embedding E embedding, eng_mtp_norm_hidden E hidden) of
           (Some ne, Some nh) \<Rightarrow>
             (case Option.bind (eng_mtp_concat E ne nh) (eng_mtp_fc E) of
                None \<Rightarrow> (None, caches)
              | Some current \<Rightarrow>
                  (case run_mtp_layers (eng_mtp_layers E) current
                          (resize_caches (length (eng_mtp_layers E)) caches) of
                     (None, cs) \<Rightarrow> (None, cs)
                   | (Some out, cs) \<Rightarrow> (eng_mtp_norm E out, cs)))
         | _ \<Rightarrow> (None, caches)))"

section \<open>Copying and swapping caches\<close>

text \<open>An uninitialised source becomes a default cache; an initialised one is cloned.\<close>

definition clone_attention_cache ::
  "('h, 'r, 's, 't, 'l, 'f) engine \<Rightarrow> 'r kv_cache \<Rightarrow> 'r kv_cache option" where
  "clone_attention_cache E c = (if \<not> kv_initialized c then Some kv_empty else eng_kv_clone E c)"

definition clone_deltanet_cache ::
  "('h, 'r, 's, 't, 'l, 'f) engine \<Rightarrow> ('s, 't) dn_cache \<Rightarrow> ('s, 't) dn_cache option" where
  "clone_deltanet_cache E c = (if \<not> dn_initialized c then Some dn_empty else eng_dn_clone E c)"

definition clone_attention_caches ::
  "('h, 'r, 's, 't, 'l, 'f) engine \<Rightarrow> 'r kv_cache list \<Rightarrow> 'r kv_cache list option" where
  "clone_attention_caches E source = those_map (clone_attention_cache E) source"

definition clone_decoder_caches ::
  "('h, 'r, 's, 't, 'l, 'f) engine \<Rightarrow> 'r kv_cache list \<Rightarrow> ('s, 't) dn_cache list \<Rightarrow>
   ('r kv_cache list \<times> ('s, 't) dn_cache list) option" where
  "clone_decoder_caches E attention deltanet =
     (if length attention \<noteq> length deltanet then None
      else (case those_map (\<lambda>(a, d). case clone_attention_cache E a of
                     None \<Rightarrow> None
                   | Some a' \<Rightarrow> (case clone_deltanet_cache E d of
                         None \<Rightarrow> None | Some d' \<Rightarrow> Some (a', d')))
                  (zip attention deltanet) of
              None \<Rightarrow> None
            | Some ps \<Rightarrow> Some (map fst ps, map snd ps)))"

text \<open>Swapping is element-wise, and does nothing when the sizes differ.\<close>

definition swap_attention_caches :: "'c list \<Rightarrow> 'c list \<Rightarrow> 'c list \<times> 'c list" where
  "swap_attention_caches lhs rhs = (if length lhs \<noteq> length rhs then (lhs, rhs) else (rhs, lhs))"

definition swap_decoder_caches ::
  "'a list \<Rightarrow> 'd list \<Rightarrow> 'a list \<times> 'd list \<Rightarrow> ('a list \<times> 'd list) \<times> ('a list \<times> 'd list)" where
  "swap_decoder_caches attention deltanet snapshot =
     (if length attention \<noteq> length (fst snapshot) \<or> length deltanet \<noteq> length (snd snapshot)
      then ((attention, deltanet), snapshot)
      else (snapshot, (attention, deltanet)))"

section \<open>Argmax readback\<close>

text \<open>
  The host scan: \<open>best\<close> starts at minus infinity, a strictly greater value replaces it,
  and \<open>result\<close> keeps the value it had when nothing is greater.
\<close>

definition host_argmax :: "('f \<Rightarrow> 'f \<Rightarrow> bool) \<Rightarrow> 'f \<Rightarrow> int \<Rightarrow> 'f list \<Rightarrow> int" where
  "host_argmax gt neg_inf start row =
     snd (fold (\<lambda>id (best, res). if gt (row ! id) best then (row ! id, int id) else (best, res))
            [0..<length row] (neg_inf, start))"

text \<open>
  The device result is used when the launch, the copy and the synchronisation succeed;
  otherwise the logits are read back and scanned. The caller passes \<open>0\<close> as the
  initial result. A tensor without rows makes the host path read before its buffer.
\<close>

definition argmax_last_row_reference ::
  "('h, 'r, 's, 't, 'l, 'f) engine \<Rightarrow> 'l list \<Rightarrow> int option" where
  "argmax_last_row_reference E logits =
     (let start = (if eng_final_is_gpu E then snd (eng_gpu_argmax_last E logits) else 0) in
      if eng_final_is_gpu E \<and> fst (eng_gpu_argmax_last E logits) then Some start
      else (case eng_host_logits E logits of
              None \<Rightarrow> None
            | Some rows \<Rightarrow>
                (if rows = [] then None
                 else Some (host_argmax (eng_greater E) (eng_neg_infinity E) start (last rows)))))"

definition argmax_rows_reference ::
  "('h, 'r, 's, 't, 'l, 'f) engine \<Rightarrow> 'l list \<Rightarrow> int list option" where
  "argmax_rows_reference E logits =
     (let start = (if eng_final_is_gpu E then snd (eng_gpu_argmax_rows E logits)
                   else replicate (length logits) 0) in
      if eng_final_is_gpu E \<and> fst (eng_gpu_argmax_rows E logits) then Some start
      else (case eng_host_logits E logits of
              None \<Rightarrow> None
            | Some rows \<Rightarrow>
                Some (map (\<lambda>(s, row). host_argmax (eng_greater E) (eng_neg_infinity E) s row)
                        (zip start rows))))"

end
