(* ===== verification/Generator.thy ===== *)
theory Generator
  imports Decoder_Model
begin

text \<open>
  \<open>Generator\<close> of \<open>src/generator.cc\<close>: the state of \<open>Generator::Impl\<close>, the
  greedy decode loop, and the speculative decode loop that lets the MTP head propose
  tokens and the target model verify them. Wall-clock measurements and profile output are
  left out; every counter that is not a time is kept.
\<close>

section \<open>Public types\<close>

text \<open>\<open>ApiStatusCode\<close>, \<open>GeneratorOptions\<close>, \<open>GenerationOptions\<close>,
  \<open>GenerationResult\<close> of \<open>include/hybrid.h\<close>.\<close>

datatype api_status_code =
    ApiOK | ApiInvalidArgument | ApiOutOfMemory | ApiInternalError | ApiInvalidDevice
  | ApiFileNotFound | ApiInvalidModel | ApiBackendError | ApiNotImplemented | ApiUnknown

datatype api_status = ApiStatus (api_code: api_status_code) (api_message: string)

type_synonym 'a api_result = "api_status + 'a"

definition api_fail :: "api_status_code \<Rightarrow> string \<Rightarrow> 'a api_result" where
  "api_fail c m = Inl (ApiStatus c m)"

record generator_options =
  model_dir :: string
  backend_name :: string
  max_devices :: int
  enable_mtp :: bool

definition default_generator_options :: generator_options where
  "default_generator_options =
     \<lparr>model_dir = '''', backend_name = ''cpu'', max_devices = 1, enable_mtp = False\<rparr>"

record generation_options =
  prompt_text :: string
  max_new_tokens :: int
  use_chat_template :: bool
  enable_thinking :: bool
  enable_speculative_mtp :: bool

record spec_counters =
  proposed :: int
  accepted :: int
  rejected :: int
  corrections :: int
  replay_tokens :: int
  recovery_tokens :: int
  max_width :: int
  mtp_clones :: int
  target_clones :: int
  fallback_steps :: int
  rounds :: int
  decode_count :: int

definition zero_counters :: spec_counters where
  "zero_counters = \<lparr>proposed = 0, accepted = 0, rejected = 0, corrections = 0,
     replay_tokens = 0, recovery_tokens = 0, max_width = 0, mtp_clones = 0,
     target_clones = 0, fallback_steps = 0, rounds = 0, decode_count = 0\<rparr>"

record generation_result =
  token_ids :: "int list"
  result_text :: string
  prompt_tokens :: int
  result_counters :: spec_counters

text \<open>The tokenizer functions the generator calls, and the configuration it reads.\<close>

record text_codec =
  tk_chat_prompt :: "string \<Rightarrow> bool \<Rightarrow> string"
  tk_encode :: "string \<Rightarrow> int list"
  tk_decode :: "int list \<Rightarrow> bool \<Rightarrow> string"
  tk_eos_ids :: "int list"
  cfg_eos_ids :: "int list"
  cfg_max_positions :: int

text \<open>\<open>Generator::Impl\<close>: the loaded flag, the options and the three cache vectors.\<close>

record ('r, 's, 't) impl =
  impl_loaded :: bool
  impl_options :: generator_options
  attention_caches :: "'r kv_cache list"
  mtp_attention_caches :: "'r kv_cache list"
  deltanet_caches :: "('s, 't) dn_cache list"

definition reset_impl :: "('r, 's, 't) impl \<Rightarrow> ('r, 's, 't) impl" where
  "reset_impl I = I\<lparr>
     attention_caches := replicate (length (attention_caches I)) kv_empty,
     mtp_attention_caches := replicate (length (mtp_attention_caches I)) kv_empty,
     deltanet_caches := replicate (length (deltanet_caches I)) dn_empty\<rparr>"

text \<open>\<open>speculative_proposal_width\<close>: the environment variable, when it is a plain decimal
  number between 1 and 16, and 8 otherwise. The argument is the variable's value and
  what \<open>strtoul\<close> makes of it: the number and whether the whole text was consumed.\<close>

definition speculative_proposal_width :: "string option \<Rightarrow> (string \<Rightarrow> (nat \<times> bool)) \<Rightarrow> nat" where
  "speculative_proposal_width value strtoul =
     (case value of
        None \<Rightarrow> 8
      | Some text \<Rightarrow>
          (if text = [] then 8
           else (case strtoul text of
                   (parsed, complete) \<Rightarrow>
                     (if \<not> complete \<or> parsed = 0 \<or> 16 < parsed then 8 else parsed))))"

section \<open>The state of the speculative loop\<close>

record ('h, 'r, 's, 't) spec_state =
  generated :: "int list"
  st_attention :: "'r kv_cache list"
  st_deltanet :: "('s, 't) dn_cache list"
  st_mtp :: "'r kv_cache list"
  next_target :: int
  target_hidden :: "'h option"
  counters :: spec_counters

text \<open>The parts of a request the loop reads.\<close>

record request =
  rq_eos :: "int list"
  rq_prompt_count :: nat
  rq_max_new :: nat
  rq_width :: nat

definition is_eos :: "request \<Rightarrow> int \<Rightarrow> bool" where
  "is_eos q t \<longleftrightarrow> t \<in> set (rq_eos q)"

definition produced :: "request \<Rightarrow> ('h, 'r, 's, 't, 'z) spec_state_scheme \<Rightarrow> nat" where
  "produced q st = length (generated st) - rq_prompt_count q"

definition append_token ::
  "int \<Rightarrow> ('h, 'r, 's, 't) spec_state \<Rightarrow> ('h, 'r, 's, 't) spec_state" where
  "append_token t st = st\<lparr>generated := generated st @ [t],
     counters := (counters st)\<lparr>decode_count := decode_count (counters st) + 1\<rparr>\<rparr>"

definition append_tokens ::
  "int list \<Rightarrow> ('h, 'r, 's, 't) spec_state \<Rightarrow> ('h, 'r, 's, 't) spec_state" where
  "append_tokens ts st = fold append_token ts st"

section \<open>Proposals\<close>

text \<open>
  The inner loop of a round. From the input token and the hidden row before it, one MTP
  step gives the next candidate and hidden row; the scratch cache is checkpointed after
  every step, and an end-of-sequence candidate ends the proposal. The result is the
  candidates, the checkpoints (one per candidate) and the scratch cache.
\<close>

fun propose ::
  "('h, 'r, 's, 't, 'l, 'f) engine \<Rightarrow> request \<Rightarrow> nat \<Rightarrow> int \<Rightarrow> 'h option \<Rightarrow> 'r kv_cache list \<Rightarrow>
   (int list \<times> 'r kv_cache list list \<times> 'r kv_cache list) api_result" where
  "propose E q 0 input hidden scratch = Inr ([], [], scratch)"
| "propose E q (Suc n) input hidden scratch =
     (case eng_embed E [input] of
        Inl s \<Rightarrow> api_fail ApiBackendError (st_message s)
      | Inr embedding0 \<Rightarrow>
          (case (eng_embed_to_final E embedding0, hidden) of
             (Some embedding, Some hrow) \<Rightarrow>
               (case qwen_mtp_forward_reference E embedding [hrow] scratch of
                  (None, _) \<Rightarrow> api_fail ApiBackendError ''speculative MTP proposal forward failed''
                | (Some mtp_hidden, scratch') \<Rightarrow>
                    (case Option.bind (eng_lm_head E mtp_hidden) (argmax_last_row_reference E) of
                       None \<Rightarrow> api_fail ApiBackendError ''failed to compute speculative candidate''
                     | Some candidate \<Rightarrow>
                         (case eng_row_copy E mtp_hidden (length mtp_hidden - 1) of
                            None \<Rightarrow> api_fail ApiBackendError
                                      ''failed to reuse speculative hidden workspace''
                          | Some next_hidden \<Rightarrow>
                              (case clone_attention_caches E scratch' of
                                 None \<Rightarrow> api_fail ApiBackendError
                                           ''failed to checkpoint MTP accepted prefix''
                               | Some checkpoint \<Rightarrow>
                                   (if is_eos q candidate
                                    then Inr ([candidate], [checkpoint], scratch')
                                    else
                                      (case propose E q n candidate (Some next_hidden) scratch' of
                                         Inl e \<Rightarrow> Inl e
                                       | Inr (cs, ks, final) \<Rightarrow>
                                           Inr (candidate # cs, checkpoint # ks, final)))))))
           | _ \<Rightarrow> api_fail ApiBackendError ''speculative MTP proposal forward failed''))"

section \<open>One round\<close>

text \<open>The commit after a fully accepted proposal: the verified caches become the target
  caches, the extended scratch cache becomes the MTP cache.\<close>

definition commit_full ::
  "('h, 'r, 's, 't, 'l, 'f) engine \<Rightarrow> int list \<Rightarrow> int list \<Rightarrow> 'h list \<Rightarrow>
   'r kv_cache list \<times> ('s, 't) dn_cache list \<Rightarrow> 'r kv_cache list \<Rightarrow>
   ('h, 'r, 's, 't) spec_state \<Rightarrow> ('h, 'r, 's, 't) spec_state" where
  "commit_full E candidates predictions verified_hidden verification scratch st =
     (let swapped = fst (swap_decoder_caches (st_attention st) (st_deltanet st) verification);
          st1 = st\<lparr>st_attention := fst swapped, st_deltanet := snd swapped,
                   st_mtp := fst (swap_attention_caches (st_mtp st) scratch)\<rparr>;
          st2 = append_tokens candidates (append_token (next_target st) st1);
          c = counters st2
      in st2\<lparr>next_target := last predictions,
             target_hidden := eng_row_copy E verified_hidden (length verified_hidden - 1),
             counters := c\<lparr>accepted := accepted c + int (length candidates)\<rparr>\<rparr>)"

text \<open>
  The recovery after a rejected suffix, once the correction has been replayed on the
  target caches: restore the MTP checkpoint of the accepted prefix, run the correction
  through the MTP head, and read the next target token off the replay.
\<close>

definition recover_mtp ::
  "('h, 'r, 's, 't, 'l, 'f) engine \<Rightarrow> nat \<Rightarrow> int \<Rightarrow> nat \<Rightarrow> 'h list \<Rightarrow> 'l list \<Rightarrow>
   'r kv_cache list list \<Rightarrow> ('h, 'r, 's, 't) spec_state \<Rightarrow> ('h, 'r, 's, 't) spec_state api_result"
  where
  "recover_mtp E acc correction replay_len replay_hidden replay_logits checkpoints st =
     (if length checkpoints \<le> acc
      then api_fail ApiBackendError ''missing MTP accepted-prefix checkpoint''
      else
        (let st1 = st\<lparr>st_mtp := fst (swap_attention_caches (st_mtp st) (checkpoints ! acc))\<rparr> in
         (case eng_row_copy E replay_hidden (replay_len - 2) of
            None \<Rightarrow> api_fail ApiBackendError ''failed to extract correction input hidden row''
          | Some hrow \<Rightarrow>
              (case eng_embed E [correction] of
                 Inl s \<Rightarrow> api_fail ApiBackendError (st_message s)
               | Inr embedding \<Rightarrow>
                   (case (case eng_embed_to_final E embedding of
                            None \<Rightarrow> (None, st_mtp st1)
                          | Some e \<Rightarrow> qwen_mtp_forward_reference E e [hrow] (st_mtp st1)) of
                      (None, _) \<Rightarrow> api_fail ApiBackendError
                                     ''MTP accepted-prefix recovery forward failed''
                    | (Some _, mtp') \<Rightarrow>
                        (case argmax_last_row_reference E replay_logits of
                           None \<Rightarrow> api_fail ApiBackendError
                                     ''failed to compute speculative correction''
                         | Some next \<Rightarrow>
                             (case eng_row_copy E replay_hidden (length replay_hidden - 1) of
                                None \<Rightarrow> api_fail ApiBackendError
                                          ''failed to extract correction hidden row''
                              | Some th \<Rightarrow>
                                  (let c = counters st1 in
                                   Inr (st1\<lparr>st_mtp := mtp', next_target := next,
                                            target_hidden := Some th,
                                            counters := c\<lparr>recovery_tokens :=
                                              recovery_tokens c + 1\<rparr>\<rparr>)))))))))"

text \<open>
  The branch of a round in which the target model disagrees with a candidate. The result
  says whether the loop ends here.
\<close>

definition reject_suffix ::
  "('h, 'r, 's, 't, 'l, 'f) engine \<Rightarrow> request \<Rightarrow> int list \<Rightarrow> int list \<Rightarrow> nat \<Rightarrow>
   'r kv_cache list list \<Rightarrow> ('h, 'r, 's, 't) spec_state \<Rightarrow>
   (('h, 'r, 's, 't) spec_state \<times> bool) api_result" where
  "reject_suffix E q candidates predictions acc checkpoints st =
     (let correction = predictions ! acc;
          replay_ids = next_target st # take acc candidates @ [correction] in
      (case target_forward E False replay_ids (st_attention st) (st_deltanet st) of
         (None, _, _) \<Rightarrow> api_fail ApiBackendError ''speculative correction replay failed''
       | (Some (replay_hidden, replay_logits), as, ds) \<Rightarrow>
           (let c = counters st;
                st1 = st\<lparr>st_attention := as, st_deltanet := ds,
                         counters := c\<lparr>rejected := rejected c + int (length candidates - acc),
                                       corrections := corrections c + 1,
                                       replay_tokens := replay_tokens c + int (length replay_ids)\<rparr>\<rparr>;
                st2 = append_tokens (take acc candidates) (append_token (next_target st) st1);
                st3 = (if produced q st2 < rq_max_new q then append_token correction st2 else st2);
                c3 = counters st3;
                st4 = st3\<lparr>counters := c3\<lparr>accepted := accepted c3 + int acc\<rparr>\<rparr>
            in
            (if rq_max_new q \<le> produced q st4 \<or> is_eos q correction then Inr (st4, True)
             else
               (case recover_mtp E acc correction (length replay_ids) replay_hidden replay_logits
                       checkpoints st4 of
                  Inl e \<Rightarrow> Inl e
                | Inr st5 \<Rightarrow> Inr (st5, False))))))"

text \<open>Verification: the target model reads the pending token and all candidates in one
  forward on copies of its caches, and predicts the token after each of them.\<close>

definition verify_candidates ::
  "('h, 'r, 's, 't, 'l, 'f) engine \<Rightarrow> bool \<Rightarrow> int list \<Rightarrow> ('h, 'r, 's, 't) spec_state \<Rightarrow>
   (int list \<times> 'h list \<times> 'r kv_cache list \<times> ('s, 't) dn_cache list) api_result" where
  "verify_candidates E profile candidates st =
     (case clone_decoder_caches E (st_attention st) (st_deltanet st) of
        None \<Rightarrow> api_fail ApiBackendError ''failed to clone target verification cache''
      | Some (va, vd) \<Rightarrow>
          (let verification_ids = next_target st # candidates in
           (case target_forward E profile verification_ids va vd of
              (None, _, _) \<Rightarrow> api_fail ApiBackendError ''speculative target verification failed''
            | (Some (hidden, logits), va', vd') \<Rightarrow>
                (if \<not> eng_final_sync_ok E
                 then api_fail ApiBackendError
                        ''speculative target verification synchronize failed''
                 else
                   (case argmax_rows_reference E logits of
                      None \<Rightarrow> api_fail ApiBackendError
                                ''speculative target verification argmax failed''
                    | Some predictions \<Rightarrow>
                        (if length predictions \<noteq> length verification_ids
                         then api_fail ApiBackendError
                           ''speculative target verification argmax row count mismatch''
                         else Inr (predictions, hidden, va', vd')))))))"

text \<open>The counters a round updates between the proposal and the verification.\<close>

definition count_proposal ::
  "nat \<Rightarrow> int list \<Rightarrow> ('h, 'r, 's, 't) spec_state \<Rightarrow> ('h, 'r, 's, 't) spec_state" where
  "count_proposal proposal_count candidates st =
     (let c = counters st in
      st\<lparr>counters := c\<lparr>max_width := max (max_width c) (int proposal_count),
                       rounds := rounds c + 1,
                       mtp_clones := mtp_clones c + 2 + int (length candidates),
                       proposed := proposed c + int (length candidates),
                       target_clones := target_clones c + 1\<rparr>\<rparr>)"

text \<open>The rest of a round once the predictions are known: count the accepted prefix,
  commit or recover, and decide whether the loop ends.\<close>

definition settle_round ::
  "('h, 'r, 's, 't, 'l, 'f) engine \<Rightarrow> request \<Rightarrow> int list \<Rightarrow> 'r kv_cache list list \<Rightarrow>
   'r kv_cache list \<Rightarrow> int list \<times> 'h list \<times> 'r kv_cache list \<times> ('s, 't) dn_cache list \<Rightarrow>
   ('h, 'r, 's, 't) spec_state \<Rightarrow> (('h, 'r, 's, 't) spec_state \<times> bool) api_result" where
  "settle_round E q candidates checkpoints scratch verified st =
     (case verified of
        (predictions, hidden, va, vd) \<Rightarrow>
          (let acc = match_length predictions candidates;
               ended = (\<lambda>s. rq_max_new q \<le> produced q s \<or> is_eos q (last (generated s)))
           in
           if acc = length candidates
           then (let st2 = commit_full E candidates predictions hidden (va, vd) scratch st
                 in Inr (st2, ended st2))
           else (case reject_suffix E q candidates predictions acc checkpoints st of
                   Inl e \<Rightarrow> Inl e
                 | Inr (st2, stop) \<Rightarrow> Inr (st2, stop \<or> ended st2))))"

text \<open>One iteration of the \<open>while\<close> loop, and whether it breaks out of it.\<close>

definition spec_round ::
  "('h, 'r, 's, 't, 'l, 'f) engine \<Rightarrow> bool \<Rightarrow> request \<Rightarrow> ('h, 'r, 's, 't) spec_state \<Rightarrow>
   (('h, 'r, 's, 't) spec_state \<times> bool) api_result" where
  "spec_round E profile q st =
     (let remaining = rq_max_new q - produced q st in
      if is_eos q (next_target st) \<or> remaining = 1
      then Inr (append_token (next_target st) st, True)
      else
        (let proposal_count = min (rq_width q) (remaining - 1) in
         (case clone_attention_caches E (st_mtp st) of
            None \<Rightarrow> api_fail ApiBackendError ''failed to clone MTP proposal cache''
          | Some scratch \<Rightarrow>
              (case clone_attention_caches E (st_mtp st) of
                 None \<Rightarrow> api_fail ApiBackendError ''failed to checkpoint MTP proposal prefix''
               | Some checkpoint0 \<Rightarrow>
                   (case propose E q proposal_count (next_target st) (target_hidden st) scratch of
                      Inl e \<Rightarrow> Inl e
                    | Inr (candidates, checkpoints, scratch') \<Rightarrow>
                        (let st1 = count_proposal proposal_count candidates st in
                         (case verify_candidates E profile candidates st1 of
                            Inl e \<Rightarrow> Inl e
                          | Inr verified \<Rightarrow>
                              settle_round E q candidates (checkpoint0 # checkpoints) scratch'
                                verified st1)))))))"

section \<open>Elementary facts of a round\<close>

lemma append_token_simps [simp]:
  "generated (append_token t st) = generated st @ [t]"
  "st_attention (append_token t st) = st_attention st"
  "st_deltanet (append_token t st) = st_deltanet st"
  "st_mtp (append_token t st) = st_mtp st"
  "next_target (append_token t st) = next_target st"
  "target_hidden (append_token t st) = target_hidden st"
  by (simp_all add: append_token_def)

lemma append_tokens_simps [simp]:
  "generated (append_tokens ts st) = generated st @ ts"
  "st_attention (append_tokens ts st) = st_attention st"
  "st_deltanet (append_tokens ts st) = st_deltanet st"
  "st_mtp (append_tokens ts st) = st_mtp st"
  "next_target (append_tokens ts st) = next_target st"
  "target_hidden (append_tokens ts st) = target_hidden st"
  by (induction ts arbitrary: st; simp add: append_tokens_def)+

lemma append_token_counters [simp]:
  "counters (append_token t st) = (counters st)\<lparr>decode_count := decode_count (counters st) + 1\<rparr>"
  by (simp add: append_token_def)

lemma append_tokens_counters [simp]:
  "counters (append_tokens ts st) =
     (counters st)\<lparr>decode_count := decode_count (counters st) + int (length ts)\<rparr>"
  by (induction ts arbitrary: st) (simp_all add: append_tokens_def)

lemma api_fail_not_Inr [simp]: "api_fail c m \<noteq> Inr x" "Inr x \<noteq> api_fail c m"
  by (simp_all add: api_fail_def)

lemma commit_full_generated:
  "generated (commit_full E cs ps h v k st) = generated st @ next_target st # cs"
  by (simp add: commit_full_def Let_def)

lemma recover_mtp_keeps:
  "recover_mtp E a t n h l ks st = Inr st' \<Longrightarrow>
     generated st' = generated st \<and> st_attention st' = st_attention st \<and>
     st_deltanet st' = st_deltanet st"
  by (auto simp: recover_mtp_def Let_def split: if_splits option.splits sum.splits prod.splits)

lemma reject_suffix_generated:
  assumes "reject_suffix E q cs ps a ks st = Inr (st', stop)"
  shows "\<exists>tail. generated st' = generated st @ next_target st # take a cs @ tail \<and>
                (tail = [] \<or> tail = [ps ! a])"
  using assms
  by (auto simp: reject_suffix_def Let_def dest!: recover_mtp_keeps
      split: if_splits option.splits sum.splits prod.splits)

lemma count_proposal_simps [simp]:
  "generated (count_proposal n cs st) = generated st"
  "st_attention (count_proposal n cs st) = st_attention st"
  "st_deltanet (count_proposal n cs st) = st_deltanet st"
  "st_mtp (count_proposal n cs st) = st_mtp st"
  "next_target (count_proposal n cs st) = next_target st"
  "target_hidden (count_proposal n cs st) = target_hidden st"
  by (simp_all add: count_proposal_def Let_def)

text \<open>A round either ends with the pending token or proposes, verifies and settles.\<close>

lemma spec_round_cases:
  assumes "spec_round E profile q st = Inr (st', stop)"
  obtains (final) "is_eos q (next_target st) \<or> rq_max_new q - produced q st = 1"
      "st' = append_token (next_target st) st" "stop"
  | (settle) sc cs ks sc' v st1 where
      "\<not> is_eos q (next_target st)" "rq_max_new q - produced q st \<noteq> 1"
      "clone_attention_caches E (st_mtp st) = Some sc"
      "propose E q (min (rq_width q) (rq_max_new q - produced q st - 1)) (next_target st)
         (target_hidden st) sc = Inr (cs, ks, sc')"
      "st1 = count_proposal (min (rq_width q) (rq_max_new q - produced q st - 1)) cs st"
      "verify_candidates E profile cs st1 = Inr v"
      "settle_round E q cs (sc # ks) sc' v st1 = Inr (st', stop)"
proof (cases "is_eos q (next_target st) \<or> rq_max_new q - produced q st = 1")
  case True
  with assms show ?thesis by (intro final) (auto simp: spec_round_def)
next
  case False
  let ?n = "min (rq_width q) (rq_max_new q - produced q st - 1)"
  obtain sc where sc: "clone_attention_caches E (st_mtp st) = Some sc"
    using assms False by (cases "clone_attention_caches E (st_mtp st)") (auto simp: spec_round_def)
  obtain cs ks sc' where p: "propose E q ?n (next_target st) (target_hidden st) sc = Inr (cs, ks, sc')"
    using assms False sc
    by (cases "propose E q ?n (next_target st) (target_hidden st) sc") (auto simp: spec_round_def)
  obtain v where v: "verify_candidates E profile cs (count_proposal ?n cs st) = Inr v"
    using assms False sc p
    by (cases "verify_candidates E profile cs (count_proposal ?n cs st)")
       (auto simp: spec_round_def Let_def)
  from assms False sc p v show ?thesis
    by (intro settle [OF _ _ sc p refl v]) (simp_all add: spec_round_def Let_def)
qed

lemma settle_round_cases:
  assumes "settle_round E q cs ks sc (ps, h, va, vd) st = Inr (st', stop)"
  obtains (commit) "match_length ps cs = length cs" "st' = commit_full E cs ps h (va, vd) sc st"
      "stop \<longleftrightarrow> rq_max_new q \<le> produced q st' \<or> is_eos q (last (generated st'))"
  | (reject) s0 where "match_length ps cs < length cs"
      "reject_suffix E q cs ps (match_length ps cs) ks st = Inr (st', s0)"
      "stop \<longleftrightarrow> s0 \<or> rq_max_new q \<le> produced q st' \<or> is_eos q (last (generated st'))"
proof (cases "match_length ps cs = length cs")
  case True
  with assms show ?thesis by (intro commit) (auto simp: settle_round_def Let_def)
next
  case False
  with match_length_le(1) [of ps cs] have "match_length ps cs < length cs" by simp
  with assms False show ?thesis
    by (cases "reject_suffix E q cs ps (match_length ps cs) ks st")
       (auto simp: settle_round_def Let_def intro!: reject)
qed

text \<open>Every round that does not fail appends at least the pending token.\<close>

lemma spec_round_progress:
  assumes "spec_round E profile q st = Inr (st', stop)"
  shows "length (generated st) < length (generated st')"
  using assms
proof (cases rule: spec_round_cases)
  case final
  then show ?thesis by simp
next
  case (settle sc cs ks sc' v st1)
  obtain ps h va vd where "v = (ps, h, va, vd)" by (cases v)
  with settle(7) have "settle_round E q cs (sc # ks) sc' (ps, h, va, vd) st1 = Inr (st', stop)"
    by simp
  then show ?thesis
  proof (cases rule: settle_round_cases)
    case commit
    with settle(5) show ?thesis by (simp add: commit_full_generated)
  next
    case (reject s0)
    from reject_suffix_generated [OF reject(2)] settle(5) show ?thesis by auto
  qed
qed

section \<open>The speculative loop\<close>

text \<open>
  The \<open>while\<close> loop: it runs while fewer than \<open>max_new_tokens\<close> tokens have been
  produced. It terminates because every round appends a token.
\<close>

function spec_loop ::
  "('h, 'r, 's, 't, 'l, 'f) engine \<Rightarrow> bool \<Rightarrow> request \<Rightarrow> ('h, 'r, 's, 't) spec_state \<Rightarrow>
   ('h, 'r, 's, 't) spec_state api_result" where
  "spec_loop E profile q st =
     (if produced q st < rq_max_new q
      then (case spec_round E profile q st of
              Inl e \<Rightarrow> Inl e
            | Inr r \<Rightarrow> (if snd r then Inr (fst r) else spec_loop E profile q (fst r)))
      else Inr st)"
  by pat_completeness auto
termination
proof (relation "measure (\<lambda>(E, profile, q, st).
    rq_prompt_count q + rq_max_new q - length (generated st))", goal_cases)
  case 1
  then show ?case by simp
next
  case (2 E profile q st r)
  from 2(2) have "length (generated st) < length (generated (fst r))"
    by (cases r) (auto dest: spec_round_progress)
  with 2(1) show ?case by (auto simp: produced_def)
qed

declare spec_loop.simps [simp del]

text \<open>
  The prefill of the speculative path: the target model reads the prompt, its last row
  gives the first pending token, and the MTP cache is seeded with the prompt rows.
\<close>

definition spec_prefill ::
  "('h, 'r, 's, 't, 'l, 'f) engine \<Rightarrow> int list \<Rightarrow> ('r, 's, 't) impl \<Rightarrow>
   ('h, 'r, 's, 't) spec_state api_result" where
  "spec_prefill E ids I =
     (case target_forward E False ids (attention_caches I) (deltanet_caches I) of
        (None, _, _) \<Rightarrow> api_fail ApiBackendError ''speculative prefill forward failed''
      | (Some (hidden, logits), as, ds) \<Rightarrow>
          (case argmax_last_row_reference E logits of
             None \<Rightarrow> api_fail ApiBackendError ''failed to compute speculative target argmax''
           | Some next \<Rightarrow>
               (case eng_row_copy E hidden (length hidden - 1) of
                  None \<Rightarrow> api_fail ApiBackendError ''failed to extract speculative hidden row''
                | Some th \<Rightarrow>
                    (case eng_embed E ids of
                       Inl s \<Rightarrow> api_fail ApiBackendError (st_message s)
                     | Inr embedding \<Rightarrow>
                         (case (case eng_embed_to_final E embedding of
                                  None \<Rightarrow> (None, [])
                                | Some e \<Rightarrow> qwen_mtp_forward_reference E e hidden []) of
                            (None, _) \<Rightarrow> api_fail ApiBackendError
                                           ''speculative MTP prompt prefill failed''
                          | (Some _, mtp) \<Rightarrow>
                              Inr \<lparr>generated = ids, st_attention = as, st_deltanet = ds,
                                   st_mtp = fst (swap_attention_caches (mtp_attention_caches I) mtp),
                                   next_target = next, target_hidden = Some th,
                                   counters = zero_counters\<rparr>)))))"

definition speculative_decode ::
  "('h, 'r, 's, 't, 'l, 'f) engine \<Rightarrow> bool \<Rightarrow> request \<Rightarrow> int list \<Rightarrow> ('r, 's, 't) impl \<Rightarrow>
   ('h, 'r, 's, 't) spec_state api_result" where
  "speculative_decode E profile q ids I =
     (case spec_prefill E ids I of
        Inl e \<Rightarrow> Inl e
      | Inr st \<Rightarrow> spec_loop E profile q st)"

section \<open>The plain greedy loop\<close>

record ('r, 's, 't) plain_state =
  pl_generated :: "int list"
  pl_attention :: "'r kv_cache list"
  pl_deltanet :: "('s, 't) dn_cache list"
  pl_mtp :: "'r kv_cache list"
  pl_counters :: spec_counters

text \<open>The layer loop of a plain step, with the error it reports at each check. \<open>li\<close>
  is the layer's index, \<open>profile\<close> the decode profile.\<close>

fun plain_layers ::
  "bool \<Rightarrow> nat \<Rightarrow> ('h, 'r, 's, 't) layer_ops list \<Rightarrow> 'h list \<Rightarrow> 'r kv_cache list \<Rightarrow>
   ('s, 't) dn_cache list \<Rightarrow>
   ('h list \<times> 'r kv_cache list \<times> ('s, 't) dn_cache list) api_result" where
  "plain_layers profile li [] h as ds = Inr (h, as, ds)"
| "plain_layers profile li (L # Ls) h (a # as) (d # ds) =
     (case Option.bind (move_to L h) (input_norm L) of
        None \<Rightarrow> api_fail ApiBackendError (''input RMSNorm failed at layer '' @ string_of_nat li)
      | Some _ \<Rightarrow>
          (case move_to L h of
             None \<Rightarrow> api_fail ApiBackendError ''mixer forward failed''
           | Some h' \<Rightarrow>
               (case layer_mix L h' a d of
                  (None, _, _) \<Rightarrow> api_fail ApiBackendError ''mixer forward failed''
                | (Some mixed, a', d') \<Rightarrow>
                    (case layer_tail L h' mixed of
                       None \<Rightarrow> api_fail ApiBackendError ''layer forward failed''
                     | Some out \<Rightarrow>
                         (if profile \<and> \<not> layer_sync_ok L
                          then api_fail ApiBackendError
                            (''profile synchronization failed at layer '' @ string_of_nat li)
                          else
                            (case plain_layers profile (Suc li) Ls out as ds of
                               Inl e \<Rightarrow> Inl e
                             | Inr (o', as', ds') \<Rightarrow> Inr (o', a' # as', d' # ds')))))))"
| "plain_layers profile li (L # Ls) h as ds = api_fail ApiBackendError ''mixer forward failed''"

text \<open>The target model's part of a step: the hidden rows before the final norm, the
  logits and the caches.\<close>

definition plain_forward ::
  "('h, 'r, 's, 't, 'l, 'f) engine \<Rightarrow> bool \<Rightarrow> 'h list \<Rightarrow> 'r kv_cache list \<Rightarrow>
   ('s, 't) dn_cache list \<Rightarrow>
   ('h list \<times> 'l list \<times> 'r kv_cache list \<times> ('s, 't) dn_cache list) api_result" where
  "plain_forward E profile embedded as ds =
     (case plain_layers profile 0 (eng_layers E) embedded as ds of
        Inl e \<Rightarrow> Inl e
      | Inr (h, as', ds') \<Rightarrow>
          (case eng_to_final E h of
             None \<Rightarrow> api_fail ApiBackendError ''lm_head forward failed''
           | Some hidden \<Rightarrow>
               (case Option.bind (eng_final_norm E hidden) (eng_lm_head E) of
                  None \<Rightarrow> api_fail ApiBackendError ''lm_head forward failed''
                | Some logits \<Rightarrow> Inr (hidden, logits, as', ds'))))"

text \<open>The optional agreement probe: the MTP head on a copy of its caches.\<close>

definition mtp_probe ::
  "('h, 'r, 's, 't, 'l, 'f) engine \<Rightarrow> bool \<Rightarrow> 'h list \<Rightarrow> 'h list \<Rightarrow> 'r kv_cache list \<Rightarrow>
   ('l list \<times> 'r kv_cache list) option api_result" where
  "mtp_probe E use_mtp embedded hidden mtp =
     (if \<not> (use_mtp \<and> eng_mtp_layers E \<noteq> []) then Inr None
      else
        (case clone_attention_caches E mtp of
           None \<Rightarrow> api_fail ApiBackendError ''failed to clone MTP attention cache''
         | Some scratch \<Rightarrow>
             (case (case eng_embed_to_final E embedded of
                      None \<Rightarrow> (None, scratch)
                    | Some e \<Rightarrow> qwen_mtp_forward_reference E e hidden scratch) of
                (None, _) \<Rightarrow> api_fail ApiBackendError
                               ''MTP forward failed before candidate verification''
              | (Some mtp_hidden, scratch') \<Rightarrow>
                  (case eng_lm_head E mtp_hidden of
                     None \<Rightarrow> api_fail ApiBackendError ''MTP lm_head forward failed''
                   | Some logits \<Rightarrow> Inr (Some (logits, scratch'))))))"

text \<open>Scoring the probe against the token the target model chose.\<close>

definition score_probe ::
  "('h, 'r, 's, 't, 'l, 'f) engine \<Rightarrow> ('l list \<times> 'r kv_cache list) option \<Rightarrow> int \<Rightarrow>
   'r kv_cache list \<Rightarrow> spec_counters \<Rightarrow> ('r kv_cache list \<times> spec_counters) api_result" where
  "score_probe E probe next mtp c =
     (case probe of
        None \<Rightarrow> Inr (mtp, c)
      | Some (logits, scratch) \<Rightarrow>
          (case argmax_last_row_reference E logits of
             None \<Rightarrow> api_fail ApiBackendError ''failed to compute MTP logits argmax''
           | Some mtp_next \<Rightarrow>
               Inr (fst (swap_attention_caches mtp scratch),
                    if mtp_next = next
                    then c\<lparr>proposed := proposed c + 1, accepted := accepted c + 1\<rparr>
                    else c\<lparr>proposed := proposed c + 1, fallback_steps := fallback_steps c + 1\<rparr>)))"

definition plain_step ::
  "('h, 'r, 's, 't, 'l, 'f) engine \<Rightarrow> bool \<Rightarrow> bool \<Rightarrow> bool \<Rightarrow> request \<Rightarrow> nat \<Rightarrow>
   ('r, 's, 't) plain_state \<Rightarrow> (('r, 's, 't) plain_state \<times> bool) api_result" where
  "plain_step E profile speculative use_mtp q step st =
     (case (if speculative then clone_decoder_caches E (pl_attention st) (pl_deltanet st)
            else Some (pl_attention st, pl_deltanet st)) of
        None \<Rightarrow> api_fail ApiBackendError ''failed to clone target decoder caches''
      | Some (as, ds) \<Rightarrow>
          (case eng_embed E (if step = 0 then pl_generated st else [last (pl_generated st)]) of
             Inl s \<Rightarrow> api_fail ApiBackendError (st_message s)
           | Inr embedded \<Rightarrow>
               (case plain_forward E profile embedded as ds of
                  Inl e \<Rightarrow> Inl e
                | Inr (hidden, logits, as', ds') \<Rightarrow>
                    (let main = (if speculative
                                 then fst (swap_decoder_caches (pl_attention st) (pl_deltanet st)
                                             (as', ds'))
                                 else (as', ds')) in
                     (case mtp_probe E use_mtp embedded hidden (pl_mtp st) of
                        Inl e \<Rightarrow> Inl e
                      | Inr probe \<Rightarrow>
                          (case argmax_last_row_reference E logits of
                             None \<Rightarrow> api_fail ApiBackendError
                                       ''failed to compute target logits argmax''
                           | Some next \<Rightarrow>
                               (case score_probe E probe next (pl_mtp st) (pl_counters st) of
                                  Inl e \<Rightarrow> Inl e
                                | Inr (mtp', c) \<Rightarrow>
                                    Inr (\<lparr>pl_generated = pl_generated st @ [next],
                                          pl_attention = fst main, pl_deltanet = snd main,
                                          pl_mtp = mtp',
                                          pl_counters = (if step = 0 then c
                                            else c\<lparr>decode_count := decode_count c + 1\<rparr>)\<rparr>,
                                         is_eos q next))))))))"

text \<open>\<open>for (step = 0; step < max_new_tokens; ++step)\<close>: \<open>n\<close> steps are left.\<close>

fun plain_loop ::
  "('h, 'r, 's, 't, 'l, 'f) engine \<Rightarrow> bool \<Rightarrow> bool \<Rightarrow> bool \<Rightarrow> request \<Rightarrow> nat \<Rightarrow> nat \<Rightarrow>
   ('r, 's, 't) plain_state \<Rightarrow> ('r, 's, 't) plain_state api_result" where
  "plain_loop E profile speculative use_mtp q 0 step st = Inr st"
| "plain_loop E profile speculative use_mtp q (Suc n) step st =
     (case plain_step E profile speculative use_mtp q step st of
        Inl e \<Rightarrow> Inl e
      | Inr (st', stop) \<Rightarrow>
          (if stop then Inr st'
           else plain_loop E profile speculative use_mtp q n (Suc step) st'))"

section \<open>generate\<close>

text \<open>The end-of-sequence ids: those of the model configuration and of the tokenizer,
  sorted and without repetition, searched by bisection.\<close>

definition merge_eos :: "text_codec \<Rightarrow> int list" where
  "merge_eos T = remdups (sort (cfg_eos_ids T @ tk_eos_ids T))"

definition finish_result ::
  "text_codec \<Rightarrow> nat \<Rightarrow> int list \<Rightarrow> spec_counters \<Rightarrow> generation_result" where
  "finish_result T prompt_count gen c =
     \<lparr>token_ids = drop prompt_count gen, result_text = tk_decode T (drop prompt_count gen) True,
      prompt_tokens = int prompt_count, result_counters = c\<rparr>"

definition check_request ::
  "bool \<Rightarrow> ('r, 's, 't) impl \<Rightarrow> generation_options \<Rightarrow> unit api_result" where
  "check_request result_given I opts =
     (if \<not> result_given then api_fail ApiInvalidArgument ''result is null''
      else if \<not> impl_loaded I then api_fail ApiInvalidModel ''model has not been loaded''
      else if prompt_text opts = [] \<or> max_new_tokens opts \<le> 0
      then api_fail ApiInvalidArgument
             ''prompt must be non-empty and max_new_tokens must be positive''
      else if enable_speculative_mtp opts \<and> \<not> enable_mtp (impl_options I)
      then api_fail ApiInvalidArgument ''speculative MTP requires GeneratorOptions::enable_mtp''
      else Inr ())"

text \<open>The decode part of \<open>generate\<close>, for a prompt already encoded. \<open>flags\<close> are the two
  profile switches, \<open>backend_ok\<close> says that the final device has a backend.\<close>

definition generate_ids ::
  "('h, 'r, 's, 't, 'l, 'f) engine \<Rightarrow> bool \<times> bool \<Rightarrow> request \<Rightarrow> int list \<Rightarrow>
   generation_options \<Rightarrow> ('r, 's, 't) impl \<Rightarrow>
   (int list \<times> spec_counters \<times> ('r, 's, 't) impl) api_result" where
  "generate_ids E flags q ids opts I =
     (if enable_speculative_mtp opts \<and> eng_mtp_layers E \<noteq> []
      then (case speculative_decode E (snd flags) q ids I of
              Inl e \<Rightarrow> Inl e
            | Inr st \<Rightarrow> Inr (generated st, counters st,
                I\<lparr>attention_caches := st_attention st, deltanet_caches := st_deltanet st,
                  mtp_attention_caches := st_mtp st\<rparr>))
      else (case plain_loop E (fst flags) (enable_speculative_mtp opts)
                   (enable_mtp (impl_options I)) q (rq_max_new q) 0
                   \<lparr>pl_generated = ids, pl_attention = attention_caches I,
                    pl_deltanet = deltanet_caches I, pl_mtp = mtp_attention_caches I,
                    pl_counters = zero_counters\<rparr> of
              Inl e \<Rightarrow> Inl e
            | Inr st \<Rightarrow> Inr (pl_generated st, pl_counters st,
                I\<lparr>attention_caches := pl_attention st, deltanet_caches := pl_deltanet st,
                  mtp_attention_caches := pl_mtp st\<rparr>)))"

definition generate ::
  "('h, 'r, 's, 't, 'l, 'f) engine \<Rightarrow> text_codec \<Rightarrow> bool \<Rightarrow> bool \<times> bool \<Rightarrow> nat \<Rightarrow> bool \<Rightarrow>
   generation_options \<Rightarrow> ('r, 's, 't) impl \<Rightarrow>
   (generation_result \<times> ('r, 's, 't) impl) api_result" where
  "generate E T backend_ok flags width result_given opts I0 =
     (case check_request result_given I0 opts of
        Inl e \<Rightarrow> Inl e
      | Inr _ \<Rightarrow>
          (let I = reset_impl I0;
               prompt = (if use_chat_template opts
                         then tk_chat_prompt T (prompt_text opts) (enable_thinking opts)
                         else prompt_text opts);
               ids = tk_encode T prompt;
               q = \<lparr>rq_eos = merge_eos T, rq_prompt_count = length ids,
                    rq_max_new = nat (max_new_tokens opts), rq_width = width\<rparr>
           in
           (if cfg_max_positions T < int (length ids) + max_new_tokens opts
            then api_fail ApiInvalidArgument ''prompt exceeds model context''
            else if \<not> backend_ok
            then api_fail ApiBackendError ''failed to create final-device backend''
            else
              (case generate_ids E flags q ids opts I of
                 Inl e \<Rightarrow> Inl e
               | Inr (gen, c, I') \<Rightarrow> Inr (finish_result T (length ids) gen c, I')))))"

end
