(* ===== verification/Causal_Engine.thy ===== *)
theory Causal_Engine
  imports Generator
begin

text \<open>
  The contract between the decode loops and the operators they drive, as the locale
  \<open>causal_engine\<close>: every operator acts row by row, and the two mixers are causal, so
  running a chunk of tokens succeeds only when running its two halves in turn does, with
  the same rows and the same caches. Under the contract a successful forward over any
  chunk agrees with token-by-token forwards, which is what makes verification of a whole
  proposal in one forward sound.
\<close>

section \<open>Row-wise and causal operators\<close>

definition rowwise :: "('a list \<Rightarrow> 'b list option) \<Rightarrow> bool" where
  "rowwise f \<longleftrightarrow>
     (\<forall>xs z. f xs = Some z \<longrightarrow> length z = length xs) \<and>
     (\<forall>xs ys z. xs \<noteq> [] \<longrightarrow> ys \<noteq> [] \<longrightarrow> f (xs @ ys) = Some z \<longrightarrow>
        (\<exists>u v. f xs = Some u \<and> f ys = Some v \<and> z = u @ v))"

definition rowwise2 :: "('a list \<Rightarrow> 'a list \<Rightarrow> 'b list option) \<Rightarrow> bool" where
  "rowwise2 g \<longleftrightarrow>
     (\<forall>xs xs' z. length xs' = length xs \<longrightarrow> g xs xs' = Some z \<longrightarrow> length z = length xs) \<and>
     (\<forall>xs ys xs' ys' z. xs \<noteq> [] \<longrightarrow> ys \<noteq> [] \<longrightarrow>
        length xs' = length xs \<longrightarrow> length ys' = length ys \<longrightarrow> g (xs @ ys) (xs' @ ys') = Some z \<longrightarrow>
        (\<exists>u v. g xs xs' = Some u \<and> g ys ys' = Some v \<and> z = u @ v))"

text \<open>A mixer is causal on the caches in a set \<open>G\<close>, which it keeps.\<close>

definition causal_mixer :: "('c \<Rightarrow> bool) \<Rightarrow> ('a list \<Rightarrow> 'c \<Rightarrow> 'b list option \<times> 'c) \<Rightarrow> bool" where
  "causal_mixer G m \<longleftrightarrow>
     (\<forall>xs c z c'. G c \<longrightarrow> m xs c = (Some z, c') \<longrightarrow> length z = length xs \<and> G c') \<and>
     (\<forall>xs ys c z c'. G c \<longrightarrow> xs \<noteq> [] \<longrightarrow> ys \<noteq> [] \<longrightarrow> m (xs @ ys) c = (Some z, c') \<longrightarrow>
        (\<exists>u c1 v. m xs c = (Some u, c1) \<and> m ys c1 = (Some v, c') \<and> z = u @ v))"

lemma rowwiseI [causal_intros]:
  assumes "\<And>xs z. f xs = Some z \<Longrightarrow> length z = length xs"
    and "\<And>xs ys z. xs \<noteq> [] \<Longrightarrow> ys \<noteq> [] \<Longrightarrow> f (xs @ ys) = Some z \<Longrightarrow>
           \<exists>u v. f xs = Some u \<and> f ys = Some v \<and> z = u @ v"
  shows "rowwise f"
  using assms unfolding rowwise_def by blast

lemma rowwise_length: "rowwise f \<Longrightarrow> f xs = Some z \<Longrightarrow> length z = length xs"
  by (simp add: rowwise_def)

lemma rowwise_split:
  "rowwise f \<Longrightarrow> f (xs @ ys) = Some z \<Longrightarrow> xs \<noteq> [] \<Longrightarrow> ys \<noteq> [] \<Longrightarrow>
     \<exists>u v. f xs = Some u \<and> f ys = Some v \<and> z = u @ v \<and> length u = length xs \<and> length v = length ys"
  unfolding rowwise_def by metis

lemma rowwise2_length:
  "rowwise2 g \<Longrightarrow> g xs xs' = Some z \<Longrightarrow> length xs' = length xs \<Longrightarrow> length z = length xs"
  by (simp add: rowwise2_def)

lemma rowwise2_split:
  "rowwise2 g \<Longrightarrow> g (xs @ ys) (xs' @ ys') = Some z \<Longrightarrow> xs \<noteq> [] \<Longrightarrow> ys \<noteq> [] \<Longrightarrow>
     length xs' = length xs \<Longrightarrow> length ys' = length ys \<Longrightarrow>
     \<exists>u v. g xs xs' = Some u \<and> g ys ys' = Some v \<and> z = u @ v \<and>
           length u = length xs \<and> length v = length ys"
  unfolding rowwise2_def by metis

lemma causal_mixer_length:
  "causal_mixer G m \<Longrightarrow> G c \<Longrightarrow> m xs c = (Some z, c') \<Longrightarrow> length z = length xs"
  unfolding causal_mixer_def by blast

lemma causal_mixer_keeps: "causal_mixer G m \<Longrightarrow> G c \<Longrightarrow> m xs c = (Some z, c') \<Longrightarrow> G c'"
  unfolding causal_mixer_def by blast

lemma causal_mixer_split:
  "causal_mixer G m \<Longrightarrow> G c \<Longrightarrow> m (xs @ ys) c = (Some z, c') \<Longrightarrow> xs \<noteq> [] \<Longrightarrow> ys \<noteq> [] \<Longrightarrow>
     \<exists>u c1 v. m xs c = (Some u, c1) \<and> m ys c1 = (Some v, c') \<and> z = u @ v \<and>
              length u = length xs \<and> length v = length ys"
  unfolding causal_mixer_def by metis

lemma rowwise_map [causal_intros]: "rowwise (\<lambda>xs. Some (map f xs))"
  by (rule rowwiseI) auto

lemma rowwise_those_map [causal_intros]: "rowwise (those_map f)"
  by (rule rowwiseI) (auto simp: those_map_append size_simps split: option.splits)

lemma rowwise_Some [causal_intros]: "rowwise Some"
  by (rule rowwiseI) auto

lemma rowwise_bind [causal_intros]:
  assumes f: "rowwise f" and g: "rowwise g"
  shows "rowwise (\<lambda>xs. Option.bind (f xs) g)"
proof (rule rowwiseI, goal_cases)
  case (1 xs z)
  then show ?case using f g by (auto simp: Option.bind_eq_Some_conv dest!: rowwise_length)
next
  case (2 xs ys z)
  then obtain w where w: "f (xs @ ys) = Some w" "g w = Some z"
    by (auto simp: Option.bind_eq_Some_conv)
  from rowwise_split [OF f w(1) 2(1,2)] obtain u v where uv:
    "f xs = Some u" "f ys = Some v" "w = u @ v" "length u = length xs" "length v = length ys"
    by blast
  with 2 have ne: "u \<noteq> []" "v \<noteq> []" by auto
  from rowwise_split [OF g _ ne] w(2) uv(3) obtain u' v' where
    "g u = Some u'" "g v = Some v'" "z = u' @ v'" by blast
  with uv show ?case by auto
qed

section \<open>The contract\<close>

text \<open>\<open>kg\<close> and \<open>dg\<close> are the caches the engine works on: those the mixers keep and the
  cache copies reproduce.\<close>

definition causal_layer ::
  "('r kv_cache \<Rightarrow> bool) \<Rightarrow> (('s, 't) dn_cache \<Rightarrow> bool) \<Rightarrow> ('h, 'r, 's, 't) layer_ops \<Rightarrow> bool" where
  "causal_layer kg dg L \<longleftrightarrow>
     rowwise (move_to L) \<and> rowwise (input_norm L) \<and> rowwise2 (residual L) \<and>
     rowwise (post_norm L) \<and> rowwise (mlp L) \<and>
     (if is_attention_layer L then causal_mixer kg (attention_mixer L)
      else causal_mixer dg (deltanet_mixer L))"

lemma layer_tail_rowwise2:
  assumes "causal_layer kg dg L"
  shows "rowwise2 (layer_tail L)"
  unfolding rowwise2_def
proof (intro conjI allI impI, goal_cases)
  case (1 xs xs' z)
  have r2: "rowwise2 (residual L)" and rp: "rowwise (post_norm L)" and rm: "rowwise (mlp L)"
    using assms by (auto simp: causal_layer_def)
  from 1(2) obtain h n m where h: "residual L xs xs' = Some h"
    and n: "post_norm L h = Some n" and m: "mlp L n = Some m" and z: "residual L h m = Some z"
    by (auto simp: layer_tail_def split: option.splits)
  have "length h = length xs" using rowwise2_length [OF r2 h 1(1)] .
  moreover have "length m = length h"
    using rowwise_length [OF rp n] rowwise_length [OF rm m] by simp
  ultimately show ?case using rowwise2_length [OF r2 z] by simp
next
  case (2 xs ys xs' ys' z)
  have r2: "rowwise2 (residual L)" and rp: "rowwise (post_norm L)" and rm: "rowwise (mlp L)"
    using assms by (auto simp: causal_layer_def)
  from 2(5) obtain h n m where h: "residual L (xs @ ys) (xs' @ ys') = Some h"
    and n: "post_norm L h = Some n" and m: "mlp L n = Some m" and z: "residual L h m = Some z"
    by (auto simp: layer_tail_def split: option.splits)
  from rowwise2_split [OF r2 h 2(1,2,3,4)] obtain h1 h2 where
    h12: "residual L xs xs' = Some h1" "residual L ys ys' = Some h2" "h = h1 @ h2"
         "length h1 = length xs" "length h2 = length ys" by blast
  then have ne: "h1 \<noteq> []" "h2 \<noteq> []" using 2(1,2) by auto
  from rowwise_split [OF rp _ ne] n h12(3) obtain n1 n2 where
    n12: "post_norm L h1 = Some n1" "post_norm L h2 = Some n2" "n = n1 @ n2"
         "length n1 = length h1" "length n2 = length h2" by blast
  then have ne': "n1 \<noteq> []" "n2 \<noteq> []" using ne by auto
  from rowwise_split [OF rm _ ne'] m n12(3) obtain m1 m2 where
    m12: "mlp L n1 = Some m1" "mlp L n2 = Some m2" "m = m1 @ m2"
         "length m1 = length n1" "length m2 = length n2" by blast
  from rowwise2_split [OF r2 _ ne] z h12(3) m12 n12 obtain z1 z2 where
    "residual L h1 m1 = Some z1" "residual L h2 m2 = Some z2" "z = z1 @ z2" by fastforce
  with h12 n12 m12 show ?case by (auto simp: layer_tail_def)
qed

lemma layer_mix_split:
  assumes L: "causal_layer kg dg L" and m: "layer_mix L (xs @ ys) a d = (Some z, a2, d2)"
    and ok: "kg a" "dg d" and ne: "xs \<noteq> []" "ys \<noteq> []"
  shows "\<exists>u a1 d1 v. layer_mix L xs a d = (Some u, a1, d1) \<and> layer_mix L ys a1 d1 = (Some v, a2, d2) \<and>
           z = u @ v \<and> length u = length xs \<and> length v = length ys"
proof -
  have rn: "rowwise (input_norm L)" using L by (simp add: causal_layer_def)
  from m obtain w where w: "input_norm L (xs @ ys) = Some w"
    by (auto simp: layer_mix_def split: option.splits)
  from rowwise_split [OF rn w ne] obtain p q where pq: "input_norm L xs = Some p"
    "input_norm L ys = Some q" "w = p @ q" "length p = length xs" "length q = length ys" by blast
  then have ne': "p \<noteq> []" "q \<noteq> []" using ne by auto
  show ?thesis
  proof (cases "is_attention_layer L")
    case True
    with L have c: "causal_mixer kg (attention_mixer L)" by (simp add: causal_layer_def)
    from m w True pq have "attention_mixer L (p @ q) a = (Some z, a2)" "d2 = d"
      by (auto simp: layer_mix_def split: prod.splits)
    with causal_mixer_split [OF c ok(1) _ ne'] True pq show ?thesis
      by (fastforce simp: layer_mix_def)
  next
    case False
    with L have c: "causal_mixer dg (deltanet_mixer L)" by (simp add: causal_layer_def)
    from m w False pq have "deltanet_mixer L (p @ q) d = (Some z, d2)" "a2 = a"
      by (auto simp: layer_mix_def split: prod.splits)
    with causal_mixer_split [OF c ok(2) _ ne'] False pq show ?thesis
      by (fastforce simp: layer_mix_def)
  qed
qed

lemma layer_mix_length:
  assumes L: "causal_layer kg dg L" and m: "layer_mix L h a d = (Some z, a', d')" and ok: "kg a" "dg d"
  shows "length z = length h"
proof -
  have rn: "rowwise (input_norm L)" using L by (simp add: causal_layer_def)
  from m obtain w where w: "input_norm L h = Some w"
    by (auto simp: layer_mix_def split: option.splits)
  have lw: "length w = length h" using rowwise_length [OF rn w] .
  show ?thesis
  proof (cases "is_attention_layer L")
    case True
    with L have "causal_mixer kg (attention_mixer L)" by (simp add: causal_layer_def)
    with m w lw True ok show ?thesis
      by (auto simp: layer_mix_def split: prod.splits dest: causal_mixer_length)
  next
    case False
    with L have "causal_mixer dg (deltanet_mixer L)" by (simp add: causal_layer_def)
    with m w lw False ok show ?thesis
      by (auto simp: layer_mix_def split: prod.splits dest: causal_mixer_length)
  qed
qed

lemma run_layer_Some:
  "run_layer p L h a d = (Some z, a', d') \<longleftrightarrow>
     (\<exists>h' m. move_to L h = Some h' \<and> layer_mix L h' a d = (Some m, a', d') \<and>
             layer_tail L h' m = Some z \<and> (p \<longrightarrow> layer_sync_ok L))"
  by (auto simp: run_layer_def split: option.splits prod.splits if_splits)

lemma run_layer_split:
  assumes L: "causal_layer kg dg L" and r: "run_layer p L (xs @ ys) a d = (Some z, a2, d2)"
    and ok: "kg a" "dg d" and ne: "xs \<noteq> []" "ys \<noteq> []"
  shows "\<exists>u a1 d1 v. run_layer p L xs a d = (Some u, a1, d1) \<and> run_layer p L ys a1 d1 = (Some v, a2, d2) \<and>
           z = u @ v \<and> length u = length xs \<and> length v = length ys"
proof -
  have rm: "rowwise (move_to L)" using L by (simp add: causal_layer_def)
  from r obtain h m where h: "move_to L (xs @ ys) = Some h" and m: "layer_mix L h a d = (Some m, a2, d2)"
    and t: "layer_tail L h m = Some z" and p: "p \<longrightarrow> layer_sync_ok L"
    by (auto simp: run_layer_Some)
  from rowwise_split [OF rm h ne] obtain h1 h2 where h12: "move_to L xs = Some h1"
    "move_to L ys = Some h2" "h = h1 @ h2" "length h1 = length xs" "length h2 = length ys" by blast
  then have ne': "h1 \<noteq> []" "h2 \<noteq> []" using ne by auto
  from layer_mix_split [OF L _ ok ne'] m h12(3) obtain m1 a1 d1 m2 where
    m12: "layer_mix L h1 a d = (Some m1, a1, d1)" "layer_mix L h2 a1 d1 = (Some m2, a2, d2)"
         "m = m1 @ m2" "length m1 = length h1" "length m2 = length h2" by blast
  from rowwise2_split [OF layer_tail_rowwise2 [OF L] _ ne' m12(4,5)] t h12(3) m12(3) obtain u v where
    "layer_tail L h1 m1 = Some u" "layer_tail L h2 m2 = Some v" "z = u @ v"
    "length u = length h1" "length v = length h2" by blast
  with h12 m12 p show ?thesis by (fastforce simp: run_layer_Some)
qed

lemma run_layers_Cons_Some:
  "run_layers p (L # Ls) h as ds = (Some z, as', ds') \<longleftrightarrow>
     (\<exists>a at d dt h1 a' d' at' dt'. as = a # at \<and> ds = d # dt \<and>
        run_layer p L h a d = (Some h1, a', d') \<and>
        run_layers p Ls h1 at dt = (Some z, at', dt') \<and> as' = a' # at' \<and> ds' = d' # dt')"
  by (cases as; cases ds) (auto split: prod.splits option.splits)

lemma run_layers_split:
  assumes "\<forall>L \<in> set Ls. causal_layer kg dg L"
    and "run_layers p Ls (xs @ ys) as ds = (Some z, as2, ds2)"
    and "list_all kg as" and "list_all dg ds" and "xs \<noteq> []" and "ys \<noteq> []"
  shows "\<exists>u as1 ds1 v. run_layers p Ls xs as ds = (Some u, as1, ds1) \<and>
           run_layers p Ls ys as1 ds1 = (Some v, as2, ds2) \<and> z = u @ v \<and>
           length u = length xs \<and> length v = length ys"
  using assms
proof (induction Ls arbitrary: xs ys as ds z as2 ds2)
  case Nil
  then show ?case by auto
next
  case (Cons L Ls)
  from Cons.prems(2) obtain a at d dt h a' d' at' dt' where s:
    "as = a # at" "ds = d # dt" "run_layer p L (xs @ ys) a d = (Some h, a', d')"
    "run_layers p Ls h at dt = (Some z, at', dt')" "as2 = a' # at'" "ds2 = d' # dt'"
    by (auto simp: run_layers_Cons_Some)
  have L: "causal_layer kg dg L" using Cons.prems(1) by simp
  have ok: "kg a" "dg d" "list_all kg at" "list_all dg dt" using Cons.prems(3,4) s(1,2) by simp_all
  from run_layer_split [OF L s(3) ok(1,2) Cons.prems(5,6)] obtain u a1 d1 v where uv:
    "run_layer p L xs a d = (Some u, a1, d1)" "run_layer p L ys a1 d1 = (Some v, a', d')"
    "h = u @ v" "length u = length xs" "length v = length ys" by blast
  then have ne: "u \<noteq> []" "v \<noteq> []" using Cons.prems(5,6) by auto
  from Cons.IH [OF _ _ ok(3,4) ne] Cons.prems(1) s(4) uv(3) obtain u' as1 ds1 v' where
    "run_layers p Ls u at dt = (Some u', as1, ds1)" "run_layers p Ls v as1 ds1 = (Some v', at', dt')"
    "z = u' @ v'" "length u' = length u" "length v' = length v" by (metis list.set_intros(2))
  with s uv show ?case by (fastforce simp: run_layers_Cons_Some)
qed

lemma run_layers_keeps_length:
  "run_layers p Ls h as ds = (r, as', ds') \<Longrightarrow> length as' = length as \<and> length ds' = length ds"
  by (induction p Ls h as ds arbitrary: r as' ds' rule: run_layers.induct)
     (auto split: prod.splits option.splits)

lemma layer_mix_ok:
  assumes L: "causal_layer kg dg L" and m: "layer_mix L h a d = (Some z, a', d')"
    and ok: "kg a" "dg d"
  shows "kg a' \<and> dg d'"
proof (cases "is_attention_layer L")
  case True
  with L have "causal_mixer kg (attention_mixer L)" by (simp add: causal_layer_def)
  from causal_mixer_keeps [OF this ok(1)] m True ok show ?thesis
    by (auto simp: layer_mix_def split: option.splits prod.splits)
next
  case False
  with L have "causal_mixer dg (deltanet_mixer L)" by (simp add: causal_layer_def)
  from causal_mixer_keeps [OF this ok(2)] m False ok show ?thesis
    by (auto simp: layer_mix_def split: option.splits prod.splits)
qed

lemma run_layers_ok:
  assumes "\<forall>L \<in> set Ls. causal_layer kg dg L" and "run_layers p Ls h as ds = (Some z, as', ds')"
    and "list_all kg as" and "list_all dg ds"
  shows "list_all kg as' \<and> list_all dg ds'"
  using assms
proof (induction Ls arbitrary: h as ds as' ds')
  case Nil
  then show ?case by simp
next
  case (Cons L Ls)
  from Cons.prems(2) obtain a at d dt h1 a' d' at' dt' where s:
    "as = a # at" "ds = d # dt" "run_layer p L h a d = (Some h1, a', d')"
    "run_layers p Ls h1 at dt = (Some z, at', dt')" "as' = a' # at'" "ds' = d' # dt'"
    by (auto simp: run_layers_Cons_Some)
  have "kg a' \<and> dg d'"
    using s(3) Cons.prems(1,3,4) s(1,2) by (auto simp: run_layer_Some dest!: layer_mix_ok)
  with Cons.IH [OF _ s(4)] Cons.prems s show ?case by simp
qed

lemma run_layers_out_length:
  assumes "\<forall>L \<in> set Ls. causal_layer kg dg L" and "run_layers p Ls h as ds = (Some z, as', ds')"
    and "list_all kg as" and "list_all dg ds"
  shows "length z = length h"
  using assms
proof (induction Ls arbitrary: h as ds as' ds')
  case Nil
  then show ?case by simp
next
  case (Cons L Ls)
  from Cons.prems(2) obtain a at d dt h1 a' d' at' dt' where s:
    "run_layer p L h a d = (Some h1, a', d')" "run_layers p Ls h1 at dt = (Some z, at', dt')"
    and c: "as = a # at" "ds = d # dt" by (auto simp: run_layers_Cons_Some)
  have ok: "kg a" "dg d" "list_all kg at" "list_all dg dt" using Cons.prems(3,4) c by simp_all
  have L: "causal_layer kg dg L" using Cons.prems(1) by simp
  from s(1) obtain h2 m where r: "move_to L h = Some h2" "layer_mix L h2 a d = (Some m, a', d')"
    "layer_tail L h2 m = Some h1" by (auto simp: run_layer_Some)
  have "length h2 = length h" using L r(1) by (auto simp: causal_layer_def dest: rowwise_length)
  moreover have "length m = length h2" using layer_mix_length [OF L r(2) ok(1,2)] .
  ultimately have "length h1 = length h"
    using rowwise2_length [OF layer_tail_rowwise2 [OF L] r(3)] by simp
  moreover have "length z = length h1" using Cons.IH [OF _ s(2) ok(3,4)] Cons.prems(1) by simp
  ultimately show ?case by simp
qed

text \<open>Profiling adds a synchronisation after each layer and changes nothing else.\<close>

lemma run_layers_profile:
  "run_layers p Ls h as ds = (Some z, as', ds') \<Longrightarrow> run_layers False Ls h as ds = (Some z, as', ds')"
proof (induction Ls arbitrary: h as ds as' ds')
  case Nil
  then show ?case by simp
next
  case (Cons L Ls)
  then show ?case by (fastforce simp: run_layers_Cons_Some run_layer_Some)
qed

section \<open>Token-by-token runs\<close>

text \<open>The reference: one forward per token, collecting the hidden and the logits rows.\<close>

fun run_tokens ::
  "('h, 'r, 's, 't, 'l, 'f) engine \<Rightarrow> int list \<Rightarrow> 'r kv_cache list \<Rightarrow> ('s, 't) dn_cache list \<Rightarrow>
   ('h list \<times> 'l list \<times> 'r kv_cache list \<times> ('s, 't) dn_cache list) option" where
  "run_tokens E [] as ds = Some ([], [], as, ds)"
| "run_tokens E (t # ts) as ds =
     (case target_forward E False [t] as ds of
        (None, _, _) \<Rightarrow> None
      | (Some (h, l), as', ds') \<Rightarrow>
          (case run_tokens E ts as' ds' of
             None \<Rightarrow> None
           | Some (hs, ls, as'', ds'') \<Rightarrow> Some (h @ hs, l @ ls, as'', ds'')))"

lemma run_tokens_append:
  "run_tokens E (xs @ ys) as ds =
     (case run_tokens E xs as ds of
        None \<Rightarrow> None
      | Some (h, l, as', ds') \<Rightarrow>
          (case run_tokens E ys as' ds' of
             None \<Rightarrow> None
           | Some (h', l', as'', ds'') \<Rightarrow> Some (h @ h', l @ l', as'', ds'')))"
  by (induction xs arbitrary: as ds) (auto split: option.splits prod.splits)

text \<open>The contract. \<open>am\<close> is the token a logits row selects.\<close>

locale causal_engine =
  fixes E :: "('h, 'r, 's, 't, 'l, 'f) engine" and am :: "'l \<Rightarrow> int"
    and kg :: "'r kv_cache \<Rightarrow> bool" and dg :: "('s, 't) dn_cache \<Rightarrow> bool"
  assumes embed_length: "\<And>ids z. eng_embed E ids = Inr z \<Longrightarrow> length z = length ids"
    and embed_split: "\<And>xs ys z. xs \<noteq> [] \<Longrightarrow> ys \<noteq> [] \<Longrightarrow> eng_embed E (xs @ ys) = Inr z \<Longrightarrow>
          \<exists>u v. eng_embed E xs = Inr u \<and> eng_embed E ys = Inr v \<and> z = u @ v"
    and layers_causal: "\<forall>L \<in> set (eng_layers E). causal_layer kg dg L"
    and to_final_rowwise: "rowwise (eng_to_final E)"
    and final_norm_rowwise: "rowwise (eng_final_norm E)"
    and lm_head_rowwise: "rowwise (eng_lm_head E)"
    and kg_empty: "kg kv_empty" and dg_empty: "dg dn_empty"
    and kg_shape: "\<And>c. kg c \<Longrightarrow> kv_initialized c \<or> c = kv_empty"
    and dg_shape: "\<And>c. dg c \<Longrightarrow> dn_initialized c \<or> c = dn_empty"
    and kv_clone_same: "\<And>c c'. kg c \<Longrightarrow> eng_kv_clone E c = Some c' \<Longrightarrow> c' = c"
    and dn_clone_same: "\<And>c c'. dg c \<Longrightarrow> eng_dn_clone E c = Some c' \<Longrightarrow> c' = c"
    and argmax_last: "\<And>h ls t. eng_lm_head E h = Some ls \<Longrightarrow> ls \<noteq> [] \<Longrightarrow>
          argmax_last_row_reference E ls = Some t \<Longrightarrow> t = am (last ls)"
    and argmax_rows: "\<And>h ls ts. eng_lm_head E h = Some ls \<Longrightarrow> ls \<noteq> [] \<Longrightarrow>
          argmax_rows_reference E ls = Some ts \<Longrightarrow> ts = map am ls"
begin

lemma finish_rowwise: "rowwise (\<lambda>h. Option.bind (eng_to_final E h) (eng_final_norm E))"
  by (intro causal_intros to_final_rowwise final_norm_rowwise)

lemma forward_Some:
  "target_forward E p ids as ds = (Some (h, l), as', ds') \<longleftrightarrow>
     (\<exists>e m. eng_embed E ids = Inr e \<and> run_layers p (eng_layers E) e as ds = (Some m, as', ds') \<and>
            Option.bind (eng_to_final E m) (eng_final_norm E) = Some h \<and> eng_lm_head E h = Some l \<and>
            (p \<longrightarrow> eng_final_sync_ok E))"
  by (auto simp: target_forward_def split: sum.splits option.splits prod.splits if_splits)

lemma forward_head:
  "target_forward E p ids as ds = (Some (h, l), as', ds') \<Longrightarrow> eng_lm_head E h = Some l"
  by (auto simp: forward_Some)

lemma forward_profile:
  "target_forward E p ids as ds = (Some (h, l), as', ds') \<Longrightarrow>
   target_forward E False ids as ds = (Some (h, l), as', ds')"
  by (auto simp: forward_Some intro: run_layers_profile)

lemma forward_split:
  assumes f: "target_forward E p (xs @ ys) as ds = (Some (h, l), as2, ds2)"
    and ok: "list_all kg as" "list_all dg ds" and ne: "xs \<noteq> []" "ys \<noteq> []"
  shows "\<exists>h1 l1 as1 ds1 h2 l2. target_forward E p xs as ds = (Some (h1, l1), as1, ds1) \<and>
           target_forward E p ys as1 ds1 = (Some (h2, l2), as2, ds2) \<and> h = h1 @ h2 \<and> l = l1 @ l2 \<and>
           length l1 = length xs \<and> length l2 = length ys \<and> length h1 = length xs \<and> length h2 = length ys"
proof -
  from f obtain e m where e: "eng_embed E (xs @ ys) = Inr e"
    and m: "run_layers p (eng_layers E) e as ds = (Some m, as2, ds2)"
    and h: "Option.bind (eng_to_final E m) (eng_final_norm E) = Some h"
    and l: "eng_lm_head E h = Some l" and p: "p \<longrightarrow> eng_final_sync_ok E"
    by (auto simp: forward_Some)
  from embed_split [OF ne e] obtain u v where uv: "eng_embed E xs = Inr u" "eng_embed E ys = Inr v"
    "e = u @ v" by blast
  have luv: "length u = length xs" "length v = length ys"
    using embed_length uv(1,2) by auto
  with ne have neuv: "u \<noteq> []" "v \<noteq> []" by auto
  from run_layers_split [OF layers_causal _ ok neuv] m uv(3) obtain m1 as1 ds1 m2 where m12:
    "run_layers p (eng_layers E) u as ds = (Some m1, as1, ds1)"
    "run_layers p (eng_layers E) v as1 ds1 = (Some m2, as2, ds2)" "m = m1 @ m2"
    "length m1 = length u" "length m2 = length v" by blast
  with neuv have nem: "m1 \<noteq> []" "m2 \<noteq> []" by auto
  from rowwise_split [OF finish_rowwise _ nem] h m12(3) obtain h1 h2 where h12:
    "Option.bind (eng_to_final E m1) (eng_final_norm E) = Some h1"
    "Option.bind (eng_to_final E m2) (eng_final_norm E) = Some h2" "h = h1 @ h2"
    "length h1 = length m1" "length h2 = length m2" by blast
  with nem have neh: "h1 \<noteq> []" "h2 \<noteq> []" by auto
  from rowwise_split [OF lm_head_rowwise _ neh] l h12(3) obtain l1 l2 where
    "eng_lm_head E h1 = Some l1" "eng_lm_head E h2 = Some l2" "l = l1 @ l2"
    "length l1 = length h1" "length l2 = length h2" by blast
  with uv luv m12 h12 p show ?thesis by (fastforce simp: forward_Some)
qed

lemma forward_length:
  "target_forward E p ids as ds = (Some (h, l), as', ds') \<Longrightarrow> ids \<noteq> [] \<Longrightarrow>
   length l = length h"
  by (auto simp: forward_Some dest: rowwise_length [OF lm_head_rowwise])

lemma forward_ok:
  assumes "target_forward E p ids as ds = (Some hl, as', ds')"
    and "list_all kg as" and "list_all dg ds"
  shows "list_all kg as' \<and> list_all dg ds'"
proof -
  obtain h l where "hl = (h, l)" by (cases hl)
  with assms show ?thesis
    by (auto simp: forward_Some dest!: run_layers_ok [OF layers_causal])
qed

text \<open>A successful forward over a chunk is the token-by-token run over it.\<close>

lemma forward_tokens:
  assumes "target_forward E p ids as ds = (Some (h, l), as', ds')" and "ids \<noteq> []"
    and "list_all kg as" and "list_all dg ds"
  shows "run_tokens E ids as ds = Some (h, l, as', ds')"
  using assms
proof (induction ids arbitrary: h l as ds)
  case Nil
  then show ?case by simp
next
  case (Cons t ts)
  show ?case
  proof (cases "ts = []")
    case True
    with Cons.prems show ?thesis by (auto dest: forward_profile)
  next
    case False
    have "target_forward E p ([t] @ ts) as ds = (Some (h, l), as', ds')"
      using Cons.prems(1) by simp
    from forward_split [OF this Cons.prems(3,4) _ False] obtain h1 l1 as1 ds1 h2 l2 where
      s: "target_forward E p [t] as ds = (Some (h1, l1), as1, ds1)"
         "target_forward E p ts as1 ds1 = (Some (h2, l2), as', ds')" "h = h1 @ h2" "l = l1 @ l2"
      by blast
    from s(1) have "target_forward E False [t] as ds = (Some (h1, l1), as1, ds1)"
      by (rule forward_profile)
    with s Cons.IH [OF s(2) False] forward_ok [OF s(1) Cons.prems(3,4)] show ?thesis by simp
  qed
qed

lemma forward_keeps_length:
  "target_forward E p ids as ds = (r, as', ds') \<Longrightarrow> length as' = length as \<and> length ds' = length ds"
  by (auto simp: target_forward_def split: sum.splits option.splits prod.splits if_splits
      dest: run_layers_keeps_length)

lemma run_tokens_length:
  "run_tokens E ids as ds = Some (h, l, as', ds') \<Longrightarrow> list_all kg as \<Longrightarrow> list_all dg ds \<Longrightarrow>
   length l = length ids"
proof (induction ids arbitrary: as ds h l)
  case Nil
  then show ?case by simp
next
  case (Cons t ts)
  from Cons.prems(1) obtain h1 l1 as1 ds1 h2 l2 where s: "target_forward E False [t] as ds = (Some (h1, l1), as1, ds1)"
    "run_tokens E ts as1 ds1 = Some (h2, l2, as', ds')" "l = l1 @ l2"
    by (auto split: option.splits prod.splits)
  from s(1) obtain e m where r: "eng_embed E [t] = Inr e"
    "run_layers False (eng_layers E) e as ds = (Some m, as1, ds1)"
    "Option.bind (eng_to_final E m) (eng_final_norm E) = Some h1" "eng_lm_head E h1 = Some l1"
    by (auto simp: forward_Some)
  have "length l1 = length h1" using rowwise_length [OF lm_head_rowwise r(4)] .
  also have "\<dots> = length m" using rowwise_length [OF finish_rowwise r(3)] .
  also have "\<dots> = length e" using run_layers_out_length [OF layers_causal r(2) Cons.prems(2,3)] .
  also have "\<dots> = 1" using embed_length [OF r(1)] by simp
  finally have "length l1 = 1" .
  with s Cons.IH [OF s(2)] forward_ok [OF s(1) Cons.prems(2,3)] show ?case by simp
qed

end

end
