(* ===== verification/Speculative.thy ===== *)
theory Speculative
  imports Causal_Engine
begin

text \<open>
  Correctness of the decode loops of \<open>src/generator.cc\<close> against one abstract
  specification: greedy decoding, which appends the token selected by the last logits row
  of the text so far until an end-of-sequence token or the length limit. Both the plain
  loop and the speculative loop produce exactly the greedy tokens.
\<close>

section \<open>The specification\<close>

definition greedy_next ::
  "('h, 'r, 's, 't, 'l, 'f) engine \<Rightarrow> ('l \<Rightarrow> int) \<Rightarrow> 'r kv_cache list \<Rightarrow> ('s, 't) dn_cache list \<Rightarrow>
   int list \<Rightarrow> int option" where
  "greedy_next E am as ds ids =
     (case run_tokens E ids as ds of
        None \<Rightarrow> None
      | Some (_, l, _, _) \<Rightarrow> (if l = [] then None else Some (am (last l))))"

fun greedy ::
  "('h, 'r, 's, 't, 'l, 'f) engine \<Rightarrow> ('l \<Rightarrow> int) \<Rightarrow> 'r kv_cache list \<Rightarrow> ('s, 't) dn_cache list \<Rightarrow>
   int list \<Rightarrow> nat \<Rightarrow> int list \<Rightarrow> int list" where
  "greedy E am as ds eos 0 ids = []"
| "greedy E am as ds eos (Suc n) ids =
     (case greedy_next E am as ds ids of
        None \<Rightarrow> []
      | Some t \<Rightarrow> (if t \<in> set eos then [t] else t # greedy E am as ds eos n (ids @ [t])))"

text \<open>A list of tokens each of which is the greedy choice after those before it.\<close>

definition greedy_path ::
  "('h, 'r, 's, 't, 'l, 'f) engine \<Rightarrow> ('l \<Rightarrow> int) \<Rightarrow> 'r kv_cache list \<Rightarrow> ('s, 't) dn_cache list \<Rightarrow>
   int list \<Rightarrow> int list \<Rightarrow> bool" where
  "greedy_path E am as ds ids ts \<longleftrightarrow>
     (\<forall>i < length ts. greedy_next E am as ds (ids @ take i ts) = Some (ts ! i))"

lemma greedy_path_Nil [simp]: "greedy_path E am as ds ids []"
  by (simp add: greedy_path_def)

lemma greedy_path_Cons:
  "greedy_path E am as ds ids (t # ts) \<longleftrightarrow>
     greedy_next E am as ds ids = Some t \<and> greedy_path E am as ds (ids @ [t]) ts"
proof
  assume p: "greedy_path E am as ds ids (t # ts)"
  have "greedy_next E am as ds (ids @ t # take i ts) = Some (ts ! i)" if "i < length ts" for i
    using p that unfolding greedy_path_def by (metis Suc_less_eq length_Cons nth_Cons_Suc take_Suc_Cons)
  moreover have "greedy_next E am as ds ids = Some t"
    using p unfolding greedy_path_def by (metis append_Nil2 length_greater_0_conv list.distinct(1) nth_Cons_0 take_0)
  ultimately show "greedy_next E am as ds ids = Some t \<and> greedy_path E am as ds (ids @ [t]) ts"
    by (simp add: greedy_path_def)
next
  assume p: "greedy_next E am as ds ids = Some t \<and> greedy_path E am as ds (ids @ [t]) ts"
  show "greedy_path E am as ds ids (t # ts)"
    unfolding greedy_path_def
  proof (intro allI impI)
    fix i assume "i < length (t # ts)"
    with p show "greedy_next E am as ds (ids @ take i (t # ts)) = Some ((t # ts) ! i)"
      by (cases i) (auto simp: greedy_path_def)
  qed
qed

lemma greedy_along_path:
  assumes "greedy_path E am as ds ids ts" and "length ts \<le> n"
    and "\<forall>t \<in> set ts. t \<notin> set eos"
  shows "greedy E am as ds eos n ids = ts @ greedy E am as ds eos (n - length ts) (ids @ ts)"
  using assms
proof (induction ts arbitrary: ids n)
  case Nil
  then show ?case by simp
next
  case (Cons t ts)
  then obtain m where m: "n = Suc m" by (cases n) auto
  with Cons show ?case by (simp add: greedy_path_Cons)
qed

lemma greedy_ends:
  assumes "greedy_path E am as ds ids (ts @ [t])" and "length ts < n"
    and "\<forall>u \<in> set ts. u \<notin> set eos" and "t \<in> set eos \<or> n = Suc (length ts)"
  shows "greedy E am as ds eos n ids = ts @ [t]"
  using assms
proof (induction ts arbitrary: ids n)
  case Nil
  then obtain m where "n = Suc m" by (cases n) auto
  with Nil show ?case by (auto simp: greedy_path_Cons)
next
  case (Cons u ts)
  then obtain m where "n = Suc m" by (cases n) auto
  with Cons show ?case by (auto simp: greedy_path_Cons)
qed

text \<open>What a step of either loop establishes: the tokens it appends are a greedy path,
  and it stops exactly at an end-of-sequence token or the limit.\<close>

lemma greedy_step:
  assumes p: "greedy_path E am as ds ids ts" and ne: "ts \<noteq> []" and le: "length ts \<le> n"
    and eos: "\<forall>u \<in> set (butlast ts). u \<notin> set eos"
  shows "greedy E am as ds eos n ids =
     ts @ (if n \<le> length ts \<or> last ts \<in> set eos then []
           else greedy E am as ds eos (n - length ts) (ids @ ts))"
proof (cases "n \<le> length ts \<or> last ts \<in> set eos")
  case True
  have t: "butlast ts @ [last ts] = ts" using ne by simp
  have "greedy E am as ds eos n ids = butlast ts @ [last ts]"
  proof (rule greedy_ends)
    show "greedy_path E am as ds ids (butlast ts @ [last ts])" using p t by simp
    show "length (butlast ts) < n" using ne le by (cases ts) auto
    show "last ts \<in> set eos \<or> n = Suc (length (butlast ts))"
      using True le ne by (cases ts) auto
  qed (rule eos)
  with t True show ?thesis by simp
next
  case False
  have "set ts = insert (last ts) (set (butlast ts))"
    using ne by (metis append_butlast_last_id list.set(1) list.simps(15) set_append Un_insert_right sup_bot_right)
  with False eos have "\<forall>u \<in> set ts. u \<notin> set eos" by auto
  from greedy_along_path [OF p le this] False show ?thesis by simp
qed

lemma run_tokens_prefix:
  "run_tokens E (xs @ ys) as ds = Some (h, l, as', ds') \<Longrightarrow>
   \<exists>h1 l1 a1 d1 l2. run_tokens E xs as ds = Some (h1, l1, a1, d1) \<and> l = l1 @ l2"
  by (auto simp: run_tokens_append split: option.splits)

text \<open>The ids \<open>generate\<close> starts from.\<close>

definition prompt_ids :: "text_codec \<Rightarrow> generation_options \<Rightarrow> int list" where
  "prompt_ids T opts = tk_encode T (if use_chat_template opts
     then tk_chat_prompt T (prompt_text opts) (enable_thinking opts) else prompt_text opts)"

section \<open>Invariant of the loops\<close>

context causal_engine
begin

lemma clone_attention_same: "clone_attention_cache E c = Some c' \<Longrightarrow> kg c \<Longrightarrow> c' = c"
  by (auto simp: clone_attention_cache_def split: if_splits dest: kv_clone_same kg_shape)

lemma clone_deltanet_same: "clone_deltanet_cache E c = Some c' \<Longrightarrow> dg c \<Longrightarrow> c' = c"
  by (auto simp: clone_deltanet_cache_def split: if_splits dest: dn_clone_same dg_shape)

lemma clone_decoder_same:
  assumes "clone_decoder_caches E as ds = Some (as', ds')"
    and "list_all kg as" and "list_all dg ds"
  shows "as' = as \<and> ds' = ds"
proof -
  let ?f = "\<lambda>(a, d). case clone_attention_cache E a of None \<Rightarrow> None
                   | Some a' \<Rightarrow> (case clone_deltanet_cache E d of None \<Rightarrow> None | Some d' \<Rightarrow> Some (a', d'))"
  from assms(1) obtain ps where len: "length as = length ds" and ps: "those_map ?f (zip as ds) = Some ps"
    and res: "as' = map fst ps" "ds' = map snd ps"
    by (auto simp: clone_decoder_caches_def split: if_splits option.splits)
  from len assms(2,3) ps have "ps = zip as ds"
  proof (induction as ds arbitrary: ps rule: list_induct2)
    case Nil
    then show ?case by simp
  next
    case (Cons a as d ds)
    then show ?case
      by (auto split: option.splits dest: clone_attention_same clone_deltanet_same)
  qed
  with res len show ?thesis by simp
qed

text \<open>\<open>in_step A0 D0 gen as ds next\<close>: the caches are those of a token-by-token run
  over the text so far, and \<open>next\<close> is its greedy continuation.\<close>

definition in_step ::
  "'r kv_cache list \<Rightarrow> ('s, 't) dn_cache list \<Rightarrow> int list \<Rightarrow> 'r kv_cache list \<Rightarrow>
   ('s, 't) dn_cache list \<Rightarrow> int \<Rightarrow> bool" where
  "in_step A0 D0 gen as ds next \<longleftrightarrow>
     (\<exists>h l. run_tokens E gen A0 D0 = Some (h, l, as, ds) \<and> l \<noteq> [] \<and> next = am (last l)) \<and>
     list_all kg as \<and> list_all dg ds"

lemma in_step_next: "in_step A0 D0 gen as ds next \<Longrightarrow> greedy_next E am A0 D0 gen = Some next"
  by (auto simp: in_step_def greedy_next_def)

text \<open>Extending a run by a chunk keeps it in step and makes the chunk's predictions the
  greedy choices.\<close>

lemma chunk_extends:
  assumes st: "in_step A0 D0 gen as ds next"
    and f: "target_forward E p ids as ds = (Some (h, l), as', ds')" and ne: "ids \<noteq> []"
  shows "in_step A0 D0 (gen @ ids) as' ds' (am (last l))"
    and "\<And>i. i < length ids \<Longrightarrow> greedy_next E am A0 D0 (gen @ take (Suc i) ids) = Some (am (l ! i))"
    and "length l = length ids"
proof -
  from st obtain h0 l0 where r0: "run_tokens E gen A0 D0 = Some (h0, l0, as, ds)"
    and ok: "list_all kg as" "list_all dg ds" by (auto simp: in_step_def)
  have r: "run_tokens E ids as ds = Some (h, l, as', ds')" using forward_tokens [OF f ne ok] .
  then show len: "length l = length ids" using ok by (rule run_tokens_length)
  with ne have "l \<noteq> []" by auto
  with r0 r forward_ok [OF f ok] show "in_step A0 D0 (gen @ ids) as' ds' (am (last l))"
    by (auto simp: in_step_def run_tokens_append)
  fix i assume i: "i < length ids"
  from r obtain h1 l1 a1 d1 l2 where t: "run_tokens E (take (Suc i) ids) as ds = Some (h1, l1, a1, d1)"
    and "l = l1 @ l2"
    using run_tokens_prefix [of E "take (Suc i) ids" "drop (Suc i) ids" as ds h l as' ds'] by auto
  from run_tokens_length [OF t ok] i have "length l1 = Suc i" by simp
  then have ne1: "l1 \<noteq> []" and "l1 ! i = last l1" by (cases l1 rule: rev_cases; auto)+
  with \<open>l = l1 @ l2\<close> \<open>length l1 = Suc i\<close> have "last l1 = l ! i" "l1 \<noteq> []"
    by (simp_all add: nth_append)
  with t r0 show "greedy_next E am A0 D0 (gen @ take (Suc i) ids) = Some (am (l ! i))"
    by (simp add: greedy_next_def run_tokens_append)
qed

text \<open>The tokens a verified proposal contributes: the pending token, the accepted
  candidates and, after a rejection, the target model's own token.\<close>

lemma verified_path:
  assumes st: "in_step A0 D0 gen as ds next"
    and f: "target_forward E p (next # cs) as ds = (Some (h, l), as', ds')"
    and a: "a \<le> match_length (map am l) cs"
  shows "greedy_path E am A0 D0 gen (next # take a cs)"
    and "a < length l \<Longrightarrow> greedy_path E am A0 D0 gen (next # take a cs @ [am (l ! a)])"
proof -
  note ch = chunk_extends [OF st f, simplified]
  have al: "a \<le> length cs" "a \<le> length (map am l)"
    using a match_length_le [of "map am l" cs] by auto
  have eq: "am (l ! j) = cs ! j" if "j < a" for j
  proof -
    have "take a (map am l) = take a cs"
      using match_length_take [of "map am l" cs] a by (metis min.absorb1 take_take)
    from arg_cong [OF this, of "\<lambda>xs. xs ! j"] that al show ?thesis by simp
  qed
  have g: "greedy_next E am A0 D0 (gen @ next # take j cs) = Some (am (l ! j))" if "j \<le> a" for j
    using ch(2) [of j] that al by simp
  have step: "greedy_next E am A0 D0 gen = Some next" using in_step_next [OF st] .
  show "greedy_path E am A0 D0 gen (next # take a cs)"
    unfolding greedy_path_def
  proof (intro allI impI)
    fix i assume "i < length (next # take a cs)"
    with al step g [of "i - 1"] eq [of "i - 1"]
    show "greedy_next E am A0 D0 (gen @ take i (next # take a cs)) = Some ((next # take a cs) ! i)"
      by (cases i) auto
  qed
  show "greedy_path E am A0 D0 gen (next # take a cs @ [am (l ! a)])" if "a < length l"
    unfolding greedy_path_def
  proof (intro allI impI)
    fix i assume "i < length (next # take a cs @ [am (l ! a)])"
    with al step g [of "i - 1"] eq [of "i - 1"]
    show "greedy_next E am A0 D0 (gen @ take i (next # take a cs @ [am (l ! a)])) =
            Some ((next # take a cs @ [am (l ! a)]) ! i)"
      by (cases i) (auto simp: nth_append less_Suc_eq)
  qed
qed

text \<open>The loop invariant, and what a round establishes.\<close>

definition spec_inv ::
  "'r kv_cache list \<Rightarrow> ('s, 't) dn_cache list \<Rightarrow> request \<Rightarrow> ('h, 'r, 's, 't) spec_state \<Rightarrow> bool" where
  "spec_inv A0 D0 q st \<longleftrightarrow>
     in_step A0 D0 (generated st) (st_attention st) (st_deltanet st) (next_target st) \<and>
     rq_prompt_count q \<le> length (generated st)"

lemma verify_candidates_Inr:
  assumes v: "verify_candidates E profile cs st = Inr (ps, h, as', ds')"
    and inv: "list_all kg (st_attention st)" "list_all dg (st_deltanet st)"
  shows "\<exists>l. target_forward E profile (next_target st # cs) (st_attention st) (st_deltanet st) =
               (Some (h, l), as', ds') \<and> ps = map am l \<and> length l = Suc (length cs)"
proof -
  from v obtain va vd l where c: "clone_decoder_caches E (st_attention st) (st_deltanet st) = Some (va, vd)"
    and f: "target_forward E profile (next_target st # cs) va vd = (Some (h, l), as', ds')"
    and ps: "argmax_rows_reference E l = Some ps" "length ps = Suc (length cs)"
    by (auto simp: verify_candidates_def Let_def split: option.splits prod.splits if_splits)
  from clone_decoder_same [OF c inv] f have
    f': "target_forward E profile (next_target st # cs) (st_attention st) (st_deltanet st) = (Some (h, l), as', ds')"
    by simp
  have "l \<noteq> []" using run_tokens_length [OF forward_tokens [OF f' _ inv] inv] by auto
  with ps f' argmax_rows [OF forward_head [OF f']] show ?thesis by auto
qed

text \<open>The swap is effective: a forward keeps the number of caches.\<close>

lemma swap_after_forward:
  assumes "target_forward E p ids as ds = (Some r, as', ds')"
  shows "swap_decoder_caches as ds (as', ds') = ((as', ds'), (as, ds))"
  using forward_keeps_length [OF assms] by (simp add: swap_decoder_caches_def)

lemma recover_mtp_next:
  assumes "recover_mtp E a t n h l ks st = Inr st'" and "l \<noteq> []"
    and "eng_lm_head E h0 = Some l"
  shows "next_target st' = am (last l)"
  using assms argmax_last
  by (auto simp: recover_mtp_def Let_def split: if_splits option.splits sum.splits prod.splits)

lemma reject_suffix_step:
  assumes r: "reject_suffix E q cs ps a ks st = Inr (st', stop)"
    and inv: "spec_inv A0 D0 q st" and a: "a < length cs"
    and room: "produced q st + Suc a < rq_max_new q"
  shows "generated st' = generated st @ next_target st # take a cs @ [ps ! a]"
    and "stop \<longleftrightarrow> rq_max_new q \<le> produced q st' \<or> is_eos q (ps ! a)"
    and "\<not> stop \<Longrightarrow> spec_inv A0 D0 q st'"
proof -
  let ?ids = "next_target st # take a cs @ [ps ! a]"
  from r obtain h l as ds where
    f: "target_forward E False ?ids (st_attention st) (st_deltanet st) = (Some (h, l), as, ds)"
    by (auto simp: reject_suffix_def Let_def split: option.splits prod.splits)
  have pc: "rq_prompt_count q \<le> length (generated st)" using inv by (simp add: spec_inv_def)
  have st: "in_step A0 D0 (generated st) (st_attention st) (st_deltanet st) (next_target st)"
    using inv by (simp add: spec_inv_def)
  note ch = chunk_extends [OF st f, simplified]
  have lne: "l \<noteq> []" using ch(3) by auto
  show g: "generated st' = generated st @ ?ids"
    using r f a room pc
    by (auto simp: reject_suffix_def Let_def produced_def min_def dest!: recover_mtp_keeps
        split: if_splits sum.splits)
  have pr: "produced q st' = produced q st + Suc (Suc a)"
    using g a pc by (simp add: produced_def)
  show "stop \<longleftrightarrow> rq_max_new q \<le> produced q st' \<or> is_eos q (ps ! a)"
    using r f a room pc pr
    by (auto simp: reject_suffix_def Let_def produced_def min_def dest!: recover_mtp_keeps
        split: if_splits sum.splits)
  assume "\<not> stop"
  then have "next_target st' = am (last l)" "st_attention st' = as" "st_deltanet st' = ds"
    using r f lne
    by (auto simp: reject_suffix_def Let_def dest: recover_mtp_keeps recover_mtp_next [OF _ _ forward_head [OF f]]
        split: if_splits sum.splits)
  with ch(1) g pc show "spec_inv A0 D0 q st'" by (simp add: spec_inv_def)
qed

lemma propose_eos:
  "propose E q n t h sc = Inr (cs, ks, sc') \<Longrightarrow>
     length cs \<le> n \<and> length ks = length cs \<and> (\<forall>c \<in> set (butlast cs). \<not> is_eos q c)"
proof (induction E q n t h sc arbitrary: cs ks sc' rule: propose.induct)
  case (1 E q input hidden scratch)
  then show ?case by simp
next
  case (2 E q n input hidden scratch)
  then show ?case
    by (fastforce split: sum.splits option.splits prod.splits if_splits)
qed

text \<open>What a round contributes: a piece of the greedy continuation, at whose end the loop
  stops exactly when it must.\<close>

definition round_adds ::
  "'r kv_cache list \<Rightarrow> ('s, 't) dn_cache list \<Rightarrow> request \<Rightarrow> ('h, 'r, 's, 't) spec_state \<Rightarrow>
   ('h, 'r, 's, 't) spec_state \<Rightarrow> bool \<Rightarrow> int list \<Rightarrow> bool" where
  "round_adds A0 D0 q st st' stop ts \<longleftrightarrow>
     generated st' = generated st @ ts \<and> ts \<noteq> [] \<and>
     length ts \<le> rq_max_new q - produced q st \<and>
     greedy_path E am A0 D0 (generated st) ts \<and>
     (\<forall>u \<in> set (butlast ts). u \<notin> set (rq_eos q)) \<and>
     (stop \<longleftrightarrow> rq_max_new q - produced q st \<le> length ts \<or> last ts \<in> set (rq_eos q)) \<and>
     (\<not> stop \<longrightarrow> spec_inv A0 D0 q st')"

lemma commit_adds:
  assumes st: "in_step A0 D0 (generated st) (st_attention st) (st_deltanet st) (next_target st)"
    and pc: "rq_prompt_count q \<le> length (generated st)"
    and f: "target_forward E p (next_target st # cs) (st_attention st) (st_deltanet st) = (Some (h, l), va, vd)"
    and m: "match_length (map am l) cs = length cs"
    and room: "length cs < rq_max_new q - produced q st" and neos: "\<not> is_eos q (next_target st)"
    and ceos: "\<forall>c \<in> set (butlast cs). \<not> is_eos q c"
    and st': "st' = commit_full E cs (map am l) h (va, vd) sc st"
    and stop: "stop \<longleftrightarrow> rq_max_new q \<le> produced q st' \<or> is_eos q (last (generated st'))"
  shows "round_adds A0 D0 q st st' stop (next_target st # cs)"
proof -
  have g: "generated st' = generated st @ next_target st # cs"
    using st' by (simp add: commit_full_generated)
  have gp: "greedy_path E am A0 D0 (generated st) (next_target st # cs)"
    using verified_path(1) [OF st f, of "length cs"] m by simp
  have beos: "\<forall>u \<in> set (butlast (next_target st # cs)). u \<notin> set (rq_eos q)"
    using neos ceos by (auto simp: is_eos_def)
  have lim: "rq_max_new q \<le> produced q st' \<longleftrightarrow> rq_max_new q - produced q st \<le> Suc (length cs)"
    using g pc room by (auto simp: produced_def)
  note ch = chunk_extends [OF st f, simplified]
  have ca: "st_attention st' = va" "st_deltanet st' = vd"
    using st' by (simp_all add: commit_full_def Let_def swap_after_forward [OF f])
  have lne: "l \<noteq> []" using ch(3) by auto
  then have nt: "next_target st' = am (last l)"
    using st' by (simp add: commit_full_def Let_def last_map)
  have "spec_inv A0 D0 q st'" using ch(1) g ca nt pc by (simp add: spec_inv_def)
  with g gp beos lim stop room show ?thesis
    by (auto simp: round_adds_def is_eos_def)
qed

lemma reject_adds:
  assumes inv: "spec_inv A0 D0 q st" 
    and f: "target_forward E p (next_target st # cs) (st_attention st) (st_deltanet st) = (Some (h, l), va, vd)"
    and m: "match_length (map am l) cs < length cs"
    and room: "length cs < rq_max_new q - produced q st" and neos: "\<not> is_eos q (next_target st)"
    and ceos: "\<forall>c \<in> set (butlast cs). \<not> is_eos q c"
    and r: "reject_suffix E q cs (map am l) (match_length (map am l) cs) ks st = Inr (st', s0)"
    and stop: "stop \<longleftrightarrow> s0 \<or> rq_max_new q \<le> produced q st' \<or> is_eos q (last (generated st'))"
  shows "round_adds A0 D0 q st st' stop
           (next_target st # take (match_length (map am l) cs) cs @ [am (l ! match_length (map am l) cs)])"
proof -
  let ?a = "match_length (map am l) cs"
  let ?ts = "next_target st # take ?a cs @ [am (l ! ?a)]"
  have st: "in_step A0 D0 (generated st) (st_attention st) (st_deltanet st) (next_target st)"
    and pc: "rq_prompt_count q \<le> length (generated st)" using inv by (auto simp: spec_inv_def)
  have len: "length l = Suc (length cs)" using chunk_extends(3) [OF st f] by simp
  have rm: "produced q st + Suc ?a < rq_max_new q" using m room by simp
  note rs = reject_suffix_step [OF r inv m rm]
  have g: "generated st' = generated st @ ?ts" using rs(1) m len by simp
  have gp: "greedy_path E am A0 D0 (generated st) ?ts"
    using verified_path(2) [OF st f order_refl] m len by simp
  have "take ?a cs = take ?a (butlast cs)" using m by (simp add: take_butlast)
  then have "\<forall>u \<in> set (butlast ?ts). u \<notin> set (rq_eos q)"
    using neos ceos by (auto simp: is_eos_def butlast_append dest: in_set_takeD)
  moreover have "rq_max_new q \<le> produced q st' \<longleftrightarrow> rq_max_new q - produced q st \<le> length ?ts"
    using g pc m by (auto simp: produced_def)
  moreover have "length ?ts \<le> rq_max_new q - produced q st" using m room by simp
  moreover have "s0 \<longleftrightarrow> rq_max_new q \<le> produced q st' \<or> is_eos q (am (l ! ?a))"
    using rs(2) m len by simp
  moreover have "last (generated st') = am (l ! ?a)" using g by simp
  ultimately show ?thesis using g gp rs(3) stop
    by (auto simp: round_adds_def is_eos_def)
qed

lemma round_outcome:
  assumes inv: "spec_inv A0 D0 q st" and room: "produced q st < rq_max_new q"
    and r: "spec_round E profile q st = Inr (st', stop)"
  shows "\<exists>ts. round_adds A0 D0 q st st' stop ts"
  using r
proof (cases rule: spec_round_cases)
  case final
  with inv room show ?thesis
    by (intro exI [of _ "[next_target st]"])
       (auto simp: round_adds_def spec_inv_def greedy_path_Cons is_eos_def dest: in_step_next)
next
  case (settle sc cs ks sc' v st1)
  have st: "in_step A0 D0 (generated st1) (st_attention st1) (st_deltanet st1) (next_target st1)"
    and pc: "rq_prompt_count q \<le> length (generated st1)" and inv1: "spec_inv A0 D0 q st1"
    using inv settle(5) by (auto simp: spec_inv_def)
  then have oks: "list_all kg (st_attention st1)" "list_all dg (st_deltanet st1)"
    by (auto simp: in_step_def)
  obtain ps h va vd where v: "v = (ps, h, va, vd)" by (cases v)
  from verify_candidates_Inr [OF settle(6) [unfolded v] oks] obtain l where
    f: "target_forward E profile (next_target st1 # cs) (st_attention st1) (st_deltanet st1) = (Some (h, l), va, vd)"
    and ps: "ps = map am l" by blast
  have ceos: "\<forall>c \<in> set (butlast cs). \<not> is_eos q c" and len: "length cs < rq_max_new q - produced q st1"
    using propose_eos [OF settle(4)] room settle(2,5) by (auto simp: produced_def)
  have neos: "\<not> is_eos q (next_target st1)" using settle(1,5) by simp
  have same: "round_adds A0 D0 q st1 st' stop ts = round_adds A0 D0 q st st' stop ts" for ts
    using settle(5) by (simp add: round_adds_def produced_def)
  from settle(7) [unfolded v] show ?thesis
  proof (cases rule: settle_round_cases)
    case commit
    from commit_adds [OF st pc f _ len neos ceos commit(2) [unfolded ps] commit(3)] commit(1) ps same
    show ?thesis by blast
  next
    case (reject s0)
    from reject_adds [OF inv1 f _ len neos ceos _ reject(3)] reject(1,2) ps same
    show ?thesis by blast
  qed
qed

lemma round_adds_greedy:
  assumes "round_adds A0 D0 q st st' stop ts"
  shows "greedy E am A0 D0 (rq_eos q) (rq_max_new q - produced q st) (generated st) =
     ts @ (if stop then []
           else greedy E am A0 D0 (rq_eos q) (rq_max_new q - produced q st - length ts) (generated st'))"
  using assms greedy_step [of E am A0 D0 "generated st" ts "rq_max_new q - produced q st" "rq_eos q"]
  by (auto simp: round_adds_def)

lemma spec_loop_greedy:
  assumes "spec_loop E profile q st = Inr st'" and "spec_inv A0 D0 q st"
  shows "generated st' = generated st @
           greedy E am A0 D0 (rq_eos q) (rq_max_new q - produced q st) (generated st)"
  using assms
proof (induction E\<equiv>E profile q st arbitrary: st' rule: spec_loop.induct)
  case (1 profile q st)
  show ?case
  proof (cases "produced q st < rq_max_new q")
    case False
    with 1(2) show ?thesis by (simp add: spec_loop.simps [of _ _ _ st])
  next
    case True
    with 1(2) obtain s stop where r: "spec_round E profile q st = Inr (s, stop)"
      by (cases "spec_round E profile q st") (auto simp: spec_loop.simps [of _ _ _ st])
    from round_outcome [OF 1(3) True r] obtain ts where ts: "round_adds A0 D0 q st s stop ts" by blast
    note g = round_adds_greedy [OF ts]
    show ?thesis
    proof (cases stop)
      case True
      with 1(2) r \<open>produced q st < rq_max_new q\<close> have "st' = s"
        by (simp add: spec_loop.simps [of _ _ _ st])
      with g True ts show ?thesis by (simp add: round_adds_def)
    next
      case False
      have "spec_loop E profile q s = Inr st'" 
        using 1(2) r \<open>produced q st < rq_max_new q\<close> False by (simp add: spec_loop.simps [of _ _ _ st])
      moreover have "spec_inv A0 D0 q s" using ts False by (simp add: round_adds_def)
      ultimately have "generated st' = generated s @
           greedy E am A0 D0 (rq_eos q) (rq_max_new q - produced q s) (generated s)"
        using 1(1) [OF True r] False by simp
      moreover have "produced q s = produced q st + length ts"
        using ts 1(3) by (simp add: round_adds_def spec_inv_def produced_def)
      ultimately show ?thesis using g False ts by (simp add: round_adds_def)
    qed
  qed
qed

section \<open>The two decode paths\<close>

definition caches_ok :: "('r, 's, 't) impl \<Rightarrow> bool" where
  "caches_ok I \<longleftrightarrow> list_all kg (attention_caches I) \<and> list_all dg (deltanet_caches I)"

lemma reset_caches_ok: "caches_ok (reset_impl I)"
  by (auto simp: caches_ok_def reset_impl_def list_all_iff kg_empty dg_empty)

lemma spec_prefill_inv:
  assumes p: "spec_prefill E ids I = Inr st" and ne: "ids \<noteq> []" and ok: "caches_ok I"
    and q: "rq_prompt_count q = length ids"
  shows "generated st = ids \<and> spec_inv (attention_caches I) (deltanet_caches I) q st"
proof -
  from p obtain h l as ds nx th mtp where
    f: "target_forward E False ids (attention_caches I) (deltanet_caches I) = (Some (h, l), as, ds)"
    and n: "argmax_last_row_reference E l = Some nx"
    and st: "st = \<lparr>generated = ids, st_attention = as, st_deltanet = ds, st_mtp = mtp,
       next_target = nx, target_hidden = th, counters = zero_counters\<rparr>"
    by (auto simp: spec_prefill_def split: option.splits sum.splits prod.splits)
  have r: "run_tokens E ids (attention_caches I) (deltanet_caches I) = Some (h, l, as, ds)"
    using forward_tokens [OF f ne] ok by (simp add: caches_ok_def)
  with run_tokens_length [OF r] ok ne have "l \<noteq> []" by (auto simp: caches_ok_def)
  with r n forward_ok [OF f] ok st q argmax_last [OF forward_head [OF f]] show ?thesis
    by (auto simp: spec_inv_def in_step_def caches_ok_def)
qed

lemma speculative_decode_greedy:
  assumes d: "speculative_decode E profile q ids I = Inr st" and ne: "ids \<noteq> []"
    and ok: "caches_ok I" and q: "rq_prompt_count q = length ids"
  shows "generated st = ids @ greedy E am (attention_caches I) (deltanet_caches I) (rq_eos q) (rq_max_new q) ids"
proof -
  from d obtain s where p: "spec_prefill E ids I = Inr s" and l: "spec_loop E profile q s = Inr st"
    by (auto simp: speculative_decode_def split: sum.splits)
  from spec_prefill_inv [OF p ne ok q] have g: "generated s = ids"
    and inv: "spec_inv (attention_caches I) (deltanet_caches I) q s" by auto
  from spec_loop_greedy [OF l inv] g q show ?thesis by (simp add: produced_def)
qed

lemma plain_layers_run:
  "plain_layers p i Ls h as ds = Inr (z, as', ds') \<Longrightarrow> run_layers False Ls h as ds = (Some z, as', ds')"
proof (induction Ls arbitrary: i h as ds as' ds')
  case Nil
  then show ?case by simp
next
  case (Cons L Ls)
  from Cons.prems obtain a at d dt where c: "as = a # at" "ds = d # dt"
    by (cases as; cases ds) (auto simp: api_fail_def)
  from Cons.prems [unfolded c] obtain h' m out a' d' at' dt' where
    r: "move_to L h = Some h'" "layer_mix L h' a d = (Some m, a', d')" "layer_tail L h' m = Some out"
    and p: "plain_layers p (Suc i) Ls out at dt = Inr (z, at', dt')" "as' = a' # at'" "ds' = d' # dt'"
    by (auto split: option.splits prod.splits sum.splits if_splits)
  from r Cons.IH [OF p(1)] c p(2,3) show ?case
    by (simp add: run_layer_def)
qed

lemma plain_forward_run:
  assumes e: "eng_embed E ids = Inr e" and f: "plain_forward E profile e as ds = Inr (h, l, as', ds')"
  shows "\<exists>n. target_forward E False ids as ds = (Some (n, l), as', ds')"
proof -
  from f obtain m where m: "plain_layers profile 0 (eng_layers E) e as ds = Inr (m, as', ds')"
    and h: "eng_to_final E m = Some h" and l: "Option.bind (eng_final_norm E h) (eng_lm_head E) = Some l"
    by (auto simp: plain_forward_def split: sum.splits option.splits prod.splits)
  from plain_layers_run [OF m] h l e show ?thesis
    by (auto simp: forward_Some Option.bind_eq_Some_conv)
qed

text \<open>The caches hold everything but the input of the coming step.\<close>

definition plain_inv ::
  "'r kv_cache list \<Rightarrow> ('s, 't) dn_cache list \<Rightarrow> nat \<Rightarrow> ('r, 's, 't) plain_state \<Rightarrow> bool" where
  "plain_inv A0 D0 step st \<longleftrightarrow>
     pl_generated st \<noteq> [] \<and>
     (\<exists>h l. run_tokens E (if step = 0 then [] else butlast (pl_generated st)) A0 D0 =
              Some (h, l, pl_attention st, pl_deltanet st)) \<and>
     list_all kg (pl_attention st) \<and> list_all dg (pl_deltanet st)"

lemma plain_step_greedy:
  assumes s: "plain_step E profile speculative use_mtp q step st = Inr (st', stop)"
    and inv: "plain_inv A0 D0 step st"
  shows "\<exists>t. greedy_next E am A0 D0 (pl_generated st) = Some t \<and>
             pl_generated st' = pl_generated st @ [t] \<and> (stop \<longleftrightarrow> t \<in> set (rq_eos q)) \<and>
             plain_inv A0 D0 (Suc step) st'"
proof -
  let ?g = "pl_generated st"
  let ?pre = "if step = 0 then [] else butlast ?g"
  let ?in = "if step = 0 then ?g else [last ?g]"
  from inv obtain h0 l0 where r0: "run_tokens E ?pre A0 D0 = Some (h0, l0, pl_attention st, pl_deltanet st)"
    and ne: "?g \<noteq> []" and ok: "list_all kg (pl_attention st)" "list_all dg (pl_deltanet st)"
    by (auto simp: plain_inv_def)
  obtain as ds where c: "(if speculative then clone_decoder_caches E (pl_attention st) (pl_deltanet st)
            else Some (pl_attention st, pl_deltanet st)) = Some (as, ds)"
    using s by (auto simp: plain_step_def split: option.splits)
  then have same: "as = pl_attention st" "ds = pl_deltanet st"
    using clone_decoder_same [OF _ ok] by (auto split: if_splits)
  obtain e where e: "eng_embed E ?in = Inr e"
    using s c by (cases "eng_embed E ?in") (auto simp: plain_step_def simp del: if_split)
  obtain h l as' ds' where f: "plain_forward E profile e as ds = Inr (h, l, as', ds')"
    using s c e by (cases "plain_forward E profile e as ds") (auto simp: plain_step_def simp del: if_split)
  obtain nx c' mtp' where st': "argmax_last_row_reference E l = Some nx"
    "stop \<longleftrightarrow> is_eos q nx"
    "st' = (let main = (if speculative
                then fst (swap_decoder_caches (pl_attention st) (pl_deltanet st) (as', ds'))
                else (as', ds')) in \<lparr>pl_generated = ?g @ [nx], pl_attention = fst main,
        pl_deltanet = snd main, pl_mtp = mtp', pl_counters = c'\<rparr>)"
    using s c e f
    by (auto simp: plain_step_def Let_def simp del: if_split split: option.splits sum.splits prod.splits)
  from plain_forward_run [OF e f] obtain n where
    t: "target_forward E False ?in (pl_attention st) (pl_deltanet st) = (Some (n, l), as', ds')"
    by (auto simp: same)
  have r: "run_tokens E ?in (pl_attention st) (pl_deltanet st) = Some (n, l, as', ds')"
    using forward_tokens [OF t _ ok] ne by simp
  have "length l = length ?in" using run_tokens_length [OF r ok] .
  with ne have lne: "l \<noteq> []" by (cases "step = 0") auto
  have "?pre @ ?in = ?g" using ne by simp
  with r0 r have full: "run_tokens E ?g A0 D0 = Some (h0 @ n, l0 @ l, as', ds')"
    using run_tokens_append [of E ?pre ?in A0 D0] by simp
  have cs: "pl_attention st' = as'" "pl_deltanet st' = ds'" "pl_generated st' = ?g @ [nx]"
    using st'(3) swap_after_forward [OF t] by (auto simp: Let_def)
  have "plain_inv A0 D0 (Suc step) st'"
    using full cs forward_ok [OF t ok] by (simp add: plain_inv_def)
  moreover have "nx = am (last l)" using argmax_last [OF forward_head [OF t] lne st'(1)] .
  ultimately show ?thesis using full lne cs st'(2)
    by (auto simp: greedy_next_def is_eos_def)
qed

lemma plain_loop_greedy:
  "plain_loop E profile speculative use_mtp q n step st = Inr st' \<Longrightarrow> plain_inv A0 D0 step st \<Longrightarrow>
     pl_generated st' = pl_generated st @ greedy E am A0 D0 (rq_eos q) n (pl_generated st)"
proof (induction n arbitrary: step st)
  case 0
  then show ?case by simp
next
  case (Suc n)
  from Suc.prems(1) obtain s stop where s: "plain_step E profile speculative use_mtp q step st = Inr (s, stop)"
    by (auto split: sum.splits)
  from plain_step_greedy [OF s Suc.prems(2)] obtain t where
    "greedy_next E am A0 D0 (pl_generated st) = Some t" "pl_generated s = pl_generated st @ [t]"
    "stop \<longleftrightarrow> t \<in> set (rq_eos q)" "plain_inv A0 D0 (Suc step) s" by blast
  with Suc s show ?case by (auto split: if_splits)
qed

text \<open>Whichever path \<open>generate\<close> takes, its tokens are the greedy ones.\<close>

theorem generate_ids_greedy:
  assumes g: "generate_ids E flags q ids opts I = Inr (gen, c, I')" and ne: "ids \<noteq> []"
    and ok: "caches_ok I" and q: "rq_prompt_count q = length ids"
  shows "gen = ids @ greedy E am (attention_caches I) (deltanet_caches I) (rq_eos q) (rq_max_new q) ids"
proof (cases "enable_speculative_mtp opts \<and> eng_mtp_layers E \<noteq> []")
  case True
  with g obtain st where "speculative_decode E (snd flags) q ids I = Inr st" "gen = generated st"
    by (auto simp: generate_ids_def split: sum.splits)
  with speculative_decode_greedy [OF _ ne ok q] show ?thesis by simp
next
  case False
  let ?st = "\<lparr>pl_generated = ids, pl_attention = attention_caches I,
                    pl_deltanet = deltanet_caches I, pl_mtp = mtp_attention_caches I,
                    pl_counters = zero_counters\<rparr>"
  from False g obtain st where l: "plain_loop E (fst flags) (enable_speculative_mtp opts)
                   (enable_mtp (impl_options I)) q (rq_max_new q) 0 ?st = Inr st" "gen = pl_generated st"
    by (auto simp: generate_ids_def simp del: de_Morgan_conj split: sum.splits)
  have "plain_inv (attention_caches I) (deltanet_caches I) 0 ?st"
    using ne ok by (simp add: plain_inv_def caches_ok_def)
  from plain_loop_greedy [OF l(1) this] l(2) show ?thesis by simp
qed

text \<open>The whole call: the tokens it returns are the greedy continuation of the encoded prompt from
  empty caches, whichever decode path the options choose.\<close>

theorem generate_greedy:
  assumes g: "generate E T backend_ok flags width result_given opts I0 = Inr (r, I')"
    and ne: "prompt_ids T opts \<noteq> []"
  shows "token_ids r = greedy E am (attention_caches (reset_impl I0)) (deltanet_caches (reset_impl I0))
           (merge_eos T) (nat (max_new_tokens opts)) (prompt_ids T opts)"
proof -
  let ?q = "\<lparr>rq_eos = merge_eos T, rq_prompt_count = length (prompt_ids T opts),
      rq_max_new = nat (max_new_tokens opts), rq_width = width\<rparr>"
  from g obtain gen c where i: "generate_ids E flags ?q (prompt_ids T opts) opts (reset_impl I0) = Inr (gen, c, I')"
    and r: "r = finish_result T (length (prompt_ids T opts)) gen c"
    by (auto simp: generate_def Let_def prompt_ids_def split: sum.splits if_splits)
  from generate_ids_greedy [OF i ne reset_caches_ok] r show ?thesis by (simp add: finish_result_def)
qed

end

end
