(* ===== verification/Float_Ops.thy ===== *)
theory Float_Ops
  imports Core_Types
begin

text \<open>
  Floating-point arithmetic as the program uses it. The values of \<open>float\<close> and of the
  narrower element types are one type \<open>'f\<close>; the arithmetic of the processor and the
  functions of \<open>cmath\<close> are the fields of a record. A narrower element type is
  represented by the values it can hold: \<open>f_store F d\<close> is what a later load returns
  for a value stored in an element of type \<open>d\<close>;
  \<open>f_trunc_bf16\<close> is the host conversion that drops the low half of the bits. The order of every sum is kept.
\<close>

section \<open>The operations\<close>

record 'f fops =
  f_int :: "int \<Rightarrow> 'f"
  f_lit :: "int \<Rightarrow> int \<Rightarrow> 'f"
  f_add :: "'f \<Rightarrow> 'f \<Rightarrow> 'f"
  f_sub :: "'f \<Rightarrow> 'f \<Rightarrow> 'f"
  f_mul :: "'f \<Rightarrow> 'f \<Rightarrow> 'f"
  f_div :: "'f \<Rightarrow> 'f \<Rightarrow> 'f"
  f_neg :: "'f \<Rightarrow> 'f"
  f_abs :: "'f \<Rightarrow> 'f"
  f_max :: "'f \<Rightarrow> 'f \<Rightarrow> 'f"
  f_exp :: "'f \<Rightarrow> 'f"
  f_log1p :: "'f \<Rightarrow> 'f"
  f_sqrt :: "'f \<Rightarrow> 'f"
  f_rsqrt :: "'f \<Rightarrow> 'f"
  f_sin :: "'f \<Rightarrow> 'f"
  f_cos :: "'f \<Rightarrow> 'f"
  f_tanh :: "'f \<Rightarrow> 'f"
  f_pow :: "'f \<Rightarrow> 'f \<Rightarrow> 'f"
  f_gt :: "'f \<Rightarrow> 'f \<Rightarrow> bool"
  f_neg_inf :: 'f
  f_trunc_bf16 :: "'f \<Rightarrow> 'f"
  f_store :: "dtype \<Rightarrow> 'f \<Rightarrow> 'f"

abbreviation f_zero :: "('f, 'z) fops_scheme \<Rightarrow> 'f" where
  "f_zero F \<equiv> f_int F 0"

abbreviation f_one :: "('f, 'z) fops_scheme \<Rightarrow> 'f" where
  "f_one F \<equiv> f_int F 1"

text \<open>\<open>1.0f / (1.0f + expf(-x))\<close> and \<open>x / (1.0f + expf(-x))\<close>.\<close>

definition f_sigmoid :: "'f fops \<Rightarrow> 'f \<Rightarrow> 'f" where
  "f_sigmoid F x = f_div F (f_one F) (f_add F (f_one F) (f_exp F (f_neg F x)))"

definition f_silu :: "'f fops \<Rightarrow> 'f \<Rightarrow> 'f" where
  "f_silu F x = f_div F x (f_add F (f_one F) (f_exp F (f_neg F x)))"

section \<open>Sums\<close>

text \<open>The accumulation loop \<open>for (i = 0; i < n; ++i) sum += g(i)\<close>.\<close>

definition acc_sum :: "'f fops \<Rightarrow> nat \<Rightarrow> (nat \<Rightarrow> 'f) \<Rightarrow> 'f" where
  "acc_sum F n g = fold (\<lambda>i s. f_add F s (g i)) [0..<n] (f_zero F)"

definition acc_max :: "'f fops \<Rightarrow> nat \<Rightarrow> (nat \<Rightarrow> 'f) \<Rightarrow> 'f" where
  "acc_max F n g = fold (\<lambda>i s. f_max F s (g i)) [0..<n] (f_neg_inf F)"

text \<open>The columns a lane visits: \<open>for (c = lane; c < n; c += lanes)\<close>.\<close>

definition strided :: "nat \<Rightarrow> nat \<Rightarrow> nat \<Rightarrow> nat list" where
  "strided lanes n lane = filter (\<lambda>c. c mod lanes = lane) [0..<n]"

definition lane_sum :: "'f fops \<Rightarrow> nat \<Rightarrow> nat \<Rightarrow> (nat \<Rightarrow> 'f) \<Rightarrow> nat \<Rightarrow> 'f" where
  "lane_sum F lanes n g lane =
     fold (\<lambda>c s. f_add F s (g c)) (strided lanes n lane) (f_zero F)"

text \<open>The tree reduction in shared memory: \<open>stride = lanes / 2, \<dots>, 1\<close>, and the value
  left in element 0.\<close>

definition tree_step :: "'f fops \<Rightarrow> nat \<Rightarrow> 'f list \<Rightarrow> 'f list" where
  "tree_step F stride xs =
     map (\<lambda>i. if i < stride then f_add F (xs ! i) (xs ! (i + stride)) else xs ! i) [0..<length xs]"

function tree_reduce :: "'f fops \<Rightarrow> nat \<Rightarrow> 'f list \<Rightarrow> 'f list" where
  "tree_reduce F stride xs =
     (if stride = 0 then xs else tree_reduce F (stride div 2) (tree_step F stride xs))"
  by pat_completeness auto
termination by (relation "measure (\<lambda>(F, s, xs). s)") auto

declare tree_reduce.simps [simp del]

definition block_sum :: "'f fops \<Rightarrow> nat \<Rightarrow> nat \<Rightarrow> (nat \<Rightarrow> 'f) \<Rightarrow> 'f" where
  "block_sum F lanes n g =
     tree_reduce F (lanes div 2) (map (lane_sum F lanes n g) [0..<lanes]) ! 0"

text \<open>The reduction by wavefront shuffles. A lane whose partner is outside the wavefront
  receives its own value; the sum of the wavefront is in lane 0.\<close>

definition shfl_step :: "'f fops \<Rightarrow> nat \<Rightarrow> 'f list \<Rightarrow> 'f list" where
  "shfl_step F offset xs =
     map (\<lambda>i. f_add F (xs ! i) (if i + offset < length xs then xs ! (i + offset) else xs ! i))
       [0..<length xs]"

function shfl_reduce :: "'f fops \<Rightarrow> nat \<Rightarrow> 'f list \<Rightarrow> 'f list" where
  "shfl_reduce F offset xs =
     (if offset = 0 then xs else shfl_reduce F (offset div 2) (shfl_step F offset xs))"
  by pat_completeness auto
termination by (relation "measure (\<lambda>(F, s, xs). s)") auto

declare shfl_reduce.simps [simp del]

definition wave_sum :: "'f fops \<Rightarrow> nat \<Rightarrow> (nat \<Rightarrow> 'f) \<Rightarrow> 'f" where
  "wave_sum F lanes g = shfl_reduce F (lanes div 2) (map g [0..<lanes]) ! 0"

text \<open>A block of several wavefronts: each wavefront's sum, then their sum in order.\<close>

definition waves_sum :: "'f fops \<Rightarrow> nat \<Rightarrow> nat \<Rightarrow> (nat \<Rightarrow> 'f) \<Rightarrow> 'f" where
  "waves_sum F warp n g =
     acc_sum F (n div warp) (\<lambda>w. wave_sum F warp (\<lambda>lane. g (w * warp + lane)))"

lemma acc_sum_cong:
  "(\<And>i. i < n \<Longrightarrow> g i = h i) \<Longrightarrow> acc_sum F n g = acc_sum F n h"
  unfolding acc_sum_def by (rule fold_cong) auto

lemma acc_max_cong:
  "(\<And>i. i < n \<Longrightarrow> g i = h i) \<Longrightarrow> acc_max F n g = acc_max F n h"
  unfolding acc_max_def by (rule fold_cong) auto

lemma lane_sum_cong:
  "(\<And>i. i < n \<Longrightarrow> g i = h i) \<Longrightarrow> lane_sum F lanes n g lane = lane_sum F lanes n h lane"
  unfolding lane_sum_def by (rule fold_cong) (auto simp: strided_def)

lemma block_sum_cong:
  assumes "\<And>i. i < n \<Longrightarrow> g i = h i"
  shows "block_sum F lanes n g = block_sum F lanes n h"
proof -
  have "lane_sum F lanes n g = lane_sum F lanes n h"
    using lane_sum_cong [OF assms] by (intro ext) auto
  then show ?thesis by (simp add: block_sum_def)
qed

lemma wave_sum_cong:
  assumes "\<And>i. i < n \<Longrightarrow> g i = h i"
  shows "wave_sum F n g = wave_sum F n h"
proof -
  have "map g [0..<n] = map h [0..<n]" using assms by auto
  then show ?thesis by (simp only: wave_sum_def)
qed

lemma waves_sum_cong:
  assumes "\<And>i. i < n \<Longrightarrow> g i = h i" and "0 < warp"
  shows "waves_sum F warp n g = waves_sum F warp n h"
  unfolding waves_sum_def
proof (rule acc_sum_cong)
  fix w assume w: "w < n div warp"
  show "wave_sum F warp (\<lambda>lane. g (w * warp + lane)) = wave_sum F warp (\<lambda>lane. h (w * warp + lane))"
  proof (rule wave_sum_cong)
    fix lane assume "lane < warp"
    moreover have "Suc w * warp \<le> n div warp * warp" using w by (intro mult_le_mono1) simp
    moreover have "n div warp * warp \<le> n" by (rule div_times_less_eq_dividend)
    ultimately have "w * warp + lane < n" unfolding mult_Suc by linarith
    then show "g (w * warp + lane) = h (w * warp + lane)" by (rule assms(1))
  qed
qed

text \<open>Every value read from a buffer of an element type has been stored in it: storing it
  again changes nothing.\<close>

definition stored :: "'f fops \<Rightarrow> dtype \<Rightarrow> 'f \<Rightarrow> bool" where
  "stored F d v \<longleftrightarrow> f_store F d v = v"

definition store_idem :: "'f fops \<Rightarrow> bool" where
  "store_idem F \<longleftrightarrow> (\<forall>d v. f_store F d (f_store F d v) = f_store F d v)"

lemma stored_store [simp]: "store_idem F \<Longrightarrow> stored F d (f_store F d v)"
  by (simp add: store_idem_def stored_def)

end
