(* ===== verification/Tensor_Core.thy ===== *)
theory Tensor_Core
  imports Float_Ops
begin

text \<open>
  Buffers, the backend interface and tensors: \<open>class Buffer\<close> and \<open>class Backend\<close> of
  \<open>src/backends/interface/backend.h\<close> and \<open>src/core/tensor.h, tensor.cc\<close>. A buffer
  holds the values of its elements; a default \<open>Tensor()\<close>, whose buffer is null, is
  \<open>None\<close> wherever a tensor is returned. A backend is the record of its virtual
  functions: each returns the new contents of its destination or a failure, and
  \<open>bk_create\<close> says which allocations succeed.
\<close>

section \<open>Buffers\<close>

record 'f buffer =
  bf_device :: device
  bf_mem :: memory_type
  bf_width :: nat
  bf_data :: "'f list"

text \<open>The size in bytes.\<close>

definition bf_size :: "'f buffer \<Rightarrow> nat" where
  "bf_size b = bf_width b * length (bf_data b)"

text \<open>A kernel that writes the first \<open>length xs\<close> elements of its destination.\<close>

definition write_prefix :: "'f list \<Rightarrow> 'f buffer \<Rightarrow> 'f buffer" where
  "write_prefix xs b = b\<lparr>bf_data := xs @ drop (length xs) (bf_data b)\<rparr>"

lemma write_prefix_simps [simp, size_simps]:
  "bf_device (write_prefix xs b) = bf_device b"
  "bf_mem (write_prefix xs b) = bf_mem b"
  "bf_width (write_prefix xs b) = bf_width b"
  by (simp_all add: write_prefix_def)

lemma write_prefix_full:
  "length (bf_data b) = length xs \<Longrightarrow> bf_data (write_prefix xs b) = xs"
  by (simp add: write_prefix_def)

section \<open>The backend interface\<close>

record 'f backend =
  bk_device :: device
  bk_create :: "nat \<Rightarrow> memory_type \<Rightarrow> bool"
  bk_synchronize :: "unit result"
  bk_copy :: "'f buffer \<Rightarrow> 'f buffer \<Rightarrow> nat \<Rightarrow> 'f buffer result"
  bk_copy_to_offset :: "'f buffer \<Rightarrow> nat \<Rightarrow> 'f buffer \<Rightarrow> nat \<Rightarrow> nat \<Rightarrow> 'f buffer result"
  bk_memcpy_h2d :: "'f buffer \<Rightarrow> 'f list \<Rightarrow> 'f buffer result"
  bk_memcpy_d2h :: "'f buffer \<Rightarrow> nat \<Rightarrow> 'f list result"
  bk_cast :: "'f buffer \<Rightarrow> 'f buffer \<Rightarrow> dtype \<Rightarrow> dtype \<Rightarrow> int \<Rightarrow> 'f buffer result"
  bk_memset :: "'f buffer \<Rightarrow> nat \<Rightarrow> 'f buffer result"
  bk_gemm :: "'f buffer \<Rightarrow> 'f buffer \<Rightarrow> 'f buffer \<Rightarrow> dtype \<times> dtype \<times> dtype \<times> dtype \<Rightarrow>
    bool \<Rightarrow> bool \<Rightarrow> int \<Rightarrow> int \<Rightarrow> int \<Rightarrow> 'f \<Rightarrow> 'f \<Rightarrow> 'f buffer result"
  bk_add :: "'f buffer \<Rightarrow> 'f buffer \<Rightarrow> 'f buffer \<Rightarrow> dtype \<Rightarrow> int \<Rightarrow> 'f buffer result"
  bk_add_row_bias :: "'f buffer \<Rightarrow> 'f buffer \<Rightarrow> dtype \<Rightarrow> int \<Rightarrow> int \<Rightarrow> 'f buffer result"
  bk_strided_copy :: "'f buffer \<Rightarrow> 'f buffer \<Rightarrow> dtype \<Rightarrow> int \<Rightarrow> int list \<Rightarrow> int list \<Rightarrow> 'f buffer result"
  bk_embedding_gather ::
    "'f buffer \<Rightarrow> 'f buffer \<Rightarrow> int list \<Rightarrow> dtype \<Rightarrow> int \<Rightarrow> int \<Rightarrow> int \<Rightarrow> 'f buffer result"
  bk_rmsnorm ::
    "'f buffer \<Rightarrow> 'f buffer \<Rightarrow> 'f buffer \<Rightarrow> dtype \<Rightarrow> int \<Rightarrow> int \<Rightarrow> 'f \<Rightarrow> bool \<Rightarrow> 'f buffer result"
  bk_unary :: "'f buffer \<Rightarrow> 'f buffer \<Rightarrow> dtype \<Rightarrow> int \<Rightarrow> nat \<Rightarrow> 'f \<Rightarrow> 'f buffer result"
  bk_silu_mul :: "'f buffer \<Rightarrow> 'f buffer \<Rightarrow> 'f buffer \<Rightarrow> dtype \<Rightarrow> int \<Rightarrow> 'f buffer result"
  bk_split_q_gate ::
    "'f buffer \<Rightarrow> 'f buffer \<Rightarrow> 'f buffer \<Rightarrow> dtype \<Rightarrow> int \<Rightarrow> int \<Rightarrow> int \<Rightarrow> ('f buffer \<times> 'f buffer) result"
  bk_partial_rope ::
    "'f buffer \<Rightarrow> 'f buffer \<Rightarrow> dtype \<Rightarrow> int \<Rightarrow> int \<Rightarrow> int \<Rightarrow> int \<Rightarrow> int \<Rightarrow> 'f \<Rightarrow> 'f buffer result"
  bk_qk_rmsnorm_rope ::
    "'f buffer \<times> 'f buffer \<times> 'f buffer \<Rightarrow> 'f buffer \<times> 'f buffer \<times> 'f buffer \<Rightarrow> dtype \<Rightarrow>
     int \<Rightarrow> int \<Rightarrow> int \<Rightarrow> int \<Rightarrow> int \<Rightarrow> int \<Rightarrow> 'f \<Rightarrow> 'f \<Rightarrow> bool \<Rightarrow> ('f buffer \<times> 'f buffer) result"
  bk_q_gate_rmsnorm_rope ::
    "'f buffer \<Rightarrow> 'f buffer \<Rightarrow> 'f buffer \<Rightarrow> 'f buffer \<Rightarrow> dtype \<Rightarrow>
     int \<Rightarrow> int \<Rightarrow> int \<Rightarrow> int \<Rightarrow> int \<Rightarrow> 'f \<Rightarrow> 'f \<Rightarrow> bool \<Rightarrow> ('f buffer \<times> 'f buffer) result"
  bk_causal_gqa ::
    "'f buffer \<Rightarrow> 'f buffer \<Rightarrow> 'f buffer \<Rightarrow> 'f buffer \<Rightarrow> 'f buffer option \<Rightarrow> dtype \<Rightarrow>
     int \<Rightarrow> int \<Rightarrow> int \<Rightarrow> int \<Rightarrow> 'f buffer result"
  bk_append_kv_cache ::
    "'f buffer \<Rightarrow> 'f buffer \<Rightarrow> 'f buffer \<Rightarrow> 'f buffer \<Rightarrow> dtype \<Rightarrow>
     int \<Rightarrow> int \<Rightarrow> int \<Rightarrow> int \<Rightarrow> int \<Rightarrow> ('f buffer \<times> 'f buffer) result"
  bk_cached_gqa ::
    "'f buffer \<Rightarrow> 'f buffer \<Rightarrow> 'f buffer \<Rightarrow> 'f buffer \<Rightarrow> 'f buffer option \<Rightarrow> dtype \<Rightarrow>
     int \<Rightarrow> int \<Rightarrow> int \<Rightarrow> int \<Rightarrow> int \<Rightarrow> 'f buffer result"
  bk_cached_gqa_with_current_token ::
    "'f buffer \<Rightarrow> 'f buffer \<Rightarrow> 'f buffer \<Rightarrow> 'f buffer \<Rightarrow> 'f buffer \<Rightarrow> 'f buffer \<Rightarrow>
     'f buffer option \<Rightarrow> dtype \<Rightarrow> int \<Rightarrow> int \<Rightarrow> int \<Rightarrow> int \<Rightarrow>
     ('f buffer \<times> 'f buffer \<times> 'f buffer) result"
  bk_causal_conv1d_silu ::
    "'f buffer \<Rightarrow> 'f buffer \<Rightarrow> 'f buffer \<Rightarrow> 'f buffer \<Rightarrow> dtype \<Rightarrow> int \<Rightarrow> int \<Rightarrow> int \<Rightarrow>
     ('f buffer \<times> 'f buffer) result"
  bk_deltanet_grouped_conv ::
    "'f buffer \<times> 'f buffer \<times> 'f buffer \<Rightarrow> 'f buffer \<Rightarrow> 'f buffer \<Rightarrow> 'f buffer \<Rightarrow> dtype \<Rightarrow>
     int \<Rightarrow> int \<Rightarrow> int \<Rightarrow> int \<Rightarrow> int \<Rightarrow> int \<Rightarrow>
     (('f buffer \<times> 'f buffer \<times> 'f buffer) \<times> 'f buffer) result"
  bk_deltanet_recurrent ::
    "'f buffer \<Rightarrow> 'f buffer \<Rightarrow> 'f buffer \<times> 'f buffer \<times> 'f buffer \<Rightarrow>
     'f buffer \<times> 'f buffer \<times> 'f buffer \<times> 'f buffer \<times> 'f buffer \<times> 'f buffer \<Rightarrow> dtype \<Rightarrow>
     int \<Rightarrow> int \<Rightarrow> int \<Rightarrow> int \<Rightarrow> int \<Rightarrow> 'f \<Rightarrow> ('f buffer \<times> 'f buffer) result"
  bk_argmax_last_row :: "'f buffer \<Rightarrow> dtype \<Rightarrow> int \<Rightarrow> int \<Rightarrow> int result"
  bk_argmax_rows :: "'f buffer \<Rightarrow> dtype \<Rightarrow> int \<Rightarrow> int \<Rightarrow> int list result"
  bk_junk :: 'f

text \<open>\<open>create_buffer\<close> for \<open>count\<close> elements of a type: null when the allocation
  fails. A negative count is a huge unsigned size, which cannot be allocated. Fresh
  elements have some fixed contents.\<close>

definition create_buffer :: "'f backend \<Rightarrow> int \<Rightarrow> dtype \<Rightarrow> memory_type \<Rightarrow> 'f buffer option" where
  "create_buffer B count d m =
     (if count < 0 \<or> \<not> bk_create B (nat count * SizeOfDType d) m then None
      else Some \<lparr>bf_device = bk_device B, bf_mem = m, bf_width = SizeOfDType d,
                 bf_data = replicate (nat count) (bk_junk B)\<rparr>)"

lemma create_buffer_Some:
  "create_buffer B count d m = Some b \<longleftrightarrow>
     0 \<le> count \<and> bk_create B (nat count * SizeOfDType d) m \<and>
     b = \<lparr>bf_device = bk_device B, bf_mem = m, bf_width = SizeOfDType d,
          bf_data = replicate (nat count) (bk_junk B)\<rparr>"
  by (auto simp: create_buffer_def)

text \<open>The registry's \<open>get_backend\<close>, as seen by an operator.\<close>

type_synonym 'f backends = "device \<Rightarrow> 'f backend option"

section \<open>Tensors\<close>

record 'f tensor =
  t_shape :: shape
  t_dtype :: dtype
  t_device :: device
  t_buffer :: "'f buffer"
  t_strides :: "int list"
  t_contiguous :: bool

text \<open>The strides of a dense layout, from the last dimension to the first, and the check
  against them.\<close>

definition compute_strides :: "shape \<Rightarrow> int list" where
  "compute_strides s =
     fst (foldr (\<lambda>d (strides, stride). (stride # strides, stride * d)) s ([], 1))"

definition check_contiguous :: "shape \<Rightarrow> int list \<Rightarrow> bool" where
  "check_contiguous s strides =
     fst (foldr (\<lambda>(d, st) (ok, stride). (ok \<and> st = stride, stride * d)) (zip s strides) (True, 1))"

definition mk_tensor :: "shape \<Rightarrow> dtype \<Rightarrow> device \<Rightarrow> 'f buffer \<Rightarrow> 'f tensor" where
  "mk_tensor s d dev b = \<lparr>t_shape = s, t_dtype = d, t_device = dev, t_buffer = b,
     t_strides = compute_strides s, t_contiguous = True\<rparr>"

definition mk_strided_tensor ::
  "shape \<Rightarrow> dtype \<Rightarrow> device \<Rightarrow> 'f buffer \<Rightarrow> int list \<Rightarrow> 'f tensor" where
  "mk_strided_tensor s d dev b strides = \<lparr>t_shape = s, t_dtype = d, t_device = dev,
     t_buffer = b, t_strides = strides, t_contiguous = check_contiguous s strides\<rparr>"

definition t_numel :: "'f tensor \<Rightarrow> int" where
  "t_numel t = numel (t_shape t)"

definition t_data :: "'f tensor \<Rightarrow> 'f list" where
  "t_data t = bf_data (t_buffer t)"

definition t_mem :: "'f tensor \<Rightarrow> memory_type" where
  "t_mem t = bf_mem (t_buffer t)"

text \<open>\<open>size_t nbytes()\<close>, for a tensor whose dimensions are not negative.\<close>

definition t_nbytes :: "'f tensor \<Rightarrow> nat" where
  "t_nbytes t = nat (t_numel t) * SizeOfDType (t_dtype t)"

lemma mk_tensor_simps [simp, size_simps]:
  "t_shape (mk_tensor s d dev b) = s"
  "t_dtype (mk_tensor s d dev b) = d"
  "t_device (mk_tensor s d dev b) = dev"
  "t_buffer (mk_tensor s d dev b) = b"
  "t_strides (mk_tensor s d dev b) = compute_strides s"
  "t_contiguous (mk_tensor s d dev b)"
  "t_data (mk_tensor s d dev b) = bf_data b"
  "t_mem (mk_tensor s d dev b) = bf_mem b"
  "t_numel (mk_tensor s d dev b) = numel s"
  by (simp_all add: mk_tensor_def t_data_def t_mem_def t_numel_def)

lemma strides_fold:
  "foldr (\<lambda>d (strides, stride). (stride # strides, stride * d)) s ([], 1) =
     (map (\<lambda>i. prod_list (drop (Suc i) s)) [0..<length s], prod_list (s :: int list))"
proof (induction s)
  case Nil
  then show ?case by simp
next
  case (Cons d s)
  have "map (\<lambda>i. prod_list (drop (Suc i) (d # s))) [0..<length (d # s)] =
        prod_list s # map (\<lambda>i. prod_list (drop (Suc i) s)) [0..<length s]"
    by (simp add: upt_conv_Cons map_Suc_upt [symmetric] del: upt_Suc)
  with Cons show ?case by simp
qed

text \<open>Stride \<open>i\<close> is the number of elements behind dimension \<open>i\<close>.\<close>

lemma compute_strides_eq:
  "compute_strides s = map (\<lambda>i. prod_list (drop (Suc i) s)) [0..<length s]"
  by (simp only: compute_strides_def strides_fold fst_conv)

lemma compute_strides_length [simp]: "length (compute_strides s) = length s"
  by (simp add: compute_strides_eq)

lemma compute_strides_Cons: "compute_strides (d # s) = prod_list s # compute_strides s"
  by (simp add: compute_strides_eq upt_conv_Cons map_Suc_upt [symmetric] del: upt_Suc)

lemma check_contiguous_fold:
  "length st = length s \<Longrightarrow>
   foldr (\<lambda>(d, st) (ok, stride). (ok \<and> st = stride, stride * d)) (zip s st) (True, 1) =
     (st = compute_strides s, prod_list (s :: int list))"
  by (induction s st rule: list_induct2')
     (auto simp: compute_strides_Cons compute_strides_eq [of "[]"])

text \<open>The check recognises exactly the dense layout.\<close>

lemma check_contiguous_iff:
  "length st = length s \<Longrightarrow> check_contiguous s st \<longleftrightarrow> st = compute_strides s"
  by (simp add: check_contiguous_def check_contiguous_fold)

section \<open>Strided copies\<close>

text \<open>The source index of a coordinate vector.\<close>

definition strided_offset :: "int list \<Rightarrow> int list \<Rightarrow> int" where
  "strided_offset idx strides = sum_list (map2 (\<lambda>i s. i * s) idx strides)"

text \<open>The odometer of the general CPU path: increment the last coordinate, and carry.\<close>

fun increment_indices :: "int list \<Rightarrow> shape \<Rightarrow> int list \<times> bool" where
  "increment_indices [] s = ([], True)"
| "increment_indices (i # is) [] = (i # is, False)"
| "increment_indices (i # is) (d # ds) =
     (case increment_indices is ds of
        (is', carry) \<Rightarrow>
          (if \<not> carry then (i # is', False)
           else if i + 1 < d then ((i + 1) # is', False)
           else (0 # is', True)))"

fun strided_walk :: "nat \<Rightarrow> 'f list \<Rightarrow> shape \<Rightarrow> int list \<Rightarrow> int list \<Rightarrow> 'f list" where
  "strided_walk 0 src s strides idx = []"
| "strided_walk (Suc n) src s strides idx =
     src ! nat (strided_offset idx strides) #
       strided_walk n src s strides (fst (increment_indices idx s))"

text \<open>The coordinates of a flat index, as \<open>strided_copy_kernel\<close> computes them: from the
  last dimension, by remainder and quotient.\<close>

definition kernel_source_index :: "shape \<Rightarrow> int list \<Rightarrow> int \<Rightarrow> int" where
  "kernel_source_index s strides index =
     snd (foldr (\<lambda>(d, st) (remaining, source). (remaining div d, source + (remaining mod d) * st))
            (zip s strides) (index, 0))"

fun coordinates :: "shape \<Rightarrow> int \<Rightarrow> int list" where
  "coordinates [] i = []"
| "coordinates (d # s) i = (i div prod_list s) mod d # coordinates s i"

definition contiguous :: "'f backends \<Rightarrow> 'f tensor \<Rightarrow> 'f tensor option" where
  "contiguous reg t =
     (if t_contiguous t then Some t
      else
        (case reg (t_device t) of
           None \<Rightarrow> None
         | Some backend \<Rightarrow>
             (case create_buffer backend (t_numel t) (t_dtype t) (t_mem t) of
                None \<Rightarrow> None
              | Some dst \<Rightarrow>
                  (let s = t_shape t; strides = t_strides t; n = nat (t_numel t);
                       src = t_data t;
                       maximum_source_index = sum_list (map2 (\<lambda>d st. (d - 1) * st) s strides)
                   in
                   (if list_ex (\<lambda>(d, st). d \<le> 0 \<or> st < 0) (zip s strides) then None
                    else if bf_size (t_buffer t) <
                            nat (maximum_source_index + 1) * SizeOfDType (t_dtype t) then None
                    else if is_gpu (t_device t)
                    then (case bk_strided_copy backend dst (t_buffer t) (t_dtype t) (t_numel t)
                                 s strides of
                            Inl _ \<Rightarrow> None
                          | Inr out \<Rightarrow> Some (mk_tensor s (t_dtype t) (t_device t) out))
                    else
                      (let values =
                         (if length strides = 1
                          then map (\<lambda>i. src ! nat (int i * (strides ! 0))) [0..<n]
                          else if length strides = 2
                          then concat (map (\<lambda>i. map (\<lambda>j. src ! nat (int i * (strides ! 0) +
                                                                    int j * (strides ! 1)))
                                             [0..<nat (s ! 1)]) [0..<nat (s ! 0)])
                          else strided_walk n src s strides (replicate (length strides) 0))
                       in Some (mk_tensor s (t_dtype t) (t_device t) (write_prefix values dst))))))))"

text \<open>The view of the same buffer with another shape.\<close>

definition reshape :: "'f tensor \<Rightarrow> shape \<Rightarrow> 'f tensor option" where
  "reshape t s =
     (if numel s \<noteq> numel (t_shape t) then None
      else Some (mk_tensor s (t_dtype t) (t_device t) (t_buffer t)))"

text \<open>Transfer to another device.\<close>

definition to_device :: "'f backends \<Rightarrow> 'f tensor \<Rightarrow> device \<Rightarrow> 'f tensor option" where
  "to_device reg t target =
     (if device_eq (t_device t) target then Some t
      else
        (case reg target of
           None \<Rightarrow> None
         | Some backend \<Rightarrow>
             (case create_buffer backend (t_numel t) (t_dtype t)
                     (if is_cpu target then HostMem else DeviceMem) of
                None \<Rightarrow> None
              | Some dst \<Rightarrow>
                  (case bk_copy backend dst (t_buffer t) (t_nbytes t) of
                     Inl _ \<Rightarrow> None
                   | Inr out \<Rightarrow>
                       (case bk_synchronize backend of
                          Inl _ \<Rightarrow> None
                        | Inr _ \<Rightarrow> Some (mk_tensor (t_shape t) (t_dtype t) target out))))))"

section \<open>What the strided copies read\<close>

lemma prod_list_pos: "(\<And>d. d \<in> set s \<Longrightarrow> 0 < d) \<Longrightarrow> 0 < prod_list (s :: int list)"
  by (induction s) auto

lemma coordinates_length [simp]: "length (coordinates s i) = length s"
  by (induction s arbitrary: i) auto

lemma mod_step:
  assumes "0 < (d::int)"
  shows "q mod d = (if (q - 1) mod d + 1 < d then (q - 1) mod d + 1 else 0)"
proof -
  let ?r = "(q - 1) mod d"
  have r: "0 \<le> ?r" "?r < d" using assms by simp_all
  have "q = d * ((q - 1) div d) + (?r + 1)" using mult_div_mod_eq [of d "q - 1"] by linarith
  then have "q mod d = (?r + 1) mod d" by (metis mod_mult_self4)
  with r show ?thesis by (cases "?r + 1 = d") auto
qed

text \<open>The odometer steps from the coordinates of one flat index to those of the next.\<close>

lemma increment_coordinates:
  assumes "\<And>d. d \<in> set s \<Longrightarrow> 0 < d" and "0 \<le> i"
  shows "increment_indices (coordinates s i) s = (coordinates s (i + 1), (i + 1) mod prod_list s = 0)"
  using assms
proof (induction s)
  case Nil
  then show ?case by simp
next
  case (Cons d s)
  let ?P = "prod_list s"
  have P: "0 < ?P" using Cons.prems by (intro prod_list_pos) simp
  have d: "0 < d" using Cons.prems by simp
  have IH: "increment_indices (coordinates s i) s = (coordinates s (i + 1), (i + 1) mod ?P = 0)"
    using Cons by simp
  have split: "(i + 1) mod (d * ?P) = ((i + 1) div ?P mod d) * ?P + (i + 1) mod ?P"
    using zmod_zmult2_eq [of d "i + 1" ?P] d by (simp add: mult.commute)
  show ?case
  proof (cases "(i + 1) mod ?P = 0")
    case False
    have "(i + 1) div ?P = i div ?P"
    proof -
      have "i mod ?P + 1 \<noteq> ?P" using False by (metis mod_self mod_add_left_eq)
      moreover have "i mod ?P < ?P" using P by simp
      ultimately have "i mod ?P + 1 < ?P" by simp
      moreover have "i + 1 = ?P * (i div ?P) + (i mod ?P + 1)" by simp
      moreover have "0 \<le> i mod ?P" using P by simp
      ultimately show ?thesis by (intro int_div_pos_eq [of _ _ _ "i mod ?P + 1"]) auto
    qed
    moreover have "(i + 1) mod (d * ?P) \<noteq> 0"
    proof -
      have "0 \<le> ((i + 1) div ?P mod d) * ?P" using P d by simp
      moreover have "0 < (i + 1) mod ?P" using False P
        by (metis pos_mod_sign order_le_less)
      ultimately show ?thesis using split by simp
    qed
    ultimately show ?thesis using IH False by simp
  next
    case True
    then obtain q where q: "i + 1 = ?P * q" by (metis dvd_def mod_0_imp_dvd)
    then have div1: "(i + 1) div ?P = q" using P by simp
    have div0: "i div ?P = q - 1"
    proof -
      have "i = ?P * (q - 1) + (?P - 1)" using q by (simp add: algebra_simps)
      then show ?thesis using P by (intro int_div_pos_eq [of _ _ _ "?P - 1"]) auto
    qed
    have md: "(i + 1) mod (d * ?P) = 0 \<longleftrightarrow> q mod d = 0"
      using split True div1 P by simp
    show ?thesis
    proof (cases "(q - 1) mod d + 1 < d")
      case True
      then have "q mod d = (q - 1) mod d + 1" using mod_step [OF d, of q] by simp
      moreover have "0 \<le> (q - 1) mod d" using d by simp
      ultimately show ?thesis using IH \<open>(i + 1) mod ?P = 0\<close> True div0 div1 md by simp
    next
      case False
      then have "q mod d = 0" using mod_step [OF d, of q] by simp
      then show ?thesis using IH \<open>(i + 1) mod ?P = 0\<close> False div0 div1 md by simp
    qed
  qed
qed

lemma strided_walk_coordinates:
  assumes "\<And>d. d \<in> set s \<Longrightarrow> 0 < d" and "0 \<le> i"
  shows "strided_walk n src s strides (coordinates s i) =
           map (\<lambda>k. src ! nat (strided_offset (coordinates s (i + int k)) strides)) [0..<n]"
  using assms(2)
proof (induction n arbitrary: i)
  case 0
  then show ?case by simp
next
  case (Suc n)
  have "fst (increment_indices (coordinates s i) s) = coordinates s (i + 1)"
    using increment_coordinates [OF assms(1) Suc.prems] by simp
  with Suc.IH [of "i + 1"] Suc.prems show ?case
    by (simp add: upt_conv_Cons map_Suc_upt [symmetric] algebra_simps del: upt_Suc)
qed

lemma coordinates_zero: "coordinates s 0 = replicate (length s) 0"
  by (induction s) auto

text \<open>The kernel's remainder loop finds the same coordinates.\<close>

lemma kernel_source_fold:
  assumes "\<And>d. d \<in> set s \<Longrightarrow> 0 < d" and "length st = length s"
  shows "foldr (\<lambda>(d, st) (remaining, source). (remaining div d, source + (remaining mod d) * st))
            (zip s st) (i, 0) = (i div prod_list s, strided_offset (coordinates s i) st)"
  using assms(2,1)
proof (induction st s rule: list_induct2)
  case Nil
  then show ?case by (simp add: strided_offset_def)
next
  case (Cons x xs d s)
  have "0 < prod_list s" using Cons.prems by (intro prod_list_pos) simp
  have d: "0 \<le> d" using Cons.prems by (simp add: less_imp_le)
  have "i div (d * prod_list s) = i div prod_list s div d"
    using zdiv_zmult2_eq [OF d, of i "prod_list s"] by (simp only: mult.commute)
  with Cons show ?case by (simp add: strided_offset_def)
qed

lemma kernel_source_index_eq:
  assumes "\<And>d. d \<in> set s \<Longrightarrow> 0 < d" and "length st = length s"
  shows "kernel_source_index s st i = strided_offset (coordinates s i) st"
  by (simp add: kernel_source_index_def kernel_source_fold [OF assms])

text \<open>Whatever its rank, the CPU copy puts element \<open>k\<close> of the row-major order at \<open>k\<close>.\<close>

lemma contiguous_cpu_data:
  assumes c: "contiguous reg t = Some t'" and cpu: "\<not> is_gpu (t_device t)" and nc: "\<not> t_contiguous t"
    and len: "length (t_strides t) = length (t_shape t)" and ne: "t_shape t \<noteq> []"
  shows "t_data t' = map (\<lambda>k. t_data t ! nat (strided_offset (coordinates (t_shape t) (int k)) (t_strides t)))
           [0..<nat (t_numel t)]"
    and "t_shape t' = t_shape t" and "t_contiguous t'" and "t_device t' = t_device t"
proof -
  let ?s = "t_shape t" and ?st = "t_strides t" and ?src = "t_data t" and ?n = "nat (t_numel t)"
  let ?f = "\<lambda>k. ?src ! nat (strided_offset (coordinates ?s (int k)) ?st)"
  define vs where "vs = (if length ?st = 1
      then map (\<lambda>i. ?src ! nat (int i * (?st ! 0))) [0..<?n]
      else if length ?st = 2
      then concat (map (\<lambda>i. map (\<lambda>j. ?src ! nat (int i * (?st ! 0) + int j * (?st ! 1)))
                         [0..<nat (?s ! 1)]) [0..<nat (?s ! 0)])
      else strided_walk ?n ?src ?s ?st (replicate (length ?st) 0))"
  from c cpu nc obtain B dst where B: "reg (t_device t) = Some B"
    and dst: "create_buffer B (t_numel t) (t_dtype t) (t_mem t) = Some dst"
    and chk: "\<not> list_ex (\<lambda>(d, st). d \<le> 0 \<or> st < 0) (zip ?s ?st)"
    and t': "t' = mk_tensor ?s (t_dtype t) (t_device t) (write_prefix vs dst)"
    unfolding vs_def
    by (simp add: contiguous_def Let_def split: option.splits if_split_asm)
  have pos: "\<And>d. d \<in> set ?s \<Longrightarrow> 0 < d"
    using chk len by (fastforce simp: list_ex_iff set_zip in_set_conv_nth)
  have "vs = map ?f [0..<?n]"
  proof (cases "length ?st = 1")
    case True
    with len obtain d u where "?s = [d]" "?st = [u]"
      by (metis One_nat_def length_0_conv length_Suc_conv)
    with True pos show ?thesis
      by (auto simp: vs_def strided_offset_def t_numel_def)
  next
    case False
    show ?thesis
    proof (cases "length ?st = 2")
      case True
      with len obtain d e u v where sh: "?s = [d, e]" "?st = [u, v]"
        by (metis (no_types, opaque_lifting) One_nat_def Suc_1 length_0_conv length_Suc_conv)
      with pos have de: "0 < d" "0 < e" by auto
      then have n: "?n = nat d * nat e" using sh by (simp add: t_numel_def nat_mult_distrib)
      have "vs = map (\<lambda>k. ?src ! nat (int (k div nat e) * u + int (k mod nat e) * v)) [0..<nat d * nat e]"
        using sh False True by (simp add: vs_def concat_map_upt)
      also have "\<dots> = map ?f [0..<?n]"
      proof (unfold n, rule map_cong [OF refl])
        fix k assume "k \<in> set [0..<nat d * nat e]"
        then have "k div nat e < nat d" by (simp add: less_mult_imp_div_less)
        moreover have kd: "int (k div nat e) = int k div e" using de by (simp add: zdiv_int)
        ultimately have "int k div e < d" using de by linarith
        then have "int (k div nat e) = int k div e mod d" using kd de
          by (metis mod_pos_pos_trivial of_nat_0_le_iff)
        moreover have "int (k mod nat e) = int k mod e" using de by (simp add: zmod_int)
        ultimately show "?src ! nat (int (k div nat e) * u + int (k mod nat e) * v) = ?f k"
          using sh by (simp add: strided_offset_def)
      qed
      finally show ?thesis .
    next
      case False
      with \<open>length ?st \<noteq> 1\<close> show ?thesis
        using strided_walk_coordinates [OF pos, where i = 0 and n = "?n" and src = "?src" and strides = "?st"] len
        by (simp add: vs_def coordinates_zero)
    qed
  qed
  moreover have "length (bf_data dst) = ?n" using dst by (auto simp: create_buffer_Some)
  ultimately show "t_data t' = map ?f [0..<?n]" using t' by (simp add: write_prefix_full)
  show "t_shape t' = ?s" "t_contiguous t'" "t_device t' = t_device t" using t' by simp_all
qed

end
