(* ===== verification/Ops.thy ===== *)
theory Ops
  imports Tensor_Core
begin

text \<open>
  The tensor operators of \<open>src/ops/\<close>: \<open>Linear\<close>, \<open>RMSNorm\<close>, \<open>RoPE\<close>,
  \<open>Elementwise\<close> and \<open>Softmax\<close>. Each checks its arguments, finds the backend of
  the device, allocates the output, and runs the backend's kernel on a GPU tensor or the
  reference loop on a CPU tensor. \<open>None\<close> is the null tensor the source returns on any
  failure. The registered-kernel lookup of \<open>Linear::forward\<close> has no effect and is left out.
\<close>

text \<open>The dimensions before the last one, multiplied: the rows of a row-wise operator.\<close>

definition leading_rows :: "shape \<Rightarrow> int" where
  "leading_rows s = fold (\<lambda>d n. n * d) (butlast s) 1"

definition from_result :: "'a result \<Rightarrow> 'a option" where
  "from_result r = (case r of Inl _ \<Rightarrow> None | Inr a \<Rightarrow> Some a)"

lemma from_result_Some [simp]: "from_result r = Some a \<longleftrightarrow> r = Inr a"
  by (auto simp: from_result_def split: sum.splits)

section \<open>Linear\<close>

definition linear_output_shape :: "shape \<Rightarrow> shape \<Rightarrow> bool \<Rightarrow> shape result" where
  "linear_output_shape input_shape weight_shape transpose_weight =
     (if ndim input_shape \<noteq> 2 \<or> ndim weight_shape \<noteq> 2
      then fails InvalidArgument ''Linear supports only 2-D tensors''
      else
        (let m = input_shape ! 0; k_input = input_shape ! 1;
             k_weight = (if transpose_weight then weight_shape ! 1 else weight_shape ! 0);
             n = (if transpose_weight then weight_shape ! 0 else weight_shape ! 1)
         in if k_input \<noteq> k_weight
            then fails InvalidArgument ''Linear input/weight K dimension mismatch''
            else Inr [m, n]))"

definition linear_validate :: "'f tensor \<Rightarrow> 'f tensor \<Rightarrow> bool \<Rightarrow> 'f tensor option \<Rightarrow> unit result" where
  "linear_validate input weight transpose_weight bias =
     and_then (linear_output_shape (t_shape input) (t_shape weight) transpose_weight) (\<lambda>_.
       if t_dtype input \<noteq> t_dtype weight \<and> \<not> (t_dtype input = FP32 \<and> t_dtype weight = BF16)
       then fails InvalidArgument
              ''Linear input/weight dtype mismatch (only FP32 x BF16 is supported)''
       else if \<not> device_eq (t_device input) (t_device weight)
       then fails InvalidArgument ''Linear input/weight must be on the same device''
       else (case bias of
               None \<Rightarrow> Inr ()
             | Some b \<Rightarrow>
                 (if t_dtype b \<noteq> t_dtype input
                  then fails InvalidArgument ''Linear bias dtype mismatch''
                  else if \<not> device_eq (t_device b) (t_device input)
                  then fails InvalidArgument ''Linear bias must be on the same device as input''
                  else if ndim (t_shape b) \<noteq> 1
                  then fails InvalidArgument ''Linear bias must be 1-D''
                  else if t_shape b ! 0 \<noteq> t_shape weight ! (if transpose_weight then 0 else 1)
                  then fails InvalidArgument ''Linear bias size mismatch''
                  else Inr ())))"

definition linear_forward_into ::
  "'f fops \<Rightarrow> 'f backends \<Rightarrow> 'f tensor \<Rightarrow> 'f tensor \<Rightarrow> 'f buffer \<Rightarrow> bool \<Rightarrow> 'f tensor option \<Rightarrow>
   'f tensor option" where
  "linear_forward_into F reg input weight out transpose_weight bias =
     (case linear_validate input weight transpose_weight bias of
        Inl _ \<Rightarrow> None
      | Inr _ \<Rightarrow>
          (if \<not> device_eq (bf_device out) (t_device input) then None
           else
             (case reg (t_device input) of
                None \<Rightarrow> None
              | Some backend \<Rightarrow>
                  (case linear_output_shape (t_shape input) (t_shape weight) transpose_weight of
                     Inl _ \<Rightarrow> None
                   | Inr s \<Rightarrow>
                       (if bf_size out < nat (numel s) * SizeOfDType (t_dtype input) then None
                        else
                          (let m = t_shape input ! 0; k = t_shape input ! 1;
                               n = t_shape weight ! (if transpose_weight then 0 else 1);
                               d = t_dtype input
                           in
                           (case bk_gemm backend out (t_buffer input) (t_buffer weight)
                                   (d, d, t_dtype weight, if d = BF16 then FP32 else d)
                                   False transpose_weight m n k (f_one F) (f_zero F) of
                              Inl _ \<Rightarrow> None
                            | Inr c \<Rightarrow>
                                (case bias of
                                   None \<Rightarrow> Some (mk_tensor s d (t_device input) c)
                                 | Some b \<Rightarrow>
                                     (if is_gpu (t_device input)
                                      then (case bk_add_row_bias backend c (t_buffer b) d m n of
                                              Inl _ \<Rightarrow> None
                                            | Inr c' \<Rightarrow> Some (mk_tensor s d (t_device input) c'))
                                      else if d \<noteq> FP32 then None
                                      else Some (mk_tensor s d (t_device input)
                                             (write_prefix
                                                (map (\<lambda>i. f_add F (bf_data c ! i) (t_data b ! (i mod nat n)))
                                                  [0..<nat m * nat n]) c))))))))))) "

definition linear_forward ::
  "'f fops \<Rightarrow> 'f backends \<Rightarrow> 'f tensor \<Rightarrow> 'f tensor \<Rightarrow> bool \<Rightarrow> 'f tensor option \<Rightarrow> 'f tensor option" where
  "linear_forward F reg input weight transpose_weight bias =
     (case linear_validate input weight transpose_weight bias of
        Inl _ \<Rightarrow> None
      | Inr _ \<Rightarrow>
          (case linear_output_shape (t_shape input) (t_shape weight) transpose_weight of
             Inl _ \<Rightarrow> None
           | Inr s \<Rightarrow>
               (case reg (t_device input) of
                  None \<Rightarrow> None
                | Some backend \<Rightarrow>
                    (case create_buffer backend (numel s) (t_dtype input) (t_mem input) of
                       None \<Rightarrow> None
                     | Some out \<Rightarrow>
                         linear_forward_into F reg input weight out transpose_weight bias))))"

section \<open>RMSNorm\<close>

definition rmsnorm_validate :: "'f tensor \<Rightarrow> 'f tensor \<Rightarrow> unit result" where
  "rmsnorm_validate input weight =
     (if t_dtype input \<noteq> t_dtype weight
      then fails InvalidArgument ''RMSNorm input/weight dtype mismatch''
      else if \<not> device_eq (t_device input) (t_device weight)
      then fails InvalidArgument ''RMSNorm input/weight must be on the same device''
      else if ndim (t_shape input) = 0
      then fails InvalidArgument ''RMSNorm input must have at least one dimension''
      else if ndim (t_shape weight) \<noteq> 1 \<or> t_shape weight ! 0 \<noteq> last (t_shape input)
      then fails InvalidArgument ''RMSNorm weight must be 1-D [hidden_size]''
      else Inr ())"

text \<open>The reference loop over one row, summing in order.\<close>

definition rmsnorm_row_cpu ::
  "'f fops \<Rightarrow> (nat \<Rightarrow> 'f) \<Rightarrow> (nat \<Rightarrow> 'f) \<Rightarrow> nat \<Rightarrow> 'f \<Rightarrow> bool \<Rightarrow> 'f list" where
  "rmsnorm_row_cpu F row w hidden_size eps add_unit_offset =
     (let sum_sq = acc_sum F hidden_size (\<lambda>i. f_mul F (row i) (row i));
          inv_rms = f_div F (f_one F)
            (f_sqrt F (f_add F (f_div F sum_sq (f_int F (int hidden_size))) eps))
      in map (\<lambda>i. f_mul F (f_mul F (row i) inv_rms)
                    (f_add F (w i) (f_int F (if add_unit_offset then 1 else 0)))) [0..<hidden_size])"

definition rmsnorm_forward ::
  "'f fops \<Rightarrow> 'f backends \<Rightarrow> 'f tensor \<Rightarrow> 'f tensor \<Rightarrow> 'f \<Rightarrow> bool \<Rightarrow> 'f tensor option" where
  "rmsnorm_forward F reg input weight eps add_unit_offset =
     (case rmsnorm_validate input weight of
        Inl _ \<Rightarrow> None
      | Inr _ \<Rightarrow>
          (case reg (t_device input) of
             None \<Rightarrow> None
           | Some backend \<Rightarrow>
               (case create_buffer backend (t_numel input) (t_dtype input) (t_mem input) of
                  None \<Rightarrow> None
                | Some out \<Rightarrow>
                    (let hidden_size = last (t_shape input); num_rows = leading_rows (t_shape input);
                         finish = mk_tensor (t_shape input) (t_dtype input) (t_device input)
                     in
                     (if is_gpu (t_device input)
                      then map_option finish (from_result
                             (bk_rmsnorm backend out (t_buffer input) (t_buffer weight) (t_dtype input)
                                num_rows hidden_size eps add_unit_offset))
                      else if t_dtype input \<noteq> FP32 then None
                      else Some (finish (write_prefix
                             (concat (map (\<lambda>r. rmsnorm_row_cpu F
                                         (\<lambda>i. t_data input ! (r * nat hidden_size + i))
                                         (\<lambda>i. t_data weight ! i) (nat hidden_size) eps add_unit_offset)
                                       [0..<nat num_rows])) out)))))))"

section \<open>Rotary embedding\<close>

definition rope_validate :: "'f tensor \<Rightarrow> int \<Rightarrow> unit result" where
  "rope_validate input head_dim =
     (if head_dim \<le> 0 \<or> head_dim mod 2 \<noteq> 0
      then fails InvalidArgument ''RoPE head_dim must be positive and even''
      else if ndim (t_shape input) < 2
      then fails InvalidArgument ''RoPE input must have at least 2 dimensions''
      else if last (t_shape input) \<noteq> head_dim
      then fails InvalidArgument ''RoPE input last dimension must equal head_dim''
      else if t_shape input ! (ndim (t_shape input) - 2) \<le> 0
      then fails InvalidArgument ''RoPE num_heads dimension must be positive''
      else Inr ())"

text \<open>\<open>RoPE::forward\<close> rotates adjacent pairs. The layout is \<open>[outer.., seq, heads, head_dim]\<close>.\<close>

definition rope_pair :: "'f fops \<Rightarrow> 'f \<Rightarrow> nat \<Rightarrow> nat \<Rightarrow> (nat \<Rightarrow> 'f) \<Rightarrow> nat \<Rightarrow> 'f" where
  "rope_pair F base head_dim s head i =
     (let j = i div 2;
          inv_freq = f_div F (f_one F) (f_pow F base
            (f_div F (f_mul F (f_int F 2) (f_int F (int j))) (f_int F (int head_dim))));
          theta = f_mul F (f_int F (int s)) inv_freq;
          cos_t = f_cos F theta; sin_t = f_sin F theta; x0 = head (2 * j); x1 = head (2 * j + 1)
      in if i mod 2 = 0 then f_sub F (f_mul F x0 cos_t) (f_mul F x1 sin_t)
         else f_add F (f_mul F x0 sin_t) (f_mul F x1 cos_t))"

definition rope_forward ::
  "'f fops \<Rightarrow> 'f backends \<Rightarrow> 'f tensor \<Rightarrow> int \<Rightarrow> 'f \<Rightarrow> 'f tensor option" where
  "rope_forward F reg input head_dim base =
     (case rope_validate input head_dim of
        Inl _ \<Rightarrow> None
      | Inr _ \<Rightarrow>
          (case reg (t_device input) of
             None \<Rightarrow> None
           | Some backend \<Rightarrow>
               (case create_buffer backend (t_numel input) (t_dtype input) (t_mem input) of
                  None \<Rightarrow> None
                | Some out \<Rightarrow>
                    (let s = t_shape input; nd = ndim s; num_heads = nat (s ! (nd - 2));
                         seq_len = nat (if 3 \<le> nd then s ! (nd - 3) else 1);
                         outer = nat (fold (\<lambda>d n. n * d) (take (nd - 3) s) 1);
                         hd = nat head_dim
                     in Some (mk_tensor s (t_dtype input) (t_device input) (write_prefix
                          (concat (map (\<lambda>b. concat (map (\<lambda>sq. concat (map (\<lambda>h.
                              (let at = b * (seq_len * (num_heads * hd)) + sq * (num_heads * hd) + h * hd
                               in map (rope_pair F base hd sq (\<lambda>i. t_data input ! (at + i))) [0..<hd]))
                              [0..<num_heads])) [0..<seq_len])) [0..<outer])) out))))))"

text \<open>\<open>RoPE::partial\<close> rotates the first \<open>rope_head_dim\<close> dimensions of each head, in
  halves, and copies the rest.\<close>

definition partial_rope_cpu ::
  "'f fops \<Rightarrow> 'f list \<Rightarrow> nat \<Rightarrow> nat \<Rightarrow> nat \<Rightarrow> nat \<Rightarrow> int \<Rightarrow> 'f \<Rightarrow> 'f list" where
  "partial_rope_cpu F src seq_len num_heads head_dim rope_head_dim position_offset base =
     (let half = rope_head_dim div 2 in
      concat (map (\<lambda>sequence. concat (map (\<lambda>head.
        (let source = (\<lambda>i. src ! ((sequence * num_heads + head) * head_dim + i));
             theta = (\<lambda>j. f_div F (f_int F (position_offset + int sequence))
               (f_pow F base (f_div F (f_mul F (f_int F 2) (f_int F (int j))) (f_int F (int rope_head_dim)))))
         in map (\<lambda>i.
              if i < half
              then f_sub F (f_mul F (source i) (f_cos F (theta i)))
                           (f_mul F (source (i + half)) (f_sin F (theta i)))
              else if i < 2 * half
              then f_add F (f_mul F (source i) (f_cos F (theta (i - half))))
                           (f_mul F (source (i - half)) (f_sin F (theta (i - half))))
              else source i) [0..<head_dim]))
        [0..<num_heads])) [0..<seq_len]))"

definition rope_partial ::
  "'f fops \<Rightarrow> 'f backends \<Rightarrow> 'f tensor \<Rightarrow> int \<Rightarrow> int \<Rightarrow> 'f \<Rightarrow> 'f tensor option" where
  "rope_partial F reg input rope_head_dim position_offset base =
     (if ndim (t_shape input) \<noteq> 3 \<or> (t_dtype input \<noteq> FP32 \<and> t_dtype input \<noteq> BF16) \<or>
         rope_head_dim \<le> 0 \<or> rope_head_dim mod 2 \<noteq> 0 \<or> t_shape input ! 2 < rope_head_dim \<or>
         position_offset < 0 \<or> \<not> f_gt F base (f_zero F) then None
      else
        (case reg (t_device input) of
           None \<Rightarrow> None
         | Some backend \<Rightarrow>
             (case create_buffer backend (t_numel input) (t_dtype input) (t_mem input) of
                None \<Rightarrow> None
              | Some out \<Rightarrow>
                  (let seq_len = t_shape input ! 0; num_heads = t_shape input ! 1;
                       head_dim = t_shape input ! 2;
                       finish = mk_tensor (t_shape input) (t_dtype input) (t_device input)
                   in
                   (if \<not> is_cpu (t_device input)
                    then map_option finish (from_result
                           (bk_partial_rope backend out (t_buffer input) (t_dtype input) seq_len
                              num_heads head_dim rope_head_dim position_offset base))
                    else if t_dtype input \<noteq> FP32 then None
                    else Some (finish (write_prefix
                           (partial_rope_cpu F (t_data input) (nat seq_len) (nat num_heads)
                              (nat head_dim) (nat rope_head_dim) position_offset base) out)))))))"

section \<open>Element-wise operators\<close>

datatype unary_op = ReLU | SiLU | GELU | Swish

fun unary_op_value :: "unary_op \<Rightarrow> nat" where
  "unary_op_value ReLU = 0"
| "unary_op_value SiLU = 1"
| "unary_op_value GELU = 2"
| "unary_op_value Swish = 3"

fun apply_op :: "'f fops \<Rightarrow> 'f \<Rightarrow> unary_op \<Rightarrow> 'f \<Rightarrow> 'f" where
  "apply_op F x ReLU param = f_max F (f_zero F) x"
| "apply_op F x SiLU param = f_mul F x (f_sigmoid F x)"
| "apply_op F x GELU param =
     f_mul F (f_mul F (f_lit F 1 2) x)
       (f_add F (f_one F) (f_tanh F (f_mul F (f_lit F 7978845608 10000000000)
          (f_add F x (f_mul F (f_mul F (f_mul F (f_lit F 447149983 10000000000) x) x) x)))))"
| "apply_op F x Swish param = f_mul F x (f_sigmoid F (f_mul F param x))"

definition validate_unary :: "'f tensor \<Rightarrow> unit result" where
  "validate_unary input =
     (if t_dtype input \<noteq> FP32 \<and> \<not> (is_gpu (t_device input) \<and> t_dtype input = BF16)
      then fails UnsupportedDType ''Elementwise supports CPU FP32 and GPU FP32/BF16''
      else Inr ())"

definition elementwise_unary ::
  "'f fops \<Rightarrow> 'f backends \<Rightarrow> 'f tensor \<Rightarrow> unary_op \<Rightarrow> 'f \<Rightarrow> 'f tensor option" where
  "elementwise_unary F reg input op param =
     (case validate_unary input of
        Inl _ \<Rightarrow> None
      | Inr _ \<Rightarrow>
          (case reg (t_device input) of
             None \<Rightarrow> None
           | Some backend \<Rightarrow>
               (case create_buffer backend (t_numel input) (t_dtype input) (t_mem input) of
                  None \<Rightarrow> None
                | Some out \<Rightarrow>
                    (let finish = mk_tensor (t_shape input) (t_dtype input) (t_device input) in
                     (if is_gpu (t_device input)
                      then map_option finish (from_result
                             (bk_unary backend out (t_buffer input) (t_dtype input) (t_numel input)
                                (unary_op_value op) param))
                      else Some (finish (write_prefix
                             (map (\<lambda>i. apply_op F (t_data input ! i) op param) [0..<nat (t_numel input)])
                             out)))))))"

definition elementwise_silu_mul ::
  "'f fops \<Rightarrow> 'f backends \<Rightarrow> 'f tensor \<Rightarrow> 'f tensor \<Rightarrow> 'f tensor option" where
  "elementwise_silu_mul F reg gate up =
     (if t_shape gate \<noteq> t_shape up \<or> t_dtype gate \<noteq> t_dtype up \<or>
         \<not> device_eq (t_device gate) (t_device up) then None
      else
        (case reg (t_device gate) of
           None \<Rightarrow> None
         | Some backend \<Rightarrow>
             (case create_buffer backend (t_numel gate) (t_dtype gate) (t_mem gate) of
                None \<Rightarrow> None
              | Some out \<Rightarrow>
                  (let finish = mk_tensor (t_shape gate) (t_dtype gate) (t_device gate) in
                   (if is_gpu (t_device gate)
                    then map_option finish (from_result
                           (bk_silu_mul backend out (t_buffer gate) (t_buffer up) (t_dtype gate)
                              (t_numel gate)))
                    else if t_dtype gate \<noteq> FP32 then None
                    else Some (finish (write_prefix
                           (map (\<lambda>i. f_mul F (apply_op F (t_data gate ! i) SiLU (f_zero F)) (t_data up ! i))
                              [0..<nat (t_numel gate)]) out)))))))"

section \<open>Softmax\<close>

definition softmax_validate :: "'f tensor \<Rightarrow> unit result" where
  "softmax_validate input =
     (if t_dtype input \<noteq> FP32 then fails UnsupportedDType ''Softmax CPU only supports FP32''
      else if ndim (t_shape input) = 0
      then fails InvalidArgument ''Softmax input must have at least one dimension''
      else Inr ())"

definition softmax_row :: "'f fops \<Rightarrow> (nat \<Rightarrow> 'f) \<Rightarrow> nat \<Rightarrow> 'f list" where
  "softmax_row F row vocab_size =
     (let max_val = acc_max F vocab_size row;
          e = (\<lambda>i. f_exp F (f_sub F (row i) max_val));
          inv_sum = f_div F (f_one F) (acc_sum F vocab_size e)
      in map (\<lambda>i. f_mul F (e i) inv_sum) [0..<vocab_size])"

definition softmax_forward :: "'f fops \<Rightarrow> 'f backends \<Rightarrow> 'f tensor \<Rightarrow> 'f tensor option" where
  "softmax_forward F reg input =
     (case softmax_validate input of
        Inl _ \<Rightarrow> None
      | Inr _ \<Rightarrow>
          (case reg (t_device input) of
             None \<Rightarrow> None
           | Some backend \<Rightarrow>
               (case create_buffer backend (t_numel input) (t_dtype input) (t_mem input) of
                  None \<Rightarrow> None
                | Some out \<Rightarrow>
                    (let vocab_size = nat (last (t_shape input));
                         num_rows = nat (leading_rows (t_shape input))
                     in Some (mk_tensor (t_shape input) (t_dtype input) (t_device input) (write_prefix
                          (concat (map (\<lambda>r. softmax_row F (\<lambda>i. t_data input ! (r * vocab_size + i)) vocab_size)
                             [0..<num_rows])) out))))))"

end
