(* ===== verification/Attention_Op.thy ===== *)
theory Attention_Op
  imports Ops Decoder_Model
begin

text \<open>
  \<open>GatedGQAAttention\<close> and \<open>AttentionKVCache\<close> of \<open>src/ops/attention.h, attention.cc\<close>.
  The cache holds two tensors \<open>[capacity, kv_heads, head_dim]\<close>; the operator projects
  queries, keys and values, splits off the gate, normalises and rotates the heads, and
  attends either over the cache it has just extended, over the rows themselves, or, on the
  CPU, with the reference loops. The steps are separate definitions in the order of
  \<open>forward_impl\<close>.
\<close>

type_synonym 'f attention_cache = "'f tensor kv_cache"

section \<open>The cache\<close>

definition kv_truncate :: "'f attention_cache \<Rightarrow> int \<Rightarrow> 'f attention_cache result" where
  "kv_truncate c new_length =
     (if new_length < 0 \<or> kv_capacity c < 0 \<or> kv_capacity c < new_length
      then fails InvalidArgument ''attention cache truncate length is out of range''
      else
        (case (kv_key c, kv_value c) of
           (Some k, Some v) \<Rightarrow>
             (if ndim (t_shape k) < 1 \<or> ndim (t_shape v) < 1 \<or> t_shape k ! 0 \<noteq> kv_capacity c \<or>
                 t_shape v ! 0 \<noteq> kv_capacity c \<or> \<not> device_eq (t_device k) (t_device v) \<or>
                 t_dtype k \<noteq> t_dtype v
              then fails InvalidArgument ''attention cache storage is inconsistent''
              else Inr (c\<lparr>kv_length := new_length\<rparr>))
         | _ \<Rightarrow> (if new_length = 0 then Inr c
                 else fails InvalidArgument ''cannot truncate an uninitialized attention cache'')))"

text \<open>\<open>clone\<close>: a destination with the same layout and large enough buffers is reused,
  otherwise new buffers are allocated. The result is the new destination.\<close>

definition kv_reusable :: "'f tensor \<Rightarrow> 'f tensor \<Rightarrow> 'f attention_cache \<Rightarrow> bool" where
  "kv_reusable k v destination =
     (case (kv_key destination, kv_value destination) of
        (Some dk, Some dv) \<Rightarrow>
          t_shape dk = t_shape k \<and> t_shape dv = t_shape v \<and> t_dtype dk = t_dtype k \<and>
          t_dtype dv = t_dtype v \<and> device_eq (t_device dk) (t_device k) \<and>
          device_eq (t_device dv) (t_device v) \<and> t_mem dk = t_mem k \<and> t_mem dv = t_mem v \<and>
          t_nbytes k \<le> bf_size (t_buffer dk) \<and> t_nbytes v \<le> bf_size (t_buffer dv)
      | _ \<Rightarrow> False)"

definition kv_clone :: "'f backends \<Rightarrow> 'f attention_cache \<Rightarrow> 'f attention_cache \<Rightarrow> 'f attention_cache result" where
  "kv_clone reg c destination =
     (case (kv_key c, kv_value c) of
        (Some k, Some v) \<Rightarrow>
          (if \<not> device_eq (t_device k) (t_device v) \<or> t_shape k \<noteq> t_shape v \<or> t_dtype k \<noteq> t_dtype v \<or>
              kv_length c < 0 \<or> kv_capacity c < 0 \<or> kv_capacity c < kv_length c
           then fails InvalidArgument ''attention cache is invalid or uninitialized''
           else
             (case reg (t_device k) of
                None \<Rightarrow> fails InvalidDevice ''attention cache backend is unavailable''
              | Some backend \<Rightarrow>
                  (let reuse = kv_reusable k v destination;
                       key_buffer = (if reuse then map_option t_buffer (kv_key destination)
                                     else create_buffer backend (t_numel k) (t_dtype k) (t_mem k));
                       value_buffer = (if reuse then map_option t_buffer (kv_value destination)
                                       else create_buffer backend (t_numel v) (t_dtype v) (t_mem v))
                   in
                   (case (key_buffer, value_buffer) of
                      (Some kb, Some vb) \<Rightarrow>
                        and_then (bk_copy backend kb (t_buffer k) (t_nbytes k)) (\<lambda>kb'.
                        and_then (bk_copy backend vb (t_buffer v) (t_nbytes v)) (\<lambda>vb'.
                        and_then (bk_synchronize backend) (\<lambda>_.
                          Inr \<lparr>kv_key = Some (mk_tensor (t_shape k) (t_dtype k) (t_device k) kb'),
                               kv_value = Some (mk_tensor (t_shape v) (t_dtype v) (t_device v) vb'),
                               kv_length = kv_length c, kv_capacity = kv_capacity c\<rparr>)))
                    | _ \<Rightarrow> fails OutOfMemory ''failed to allocate attention cache clone''))))
      | _ \<Rightarrow> fails InvalidArgument ''attention cache is invalid or uninitialized'')"

section \<open>Arguments\<close>

record 'f attention_args =
  aa_wq :: "'f tensor"
  aa_wk :: "'f tensor"
  aa_wv :: "'f tensor"
  aa_wo :: "'f tensor"
  aa_q_norm :: "'f tensor option"
  aa_k_norm :: "'f tensor option"
  aa_num_q_heads :: int
  aa_num_kv_heads :: int
  aa_head_dim :: int
  aa_rope_head_dim :: int
  aa_rope_base :: 'f
  aa_eps :: 'f
  aa_max_seq_len :: int

definition attention_validate :: "'f tensor \<Rightarrow> 'f attention_args \<Rightarrow> unit result" where
  "attention_validate input A =
     (let hidden_size = last (t_shape input); nq = aa_num_q_heads A; nkv = aa_num_kv_heads A;
          hd = aa_head_dim A; rhd = aa_rope_head_dim A; q_out = nq * hd; kv_out = nkv * hd in
      if t_dtype input \<noteq> FP32 \<and> \<not> (is_gpu (t_device input) \<and> t_dtype input = BF16)
      then fails UnsupportedDType ''GatedGQAAttention supports CPU FP32 and GPU FP32/BF16 activations''
      else if ndim (t_shape input) < 2
      then fails InvalidArgument ''GatedGQAAttention input must be at least 2-D''
      else if hidden_size \<le> 0
      then fails InvalidArgument ''GatedGQAAttention hidden_size must be positive''
      else if nq \<le> 0 \<or> nkv \<le> 0 \<or> hd \<le> 0 \<or> rhd \<le> 0
      then fails InvalidArgument ''GatedGQAAttention head counts/dims must be positive''
      else if nq mod nkv \<noteq> 0
      then fails InvalidArgument ''GatedGQAAttention num_q_heads must be divisible by num_kv_heads''
      else if rhd mod 2 \<noteq> 0
      then fails InvalidArgument ''GatedGQAAttention rope_head_dim must be even''
      else if hd < rhd
      then fails InvalidArgument ''GatedGQAAttention head_dim must be >= rope_head_dim''
      else
        and_then (linear_output_shape (t_shape input) (t_shape (aa_wq A)) True) (\<lambda>_.
        and_then (dim (t_shape (aa_wq A)) 0) (\<lambda>wq0.
          if wq0 \<noteq> q_out \<and> wq0 \<noteq> 2 * q_out
          then fails InvalidArgument ''GatedGQAAttention wq output dim mismatch''
          else and_then (dim (t_shape (aa_wk A)) 0) (\<lambda>wk0.
          if wk0 \<noteq> kv_out then fails InvalidArgument ''GatedGQAAttention wk output dim mismatch''
          else and_then (dim (t_shape (aa_wv A)) 0) (\<lambda>wv0.
          if wv0 \<noteq> kv_out then fails InvalidArgument ''GatedGQAAttention wv output dim mismatch''
          else and_then (dim (t_shape (aa_wo A)) 0) (\<lambda>wo0.
          if wo0 \<noteq> hidden_size then fails InvalidArgument ''GatedGQAAttention wo output dim mismatch''
          else and_then (dim (t_shape (aa_wo A)) 1) (\<lambda>wo1.
          if wo1 \<noteq> q_out then fails InvalidArgument ''GatedGQAAttention wo input dim mismatch''
          else Inr ())))))))"

definition has_gate :: "'f attention_args \<Rightarrow> bool" where
  "has_gate A \<longleftrightarrow> t_shape (aa_wq A) ! 0 = 2 * aa_num_q_heads A * aa_head_dim A"

text \<open>The norm weights are usable by the fused kernels when both are given in the
  activation type.\<close>

definition fused_norms :: "'f attention_args \<Rightarrow> dtype \<Rightarrow> ('f tensor \<times> 'f tensor) option" where
  "fused_norms A d =
     (case (aa_q_norm A, aa_k_norm A) of
        (Some qn, Some kn) \<Rightarrow> (if t_dtype qn = d \<and> t_dtype kn = d then Some (qn, kn) else None)
      | _ \<Rightarrow> None)"

section \<open>Projections and the gate\<close>

text \<open>\<open>convert_dtype_host\<close>: a GPU tensor is cast by the backend, a CPU tensor on the host.\<close>

definition convert_dtype_host :: "'f fops \<Rightarrow> 'f backend \<Rightarrow> 'f tensor \<Rightarrow> dtype \<Rightarrow> 'f tensor option" where
  "convert_dtype_host F backend input d =
     (if t_dtype input = d then Some input
      else if \<not> is_cpu (t_device input)
      then (case create_buffer backend (t_numel input) d (t_mem input) of
              None \<Rightarrow> None
            | Some b \<Rightarrow> map_option (mk_tensor (t_shape input) d (t_device input)) (from_result
                (bk_cast backend b (t_buffer input) d (t_dtype input) (t_numel input))))
      else if (t_dtype input, d) \<in> {(FP32, BF16), (BF16, FP32)}
      then (case bk_memcpy_d2h backend (t_buffer input) (t_nbytes input) of
              Inl _ \<Rightarrow> None
            | Inr source \<Rightarrow>
                (case create_buffer backend (t_numel input) d UnifiedMem of
                   None \<Rightarrow> None
                 | Some b \<Rightarrow> map_option (mk_tensor (t_shape input) d (t_device input)) (from_result
                     (bk_memcpy_h2d backend b
                        (if d = BF16 then map (f_trunc_bf16 F) source else source)))))
      else None)"

definition project_qkv ::
  "'f fops \<Rightarrow> 'f backends \<Rightarrow> 'f tensor \<Rightarrow> 'f attention_args \<Rightarrow> ('f tensor \<times> 'f tensor \<times> 'f tensor) option" where
  "project_qkv F reg input A =
     (case (linear_forward F reg input (aa_wq A) True None,
            linear_forward F reg input (aa_wk A) True None,
            linear_forward F reg input (aa_wv A) True None) of
        (Some q, Some k, Some v) \<Rightarrow> Some (q, k, v)
      | _ \<Rightarrow> None)"

text \<open>The copy loops of the CPU: the halves of each head of \<open>2 * head_dim\<close> values.\<close>

definition split_q_gate_host :: "'f list \<Rightarrow> nat \<Rightarrow> nat \<Rightarrow> nat \<Rightarrow> 'f list \<times> 'f list" where
  "split_q_gate_host q_all seq_len num_q_heads head_dim =
     (let half = (\<lambda>offset. concat (map (\<lambda>t. concat (map (\<lambda>h.
            take head_dim (drop ((t * num_q_heads + h) * (2 * head_dim) + offset) q_all))
            [0..<num_q_heads])) [0..<seq_len]))
      in (half 0, half head_dim))"

text \<open>The query rows after the gate has been split off, normalised and rotated already when
  the fused kernel does it, and the gate.\<close>

definition split_gate ::
  "'f fops \<Rightarrow> 'f backend \<Rightarrow> 'f tensor \<Rightarrow> 'f attention_args \<Rightarrow> int \<Rightarrow> int \<Rightarrow> 'f tensor \<Rightarrow>
   ('f tensor \<times> 'f tensor option) option" where
  "split_gate F backend input A seq_len position_offset q =
     (if \<not> has_gate A then Some (q, None)
      else
        (let nq = aa_num_q_heads A; hd = aa_head_dim A; d = t_dtype input; dev = t_device input;
             query_numel = seq_len * nq * hd;
             finish = (\<lambda>(qb, gb). (mk_tensor [seq_len, nq * hd] d dev qb,
                                   Some (mk_tensor [seq_len, nq * hd] d dev gb)))
         in
         (case (create_buffer backend query_numel d (t_mem input),
                create_buffer backend query_numel d (t_mem input)) of
            (Some query_buf, Some gate_buf) \<Rightarrow>
              (if is_cpu dev
               then (case split_q_gate_host (t_data q) (nat seq_len) (nat nq) (nat hd) of
                       (qs, gs) \<Rightarrow> Some (finish (write_prefix qs query_buf, write_prefix gs gate_buf)))
               else (case fused_norms A d of
                       Some (qn, kn) \<Rightarrow>
                         map_option finish (from_result
                           (bk_q_gate_rmsnorm_rope backend query_buf gate_buf (t_buffer q) (t_buffer qn)
                              d seq_len nq hd (aa_rope_head_dim A) position_offset (aa_rope_base A)
                              (aa_eps A) True))
                     | None \<Rightarrow>
                         map_option finish (from_result
                           (bk_split_q_gate backend query_buf gate_buf (t_buffer q) d seq_len nq hd))))
          | _ \<Rightarrow> None)))"

section \<open>Normalising and rotating the heads\<close>

text \<open>\<open>apply_head_rms\<close>: the host normalisation of every head. A missing weight is read
  as ones, so it scales by \<open>1 + 1\<close>.\<close>

definition apply_head_rms ::
  "'f fops \<Rightarrow> 'f list \<Rightarrow> nat \<Rightarrow> nat \<Rightarrow> nat \<Rightarrow> 'f list \<Rightarrow> 'f \<Rightarrow> 'f list" where
  "apply_head_rms F host seq_len heads head_dim weight eps =
     concat (map (\<lambda>t. concat (map (\<lambda>h.
       (let x = (\<lambda>i. host ! ((t * heads + h) * head_dim + i));
            mean_sq = acc_sum F head_dim (\<lambda>i. f_mul F (x i) (x i));
            inv_rms = f_div F (f_one F)
              (f_sqrt F (f_add F (f_div F mean_sq (f_int F (int head_dim))) eps))
        in map (\<lambda>i. f_mul F (x i) (f_mul F inv_rms (f_add F (f_one F) (weight ! i)))) [0..<head_dim]))
       [0..<heads])) [0..<seq_len])"

definition read_norm :: "'f fops \<Rightarrow> 'f backend \<Rightarrow> 'f tensor option \<Rightarrow> int \<Rightarrow> 'f list option" where
  "read_norm F backend weight head_dim =
     (case weight of
        None \<Rightarrow> Some (replicate (nat head_dim) (f_one F))
      | Some w \<Rightarrow>
          (if ndim (t_shape w) \<noteq> 1 \<or> t_shape w ! 0 \<noteq> head_dim
           then Some (replicate (nat head_dim) (f_one F))
           else (case convert_dtype_host F backend w FP32 of
                   None \<Rightarrow> None
                 | Some w32 \<Rightarrow> from_result (bk_memcpy_d2h backend (t_buffer w32) (t_nbytes w32)))))"

text \<open>One tensor through the host normalisation: read back, normalise, upload. For a GPU
  tensor of a narrower type the source reads its bytes as floats; that reinterpretation is
  not modelled and gives \<open>None\<close>.\<close>

definition host_norm ::
  "'f fops \<Rightarrow> 'f backend \<Rightarrow> 'f tensor \<Rightarrow> nat \<Rightarrow> nat \<Rightarrow> nat \<Rightarrow> 'f list \<Rightarrow> 'f \<Rightarrow> 'f tensor option" where
  "host_norm F backend t seq_len heads head_dim weight eps =
     (if t_dtype t \<noteq> FP32 then None
      else
        (case bk_memcpy_d2h backend (t_buffer t) (t_nbytes t) of
           Inl _ \<Rightarrow> None
         | Inr host \<Rightarrow>
             (case create_buffer backend (t_numel t) FP32 UnifiedMem of
                None \<Rightarrow> None
              | Some b \<Rightarrow> map_option (mk_tensor (t_shape t) FP32 (t_device t)) (from_result
                  (bk_memcpy_h2d backend b
                     (apply_head_rms F host seq_len heads head_dim weight eps))))))"

definition apply_partial_rope ::
  "'f fops \<Rightarrow> 'f backends \<Rightarrow> 'f backend \<Rightarrow> 'f tensor \<Rightarrow> int \<Rightarrow> int \<Rightarrow> 'f \<Rightarrow> 'f tensor option" where
  "apply_partial_rope F reg backend input rope_head_dim position_offset base =
     (if (t_dtype input \<noteq> FP32 \<and> \<not> (is_gpu (t_device input) \<and> t_dtype input = BF16)) \<or>
         ndim (t_shape input) \<noteq> 3 \<or> rope_head_dim \<le> 0 \<or> t_shape input ! 2 < rope_head_dim \<or>
         rope_head_dim mod 2 \<noteq> 0 then None
      else if \<not> is_cpu (t_device input)
      then rope_partial F reg input rope_head_dim position_offset base
      else
        (case bk_memcpy_d2h backend (t_buffer input) (t_nbytes input) of
           Inl _ \<Rightarrow> None
         | Inr host \<Rightarrow>
             (case create_buffer backend (t_numel input) FP32 UnifiedMem of
                None \<Rightarrow> None
              | Some b \<Rightarrow> map_option (mk_tensor (t_shape input) FP32 (t_device input)) (from_result
                  (bk_memcpy_h2d backend b
                     (partial_rope_cpu F host (nat (t_shape input ! 0)) (nat (t_shape input ! 1))
                        (nat (t_shape input ! 2)) (nat rope_head_dim) position_offset base))))))"

definition host_rotate ::
  "'f fops \<Rightarrow> 'f backends \<Rightarrow> 'f backend \<Rightarrow> 'f attention_args \<Rightarrow> int \<Rightarrow> int \<Rightarrow> 'f tensor \<Rightarrow> 'f tensor \<Rightarrow>
   ('f tensor \<times> 'f tensor) option" where
  "host_rotate F reg backend A seq_len position_offset q3 k3 =
     (let hd = aa_head_dim A; n = nat seq_len;
          rope = (\<lambda>t. apply_partial_rope F reg backend t (aa_rope_head_dim A) position_offset
                        (aa_rope_base A)) in
      (case (read_norm F backend (aa_q_norm A) hd, read_norm F backend (aa_k_norm A) hd) of
         (Some qw, Some kw) \<Rightarrow>
           (case (host_norm F backend q3 n (nat (aa_num_q_heads A)) (nat hd) qw (aa_eps A),
                  host_norm F backend k3 n (nat (aa_num_kv_heads A)) (nat hd) kw (aa_eps A)) of
              (Some qn, Some kn) \<Rightarrow>
                (case (rope qn, rope kn) of
                   (Some q_rot, Some k_rot) \<Rightarrow> Some (q_rot, k_rot)
                 | _ \<Rightarrow> None)
            | _ \<Rightarrow> None)
       | _ \<Rightarrow> None))"

definition rotate_heads ::
  "'f fops \<Rightarrow> 'f backends \<Rightarrow> 'f backend \<Rightarrow> 'f tensor \<Rightarrow> 'f attention_args \<Rightarrow> int \<Rightarrow> int \<Rightarrow>
   'f tensor \<Rightarrow> 'f tensor \<Rightarrow> ('f tensor \<times> 'f tensor) option" where
  "rotate_heads F reg backend input A seq_len position_offset q_query k =
     (let nq = aa_num_q_heads A; nkv = aa_num_kv_heads A; hd = aa_head_dim A;
          rhd = aa_rope_head_dim A; base = aa_rope_base A; eps = aa_eps A;
          d = t_dtype input; dev = t_device input in
      (case (reshape q_query [seq_len, nq, hd], reshape k [seq_len, nkv, hd]) of
         (Some q3, Some k3) \<Rightarrow>
           (case (if is_cpu dev then None
                  else case (aa_q_norm A, aa_k_norm A) of
                         (Some qn, Some kn) \<Rightarrow> Some (qn, kn) | _ \<Rightarrow> None) of
              Some (qn, kn) \<Rightarrow>
                (if \<not> has_gate A
                 then
                   (if t_dtype qn \<noteq> d \<or> t_dtype kn \<noteq> d then None
                    else
                      (case (create_buffer backend (t_numel q3) d (t_mem input),
                             create_buffer backend (t_numel k3) d (t_mem input)) of
                         (Some qb, Some kb) \<Rightarrow>
                           map_option (\<lambda>(qo, ko). (mk_tensor (t_shape q3) d dev qo,
                                                   mk_tensor (t_shape k3) d dev ko)) (from_result
                             (bk_qk_rmsnorm_rope backend (qb, t_buffer q3, t_buffer qn)
                                (kb, t_buffer k3, t_buffer kn) d seq_len nq nkv hd rhd
                                position_offset base eps True))
                       | _ \<Rightarrow> None))
                 else if t_dtype qn = d \<and> t_dtype kn = d
                 then
                   (case rmsnorm_forward F reg k3 kn eps True of
                      None \<Rightarrow> None
                    | Some k_normed \<Rightarrow>
                        map_option (\<lambda>k_rot. (q3, k_rot))
                          (rope_partial F reg k_normed rhd position_offset base))
                 else host_rotate F reg backend A seq_len position_offset q3 k3)
            | None \<Rightarrow> host_rotate F reg backend A seq_len position_offset q3 k3)
       | _ \<Rightarrow> None))"

section \<open>Attending\<close>

text \<open>The tensor of attended heads, \<open>[seq_len, num_q_heads * head_dim]\<close>.\<close>

definition attended :: "'f attention_args \<Rightarrow> 'f tensor \<Rightarrow> int \<Rightarrow> 'f buffer \<Rightarrow> 'f tensor" where
  "attended A input seq_len b =
     mk_tensor [seq_len, aa_num_q_heads A * aa_head_dim A] (t_dtype input) (t_device input) b"

text \<open>The cache made ready: allocated when it is not, checked against the layout otherwise.\<close>

definition prepare_cache ::
  "'f backend \<Rightarrow> 'f tensor \<Rightarrow> 'f attention_args \<Rightarrow> 'f attention_cache \<Rightarrow> 'f attention_cache option" where
  "prepare_cache backend input A c =
     (let cache_shape = [aa_max_seq_len A, aa_num_kv_heads A, aa_head_dim A];
          d = t_dtype input; dev = t_device input in
      (case (kv_key c, kv_value c) of
         (Some k, Some v) \<Rightarrow>
           (if kv_capacity c \<noteq> aa_max_seq_len A \<or> t_shape k \<noteq> cache_shape \<or> t_shape v \<noteq> cache_shape \<or>
               t_dtype k \<noteq> d \<or> t_dtype v \<noteq> d \<or> \<not> device_eq (t_device k) dev \<or>
               \<not> device_eq (t_device v) dev then None
            else Some c)
       | _ \<Rightarrow>
           (case (create_buffer backend (numel cache_shape) d (t_mem input),
                  create_buffer backend (numel cache_shape) d (t_mem input)) of
              (Some kb, Some vb) \<Rightarrow>
                Some (c\<lparr>kv_key := Some (mk_tensor cache_shape d dev kb),
                         kv_value := Some (mk_tensor cache_shape d dev vb),
                         kv_capacity := aa_max_seq_len A\<rparr>)
            | _ \<Rightarrow> None)))"

definition set_cache_data :: "'f attention_cache \<Rightarrow> 'f buffer \<Rightarrow> 'f buffer \<Rightarrow> 'f attention_cache" where
  "set_cache_data c kb vb =
     c\<lparr>kv_key := map_option (\<lambda>t. t\<lparr>t_buffer := kb\<rparr>) (kv_key c),
        kv_value := map_option (\<lambda>t. t\<lparr>t_buffer := vb\<rparr>) (kv_value c)\<rparr>"

text \<open>Attention over the extended cache. A single row goes through the fused kernel, which
  stores the row itself; several rows are appended first. The length advances only when the
  attention succeeds.\<close>

definition attend_cached ::
  "'f backend \<Rightarrow> 'f tensor \<Rightarrow> 'f attention_args \<Rightarrow> int \<Rightarrow> 'f tensor \<Rightarrow> 'f tensor \<Rightarrow> 'f tensor \<Rightarrow>
   'f tensor option \<Rightarrow> 'f buffer \<Rightarrow> 'f attention_cache \<Rightarrow> 'f tensor option \<times> 'f attention_cache" where
  "attend_cached backend input A seq_len q_rot k_rot v gate out c0 =
     (case prepare_cache backend input A c0 of
        None \<Rightarrow> (None, c0)
      | Some c \<Rightarrow>
          (case (kv_key c, kv_value c) of
             (Some k, Some w) \<Rightarrow>
               (let d = t_dtype input; nq = aa_num_q_heads A; nkv = aa_num_kv_heads A;
                    hd = aa_head_dim A; new_cache_len = kv_length c + seq_len;
                    g = map_option t_buffer gate
                in
                if seq_len = 1
                then
                  (case bk_cached_gqa_with_current_token backend out (t_buffer q_rot) (t_buffer k)
                          (t_buffer w) (t_buffer k_rot) (t_buffer v) g d new_cache_len nq nkv hd of
                     Inl _ \<Rightarrow> (None, c)
                   | Inr (o', kb, vb) \<Rightarrow>
                       (Some (attended A input seq_len o'),
                        (set_cache_data c kb vb)\<lparr>kv_length := new_cache_len\<rparr>))
                else
                  (case bk_append_kv_cache backend (t_buffer k) (t_buffer w) (t_buffer k_rot)
                          (t_buffer v) d seq_len nkv hd (kv_length c) (kv_capacity c) of
                     Inl _ \<Rightarrow> (None, c)
                   | Inr (kb, vb) \<Rightarrow>
                       (let c1 = set_cache_data c kb vb in
                        (case bk_cached_gqa backend out (t_buffer q_rot) kb vb g d seq_len
                                new_cache_len nq nkv hd of
                           Inl _ \<Rightarrow> (None, c1)
                         | Inr o' \<Rightarrow> (Some (attended A input seq_len o'),
                                       c1\<lparr>kv_length := new_cache_len\<rparr>)))))
           | _ \<Rightarrow> (None, c)))"

text \<open>The reference loops of the CPU. The scores behind the row are minus infinity, and take
  part in the maximum and in the sum.\<close>

definition attend_cpu_head ::
  "'f fops \<Rightarrow> nat \<Rightarrow> nat \<Rightarrow> nat \<Rightarrow> (nat \<Rightarrow> 'f) \<Rightarrow> (nat \<Rightarrow> nat \<Rightarrow> 'f) \<Rightarrow> (nat \<Rightarrow> nat \<Rightarrow> 'f) \<Rightarrow>
   (nat \<Rightarrow> 'f) option \<Rightarrow> 'f list" where
  "attend_cpu_head F head_dim seq_len t q key val gate =
     (let scale = f_div F (f_one F) (f_sqrt F (f_int F (int head_dim)));
          scores = (\<lambda>s. if s \<le> t
            then f_mul F (acc_sum F head_dim (\<lambda>i. f_mul F (q i) (key s i))) scale
            else f_neg_inf F);
          max_score = acc_max F seq_len scores;
          e = (\<lambda>s. f_exp F (f_sub F (scores s) max_score));
          inv_sum = f_div F (f_one F) (acc_sum F seq_len e);
          out = (\<lambda>i. acc_sum F (Suc t) (\<lambda>s. f_mul F (f_mul F (e s) inv_sum) (val s i)))
      in map (\<lambda>i. case gate of None \<Rightarrow> out i
                  | Some g \<Rightarrow> f_mul F (out i) (f_sigmoid F (g i))) [0..<head_dim])"

definition attend_cpu ::
  "'f fops \<Rightarrow> nat \<Rightarrow> nat \<Rightarrow> nat \<Rightarrow> nat \<Rightarrow> 'f list \<Rightarrow> 'f list \<Rightarrow> 'f list \<Rightarrow> 'f list option \<Rightarrow> 'f list" where
  "attend_cpu F seq_len nq nkv head_dim q k v gate =
     concat (map (\<lambda>t. concat (map (\<lambda>qh.
       (let kvh = qh div (nq div nkv); at = (t * nq + qh) * head_dim in
        attend_cpu_head F head_dim seq_len t (\<lambda>i. q ! (at + i)) (\<lambda>s i. k ! ((s * nkv + kvh) * head_dim + i))
          (\<lambda>s i. v ! ((s * nkv + kvh) * head_dim + i)) (map_option (\<lambda>g i. g ! (at + i)) gate)))
       [0..<nq])) [0..<seq_len])"

section \<open>The operator\<close>

text \<open>The queries, keys, values and gate of the rows, ready to attend, and the buffer for the
  attended heads.\<close>

definition attention_prepare ::
  "'f fops \<Rightarrow> 'f backends \<Rightarrow> 'f backend \<Rightarrow> 'f tensor \<Rightarrow> 'f attention_args \<Rightarrow> int \<Rightarrow> int \<Rightarrow> bool \<Rightarrow>
   ('f tensor \<times> 'f tensor \<times> 'f tensor \<times> 'f tensor option \<times> 'f buffer) option" where
  "attention_prepare F reg backend input A seq_len position_offset mixed_bf16 =
     (let host32 = (\<lambda>t. if is_gpu (t_device input) then Some t else convert_dtype_host F backend t FP32) in
      Option.bind (if mixed_bf16 then convert_dtype_host F backend input BF16 else Some input) (\<lambda>p.
      Option.bind (project_qkv F reg p A) (\<lambda>(q, k, v).
      Option.bind (host32 q) (\<lambda>q'. Option.bind (host32 k) (\<lambda>k'. Option.bind (host32 v) (\<lambda>v'.
      Option.bind (split_gate F backend input A seq_len position_offset q') (\<lambda>(q_query, q_gate).
      Option.bind (rotate_heads F reg backend input A seq_len position_offset q_query k')
        (\<lambda>(q_rot, k_rot).
      map_option (\<lambda>out. (q_rot, k_rot, v', q_gate, out))
        (create_buffer backend (seq_len * aa_num_q_heads A * aa_head_dim A) (t_dtype input)
           (t_mem input))))))))))"

definition attention_forward ::
  "'f fops \<Rightarrow> 'f backends \<Rightarrow> 'f tensor \<Rightarrow> 'f attention_args \<Rightarrow> 'f attention_cache option \<Rightarrow>
   'f tensor option \<times> 'f attention_cache option" where
  "attention_forward F reg input A cache =
     (case attention_validate input A of
        Inl _ \<Rightarrow> (None, cache)
      | Inr _ \<Rightarrow>
          (let seq_len = leading_rows (t_shape input); dev = t_device input in
           (case reg dev of
              None \<Rightarrow> (None, cache)
            | Some backend \<Rightarrow>
                (if (case cache of None \<Rightarrow> False
                     | Some c \<Rightarrow> is_cpu dev \<or> aa_max_seq_len A \<le> 0 \<or> kv_length c < 0 \<or>
                                 aa_max_seq_len A < kv_length c + seq_len)
                 then (None, cache)
                 else
                   (let mixed_bf16 = (\<not> is_gpu dev \<and> t_dtype (aa_wq A) = BF16);
                        position_offset = (case cache of None \<Rightarrow> 0 | Some c \<Rightarrow> kv_length c)
                    in
                    (case attention_prepare F reg backend input A seq_len position_offset mixed_bf16 of
                       None \<Rightarrow> (None, cache)
                     | Some (q_rot, k_rot, v, q_gate, out) \<Rightarrow>
                         (if \<not> is_cpu dev
                          then
                            (case cache of
                               Some c \<Rightarrow>
                                 (case attend_cached backend input A seq_len q_rot k_rot v q_gate out c of
                                    (t, c') \<Rightarrow>
                                      (Option.bind t (\<lambda>t. linear_forward F reg t (aa_wo A) True None),
                                       Some c'))
                             | None \<Rightarrow>
                                 (Option.bind (from_result (bk_causal_gqa backend out (t_buffer q_rot)
                                      (t_buffer k_rot) (t_buffer v) (map_option t_buffer q_gate)
                                      (t_dtype input) seq_len (aa_num_q_heads A) (aa_num_kv_heads A)
                                      (aa_head_dim A)))
                                    (\<lambda>o'. linear_forward F reg (attended A input seq_len o')
                                              (aa_wo A) True None), None))
                          else
                            (let o' = write_prefix (attend_cpu F (nat seq_len) (nat (aa_num_q_heads A))
                                        (nat (aa_num_kv_heads A)) (nat (aa_head_dim A)) (t_data q_rot)
                                        (t_data k_rot) (t_data v) (map_option t_data q_gate)) out;
                                 t = (attended A input seq_len o')\<lparr>t_dtype := FP32\<rparr>;
                                 t' = (if mixed_bf16 then convert_dtype_host F backend t BF16 else Some t);
                                 result = Option.bind t' (\<lambda>t. linear_forward F reg t (aa_wo A) True None)
                             in (if mixed_bf16
                                 then Option.bind result (\<lambda>r. convert_dtype_host F backend r FP32)
                                 else result, cache)))))))))"

end
