(* ===== verification/DeltaNet_Op.thy ===== *)
theory DeltaNet_Op
  imports Ops Decoder_Model
begin

text \<open>
  \<open>GatedDeltaNet\<close> and \<open>DeltaNetCache\<close> of \<open>src/ops/delta_net.h, delta_net.cc\<close>.
  The cache holds the convolution windows \<open>[channels, kernel - 1]\<close> in the activation type
  and the recurrent state \<open>[value_heads, key_dim, value_dim]\<close> as \<open>float\<close>; both are
  zero when they are created. The results of the operators lie in fresh buffers here; the program
  reuses workspace buffers, which \<open>DeltaNet_Workspaces\<close> shows to be free when they are taken.
\<close>

type_synonym 'f deltanet_cache = "('f tensor, 'f tensor) dn_cache"

section \<open>The cache\<close>

definition dn_reusable :: "'f tensor \<Rightarrow> 'f tensor \<Rightarrow> 'f deltanet_cache \<Rightarrow> bool" where
  "dn_reusable conv rec destination =
     (case (dn_conv destination, dn_recurrent destination) of
        (Some dc, Some dr) \<Rightarrow>
          t_shape dc = t_shape conv \<and> t_shape dr = t_shape rec \<and> t_dtype dc = t_dtype conv \<and>
          t_dtype dr = t_dtype rec \<and> device_eq (t_device dc) (t_device conv) \<and>
          device_eq (t_device dr) (t_device rec) \<and> t_mem dc = t_mem conv \<and> t_mem dr = t_mem rec \<and>
          t_nbytes conv \<le> bf_size (t_buffer dc) \<and> t_nbytes rec \<le> bf_size (t_buffer dr)
      | _ \<Rightarrow> False)"

definition dn_clone :: "'f backends \<Rightarrow> 'f deltanet_cache \<Rightarrow> 'f deltanet_cache \<Rightarrow> 'f deltanet_cache result" where
  "dn_clone reg c destination =
     (case (dn_conv c, dn_recurrent c) of
        (Some conv, Some rec) \<Rightarrow>
          (if \<not> device_eq (t_device conv) (t_device rec) \<or> dn_length c < 0
           then fails InvalidArgument ''DeltaNet cache is invalid or uninitialized''
           else
             (case reg (t_device conv) of
                None \<Rightarrow> fails InvalidDevice ''DeltaNet cache backend is unavailable''
              | Some backend \<Rightarrow>
                  (let reuse = dn_reusable conv rec destination;
                       conv_buffer = (if reuse then map_option t_buffer (dn_conv destination)
                                      else create_buffer backend (t_numel conv) (t_dtype conv) (t_mem conv));
                       rec_buffer = (if reuse then map_option t_buffer (dn_recurrent destination)
                                     else create_buffer backend (t_numel rec) (t_dtype rec) (t_mem rec))
                   in
                   (case (conv_buffer, rec_buffer) of
                      (Some cb, Some rb) \<Rightarrow>
                        and_then (bk_copy backend cb (t_buffer conv) (t_nbytes conv)) (\<lambda>cb'.
                        and_then (bk_copy backend rb (t_buffer rec) (t_nbytes rec)) (\<lambda>rb'.
                        and_then (bk_synchronize backend) (\<lambda>_.
                          Inr \<lparr>dn_conv = Some (mk_tensor (t_shape conv) (t_dtype conv) (t_device conv) cb'),
                               dn_recurrent = Some (mk_tensor (t_shape rec) (t_dtype rec) (t_device rec) rb'),
                               dn_length = dn_length c\<rparr>)))
                    | _ \<Rightarrow> fails OutOfMemory ''failed to allocate DeltaNet cache clone''))))
      | _ \<Rightarrow> fails InvalidArgument ''DeltaNet cache is invalid or uninitialized'')"

text \<open>\<open>restore\<close> swaps the cache with a checkpoint, after checking that they fit. The
  result is the new cache and the new checkpoint.\<close>

definition restore_compatible :: "'f deltanet_cache \<Rightarrow> 'f deltanet_cache \<Rightarrow> bool" where
  "restore_compatible c checkpoint =
     ((dn_conv c = None) = (dn_recurrent c = None) \<and>
      (case (dn_conv checkpoint, dn_recurrent checkpoint) of
         (Some kc, Some kr) \<Rightarrow>
           0 \<le> dn_length checkpoint \<and> device_eq (t_device kc) (t_device kr) \<and> t_dtype kc = t_dtype kr \<and>
           (case (dn_conv c, dn_recurrent c) of
              (Some cc, Some cr) \<Rightarrow>
                t_shape cc = t_shape kc \<and> t_shape cr = t_shape kr \<and> device_eq (t_device cc) (t_device kc) \<and>
                device_eq (t_device cr) (t_device kr) \<and> t_dtype cc = t_dtype kc \<and> t_dtype cr = t_dtype kr
            | _ \<Rightarrow> True)
       | _ \<Rightarrow> False))"

definition dn_restore ::
  "'f deltanet_cache \<Rightarrow> 'f deltanet_cache \<Rightarrow> ('f deltanet_cache \<times> 'f deltanet_cache) result" where
  "dn_restore c checkpoint =
     (if restore_compatible c checkpoint then Inr (checkpoint, c)
      else fails InvalidArgument ''DeltaNet cache restore state is incompatible'')"

section \<open>The CPU reference\<close>

record 'f deltanet_weights =
  dw_wq :: "'f tensor"
  dw_wk :: "'f tensor"
  dw_wv :: "'f tensor"
  dw_wo :: "'f tensor"

definition deltanet_validate ::
  "'f tensor \<Rightarrow> 'f deltanet_weights \<Rightarrow> int \<Rightarrow> int \<Rightarrow> int \<Rightarrow> unit result" where
  "deltanet_validate input W num_qk_heads num_v_heads head_dim =
     (let hidden_size = last (t_shape input); qk_out = num_qk_heads * head_dim;
          v_out = num_v_heads * head_dim in
      if t_dtype input \<noteq> FP32 then fails UnsupportedDType ''GatedDeltaNet CPU only supports FP32''
      else if ndim (t_shape input) < 2
      then fails InvalidArgument ''GatedDeltaNet input must be at least 2-D''
      else if hidden_size \<le> 0 then fails InvalidArgument ''GatedDeltaNet hidden_size must be positive''
      else if num_qk_heads \<le> 0 \<or> num_v_heads \<le> 0 \<or> head_dim \<le> 0
      then fails InvalidArgument ''GatedDeltaNet head counts/dims must be positive''
      else if num_v_heads mod num_qk_heads \<noteq> 0
      then fails InvalidArgument ''GatedDeltaNet num_v_heads must be divisible by num_qk_heads''
      else
        and_then (linear_output_shape (t_shape input) (t_shape (dw_wq W)) True) (\<lambda>_.
        and_then (dim (t_shape (dw_wq W)) 0) (\<lambda>wq0.
          if wq0 \<noteq> qk_out then fails InvalidArgument ''GatedDeltaNet wq output dim mismatch''
          else and_then (dim (t_shape (dw_wk W)) 0) (\<lambda>wk0.
          if wk0 \<noteq> qk_out then fails InvalidArgument ''GatedDeltaNet wk output dim mismatch''
          else and_then (dim (t_shape (dw_wv W)) 0) (\<lambda>wv0.
          if wv0 \<noteq> v_out then fails InvalidArgument ''GatedDeltaNet wv output dim mismatch''
          else and_then (dim (t_shape (dw_wo W)) 0) (\<lambda>wo0.
          if wo0 \<noteq> hidden_size then fails InvalidArgument ''GatedDeltaNet wo output dim mismatch''
          else and_then (dim (t_shape (dw_wo W)) 1) (\<lambda>wo1.
          if wo1 \<noteq> v_out then fails InvalidArgument ''GatedDeltaNet wo input dim mismatch''
          else Inr ())))))))"

text \<open>One value head at one token: the state of its QK head decays and takes the outer
  product, and the query reads it.\<close>

definition deltanet_value_head ::
  "'f fops \<Rightarrow> nat \<Rightarrow> (nat \<Rightarrow> 'f) \<Rightarrow> (nat \<Rightarrow> 'f) \<Rightarrow> (nat \<Rightarrow> 'f) \<Rightarrow> 'f list \<Rightarrow> 'f list \<times> 'f list" where
  "deltanet_value_head F head_dim q k v state =
     (let gate = f_lit F 99 100;
          state' = map (\<lambda>p. f_add F (f_mul F gate (state ! p)) (f_mul F (k (p div head_dim)) (v (p mod head_dim))))
                     [0..<head_dim * head_dim]
      in (map (\<lambda>j. acc_sum F head_dim (\<lambda>i. f_mul F (q i) (state' ! (i * head_dim + j)))) [0..<head_dim],
          state'))"

fun deltanet_value_heads ::
  "('a \<Rightarrow> 'f list \<Rightarrow> 'f list \<times> 'f list) \<Rightarrow> 'a list \<Rightarrow> 'f list \<Rightarrow> 'f list list \<times> 'f list" where
  "deltanet_value_heads step [] state = ([], state)"
| "deltanet_value_heads step (v # vs) state =
     (case step v state of
        (out, state') \<Rightarrow>
          (case deltanet_value_heads step vs state' of (outs, final) \<Rightarrow> (out # outs, final)))"

text \<open>One token: each QK head updates its own state once per value head of its group.\<close>

definition deltanet_token ::
  "'f fops \<Rightarrow> nat \<Rightarrow> nat \<Rightarrow> nat \<Rightarrow> 'f list \<Rightarrow> 'f list \<Rightarrow> 'f list \<Rightarrow> nat \<Rightarrow> 'f list list \<Rightarrow>
   'f list \<times> 'f list list" where
  "deltanet_token F num_qk num_v head_dim q k v t states =
     (let per = num_v div num_qk;
          results = map (\<lambda>qkh. deltanet_value_heads
              (\<lambda>vh. deltanet_value_head F head_dim
                 (\<lambda>i. q ! ((t * num_qk + qkh) * head_dim + i))
                 (\<lambda>i. k ! ((t * num_qk + qkh) * head_dim + i))
                 (\<lambda>j. v ! ((t * num_v + (qkh * per + vh)) * head_dim + j)))
              [0..<per] (states ! qkh)) [0..<num_qk]
      in (concat (map (\<lambda>r. concat (fst r)) results), map snd results))"

fun deltanet_scan ::
  "(nat \<Rightarrow> 's \<Rightarrow> 'f list \<times> 's) \<Rightarrow> nat \<Rightarrow> nat \<Rightarrow> 's \<Rightarrow> 'f list list" where
  "deltanet_scan step t 0 states = []"
| "deltanet_scan step t (Suc n) states =
     (case step t states of (out, states') \<Rightarrow> out # deltanet_scan step (Suc t) n states')"

definition deltanet_forward ::
  "'f fops \<Rightarrow> 'f backends \<Rightarrow> 'f tensor \<Rightarrow> 'f deltanet_weights \<Rightarrow> int \<Rightarrow> int \<Rightarrow> int \<Rightarrow> 'f tensor option" where
  "deltanet_forward F reg input W num_qk_heads num_v_heads head_dim =
     (case deltanet_validate input W num_qk_heads num_v_heads head_dim of
        Inl _ \<Rightarrow> None
      | Inr _ \<Rightarrow>
          (let seq_len = leading_rows (t_shape input); nqk = nat num_qk_heads; nv = nat num_v_heads;
               h = nat head_dim in
           (case (linear_forward F reg input (dw_wq W) True None,
                  linear_forward F reg input (dw_wk W) True None,
                  linear_forward F reg input (dw_wv W) True None) of
              (Some q, Some k, Some v) \<Rightarrow>
                (case Option.bind (reg (t_device input)) (\<lambda>backend.
                        create_buffer backend (seq_len * num_v_heads * head_dim) FP32 (t_mem input)) of
                   None \<Rightarrow> None
                 | Some out \<Rightarrow>
                     (let rows = deltanet_scan
                            (\<lambda>t states. deltanet_token F nqk nv h (t_data q) (t_data k) (t_data v) t states)
                            0 (nat seq_len) (replicate nqk (replicate (h * h) (f_zero F)))
                      in linear_forward F reg
                           (mk_tensor [seq_len, num_v_heads * head_dim] FP32 (t_device input)
                              (write_prefix (concat rows) out)) (dw_wo W) True None))
            | _ \<Rightarrow> None)))"

section \<open>The GPU operators\<close>

text \<open>A state tensor of the cache: created and zeroed when absent, checked otherwise.\<close>

definition state_tensor ::
  "'f backend \<Rightarrow> 'f tensor option \<Rightarrow> shape \<Rightarrow> dtype \<Rightarrow> device \<Rightarrow> memory_type \<Rightarrow> 'f tensor option" where
  "state_tensor backend state s d dev m =
     (case state of
        None \<Rightarrow>
          (case create_buffer backend (numel s) d m of
             None \<Rightarrow> None
           | Some b \<Rightarrow> map_option (mk_tensor s d dev) (from_result (bk_memset backend b (bf_size b))))
      | Some t \<Rightarrow>
          (if t_shape t \<noteq> s \<or> t_dtype t \<noteq> d \<or> \<not> device_eq (t_device t) dev then None else Some t))"

definition causal_conv ::
  "'f backends \<Rightarrow> 'f tensor \<Rightarrow> 'f tensor \<Rightarrow> int \<Rightarrow> 'f deltanet_cache \<Rightarrow>
   'f tensor option \<times> 'f deltanet_cache" where
  "causal_conv reg input weight kernel_size c =
     (let d = t_dtype input; dev = t_device input in
      if is_cpu dev \<or> ndim (t_shape input) \<noteq> 2 \<or>
         numel (t_shape weight) \<noteq> t_shape input ! 1 * kernel_size \<or> d \<noteq> t_dtype weight \<or> kernel_size \<le> 1
      then (None, c)
      else
        (case reg dev of
           None \<Rightarrow> (None, c)
         | Some backend \<Rightarrow>
             (let token_count = t_shape input ! 0; channels = t_shape input ! 1 in
              (case state_tensor backend (dn_conv c) [channels, kernel_size - 1] d dev (t_mem input) of
                 None \<Rightarrow> (None, c)
               | Some st \<Rightarrow>
                   (let c1 = c\<lparr>dn_conv := Some st\<rparr> in
                    (case create_buffer backend (t_numel input) d (t_mem input) of
                       None \<Rightarrow> (None, c1)
                     | Some out \<Rightarrow>
                         (case bk_causal_conv1d_silu backend out (t_buffer st) (t_buffer input)
                                 (t_buffer weight) d token_count channels kernel_size of
                            Inl _ \<Rightarrow> (None, c1)
                          | Inr (out', st') \<Rightarrow>
                              (Some (mk_tensor (t_shape input) d dev out'),
                               c1\<lparr>dn_conv := Some (st\<lparr>t_buffer := st'\<rparr>)\<rparr>))))))))"

record 'f deltanet_qkv =
  dq_query :: "'f tensor"
  dq_key :: "'f tensor"
  dq_value :: "'f tensor"

definition grouped_causal_conv ::
  "'f backends \<Rightarrow> 'f tensor \<Rightarrow> 'f tensor \<Rightarrow> int \<Rightarrow> int \<Rightarrow> int \<Rightarrow> int \<Rightarrow> int \<Rightarrow> 'f deltanet_cache \<Rightarrow>
   'f deltanet_qkv option \<times> 'f deltanet_cache" where
  "grouped_causal_conv reg qkv weight nqk nv key_dim value_dim kernel_size c =
     (let key_width = nqk * key_dim; value_width = nv * value_dim;
          channels = key_width * 2 + value_width; d = t_dtype qkv; dev = t_device qkv in
      if is_cpu dev \<or> ndim (t_shape qkv) \<noteq> 2 \<or> t_shape qkv ! 1 \<noteq> channels \<or>
         t_numel weight \<noteq> channels * kernel_size \<or> t_dtype qkv \<noteq> t_dtype weight \<or> nqk \<le> 0 \<or>
         nv mod nqk \<noteq> 0 \<or> kernel_size \<le> 1 then (None, c)
      else
        (case reg dev of
           None \<Rightarrow> (None, c)
         | Some backend \<Rightarrow>
             (let token_count = t_shape qkv ! 0 in
              (case state_tensor backend (dn_conv c) [channels, kernel_size - 1] d dev (t_mem qkv) of
                 None \<Rightarrow> (None, c)
               | Some st \<Rightarrow>
                   (let c1 = c\<lparr>dn_conv := Some st\<rparr> in
                    (case (create_buffer backend (token_count * key_width) d (t_mem qkv),
                           create_buffer backend (token_count * key_width) d (t_mem qkv),
                           create_buffer backend (token_count * value_width) d (t_mem qkv)) of
                       (Some qb, Some kb, Some vb) \<Rightarrow>
                         (case bk_deltanet_grouped_conv backend (qb, kb, vb) (t_buffer st) (t_buffer qkv)
                                 (t_buffer weight) d token_count nqk nv key_dim value_dim kernel_size of
                            Inl _ \<Rightarrow> (None, c1)
                          | Inr ((q, k, v), st') \<Rightarrow>
                              (Some \<lparr>dq_query = mk_tensor [token_count, nqk, key_dim] d dev q,
                                     dq_key = mk_tensor [token_count, nqk, key_dim] d dev k,
                                     dq_value = mk_tensor [token_count, nv, value_dim] d dev v\<rparr>,
                               c1\<lparr>dn_conv := Some (st\<lparr>t_buffer := st'\<rparr>)\<rparr>))
                     | _ \<Rightarrow> (None, c1)))))))"

record 'f recurrent_args =
  ra_a :: "'f tensor"
  ra_b :: "'f tensor"
  ra_z :: "'f tensor"
  ra_a_log :: "'f tensor"
  ra_dt_bias :: "'f tensor"
  ra_norm_weight :: "'f tensor"

definition recurrent_ok ::
  "'f fops \<Rightarrow> 'f deltanet_qkv \<Rightarrow> 'f recurrent_args \<Rightarrow> int \<Rightarrow> int \<Rightarrow> int \<Rightarrow> int \<Rightarrow> 'f \<Rightarrow> bool" where
  "recurrent_ok F X A nqk nv key_dim value_dim eps =
     (let q = dq_query X; d = t_dtype q; n = t_shape q ! 0 in
      \<not> is_cpu (t_device q) \<and> ndim (t_shape q) = 3 \<and>
      t_dtype (dq_key X) = d \<and> t_dtype (dq_value X) = d \<and> t_dtype (ra_a A) = d \<and> t_dtype (ra_b A) = d \<and>
      t_dtype (ra_z A) = d \<and> t_dtype (ra_a_log A) = d \<and> t_dtype (ra_dt_bias A) = d \<and>
      t_dtype (ra_norm_weight A) = d \<and>
      t_shape q = [n, nqk, key_dim] \<and> t_shape (dq_key X) = t_shape q \<and>
      t_shape (dq_value X) = [n, nv, value_dim] \<and> t_shape (ra_z A) = t_shape (dq_value X) \<and>
      t_numel (ra_a A) = n * nv \<and> t_numel (ra_b A) = n * nv \<and> t_numel (ra_a_log A) = nv \<and>
      t_numel (ra_dt_bias A) = nv \<and> t_numel (ra_norm_weight A) = value_dim \<and> nv mod nqk = 0 \<and>
      f_gt F eps (f_zero F))"

definition deltanet_recurrent ::
  "'f fops \<Rightarrow> 'f backends \<Rightarrow> 'f deltanet_qkv \<Rightarrow> 'f recurrent_args \<Rightarrow> int \<Rightarrow> int \<Rightarrow> int \<Rightarrow> int \<Rightarrow> 'f \<Rightarrow>
   'f deltanet_cache \<Rightarrow> 'f tensor option \<times> 'f deltanet_cache" where
  "deltanet_recurrent F reg X A nqk nv key_dim value_dim eps c =
     (if \<not> recurrent_ok F X A nqk nv key_dim value_dim eps then (None, c)
      else
        (let q = dq_query X; d = t_dtype q; dev = t_device q; n = t_shape q ! 0 in
         (case reg dev of
            None \<Rightarrow> (None, c)
          | Some backend \<Rightarrow>
              (case state_tensor backend (dn_recurrent c) [nv, key_dim, value_dim] FP32 dev (t_mem q) of
                 None \<Rightarrow> (None, c)
               | Some st \<Rightarrow>
                   (let c1 = c\<lparr>dn_recurrent := Some st\<rparr> in
                    (case create_buffer backend (t_numel (dq_value X)) (t_dtype (dq_value X))
                            (t_mem (dq_value X)) of
                       None \<Rightarrow> (None, c1)
                     | Some out \<Rightarrow>
                         (case bk_deltanet_recurrent backend out (t_buffer st)
                                 (t_buffer q, t_buffer (dq_key X), t_buffer (dq_value X))
                                 (t_buffer (ra_a A), t_buffer (ra_b A), t_buffer (ra_a_log A),
                                  t_buffer (ra_dt_bias A), t_buffer (ra_norm_weight A), t_buffer (ra_z A))
                                 d n nqk nv key_dim value_dim eps of
                            Inl _ \<Rightarrow> (None, c1)
                          | Inr (o', st') \<Rightarrow>
                              (Some (mk_tensor (t_shape (dq_value X)) (t_dtype (dq_value X))
                                       (t_device (dq_value X)) o'),
                               c1\<lparr>dn_recurrent := Some (st\<lparr>t_buffer := st'\<rparr>),
                                  dn_length := dn_length c + n\<rparr>))))))))"

end
