(* ===== verification/Hip_Kernels.thy ===== *)
theory Hip_Kernels
  imports Tensor_Core
begin

text \<open>
  The GPU kernels of \<open>src/backends/hip/hip_kernels.hip\<close> and
  \<open>hip_fused_kernels.hip\<close>, as functions from the elements they read to the elements
  they write. A kernel whose threads each own one element is a map over the element
  indices; a kernel whose blocks own a row, a head or a channel is the concatenation of its
  blocks. Sums keep the kernel's order, including the tree and the shuffle reductions.
  Contraction of a multiplication and an addition by the compiler is not modelled.
\<close>

definition kBlockSize :: nat where
  "kBlockSize = 256"

section \<open>Element-wise kernels\<close>

definition cast_kernel :: "'f fops \<Rightarrow> dtype \<Rightarrow> 'f list \<Rightarrow> nat \<Rightarrow> 'f list" where
  "cast_kernel F dst_type src count = map (\<lambda>index. f_store F dst_type (src ! index)) [0..<count]"

definition add_kernel :: "'f fops \<Rightarrow> dtype \<Rightarrow> 'f list \<Rightarrow> 'f list \<Rightarrow> nat \<Rightarrow> 'f list" where
  "add_kernel F d lhs rhs count =
     map (\<lambda>index. f_store F d (f_add F (lhs ! index) (rhs ! index))) [0..<count]"

definition add_row_bias_kernel :: "'f fops \<Rightarrow> dtype \<Rightarrow> 'f list \<Rightarrow> 'f list \<Rightarrow> nat \<Rightarrow> nat \<Rightarrow> 'f list" where
  "add_row_bias_kernel F d dst bias count columns =
     map (\<lambda>index. f_store F d (f_add F (dst ! index) (bias ! (index mod columns)))) [0..<count]"

definition strided_copy_kernel :: "'f list \<Rightarrow> nat \<Rightarrow> int list \<Rightarrow> int list \<Rightarrow> 'f list" where
  "strided_copy_kernel src count s strides =
     map (\<lambda>index. src ! nat (kernel_source_index s strides (int index))) [0..<count]"

definition embedding_gather_kernel ::
  "'f fops \<Rightarrow> 'f list \<Rightarrow> int list \<Rightarrow> nat \<Rightarrow> int \<Rightarrow> nat \<Rightarrow> 'f list" where
  "embedding_gather_kernel F embedding ids num_ids vocab_size hidden_size =
     map (\<lambda>index.
            let row = index div hidden_size; column = index - row * hidden_size; token = ids ! row in
            if 0 \<le> token \<and> token < vocab_size
            then embedding ! (nat token * hidden_size + column) else f_zero F)
       [0..<num_ids * hidden_size]"

text \<open>\<open>apply_unary\<close>: the operations 0 to 3 are relu, silu, gelu and swish.\<close>

definition apply_unary :: "'f fops \<Rightarrow> 'f \<Rightarrow> nat \<Rightarrow> 'f \<Rightarrow> 'f" where
  "apply_unary F v op param =
     (if op = 0 then f_max F (f_zero F) v
      else if op = 1 then f_silu F v
      else if op = 2 then
        f_mul F (f_mul F (f_lit F 1 2) v)
          (f_add F (f_one F)
             (f_tanh F (f_mul F (f_lit F 7978845608 10000000000)
               (f_add F v (f_mul F (f_mul F (f_mul F (f_lit F 447149983 10000000000) v) v) v)))))
      else if op = 3 then
        f_div F v (f_add F (f_one F) (f_exp F (f_mul F (f_neg F param) v)))
      else v)"

definition unary_kernel :: "'f fops \<Rightarrow> dtype \<Rightarrow> 'f list \<Rightarrow> nat \<Rightarrow> nat \<Rightarrow> 'f \<Rightarrow> 'f list" where
  "unary_kernel F d src count op param =
     map (\<lambda>index. f_store F d (apply_unary F (src ! index) op param)) [0..<count]"

definition silu_mul_kernel :: "'f fops \<Rightarrow> dtype \<Rightarrow> 'f list \<Rightarrow> 'f list \<Rightarrow> nat \<Rightarrow> 'f list" where
  "silu_mul_kernel F d gate up count =
     map (\<lambda>index. f_store F d (f_mul F (f_silu F (gate ! index)) (up ! index))) [0..<count]"

definition split_q_gate_kernel :: "'f list \<Rightarrow> nat \<Rightarrow> nat \<Rightarrow> 'f list \<times> 'f list" where
  "split_q_gate_kernel source count head_dim =
     (let source_index = (\<lambda>index. (index div head_dim) * (2 * head_dim) + index mod head_dim) in
      (map (\<lambda>index. source ! source_index index) [0..<count],
       map (\<lambda>index. source ! (source_index index + head_dim)) [0..<count]))"

section \<open>Normalisation and rotary embedding\<close>

text \<open>One block per row: the tree reduction of the squares, then the scaling.\<close>

definition rmsnorm_row ::
  "'f fops \<Rightarrow> dtype \<Rightarrow> (nat \<Rightarrow> 'f) \<Rightarrow> (nat \<Rightarrow> 'f) \<Rightarrow> nat \<Rightarrow> 'f \<Rightarrow> bool \<Rightarrow> 'f list" where
  "rmsnorm_row F d src weight hidden_size eps add_unit_offset =
     (let inv_rms = f_rsqrt F (f_add F
            (f_div F (block_sum F kBlockSize hidden_size (\<lambda>c. f_mul F (src c) (src c)))
                     (f_int F (int hidden_size))) eps)
      in map (\<lambda>column. f_store F d
            (f_mul F (f_mul F (src column) inv_rms)
               (f_add F (weight column) (f_int F (if add_unit_offset then 1 else 0)))))
           [0..<hidden_size])"

definition rmsnorm_kernel ::
  "'f fops \<Rightarrow> dtype \<Rightarrow> 'f list \<Rightarrow> 'f list \<Rightarrow> nat \<Rightarrow> nat \<Rightarrow> 'f \<Rightarrow> bool \<Rightarrow> 'f list" where
  "rmsnorm_kernel F d src weight rows hidden_size eps add_unit_offset =
     concat (map (\<lambda>row. rmsnorm_row F d (\<lambda>c. src ! (row * hidden_size + c)) (\<lambda>c. weight ! c)
                          hidden_size eps add_unit_offset) [0..<rows])"

text \<open>The angle of dimension pair \<open>j\<close> at a position.\<close>

definition rope_theta :: "'f fops \<Rightarrow> int \<Rightarrow> 'f \<Rightarrow> nat \<Rightarrow> nat \<Rightarrow> 'f" where
  "rope_theta F position base j rope_head_dim =
     f_div F (f_int F position)
       (f_pow F base (f_div F (f_mul F (f_int F 2) (f_int F (int j))) (f_int F (int rope_head_dim))))"

text \<open>The rotation of one dimension of a head, given the head's values.\<close>

definition rope_value ::
  "'f fops \<Rightarrow> (nat \<Rightarrow> 'f) \<Rightarrow> nat \<Rightarrow> nat \<Rightarrow> int \<Rightarrow> 'f \<Rightarrow> 'f" where
  "rope_value F head dimension rope_head_dim position base =
     (let half = rope_head_dim div 2; pair = dimension mod half;
          theta = rope_theta F position base pair rope_head_dim;
          cosine = f_cos F theta; sine = f_sin F theta; x = head pair; y = head (pair + half)
      in if dimension < half then f_sub F (f_mul F x cosine) (f_mul F y sine)
         else f_add F (f_mul F y cosine) (f_mul F x sine))"

definition partial_rope_kernel ::
  "'f fops \<Rightarrow> dtype \<Rightarrow> 'f list \<Rightarrow> nat \<Rightarrow> nat \<Rightarrow> nat \<Rightarrow> nat \<Rightarrow> int \<Rightarrow> 'f \<Rightarrow> 'f list" where
  "partial_rope_kernel F d src count num_heads head_dim rope_head_dim position_offset base =
     map (\<lambda>index.
            let dimension = index mod head_dim in
            if rope_head_dim \<le> dimension then src ! index
            else
              (let head_index = index div head_dim; sequence = head_index div num_heads;
                   head_base = head_index * head_dim
               in f_store F d (rope_value F (\<lambda>c. src ! (head_base + c)) dimension rope_head_dim
                                 (position_offset + int sequence) base)))
       [0..<count]"

text \<open>The fused kernels: normalise a head, then rotate the normalised values.\<close>

definition fused_head ::
  "'f fops \<Rightarrow> dtype \<Rightarrow> (nat \<Rightarrow> 'f) \<Rightarrow> (nat \<Rightarrow> 'f) \<Rightarrow> nat \<Rightarrow> nat \<Rightarrow> int \<Rightarrow> 'f \<Rightarrow> 'f \<Rightarrow> bool \<Rightarrow> 'f list" where
  "fused_head F d src weight head_dim rope_head_dim position rope_base eps add_unit_offset =
     (let inv_rms = f_rsqrt F (f_add F
            (f_div F (block_sum F kBlockSize head_dim (\<lambda>c. f_mul F (src c) (src c)))
                     (f_int F (int head_dim))) eps);
          normed = (\<lambda>c. f_mul F (f_mul F (src c) inv_rms)
                          (f_add F (weight c) (f_int F (if add_unit_offset then 1 else 0))))
      in map (\<lambda>dimension. f_store F d
                (if dimension < rope_head_dim
                 then rope_value F normed dimension rope_head_dim position rope_base
                 else normed dimension)) [0..<head_dim])"

definition qk_rmsnorm_rope_kernel ::
  "'f fops \<Rightarrow> dtype \<Rightarrow> 'f list \<Rightarrow> 'f list \<Rightarrow> nat \<Rightarrow> nat \<Rightarrow> nat \<Rightarrow> nat \<Rightarrow> int \<Rightarrow> 'f \<Rightarrow> 'f \<Rightarrow> bool \<Rightarrow> 'f list" where
  "qk_rmsnorm_rope_kernel F d src weight seq_len heads head_dim rope_head_dim position_offset
     rope_base eps add_unit_offset =
     concat (map (\<lambda>head_index. fused_head F d (\<lambda>c. src ! (head_index * head_dim + c))
          (\<lambda>c. weight ! c) head_dim rope_head_dim (position_offset + int (head_index div heads))
          rope_base eps add_unit_offset) [0..<seq_len * heads])"

definition q_gate_rmsnorm_rope_kernel ::
  "'f fops \<Rightarrow> dtype \<Rightarrow> 'f list \<Rightarrow> 'f list \<Rightarrow> nat \<Rightarrow> nat \<Rightarrow> nat \<Rightarrow> nat \<Rightarrow> int \<Rightarrow> 'f \<Rightarrow> 'f \<Rightarrow> bool \<Rightarrow>
   'f list \<times> 'f list" where
  "q_gate_rmsnorm_rope_kernel F d source weight seq_len heads head_dim rope_head_dim
     position_offset rope_base eps add_unit_offset =
     (concat (map (\<lambda>head_index. fused_head F d (\<lambda>c. source ! (head_index * (2 * head_dim) + c))
          (\<lambda>c. weight ! c) head_dim rope_head_dim (position_offset + int (head_index div heads))
          rope_base eps add_unit_offset) [0..<seq_len * heads]),
      concat (map (\<lambda>head_index. map (\<lambda>c. f_store F d
             (source ! (head_index * (2 * head_dim) + head_dim + c))) [0..<head_dim])
          [0..<seq_len * heads]))"

section \<open>Grouped-query attention\<close>

text \<open>The generic head: scores, their maximum, the sum of the exponentials, and the
  weighted values, over the first \<open>count\<close> rows. \<open>q\<close> is the query head, \<open>key s\<close> and
  \<open>val s\<close> the key and value head of row \<open>s\<close>.\<close>

definition gqa_head ::
  "'f fops \<Rightarrow> nat \<Rightarrow> nat \<Rightarrow> (nat \<Rightarrow> 'f) \<Rightarrow> (nat \<Rightarrow> nat \<Rightarrow> 'f) \<Rightarrow> (nat \<Rightarrow> nat \<Rightarrow> 'f) \<Rightarrow> 'f list" where
  "gqa_head F head_dim count q key val =
     (let scale = f_rsqrt F (f_int F (int head_dim));
          score = (\<lambda>s. f_mul F (acc_sum F head_dim (\<lambda>c. f_mul F (q c) (key s c))) scale);
          score_max = acc_max F count score;
          score_sum = acc_sum F count (\<lambda>s. f_exp F (f_sub F (score s) score_max))
      in map (\<lambda>dimension. acc_sum F count (\<lambda>s.
                f_mul F (f_div F (f_exp F (f_sub F (score s) score_max)) score_sum)
                        (val s dimension))) [0..<head_dim])"

text \<open>The online softmax of the specialised kernels: one pass over the rows that keeps the
  maximum, the sum and the weighted values.\<close>

definition online_step ::
  "'f fops \<Rightarrow> (nat \<Rightarrow> 'f) \<Rightarrow> (nat \<Rightarrow> nat \<Rightarrow> 'f) \<Rightarrow> nat \<Rightarrow> 'f \<times> 'f \<times> 'f list \<Rightarrow> 'f \<times> 'f \<times> 'f list" where
  "online_step F score val s = (\<lambda>(online_max, online_sum, output).
     (let next_max = f_max F online_max (score s);
          previous_scale = f_exp F (f_sub F online_max next_max);
          current_scale = f_exp F (f_sub F (score s) next_max)
      in (next_max, f_add F (f_mul F online_sum previous_scale) current_scale,
          map (\<lambda>c. f_add F (f_mul F (output ! c) previous_scale) (f_mul F current_scale (val s c)))
            [0..<length output])))"

definition online_head ::
  "'f fops \<Rightarrow> nat \<Rightarrow> nat \<Rightarrow> (nat \<Rightarrow> 'f) \<Rightarrow> (nat \<Rightarrow> nat \<Rightarrow> 'f) \<Rightarrow> 'f list" where
  "online_head F head_dim count score val =
     (case fold (online_step F score val) [0..<count]
             (f_neg_inf F, f_zero F, replicate head_dim (f_zero F)) of
        (_, online_sum, output) \<Rightarrow> map (\<lambda>x. f_div F x online_sum) output)"

text \<open>Width 128: one thread per dimension, a shuffle reduction per wavefront.\<close>

definition gqa_fixed_head ::
  "'f fops \<Rightarrow> nat \<Rightarrow> nat \<Rightarrow> nat \<Rightarrow> (nat \<Rightarrow> 'f) \<Rightarrow> (nat \<Rightarrow> nat \<Rightarrow> 'f) \<Rightarrow> (nat \<Rightarrow> nat \<Rightarrow> 'f) \<Rightarrow> 'f list" where
  "gqa_fixed_head F warp head_dim count q key val =
     online_head F head_dim count
       (\<lambda>s. f_mul F (waves_sum F warp head_dim (\<lambda>c. f_mul F (q c) (key s c)))
                    (f_rsqrt F (f_int F (int head_dim)))) val"

text \<open>Width 256: one wavefront of 64 lanes, four dimensions per lane.\<close>

definition gqa_head256_wave64 ::
  "'f fops \<Rightarrow> nat \<Rightarrow> (nat \<Rightarrow> 'f) \<Rightarrow> (nat \<Rightarrow> nat \<Rightarrow> 'f) \<Rightarrow> (nat \<Rightarrow> nat \<Rightarrow> 'f) \<Rightarrow> 'f list" where
  "gqa_head256_wave64 F count q key val =
     (let lane_dot = (\<lambda>s lane.
            f_add F (f_add F (f_add F
              (f_mul F (q lane) (key s lane))
              (f_mul F (q (lane + 64)) (key s (lane + 64))))
              (f_mul F (q (lane + 128)) (key s (lane + 128))))
              (f_mul F (q (lane + 192)) (key s (lane + 192))))
      in online_head F 256 count
           (\<lambda>s. f_mul F (wave_sum F 64 (lane_dot s)) (f_div F (f_one F) (f_int F 16))) val)"

text \<open>The choice of \<open>launch_cached_gqa\<close> and its siblings, the gate and the store.\<close>

definition gqa_select ::
  "'f fops \<Rightarrow> nat \<Rightarrow> nat \<Rightarrow> nat \<Rightarrow> (nat \<Rightarrow> 'f) \<Rightarrow> (nat \<Rightarrow> nat \<Rightarrow> 'f) \<Rightarrow> (nat \<Rightarrow> nat \<Rightarrow> 'f) \<Rightarrow> 'f list" where
  "gqa_select F warp head_dim count q key val =
     (if head_dim = 128 then gqa_fixed_head F warp 128 count q key val
      else if head_dim = 256 then gqa_head256_wave64 F count q key val
      else gqa_head F head_dim count q key val)"

definition gated_store :: "'f fops \<Rightarrow> dtype \<Rightarrow> (nat \<Rightarrow> 'f) option \<Rightarrow> 'f list \<Rightarrow> 'f list" where
  "gated_store F d gate xs =
     map (\<lambda>c. f_store F d (case gate of None \<Rightarrow> xs ! c
                            | Some g \<Rightarrow> f_mul F (xs ! c) (f_sigmoid F (g c)))) [0..<length xs]"

text \<open>A grid of query rows and query heads over a cache: row \<open>t\<close> sees the rows up to its
  own position \<open>cache_len - query_len + t\<close>.\<close>

definition cached_gqa_kernel ::
  "'f fops \<Rightarrow> nat \<Rightarrow> dtype \<Rightarrow> 'f list \<Rightarrow> 'f list \<Rightarrow> 'f list \<Rightarrow> 'f list option \<Rightarrow> nat \<Rightarrow> nat \<Rightarrow>
   nat \<Rightarrow> nat \<Rightarrow> nat \<Rightarrow> 'f list" where
  "cached_gqa_kernel F warp d query key_cache value_cache gate query_len cache_len
     num_query_heads num_kv_heads head_dim =
     concat (map (\<lambda>t. concat (map (\<lambda>qh.
       (let kvh = qh div (num_query_heads div num_kv_heads);
            query_base = (t * num_query_heads + qh) * head_dim;
            position = cache_len - query_len + t
        in gated_store F d (map_option (\<lambda>g c. g ! (query_base + c)) gate)
             (gqa_select F warp head_dim (Suc position) (\<lambda>c. query ! (query_base + c))
               (\<lambda>s c. key_cache ! ((s * num_kv_heads + kvh) * head_dim + c))
               (\<lambda>s c. value_cache ! ((s * num_kv_heads + kvh) * head_dim + c)))))
       [0..<num_query_heads])) [0..<query_len])"

text \<open>\<open>causal_gqa\<close> without a cache: the rows are the keys and values themselves.\<close>

definition causal_gqa_kernel ::
  "'f fops \<Rightarrow> nat \<Rightarrow> dtype \<Rightarrow> 'f list \<Rightarrow> 'f list \<Rightarrow> 'f list \<Rightarrow> 'f list option \<Rightarrow> nat \<Rightarrow>
   nat \<Rightarrow> nat \<Rightarrow> nat \<Rightarrow> 'f list" where
  "causal_gqa_kernel F warp d query key val gate seq_len num_query_heads num_kv_heads head_dim =
     concat (map (\<lambda>t. concat (map (\<lambda>qh.
       (let kvh = qh div (num_query_heads div num_kv_heads);
            query_base = (t * num_query_heads + qh) * head_dim
        in gated_store F d (map_option (\<lambda>g c. g ! (query_base + c)) gate)
             (gqa_select F warp head_dim (Suc t) (\<lambda>c. query ! (query_base + c))
               (\<lambda>s c. key ! ((s * num_kv_heads + kvh) * head_dim + c))
               (\<lambda>s c. val ! ((s * num_kv_heads + kvh) * head_dim + c)))))
       [0..<num_query_heads])) [0..<seq_len])"

text \<open>Appending rows to a cache of rows of \<open>row_width\<close> elements.\<close>

definition append_kv_cache_kernel :: "'f list \<Rightarrow> 'f list \<Rightarrow> nat \<Rightarrow> nat \<Rightarrow> nat \<Rightarrow> 'f list" where
  "append_kv_cache_kernel cache rows count row_width cache_offset =
     map (\<lambda>i. if cache_offset * row_width \<le> i \<and> i < cache_offset * row_width + count
              then rows ! (i - cache_offset * row_width) else cache ! i) [0..<length cache]"

text \<open>The fused decode kernel: the row \<open>cache_len - 1\<close> is the current token, which it
  reads from its own buffer and stores into the cache.\<close>

definition cached_gqa_current_token_kernel ::
  "'f fops \<Rightarrow> nat \<Rightarrow> dtype \<Rightarrow> 'f list \<Rightarrow> 'f list \<Rightarrow> 'f list \<Rightarrow> 'f list \<Rightarrow> 'f list \<Rightarrow> 'f list option \<Rightarrow>
   nat \<Rightarrow> nat \<Rightarrow> nat \<Rightarrow> nat \<Rightarrow> 'f list \<times> 'f list \<times> 'f list" where
  "cached_gqa_current_token_kernel F warp d query key_cache value_cache current_key current_value
     gate cache_len num_query_heads num_kv_heads head_dim =
     (let row_width = num_kv_heads * head_dim;
          read = (\<lambda>cache current kvh s c.
            if s + 1 = cache_len then current ! (kvh * head_dim + c)
            else cache ! ((s * num_kv_heads + kvh) * head_dim + c));
          write = (\<lambda>cache current. append_kv_cache_kernel cache
            (map (\<lambda>i. f_store F d (current ! i)) [0..<row_width]) row_width row_width (cache_len - 1))
      in (concat (map (\<lambda>qh.
            (let kvh = qh div (num_query_heads div num_kv_heads); query_base = qh * head_dim
             in gated_store F d (map_option (\<lambda>g c. g ! (query_base + c)) gate)
                  (gqa_select F warp head_dim cache_len (\<lambda>c. query ! (query_base + c))
                    (read key_cache current_key kvh) (read value_cache current_value kvh))))
            [0..<num_query_heads]),
          write key_cache current_key, write value_cache current_value))"

end
