(* ===== verification/Hip_Recurrent.thy ===== *)
theory Hip_Recurrent
  imports Hip_Kernels
begin

text \<open>
  The DeltaNet kernels of \<open>src/backends/hip/hip_kernels.hip\<close>: the depthwise causal
  convolution, which keeps a window of past inputs per channel, and the gated recurrent
  update, which keeps a state matrix per value head. Each is one step per token, so a chunk
  of tokens is a fold. The argmax kernels are here as well.
\<close>

section \<open>Causal convolution\<close>

text \<open>One token of one channel: the output before the store, and the shifted window.\<close>

definition conv_output :: "'f fops \<Rightarrow> nat \<Rightarrow> 'f list \<Rightarrow> (nat \<Rightarrow> 'f) \<Rightarrow> 'f \<Rightarrow> 'f" where
  "conv_output F history window weight current =
     f_silu F (f_add F (acc_sum F history (\<lambda>i. f_mul F (window ! i) (weight i)))
                       (f_mul F current (weight history)))"

definition conv_shift :: "'f fops \<Rightarrow> dtype \<Rightarrow> nat \<Rightarrow> 'f list \<Rightarrow> 'f \<Rightarrow> 'f list" where
  "conv_shift F d history window current =
     (if history = 0 then window
      else map (\<lambda>i. if i + 1 < history then window ! (i + 1) else f_store F d current) [0..<history])"

text \<open>The specialisation for four taps, which does not start its sum at zero.\<close>

definition conv_output_k4 :: "'f fops \<Rightarrow> 'f list \<Rightarrow> (nat \<Rightarrow> 'f) \<Rightarrow> 'f \<Rightarrow> 'f" where
  "conv_output_k4 F window weight current =
     f_silu F (f_add F (f_add F (f_add F
        (f_mul F (window ! 0) (weight 0))
        (f_mul F (window ! 1) (weight 1)))
        (f_mul F (window ! 2) (weight 2)))
        (f_mul F current (weight 3)))"

text \<open>One token of all channels: the window of channel \<open>c\<close> is the slice of the state at
  \<open>c * history\<close>. The result is the activated row and the new state.\<close>

definition conv_token ::
  "'f fops \<Rightarrow> dtype \<Rightarrow> ('f list \<Rightarrow> (nat \<Rightarrow> 'f) \<Rightarrow> 'f \<Rightarrow> 'f) \<Rightarrow> nat \<Rightarrow> nat \<Rightarrow> 'f list \<Rightarrow> 'f list \<Rightarrow>
   'f list \<Rightarrow> 'f list \<times> 'f list" where
  "conv_token F d output channels history weight row state =
     (let window = (\<lambda>c. take history (drop (c * history) state)) in
      (map (\<lambda>c. f_store F d (output (window c) (\<lambda>i. weight ! (c * (history + 1) + i)) (row ! c)))
         [0..<channels],
       concat (map (\<lambda>c. conv_shift F d history (window c) (row ! c)) [0..<channels])))"

text \<open>The token loop; every channel is independent of the others.\<close>

fun conv_tokens ::
  "('f list \<Rightarrow> 'f list \<Rightarrow> 'f list \<times> 'f list) \<Rightarrow> 'f list list \<Rightarrow> 'f list \<Rightarrow> 'f list list \<times> 'f list" where
  "conv_tokens step [] state = ([], state)"
| "conv_tokens step (row # rows) state =
     (case step row state of
        (out, state') \<Rightarrow> (case conv_tokens step rows state' of (outs, final) \<Rightarrow> (out # outs, final)))"

definition rows_of :: "nat \<Rightarrow> nat \<Rightarrow> 'a list \<Rightarrow> 'a list list" where
  "rows_of width m xs = map (\<lambda>r. take width (drop (r * width) xs)) [0..<m]"

definition causal_conv1d_silu_kernel ::
  "'f fops \<Rightarrow> dtype \<Rightarrow> 'f list \<Rightarrow> 'f list \<Rightarrow> 'f list \<Rightarrow> nat \<Rightarrow> nat \<Rightarrow> nat \<Rightarrow> 'f list \<times> 'f list" where
  "causal_conv1d_silu_kernel F d conv_state src weight token_count channels kernel_size =
     (case conv_tokens (conv_token F d (conv_output F (kernel_size - 1)) channels (kernel_size - 1) weight)
             (rows_of channels token_count src) conv_state of
        (outs, final) \<Rightarrow> (concat outs, final))"

text \<open>The grouped kernel writes the channels of a row to three destinations: all query
  channels, then all key channels, then all value channels. \<open>launch_deltanet_grouped_conv\<close>
  uses the decode kernels for a single token.\<close>

definition deltanet_grouped_conv_kernel ::
  "'f fops \<Rightarrow> dtype \<Rightarrow> 'f list \<Rightarrow> 'f list \<Rightarrow> 'f list \<Rightarrow> nat \<Rightarrow> nat \<Rightarrow> nat \<Rightarrow> nat \<Rightarrow> nat \<Rightarrow> nat \<Rightarrow>
   ('f list \<times> 'f list \<times> 'f list) \<times> 'f list" where
  "deltanet_grouped_conv_kernel F d conv_state qkv weight token_count num_qk_heads num_value_heads
     key_head_dim value_head_dim kernel_size =
     (let key_width = num_qk_heads * key_head_dim;
          value_width = num_value_heads * value_head_dim;
          channels = key_width * 2 + value_width;
          output = (if token_count = 1 \<and> kernel_size = 4 then conv_output_k4 F
                    else conv_output F (kernel_size - 1))
      in (case conv_tokens (conv_token F d output channels (kernel_size - 1) weight)
                 (rows_of channels token_count qkv) conv_state of
            (outs, final) \<Rightarrow>
              ((concat (map (take key_width) outs),
                concat (map (\<lambda>r. take key_width (drop key_width r)) outs),
                concat (map (drop (key_width * 2)) outs)), final)))"

section \<open>Gated recurrent update\<close>

text \<open>The decay and the write strength of a head at a token.\<close>

definition head_decay :: "'f fops \<Rightarrow> 'f \<Rightarrow> 'f \<Rightarrow> 'f \<Rightarrow> 'f" where
  "head_decay F dt_bias a a_log =
     (let decay_arg = f_add F dt_bias a;
          softplus = f_add F (f_max F decay_arg (f_zero F))
                             (f_log1p F (f_exp F (f_neg F (f_abs F decay_arg))))
      in f_exp F (f_mul F (f_neg F (f_exp F a_log)) softplus))"

text \<open>The generic kernel, one head and one token. \<open>state ! (i * value_dim + j)\<close> is the
  state; the reads \<open>q\<close>, \<open>k\<close>, \<open>v\<close>, \<open>z\<close> are the token's rows of the head.\<close>

definition recurrent_head ::
  "'f fops \<Rightarrow> dtype \<Rightarrow> nat \<Rightarrow> nat \<Rightarrow> 'f \<Rightarrow> 'f \<Rightarrow> 'f \<Rightarrow> (nat \<Rightarrow> 'f) \<Rightarrow>
   (nat \<Rightarrow> 'f) \<times> (nat \<Rightarrow> 'f) \<times> (nat \<Rightarrow> 'f) \<times> (nat \<Rightarrow> 'f) \<Rightarrow> 'f list \<Rightarrow> 'f list \<times> 'f list" where
  "recurrent_head F d key_dim value_dim eps decay beta norm = (\<lambda>(q, k, v, z) state.
     (let eps6 = f_lit F 1 1000000;
          q_scale = f_mul F (f_rsqrt F (f_add F (block_sum F kBlockSize key_dim (\<lambda>i. f_mul F (q i) (q i))) eps6))
                            (f_rsqrt F (f_int F (int key_dim)));
          k_scale = f_rsqrt F (f_add F (block_sum F kBlockSize key_dim (\<lambda>i. f_mul F (k i) (k i))) eps6);
          decayed = (\<lambda>i j. f_mul F (state ! (i * value_dim + j)) decay);
          retrieved = (\<lambda>j. acc_sum F key_dim (\<lambda>i. f_mul F (f_mul F (k i) k_scale) (decayed i j)));
          corrected = (\<lambda>j. f_sub F (v j) (retrieved j));
          updated = (\<lambda>i j. f_add F (decayed i j)
                             (f_mul F (f_mul F (f_mul F beta (k i)) k_scale) (corrected j)));
          output = (\<lambda>j. acc_sum F key_dim (\<lambda>i. f_mul F (f_mul F (q i) q_scale) (updated i j)));
          inv_rms = f_rsqrt F (f_add F
            (f_div F (block_sum F kBlockSize value_dim (\<lambda>j. f_mul F (output j) (output j)))
                     (f_int F (int value_dim))) eps)
      in (map (\<lambda>j. f_store F d (f_mul F (f_mul F (f_mul F (f_store F d (output j)) inv_rms) (norm j))
                                   (f_silu F (z j)))) [0..<value_dim],
          concat (map (\<lambda>i. map (updated i) [0..<value_dim]) [0..<key_dim]))))"

text \<open>The decode specialisation for a state of 128 by 128: normalised keys and queries, and
  shuffle reductions.\<close>

definition recurrent_head_decode128 ::
  "'f fops \<Rightarrow> nat \<Rightarrow> dtype \<Rightarrow> 'f \<Rightarrow> 'f \<Rightarrow> 'f \<Rightarrow> (nat \<Rightarrow> 'f) \<Rightarrow>
   (nat \<Rightarrow> 'f) \<times> (nat \<Rightarrow> 'f) \<times> (nat \<Rightarrow> 'f) \<times> (nat \<Rightarrow> 'f) \<Rightarrow> 'f list \<Rightarrow> 'f list \<times> 'f list" where
  "recurrent_head_decode128 F warp d eps decay beta norm = (\<lambda>(q, k, v, z) state.
     (let eps6 = f_lit F 1 1000000;
          squares = (\<lambda>x i. f_add F (f_zero F) (f_mul F (x i) (x i)));
          q_scale = f_mul F (f_rsqrt F (f_add F (waves_sum F warp 128 (squares q)) eps6))
                            (f_rsqrt F (f_int F 128));
          k_scale = f_rsqrt F (f_add F (waves_sum F warp 128 (squares k)) eps6);
          qn = (\<lambda>i. f_mul F (q i) q_scale);
          kn = (\<lambda>i. f_mul F (k i) k_scale);
          decayed = (\<lambda>i j. f_mul F (state ! (i * 128 + j)) decay);
          retrieved = (\<lambda>j. acc_sum F 128 (\<lambda>i. f_mul F (kn i) (decayed i j)));
          corrected = (\<lambda>j. f_sub F (v j) (retrieved j));
          updated = (\<lambda>i j. f_add F (decayed i j) (f_mul F (f_mul F beta (kn i)) (corrected j)));
          output = (\<lambda>j. acc_sum F 128 (\<lambda>i. f_mul F (qn i) (updated i j)));
          inv_rms = f_rsqrt F (f_add F
            (f_div F (waves_sum F warp 128 (\<lambda>j. f_mul F (output j) (output j))) (f_int F 128)) eps)
      in (map (\<lambda>j. f_store F d (f_mul F (f_mul F (f_mul F (f_store F d (output j)) inv_rms) (norm j))
                                   (f_silu F (z j)))) [0..<128],
          concat (map (\<lambda>i. map (updated i) [0..<128]) [0..<128]))))"

text \<open>The tensors of one token, as flat rows: query and key \<open>[qk_heads, key_dim]\<close>, value
  and \<open>z\<close> \<open>[value_heads, value_dim]\<close>, \<open>a\<close> and \<open>beta\<close> \<open>[value_heads]\<close>.\<close>

record 'f token_rows =
  tr_query :: "'f list"
  tr_key :: "'f list"
  tr_value :: "'f list"
  tr_a :: "'f list"
  tr_beta :: "'f list"
  tr_z :: "'f list"

text \<open>One token of all value heads. The generic kernel takes the norm weight of the head
  instead of the dimension when the number of weights equals the number of heads; the
  decode kernel always takes that of the dimension.\<close>

definition recurrent_token ::
  "'f fops \<Rightarrow> nat \<Rightarrow> bool \<Rightarrow> dtype \<Rightarrow> 'f list \<times> 'f list \<times> 'f list \<Rightarrow> nat \<Rightarrow> nat \<Rightarrow> nat \<Rightarrow> nat \<Rightarrow> nat \<Rightarrow> 'f \<Rightarrow>
   'f token_rows \<Rightarrow> 'f list \<Rightarrow> 'f list \<times> 'f list" where
  "recurrent_token F warp decode128 d weights num_qk_heads num_value_heads key_dim value_dim
     norm_weight_count eps row state =
     (case weights of
        (a_log, dt_bias, norm_weight) \<Rightarrow>
          (let head_step = (\<lambda>h.
                 (let qk = h div (num_value_heads div num_qk_heads);
                      reads = (\<lambda>i. tr_query row ! (qk * key_dim + i), \<lambda>i. tr_key row ! (qk * key_dim + i),
                               \<lambda>j. tr_value row ! (h * value_dim + j), \<lambda>j. tr_z row ! (h * value_dim + j));
                      decay = head_decay F (dt_bias ! h) (tr_a row ! h) (a_log ! h);
                      beta = f_sigmoid F (tr_beta row ! h);
                      head_state = take (key_dim * value_dim) (drop (h * (key_dim * value_dim)) state)
                  in if decode128
                     then recurrent_head_decode128 F warp d eps decay beta (\<lambda>j. norm_weight ! j)
                            reads head_state
                     else recurrent_head F d key_dim value_dim eps decay beta
                            (\<lambda>j. norm_weight ! (if norm_weight_count = num_value_heads then h else j))
                            reads head_state));
               results = map head_step [0..<num_value_heads]
           in (concat (map fst results), concat (map snd results))))"

fun recurrent_tokens ::
  "('f token_rows \<Rightarrow> 'f list \<Rightarrow> 'f list \<times> 'f list) \<Rightarrow> 'f token_rows list \<Rightarrow> 'f list \<Rightarrow> 'f list list \<times> 'f list" where
  "recurrent_tokens step [] state = ([], state)"
| "recurrent_tokens step (row # rows) state =
     (case step row state of
        (out, state') \<Rightarrow>
          (case recurrent_tokens step rows state' of (outs, final) \<Rightarrow> (out # outs, final)))"

definition token_rows_of ::
  "nat \<Rightarrow> nat \<Rightarrow> nat \<Rightarrow> nat \<Rightarrow> nat \<Rightarrow> 'f list \<times> 'f list \<times> 'f list \<Rightarrow> 'f list \<times> 'f list \<times> 'f list \<Rightarrow> 'f token_rows list" where
  "token_rows_of m num_qk_heads num_value_heads key_dim value_dim = (\<lambda>(q, k, v) (a, beta, z).
     map (\<lambda>t. \<lparr>tr_query = take (num_qk_heads * key_dim) (drop (t * (num_qk_heads * key_dim)) q),
               tr_key = take (num_qk_heads * key_dim) (drop (t * (num_qk_heads * key_dim)) k),
               tr_value = take (num_value_heads * value_dim) (drop (t * (num_value_heads * value_dim)) v),
               tr_a = take num_value_heads (drop (t * num_value_heads) a),
               tr_beta = take num_value_heads (drop (t * num_value_heads) beta),
               tr_z = take (num_value_heads * value_dim) (drop (t * (num_value_heads * value_dim)) z)\<rparr>)
       [0..<m])"

text \<open>\<open>launch_deltanet_recurrent\<close>: the decode kernel for one token of a state of 128 by
  128, the generic kernel otherwise.\<close>

definition deltanet_recurrent_kernel ::
  "'f fops \<Rightarrow> nat \<Rightarrow> dtype \<Rightarrow> 'f list \<Rightarrow> 'f list \<times> 'f list \<times> 'f list \<Rightarrow> 'f list \<times> 'f list \<times> 'f list \<Rightarrow>
   'f list \<times> 'f list \<times> 'f list \<Rightarrow> nat \<Rightarrow> nat \<Rightarrow> nat \<Rightarrow> nat \<Rightarrow> nat \<Rightarrow> nat \<Rightarrow> 'f \<Rightarrow> 'f list \<times> 'f list" where
  "deltanet_recurrent_kernel F warp d recurrent_state qkv abz weights token_count num_qk_heads
     num_value_heads key_dim value_dim norm_weight_count eps =
     (case recurrent_tokens
             (recurrent_token F warp (token_count = 1 \<and> key_dim = 128 \<and> value_dim = 128) d weights
                num_qk_heads num_value_heads key_dim value_dim norm_weight_count eps)
             (token_rows_of token_count num_qk_heads num_value_heads key_dim value_dim qkv abz)
             recurrent_state of
        (outs, final) \<Rightarrow> (concat outs, final))"

section \<open>Argmax\<close>

text \<open>Each lane scans its columns for a strictly greater value; the tree keeps the lower
  lane unless the upper one is strictly greater.\<close>

definition lane_best :: "'f fops \<Rightarrow> nat \<Rightarrow> nat \<Rightarrow> (nat \<Rightarrow> 'f) \<Rightarrow> nat \<Rightarrow> 'f \<times> nat" where
  "lane_best F lanes n row lane =
     fold (\<lambda>c (best, index). if f_gt F (row c) best then (row c, c) else (best, index))
       (strided lanes n lane) (f_neg_inf F, 0)"

definition best_step :: "'f fops \<Rightarrow> nat \<Rightarrow> ('f \<times> nat) list \<Rightarrow> ('f \<times> nat) list" where
  "best_step F stride xs =
     map (\<lambda>i. if i < stride \<and> f_gt F (fst (xs ! (i + stride))) (fst (xs ! i))
              then xs ! (i + stride) else xs ! i) [0..<length xs]"

function best_reduce :: "'f fops \<Rightarrow> nat \<Rightarrow> ('f \<times> nat) list \<Rightarrow> ('f \<times> nat) list" where
  "best_reduce F stride xs =
     (if stride = 0 then xs else best_reduce F (stride div 2) (best_step F stride xs))"
  by pat_completeness auto
termination by (relation "measure (\<lambda>(F, s, xs). s)") auto

declare best_reduce.simps [simp del]

definition row_argmax :: "'f fops \<Rightarrow> nat \<Rightarrow> (nat \<Rightarrow> 'f) \<Rightarrow> int" where
  "row_argmax F columns row =
     int (snd (best_reduce F (kBlockSize div 2)
                 (map (lane_best F kBlockSize columns row) [0..<kBlockSize]) ! 0))"

definition argmax_last_row_kernel :: "'f fops \<Rightarrow> 'f list \<Rightarrow> nat \<Rightarrow> nat \<Rightarrow> int" where
  "argmax_last_row_kernel F src rows columns =
     row_argmax F columns (\<lambda>c. src ! ((rows - 1) * columns + c))"

definition argmax_rows_kernel :: "'f fops \<Rightarrow> 'f list \<Rightarrow> nat \<Rightarrow> nat \<Rightarrow> int list" where
  "argmax_rows_kernel F src rows columns =
     map (\<lambda>r. row_argmax F columns (\<lambda>c. src ! (r * columns + c))) [0..<rows]"

end
