(* ===== verification/Qwen_Layers.thy ===== *)
theory Qwen_Layers
  imports Attention_Op DeltaNet_Op Generator Hip_Recurrent
begin

text \<open>
  The Qwen operators of \<open>src/models/qwen_reference.cc\<close> and the engine that
  \<open>src/generator.cc\<close> runs: embedding lookup, the normalisation, residual, MLP, attention
  and DeltaNet steps of a layer, and their assembly, per layer and device, into the record
  \<open>engine\<close> of \<open>Decoder_Model\<close>. Between the steps an activation is the list of its
  rows; inside a step it is the tensor \<open>[rows, width]\<close> the source passes.
\<close>

section \<open>Configuration and weights\<close>

text \<open>The fields of \<open>Qwen3Config\<close> (\<open>src/models/qwen3_config.h\<close>).\<close>

datatype layer_type = LinearAttention | FullAttention

record 'f qwen_config =
  hidden_size :: int
  num_hidden_layers :: int
  num_attention_heads :: int
  num_key_value_heads :: int
  head_dim :: int
  rope_head_dim :: int
  intermediate_size :: int
  vocab_size :: int
  max_position_embeddings :: int
  rope_theta :: 'f
  rms_norm_eps :: 'f
  linear_num_key_heads :: int
  linear_num_value_heads :: int
  linear_key_head_dim :: int
  linear_value_head_dim :: int
  linear_conv_kernel_dim :: int
  layer_types :: "layer_type list"
  full_attention_interval :: int
  attn_output_gate :: bool
  output_gate_type :: string
  mamba_ssm_dtype :: string
  use_cache :: bool
  bos_token_id :: int
  eos_token_ids :: "int list"
  pad_token_id :: int
  tie_word_embeddings :: bool
  mtp_num_hidden_layers :: int
  mtp_use_dedicated_embeddings :: bool

text \<open>\<open>Qwen3LayerWeights\<close>, \<open>Qwen3SharedWeights\<close> and \<open>Qwen3MTPWeights\<close>
  (\<open>src/models/qwen3_weights.h\<close>). Of a quantized weight the operators read the values
  only. The tensors of the other mixer kind are not read.\<close>

record 'f layer_weights =
  lw_is_attention :: bool
  lw_input_layernorm :: "'f tensor"
  lw_post_attention_layernorm :: "'f tensor"
  lw_linear_attn_norm :: "'f tensor"
  lw_q_norm :: "'f tensor option"
  lw_k_norm :: "'f tensor option"
  lw_a_log :: "'f tensor"
  lw_conv1d_weight :: "'f tensor"
  lw_dt_bias :: "'f tensor"
  lw_in_proj_a :: "'f tensor"
  lw_in_proj_b :: "'f tensor"
  lw_in_proj_qkv :: "'f tensor"
  lw_in_proj_z :: "'f tensor"
  lw_linear_out_proj :: "'f tensor"
  lw_q_proj :: "'f tensor"
  lw_k_proj :: "'f tensor"
  lw_v_proj :: "'f tensor"
  lw_o_proj :: "'f tensor"
  lw_mlp_gate_proj :: "'f tensor"
  lw_mlp_up_proj :: "'f tensor"
  lw_mlp_down_proj :: "'f tensor"

record 'f mtp_weights =
  mw_fc :: "'f tensor"
  mw_norm :: "'f tensor"
  mw_pre_fc_norm_embedding :: "'f tensor"
  mw_pre_fc_norm_hidden :: "'f tensor"
  mw_layers :: "'f layer_weights list"

record 'f distributed_weights =
  dw_embed_tokens :: "'f tensor"
  dw_final_norm :: "'f tensor"
  dw_lm_head :: "'f tensor"
  dw_mtp :: "'f mtp_weights"
  dw_layers :: "('f layer_weights \<times> device) list"

section \<open>The operators\<close>

text \<open>The ids are passed to the gather as they are; the copy to their device buffer is there for
  its status.\<close>

definition lookup_embedding ::
  "'f backends \<Rightarrow> 'f tensor \<Rightarrow> int list \<Rightarrow> device \<Rightarrow> status + 'f tensor" where
  "lookup_embedding reg embedding ids dev =
     (case reg dev of
        None \<Rightarrow> Inl (Status InvalidArgument ''Invalid BF16 embedding lookup arguments'')
      | Some backend \<Rightarrow>
          (if t_dtype embedding \<noteq> BF16 \<or> ndim (t_shape embedding) \<noteq> 2
           then Inl (Status InvalidArgument ''Invalid BF16 embedding lookup arguments'')
           else
             (let vocab = t_shape embedding ! 0; width = t_shape embedding ! 1; n = int (length ids) in
              if list_ex (\<lambda>id. id < 0 \<or> vocab \<le> id) ids
              then Inl (Status InvalidArgument ''Token id is outside embedding vocabulary'')
              else
                (case create_buffer backend (n * width) BF16 DeviceMem of
                   None \<Rightarrow> Inl (Status OutOfMemory ''Failed to allocate embedding output'')
                 | Some b \<Rightarrow>
                     (if is_gpu dev
                      then (case create_buffer backend n INT64 DeviceMem of
                              None \<Rightarrow> Inl (Status OutOfMemory ''Failed to allocate embedding ids'')
                            | Some device_ids \<Rightarrow>
                                (case and_then (bk_memcpy_h2d backend device_ids []) (\<lambda>_.
                                        bk_embedding_gather backend b (t_buffer embedding) ids BF16 n vocab width) of
                                   Inl (Failed s) \<Rightarrow> Inl s
                                 | Inl _ \<Rightarrow> Inl (Status UnknownStatus '''')
                                 | Inr b' \<Rightarrow> Inr (mk_tensor [n, width] BF16 dev b')))
                      else Inr (mk_tensor [n, width] BF16 dev
                             (write_prefix (concat (map (\<lambda>id. take (nat width)
                                (drop (nat id * nat width) (t_data embedding))) ids)) b)))))))"

definition qwen_rmsnorm_reference ::
  "'f fops \<Rightarrow> 'f backends \<Rightarrow> 'f tensor \<Rightarrow> 'f tensor \<Rightarrow> device \<Rightarrow> 'f \<Rightarrow> 'f tensor option" where
  "qwen_rmsnorm_reference F reg input weight dev eps =
     (if reg dev = None \<or> t_dtype input \<noteq> t_dtype weight \<or> ndim (t_shape input) = 0 \<or>
         ndim (t_shape weight) \<noteq> 1 \<or> t_shape weight ! 0 \<noteq> last (t_shape input) \<or>
         \<not> device_eq (t_device input) dev \<or> \<not> device_eq (t_device weight) dev then None
      else rmsnorm_forward F reg input weight eps True)"

definition make_residual ::
  "'f fops \<Rightarrow> 'f backends \<Rightarrow> 'f tensor \<Rightarrow> 'f tensor \<Rightarrow> device \<Rightarrow> 'f tensor option" where
  "make_residual F reg lhs rhs dev =
     (case reg dev of
        None \<Rightarrow> None
      | Some backend \<Rightarrow>
          (if t_dtype lhs \<noteq> t_dtype rhs \<or> t_shape lhs \<noteq> t_shape rhs \<or>
              \<not> device_eq (t_device lhs) dev \<or> \<not> device_eq (t_device rhs) dev then None
           else
             (case create_buffer backend (t_numel lhs) (t_dtype lhs)
                     (if is_gpu dev then DeviceMem else HostMem) of
                None \<Rightarrow> None
              | Some b \<Rightarrow>
                  (let finish = mk_tensor (t_shape lhs) (t_dtype lhs) dev in
                   (if is_gpu dev
                    then map_option finish (from_result
                           (bk_add backend b (t_buffer lhs) (t_buffer rhs) (t_dtype lhs) (t_numel lhs)))
                    else if t_dtype lhs \<noteq> FP32 then None
                    else Some (finish (write_prefix
                           (map (\<lambda>i. f_add F (t_data lhs ! i) (t_data rhs ! i)) [0..<nat (t_numel lhs)])
                           b)))))))"

definition qwen_mlp_reference ::
  "'f fops \<Rightarrow> 'f backends \<Rightarrow> 'f tensor \<Rightarrow> 'f layer_weights \<Rightarrow> device \<Rightarrow> 'f tensor option" where
  "qwen_mlp_reference F reg input W dev =
     (case reg dev of
        None \<Rightarrow> None
      | Some backend \<Rightarrow>
          (if \<not> device_eq (t_device input) dev \<or> t_dtype input \<noteq> t_dtype (lw_mlp_gate_proj W) then None
           else
             (case (linear_forward F reg input (lw_mlp_gate_proj W) True None,
                    linear_forward F reg input (lw_mlp_up_proj W) True None) of
                (Some gate, Some up) \<Rightarrow>
                  Option.bind
                    (if is_gpu (t_device input)
                     then map_option (\<lambda>b. gate\<lparr>t_buffer := b\<rparr>) (from_result
                            (bk_silu_mul backend (t_buffer gate) (t_buffer gate) (t_buffer up)
                               (t_dtype gate) (t_numel gate)))
                     else elementwise_silu_mul F reg gate up)
                    (\<lambda>activated. linear_forward F reg activated (lw_mlp_down_proj W) True None)
              | _ \<Rightarrow> None)))"

definition attention_args_of ::
  "'f qwen_config \<Rightarrow> 'f layer_weights \<Rightarrow> int \<Rightarrow> 'f attention_args" where
  "attention_args_of cfg W max_cache_len =
     \<lparr>aa_wq = lw_q_proj W, aa_wk = lw_k_proj W, aa_wv = lw_v_proj W, aa_wo = lw_o_proj W,
      aa_q_norm = lw_q_norm W, aa_k_norm = lw_k_norm W, aa_num_q_heads = num_attention_heads cfg,
      aa_num_kv_heads = num_key_value_heads cfg, aa_head_dim = head_dim cfg,
      aa_rope_head_dim = rope_head_dim cfg, aa_rope_base = rope_theta cfg, aa_eps = rms_norm_eps cfg,
      aa_max_seq_len = max_cache_len\<rparr>"

definition qwen_attention_reference ::
  "'f fops \<Rightarrow> 'f backends \<Rightarrow> 'f qwen_config \<Rightarrow> 'f tensor \<Rightarrow> 'f layer_weights \<Rightarrow> device \<Rightarrow>
   'f attention_cache option \<Rightarrow> int \<Rightarrow> 'f tensor option \<times> 'f attention_cache option" where
  "qwen_attention_reference F reg cfg input W dev cache max_cache_len =
     (if \<not> lw_is_attention W \<or> reg dev = None then (None, cache)
      else attention_forward F reg input (attention_args_of cfg W max_cache_len) cache)"

definition qwen_deltanet_reference ::
  "'f fops \<Rightarrow> 'f backends \<Rightarrow> 'f qwen_config \<Rightarrow> 'f tensor \<Rightarrow> 'f layer_weights \<Rightarrow> device \<Rightarrow>
   'f deltanet_cache \<Rightarrow> 'f tensor option \<times> 'f deltanet_cache" where
  "qwen_deltanet_reference F reg cfg input W dev c =
     (let nqk = linear_num_key_heads cfg; nv = linear_num_value_heads cfg;
          kd = linear_key_head_dim cfg; vd = linear_value_head_dim cfg; n = t_shape input ! 0;
          project = (\<lambda>w. linear_forward F reg input w True None) in
      if reg dev = None \<or> \<not> is_gpu (t_device input) \<or> \<not> device_eq (t_device input) dev \<or>
         t_dtype input \<noteq> BF16 \<or> ndim (t_shape input) \<noteq> 2 then (None, c)
      else
        (case (project (lw_in_proj_qkv W), project (lw_in_proj_z W), project (lw_in_proj_a W),
               project (lw_in_proj_b W)) of
           (Some qkv, Some z, Some a, Some b) \<Rightarrow>
             (case grouped_causal_conv reg qkv (lw_conv1d_weight W) nqk nv kd vd
                     (linear_conv_kernel_dim cfg) c of
                (None, c1) \<Rightarrow> (None, c1)
              | (Some X, c1) \<Rightarrow>
                  (case (reshape a [n, nv], reshape b [n, nv], reshape z [n, nv, vd]) of
                     (Some a', Some b', Some z') \<Rightarrow>
                       (case deltanet_recurrent F reg X
                               \<lparr>ra_a = a', ra_b = b', ra_z = z', ra_a_log = lw_a_log W,
                                ra_dt_bias = lw_dt_bias W, ra_norm_weight = lw_linear_attn_norm W\<rparr>
                               nqk nv kd vd (rms_norm_eps cfg) c1 of
                          (None, c2) \<Rightarrow> (None, c2)
                        | (Some r, c2) \<Rightarrow>
                            (Option.bind (reshape r [n, nv * vd])
                               (\<lambda>flat. linear_forward F reg flat (lw_linear_out_proj W) True None), c2))
                   | _ \<Rightarrow> (None, c1)))
         | _ \<Rightarrow> (None, c)))"

section \<open>Rows of a tensor\<close>

text \<open>The activation tensor with the given rows, and the rows of a tensor.\<close>

definition mat :: "device \<Rightarrow> nat \<Rightarrow> nat \<Rightarrow> 'f list \<Rightarrow> 'f tensor" where
  "mat dev width m xs = mk_tensor [int m, int width] BF16 dev
     \<lparr>bf_device = dev, bf_mem = DeviceMem, bf_width = 2, bf_data = xs\<rparr>"

definition tensor_rows :: "'f tensor \<Rightarrow> 'f list list option" where
  "tensor_rows t =
     (if ndim (t_shape t) = 2 then Some (rows_of (nat (t_shape t ! 1)) (nat (t_shape t ! 0)) (t_data t))
      else None)"

definition rows_tensor :: "device \<Rightarrow> nat \<Rightarrow> 'f list list \<Rightarrow> 'f tensor option" where
  "rows_tensor dev width rows =
     (if list_all (\<lambda>r. length r = width) rows then Some (mat dev width (length rows) (concat rows))
      else None)"

definition on_rows ::
  "device \<Rightarrow> nat \<Rightarrow> ('f tensor \<Rightarrow> 'f tensor option) \<Rightarrow> 'f list list \<Rightarrow> 'f list list option" where
  "on_rows dev width f rows =
     Option.bind (rows_tensor dev width rows) (\<lambda>t. Option.bind (f t) tensor_rows)"

definition on_rows2 ::
  "device \<Rightarrow> nat \<Rightarrow> ('f tensor \<Rightarrow> 'f tensor \<Rightarrow> 'f tensor option) \<Rightarrow> 'f list list \<Rightarrow> 'f list list \<Rightarrow>
   'f list list option" where
  "on_rows2 dev width f xs ys =
     Option.bind (rows_tensor dev width xs) (\<lambda>s. Option.bind (rows_tensor dev width ys)
       (\<lambda>t. Option.bind (f s t) tensor_rows))"

definition on_rows_state ::
  "device \<Rightarrow> nat \<Rightarrow> ('f tensor \<Rightarrow> 'c \<Rightarrow> 'f tensor option \<times> 'c) \<Rightarrow> 'f list list \<Rightarrow> 'c \<Rightarrow>
   'f list list option \<times> 'c" where
  "on_rows_state dev width f rows c =
     (case rows_tensor dev width rows of
        None \<Rightarrow> (None, c)
      | Some t \<Rightarrow> (case f t c of (out, c') \<Rightarrow> (Option.bind out tensor_rows, c')))"

section \<open>Row copies of the generator\<close>

text \<open>\<open>concat_mtp_inputs\<close>: the rows of two tensors side by side, copied range by range.\<close>

fun copy_rows ::
  "'f backend \<Rightarrow> 'f buffer \<Rightarrow> 'f buffer \<Rightarrow> nat \<Rightarrow> nat \<Rightarrow> nat \<Rightarrow> nat \<Rightarrow> 'f buffer \<Rightarrow> 'f buffer result" where
  "copy_rows backend e h ebytes hbytes row 0 dst = Inr dst"
| "copy_rows backend e h ebytes hbytes row (Suc n) dst =
     and_then (bk_copy_to_offset backend dst (row * (ebytes + hbytes)) e (row * ebytes) ebytes) (\<lambda>dst1.
     and_then (bk_copy_to_offset backend dst1 (row * (ebytes + hbytes) + ebytes) h (row * hbytes) hbytes)
       (\<lambda>dst2. copy_rows backend e h ebytes hbytes (Suc row) n dst2))"

definition concat_mtp_inputs ::
  "'f backends \<Rightarrow> 'f tensor \<Rightarrow> 'f tensor \<Rightarrow> device \<Rightarrow> 'f tensor option" where
  "concat_mtp_inputs reg embedding hidden dev =
     (case reg dev of
        None \<Rightarrow> None
      | Some backend \<Rightarrow>
          (if \<not> device_eq (t_device embedding) dev \<or> \<not> device_eq (t_device hidden) dev \<or>
              t_dtype embedding \<noteq> t_dtype hidden \<or> ndim (t_shape embedding) \<noteq> 2 \<or>
              ndim (t_shape hidden) \<noteq> 2 \<or> t_shape embedding ! 0 \<noteq> t_shape hidden ! 0 then None
           else
             (let rows = t_shape embedding ! 0; we = t_shape embedding ! 1; wh = t_shape hidden ! 1;
                  d = t_dtype embedding; element_bytes = SizeOfDType d in
              (case create_buffer backend (rows * (we + wh)) d (t_mem embedding) of
                 None \<Rightarrow> None
               | Some b \<Rightarrow>
                   map_option (mk_tensor [rows, we + wh] d dev) (from_result
                     (copy_rows backend (t_buffer embedding) (t_buffer hidden) (nat we * element_bytes)
                        (nat wh * element_bytes) 0 (nat rows) b))))))"

definition row_copy :: "'f backends \<Rightarrow> 'f tensor \<Rightarrow> int \<Rightarrow> device \<Rightarrow> 'f tensor option" where
  "row_copy reg input row dev =
     (case reg dev of
        None \<Rightarrow> None
      | Some backend \<Rightarrow>
          (if ndim (t_shape input) \<noteq> 2 \<or> t_shape input ! 0 \<le> 0 \<or> row < 0 \<or> t_shape input ! 0 \<le> row \<or>
              \<not> device_eq (t_device input) dev then None
           else
             (let width = t_shape input ! 1; d = t_dtype input;
                  row_bytes = nat width * SizeOfDType d in
              (case create_buffer backend width d (t_mem input) of
                 None \<Rightarrow> None
               | Some b \<Rightarrow>
                   map_option (mk_tensor [1, width] d dev) (from_result
                     (bk_copy_to_offset backend b 0 (t_buffer input) (nat row * row_bytes) row_bytes))))))"

definition last_row_copy :: "'f backends \<Rightarrow> 'f tensor \<Rightarrow> device \<Rightarrow> 'f tensor option" where
  "last_row_copy reg input dev =
     (if ndim (t_shape input) \<noteq> 2 \<or> t_shape input ! 0 \<le> 0 then None
      else row_copy reg input (t_shape input ! 0 - 1) dev)"

text \<open>The same row written to a buffer the caller has; a negative width is a huge size.\<close>

definition last_row_copy_into :: "'f backend \<Rightarrow> 'f tensor \<Rightarrow> device \<Rightarrow> 'f buffer \<Rightarrow> 'f tensor option" where
  "last_row_copy_into backend input dev out =
     (if ndim (t_shape input) \<noteq> 2 \<or> t_shape input ! 0 \<le> 0 \<or> \<not> device_eq (t_device input) dev then None
      else
        (let width = t_shape input ! 1; d = t_dtype input; row_bytes = nat width * SizeOfDType d in
         if width < 0 \<or> bf_size out < row_bytes \<or> bf_mem out \<noteq> t_mem input then None
         else map_option (mk_tensor [1, width] d dev) (from_result
           (bk_copy_to_offset backend out 0 (t_buffer input) (nat (t_shape input ! 0 - 1) * row_bytes) row_bytes))))"

section \<open>The engine\<close>

definition qwen_layer_ops ::
  "'f fops \<Rightarrow> 'f backends \<Rightarrow> 'f qwen_config \<Rightarrow> int \<Rightarrow> nat \<Rightarrow> device \<Rightarrow> 'f layer_weights \<Rightarrow> device \<Rightarrow>
   ('f list, 'f tensor, 'f tensor, 'f tensor) layer_ops" where
  "qwen_layer_ops F reg cfg max_cache_len width source W dev = \<lparr>
     is_attention_layer = lw_is_attention W,
     move_to = on_rows source width (\<lambda>t. to_device reg t dev),
     input_norm = on_rows dev width
       (\<lambda>t. qwen_rmsnorm_reference F reg t (lw_input_layernorm W) dev (rms_norm_eps cfg)),
     attention_mixer = on_rows_state dev width (\<lambda>t c.
       case qwen_attention_reference F reg cfg t W dev (Some c) max_cache_len of
         (out, c') \<Rightarrow> (out, case c' of None \<Rightarrow> c | Some c'' \<Rightarrow> c'')),
     deltanet_mixer = on_rows_state dev width (\<lambda>t c. qwen_deltanet_reference F reg cfg t W dev c),
     residual = on_rows2 dev width (\<lambda>s t. make_residual F reg s t dev),
     post_norm = on_rows dev width
       (\<lambda>t. qwen_rmsnorm_reference F reg t (lw_post_attention_layernorm W) dev (rms_norm_eps cfg)),
     mlp = on_rows dev width (\<lambda>t. qwen_mlp_reference F reg t W dev),
     layer_sync_ok = (case reg dev of None \<Rightarrow> False | Some b \<Rightarrow> bk_synchronize b = Inr ())\<rparr>"

text \<open>The layers in order; the activation comes from the device of the layer before.\<close>

fun qwen_stack ::
  "'f fops \<Rightarrow> 'f backends \<Rightarrow> 'f qwen_config \<Rightarrow> int \<Rightarrow> nat \<Rightarrow> device \<Rightarrow> ('f layer_weights \<times> device) list \<Rightarrow>
   ('f list, 'f tensor, 'f tensor, 'f tensor) layer_ops list" where
  "qwen_stack F reg cfg n width source [] = []"
| "qwen_stack F reg cfg n width source ((W, dev) # rest) =
     qwen_layer_ops F reg cfg n width source W dev # qwen_stack F reg cfg n width dev rest"

definition last_device :: "device \<Rightarrow> ('a \<times> device) list \<Rightarrow> device" where
  "last_device d ls = (if ls = [] then d else snd (last ls))"

text \<open>\<open>AttentionKVCache::clone\<close> and \<open>DeltaNetCache::checkpoint\<close> into a default
  destination.\<close>

definition engine_kv_clone :: "'f backends \<Rightarrow> 'f attention_cache \<Rightarrow> 'f attention_cache option" where
  "engine_kv_clone reg c = from_result (kv_clone reg c kv_empty)"

definition engine_dn_clone :: "'f backends \<Rightarrow> 'f deltanet_cache \<Rightarrow> 'f deltanet_cache option" where
  "engine_dn_clone reg c = from_result (dn_clone reg c dn_empty)"

text \<open>The device argmax of the logits rows, through an index buffer that is copied back. The
  second component is the caller's variable, which keeps its initial value when the device
  path fails before the copy; the copy is there for its status.\<close>

definition device_argmax_last :: "'f backends \<Rightarrow> device \<Rightarrow> nat \<Rightarrow> 'f list list \<Rightarrow> bool \<times> int" where
  "device_argmax_last reg dev vocab rows =
     (case (reg dev, rows_tensor dev vocab rows) of
        (Some backend, Some t) \<Rightarrow>
          (case create_buffer backend 1 INT64 DeviceMem of
             None \<Rightarrow> (False, 0)
           | Some index \<Rightarrow>
               (case (bk_argmax_last_row backend (t_buffer t) (t_dtype t) (int (length rows)) (int vocab),
                      bk_memcpy_d2h backend index 8) of
                  (Inr i, Inr _) \<Rightarrow> (bk_synchronize backend = Inr (), i)
                | _ \<Rightarrow> (False, 0)))
      | _ \<Rightarrow> (False, 0))"

definition device_argmax_rows :: "'f backends \<Rightarrow> device \<Rightarrow> nat \<Rightarrow> 'f list list \<Rightarrow> bool \<times> int list" where
  "device_argmax_rows reg dev vocab rows =
     (let none = (False, replicate (length rows) 0) in
      (case (reg dev, rows_tensor dev vocab rows) of
         (Some backend, Some t) \<Rightarrow>
           (case create_buffer backend (int (length rows)) INT64 DeviceMem of
              None \<Rightarrow> none
            | Some indices \<Rightarrow>
                (case (bk_argmax_rows backend (t_buffer t) (t_dtype t) (int (length rows)) (int vocab),
                       bk_memcpy_d2h backend indices (length rows * 8)) of
                   (Inr is, Inr _) \<Rightarrow> (bk_synchronize backend = Inr (), is)
                 | _ \<Rightarrow> none))
       | _ \<Rightarrow> none))"

definition host_logits :: "'f backends \<Rightarrow> device \<Rightarrow> nat \<Rightarrow> 'f list list \<Rightarrow> 'f list list option" where
  "host_logits reg dev vocab rows =
     (case (reg dev, rows_tensor dev vocab rows) of
        (Some backend, Some t) \<Rightarrow>
          (case (bk_memcpy_d2h backend (t_buffer t) (t_nbytes t), bk_synchronize backend) of
             (Inr host, Inr _) \<Rightarrow> Some (rows_of vocab (length rows) host)
           | _ \<Rightarrow> None)
      | _ \<Rightarrow> None)"

definition qwen_engine ::
  "'f fops \<Rightarrow> 'f backends \<Rightarrow> 'f qwen_config \<Rightarrow> 'f distributed_weights \<Rightarrow> device \<Rightarrow> device \<Rightarrow> int \<Rightarrow>
   ('f list, 'f tensor, 'f tensor, 'f tensor, 'f list, 'f) engine" where
  "qwen_engine F reg cfg W first final max_cache_len =
     (let width = nat (t_shape (dw_embed_tokens W) ! 1);
          last_dev = last_device first (dw_layers W);
          vocab = nat (t_shape (dw_lm_head W) ! 0);
          M = dw_mtp W; mtp_width = nat (t_shape (mw_fc M) ! 0); eps = rms_norm_eps cfg in
      \<lparr>eng_embed = (\<lambda>ids. case lookup_embedding reg (dw_embed_tokens W) ids first of
                       Inl s \<Rightarrow> Inl s
                     | Inr t \<Rightarrow> Inr (rows_of width (length ids) (t_data t))),
       eng_embed_to_final = on_rows first width (\<lambda>t. to_device reg t final),
       eng_layers = qwen_stack F reg cfg max_cache_len width first (dw_layers W),
       eng_to_final = on_rows last_dev width (\<lambda>t. to_device reg t final),
       eng_final_norm = on_rows final width (\<lambda>t. qwen_rmsnorm_reference F reg t (dw_final_norm W) final eps),
       eng_lm_head = on_rows final width (\<lambda>t. linear_forward F reg t (dw_lm_head W) True None),
       eng_final_sync_ok = (case reg final of None \<Rightarrow> False | Some b \<Rightarrow> bk_synchronize b = Inr ()),
       eng_row_copy = (\<lambda>rows i. Option.bind (rows_tensor final width rows) (\<lambda>t.
                         Option.bind (row_copy reg t (int i) final) (\<lambda>r. Some (t_data r)))),
       eng_kv_clone = engine_kv_clone reg,
       eng_dn_clone = engine_dn_clone reg,
       eng_mtp_layers = qwen_stack F reg cfg max_cache_len mtp_width final
                          (map (\<lambda>L. (L, final)) (mw_layers M)),
       eng_mtp_norm_embedding = on_rows final width
         (\<lambda>t. qwen_rmsnorm_reference F reg t (mw_pre_fc_norm_embedding M) final eps),
       eng_mtp_norm_hidden = on_rows final width
         (\<lambda>t. qwen_rmsnorm_reference F reg t (mw_pre_fc_norm_hidden M) final eps),
       eng_mtp_concat = on_rows2 final width (\<lambda>s t. concat_mtp_inputs reg s t final),
       eng_mtp_fc = on_rows final (2 * width) (\<lambda>t. linear_forward F reg t (mw_fc M) True None),
       eng_mtp_norm = on_rows final mtp_width (\<lambda>t. qwen_rmsnorm_reference F reg t (mw_norm M) final eps),
       eng_final_is_gpu = is_gpu final,
       eng_gpu_argmax_last = device_argmax_last reg final vocab,
       eng_gpu_argmax_rows = device_argmax_rows reg final vocab,
       eng_host_logits = host_logits reg final vocab,
       eng_greater = f_gt F,
       eng_neg_infinity = f_neg_inf F\<rparr>)"

end
