(* ===== verification/Hip_Backend.thy ===== *)
theory Hip_Backend
  imports Hip_Recurrent
begin

text \<open>
  \<open>HipBackend\<close> (\<open>src/backends/hip/hip_backend.cc\<close>) with the launchers and checks of
  \<open>hip_kernels.hip\<close> and \<open>hip_fused_kernels.hip\<close>, for a build with HIP and its kernels.
  Every operation checks its buffers against the sizes it will touch, selects the device,
  checks its arguments and the element type, and launches. What the driver and rocBLAS
  answer is the record \<open>hip_env\<close>; rocBLAS is a function of the matrices.
\<close>

record 'f hip_env =
  he_device :: device
  he_fops :: "'f fops"
  he_warp :: nat
  he_select :: bool
  he_launch :: "string \<Rightarrow> bool"
  he_memcpy :: bool
  he_sync :: bool
  he_create :: "nat \<Rightarrow> memory_type \<Rightarrow> bool"
  he_rocblas_handle :: bool
  he_rocblas :: "dtype \<times> dtype \<times> dtype \<times> dtype \<Rightarrow> bool \<Rightarrow> bool \<Rightarrow> nat \<Rightarrow> nat \<Rightarrow> nat \<Rightarrow> 'f \<Rightarrow> 'f \<Rightarrow>
    'f list \<Rightarrow> 'f list \<Rightarrow> 'f list \<Rightarrow> 'f list option"
  he_junk :: 'f

section \<open>Checks\<close>

definition validate_kernel_buffer :: "'f hip_env \<Rightarrow> 'f buffer \<Rightarrow> nat \<Rightarrow> string \<Rightarrow> unit result" where
  "validate_kernel_buffer E b required_bytes name =
     (if \<not> device_eq (bf_device b) (he_device E) \<or> bf_size b < required_bytes
      then fails InvalidArgument (''Invalid HIP kernel buffer: '' @ name) else Inr ())"

fun validate_kernel_buffers :: "'f hip_env \<Rightarrow> ('f buffer \<times> nat \<times> string) list \<Rightarrow> unit result" where
  "validate_kernel_buffers E [] = Inr ()"
| "validate_kernel_buffers E ((b, n, name) # rest) =
     and_then (validate_kernel_buffer E b n name) (\<lambda>_. validate_kernel_buffers E rest)"

definition select_device :: "'f hip_env \<Rightarrow> unit result" where
  "select_device E =
     (if he_select E then Inr () else fails BackendError ''Failed to select HIP device'')"

definition hip_status :: "'f hip_env \<Rightarrow> string \<Rightarrow> 'a \<Rightarrow> 'a result" where
  "hip_status E operation x = (if he_launch E operation then Inr x else fails BackendError operation)"

definition float_kernel_dtype :: "dtype \<Rightarrow> bool" where
  "float_kernel_dtype d \<longleftrightarrow> d = FP32 \<or> d = BF16"

text \<open>The common frame: the buffer checks, the device, the argument check of the kernel
  entry, its element type, and the launch.\<close>

definition launch_frame ::
  "'f hip_env \<Rightarrow> ('f buffer \<times> nat \<times> string) list \<Rightarrow> bool \<Rightarrow> string \<Rightarrow> bool \<Rightarrow> string \<Rightarrow> string \<Rightarrow> 'a \<Rightarrow>
   'a result" where
  "launch_frame E buffers args_ok args_msg dtype_ok dtype_msg operation x =
     and_then (validate_kernel_buffers E buffers) (\<lambda>_.
     and_then (select_device E) (\<lambda>_.
       if \<not> args_ok then fails InvalidArgument args_msg
       else if \<not> dtype_ok then fails UnsupportedDType dtype_msg
       else hip_status E operation x))"

text \<open>The operation the launchers report: the kernel they choose by the size of the problem.\<close>

definition gqa_launch_name :: "int \<Rightarrow> string" where
  "gqa_launch_name head_dim =
     (if head_dim = 128 then ''launch causal GQA head-128 kernel''
      else if head_dim = 256 then ''launch causal GQA head-256 kernel'' else ''launch causal GQA kernel'')"

definition conv_launch_name :: "int \<Rightarrow> string" where
  "conv_launch_name token_count =
     (if token_count = 1 then ''launch DeltaNet grouped conv decode kernel''
      else ''launch grouped DeltaNet conv kernel'')"

definition recurrent_launch_name :: "int \<Rightarrow> int \<Rightarrow> int \<Rightarrow> string" where
  "recurrent_launch_name token_count key_dim value_dim =
     (if token_count = 1 \<and> key_dim = 128 \<and> value_dim = 128 then ''launch DeltaNet decode128 kernel''
      else ''launch DeltaNet recurrent kernel'')"

abbreviation bytes_of :: "int \<Rightarrow> dtype \<Rightarrow> nat" where
  "bytes_of n d \<equiv> nat n * SizeOfDType d"

section \<open>Copies\<close>

definition hip_copy :: "'f hip_env \<Rightarrow> 'f buffer \<Rightarrow> 'f buffer \<Rightarrow> nat \<Rightarrow> 'f buffer result" where
  "hip_copy E dst src nbytes =
     and_then (select_device E) (\<lambda>_.
       if he_memcpy E then Inr (write_prefix (take (nbytes div bf_width src) (bf_data src)) dst)
       else fails BackendError ''hipMemcpyAsync'')"

text \<open>\<open>memcpy_d2d\<close>, which clones the caches, takes the peer copy of the runtime for buffers of different
  devices whatever their type of memory, where \<open>copy\<close> does so for device memory only; both move
  the same bytes, so \<open>bk_copy\<close> stands for both.\<close>

definition hip_peers :: "'f buffer \<Rightarrow> 'f buffer \<Rightarrow> bool" where
  "hip_peers dst src \<longleftrightarrow> is_gpu (bf_device src) \<and> is_gpu (bf_device dst) \<and> dev_backend (bf_device src) = ''hip'' \<and>
     dev_backend (bf_device dst) = ''hip'' \<and> dev_id (bf_device src) \<noteq> dev_id (bf_device dst)"

definition hip_memcpy_d2d :: "'f hip_env \<Rightarrow> 'f buffer \<Rightarrow> 'f buffer \<Rightarrow> nat \<Rightarrow> 'f buffer result" where
  "hip_memcpy_d2d E dst src nbytes =
     and_then (select_device E) (\<lambda>_.
       if he_memcpy E then Inr (write_prefix (take (nbytes div bf_width src) (bf_data src)) dst)
       else fails BackendError (if hip_peers dst src then ''hipMemcpyPeerAsync'' else ''hipMemcpyAsync''))"

lemma hip_memcpy_d2d_copy: "hip_memcpy_d2d E dst src n = Inr b \<longleftrightarrow> hip_copy E dst src n = Inr b"
  by (auto simp: hip_memcpy_d2d_def hip_copy_def and_then_Inr fails_def split: if_splits)

text \<open>The host side of a copy is the list of the values copied.\<close>

definition hip_memcpy_h2d :: "'f hip_env \<Rightarrow> 'f buffer \<Rightarrow> 'f list \<Rightarrow> 'f buffer result" where
  "hip_memcpy_h2d E dst src =
     and_then (select_device E) (\<lambda>_.
       if he_memcpy E then Inr (write_prefix src dst) else fails BackendError ''hipMemcpyAsync'')"

definition hip_memcpy_d2h :: "'f hip_env \<Rightarrow> 'f buffer \<Rightarrow> nat \<Rightarrow> 'f list result" where
  "hip_memcpy_d2h E src nbytes =
     and_then (select_device E) (\<lambda>_.
       if he_memcpy E then Inr (take (nbytes div bf_width src) (bf_data src))
       else fails BackendError ''hipMemcpyAsync'')"

definition hip_copy_to_offset ::
  "'f hip_env \<Rightarrow> 'f buffer \<Rightarrow> nat \<Rightarrow> 'f buffer \<Rightarrow> nat \<Rightarrow> nat \<Rightarrow> 'f buffer result" where
  "hip_copy_to_offset E dst dst_offset src src_offset nbytes =
     (if bf_size dst < dst_offset + nbytes \<or> bf_size src < src_offset + nbytes
      then fails InvalidArgument ''HIP offset copy range is invalid''
      else and_then (select_device E) (\<lambda>_.
        if he_memcpy E
        then (let w = bf_width dst; n = nbytes div w; at = dst_offset div w in
              Inr (dst\<lparr>bf_data := take at (bf_data dst) @
                         take n (drop (src_offset div w) (bf_data src)) @
                         drop (at + n) (bf_data dst)\<rparr>))
        else fails BackendError ''hipMemcpyAsync''))"

text \<open>\<open>memset\<close> with the value 0, the only one the program uses on tensors.\<close>

definition hip_memset :: "'f hip_env \<Rightarrow> 'f buffer \<Rightarrow> nat \<Rightarrow> 'f buffer result" where
  "hip_memset E dst nbytes =
     and_then (select_device E) (\<lambda>_.
       if he_memcpy E
       then Inr (write_prefix (replicate (nbytes div bf_width dst) (f_zero (he_fops E))) dst)
       else fails BackendError ''hipMemsetAsync'')"

definition hip_synchronize :: "'f hip_env \<Rightarrow> unit result" where
  "hip_synchronize E =
     and_then (select_device E) (\<lambda>_.
       if he_sync E then Inr () else fails BackendError ''hipDeviceSynchronize'')"

section \<open>Matrix product\<close>

text \<open>The storage types \<open>to_rocblas_datatype\<close> maps.\<close>

definition rocblas_dtype :: "dtype \<Rightarrow> bool" where
  "rocblas_dtype d \<longleftrightarrow> d = FP32 \<or> d = FP16 \<or> d = BF16 \<or> d = INT8 \<or> d = INT32"

definition hip_gemm ::
  "'f hip_env \<Rightarrow> 'f buffer \<Rightarrow> 'f buffer \<Rightarrow> 'f buffer \<Rightarrow> dtype \<times> dtype \<times> dtype \<times> dtype \<Rightarrow>
   bool \<Rightarrow> bool \<Rightarrow> int \<Rightarrow> int \<Rightarrow> int \<Rightarrow> 'f \<Rightarrow> 'f \<Rightarrow> 'f buffer result" where
  "hip_gemm E c a b types trans_a trans_b m n k alpha beta =
     (case types of
        (c_type, a_type, b_type, compute_type) \<Rightarrow>
          and_then (select_device E) (\<lambda>_.
            if m \<le> 0 \<or> n \<le> 0 \<or> k \<le> 0
            then fails InvalidArgument ''HipBackend::gemm received invalid arguments''
            else if \<not> he_rocblas_handle E
            then fails BackendError ''HipBackend rocBLAS handle is unavailable''
            else if \<not> device_eq (bf_device a) (he_device E) \<or> \<not> device_eq (bf_device b) (he_device E) \<or>
                    \<not> device_eq (bf_device c) (he_device E)
            then fails InvalidArgument ''HIP GEMM buffers must belong to the backend device''
            else if bf_size a < bytes_of (m * k) a_type \<or> bf_size b < bytes_of (n * k) b_type \<or>
                    bf_size c < bytes_of (m * n) c_type
            then fails InvalidArgument ''HIP GEMM buffer is smaller than the requested matrix''
            else if \<not> (rocblas_dtype c_type \<and> rocblas_dtype a_type \<and> rocblas_dtype b_type \<and>
                       rocblas_dtype compute_type)
            then fails UnsupportedDType ''HipBackend::gemm received an unsupported dtype''
            else (case he_rocblas E types trans_a trans_b (nat m) (nat n) (nat k) alpha beta
                         (bf_data a) (bf_data b) (bf_data c) of
                    None \<Rightarrow> fails BackendError ''rocblas''
                  | Some out \<Rightarrow> Inr (write_prefix out c))))"

section \<open>Kernels\<close>

definition hip_cast :: "'f hip_env \<Rightarrow> 'f buffer \<Rightarrow> 'f buffer \<Rightarrow> dtype \<Rightarrow> dtype \<Rightarrow> int \<Rightarrow> 'f buffer result" where
  "hip_cast E dst src dst_type src_type count =
     (if count \<le> 0 then fails InvalidArgument ''Invalid cast size''
      else launch_frame E
        [(dst, bytes_of count dst_type, ''dst''), (src, bytes_of count src_type, ''src'')] True ''''
        ((dst_type, src_type) \<in> {(FP32, BF16), (BF16, FP32), (FP32, FP16), (FP16, FP32)})
        ''Unsupported HIP cast dtype pair'' ''launch cast kernel''
        (write_prefix (cast_kernel (he_fops E) dst_type (bf_data src) (nat count)) dst))"

definition hip_add :: "'f hip_env \<Rightarrow> 'f buffer \<Rightarrow> 'f buffer \<Rightarrow> 'f buffer \<Rightarrow> dtype \<Rightarrow> int \<Rightarrow> 'f buffer result" where
  "hip_add E dst lhs rhs d count =
     (let bytes = bytes_of count d in
      launch_frame E [(dst, bytes, ''dst''), (lhs, bytes, ''lhs''), (rhs, bytes, ''rhs'')]
        True '''' (float_kernel_dtype d) ''Unsupported HIP add dtype'' ''launch add kernel''
        (write_prefix (add_kernel (he_fops E) d (bf_data lhs) (bf_data rhs) (nat count)) dst))"

definition hip_add_row_bias ::
  "'f hip_env \<Rightarrow> 'f buffer \<Rightarrow> 'f buffer \<Rightarrow> dtype \<Rightarrow> int \<Rightarrow> int \<Rightarrow> 'f buffer result" where
  "hip_add_row_bias E dst bias d rows columns =
     (if rows \<le> 0 \<or> columns \<le> 0 then fails InvalidArgument ''Invalid row bias dimensions''
      else launch_frame E
        [(dst, bytes_of (rows * columns) d, ''dst''), (bias, bytes_of columns d, ''bias'')]
        True '''' (float_kernel_dtype d) ''Unsupported HIP row bias add dtype''
        ''launch row bias add kernel''
        (write_prefix (add_row_bias_kernel (he_fops E) d (bf_data dst) (bf_data bias)
                         (nat (rows * columns)) (nat columns)) dst))"

definition hip_strided_copy ::
  "'f hip_env \<Rightarrow> 'f buffer \<Rightarrow> 'f buffer \<Rightarrow> dtype \<Rightarrow> int \<Rightarrow> int list \<Rightarrow> int list \<Rightarrow> 'f buffer result" where
  "hip_strided_copy E dst src d count s strides =
     (if count \<le> 0 \<or> s = [] then fails InvalidArgument ''Invalid strided copy arguments''
      else launch_frame E [(dst, bytes_of count d, ''dst''), (src, SizeOfDType d, ''src'')]
        (length s \<le> 8 \<and> list_all2 (\<lambda>dim st. 0 < dim \<and> 0 \<le> st) s strides)
        ''Invalid HIP strided layout''
        (d \<in> {FP32, BF16, FP16, INT8, FP8_E4M3, INT32}) ''Unsupported HIP strided copy dtype''
        ''launch strided copy kernel''
        (write_prefix (strided_copy_kernel (bf_data src) (nat count) s strides) dst))"

definition hip_embedding_gather ::
  "'f hip_env \<Rightarrow> 'f buffer \<Rightarrow> 'f buffer \<Rightarrow> int list \<Rightarrow> dtype \<Rightarrow> int \<Rightarrow> int \<Rightarrow> int \<Rightarrow> 'f buffer result" where
  "hip_embedding_gather E dst embedding ids d num_ids vocab_size hidden_size =
     launch_frame E
       [(dst, bytes_of (num_ids * hidden_size) d, ''dst''),
        (embedding, bytes_of (vocab_size * hidden_size) d, ''embedding'')]
       True '''' (float_kernel_dtype d) ''Unsupported HIP embedding dtype'' ''launch embedding gather kernel''
       (write_prefix (embedding_gather_kernel (he_fops E) (bf_data embedding) ids (nat num_ids)
                        vocab_size (nat hidden_size)) dst)"

definition hip_rmsnorm ::
  "'f hip_env \<Rightarrow> 'f buffer \<Rightarrow> 'f buffer \<Rightarrow> 'f buffer \<Rightarrow> dtype \<Rightarrow> int \<Rightarrow> int \<Rightarrow> 'f \<Rightarrow> bool \<Rightarrow> 'f buffer result" where
  "hip_rmsnorm E dst src weight d rows hidden_size eps add_unit_offset =
     (let data_bytes = bytes_of (rows * hidden_size) d in
      launch_frame E
        [(dst, data_bytes, ''dst''), (src, data_bytes, ''src''), (weight, bytes_of hidden_size d, ''weight'')]
        True '''' (float_kernel_dtype d) ''Unsupported HIP RMSNorm dtype'' ''launch RMSNorm kernel''
        (write_prefix (rmsnorm_kernel (he_fops E) d (bf_data src) (bf_data weight) (nat rows)
                         (nat hidden_size) eps add_unit_offset) dst))"

definition hip_unary :: "'f hip_env \<Rightarrow> 'f buffer \<Rightarrow> 'f buffer \<Rightarrow> dtype \<Rightarrow> int \<Rightarrow> nat \<Rightarrow> 'f \<Rightarrow> 'f buffer result" where
  "hip_unary E dst src d count op param =
     (let bytes = bytes_of count d in
      launch_frame E [(dst, bytes, ''dst''), (src, bytes, ''src'')]
        True '''' (float_kernel_dtype d) ''Unsupported HIP unary dtype'' ''launch unary kernel''
        (write_prefix (unary_kernel (he_fops E) d (bf_data src) (nat count) op param) dst))"

definition hip_silu_mul :: "'f hip_env \<Rightarrow> 'f buffer \<Rightarrow> 'f buffer \<Rightarrow> 'f buffer \<Rightarrow> dtype \<Rightarrow> int \<Rightarrow> 'f buffer result" where
  "hip_silu_mul E dst gate up d count =
     (let bytes = bytes_of count d in
      launch_frame E [(dst, bytes, ''dst''), (gate, bytes, ''gate''), (up, bytes, ''up'')]
        True '''' (float_kernel_dtype d) ''Unsupported HIP fused SiLU multiply dtype''
        ''launch fused SiLU multiply kernel''
        (write_prefix (silu_mul_kernel (he_fops E) d (bf_data gate) (bf_data up) (nat count)) dst))"

definition hip_split_q_gate ::
  "'f hip_env \<Rightarrow> 'f buffer \<Rightarrow> 'f buffer \<Rightarrow> 'f buffer \<Rightarrow> dtype \<Rightarrow> int \<Rightarrow> int \<Rightarrow> int \<Rightarrow>
   ('f buffer \<times> 'f buffer) result" where
  "hip_split_q_gate E query gate source d rows heads head_dim =
     (let bytes = bytes_of (rows * heads * head_dim) d;
          out = split_q_gate_kernel (bf_data source) (nat (rows * heads * head_dim)) (nat head_dim) in
      launch_frame E [(query, bytes, ''query''), (gate, bytes, ''gate''), (source, 2 * bytes, ''source'')]
        True '''' (float_kernel_dtype d) ''Unsupported HIP query/gate split dtype''
        ''launch query/gate split kernel''
        (write_prefix (fst out) query, write_prefix (snd out) gate))"

definition hip_partial_rope ::
  "'f hip_env \<Rightarrow> 'f buffer \<Rightarrow> 'f buffer \<Rightarrow> dtype \<Rightarrow> int \<Rightarrow> int \<Rightarrow> int \<Rightarrow> int \<Rightarrow> int \<Rightarrow> 'f \<Rightarrow> 'f buffer result" where
  "hip_partial_rope E dst src d seq_len num_heads head_dim rope_head_dim position_offset base =
     (let count = seq_len * num_heads * head_dim; bytes = bytes_of count d in
      launch_frame E [(dst, bytes, ''dst''), (src, bytes, ''src'')]
        True '''' (float_kernel_dtype d) ''Unsupported HIP partial RoPE dtype''
        ''launch partial RoPE kernel''
        (write_prefix (partial_rope_kernel (he_fops E) d (bf_data src) (nat count) (nat num_heads)
                         (nat head_dim) (nat rope_head_dim) position_offset base) dst))"

text \<open>The destination, source and weight of the queries, and those of the keys.\<close>

definition hip_qk_rmsnorm_rope ::
  "'f hip_env \<Rightarrow> 'f buffer \<times> 'f buffer \<times> 'f buffer \<Rightarrow> 'f buffer \<times> 'f buffer \<times> 'f buffer \<Rightarrow> dtype \<Rightarrow>
   int \<Rightarrow> int \<Rightarrow> int \<Rightarrow> int \<Rightarrow> int \<Rightarrow> int \<Rightarrow> 'f \<Rightarrow> 'f \<Rightarrow> bool \<Rightarrow> ('f buffer \<times> 'f buffer) result" where
  "hip_qk_rmsnorm_rope E = (\<lambda>(qd, qs, qw) (kd, ks, kw) d seq_len nq nkv head_dim rope_head_dim
       position_offset base eps unit.
     (let query_bytes = bytes_of (seq_len * nq * head_dim) d;
          key_bytes = bytes_of (seq_len * nkv * head_dim) d;
          run = (\<lambda>src w heads. qk_rmsnorm_rope_kernel (he_fops E) d (bf_data src) (bf_data w)
                   (nat seq_len) (nat heads) (nat head_dim) (nat rope_head_dim) position_offset base eps unit)
      in launch_frame E
        [(qd, query_bytes, ''query_dst''), (qs, query_bytes, ''query_src''),
         (qw, bytes_of head_dim d, ''query_weight''), (kd, key_bytes, ''key_dst''),
         (ks, key_bytes, ''key_src''), (kw, bytes_of head_dim d, ''key_weight'')]
        (0 < seq_len \<and> 0 < nq \<and> 0 < nkv \<and> 0 < head_dim \<and> 0 < rope_head_dim \<and>
         rope_head_dim \<le> head_dim \<and> rope_head_dim mod 2 = 0)
        ''invalid fused QK RMSNorm/RoPE arguments''
        (float_kernel_dtype d) ''fused QK RMSNorm/RoPE supports FP32 and BF16''
        ''launch fused QK RMSNorm/RoPE''
        (write_prefix (run qs qw nq) qd, write_prefix (run ks kw nkv) kd)))"

definition hip_q_gate_rmsnorm_rope ::
  "'f hip_env \<Rightarrow> 'f buffer \<Rightarrow> 'f buffer \<Rightarrow> 'f buffer \<Rightarrow> 'f buffer \<Rightarrow> dtype \<Rightarrow>
   int \<Rightarrow> int \<Rightarrow> int \<Rightarrow> int \<Rightarrow> int \<Rightarrow> 'f \<Rightarrow> 'f \<Rightarrow> bool \<Rightarrow> ('f buffer \<times> 'f buffer) result" where
  "hip_q_gate_rmsnorm_rope E query_dst gate_dst source query_weight d seq_len nq head_dim
     rope_head_dim position_offset base eps unit =
     (let bytes = bytes_of (seq_len * nq * head_dim) d;
          out = q_gate_rmsnorm_rope_kernel (he_fops E) d (bf_data source) (bf_data query_weight)
                  (nat seq_len) (nat nq) (nat head_dim) (nat rope_head_dim) position_offset base eps unit
      in launch_frame E
        [(query_dst, bytes, ''query_dst''), (gate_dst, bytes, ''gate_dst''),
         (source, 2 * bytes, ''source''), (query_weight, bytes_of head_dim d, ''query_weight'')]
        (0 < seq_len \<and> 0 < nq \<and> 0 < head_dim \<and> 0 < rope_head_dim \<and>
         rope_head_dim \<le> head_dim \<and> rope_head_dim mod 2 = 0)
        ''invalid fused Q/gate RMSNorm/RoPE arguments''
        (float_kernel_dtype d) ''fused Q/gate RMSNorm/RoPE supports FP32 and BF16''
        ''launch fused Q/gate RMSNorm/RoPE''
        (write_prefix (fst out) query_dst, write_prefix (snd out) gate_dst))"

definition gate_check :: "'f buffer option \<Rightarrow> nat \<Rightarrow> ('f buffer \<times> nat \<times> string) list" where
  "gate_check gate bytes = (case gate of None \<Rightarrow> [] | Some g \<Rightarrow> [(g, bytes, ''gate'')])"

definition hip_causal_gqa ::
  "'f hip_env \<Rightarrow> 'f buffer \<Rightarrow> 'f buffer \<Rightarrow> 'f buffer \<Rightarrow> 'f buffer \<Rightarrow> 'f buffer option \<Rightarrow> dtype \<Rightarrow>
   int \<Rightarrow> int \<Rightarrow> int \<Rightarrow> int \<Rightarrow> 'f buffer result" where
  "hip_causal_gqa E dst query key val gate d seq_len nq nkv head_dim =
     (let q_bytes = bytes_of (seq_len * nq * head_dim) d;
          kv_bytes = bytes_of (seq_len * nkv * head_dim) d in
      launch_frame E
        ([(dst, q_bytes, ''dst''), (query, q_bytes, ''query''), (key, kv_bytes, ''key''),
          (val, kv_bytes, ''value'')] @ gate_check gate q_bytes)
        True '''' (float_kernel_dtype d) ''Unsupported HIP causal GQA dtype'' (gqa_launch_name head_dim)
        (write_prefix (causal_gqa_kernel (he_fops E) (he_warp E) d (bf_data query) (bf_data key)
           (bf_data val) (map_option bf_data gate) (nat seq_len) (nat nq) (nat nkv) (nat head_dim)) dst))"

definition hip_append_kv_cache ::
  "'f hip_env \<Rightarrow> 'f buffer \<Rightarrow> 'f buffer \<Rightarrow> 'f buffer \<Rightarrow> 'f buffer \<Rightarrow> dtype \<Rightarrow>
   int \<Rightarrow> int \<Rightarrow> int \<Rightarrow> int \<Rightarrow> int \<Rightarrow> ('f buffer \<times> 'f buffer) result" where
  "hip_append_kv_cache E key_cache value_cache key val d token_count nkv head_dim cache_offset
     cache_capacity =
     (let source_bytes = bytes_of (token_count * nkv * head_dim) d;
          cache_bytes = bytes_of (cache_capacity * nkv * head_dim) d;
          run = (\<lambda>cache rows. append_kv_cache_kernel (bf_data cache) (bf_data rows)
                   (nat (token_count * (nkv * head_dim))) (nat (nkv * head_dim)) (nat cache_offset))
      in launch_frame E
        [(key_cache, cache_bytes, ''key_cache''), (value_cache, cache_bytes, ''value_cache''),
         (key, source_bytes, ''key''), (val, source_bytes, ''value'')]
        (0 < token_count \<and> 0 < nkv \<and> 0 < head_dim \<and> 0 \<le> cache_offset \<and>
         cache_offset + token_count \<le> cache_capacity)
        ''Invalid HIP KV cache append arguments''
        (float_kernel_dtype d) ''Unsupported HIP KV cache dtype'' ''launch KV cache append kernel''
        (write_prefix (run key_cache key) key_cache, write_prefix (run value_cache val) value_cache))"

definition hip_cached_gqa ::
  "'f hip_env \<Rightarrow> 'f buffer \<Rightarrow> 'f buffer \<Rightarrow> 'f buffer \<Rightarrow> 'f buffer \<Rightarrow> 'f buffer option \<Rightarrow> dtype \<Rightarrow>
   int \<Rightarrow> int \<Rightarrow> int \<Rightarrow> int \<Rightarrow> int \<Rightarrow> 'f buffer result" where
  "hip_cached_gqa E dst query key_cache value_cache gate d query_len cache_len nq nkv head_dim =
     (let query_bytes = bytes_of (query_len * nq * head_dim) d;
          cache_bytes = bytes_of (cache_len * nkv * head_dim) d in
      launch_frame E
        ([(dst, query_bytes, ''dst''), (query, query_bytes, ''query''),
          (key_cache, cache_bytes, ''key_cache''), (value_cache, cache_bytes, ''value_cache'')] @
         gate_check gate query_bytes)
        (0 < query_len \<and> query_len \<le> cache_len \<and> 0 < nq \<and> 0 < nkv \<and> 0 < head_dim \<and> nq mod nkv = 0)
        ''Invalid HIP cached GQA arguments''
        (float_kernel_dtype d) ''Unsupported HIP cached GQA dtype'' ''launch cached GQA kernel''
        (write_prefix (cached_gqa_kernel (he_fops E) (he_warp E) d (bf_data query) (bf_data key_cache)
           (bf_data value_cache) (map_option bf_data gate) (nat query_len) (nat cache_len) (nat nq)
           (nat nkv) (nat head_dim)) dst))"

definition hip_cached_gqa_with_current_token ::
  "'f hip_env \<Rightarrow> 'f buffer \<Rightarrow> 'f buffer \<Rightarrow> 'f buffer \<Rightarrow> 'f buffer \<Rightarrow> 'f buffer \<Rightarrow> 'f buffer \<Rightarrow>
   'f buffer option \<Rightarrow> dtype \<Rightarrow> int \<Rightarrow> int \<Rightarrow> int \<Rightarrow> int \<Rightarrow> ('f buffer \<times> 'f buffer \<times> 'f buffer) result" where
  "hip_cached_gqa_with_current_token E dst query key_cache value_cache current_key current_value gate
     d cache_len nq nkv head_dim =
     (let query_bytes = bytes_of (nq * head_dim) d;
          cache_bytes = bytes_of ((cache_len - 1) * nkv * head_dim) d;
          current_bytes = bytes_of (nkv * head_dim) d;
          out = cached_gqa_current_token_kernel (he_fops E) (he_warp E) d (bf_data query)
                  (bf_data key_cache) (bf_data value_cache) (bf_data current_key)
                  (bf_data current_value) (map_option bf_data gate) (nat cache_len) (nat nq)
                  (nat nkv) (nat head_dim)
      in launch_frame E
        ([(dst, query_bytes, ''dst''), (query, query_bytes, ''query''),
          (key_cache, cache_bytes, ''key_cache''), (value_cache, cache_bytes, ''value_cache''),
          (current_key, current_bytes, ''current_key''), (current_value, current_bytes, ''current_value'')] @
         gate_check gate query_bytes)
        (0 < cache_len \<and> 0 < nq \<and> 0 < nkv \<and> 0 < head_dim \<and> nq mod nkv = 0)
        ''Invalid HIP fused cached GQA arguments''
        (float_kernel_dtype d) ''Unsupported HIP fused cached GQA dtype''
        ''launch fused cached GQA current-token kernel''
        (write_prefix (fst out) dst, write_prefix (fst (snd out)) key_cache,
         write_prefix (snd (snd out)) value_cache))"

definition hip_causal_conv1d_silu ::
  "'f hip_env \<Rightarrow> 'f buffer \<Rightarrow> 'f buffer \<Rightarrow> 'f buffer \<Rightarrow> 'f buffer \<Rightarrow> dtype \<Rightarrow> int \<Rightarrow> int \<Rightarrow> int \<Rightarrow>
   ('f buffer \<times> 'f buffer) result" where
  "hip_causal_conv1d_silu E dst conv_state src weight d token_count channels kernel_size =
     (let data_bytes = bytes_of (token_count * channels) d;
          out = causal_conv1d_silu_kernel (he_fops E) d (bf_data conv_state) (bf_data src) (bf_data weight)
                  (nat token_count) (nat channels) (nat kernel_size)
      in launch_frame E
        [(dst, data_bytes, ''dst''), (conv_state, bytes_of (channels * (kernel_size - 1)) d, ''conv_state''),
         (src, data_bytes, ''src''), (weight, bytes_of (channels * kernel_size) d, ''weight'')]
        (0 < token_count \<and> 0 < channels \<and> 1 < kernel_size) ''Invalid HIP causal conv1d arguments''
        (float_kernel_dtype d) ''Unsupported HIP causal conv1d dtype''
        ''launch causal conv1d SiLU kernel''
        (write_prefix (fst out) dst, write_prefix (snd out) conv_state))"

definition hip_deltanet_grouped_conv ::
  "'f hip_env \<Rightarrow> 'f buffer \<times> 'f buffer \<times> 'f buffer \<Rightarrow> 'f buffer \<Rightarrow> 'f buffer \<Rightarrow> 'f buffer \<Rightarrow> dtype \<Rightarrow>
   int \<Rightarrow> int \<Rightarrow> int \<Rightarrow> int \<Rightarrow> int \<Rightarrow> int \<Rightarrow> (('f buffer \<times> 'f buffer \<times> 'f buffer) \<times> 'f buffer) result" where
  "hip_deltanet_grouped_conv E = (\<lambda>(query, key, val) conv_state qkv weight d token_count nqk nv
       key_dim value_dim kernel_size.
     (let key_width = nqk * key_dim; value_width = nv * value_dim; channels = key_width * 2 + value_width;
          qk_bytes = bytes_of (token_count * key_width) d;
          out = deltanet_grouped_conv_kernel (he_fops E) d (bf_data conv_state) (bf_data qkv)
                  (bf_data weight) (nat token_count) (nat nqk) (nat nv) (nat key_dim) (nat value_dim)
                  (nat kernel_size)
      in launch_frame E
        [(query, qk_bytes, ''query''), (key, qk_bytes, ''key''),
         (val, bytes_of (token_count * value_width) d, ''value''),
         (conv_state, bytes_of (channels * (kernel_size - 1)) d, ''conv_state''),
         (qkv, bytes_of (token_count * channels) d, ''grouped_qkv''),
         (weight, bytes_of (channels * kernel_size) d, ''weight'')]
        (0 < token_count \<and> 0 < nqk \<and> 0 < nv \<and> nv mod nqk = 0 \<and> 0 < key_dim \<and> 0 < value_dim \<and>
         1 < kernel_size)
        ''Invalid grouped DeltaNet conv arguments''
        (float_kernel_dtype d) ''Unsupported grouped DeltaNet conv dtype''
        (conv_launch_name token_count)
        (case out of ((q, k, v), st) \<Rightarrow>
           ((write_prefix q query, write_prefix k key, write_prefix v val), write_prefix st conv_state))))"

text \<open>The reads are \<open>query, key, value\<close> and \<open>a, beta, a_log, dt_bias, norm_weight, z\<close>.\<close>

definition hip_deltanet_recurrent ::
  "'f hip_env \<Rightarrow> 'f buffer \<Rightarrow> 'f buffer \<Rightarrow> 'f buffer \<times> 'f buffer \<times> 'f buffer \<Rightarrow>
   'f buffer \<times> 'f buffer \<times> 'f buffer \<times> 'f buffer \<times> 'f buffer \<times> 'f buffer \<Rightarrow> dtype \<Rightarrow>
   int \<Rightarrow> int \<Rightarrow> int \<Rightarrow> int \<Rightarrow> int \<Rightarrow> 'f \<Rightarrow> ('f buffer \<times> 'f buffer) result" where
  "hip_deltanet_recurrent E dst recurrent_state = (\<lambda>(query, key, val)
       (a, beta, a_log, dt_bias, norm_weight, z) d token_count nqk nv key_dim value_dim eps.
     (let qk_bytes = bytes_of (token_count * nqk * key_dim) d;
          value_bytes = bytes_of (token_count * nv * value_dim) d;
          scalar_bytes = bytes_of (token_count * nv) d; head_bytes = bytes_of nv d;
          out = deltanet_recurrent_kernel (he_fops E) (he_warp E) d (bf_data recurrent_state)
                  (bf_data query, bf_data key, bf_data val) (bf_data a, bf_data beta, bf_data z)
                  (bf_data a_log, bf_data dt_bias, bf_data norm_weight) (nat token_count) (nat nqk)
                  (nat nv) (nat key_dim) (nat value_dim) (nat value_dim) eps
      in launch_frame E
        [(dst, value_bytes, ''dst''),
         (recurrent_state, bytes_of (nv * key_dim * value_dim) FP32, ''recurrent_state''),
         (query, qk_bytes, ''query''), (key, qk_bytes, ''key''), (val, value_bytes, ''value''),
         (a, scalar_bytes, ''a''), (beta, scalar_bytes, ''beta''), (a_log, head_bytes, ''a_log''),
         (dt_bias, head_bytes, ''dt_bias''), (norm_weight, bytes_of value_dim d, ''norm_weight''),
         (z, value_bytes, ''z'')]
        (0 < token_count \<and> 0 < nqk \<and> 0 < nv \<and> nv mod nqk = 0 \<and> 0 < key_dim \<and> 0 < value_dim \<and>
         f_gt (he_fops E) eps (f_zero (he_fops E)))
        ''Invalid HIP DeltaNet recurrent arguments''
        (float_kernel_dtype d) ''Unsupported HIP DeltaNet recurrent dtype''
        (recurrent_launch_name token_count key_dim value_dim)
        (write_prefix (fst out) dst, write_prefix (snd out) recurrent_state)))"

definition hip_argmax_last_row :: "'f hip_env \<Rightarrow> 'f buffer \<Rightarrow> dtype \<Rightarrow> int \<Rightarrow> int \<Rightarrow> int result" where
  "hip_argmax_last_row E src d rows columns =
     launch_frame E [(src, bytes_of (rows * columns) d, ''src'')] True ''''
       (float_kernel_dtype d) ''Unsupported HIP argmax dtype'' ''launch argmax kernel''
       (argmax_last_row_kernel (he_fops E) (bf_data src) (nat rows) (nat columns))"

definition hip_argmax_rows :: "'f hip_env \<Rightarrow> 'f buffer \<Rightarrow> dtype \<Rightarrow> int \<Rightarrow> int \<Rightarrow> int list result" where
  "hip_argmax_rows E src d rows columns =
     (if rows \<le> 0 \<or> columns \<le> 0 then fails InvalidArgument ''Invalid HIP batched argmax dimensions''
      else launch_frame E [(src, bytes_of (rows * columns) d, ''src'')] True ''''
        (float_kernel_dtype d) ''Unsupported HIP batched argmax dtype'' ''launch batched argmax kernel''
        (argmax_rows_kernel (he_fops E) (bf_data src) (nat rows) (nat columns)))"

section \<open>The backend\<close>

definition hip_backend :: "'f hip_env \<Rightarrow> 'f backend" where
  "hip_backend E = \<lparr>
     bk_device = he_device E,
     bk_create = (\<lambda>n m. he_select E \<and> he_create E n m),
     bk_synchronize = hip_synchronize E,
     bk_copy = hip_copy E,
     bk_copy_to_offset = hip_copy_to_offset E,
     bk_memcpy_h2d = hip_memcpy_h2d E,
     bk_memcpy_d2h = hip_memcpy_d2h E,
     bk_cast = hip_cast E,
     bk_memset = hip_memset E,
     bk_gemm = hip_gemm E,
     bk_add = hip_add E,
     bk_add_row_bias = hip_add_row_bias E,
     bk_strided_copy = hip_strided_copy E,
     bk_embedding_gather = hip_embedding_gather E,
     bk_rmsnorm = hip_rmsnorm E,
     bk_unary = hip_unary E,
     bk_silu_mul = hip_silu_mul E,
     bk_split_q_gate = hip_split_q_gate E,
     bk_partial_rope = hip_partial_rope E,
     bk_qk_rmsnorm_rope = hip_qk_rmsnorm_rope E,
     bk_q_gate_rmsnorm_rope = hip_q_gate_rmsnorm_rope E,
     bk_causal_gqa = hip_causal_gqa E,
     bk_append_kv_cache = hip_append_kv_cache E,
     bk_cached_gqa = hip_cached_gqa E,
     bk_cached_gqa_with_current_token = hip_cached_gqa_with_current_token E,
     bk_causal_conv1d_silu = hip_causal_conv1d_silu E,
     bk_deltanet_grouped_conv = hip_deltanet_grouped_conv E,
     bk_deltanet_recurrent = hip_deltanet_recurrent E,
     bk_argmax_last_row = hip_argmax_last_row E,
     bk_argmax_rows = hip_argmax_rows E,
     bk_junk = he_junk E\<rparr>"

lemma hip_backend_simps [simp]:
  "bk_device (hip_backend E) = he_device E"
  "bk_create (hip_backend E) = (\<lambda>n m. he_select E \<and> he_create E n m)"
  "bk_synchronize (hip_backend E) = hip_synchronize E"
  "bk_copy (hip_backend E) = hip_copy E"
  "bk_copy_to_offset (hip_backend E) = hip_copy_to_offset E"
  "bk_memcpy_h2d (hip_backend E) = hip_memcpy_h2d E"
  "bk_memcpy_d2h (hip_backend E) = hip_memcpy_d2h E"
  "bk_cast (hip_backend E) = hip_cast E"
  "bk_memset (hip_backend E) = hip_memset E"
  "bk_gemm (hip_backend E) = hip_gemm E"
  "bk_add (hip_backend E) = hip_add E"
  "bk_add_row_bias (hip_backend E) = hip_add_row_bias E"
  "bk_strided_copy (hip_backend E) = hip_strided_copy E"
  "bk_embedding_gather (hip_backend E) = hip_embedding_gather E"
  "bk_rmsnorm (hip_backend E) = hip_rmsnorm E"
  "bk_unary (hip_backend E) = hip_unary E"
  "bk_silu_mul (hip_backend E) = hip_silu_mul E"
  "bk_split_q_gate (hip_backend E) = hip_split_q_gate E"
  "bk_partial_rope (hip_backend E) = hip_partial_rope E"
  "bk_qk_rmsnorm_rope (hip_backend E) = hip_qk_rmsnorm_rope E"
  "bk_q_gate_rmsnorm_rope (hip_backend E) = hip_q_gate_rmsnorm_rope E"
  "bk_causal_gqa (hip_backend E) = hip_causal_gqa E"
  "bk_append_kv_cache (hip_backend E) = hip_append_kv_cache E"
  "bk_cached_gqa (hip_backend E) = hip_cached_gqa E"
  "bk_cached_gqa_with_current_token (hip_backend E) = hip_cached_gqa_with_current_token E"
  "bk_causal_conv1d_silu (hip_backend E) = hip_causal_conv1d_silu E"
  "bk_deltanet_grouped_conv (hip_backend E) = hip_deltanet_grouped_conv E"
  "bk_deltanet_recurrent (hip_backend E) = hip_deltanet_recurrent E"
  "bk_argmax_last_row (hip_backend E) = hip_argmax_last_row E"
  "bk_argmax_rows (hip_backend E) = hip_argmax_rows E"
  "bk_junk (hip_backend E) = he_junk E"
  by (simp_all add: hip_backend_def)

end
