(* ===== verification/Kernel_Laws.thy ===== *)
theory Kernel_Laws
  imports Hip_Recurrent
begin

text \<open>
  How the kernels behave on a chunk of rows: element-wise and row-wise kernels treat a
  chunk as its two parts, the rotary kernels shift the position, the cached attention of
  a chunk is that of its parts over the growing cache, the fused decode kernel equals an
  append followed by the general kernel, and the convolution and the recurrent update
  are folds over the tokens.
\<close>

section \<open>Element-wise and row-wise kernels\<close>

lemma add_kernel_append:
  assumes "length xs = a" and "length xs' = a"
  shows "add_kernel F d (xs @ ys) (xs' @ ys') (a + b) = add_kernel F d xs xs' a @ add_kernel F d ys ys' b"
  unfolding add_kernel_def by (rule map_upt_split) (use assms in \<open>auto simp: nth_append\<close>)

lemma silu_mul_kernel_append:
  assumes "length xs = a" and "length xs' = a"
  shows "silu_mul_kernel F d (xs @ ys) (xs' @ ys') (a + b) =
           silu_mul_kernel F d xs xs' a @ silu_mul_kernel F d ys ys' b"
  unfolding silu_mul_kernel_def by (rule map_upt_split) (use assms in \<open>auto simp: nth_append\<close>)

lemma elementwise_kernel_lengths [simp, size_simps]:
  "length (add_kernel F d xs ys n) = n"
  "length (silu_mul_kernel F d xs ys n) = n"
  "length (unary_kernel F d xs n op par) = n"
  "length (cast_kernel F d xs n) = n"
  "length (embedding_gather_kernel F emb ids n v h) = n * h"
  "length (partial_rope_kernel F d xs n heads hdim rhd p b) = n"
  "length (append_kv_cache_kernel cache rows n w off) = length cache"
  by (simp_all add: add_kernel_def silu_mul_kernel_def unary_kernel_def cast_kernel_def
      embedding_gather_kernel_def partial_rope_kernel_def append_kv_cache_kernel_def)

lemma rmsnorm_row_cong:
  assumes "\<And>c. c < k \<Longrightarrow> f c = g c"
  shows "rmsnorm_row F d f w k eps u = rmsnorm_row F d g w k eps u"
proof -
  have "block_sum F kBlockSize k (\<lambda>c. f_mul F (f c) (f c)) = block_sum F kBlockSize k (\<lambda>c. f_mul F (g c) (g c))"
    by (rule block_sum_cong) (simp add: assms)
  then show ?thesis using assms by (simp add: rmsnorm_row_def)
qed

lemma rmsnorm_row_length [simp, size_simps]: "length (rmsnorm_row F d f w k eps u) = k"
  by (simp add: rmsnorm_row_def)

lemma rmsnorm_kernel_length [simp, size_simps]: "length (rmsnorm_kernel F d xs w m k eps u) = m * k"
  by (simp add: rmsnorm_kernel_def length_concat_const)

lemma rmsnorm_kernel_append:
  assumes "length xs = m1 * k"
  shows "rmsnorm_kernel F d (xs @ ys) w (m1 + m2) k eps u =
           rmsnorm_kernel F d xs w m1 k eps u @ rmsnorm_kernel F d ys w m2 k eps u"
  unfolding rmsnorm_kernel_def
  by (rule concat_upt_split; rule rmsnorm_row_cong) (simp_all add: assms nth_row_front nth_row_back)

lemma embedding_gather_append:
  assumes "length xs = a"
  shows "embedding_gather_kernel F emb (xs @ ys) (a + b) v h =
           embedding_gather_kernel F emb xs a v h @ embedding_gather_kernel F emb ys b v h"
proof (cases "h = 0")
  case True
  then show ?thesis by (simp add: embedding_gather_kernel_def)
next
  case False
  have front: "(xs @ ys) ! (i div h) = xs ! (i div h)" if "i < a * h" for i
    using that assms False by (simp add: nth_append less_mult_imp_div_less)
  have rear: "(xs @ ys) ! (a + i div h) = ys ! (i div h)" for i
    using assms by (simp add: nth_append)
  show ?thesis
    unfolding embedding_gather_kernel_def add_mult_distrib
    by (rule map_upt_split) (use False in \<open>simp_all add: front rear Let_def add_mult_distrib\<close>)
qed

section \<open>Gate and rotary kernels\<close>

lemma rope_value_cong:
  assumes "\<And>c. c < k \<Longrightarrow> f c = g c" and "dimension < rhd" and "rhd \<le> k" and "rhd mod 2 = 0"
  shows "rope_value F f dimension rhd p b = rope_value F g dimension rhd p b"
proof -
  have "0 < rhd div 2" using assms(2,4) by (cases rhd) auto
  then have "dimension mod (rhd div 2) < rhd div 2" by simp
  then have "dimension mod (rhd div 2) + rhd div 2 < k" and "dimension mod (rhd div 2) < k"
    using assms(3,4) by linarith+
  then have "f (dimension mod (rhd div 2)) = g (dimension mod (rhd div 2))"
    "f (dimension mod (rhd div 2) + rhd div 2) = g (dimension mod (rhd div 2) + rhd div 2)"
    by (simp_all only: assms(1))
  then show ?thesis by (simp only: rope_value_def Let_def)
qed

lemma fused_head_cong:
  assumes "\<And>c. c < k \<Longrightarrow> f c = g c" and "rhd \<le> k" and "rhd mod 2 = 0"
  shows "fused_head F d f w k rhd p b eps u = fused_head F d g w k rhd p b eps u"
proof -
  have s: "block_sum F kBlockSize k (\<lambda>c. f_mul F (f c) (f c)) = block_sum F kBlockSize k (\<lambda>c. f_mul F (g c) (g c))"
    by (rule block_sum_cong) (simp add: assms(1))
  have "rope_value F (\<lambda>c. f_mul F (f_mul F (f c) r) (w' c)) i rhd p b =
        rope_value F (\<lambda>c. f_mul F (f_mul F (g c) r) (w' c)) i rhd p b" if "i < rhd" for i r w'
    by (rule rope_value_cong [of k]) (use assms that in simp_all)
  with s assms(1) show ?thesis by (simp add: fused_head_def Let_def)
qed

lemma fused_head_length [simp, size_simps]: "length (fused_head F d f w k rhd p b eps u) = k"
  by (simp add: fused_head_def Let_def)

lemma qk_rmsnorm_rope_length [simp, size_simps]:
  "length (qk_rmsnorm_rope_kernel F d xs w m heads hdim rhd p b eps u) = m * heads * hdim"
  by (simp add: qk_rmsnorm_rope_kernel_def length_concat_const)

lemma qk_rmsnorm_rope_append:
  assumes "length xs = m1 * heads * hdim" and "rhd \<le> hdim" and "rhd mod 2 = 0" and "0 < heads"
  shows "qk_rmsnorm_rope_kernel F d (xs @ ys) w (m1 + m2) heads hdim rhd p b eps u =
           qk_rmsnorm_rope_kernel F d xs w m1 heads hdim rhd p b eps u @
           qk_rmsnorm_rope_kernel F d ys w m2 heads hdim rhd (p + int m1) b eps u"
  unfolding qk_rmsnorm_rope_kernel_def add_mult_distrib [of m1 m2 heads]
proof (rule concat_upt_split, goal_cases)
  case (1 i)
  show ?case by (rule fused_head_cong) (simp_all add: nth_row_front [OF assms(1) 1] assms(2,3))
next
  case (2 i)
  have "p + int ((m1 * heads + i) div heads) = p + int m1 + int (i div heads)" using assms(4) by simp
  then show ?case
    by (simp only:) (rule fused_head_cong; simp add: nth_row_back [OF assms(1)] assms(2,3))
qed

lemma q_gate_rmsnorm_rope_lengths [simp, size_simps]:
  "length (fst (q_gate_rmsnorm_rope_kernel F d xs w m heads hdim rhd p b eps u)) = m * heads * hdim"
  "length (snd (q_gate_rmsnorm_rope_kernel F d xs w m heads hdim rhd p b eps u)) = m * heads * hdim"
  by (simp_all add: q_gate_rmsnorm_rope_kernel_def length_concat_const)

lemma q_gate_rmsnorm_rope_append:
  assumes "length xs = m1 * heads * (2 * hdim)" and "rhd \<le> hdim" and "rhd mod 2 = 0" and "0 < heads"
  shows "fst (q_gate_rmsnorm_rope_kernel F d (xs @ ys) w (m1 + m2) heads hdim rhd p b eps u) =
           fst (q_gate_rmsnorm_rope_kernel F d xs w m1 heads hdim rhd p b eps u) @
           fst (q_gate_rmsnorm_rope_kernel F d ys w m2 heads hdim rhd (p + int m1) b eps u)"
    and "snd (q_gate_rmsnorm_rope_kernel F d (xs @ ys) w (m1 + m2) heads hdim rhd p b eps u) =
           snd (q_gate_rmsnorm_rope_kernel F d xs w m1 heads hdim rhd p b eps u) @
           snd (q_gate_rmsnorm_rope_kernel F d ys w m2 heads hdim rhd (p + int m1) b eps u)"
proof -
  have front: "(xs @ ys) ! (i * (2 * hdim) + c) = xs ! (i * (2 * hdim) + c)"
    if "i < m1 * heads" "c < 2 * hdim" for i c using nth_row_front [OF assms(1) that] .
  have rear: "(xs @ ys) ! ((m1 * heads + i) * (2 * hdim) + c) = ys ! (i * (2 * hdim) + c)" for i c
    by (rule nth_row_back [OF assms(1)])
  have pos: "p + int ((m1 * heads + i) div heads) = p + int m1 + int (i div heads)" for i
    using assms(4) by simp
  show "fst (q_gate_rmsnorm_rope_kernel F d (xs @ ys) w (m1 + m2) heads hdim rhd p b eps u) =
           fst (q_gate_rmsnorm_rope_kernel F d xs w m1 heads hdim rhd p b eps u) @
           fst (q_gate_rmsnorm_rope_kernel F d ys w m2 heads hdim rhd (p + int m1) b eps u)"
    unfolding q_gate_rmsnorm_rope_kernel_def fst_conv add_mult_distrib [of m1 m2 heads]
  proof (rule concat_upt_split, goal_cases)
    case (1 i)
    show ?case by (rule fused_head_cong) (simp_all add: front 1 assms(2,3) del: mult_Suc_right)
  next
    case (2 i)
    show ?case unfolding pos rear ..
  qed
  show "snd (q_gate_rmsnorm_rope_kernel F d (xs @ ys) w (m1 + m2) heads hdim rhd p b eps u) =
           snd (q_gate_rmsnorm_rope_kernel F d xs w m1 heads hdim rhd p b eps u) @
           snd (q_gate_rmsnorm_rope_kernel F d ys w m2 heads hdim rhd (p + int m1) b eps u)"
    unfolding q_gate_rmsnorm_rope_kernel_def snd_conv add_mult_distrib [of m1 m2 heads]
    by (rule concat_upt_split) (simp_all only: add.assoc front rear, auto simp: front)
qed

lemma partial_rope_append:
  assumes "length xs = m1 * heads * hdim" and "rhd \<le> hdim" and "rhd mod 2 = 0" and "0 < heads" and "0 < hdim"
  shows "partial_rope_kernel F d (xs @ ys) ((m1 + m2) * heads * hdim) heads hdim rhd p b =
           partial_rope_kernel F d xs (m1 * heads * hdim) heads hdim rhd p b @
           partial_rope_kernel F d ys (m2 * heads * hdim) heads hdim rhd (p + int m1) b"
  unfolding partial_rope_kernel_def add_mult_distrib
proof (rule map_upt_split, goal_cases)
  case (1 i)
  then have i: "i div hdim < m1 * heads" by (simp add: less_mult_imp_div_less)
  have v: "rope_value F (\<lambda>c. (xs @ ys) ! (i div hdim * hdim + c)) (i mod hdim) rhd q b =
           rope_value F (\<lambda>c. xs ! (i div hdim * hdim + c)) (i mod hdim) rhd q b"
    if "i mod hdim < rhd" for q
    by (rule rope_value_cong [of hdim]) (simp_all add: nth_row_front [OF assms(1) i] that assms(2,3))
  have "(xs @ ys) ! i = xs ! i" using 1 assms(1) by (simp add: nth_append)
  with v show ?case by (simp add: Let_def)
next
  case (2 i)
  have d: "(m1 * heads * hdim + i) div hdim = m1 * heads + i div hdim"
    and m: "(m1 * heads * hdim + i) mod hdim = i mod hdim" using assms(5) by simp_all
  have pos: "p + int ((m1 * heads + i div hdim) div heads) = p + int m1 + int (i div hdim div heads)"
    using assms(4) by simp
  have v: "rope_value F (\<lambda>c. (xs @ ys) ! ((m1 * heads + i div hdim) * hdim + c)) (i mod hdim) rhd q b =
           rope_value F (\<lambda>c. ys ! (i div hdim * hdim + c)) (i mod hdim) rhd q b"
    if "i mod hdim < rhd" for q
    by (rule rope_value_cong [of hdim]) (simp_all only: nth_row_back [OF assms(1)] that assms(2,3))
  have "(xs @ ys) ! (m1 * heads * hdim + i) = ys ! i" using assms(1) by (simp add: nth_append)
  with v show ?case by (simp only: Let_def d m pos split: if_split) simp
qed

section \<open>Cached attention\<close>

lemma gqa_head_cong:
  assumes "\<And>c. c < k \<Longrightarrow> q c = q' c"
    and "\<And>s c. s < n \<Longrightarrow> c < k \<Longrightarrow> key s c = key' s c" and "\<And>s c. s < n \<Longrightarrow> c < k \<Longrightarrow> val s c = val' s c"
  shows "gqa_head F k n q key val = gqa_head F k n q' key' val'"
proof -
  let ?s = "\<lambda>q key s. f_mul F (acc_sum F k (\<lambda>c. f_mul F (q c) (key s c))) (f_rsqrt F (f_int F (int k)))"
  have sc: "?s q key s = ?s q' key' s" if "s < n" for s
  proof -
    have "acc_sum F k (\<lambda>c. f_mul F (q c) (key s c)) = acc_sum F k (\<lambda>c. f_mul F (q' c) (key' s c))"
      by (rule acc_sum_cong) (simp add: assms that)
    then show ?thesis by simp
  qed
  have mx: "acc_max F n (?s q key) = acc_max F n (?s q' key')" by (rule acc_max_cong) (rule sc)
  have sm: "acc_sum F n (\<lambda>s. f_exp F (f_sub F (?s q key s) r)) = acc_sum F n (\<lambda>s. f_exp F (f_sub F (?s q' key' s) r))" for r
    by (rule acc_sum_cong) (simp only: sc)
  have "acc_sum F n (\<lambda>s. f_mul F (f_div F (f_exp F (f_sub F (?s q key s) r)) t) (val s i)) =
        acc_sum F n (\<lambda>s. f_mul F (f_div F (f_exp F (f_sub F (?s q' key' s) r)) t) (val' s i))" if "i < k" for i r t
    by (rule acc_sum_cong) (simp only: sc assms(3) that)
  then show ?thesis by (simp add: gqa_head_def Let_def mx sm)
qed

lemma online_head_cong:
  assumes "\<And>s. s < n \<Longrightarrow> score s = score' s" and "\<And>s c. s < n \<Longrightarrow> c < k \<Longrightarrow> val s c = val' s c"
  shows "online_head F k n score val = online_head F k n score' val'"
proof -
  have len: "length (snd (snd (fold (online_step F sc v) ss (a, b, xs)))) = length xs" for sc v ss a b xs
    by (induction ss arbitrary: a b xs) (simp_all add: online_step_def Let_def)
  have "fold (online_step F score val) [0..<j] (f_neg_inf F, f_zero F, replicate k (f_zero F)) =
        fold (online_step F score' val') [0..<j] (f_neg_inf F, f_zero F, replicate k (f_zero F))" if "j \<le> n" for j
    using that
  proof (induction j)
    case 0
    then show ?case by simp
  next
    case (Suc j)
    let ?t = "fold (online_step F score' val') [0..<j] (f_neg_inf F, f_zero F, replicate k (f_zero F))"
    have "length (snd (snd ?t)) = k" using len by simp
    then have "online_step F score val j ?t = online_step F score' val' j ?t"
      using assms Suc.prems by (cases ?t) (simp add: online_step_def Let_def)
    with Suc show ?case by simp
  qed
  then show ?thesis by (simp add: online_head_def)
qed

lemma gqa_select_cong:
  assumes q: "\<And>c. c < k \<Longrightarrow> q c = q' c"
    and key: "\<And>s c. s < n \<Longrightarrow> c < k \<Longrightarrow> key s c = key' s c" and val: "\<And>s c. s < n \<Longrightarrow> c < k \<Longrightarrow> val s c = val' s c"
  shows "gqa_select F warp k n q key val = gqa_select F warp k n q' key' val'"
proof -
  have "waves_sum F warp 128 (\<lambda>c. f_mul F (q c) (key s c)) = waves_sum F warp 128 (\<lambda>c. f_mul F (q' c) (key' s c))"
    if "s < n" "k = 128" for s
  proof (cases "warp = 0")
    case True
    then show ?thesis by (simp add: waves_sum_def acc_sum_def)
  next
    case False
    with that show ?thesis by (intro waves_sum_cong) (simp_all add: q key)
  qed
  then have 1: "gqa_fixed_head F warp 128 n q key val = gqa_fixed_head F warp 128 n q' key' val'" if "k = 128"
    unfolding gqa_fixed_head_def using that by (intro online_head_cong) (simp_all add: val)
  have 2: "gqa_head256_wave64 F n q key val = gqa_head256_wave64 F n q' key' val'" if "k = 256"
    unfolding gqa_head256_wave64_def Let_def
    using that by (intro online_head_cong arg_cong2 [of _ _ _ _ "f_mul F"] wave_sum_cong) (simp_all add: q key val)
  have "gqa_head F k n q key val = gqa_head F k n q' key' val'"
    by (rule gqa_head_cong) (simp_all add: q key val)
  with 1 2 show ?thesis by (simp add: gqa_select_def)
qed

lemma online_head_length: "length (online_head F k n score val) = k"
proof -
  have len: "length (snd (snd (fold (online_step F sc v) ss (a, b, xs)))) = length xs" for sc v ss a b xs
    by (induction ss arbitrary: a b xs) (simp_all add: online_step_def Let_def)
  show ?thesis
    using len [of score val "[0..<n]" "f_neg_inf F" "f_zero F" "replicate k (f_zero F)"]
    by (auto simp: online_head_def split: prod.splits)
qed

lemma gqa_select_length [simp, size_simps]: "length (gqa_select F warp k n q key val) = k"
  by (simp add: gqa_select_def gqa_fixed_head_def gqa_head256_wave64_def gqa_head_def Let_def online_head_length)

lemma gated_store_length [simp, size_simps]: "length (gated_store F d g xs) = length xs"
  by (simp add: gated_store_def)

lemma gated_store_cong:
  assumes "xs = ys" and "\<And>c. c < length ys \<Longrightarrow> map_option (\<lambda>g. g c) g = map_option (\<lambda>g. g c) g'"
  shows "gated_store F d g xs = gated_store F d g' ys"
  unfolding gated_store_def assms(1)
proof (rule map_cong [OF refl], goal_cases)
  case (1 c)
  then show ?case using assms(2) [of c] by (cases g; cases g') auto
qed

text \<open>Appending the rows of a chunk at once or in two parts.\<close>

lemma append_kv_append:
  assumes "length xs = m1 * w" and "length ys = m2 * w"
  shows "append_kv_cache_kernel cache (xs @ ys) ((m1 + m2) * w) w L =
           append_kv_cache_kernel (append_kv_cache_kernel cache xs (m1 * w) w L) ys (m2 * w) w (L + m1)"
  unfolding append_kv_cache_kernel_def
  using assms by (auto simp: nth_append add_mult_distrib)

text \<open>The chunk of appended rows behind a row that attends is not read by it.\<close>

lemma append_kv_nth:
  "i < length cache \<Longrightarrow> append_kv_cache_kernel cache rows n w L ! i =
     (if L * w \<le> i \<and> i < L * w + n then rows ! (i - L * w) else cache ! i)"
  by (simp add: append_kv_cache_kernel_def)

lemma append_kv_front:
  assumes "s < L" and "r < w" and "L * w \<le> length cache"
  shows "append_kv_cache_kernel cache rows n w L ! (s * w + r) = cache ! (s * w + r)"
proof -
  have "s * w + r < L * w" using row_index [OF assms(1,2)] .
  with assms(3) show ?thesis by (simp add: append_kv_nth)
qed

lemma cached_gqa_length [simp, size_simps]:
  "length (cached_gqa_kernel F warp d q K V g m n nq nkv hdim) = m * (nq * hdim)"
  unfolding cached_gqa_kernel_def by (simp add: length_concat_const Let_def)

lemma kv_head_less:
  assumes "qh < nq" and "nq mod nkv = 0" and "0 < nkv"
  shows "qh div (nq div nkv) < (nkv::nat)"
proof -
  have "nq = nkv * (nq div nkv)" using assms(2) by (metis dvd_mult_div_cancel mod_0_imp_dvd)
  with assms(1) show ?thesis by (metis less_mult_imp_div_less)
qed

text \<open>The cache position of a row, a head and a dimension.\<close>

lemma cache_index: "(s * nkv + kvh) * hdim + c = s * (nkv * hdim) + (kvh * hdim + (c::nat))"
  by (simp add: add_mult_distrib)

lemma cache_column: "kvh < nkv \<Longrightarrow> c < hdim \<Longrightarrow> kvh * hdim + c < nkv * (hdim::nat)"
  by (rule row_index)

definition join_gate :: "'f list option \<Rightarrow> 'f list option \<Rightarrow> 'f list option" where
  "join_gate g h = (case (g, h) of (Some a, Some b) \<Rightarrow> Some (a @ b) | _ \<Rightarrow> None)"

definition gate_length :: "nat \<Rightarrow> 'f list option \<Rightarrow> bool" where
  "gate_length n g \<longleftrightarrow> (case g of None \<Rightarrow> True | Some xs \<Rightarrow> length xs = n)"

text \<open>The attention of a chunk over the extended cache is that of its two parts; the first
  part may attend over any cache with the same rows before its end.\<close>

lemma cached_gqa_split:
  assumes q: "length q1 = m1 * (nq * hdim)" and g: "gate_length (m1 * (nq * hdim)) g1"
    and gg: "g1 = None \<longleftrightarrow> g2 = None" and nkv: "nq mod nkv = 0" "0 < nkv"
    and K: "\<And>s r. s < L + m1 \<Longrightarrow> r < nkv * hdim \<Longrightarrow> K ! (s * (nkv * hdim) + r) = K' ! (s * (nkv * hdim) + r)"
    and V: "\<And>s r. s < L + m1 \<Longrightarrow> r < nkv * hdim \<Longrightarrow> V ! (s * (nkv * hdim) + r) = V' ! (s * (nkv * hdim) + r)"
  shows "cached_gqa_kernel F warp d (q1 @ q2) K V (join_gate g1 g2) (m1 + m2) (L + m1 + m2) nq nkv hdim =
           cached_gqa_kernel F warp d q1 K' V' g1 m1 (L + m1) nq nkv hdim @
           cached_gqa_kernel F warp d q2 K V g2 m2 (L + m1 + m2) nq nkv hdim"
  unfolding cached_gqa_kernel_def
proof (rule concat_upt_split, goal_cases)
  case (1 t)
  show ?case
  proof (rule arg_cong [of _ _ concat], rule map_cong [OF refl], goal_cases)
    case (1 qh)
    then have qh: "qh < nq" by simp
    note kvh = kv_head_less [OF qh nkv]
    have ix: "(t * nq + qh) * hdim + c < m1 * (nq * hdim)" if "c < hdim" for c
      using row_index [OF row_index [OF \<open>t < m1\<close> qh] that] by (simp add: mult.assoc)
    have pos: "L + m1 + m2 - (m1 + m2) + t = L + t" "L + m1 - m1 + t = L + t" by simp_all
    have row: "s < Suc (L + t) \<Longrightarrow> s < L + m1" for s using \<open>t < m1\<close> by simp
    show ?case unfolding Let_def pos
    proof (rule gated_store_cong, rule gqa_select_cong, goal_cases)
      case (1 c)
      then show ?case using ix q by (simp add: nth_append)
    next
      case (2 s c)
      then show ?case unfolding cache_index by (intro K row cache_column kvh)
    next
      case (3 s c)
      then show ?case unfolding cache_index by (intro V row cache_column kvh)
    next
      case (4 c)
      then show ?case using ix g gg
        by (cases g1; cases g2) (simp_all add: join_gate_def gate_length_def nth_append)
    qed
  qed
next
  case (2 t)
  have q': "(q1 @ q2) ! (((m1 + t) * nq + qh) * hdim + c) = q2 ! ((t * nq + qh) * hdim + c)" for qh c
    using q by (simp add: nth_append add_mult_distrib mult.assoc add.assoc)
  have g': "map_option (\<lambda>g c. g ! (((m1 + t) * nq + qh) * hdim + c)) (join_gate g1 g2) =
            map_option (\<lambda>g c. g ! ((t * nq + qh) * hdim + c)) g2" for qh
    using g gg by (cases g1; cases g2)
      (auto simp: join_gate_def gate_length_def nth_append add_mult_distrib mult.assoc add.assoc)
  have pos: "L + m1 + m2 - (m1 + m2) + (m1 + t) = L + m1 + m2 - m2 + t" by simp
  show ?case unfolding Let_def q' g' pos ..
qed

text \<open>The fused decode kernel is an append of the current row and the general kernel for one
  row, when the row holds stored values.\<close>

lemma current_token_kernel_eq:
  assumes n: "0 < n" and nkv: "nq mod nkv = 0" "0 < nkv"
    and cur: "length ck = nkv * hdim" "length cv = nkv * hdim" "\<forall>x \<in> set ck. stored F d x" "\<forall>x \<in> set cv. stored F d x"
    and cache: "n * (nkv * hdim) \<le> length K" "n * (nkv * hdim) \<le> length V"
  shows "cached_gqa_current_token_kernel F warp d q K V ck cv g n nq nkv hdim =
     (let K' = append_kv_cache_kernel K ck (nkv * hdim) (nkv * hdim) (n - 1);
          V' = append_kv_cache_kernel V cv (nkv * hdim) (nkv * hdim) (n - 1)
      in (cached_gqa_kernel F warp d q K' V' g 1 n nq nkv hdim, K', V'))"
proof -
  let ?w = "nkv * hdim"
  have st: "map (\<lambda>i. f_store F d (xs ! i)) [0..<?w] = xs" if "length xs = ?w" "\<forall>x \<in> set xs. stored F d x" for xs
    using that by (intro nth_equalityI) (simp_all add: stored_def)
  have read: "(if s + 1 = n then cur ! (kvh * hdim + c) else C ! ((s * nkv + kvh) * hdim + c)) =
        append_kv_cache_kernel C cur ?w ?w (n - 1) ! ((s * nkv + kvh) * hdim + c)"
    if "s < n" "c < hdim" "kvh < nkv" "n * ?w \<le> length C" for C cur s c kvh
  proof -
    have col: "kvh * hdim + c < ?w" using cache_column [OF that(3,2)] .
    have "s * ?w + (kvh * hdim + c) < n * ?w" using row_index [OF that(1) col] .
    then have in_len: "s * ?w + (kvh * hdim + c) < length C" using that(4) by simp
    show ?thesis
    proof (cases "s + 1 = n")
      case True
      then have "n - 1 = s" by simp
      with True col in_len show ?thesis unfolding cache_index by (simp add: append_kv_nth)
    next
      case False
      then have "s < n - 1" using that(1) by simp
      moreover have "(n - 1) * ?w \<le> length C"
        using that(4) by (metis diff_le_self le_trans mult_le_mono1)
      ultimately show ?thesis using False append_kv_front [OF _ col, of s "n - 1" C cur ?w]
        unfolding cache_index by simp
    qed
  qed
  have "concat (map (\<lambda>qh. (let kvh = qh div (nq div nkv); query_base = qh * hdim
             in gated_store F d (map_option (\<lambda>g c. g ! (query_base + c)) g)
                  (gqa_select F warp hdim n (\<lambda>c. q ! (query_base + c))
                    (\<lambda>s c. if s + 1 = n then ck ! (kvh * hdim + c) else K ! ((s * nkv + kvh) * hdim + c))
                    (\<lambda>s c. if s + 1 = n then cv ! (kvh * hdim + c) else V ! ((s * nkv + kvh) * hdim + c)))))
            [0..<nq]) =
        cached_gqa_kernel F warp d q (append_kv_cache_kernel K ck ?w ?w (n - 1))
          (append_kv_cache_kernel V cv ?w ?w (n - 1)) g 1 n nq nkv hdim"
  proof -
    have "gqa_select F warp hdim n (\<lambda>c. q ! (qh * hdim + c))
            (\<lambda>s c. if s + 1 = n then ck ! (qh div (nq div nkv) * hdim + c) else K ! ((s * nkv + qh div (nq div nkv)) * hdim + c))
            (\<lambda>s c. if s + 1 = n then cv ! (qh div (nq div nkv) * hdim + c) else V ! ((s * nkv + qh div (nq div nkv)) * hdim + c)) =
          gqa_select F warp hdim n (\<lambda>c. q ! (qh * hdim + c))
            (\<lambda>s c. append_kv_cache_kernel K ck ?w ?w (n - 1) ! ((s * nkv + qh div (nq div nkv)) * hdim + c))
            (\<lambda>s c. append_kv_cache_kernel V cv ?w ?w (n - 1) ! ((s * nkv + qh div (nq div nkv)) * hdim + c))"
      if "qh < nq" for qh
      by (rule gqa_select_cong, rule refl; rule read)
         (simp_all add: cache kv_head_less [OF that nkv])
    note head = this
    have "cached_gqa_kernel F warp d q (append_kv_cache_kernel K ck ?w ?w (n - 1))
          (append_kv_cache_kernel V cv ?w ?w (n - 1)) g 1 n nq nkv hdim =
        concat (map (\<lambda>qh. gated_store F d (map_option (\<lambda>g c. g ! (qh * hdim + c)) g)
          (gqa_select F warp hdim n (\<lambda>c. q ! (qh * hdim + c))
            (\<lambda>s c. append_kv_cache_kernel K ck ?w ?w (n - 1) ! ((s * nkv + qh div (nq div nkv)) * hdim + c))
            (\<lambda>s c. append_kv_cache_kernel V cv ?w ?w (n - 1) ! ((s * nkv + qh div (nq div nkv)) * hdim + c))))
          [0..<nq])"
      using n by (simp add: cached_gqa_kernel_def Let_def)
    also have "\<dots> = concat (map (\<lambda>qh. gated_store F d (map_option (\<lambda>g c. g ! (qh * hdim + c)) g)
          (gqa_select F warp hdim n (\<lambda>c. q ! (qh * hdim + c))
            (\<lambda>s c. if s + 1 = n then ck ! (qh div (nq div nkv) * hdim + c) else K ! ((s * nkv + qh div (nq div nkv)) * hdim + c))
            (\<lambda>s c. if s + 1 = n then cv ! (qh div (nq div nkv) * hdim + c) else V ! ((s * nkv + qh div (nq div nkv)) * hdim + c))))
          [0..<nq])"
      by (rule arg_cong [of _ _ concat], rule map_cong [OF refl]) (simp only: set_upt atLeastLessThan_iff head)
    finally show ?thesis by (simp only: Let_def)
  qed
  then show ?thesis
    by (simp only: cached_gqa_current_token_kernel_def Let_def st [OF cur(1,3)] st [OF cur(2,4)])
qed

section \<open>The DeltaNet kernels\<close>

lemma conv_tokens_append:
  "conv_tokens step (xs @ ys) st =
     (case conv_tokens step xs st of (o1, s1) \<Rightarrow>
        (case conv_tokens step ys s1 of (o2, s2) \<Rightarrow> (o1 @ o2, s2)))"
  by (induction xs arbitrary: st) (auto split: prod.splits)

lemma conv_tokens_length: "length (fst (conv_tokens step xs st)) = length xs"
  by (induction xs arbitrary: st) (auto split: prod.splits, metis fst_conv)

lemma conv_tokens_rows:
  "(\<And>row st. length (fst (step row st)) = n) \<Longrightarrow> \<forall>r \<in> set (fst (conv_tokens step xs st)). length r = n"
  by (induction xs arbitrary: st) (auto split: prod.splits, (metis fst_conv)+)

lemma conv_tokens_state:
  "(\<And>row st. length (snd (step row st)) = n) \<Longrightarrow> length st = n \<Longrightarrow> length (snd (conv_tokens step xs st)) = n"
  by (induction xs arbitrary: st) (auto split: prod.splits, metis snd_conv)

lemma conv_token_lengths:
  "length (fst (conv_token F d output channels history weight row st)) = channels"
  "length (snd (conv_token F d output channels history weight row st)) = channels * history"
  unfolding conv_token_def Let_def fst_conv snd_conv
  by (simp, subst length_concat_const [where k = history]) (auto simp: conv_shift_def)

text \<open>Adding to zero changes nothing: then the four-tap decode kernel sums like the general
  one.\<close>

definition adds_to_zero :: "'f fops \<Rightarrow> bool" where
  "adds_to_zero F \<longleftrightarrow> (\<forall>x. f_add F (f_zero F) x = x)"

lemma conv_output_k4_eq: "adds_to_zero F \<Longrightarrow> conv_output_k4 F = conv_output F 3"
  by (intro ext) (simp add: conv_output_k4_def conv_output_def acc_sum_def adds_to_zero_def upt_rec eval_nat_numeral)

lemma take_rows_append: "concat (map (take k) (xs @ ys)) = concat (map (take k) xs) @ concat (map (take k) ys)"
  by simp

definition conv_of ::
  "'f fops \<Rightarrow> dtype \<Rightarrow> 'f list \<Rightarrow> nat \<Rightarrow> nat \<Rightarrow> 'f list list \<Rightarrow> 'f list \<Rightarrow> 'f list list \<times> 'f list" where
  "conv_of F d weight channels kernel_size =
     conv_tokens (conv_token F d (conv_output F (kernel_size - 1)) channels (kernel_size - 1) weight)"

lemma grouped_conv_of:
  assumes "kernel_size = 4 \<longrightarrow> adds_to_zero F"
  shows "deltanet_grouped_conv_kernel F d st qkv weight m nqk nv kd vd kernel_size =
     (case conv_of F d weight (nqk * kd * 2 + nv * vd) kernel_size (rows_of (nqk * kd * 2 + nv * vd) m qkv) st of
        (outs, final) \<Rightarrow> ((concat (map (take (nqk * kd)) outs),
           concat (map (\<lambda>r. take (nqk * kd) (drop (nqk * kd) r)) outs),
           concat (map (drop (nqk * kd * 2)) outs)), final))"
proof -
  have "(if m = 1 \<and> kernel_size = 4 then conv_output_k4 F else conv_output F (kernel_size - 1)) =
        conv_output F (kernel_size - 1)"
    using assms conv_output_k4_eq by auto
  then show ?thesis by (simp only: deltanet_grouped_conv_kernel_def Let_def conv_of_def)
qed

lemma rows_of_append:
  assumes "length xs = m1 * k"
  shows "rows_of k (m1 + m2) (xs @ ys) = rows_of k m1 xs @ rows_of k m2 ys"
  unfolding rows_of_def
proof (rule map_upt_split, goal_cases)
  case (1 r)
  then have "Suc r * k \<le> m1 * k" by (intro mult_le_mono1) simp
  then show ?case using assms by simp
next
  case (2 r)
  then show ?case using assms by (simp add: add_mult_distrib)
qed

lemma rows_of_length [simp, size_simps]: "length (rows_of k m xs) = m"
  by (simp add: rows_of_def)

text \<open>The plain causal convolution is the same scan, with one destination: the grouped kernel cuts its
  rows into the three parts.\<close>

lemma causal_conv_of:
  "causal_conv1d_silu_kernel F d st src weight m channels kernel_size =
     (case conv_of F d weight channels kernel_size (rows_of channels m src) st of
        (outs, final) \<Rightarrow> (concat outs, final))"
  by (simp add: causal_conv1d_silu_kernel_def conv_of_def)

lemma conv_of_shape:
  assumes "conv_of F d weight channels kernel_size (rows_of channels m src) st = (outs, final)"
  shows "length outs = m" and "\<forall>r \<in> set outs. length r = channels"
proof -
  let ?step = "conv_token F d (conv_output F (kernel_size - 1)) channels (kernel_size - 1) weight"
  have o: "fst (conv_tokens ?step (rows_of channels m src) st) = outs" using assms by (simp add: conv_of_def)
  show "length outs = m"
    using conv_tokens_length [of ?step "rows_of channels m src" st] by (simp only: o rows_of_length)
  have "\<forall>r \<in> set (fst (conv_tokens ?step (rows_of channels m src) st)). length r = channels"
    by (rule conv_tokens_rows) (rule conv_token_lengths(1))
  then show "\<forall>r \<in> set outs. length r = channels" by (simp only: o)
qed

lemma causal_conv_length:
  assumes "causal_conv1d_silu_kernel F d st src weight m channels kernel_size = (out, final)"
  shows "length out = m * channels"
proof -
  obtain outs where o: "conv_of F d weight channels kernel_size (rows_of channels m src) st = (outs, final)"
    and out: "out = concat outs" using assms by (auto simp: causal_conv_of split: prod.splits)
  show ?thesis using length_concat_const [of outs "\<lambda>r. r" channels] conv_of_shape [OF o] by (simp add: out)
qed

lemma rows_of_concat:
  "list_all (\<lambda>r. length r = k) rows \<Longrightarrow> rows_of k (length rows) (concat rows) = rows"
proof (induction rows)
  case Nil
  then show ?case by (simp add: rows_of_def)
next
  case (Cons r rows)
  then have "rows_of k (1 + length rows) (r @ concat rows) = rows_of k 1 r @ rows"
    by (subst rows_of_append) auto
  moreover have "rows_of k 1 r = [r]" using Cons.prems by (simp add: rows_of_def)
  ultimately show ?case by simp
qed

definition split_rows :: "nat \<Rightarrow> 'a list list \<Rightarrow> 'a list \<times> 'a list \<times> 'a list" where
  "split_rows key_width rows =
     (concat (map (take key_width) rows),
      concat (map (\<lambda>r. take key_width (drop key_width r)) rows),
      concat (map (drop (key_width * 2)) rows))"

lemma grouped_conv_splits:
  assumes "kernel_size = 4 \<longrightarrow> adds_to_zero F" and ch: "ch = nqk * kd * 2 + nv * vd"
  shows "deltanet_grouped_conv_kernel F d st qkv weight m nqk nv kd vd kernel_size =
     (case causal_conv1d_silu_kernel F d st qkv weight m ch kernel_size of
        (out, final) \<Rightarrow> (split_rows (nqk * kd) (rows_of ch m out), final))"
proof -
  obtain outs final where o: "conv_of F d weight ch kernel_size (rows_of ch m qkv) st = (outs, final)"
    by (cases "conv_of F d weight ch kernel_size (rows_of ch m qkv) st")
  have "rows_of ch m (concat outs) = outs"
    using rows_of_concat [of ch outs] conv_of_shape [OF o] by (simp add: list_all_iff)
  then show ?thesis using o by (simp add: grouped_conv_of [OF assms(1)] causal_conv_of split_rows_def flip: ch)
qed

lemma grouped_conv_append:
  assumes mode: "kernel_size = 4 \<longrightarrow> adds_to_zero F" and len: "length xs = m1 * (nqk * kd * 2 + nv * vd)"
    and a: "deltanet_grouped_conv_kernel F d st xs weight m1 nqk nv kd vd kernel_size = ((q1, k1, v1), st1)"
    and b: "deltanet_grouped_conv_kernel F d st1 ys weight m2 nqk nv kd vd kernel_size = ((q2, k2, v2), st2)"
  shows "deltanet_grouped_conv_kernel F d st (xs @ ys) weight (m1 + m2) nqk nv kd vd kernel_size =
     ((q1 @ q2, k1 @ k2, v1 @ v2), st2)"
  using a b unfolding grouped_conv_of [OF mode] rows_of_append [OF len] conv_of_def conv_tokens_append
  by (auto split: prod.splits)

lemma grouped_conv_lengths:
  assumes mode: "kernel_size = 4 \<longrightarrow> adds_to_zero F"
    and a: "deltanet_grouped_conv_kernel F d st xs weight m nqk nv kd vd kernel_size = ((q, k, v), st')"
  shows "length q = m * (nqk * kd)" and "length k = m * (nqk * kd)" and "length v = m * (nv * vd)"
    and "length st = (nqk * kd * 2 + nv * vd) * (kernel_size - 1) \<Longrightarrow> length st' = length st"
proof -
  let ?c = "nqk * kd * 2 + nv * vd"
  obtain outs where o: "conv_of F d weight ?c kernel_size (rows_of ?c m xs) st = (outs, st')"
    and qkv: "q = concat (map (take (nqk * kd)) outs)"
      "k = concat (map (\<lambda>r. take (nqk * kd) (drop (nqk * kd) r)) outs)"
      "v = concat (map (drop (nqk * kd * 2)) outs)"
    using a unfolding grouped_conv_of [OF mode] by (auto split: prod.splits)
  have "\<forall>r \<in> set (fst (conv_of F d weight ?c kernel_size (rows_of ?c m xs) st)). length r = ?c"
    unfolding conv_of_def by (rule conv_tokens_rows [OF conv_token_lengths(1)])
  then have rows: "length r = ?c" if "r \<in> set outs" for r using that by (simp add: o)
  have "length (fst (conv_of F d weight ?c kernel_size (rows_of ?c m xs) st)) = m"
    unfolding conv_of_def by (simp add: conv_tokens_length)
  then have n: "length outs = m" by (simp add: o)
  show "length q = m * (nqk * kd)" unfolding qkv
    by (subst length_concat_const [where k = "nqk * kd"]) (simp_all add: rows n)
  show "length k = m * (nqk * kd)" unfolding qkv
    by (subst length_concat_const [where k = "nqk * kd"]) (simp_all add: rows n)
  show "length v = m * (nv * vd)" unfolding qkv
    by (subst length_concat_const [where k = "nv * vd"]) (simp_all add: rows n)
  assume st: "length st = ?c * (kernel_size - 1)"
  have "length (snd (conv_of F d weight ?c kernel_size (rows_of ?c m xs) st)) = ?c * (kernel_size - 1)"
    unfolding conv_of_def by (rule conv_tokens_state [OF conv_token_lengths(2) st])
  then show "length st' = length st" unfolding o snd_conv st .
qed

lemma recurrent_tokens_append:
  "recurrent_tokens step (xs @ ys) st =
     (case recurrent_tokens step xs st of (o1, s1) \<Rightarrow>
        (case recurrent_tokens step ys s1 of (o2, s2) \<Rightarrow> (o1 @ o2, s2)))"
  by (induction xs arbitrary: st) (auto split: prod.splits)

lemma recurrent_tokens_length: "length (fst (recurrent_tokens step xs st)) = length xs"
  by (induction xs arbitrary: st) (auto split: prod.splits, metis fst_conv)

lemma recurrent_tokens_rows:
  "(\<And>row st. length (fst (step row st)) = n) \<Longrightarrow> \<forall>r \<in> set (fst (recurrent_tokens step xs st)). length r = n"
  by (induction xs arbitrary: st) (auto split: prod.splits, (metis fst_conv)+)

lemma recurrent_tokens_state:
  "(\<And>row st. length (snd (step row st)) = n) \<Longrightarrow> length st = n \<Longrightarrow> length (snd (recurrent_tokens step xs st)) = n"
  by (induction xs arbitrary: st) (auto split: prod.splits, metis snd_conv)

text \<open>The decode kernel for a state of 128 by 128 sums in another order: that it gives the
  same values is an assumption on the arithmetic.\<close>

definition decode_agrees ::
  "'f fops \<Rightarrow> nat \<Rightarrow> dtype \<Rightarrow> 'f list \<times> 'f list \<times> 'f list \<Rightarrow> nat \<Rightarrow> nat \<Rightarrow> nat \<Rightarrow> nat \<Rightarrow> nat \<Rightarrow> 'f \<Rightarrow> bool" where
  "decode_agrees F warp d weights nqk nv kd vd nw eps \<longleftrightarrow>
     (kd = 128 \<and> vd = 128 \<longrightarrow>
        (\<forall>row st. recurrent_token F warp True d weights nqk nv kd vd nw eps row st =
                  recurrent_token F warp False d weights nqk nv kd vd nw eps row st))"

lemma recurrent_kernel_eq:
  assumes "decode_agrees F warp d weights nqk nv kd vd nw eps"
  shows "deltanet_recurrent_kernel F warp d st qkv abz weights m nqk nv kd vd nw eps =
     (case recurrent_tokens (recurrent_token F warp False d weights nqk nv kd vd nw eps)
             (token_rows_of m nqk nv kd vd qkv abz) st of (outs, final) \<Rightarrow> (concat outs, final))"
proof -
  have "recurrent_token F warp (m = 1 \<and> kd = 128 \<and> vd = 128) d weights nqk nv kd vd nw eps =
        recurrent_token F warp False d weights nqk nv kd vd nw eps"
    using assms by (cases "m = 1 \<and> kd = 128 \<and> vd = 128") (auto simp: decode_agrees_def)
  then show ?thesis by (simp only: deltanet_recurrent_kernel_def)
qed

lemma row_slice_append:
  assumes "length xs = m1 * k"
  shows "r < m1 \<Longrightarrow> take k (drop (r * k) (xs @ ys)) = take k (drop (r * k) xs)"
    and "take k (drop ((m1 + r) * k) (xs @ ys)) = take k (drop (r * k) ys)"
proof -
  assume "r < m1"
  then have "Suc r * k \<le> m1 * k" by (intro mult_le_mono1) simp
  then show "take k (drop (r * k) (xs @ ys)) = take k (drop (r * k) xs)" using assms by simp
next
  show "take k (drop ((m1 + r) * k) (xs @ ys)) = take k (drop (r * k) ys)"
    using assms by (simp add: add_mult_distrib)
qed

lemma token_rows_append:
  assumes "length q1 = m1 * (nqk * kd)" "length k1 = m1 * (nqk * kd)" "length v1 = m1 * (nv * vd)"
    and "length a1 = m1 * nv" "length b1 = m1 * nv" "length z1 = m1 * (nv * vd)"
  shows "token_rows_of (m1 + m2) nqk nv kd vd (q1 @ q2, k1 @ k2, v1 @ v2) (a1 @ a2, b1 @ b2, z1 @ z2) =
           token_rows_of m1 nqk nv kd vd (q1, k1, v1) (a1, b1, z1) @
           token_rows_of m2 nqk nv kd vd (q2, k2, v2) (a2, b2, z2)"
  unfolding token_rows_of_def prod.case
  by (rule map_upt_split) (simp_all only: assms [THEN row_slice_append(1)] assms [THEN row_slice_append(2)])

lemma token_rows_length [simp, size_simps]: "length (token_rows_of m nqk nv kd vd qkv abz) = m"
  by (auto simp: token_rows_of_def split: prod.splits)

lemma recurrent_append:
  assumes da: "decode_agrees F warp d weights nqk nv kd vd nw eps"
    and len: "length q1 = m1 * (nqk * kd)" "length k1 = m1 * (nqk * kd)" "length v1 = m1 * (nv * vd)"
      "length a1 = m1 * nv" "length b1 = m1 * nv" "length z1 = m1 * (nv * vd)"
    and a: "deltanet_recurrent_kernel F warp d st (q1, k1, v1) (a1, b1, z1) weights m1 nqk nv kd vd nw eps = (o1, st1)"
    and b: "deltanet_recurrent_kernel F warp d st1 (q2, k2, v2) (a2, b2, z2) weights m2 nqk nv kd vd nw eps = (o2, st2)"
  shows "deltanet_recurrent_kernel F warp d st (q1 @ q2, k1 @ k2, v1 @ v2) (a1 @ a2, b1 @ b2, z1 @ z2)
           weights (m1 + m2) nqk nv kd vd nw eps = (o1 @ o2, st2)"
  using a b unfolding recurrent_kernel_eq [OF da] token_rows_append [OF len] recurrent_tokens_append
  by (auto split: prod.splits)

lemma recurrent_head_lengths:
  "length (fst (recurrent_head F d kd vd eps decay beta norm reads st)) = vd"
  "length (snd (recurrent_head F d kd vd eps decay beta norm reads st)) = kd * vd"
  by (auto simp: recurrent_head_def Let_def length_concat_const split: prod.splits)

lemma recurrent_token_lengths:
  "length (fst (recurrent_token F warp False d weights nqk nv kd vd nw eps row st)) = nv * vd"
  "length (snd (recurrent_token F warp False d weights nqk nv kd vd nw eps row st)) = nv * (kd * vd)"
proof -
  obtain a b c where w: "weights = (a, b, c)" by (cases weights)
  show "length (fst (recurrent_token F warp False d weights nqk nv kd vd nw eps row st)) = nv * vd"
    unfolding recurrent_token_def w prod.case Let_def fst_conv map_map if_False
    by (subst length_concat_const [where k = vd]) (simp_all add: recurrent_head_lengths)
  show "length (snd (recurrent_token F warp False d weights nqk nv kd vd nw eps row st)) = nv * (kd * vd)"
    unfolding recurrent_token_def w prod.case Let_def snd_conv map_map if_False
    by (subst length_concat_const [where k = "kd * vd"]) (simp_all add: recurrent_head_lengths)
qed

lemma recurrent_lengths:
  assumes da: "decode_agrees F warp d weights nqk nv kd vd nw eps"
    and a: "deltanet_recurrent_kernel F warp d st qkv abz weights m nqk nv kd vd nw eps = (out, st')"
  shows "length out = m * (nv * vd)" and "length st = nv * (kd * vd) \<Longrightarrow> length st' = length st"
proof -
  let ?step = "recurrent_token F warp False d weights nqk nv kd vd nw eps"
  obtain outs where o: "recurrent_tokens ?step (token_rows_of m nqk nv kd vd qkv abz) st = (outs, st')"
    and out: "out = concat outs"
    using a unfolding recurrent_kernel_eq [OF da] by (auto split: prod.splits)
  have "\<forall>r \<in> set (fst (recurrent_tokens ?step (token_rows_of m nqk nv kd vd qkv abz) st)). length r = nv * vd"
    by (rule recurrent_tokens_rows [OF recurrent_token_lengths(1)])
  then have rows: "length r = nv * vd" if "r \<in> set outs" for r using that by (simp add: o)
  have "length (fst (recurrent_tokens ?step (token_rows_of m nqk nv kd vd qkv abz) st)) = m"
    by (simp add: recurrent_tokens_length)
  then have n: "length outs = m" by (simp add: o)
  show "length out = m * (nv * vd)"
    using length_concat_const [of outs "\<lambda>r. r" "nv * vd"] rows n out by simp
  assume st: "length st = nv * (kd * vd)"
  have "length (snd (recurrent_tokens ?step (token_rows_of m nqk nv kd vd qkv abz) st)) = nv * (kd * vd)"
    by (rule recurrent_tokens_state [OF recurrent_token_lengths(2) st])
  then show "length st' = length st" unfolding o snd_conv st .
qed

section \<open>Argmax\<close>

text \<open>The single-row kernel is the batched kernel at the last row.\<close>

lemma argmax_last_is_batched:
  "0 < m \<Longrightarrow> argmax_last_row_kernel F xs m k = last (argmax_rows_kernel F xs m k)"
  by (cases m) (simp_all add: argmax_last_row_kernel_def argmax_rows_kernel_def)

end
