(* ===== verification/Row_Laws.thy ===== *)
theory Row_Laws
  imports Qwen_Layers Hip_Backend Causal_Engine Kernel_Laws
begin

text \<open>
  The operators of the Qwen engine, on GPUs with the HIP backend, act row by row: running
  a matrix of rows succeeds only when running its upper and its lower rows does, and gives
  their rows. The locale \<open>hip_machine\<close> states what is taken of the driver and of rocBLAS.
\<close>

section \<open>Row operators on tensors\<close>

abbreviation gpu_buffer :: "device \<Rightarrow> nat \<Rightarrow> 'f list \<Rightarrow> 'f buffer" where
  "gpu_buffer dev w xs \<equiv> \<lparr>bf_device = dev, bf_mem = DeviceMem, bf_width = w, bf_data = xs\<rparr>"

lemma mat_simps [simp, size_simps]:
  "t_shape (mat dev k m xs) = [int m, int k]"
  "t_dtype (mat dev k m xs) = BF16"
  "t_device (mat dev k m xs) = dev"
  "t_buffer (mat dev k m xs) = gpu_buffer dev 2 xs"
  "t_data (mat dev k m xs) = xs"
  "t_mem (mat dev k m xs) = DeviceMem"
  "t_numel (mat dev k m xs) = int (m * k)"
  by (simp_all add: mat_def)

lemma mat_nbytes [simp, size_simps]: "t_nbytes (mat dev k m xs) = 2 * (m * k)"
  by (simp add: t_nbytes_def nat_mult_distrib)

lemma mat_inject [simp]: "mat dev k m xs = mat dev k m ys \<longleftrightarrow> xs = ys"
  by (auto dest: arg_cong [where f = t_data])

text \<open>\<open>f\<close> maps matrices of rows of width \<open>k\<close> on one device to matrices with as many rows of
  width \<open>n\<close>, row by row.\<close>

definition row_op :: "device \<Rightarrow> nat \<Rightarrow> device \<Rightarrow> nat \<Rightarrow> ('f tensor \<Rightarrow> 'f tensor option) \<Rightarrow> bool" where
  "row_op dev k dev' n f \<longleftrightarrow>
     (\<forall>m xs z. length xs = m * k \<longrightarrow> f (mat dev k m xs) = Some z \<longrightarrow>
        (\<exists>ys. z = mat dev' n m ys \<and> length ys = m * n)) \<and>
     (\<forall>m1 m2 xs ys z. length xs = m1 * k \<longrightarrow> length ys = m2 * k \<longrightarrow> 0 < m1 \<longrightarrow> 0 < m2 \<longrightarrow>
        f (mat dev k (m1 + m2) (xs @ ys)) = Some z \<longrightarrow>
        (\<exists>u v. f (mat dev k m1 xs) = Some (mat dev' n m1 u) \<and>
               f (mat dev k m2 ys) = Some (mat dev' n m2 v) \<and>
               z = mat dev' n (m1 + m2) (u @ v) \<and> length u = m1 * n \<and> length v = m2 * n))"

definition row_op2 :: "device \<Rightarrow> nat \<Rightarrow> nat \<Rightarrow> ('f tensor \<Rightarrow> 'f tensor \<Rightarrow> 'f tensor option) \<Rightarrow> bool" where
  "row_op2 dev k n f \<longleftrightarrow>
     (\<forall>m xs xs' z. length xs = m * k \<longrightarrow> length xs' = m * k \<longrightarrow>
        f (mat dev k m xs) (mat dev k m xs') = Some z \<longrightarrow>
        (\<exists>ys. z = mat dev n m ys \<and> length ys = m * n)) \<and>
     (\<forall>m1 m2 xs ys xs' ys' z. length xs = m1 * k \<longrightarrow> length ys = m2 * k \<longrightarrow>
        length xs' = m1 * k \<longrightarrow> length ys' = m2 * k \<longrightarrow> 0 < m1 \<longrightarrow> 0 < m2 \<longrightarrow>
        f (mat dev k (m1 + m2) (xs @ ys)) (mat dev k (m1 + m2) (xs' @ ys')) = Some z \<longrightarrow>
        (\<exists>u v. f (mat dev k m1 xs) (mat dev k m1 xs') = Some (mat dev n m1 u) \<and>
               f (mat dev k m2 ys) (mat dev k m2 ys') = Some (mat dev n m2 v) \<and>
               z = mat dev n (m1 + m2) (u @ v) \<and> length u = m1 * n \<and> length v = m2 * n))"

text \<open>The usual shape of an operator: it succeeds under a condition on the number of rows that
  fewer rows meet too, and computes a function of the rows.\<close>

lemma row_opI:
  assumes "\<And>m xs z. length xs = m * k \<Longrightarrow> f (mat dev k m xs) = Some z \<longleftrightarrow> ok m \<and> z = mat dev' n m (g m xs)"
    and "\<And>m1 m2. ok (m1 + m2) \<Longrightarrow> 0 < m1 \<Longrightarrow> 0 < m2 \<Longrightarrow> ok m1 \<and> ok m2"
    and "\<And>m xs. length xs = m * k \<Longrightarrow> length (g m xs) = m * n"
    and "\<And>m1 m2 xs ys. length xs = m1 * k \<Longrightarrow> length ys = m2 * k \<Longrightarrow>
           g (m1 + m2) (xs @ ys) = g m1 xs @ g m2 ys"
  shows "row_op dev k dev' n f"
  unfolding row_op_def
proof (intro conjI allI impI, goal_cases)
  case (1 m xs z)
  then show ?case using assms(1,3) by auto
next
  case (2 m1 m2 xs ys z)
  have "ok (m1 + m2)" "z = mat dev' n (m1 + m2) (g (m1 + m2) (xs @ ys))"
    using 2 assms(1) [of "xs @ ys" "m1 + m2" z] by (simp_all add: add_mult_distrib)
  moreover from this have "ok m1" "ok m2" using assms(2) [of m1 m2] 2 by simp_all
  ultimately show ?case
    using assms(1) [of xs m1] assms(1) [of ys m2] assms(3) [of xs m1] assms(3) [of ys m2]
      assms(4) [of xs m1 ys m2] 2 by simp
qed

lemma row_op2I:
  assumes "\<And>m xs xs' z. length xs = m * k \<Longrightarrow> length xs' = m * k \<Longrightarrow>
           f (mat dev k m xs) (mat dev k m xs') = Some z \<longleftrightarrow> ok m \<and> z = mat dev n m (g m xs xs')"
    and "\<And>m1 m2. ok (m1 + m2) \<Longrightarrow> 0 < m1 \<Longrightarrow> 0 < m2 \<Longrightarrow> ok m1 \<and> ok m2"
    and "\<And>m xs xs'. length xs = m * k \<Longrightarrow> length xs' = m * k \<Longrightarrow> length (g m xs xs') = m * n"
    and "\<And>m1 m2 xs ys xs' ys'. length xs = m1 * k \<Longrightarrow> length ys = m2 * k \<Longrightarrow>
           length xs' = m1 * k \<Longrightarrow> length ys' = m2 * k \<Longrightarrow>
           g (m1 + m2) (xs @ ys) (xs' @ ys') = g m1 xs xs' @ g m2 ys ys'"
  shows "row_op2 dev k n f"
  unfolding row_op2_def
proof (intro conjI allI impI, goal_cases)
  case (1 m xs xs' z)
  then show ?case using assms(1,3) by auto
next
  case (2 m1 m2 xs ys xs' ys' z)
  have "ok (m1 + m2)" "z = mat dev n (m1 + m2) (g (m1 + m2) (xs @ ys) (xs' @ ys'))"
    using 2 assms(1) [of "xs @ ys" "m1 + m2" "xs' @ ys'" z] by (simp_all add: add_mult_distrib)
  moreover from this have "ok m1" "ok m2" using assms(2) [of m1 m2] 2 by simp_all
  ultimately show ?case
    using assms(1) [of xs m1 xs'] assms(1) [of ys m2 ys'] assms(3) [of xs m1 xs'] assms(3) [of ys m2 ys']
      assms(4) [of xs m1 ys m2 xs' ys'] 2 by simp
qed

lemma row_op_result:
  "row_op dev k dev' n f \<Longrightarrow> length xs = m * k \<Longrightarrow> f (mat dev k m xs) = Some z \<Longrightarrow>
     \<exists>ys. z = mat dev' n m ys \<and> length ys = m * n"
  unfolding row_op_def by blast

lemma row_op_split:
  "row_op dev k dev' n f \<Longrightarrow> f (mat dev k (m1 + m2) (xs @ ys)) = Some z \<Longrightarrow>
     length xs = m1 * k \<Longrightarrow> length ys = m2 * k \<Longrightarrow> 0 < m1 \<Longrightarrow> 0 < m2 \<Longrightarrow>
     \<exists>u v. f (mat dev k m1 xs) = Some (mat dev' n m1 u) \<and> f (mat dev k m2 ys) = Some (mat dev' n m2 v) \<and>
           z = mat dev' n (m1 + m2) (u @ v) \<and> length u = m1 * n \<and> length v = m2 * n"
  unfolding row_op_def by blast

lemma row_op2_result:
  "row_op2 dev k n f \<Longrightarrow> length xs = m * k \<Longrightarrow> length xs' = m * k \<Longrightarrow>
     f (mat dev k m xs) (mat dev k m xs') = Some z \<Longrightarrow> \<exists>ys. z = mat dev n m ys \<and> length ys = m * n"
  unfolding row_op2_def by blast

lemma row_op2_split:
  "row_op2 dev k n f \<Longrightarrow>
     f (mat dev k (m1 + m2) (xs @ ys)) (mat dev k (m1 + m2) (xs' @ ys')) = Some z \<Longrightarrow>
     length xs = m1 * k \<Longrightarrow> length ys = m2 * k \<Longrightarrow> length xs' = m1 * k \<Longrightarrow> length ys' = m2 * k \<Longrightarrow>
     0 < m1 \<Longrightarrow> 0 < m2 \<Longrightarrow>
     \<exists>u v. f (mat dev k m1 xs) (mat dev k m1 xs') = Some (mat dev n m1 u) \<and>
           f (mat dev k m2 ys) (mat dev k m2 ys') = Some (mat dev n m2 v) \<and>
           z = mat dev n (m1 + m2) (u @ v) \<and> length u = m1 * n \<and> length v = m2 * n"
  unfolding row_op2_def by blast

lemma row_op_bind:
  assumes f: "row_op dev k dev' n f" and g: "row_op dev' n dev'' l g"
  shows "row_op dev k dev'' l (\<lambda>t. Option.bind (f t) g)"
  unfolding row_op_def
proof (intro conjI allI impI, goal_cases)
  case (1 m xs z)
  then show ?case
    by (auto simp: Option.bind_eq_Some_conv dest!: row_op_result [OF f] row_op_result [OF g])
next
  case (2 m1 m2 xs ys z)
  then obtain w where w: "f (mat dev k (m1 + m2) (xs @ ys)) = Some w" "g w = Some z"
    by (auto simp: Option.bind_eq_Some_conv)
  from row_op_split [OF f w(1) 2(1-4)] obtain u v where uv:
    "f (mat dev k m1 xs) = Some (mat dev' n m1 u)" "f (mat dev k m2 ys) = Some (mat dev' n m2 v)"
    "w = mat dev' n (m1 + m2) (u @ v)" "length u = m1 * n" "length v = m2 * n" by blast
  from row_op_split [OF g w(2) [unfolded uv(3)] uv(4,5) 2(3,4)] uv(1,2) show ?case by auto
qed

text \<open>Two operators on the same matrix, and an operator on their results.\<close>

lemma row_op_pair:
  assumes f: "row_op dev k dev' n f" and g: "row_op dev k dev' n g" and h: "row_op2 dev' n l h"
  shows "row_op dev k dev' l (\<lambda>t. case (f t, g t) of (Some a, Some b) \<Rightarrow> h a b | _ \<Rightarrow> None)"
  unfolding row_op_def
proof (intro conjI allI impI, goal_cases)
  case (1 m xs z)
  then obtain a b where ab: "f (mat dev k m xs) = Some a" "g (mat dev k m xs) = Some b" "h a b = Some z"
    by (auto split: option.splits)
  from row_op_result [OF f 1(1) ab(1)] row_op_result [OF g 1(1) ab(2)] obtain u v where
    "a = mat dev' n m u" "length u = m * n" "b = mat dev' n m v" "length v = m * n" by blast
  with row_op2_result [OF h] ab(3) show ?case by blast
next
  case (2 m1 m2 xs ys z)
  then obtain a b where ab: "f (mat dev k (m1 + m2) (xs @ ys)) = Some a"
    "g (mat dev k (m1 + m2) (xs @ ys)) = Some b" "h a b = Some z"
    by (auto split: option.splits)
  from row_op_split [OF f ab(1) 2(1-4)] obtain u v where f12:
    "f (mat dev k m1 xs) = Some (mat dev' n m1 u)" "f (mat dev k m2 ys) = Some (mat dev' n m2 v)"
    "a = mat dev' n (m1 + m2) (u @ v)" "length u = m1 * n" "length v = m2 * n" by blast
  from row_op_split [OF g ab(2) 2(1-4)] obtain u' v' where g12:
    "g (mat dev k m1 xs) = Some (mat dev' n m1 u')" "g (mat dev k m2 ys) = Some (mat dev' n m2 v')"
    "b = mat dev' n (m1 + m2) (u' @ v')" "length u' = m1 * n" "length v' = m2 * n" by blast
  from row_op2_split [OF h ab(3) [unfolded f12(3) g12(3)] f12(4,5) g12(4,5) 2(3,4)] f12(1,2) g12(1,2)
  show ?case by auto
qed

section \<open>Rows and flat data\<close>

lemma concat_rows_length:
  "list_all (\<lambda>r. length r = k) rows \<Longrightarrow> length (concat rows) = length rows * k"
  by (induction rows) auto

lemma rows_of_all: "length xs = m * k \<Longrightarrow> list_all (\<lambda>r. length r = k) (rows_of k m xs)"
proof -
  assume a: "length xs = m * k"
  have "length (take k (drop (r * k) xs)) = k" if "r < m" for r
  proof -
    have "Suc r * k \<le> m * k" using that by (intro mult_le_mono1) simp
    then show ?thesis using a by simp
  qed
  then show ?thesis by (auto simp: rows_of_def list_all_iff)
qed

lemma concat_rows_of: "length xs = m * k \<Longrightarrow> concat (rows_of k m xs) = xs"
proof (induction m arbitrary: xs)
  case 0
  then show ?case by (simp add: rows_of_def)
next
  case (Suc m)
  have "length (take k xs) = 1 * k" using Suc.prems by simp
  from rows_of_append [OF this, of m "drop k xs"]
  have "rows_of k (Suc m) xs = rows_of k 1 (take k xs) @ rows_of k m (drop k xs)" by simp
  moreover have "concat (rows_of k m (drop k xs)) = drop k xs" using Suc by simp
  moreover have "rows_of k 1 (take k xs) = [take k xs]" by (simp add: rows_of_def)
  ultimately show ?case by simp
qed

lemma tensor_rows_mat [simp]: "tensor_rows (mat dev k m xs) = Some (rows_of k m xs)"
  by (simp add: tensor_rows_def ndim_def)

lemma rows_tensor_Some:
  "rows_tensor dev k rows = Some t \<longleftrightarrow>
     list_all (\<lambda>r. length r = k) rows \<and> t = mat dev k (length rows) (concat rows)"
  by (auto simp: rows_tensor_def)

lemma on_rows_Some:
  assumes "row_op dev k dev' n f" and "on_rows dev k f rows = Some out"
  shows "\<exists>ys. list_all (\<lambda>r. length r = k) rows \<and>
            f (mat dev k (length rows) (concat rows)) = Some (mat dev' n (length rows) ys) \<and>
            length ys = length rows * n \<and> out = rows_of n (length rows) ys"
proof -
  from assms(2) obtain t where l: "list_all (\<lambda>r. length r = k) rows"
    and f: "f (mat dev k (length rows) (concat rows)) = Some t" and o: "tensor_rows t = Some out"
    by (auto simp: on_rows_def Option.bind_eq_Some_conv rows_tensor_Some)
  from row_op_result [OF assms(1) concat_rows_length [OF l] f] l f o show ?thesis by auto
qed

lemma rowwise_on_rows:
  assumes f: "row_op dev k dev' n f"
  shows "rowwise (on_rows dev k f)"
proof (rule rowwiseI, goal_cases)
  case (1 xs z)
  from on_rows_Some [OF f 1] show ?case by auto
next
  case (2 xs ys z)
  from on_rows_Some [OF f 2(3)] obtain w where l: "list_all (\<lambda>r. length r = k) (xs @ ys)"
    and w: "f (mat dev k (length xs + length ys) (concat xs @ concat ys)) = Some (mat dev' n (length xs + length ys) w)"
    and z: "z = rows_of n (length xs + length ys) w" by auto
  from row_op_split [OF f w] l 2(1,2) obtain u v where
    "f (mat dev k (length xs) (concat xs)) = Some (mat dev' n (length xs) u)"
    "f (mat dev k (length ys) (concat ys)) = Some (mat dev' n (length ys) v)"
    "w = u @ v" "length u = length xs * n" by (auto simp: concat_rows_length mat_inject)
  with l z show ?case
    by (auto simp: on_rows_def Option.bind_eq_Some_conv rows_tensor_Some rows_of_append)
qed

lemma on_rows2_Some:
  assumes "row_op2 dev k n f" and "on_rows2 dev k f xs xs' = Some out" and "length xs' = length xs"
  shows "\<exists>ys. list_all (\<lambda>r. length r = k) xs \<and> list_all (\<lambda>r. length r = k) xs' \<and>
            f (mat dev k (length xs) (concat xs)) (mat dev k (length xs) (concat xs')) =
              Some (mat dev n (length xs) ys) \<and>
            length ys = length xs * n \<and> out = rows_of n (length xs) ys"
proof -
  from assms(2,3) obtain t where l: "list_all (\<lambda>r. length r = k) xs" "list_all (\<lambda>r. length r = k) xs'"
    and f: "f (mat dev k (length xs) (concat xs)) (mat dev k (length xs) (concat xs')) = Some t"
    and o: "tensor_rows t = Some out"
    by (auto simp: on_rows2_def Option.bind_eq_Some_conv rows_tensor_Some)
  have "length (concat xs') = length xs * k" using concat_rows_length [OF l(2)] assms(3) by simp
  from row_op2_result [OF assms(1) concat_rows_length [OF l(1)] this f] l f o show ?thesis by auto
qed

lemma rowwise2_on_rows:
  assumes f: "row_op2 dev k n f"
  shows "rowwise2 (on_rows2 dev k f)"
  unfolding rowwise2_def
proof (intro conjI allI impI, goal_cases)
  case (1 xs xs' z)
  from on_rows2_Some [OF f 1(2,1)] show ?case by auto
next
  case (2 xs ys xs' ys' z)
  have len: "length (xs' @ ys') = length (xs @ ys)" using 2 by simp
  from on_rows2_Some [OF f 2(5) len] obtain w where
    l: "list_all (\<lambda>r. length r = k) (xs @ ys)" "list_all (\<lambda>r. length r = k) (xs' @ ys')"
    and w: "f (mat dev k (length xs + length ys) (concat xs @ concat ys))
              (mat dev k (length xs + length ys) (concat xs' @ concat ys')) = Some (mat dev n (length xs + length ys) w)"
    and z: "z = rows_of n (length xs + length ys) w" by auto
  from row_op2_split [OF f w] l 2(1-4) obtain u v where
    "f (mat dev k (length xs) (concat xs)) (mat dev k (length xs) (concat xs')) = Some (mat dev n (length xs) u)"
    "f (mat dev k (length ys) (concat ys)) (mat dev k (length ys) (concat ys')) = Some (mat dev n (length ys) v)"
    "w = u @ v" "length u = length xs * n" by (auto simp: concat_rows_length mat_inject)
  with l z 2(3,4) show ?case
    by (auto simp: on_rows2_def Option.bind_eq_Some_conv rows_tensor_Some rows_of_append)
qed

section \<open>Operators with a cache\<close>

text \<open>\<open>f\<close> maps a matrix of rows and a cache in \<open>G\<close> to a matrix with as many rows and a cache in
  \<open>G\<close>; the upper rows are those of a run over the upper rows, and the lower rows those of a run
  that goes on with the cache the first one left.\<close>

definition state_op ::
  "('c \<Rightarrow> bool) \<Rightarrow> device \<Rightarrow> nat \<Rightarrow> device \<Rightarrow> nat \<Rightarrow> ('f tensor \<Rightarrow> 'c \<Rightarrow> 'f tensor option \<times> 'c) \<Rightarrow> bool" where
  "state_op G dev k dev' n f \<longleftrightarrow>
     (\<forall>m xs c z c'. G c \<longrightarrow> length xs = m * k \<longrightarrow> f (mat dev k m xs) c = (Some z, c') \<longrightarrow>
        (\<exists>ys. z = mat dev' n m ys \<and> length ys = m * n) \<and> G c') \<and>
     (\<forall>m1 m2 xs ys c z c'. G c \<longrightarrow> length xs = m1 * k \<longrightarrow> length ys = m2 * k \<longrightarrow> 0 < m1 \<longrightarrow> 0 < m2 \<longrightarrow>
        f (mat dev k (m1 + m2) (xs @ ys)) c = (Some z, c') \<longrightarrow>
        (\<exists>u c1 v. f (mat dev k m1 xs) c = (Some (mat dev' n m1 u), c1) \<and>
           f (mat dev k m2 ys) c1 = (Some (mat dev' n m2 v), c') \<and>
           z = mat dev' n (m1 + m2) (u @ v) \<and> length u = m1 * n \<and> length v = m2 * n))"

lemma state_op_result:
  "state_op G dev k dev' n f \<Longrightarrow> G c \<Longrightarrow> length xs = m * k \<Longrightarrow> f (mat dev k m xs) c = (Some z, c') \<Longrightarrow>
     (\<exists>ys. z = mat dev' n m ys \<and> length ys = m * n) \<and> G c'"
  unfolding state_op_def by blast

lemma state_op_split:
  "state_op G dev k dev' n f \<Longrightarrow> f (mat dev k (m1 + m2) (xs @ ys)) c = (Some z, c') \<Longrightarrow> G c \<Longrightarrow>
     length xs = m1 * k \<Longrightarrow> length ys = m2 * k \<Longrightarrow> 0 < m1 \<Longrightarrow> 0 < m2 \<Longrightarrow>
     \<exists>u c1 v. f (mat dev k m1 xs) c = (Some (mat dev' n m1 u), c1) \<and>
       f (mat dev k m2 ys) c1 = (Some (mat dev' n m2 v), c') \<and>
       z = mat dev' n (m1 + m2) (u @ v) \<and> length u = m1 * n \<and> length v = m2 * n"
  unfolding state_op_def by blast

lemma causal_mixer_on_rows:
  assumes f: "state_op G dev k dev' n f"
  shows "causal_mixer G (on_rows_state dev k f)"
proof -
  have run: "on_rows_state dev k f xs c = (Some z, c') \<longleftrightarrow> list_all (\<lambda>r. length r = k) xs \<and>
      (\<exists>ys. f (mat dev k (length xs) (concat xs)) c = (Some (mat dev' n (length xs) ys), c') \<and>
        z = rows_of n (length xs) ys)" if G: "G c" for xs c z c'
  proof
    assume "on_rows_state dev k f xs c = (Some z, c')"
    then obtain t where l: "list_all (\<lambda>r. length r = k) xs" and t: "f (mat dev k (length xs) (concat xs)) c = (Some t, c')"
      and z: "tensor_rows t = Some z"
      by (auto simp: on_rows_state_def rows_tensor_Some Option.bind_eq_Some_conv split: option.splits prod.splits)
    from state_op_result [OF f G concat_rows_length [OF l] t] l t z
    show "list_all (\<lambda>r. length r = k) xs \<and>
      (\<exists>ys. f (mat dev k (length xs) (concat xs)) c = (Some (mat dev' n (length xs) ys), c') \<and>
        z = rows_of n (length xs) ys)" by auto
  qed (auto simp: on_rows_state_def rows_tensor_def)
  show ?thesis
    unfolding causal_mixer_def
  proof (intro conjI allI impI, goal_cases)
    case (1 xs c z c')
    then show ?case by (auto simp: run)
  next
    case (2 xs c z c')
    then obtain ys where "list_all (\<lambda>r. length r = k) xs"
        "f (mat dev k (length xs) (concat xs)) c = (Some (mat dev' n (length xs) ys), c')" by (auto simp: run)
    with state_op_result [OF f 2(1) concat_rows_length] show ?case by blast
  next
    case (3 xs ys c z c')
    from 3(4) [unfolded run [OF 3(1)]] obtain w where l: "list_all (\<lambda>r. length r = k) (xs @ ys)"
      and w: "f (mat dev k (length xs + length ys) (concat xs @ concat ys)) c =
                (Some (mat dev' n (length xs + length ys) w), c')"
      and z: "z = rows_of n (length xs + length ys) w" by auto
    have lx: "length (concat xs) = length xs * k" "length (concat ys) = length ys * k"
      using l by (simp_all add: concat_rows_length)
    have pos: "0 < length xs" "0 < length ys" using 3(2,3) by simp_all
    from state_op_split [OF f w 3(1) lx pos] obtain u c1 v where
      uv: "f (mat dev k (length xs) (concat xs)) c = (Some (mat dev' n (length xs) u), c1)"
      "f (mat dev k (length ys) (concat ys)) c1 = (Some (mat dev' n (length ys) v), c')"
      "mat dev' n (length xs + length ys) w = mat dev' n (length xs + length ys) (u @ v)"
      "length u = length xs * n" by blast
    have G1: "G c1" using state_op_result [OF f 3(1) lx(1) uv(1)] by blast
    have "z = rows_of n (length xs) u @ rows_of n (length ys) v"
      using z uv(3,4) by (simp add: rows_of_append)
    moreover have "on_rows_state dev k f xs c = (Some (rows_of n (length xs) u), c1)"
      unfolding run [OF 3(1)] using uv l by auto
    moreover have "on_rows_state dev k f ys c1 = (Some (rows_of n (length ys) v), c')"
      unfolding run [OF G1] using uv l by auto
    ultimately show ?case by blast
  qed
qed

end
