(* ===== verification/Hip_Machine.thy ===== *)
theory Hip_Machine
  imports Row_Laws
begin

text \<open>
  The machine the engine runs on: GPUs with the HIP backend. The locale \<open>hip_machine\<close>
  says what is taken of the parts outside the program: an allocator that grants every
  smaller request too, a rocBLAS product that computes every row of its result from the
  same row of its left operand, and kernels for one token that launch when the general ones do. Under it the row-wise operators of the engine are
  row operators, and the copies of the caches are exact.
\<close>

text \<open>The width of the result of a projection.\<close>

definition out_width :: "'f tensor \<Rightarrow> nat" where
  "out_width w = nat (t_shape w ! 0)"

locale hip_machine =
  fixes F :: "'f fops" and reg :: "'f backends" and Env :: "device \<Rightarrow> 'f hip_env"
  assumes reg_hip: "\<And>d. is_gpu d \<Longrightarrow> reg d = Some (hip_backend (Env d))"
    and env_device: "\<And>d. is_gpu d \<Longrightarrow> he_device (Env d) = d"
    and env_fops: "\<And>d. he_fops (Env d) = F"
    and alloc_less: "\<And>d n n' m. he_create (Env d) n m \<Longrightarrow> n' \<le> n \<Longrightarrow> he_create (Env d) n' m"
    and gemm_rows: "\<And>d m1 m2 n k A B W C z.
          he_rocblas (Env d) (BF16, BF16, BF16, FP32) False True (m1 + m2) n k (f_one F) (f_zero F)
            (A @ B) W C = Some z \<Longrightarrow>
          length A = m1 * k \<Longrightarrow> length B = m2 * k \<Longrightarrow> 0 < m1 \<Longrightarrow> 0 < m2 \<Longrightarrow>
          \<exists>u v. z = u @ v \<and>
            (\<forall>C'. he_rocblas (Env d) (BF16, BF16, BF16, FP32) False True m1 n k (f_one F) (f_zero F)
                     A W C' = Some u) \<and>
            (\<forall>C'. he_rocblas (Env d) (BF16, BF16, BF16, FP32) False True m2 n k (f_one F) (f_zero F)
                     B W C' = Some v)"
    and gemm_result: "\<And>d m n k A W C z.
          he_rocblas (Env d) (BF16, BF16, BF16, FP32) False True m n k (f_one F) (f_zero F) A W C = Some z \<Longrightarrow>
          length z = m * n \<and> (\<forall>x \<in> set z. stored F BF16 x)"
    and decode_launch: "\<And>d. he_launch (Env d) ''launch KV cache append kernel'' \<Longrightarrow>
          he_launch (Env d) ''launch cached GQA kernel'' \<Longrightarrow>
          he_launch (Env d) ''launch fused cached GQA current-token kernel''"
    and delta_launch: "\<And>d. he_launch (Env d) ''launch grouped DeltaNet conv kernel'' \<Longrightarrow>
          he_launch (Env d) ''launch DeltaNet grouped conv decode kernel''"
      "\<And>d. he_launch (Env d) ''launch DeltaNet recurrent kernel'' \<Longrightarrow>
          he_launch (Env d) ''launch DeltaNet decode128 kernel''"
    and storing: "store_idem F"
begin

lemma hip_env [simp]:
  "is_gpu d \<Longrightarrow> reg d = Some (hip_backend (Env d))"
  "is_gpu d \<Longrightarrow> he_device (Env d) = d"
  "he_fops (Env d) = F"
  by (simp_all add: reg_hip env_device env_fops)

definition alloc :: "device \<Rightarrow> nat \<Rightarrow> bool" where
  "alloc dev n \<longleftrightarrow> he_select (Env dev) \<and> he_create (Env dev) n DeviceMem"

lemma alloc_mono: "alloc dev n \<Longrightarrow> n' \<le> n \<Longrightarrow> alloc dev n'"
  using alloc_less by (auto simp: alloc_def)

lemma alloc_parts:
  "alloc dev ((m1 + m2) * w) \<Longrightarrow> alloc dev (m1 * w)" "alloc dev ((m1 + m2) * w) \<Longrightarrow> alloc dev (m2 * w)"
  by (erule alloc_mono, simp)+

definition fresh :: "device \<Rightarrow> nat \<Rightarrow> nat \<Rightarrow> 'f buffer" where
  "fresh dev w n = gpu_buffer dev w (replicate n (he_junk (Env dev)))"

lemma fresh_simps [simp]:
  "bf_device (fresh dev w n) = dev" "bf_mem (fresh dev w n) = DeviceMem" "bf_width (fresh dev w n) = w"
  "length (bf_data (fresh dev w n)) = n" "bf_size (fresh dev w n) = w * n"
  by (simp_all add: fresh_def bf_size_def)

lemma create_fresh:
  "is_gpu dev \<Longrightarrow> create_buffer (hip_backend (Env dev)) c d DeviceMem =
     (if 0 \<le> c \<and> alloc dev (nat c * SizeOfDType d) then Some (fresh dev (SizeOfDType d) (nat c)) else None)"
  by (auto simp: create_buffer_def alloc_def fresh_def)

lemma write_fresh: "length xs = n \<Longrightarrow> write_prefix xs (fresh dev w n) = gpu_buffer dev w xs"
  by (simp add: write_prefix_def fresh_def)

definition fits :: "device \<Rightarrow> 'f buffer \<times> nat \<times> string \<Rightarrow> bool" where
  "fits dev = (\<lambda>(b, n, name). device_eq (bf_device b) dev \<and> n \<le> bf_size b)"

lemma fits_simp [simp]: "fits dev (b, n, name) \<longleftrightarrow> device_eq (bf_device b) dev \<and> n \<le> bf_size b"
  by (simp add: fits_def)

lemma valid_buffers:
  "is_gpu dev \<Longrightarrow> validate_kernel_buffers (Env dev) bs = Inr () \<longleftrightarrow> list_all (fits dev) bs"
proof (induction bs)
  case Nil
  then show ?case by simp
next
  case (Cons b bs)
  obtain b' n name where "b = (b', n, name)" by (cases b)
  with Cons show ?case by (auto simp: validate_kernel_buffer_def and_then_def fails_def not_less)
qed

lemma launch_Some:
  assumes "is_gpu dev"
  shows "launch_frame (Env dev) bs aok amsg dok dmsg name x = Inr y \<longleftrightarrow>
     list_all (fits dev) bs \<and> he_select (Env dev) \<and> aok \<and> dok \<and> he_launch (Env dev) name \<and> y = x"
  unfolding valid_buffers [OF assms, symmetric]
  by (auto simp: launch_frame_def and_then_Inr select_device_def hip_status_def)

section \<open>Moving, normalising, adding\<close>

definition moved_to :: "device \<Rightarrow> device \<Rightarrow> device" where
  "moved_to source target = (if device_eq source target then source else target)"

lemma to_device_row_op:
  assumes "is_gpu target"
  shows "row_op source k (moved_to source target) k (\<lambda>t. to_device reg t target)"
proof (cases "device_eq source target")
  case True
  then show ?thesis
    by (intro row_opI [where ok = "\<lambda>_. True" and g = "\<lambda>_ xs. xs"]) (auto simp: to_device_def moved_to_def)
next
  case False
  have c: "\<not> is_cpu target" using assms by (simp add: is_gpu_not_cpu)
  show ?thesis
  proof (rule row_opI [where g = "\<lambda>_ xs. xs" and
          ok = "\<lambda>m. alloc target (m * (k * 2)) \<and> he_memcpy (Env target) \<and> he_sync (Env target)"],
      goal_cases)
    case (1 m xs z)
    with False c assms show ?case
      by (auto simp: to_device_def moved_to_def mat_def t_nbytes_def hip_copy_def hip_synchronize_def
          select_device_def create_fresh alloc_def fresh_def write_prefix_def algebra_simps nat_mult_distrib
          split: option.splits sum.splits if_splits)
  qed (auto dest: alloc_parts)
qed

lemma rmsnorm_row_op:
  assumes gpu: "is_gpu dev"
  shows "row_op dev k dev k (\<lambda>t. qwen_rmsnorm_reference F reg t w dev eps)"
proof (rule row_opI [where g = "\<lambda>m xs. rmsnorm_kernel F BF16 xs (t_data w) m k eps True" and
      ok = "\<lambda>m. t_dtype w = BF16 \<and> t_shape w = [int k] \<and> device_eq (t_device w) dev \<and>
        device_eq (bf_device (t_buffer w)) dev \<and> k * 2 \<le> bf_size (t_buffer w) \<and> alloc dev (m * (k * 2)) \<and>
        he_launch (Env dev) ''launch RMSNorm kernel''"], goal_cases)
  case (1 m xs z)
  have sh: "ndim (t_shape w) = Suc 0 \<and> t_shape w ! 0 = int k \<longleftrightarrow> t_shape w = [int k]"
    by (auto simp: ndim_def length_Suc_conv)
  have "device_eq dev (t_device w) \<longleftrightarrow> device_eq (t_device w) dev" by (auto simp: device_eq_def)
  with 1 gpu sh show ?case
    by (auto simp: qwen_rmsnorm_reference_def rmsnorm_forward_def rmsnorm_validate_def create_fresh
        hip_rmsnorm_def Let_def launch_Some write_fresh leading_rows_def ndim_def nat_mult_distrib alloc_def
        bf_size_def [of "gpu_buffer dev 2 xs"] float_kernel_dtype_def t_data_def mat_def t_numel_def
        algebra_simps split: option.splits sum.splits if_splits)
next
  case (4 m1 m2 xs ys)
  then show ?case by (simp only: rmsnorm_kernel_append)
qed (auto dest: alloc_parts)

lemma residual_row_op:
  assumes gpu: "is_gpu dev"
  shows "row_op2 dev k k (\<lambda>s t. make_residual F reg s t dev)"
proof (rule row_op2I [where g = "\<lambda>m xs ys. add_kernel F BF16 xs ys (m * k)" and
      ok = "\<lambda>m. alloc dev (m * (k * 2)) \<and> he_launch (Env dev) ''launch add kernel''"], goal_cases)
  case (1 m xs xs' z)
  with gpu show ?case
    by (auto simp: make_residual_def create_fresh hip_add_def Let_def launch_Some write_fresh
        nat_mult_distrib alloc_def bf_size_def [of "gpu_buffer dev 2 _"] float_kernel_dtype_def mat_def
        t_numel_def algebra_simps split: option.splits sum.splits if_splits)
next
  case (4 m1 m2 xs ys xs' ys')
  then show ?case by (simp add: add_mult_distrib add_kernel_append)
qed (auto dest: alloc_parts)

section \<open>Linear\<close>

definition linear_ok :: "device \<Rightarrow> nat \<Rightarrow> nat \<Rightarrow> 'f tensor \<Rightarrow> bool" where
  "linear_ok dev k n w \<longleftrightarrow> t_shape w = [int n, int k] \<and> t_dtype w = BF16 \<and> device_eq dev (t_device w) \<and>
     device_eq (bf_device (t_buffer w)) dev \<and> n * (k * 2) \<le> bf_size (t_buffer w) \<and>
     0 < n \<and> 0 < k \<and> he_select (Env dev) \<and> he_rocblas_handle (Env dev)"

abbreviation product :: "device \<Rightarrow> nat \<Rightarrow> nat \<Rightarrow> nat \<Rightarrow> 'f tensor \<Rightarrow> 'f list \<Rightarrow> 'f list \<Rightarrow> 'f list option" where
  "product dev m n k w xs c \<equiv> he_rocblas (Env dev) (BF16, BF16, BF16, FP32) False True m n k
     (f_one F) (f_zero F) xs (t_data w) c"

lemma linear_Some:
  assumes gpu: "is_gpu dev" and len: "length xs = m * k"
  shows "linear_forward F reg (mat dev k m xs) w True None = Some z \<longleftrightarrow>
     (\<exists>n out. linear_ok dev k n w \<and> 0 < m \<and> alloc dev (m * (n * 2)) \<and>
        product dev m n k w xs (replicate (m * n) (he_junk (Env dev))) = Some out \<and> z = mat dev n m out)"
    (is "?l \<longleftrightarrow> ?r")
proof
  assume l: ?l
  then have v: "linear_validate (mat dev k m xs) w True None = Inr ()"
    by (auto simp: linear_forward_def split: sum.splits)
  then obtain a b where sh: "t_shape w = [a, b]" and b: "b = int k" and dt: "t_dtype w = BF16"
    and dev: "device_eq dev (t_device w)"
    by (auto simp: linear_validate_def and_then_Inr linear_output_shape_def ndim_def Let_def numeral_2_eq_2
        length_Suc_conv split: if_splits)
  have s: "linear_output_shape [int m, int k] (t_shape w) True = Inr [int m, a]"
    by (simp add: linear_output_shape_def ndim_def sh b)
  from l v s gpu have c: "0 \<le> int m * a" "alloc dev (nat (int m * a) * 2)"
    and f: "linear_forward_into F reg (mat dev k m xs) w (fresh dev 2 (nat (int m * a))) True None = Some z"
    by (auto simp: linear_forward_def create_fresh split: if_splits)
  from f v s gpu obtain o' where
    g: "hip_gemm (Env dev) (fresh dev 2 (nat (int m * a))) (gpu_buffer dev 2 xs) (t_buffer w)
          (BF16, BF16, BF16, FP32) False True (int m) a (int k) (f_one F) (f_zero F) = Inr o'"
    and z: "z = mk_tensor [int m, a] BF16 dev o'"
    by (auto simp: linear_forward_into_def sh dt Let_def split: if_splits sum.splits)
  from g have pos: "0 < m" "0 < a" "0 < k"
    by (auto simp: hip_gemm_def and_then_Inr split: if_splits)
  then obtain n where n: "a = int n" "0 < n" by (metis zero_less_imp_eq_int)
  have nm: "nat (int m * a) = m * n" "nat (a * int k) = n * k" "nat (int m * int k) = m * k"
    using n by (simp_all add: nat_mult_distrib)
  have al: "alloc dev (m * (n * 2))" using c(2) unfolding nm(1) mult.assoc .
  from g gpu n pos obtain out where
    "product dev m n k w xs (replicate (m * n) (he_junk (Env dev))) = Some out"
    "o' = write_prefix out (fresh dev 2 (m * n))" "he_select (Env dev)" "he_rocblas_handle (Env dev)"
    "device_eq (bf_device (t_buffer w)) dev" "n * (k * 2) \<le> bf_size (t_buffer w)"
    unfolding nm
    by (auto simp: hip_gemm_def and_then_Inr select_device_def t_data_def fresh_def nat_mult_distrib
        split: if_splits option.splits)
  moreover from this(1) have "length out = m * n" using gemm_result by blast
  ultimately show ?r using n pos z al sh b dt dev
    by (auto simp: linear_ok_def nm write_fresh mat_def)
next
  assume ?r
  then obtain n out where ok: "linear_ok dev k n w" and m: "0 < m" and al: "alloc dev (m * (n * 2))"
    and p: "product dev m n k w xs (replicate (m * n) (he_junk (Env dev))) = Some out"
    and z: "z = mat dev n m out" by blast
  have sh: "t_shape w = [int n, int k]" "t_dtype w = BF16" "device_eq dev (t_device w)"
    using ok by (simp_all add: linear_ok_def)
  have v: "linear_validate (mat dev k m xs) w True None = Inr ()"
    by (simp add: linear_validate_def linear_output_shape_def ndim_def sh)
  have nm: "nat (int m * int n) = m * n" "nat (int n * int k) = n * k" "nat (int m * int k) = m * k"
    by (simp_all add: nat_mult_distrib)
  have out: "length out = m * n" using gemm_result [OF p] by blast
  have "hip_gemm (Env dev) (fresh dev 2 (m * n)) (gpu_buffer dev 2 xs) (t_buffer w)
          (BF16, BF16, BF16, FP32) False True (int m) (int n) (int k) (f_one F) (f_zero F) =
          Inr (gpu_buffer dev 2 out)"
    using ok m p gpu len
    by (simp add: hip_gemm_def select_device_def linear_ok_def nm bf_size_def [of "gpu_buffer dev 2 xs"]
        rocblas_dtype_def write_fresh out fresh_def [of dev 2 "m * n", THEN arg_cong, of bf_data]
        t_data_def [symmetric] algebra_simps nat_mult_distrib del: fresh_simps(4))
  then have "linear_forward_into F reg (mat dev k m xs) w (fresh dev 2 (m * n)) True None = Some z"
    using gpu v by (simp add: linear_forward_into_def linear_output_shape_def ndim_def sh z mat_def nm)
  then show ?l using gpu v al
    by (simp add: linear_forward_def linear_output_shape_def ndim_def sh create_fresh nm algebra_simps)
qed

lemma linear_row_op:
  assumes gpu: "is_gpu dev"
  shows "row_op dev k dev (out_width w) (\<lambda>t. linear_forward F reg t w True None)"
proof -
  let ?n = "out_width w"
  have n: "linear_ok dev k n' w \<Longrightarrow> n' = ?n" for n' by (simp add: linear_ok_def out_width_def)
  show ?thesis
    unfolding row_op_def
  proof (intro conjI allI impI, goal_cases)
    case (1 m xs z)
    from 1(2) [unfolded linear_Some [OF gpu 1(1)]] n gemm_result show ?case by blast
  next
    case (2 m1 m2 xs ys z)
    have len: "length (xs @ ys) = (m1 + m2) * k" using 2 by (simp add: add_mult_distrib)
    from 2(5) [unfolded linear_Some [OF gpu len]] n obtain out where
      ok: "linear_ok dev k ?n w" and al: "alloc dev ((m1 + m2) * (?n * 2))"
      and p: "product dev (m1 + m2) ?n k w (xs @ ys) (replicate ((m1 + m2) * ?n) (he_junk (Env dev))) = Some out"
      and z: "z = mat dev ?n (m1 + m2) out" by metis
    from gemm_rows [OF p 2(1-4)] obtain u v where uv: "out = u @ v"
      "\<And>C'. product dev m1 ?n k w xs C' = Some u" "\<And>C'. product dev m2 ?n k w ys C' = Some v" by blast
    have "length u = m1 * ?n" "length v = m2 * ?n" using uv(2,3) gemm_result by blast+
    moreover have "linear_forward F reg (mat dev k m1 xs) w True None = Some (mat dev ?n m1 u)"
      unfolding linear_Some [OF gpu 2(1)] using ok alloc_parts(1) [OF al] uv(2) 2(3) by blast
    moreover have "linear_forward F reg (mat dev k m2 ys) w True None = Some (mat dev ?n m2 v)"
      unfolding linear_Some [OF gpu 2(2)] using ok alloc_parts(2) [OF al] uv(3) 2(4) by blast
    ultimately show ?case using z uv(1) by blast
  qed
qed

lemma linear_result:
  assumes gpu: "is_gpu dev" and len: "length xs = m * k"
    and l: "linear_forward F reg (mat dev k m xs) w True None = Some z"
  shows "\<exists>out. z = mat dev (out_width w) m out \<and> length out = m * out_width w \<and>
           (\<forall>x \<in> set out. stored F BF16 x) \<and> t_shape w = [int (out_width w), int k] \<and> 0 < m"
proof -
  from l [unfolded linear_Some [OF gpu len]] obtain n out where ok: "linear_ok dev k n w" "0 < m"
    and p: "product dev m n k w xs (replicate (m * n) (he_junk (Env dev))) = Some out"
    and z: "z = mat dev n m out" by blast
  from ok have "out_width w = n" by (simp add: linear_ok_def out_width_def)
  with gemm_result [OF p] z ok show ?thesis by (auto simp: linear_ok_def)
qed

section \<open>The MLP\<close>

lemma silu_row_op2:
  assumes gpu: "is_gpu dev"
  shows "row_op2 dev n n (\<lambda>gate up. map_option (\<lambda>b. gate\<lparr>t_buffer := b\<rparr>) (from_result
     (bk_silu_mul (hip_backend (Env dev)) (t_buffer gate) (t_buffer gate) (t_buffer up) (t_dtype gate)
        (t_numel gate))))"
proof (rule row_op2I [where g = "\<lambda>m xs ys. silu_mul_kernel F BF16 xs ys (m * n)" and
      ok = "\<lambda>m. he_select (Env dev) \<and> he_launch (Env dev) ''launch fused SiLU multiply kernel''"], goal_cases)
  case (1 m xs xs' z)
  have w: "write_prefix ys (gpu_buffer dev 2 xs) = gpu_buffer dev 2 ys" if "length ys = length xs" for ys
    using that by (simp add: write_prefix_def)
  from 1 gpu show ?case
    by (auto simp: hip_silu_mul_def Let_def launch_Some w bf_size_def float_kernel_dtype_def mat_def
        mk_tensor_def t_numel_def nat_mult_distrib algebra_simps)
next
  case (4 m1 m2 xs ys xs' ys')
  then show ?case by (simp add: add_mult_distrib silu_mul_kernel_append)
qed auto

lemma mlp_row_op:
  assumes gpu: "is_gpu dev" and same: "out_width (lw_mlp_gate_proj W) = out_width (lw_mlp_up_proj W)"
  shows "row_op dev k dev (out_width (lw_mlp_down_proj W)) (\<lambda>t. qwen_mlp_reference F reg t W dev)"
proof -
  let ?gate = "\<lambda>t. linear_forward F reg t (lw_mlp_gate_proj W) True None"
  let ?up = "\<lambda>t. linear_forward F reg t (lw_mlp_up_proj W) True None"
  let ?down = "\<lambda>t. linear_forward F reg t (lw_mlp_down_proj W) True None"
  let ?silu = "\<lambda>gate up. map_option (\<lambda>b. gate\<lparr>t_buffer := b\<rparr>) (from_result
     (bk_silu_mul (hip_backend (Env dev)) (t_buffer gate) (t_buffer gate) (t_buffer up) (t_dtype gate)
        (t_numel gate)))"
  let ?act = "\<lambda>t. case (?gate t, ?up t) of (Some gate, Some up) \<Rightarrow> ?silu gate up | _ \<Rightarrow> None"
  let ?n = "out_width (lw_mlp_gate_proj W)"
  have "row_op dev k dev ?n ?act"
    by (rule row_op_pair [OF linear_row_op [OF gpu] _ silu_row_op2 [OF gpu]])
       (simp only: same linear_row_op [OF gpu])
  from row_op_bind [OF this linear_row_op [OF gpu, of ?n "lw_mlp_down_proj W"]]
  have r: "row_op dev k dev (out_width (lw_mlp_down_proj W)) (\<lambda>t. Option.bind (?act t) ?down)" .
  have eq: "qwen_mlp_reference F reg (mat dev k m xs) W dev =
       (if BF16 = t_dtype (lw_mlp_gate_proj W) then Option.bind (?act (mat dev k m xs)) ?down else None)" for m xs
    using gpu by (auto simp: qwen_mlp_reference_def split: option.splits)
  show ?thesis
    using r unfolding row_op_def eq by (cases "BF16 = t_dtype (lw_mlp_gate_proj W)") simp_all
qed

section \<open>Embedding\<close>

lemma embedding_rows:
  assumes gpu: "is_gpu dev" and e: "lookup_embedding reg emb ids dev = Inr t" and w: "t_shape emb ! 1 = int k"
  shows "t = mat dev k (length ids) (embedding_gather_kernel F (t_data emb) ids (length ids) (t_shape emb ! 0) k)"
  using e gpu w
  by (auto simp: lookup_embedding_def Let_def hip_embedding_gather_def launch_Some create_fresh write_fresh and_then_Inr
      nat_mult_distrib mat_def t_data_def split: if_splits option.splits sum.splits failure.splits)

end

end
