(* ===== verification/Hip_Attention.thy ===== *)
theory Hip_Attention
  imports Hip_Machine
begin

text \<open>
  The attention operator is causal on the GPU: attending a chunk of rows over a cache gives
  the rows and the cache of attending its two parts in turn, whichever kernels the parts
  take. The invariant \<open>kv_wf\<close> of the cache says what the operator keeps and what
  \<open>clone\<close> reproduces.
\<close>

lemma both_Some:
  "(case (a, b) of (Some x, Some y) \<Rightarrow> f x y | _ \<Rightarrow> None) = Some z \<longleftrightarrow>
     (\<exists>x y. a = Some x \<and> b = Some y \<and> f x y = Some z)"
  by (cases a; cases b) auto

lemma option_if: "(\<And>z. x = Some z \<longleftrightarrow> c \<and> z = y) \<Longrightarrow> x = (if c then Some y else None)"
  by (cases x) auto

section \<open>The cache invariant\<close>

definition kvc :: "device \<Rightarrow> shape \<Rightarrow> 'f list \<Rightarrow> 'f list \<Rightarrow> nat \<Rightarrow> int \<Rightarrow> 'f attention_cache" where
  "kvc dev s K V L cap =
     \<lparr>kv_key = Some (mk_tensor s BF16 dev (gpu_buffer dev 2 K)),
      kv_value = Some (mk_tensor s BF16 dev (gpu_buffer dev 2 V)), kv_length = int L, kv_capacity = cap\<rparr>"

definition kv_wf :: "'f attention_cache \<Rightarrow> bool" where
  "kv_wf c \<longleftrightarrow> c = kv_empty \<or>
     (\<exists>dev s K V L cap. is_gpu dev \<and> c = kvc dev s K V L cap \<and>
        length K = nat (numel s) \<and> length V = nat (numel s))"

lemma kvc_simps [simp]:
  "kv_key (kvc dev s K V L cap) = Some (mk_tensor s BF16 dev (gpu_buffer dev 2 K))"
  "kv_value (kvc dev s K V L cap) = Some (mk_tensor s BF16 dev (gpu_buffer dev 2 V))"
  "kv_length (kvc dev s K V L cap) = int L"
  "kv_capacity (kvc dev s K V L cap) = cap"
  by (simp_all add: kvc_def)

lemma kv_wf_empty [simp]: "kv_wf kv_empty"
  by (simp add: kv_wf_def)

lemma kv_wf_shape: "kv_wf c \<Longrightarrow> kv_initialized c \<or> c = kv_empty"
  by (auto simp: kv_wf_def kv_initialized_def)

section \<open>The arguments\<close>

definition sized_args :: "'f attention_args \<Rightarrow> nat \<Rightarrow> nat \<Rightarrow> nat \<Rightarrow> nat \<Rightarrow> bool" where
  "sized_args A nq nkv hdim rhd \<longleftrightarrow>
     aa_num_q_heads A = int nq \<and> aa_num_kv_heads A = int nkv \<and> aa_head_dim A = int hdim \<and>
     aa_rope_head_dim A = int rhd \<and> 0 < nq \<and> 0 < nkv \<and> 0 < hdim \<and> 0 < rhd \<and> nq mod nkv = 0 \<and>
     rhd mod 2 = 0 \<and> rhd \<le> hdim \<and> t_shape (aa_wk A) ! 0 = int (nkv * hdim) \<and>
     t_shape (aa_wv A) ! 0 = int (nkv * hdim) \<and> t_shape (aa_wo A) ! 1 = int (nq * hdim) \<and>
     (t_shape (aa_wq A) ! 0 = int (nq * hdim) \<or> t_shape (aa_wq A) ! 0 = int (2 * nq * hdim))"

lemma validate_sizes:
  assumes "attention_validate (mat dev k m xs) A = Inr ()"
  shows "\<exists>nq nkv hdim rhd. sized_args A nq nkv hdim rhd"
proof -
  from assms have pos: "0 < aa_num_q_heads A" "0 < aa_num_kv_heads A" "0 < aa_head_dim A" "0 < aa_rope_head_dim A"
    by (auto simp: attention_validate_def Let_def split: if_splits)
  then obtain nq nkv hdim rhd where n: "aa_num_q_heads A = int nq" "aa_num_kv_heads A = int nkv"
    "aa_head_dim A = int hdim" "aa_rope_head_dim A = int rhd" by (metis zero_less_imp_eq_int)
  from assms have "aa_num_q_heads A mod aa_num_kv_heads A = 0" "aa_rope_head_dim A mod 2 = 0"
    "aa_rope_head_dim A \<le> aa_head_dim A" "t_shape (aa_wk A) ! 0 = aa_num_kv_heads A * aa_head_dim A"
    "t_shape (aa_wv A) ! 0 = aa_num_kv_heads A * aa_head_dim A" "t_shape (aa_wo A) ! 1 = aa_num_q_heads A * aa_head_dim A"
    "t_shape (aa_wq A) ! 0 = aa_num_q_heads A * aa_head_dim A \<or> t_shape (aa_wq A) ! 0 = 2 * (aa_num_q_heads A * aa_head_dim A)"
    by (auto simp: attention_validate_def Let_def and_then_Inr dim_def not_less split: if_splits)
  moreover from this(1,2) have "nq mod nkv = 0" "rhd mod 2 = 0" unfolding n by presburger+
  ultimately have "sized_args A nq nkv hdim rhd"
    using pos n by (auto simp: sized_args_def)
  then show ?thesis by blast
qed

lemma validate_rows: "attention_validate (mat dev k m xs) A = attention_validate (mat dev k m' ys) A"
proof -
  have "and_then (linear_output_shape [int m, int k] s True) (\<lambda>_. r) =
        and_then (linear_output_shape [int m', int k] s True) (\<lambda>_. r)" for s and r :: "unit result"
    by (simp add: linear_output_shape_def ndim_def Let_def)
  note shapes = this
  have "last [a, int k] = int k" for a by simp
  note sizes = this shapes
  show ?thesis unfolding attention_validate_def mat_simps Let_def ndim_def sizes by simp
qed

section \<open>Preparing the rows\<close>

definition heads :: "device \<Rightarrow> nat \<Rightarrow> nat \<Rightarrow> nat \<Rightarrow> 'f list \<Rightarrow> 'f tensor" where
  "heads dev m h hdim xs = mk_tensor [int m, int h, int hdim] BF16 dev (gpu_buffer dev 2 xs)"

lemma reshape_heads:
  "reshape (mat dev (h * hdim) m xs) [int m, int h, int hdim] = Some (heads dev m h hdim xs)"
  by (simp add: reshape_def mat_def heads_def)

text \<open>The rotated queries, the keys and the gate of the rows, from their projections.\<close>

definition rotated ::
  "'f fops \<Rightarrow> 'f attention_args \<Rightarrow> nat \<Rightarrow> nat \<Rightarrow> nat \<Rightarrow> nat \<Rightarrow> 'f list \<Rightarrow> 'f list \<Rightarrow> int \<Rightarrow> nat \<Rightarrow>
   'f list \<Rightarrow> 'f list \<Rightarrow> 'f list \<times> 'f list \<times> 'f list option" where
  "rotated F A nq nkv hdim rhd qw kw p m Q K =
     (let b = aa_rope_base A; eps = aa_eps A in
      if has_gate A
      then (fst (q_gate_rmsnorm_rope_kernel F BF16 Q qw m nq hdim rhd p b eps True),
            partial_rope_kernel F BF16 (rmsnorm_kernel F BF16 K kw (m * nkv) hdim eps True)
              (m * nkv * hdim) nkv hdim rhd p b,
            Some (snd (q_gate_rmsnorm_rope_kernel F BF16 Q qw m nq hdim rhd p b eps True)))
      else (qk_rmsnorm_rope_kernel F BF16 Q qw m nq hdim rhd p b eps True,
            qk_rmsnorm_rope_kernel F BF16 K kw m nkv hdim rhd p b eps True, None))"

definition q_width :: "'f attention_args \<Rightarrow> nat \<Rightarrow> nat \<Rightarrow> nat" where
  "q_width A nq hdim = (if has_gate A then nq * (2 * hdim) else nq * hdim)"

lemma rotated_append:
  assumes "length Q1 = m1 * q_width A nq hdim" and "length K1 = m1 * (nkv * hdim)"
    and "rhd \<le> hdim" and "rhd mod 2 = 0" and "0 < nq" and "0 < nkv" and "0 < hdim"
    and "rotated F A nq nkv hdim rhd qw kw p m1 Q1 K1 = (q1, k1, g1)"
    and "rotated F A nq nkv hdim rhd qw kw (p + int m1) m2 Q2 K2 = (q2, k2, g2)"
  shows "rotated F A nq nkv hdim rhd qw kw p (m1 + m2) (Q1 @ Q2) (K1 @ K2) = (q1 @ q2, k1 @ k2, join_gate g1 g2)"
proof (cases "has_gate A")
  case True
  have Q: "length Q1 = m1 * nq * (2 * hdim)" and K: "length K1 = (m1 * nkv) * hdim"
    using assms(1,2) True by (simp_all add: q_width_def)
  have rk: "rmsnorm_kernel F BF16 (K1 @ K2) kw ((m1 + m2) * nkv) hdim eps True =
      rmsnorm_kernel F BF16 K1 kw (m1 * nkv) hdim eps True @ rmsnorm_kernel F BF16 K2 kw (m2 * nkv) hdim eps True" for eps
    unfolding add_mult_distrib by (rule rmsnorm_kernel_append [OF K])
  show ?thesis
    using assms(8,9) True
    by (auto simp: rotated_def Let_def q_gate_rmsnorm_rope_append [OF Q assms(3,4,5)] rk join_gate_def
        partial_rope_append [OF _ assms(3,4,6,7)])
next
  case False
  have Q: "length Q1 = m1 * nq * hdim" and K: "length K1 = m1 * nkv * hdim"
    using assms(1,2) False by (simp_all add: q_width_def)
  show ?thesis
    using assms(8,9) False
    by (auto simp: rotated_def Let_def qk_rmsnorm_rope_append [OF Q assms(3,4,5)] join_gate_def
        qk_rmsnorm_rope_append [OF K assms(3,4,6)])
qed

lemma rotated_lengths:
  assumes "rotated F A nq nkv hdim rhd qw kw p m Q K = (q, k, g)"
  shows "length q = m * (nq * hdim)" and "length k = m * (nkv * hdim)" and "gate_length (m * (nq * hdim)) g"
    and "g = None \<longleftrightarrow> \<not> has_gate A"
  using assms by (auto simp: rotated_def Let_def gate_length_def split: if_splits)

text \<open>The keys hold stored values.\<close>

lemma fused_head_stored: "store_idem F \<Longrightarrow> x \<in> set (fused_head F d f w k rhd p b eps u) \<Longrightarrow> stored F d x"
  by (auto simp: fused_head_def Let_def)

lemma rmsnorm_kernel_stored: "store_idem F \<Longrightarrow> x \<in> set (rmsnorm_kernel F d xs w m k eps u) \<Longrightarrow> stored F d x"
  by (auto simp: rmsnorm_kernel_def rmsnorm_row_def Let_def)

lemma partial_rope_stored:
  assumes "store_idem F" and "length xs = n" and "\<forall>x \<in> set xs. stored F d x"
    and "x \<in> set (partial_rope_kernel F d xs n h hdim rhd p b)"
  shows "stored F d x"
  using assms by (auto simp: partial_rope_kernel_def Let_def)

lemma rotated_stored:
  assumes "store_idem F" and "rotated F A nq nkv hdim rhd qw kw p m Q K = (q, k, g)"
  shows "\<forall>x \<in> set k. stored F BF16 x"
proof (cases "has_gate A")
  case True
  with assms(2) have k: "k = partial_rope_kernel F BF16 (rmsnorm_kernel F BF16 K kw (m * nkv) hdim (aa_eps A) True)
       (m * nkv * hdim) nkv hdim rhd p (aa_rope_base A)" by (simp add: rotated_def Let_def)
  show ?thesis unfolding k
    using partial_rope_stored [OF assms(1)] rmsnorm_kernel_stored [OF assms(1)] by (metis rmsnorm_kernel_length)
next
  case False
  with assms show ?thesis
    by (auto simp: rotated_def Let_def qk_rmsnorm_rope_kernel_def dest: fused_head_stored)
qed

context hip_machine
begin

definition norm_fits :: "device \<Rightarrow> nat \<Rightarrow> 'f tensor \<Rightarrow> bool" where
  "norm_fits dev hdim w \<longleftrightarrow> t_dtype w = BF16 \<and> device_eq (bf_device (t_buffer w)) dev \<and> hdim * 2 \<le> bf_size (t_buffer w)"

definition rotate_ok ::
  "device \<Rightarrow> 'f attention_args \<Rightarrow> nat \<Rightarrow> nat \<Rightarrow> nat \<Rightarrow> 'f tensor \<Rightarrow> 'f tensor \<Rightarrow> nat \<Rightarrow> bool" where
  "rotate_ok dev A nq nkv hdim qn kn m \<longleftrightarrow>
     0 < m \<and> alloc dev (m * (nq * hdim * 2)) \<and> alloc dev (m * (nkv * hdim * 2)) \<and>
     norm_fits dev hdim qn \<and> norm_fits dev hdim kn \<and>
     (if has_gate A
      then he_launch (Env dev) ''launch fused Q/gate RMSNorm/RoPE'' \<and>
           device_eq dev (t_device kn) \<and> t_shape kn = [int hdim] \<and>
           he_launch (Env dev) ''launch RMSNorm kernel'' \<and> f_gt F (aa_rope_base A) (f_zero F) \<and>
           he_launch (Env dev) ''launch partial RoPE kernel''
      else he_launch (Env dev) ''launch fused QK RMSNorm/RoPE'')"

lemma rotate_ok_parts:
  assumes "rotate_ok dev A nq nkv hdim qn kn (m1 + m2)" and "0 < m1" and "0 < m2"
  shows "rotate_ok dev A nq nkv hdim qn kn m1" and "rotate_ok dev A nq nkv hdim qn kn m2"
  using assms alloc_parts [of dev m1 m2] by (auto simp: rotate_ok_def)

lemma host_rotate_None: "host_rotate F reg B A s p (heads dev m h hdim xs) k = None"
  by (auto simp: host_rotate_def host_norm_def heads_def Let_def split: option.splits)

lemma sized_args_eqs:
  assumes "sized_args A nq nkv hdim rhd"
  shows "aa_num_q_heads A = int nq" "aa_num_kv_heads A = int nkv" "aa_head_dim A = int hdim"
    "aa_rope_head_dim A = int rhd" "0 < nq" "0 < nkv" "0 < hdim" "0 < rhd" "rhd mod 2 = 0" "rhd \<le> hdim"
    "nq mod nkv = 0" "int rhd mod 2 = 0"
  using assms by (simp_all add: sized_args_def) presburger

lemma nat_products:
  "nat (int a) = a" "nat (int a * int b) = a * b" "nat (int a * int b * int c) = a * (b * c)"
  "nat (int a * (int b * int c)) = a * (b * c)"
  by (simp_all add: nat_mult_distrib)

lemma norm_fitsD:
  "norm_fits dev hdim w \<Longrightarrow> t_dtype w = BF16"
  "norm_fits dev hdim w \<Longrightarrow> device_eq (bf_device (t_buffer w)) dev"
  "norm_fits dev hdim w \<Longrightarrow> hdim * 2 \<le> bf_size (t_buffer w)"
  by (simp_all add: norm_fits_def)

lemma qk_eval:
  assumes gpu: "is_gpu dev" and pos: "0 < m" "0 < nq" "0 < nkv" "0 < hdim" "0 < rhd" "int rhd mod 2 = 0" "rhd \<le> hdim"
    and Q: "length Q = m * (nq * hdim)" and K: "length K = m * (nkv * hdim)"
  shows "hip_qk_rmsnorm_rope (Env dev) (fresh dev 2 (m * (nq * hdim)), gpu_buffer dev 2 Q, t_buffer qn)
           (fresh dev 2 (m * (nkv * hdim)), gpu_buffer dev 2 K, t_buffer kn) BF16 (int m) (int nq) (int nkv)
           (int hdim) (int rhd) p b eps True = Inr r \<longleftrightarrow>
     he_select (Env dev) \<and> he_launch (Env dev) ''launch fused QK RMSNorm/RoPE'' \<and>
     device_eq (bf_device (t_buffer qn)) dev \<and> hdim * 2 \<le> bf_size (t_buffer qn) \<and>
     device_eq (bf_device (t_buffer kn)) dev \<and> hdim * 2 \<le> bf_size (t_buffer kn) \<and>
     r = (gpu_buffer dev 2 (qk_rmsnorm_rope_kernel F BF16 Q (t_data qn) m nq hdim rhd p b eps True),
          gpu_buffer dev 2 (qk_rmsnorm_rope_kernel F BF16 K (t_data kn) m nkv hdim rhd p b eps True))"
  using assms
  by (auto simp: hip_qk_rmsnorm_rope_def Let_def launch_Some nat_products write_fresh mult.assoc
      bf_size_def [of "gpu_buffer dev 2 _"] float_kernel_dtype_def t_data_def)

lemma rotate_plain:
  assumes gpu: "is_gpu dev" and A: "sized_args A nq nkv hdim rhd" and g: "\<not> has_gate A" and m: "0 < m"
    and Q: "length Q = m * (nq * hdim)" and K: "length K = m * (nkv * hdim)"
  shows "rotate_heads F reg (hip_backend (Env dev)) (mat dev k m xs) A (int m) p (mat dev (nq * hdim) m Q)
           (mat dev (nkv * hdim) m K) = Some (q, k') \<longleftrightarrow>
     (\<exists>qn kn. aa_q_norm A = Some qn \<and> aa_k_norm A = Some kn \<and> rotate_ok dev A nq nkv hdim qn kn m \<and>
        (case rotated F A nq nkv hdim rhd (t_data qn) (t_data kn) p m Q K of (q', k'', _) \<Rightarrow>
           q = heads dev m nq hdim q' \<and> k' = heads dev m nkv hdim k''))"
proof -
  have c: "\<not> is_cpu dev" using gpu by (simp add: is_gpu_not_cpu)
  note A' = sized_args_eqs [OF A]
  let ?B = "hip_backend (Env dev)"
  let ?run = "\<lambda>qn kn. if t_dtype qn \<noteq> BF16 \<or> t_dtype kn \<noteq> BF16 then None
     else if alloc dev (m * (nq * hdim) * 2) \<and> alloc dev (m * (nkv * hdim) * 2)
     then map_option (\<lambda>(qo, ko). (mk_tensor [int m, int nq, int hdim] BF16 dev qo, mk_tensor [int m, int nkv, int hdim] BF16 dev ko))
       (from_result (hip_qk_rmsnorm_rope (Env dev) (fresh dev 2 (m * (nq * hdim)), gpu_buffer dev 2 Q, t_buffer qn)
           (fresh dev 2 (m * (nkv * hdim)), gpu_buffer dev 2 K, t_buffer kn) BF16 (int m) (int nq) (int nkv)
           (int hdim) (int rhd) p (aa_rope_base A) (aa_eps A) True))
     else None"
  have eval: "rotate_heads F reg ?B (mat dev k m xs) A (int m) p (mat dev (nq * hdim) m Q) (mat dev (nkv * hdim) m K) =
      (case (aa_q_norm A, aa_k_norm A) of (Some qn, Some kn) \<Rightarrow> ?run qn kn | _ \<Rightarrow> None)"
    using c g gpu
    by (simp add: rotate_heads_def Let_def A'(1-4) reshape_heads host_rotate_None split: option.splits)
       (simp add: heads_def create_fresh nat_products)
  have norms: "(case (aa_q_norm A, aa_k_norm A) of (Some qn, Some kn) \<Rightarrow> ?run qn kn | _ \<Rightarrow> None) = Some (q, k') \<longleftrightarrow>
      (\<exists>qn kn. aa_q_norm A = Some qn \<and> aa_k_norm A = Some kn \<and> ?run qn kn = Some (q, k'))"
    by (rule both_Some)
  show ?thesis
    unfolding eval norms
    using g m A' by (auto simp: qk_eval [OF gpu m A'(5-8,12,10) Q K] rotate_ok_def rotated_def Let_def norm_fits_def
        heads_def mult.assoc alloc_def split: if_splits)
qed

lemma heads_simps [simp]:
  "t_shape (heads dev m h hdim xs) = [int m, int h, int hdim]"
  "t_dtype (heads dev m h hdim xs) = BF16"
  "t_device (heads dev m h hdim xs) = dev"
  "t_buffer (heads dev m h hdim xs) = gpu_buffer dev 2 xs"
  "t_mem (heads dev m h hdim xs) = DeviceMem"
  "t_numel (heads dev m h hdim xs) = int m * (int h * int hdim)"
  by (simp_all add: heads_def)

lemma head_norm_eval:
  assumes gpu: "is_gpu dev" and pos: "0 < m" and len: "length xs = m * (h * hdim)"
  shows "rmsnorm_forward F reg (heads dev m h hdim xs) w eps True = Some z \<longleftrightarrow>
     t_dtype w = BF16 \<and> device_eq dev (t_device w) \<and> t_shape w = [int hdim] \<and>
     alloc dev (m * (h * hdim) * 2) \<and> device_eq (bf_device (t_buffer w)) dev \<and> hdim * 2 \<le> bf_size (t_buffer w) \<and>
     he_launch (Env dev) ''launch RMSNorm kernel'' \<and>
     z = heads dev m h hdim (rmsnorm_kernel F BF16 xs (t_data w) (m * h) hdim eps True)"
proof -
  have sh: "ndim (t_shape w) = Suc 0 \<and> t_shape w ! 0 = int hdim \<longleftrightarrow> t_shape w = [int hdim]"
    by (auto simp: ndim_def length_Suc_conv)
  have v: "rmsnorm_validate (heads dev m h hdim xs) w = Inr () \<longleftrightarrow>
      t_dtype w = BF16 \<and> device_eq dev (t_device w) \<and> t_shape w = [int hdim]"
    unfolding sh [symmetric] by (auto simp: rmsnorm_validate_def ndim_def)
  show ?thesis
  proof (cases "rmsnorm_validate (heads dev m h hdim xs) w")
    case (Inl e)
    then have "\<not> (t_dtype w = BF16 \<and> device_eq dev (t_device w) \<and> t_shape w = [int hdim])"
      unfolding v [symmetric] by simp
    with Inl show ?thesis by (auto simp: rmsnorm_forward_def)
  next
    case (Inr u)
    with v have w: "t_dtype w = BF16 \<and> device_eq dev (t_device w) \<and> t_shape w = [int hdim]" by simp
    have l: "leading_rows [int m, int h, int hdim] = int m * int h"
      by (simp add: leading_rows_def)
    show ?thesis
      using Inr w gpu pos len
      by (auto simp: rmsnorm_forward_def create_fresh hip_rmsnorm_def Let_def launch_Some nat_products l
          write_fresh bf_size_def [of "gpu_buffer dev 2 _"] float_kernel_dtype_def t_data_def heads_def
          alloc_def mult.assoc [of m h] split: if_splits)
  qed
qed

lemma rope_eval:
  assumes gpu: "is_gpu dev" and pos: "0 < m" "0 < rhd" "int rhd mod 2 = 0" "rhd \<le> hdim" and len: "length xs = m * (h * hdim)"
    and p: "0 \<le> p"
  shows "rope_partial F reg (heads dev m h hdim xs) (int rhd) p b = Some z \<longleftrightarrow>
     f_gt F b (f_zero F) \<and> alloc dev (m * (h * hdim) * 2) \<and>
     he_launch (Env dev) ''launch partial RoPE kernel'' \<and>
     z = heads dev m h hdim (partial_rope_kernel F BF16 xs (m * h * hdim) h hdim rhd p b)"
proof -
  have c: "\<not> is_cpu dev" using gpu by (simp add: is_gpu_not_cpu)
  show ?thesis
    using assms c
    by (auto simp: rope_partial_def ndim_def create_fresh hip_partial_rope_def Let_def launch_Some nat_products
        write_fresh bf_size_def [of "gpu_buffer dev 2 _"] float_kernel_dtype_def heads_def alloc_def
        mult.assoc [of m h] split: if_splits)
qed

lemma q_gate_eval:
  assumes gpu: "is_gpu dev" and pos: "0 < m" "0 < nq" "0 < hdim" "0 < rhd" "int rhd mod 2 = 0" "rhd \<le> hdim"
    and Q: "length Q = m * (nq * (2 * hdim))"
  shows "hip_q_gate_rmsnorm_rope (Env dev) (fresh dev 2 (m * (nq * hdim))) (fresh dev 2 (m * (nq * hdim)))
           (gpu_buffer dev 2 Q) (t_buffer qn) BF16 (int m) (int nq) (int hdim) (int rhd) p b eps True = Inr r \<longleftrightarrow>
     he_select (Env dev) \<and> he_launch (Env dev) ''launch fused Q/gate RMSNorm/RoPE'' \<and>
     device_eq (bf_device (t_buffer qn)) dev \<and> hdim * 2 \<le> bf_size (t_buffer qn) \<and>
     r = (gpu_buffer dev 2 (fst (q_gate_rmsnorm_rope_kernel F BF16 Q (t_data qn) m nq hdim rhd p b eps True)),
          gpu_buffer dev 2 (snd (q_gate_rmsnorm_rope_kernel F BF16 Q (t_data qn) m nq hdim rhd p b eps True)))"
  using assms
  by (auto simp: hip_q_gate_rmsnorm_rope_def Let_def launch_Some nat_products write_fresh mult.assoc
      bf_size_def [of "gpu_buffer dev 2 _"] float_kernel_dtype_def t_data_def)

text \<open>The gate split off, the heads normalised and rotated.\<close>

definition turned ::
  "'f tensor \<Rightarrow> 'f attention_args \<Rightarrow> nat \<Rightarrow> int \<Rightarrow> 'f tensor \<Rightarrow> 'f tensor \<Rightarrow>
   ('f tensor \<times> 'f tensor \<times> 'f tensor option) option" where
  "turned input A m p q k =
     (let B = hip_backend (Env (t_device input)) in
      Option.bind (split_gate F B input A (int m) p q) (\<lambda>(qq, qg).
      Option.bind (rotate_heads F reg B input A (int m) p qq k) (\<lambda>(q_rot, k_rot).
      Some (q_rot, k_rot, qg))))"

lemma rotate_gated:
  assumes gpu: "is_gpu dev" and A: "sized_args A nq nkv hdim rhd" and g: "has_gate A" and m: "0 < m"
    and K: "length K = m * (nkv * hdim)" and p: "0 \<le> p"
  shows "rotate_heads F reg (hip_backend (Env dev)) (mat dev k m xs) A (int m) p (mat dev (nq * hdim) m Q')
           (mat dev (nkv * hdim) m K) = Some (q, k') \<longleftrightarrow>
     (\<exists>qn kn. aa_q_norm A = Some qn \<and> aa_k_norm A = Some kn \<and> t_dtype qn = BF16 \<and>
        norm_fits dev hdim kn \<and> device_eq dev (t_device kn) \<and> t_shape kn = [int hdim] \<and>
        he_launch (Env dev) ''launch RMSNorm kernel'' \<and> alloc dev (m * (nkv * hdim) * 2) \<and>
        f_gt F (aa_rope_base A) (f_zero F) \<and> he_launch (Env dev) ''launch partial RoPE kernel'' \<and>
        q = heads dev m nq hdim Q' \<and>
        k' = heads dev m nkv hdim (partial_rope_kernel F BF16
          (rmsnorm_kernel F BF16 K (t_data kn) (m * nkv) hdim (aa_eps A) True) (m * nkv * hdim) nkv hdim rhd p
          (aa_rope_base A)))"
proof -
  have c: "\<not> is_cpu dev" using gpu by (simp add: is_gpu_not_cpu)
  note A' = sized_args_eqs [OF A]
  let ?B = "hip_backend (Env dev)"
  let ?run = "\<lambda>qn kn. if t_dtype qn = BF16 \<and> t_dtype kn = BF16
     then (case rmsnorm_forward F reg (heads dev m nkv hdim K) kn (aa_eps A) True of
             None \<Rightarrow> None
           | Some k_normed \<Rightarrow> map_option (\<lambda>k_rot. (heads dev m nq hdim Q', k_rot))
               (rope_partial F reg k_normed (int rhd) p (aa_rope_base A)))
     else None"
  have eval: "rotate_heads F reg ?B (mat dev k m xs) A (int m) p (mat dev (nq * hdim) m Q') (mat dev (nkv * hdim) m K) =
      (case (aa_q_norm A, aa_k_norm A) of (Some qn, Some kn) \<Rightarrow> ?run qn kn | _ \<Rightarrow> None)"
    using c g gpu
    by (simp add: rotate_heads_def Let_def A'(1-4) reshape_heads host_rotate_None split: option.splits)
  have norms: "(case (aa_q_norm A, aa_k_norm A) of (Some qn, Some kn) \<Rightarrow> ?run qn kn | _ \<Rightarrow> None) = Some (q, k') \<longleftrightarrow>
      (\<exists>qn kn. aa_q_norm A = Some qn \<and> aa_k_norm A = Some kn \<and> ?run qn kn = Some (q, k'))"
    by (rule both_Some)
  have len: "length (rmsnorm_kernel F BF16 K w (m * nkv) hdim e True) = m * (nkv * hdim)" for w e
    by (simp add: mult.assoc)
  have nev: "rmsnorm_forward F reg (heads dev m nkv hdim K) kn (aa_eps A) True =
     (if t_dtype kn = BF16 \<and> device_eq dev (t_device kn) \<and> t_shape kn = [int hdim] \<and>
         alloc dev (m * (nkv * hdim) * 2) \<and> device_eq (bf_device (t_buffer kn)) dev \<and> hdim * 2 \<le> bf_size (t_buffer kn) \<and>
         he_launch (Env dev) ''launch RMSNorm kernel''
      then Some (heads dev m nkv hdim (rmsnorm_kernel F BF16 K (t_data kn) (m * nkv) hdim (aa_eps A) True))
      else None)" for kn
    by (rule option_if) (auto simp: head_norm_eval [OF gpu m K])
  have run: "?run qn kn = Some (q, k') \<longleftrightarrow> t_dtype qn = BF16 \<and>
        norm_fits dev hdim kn \<and> device_eq dev (t_device kn) \<and> t_shape kn = [int hdim] \<and>
        he_launch (Env dev) ''launch RMSNorm kernel'' \<and> alloc dev (m * (nkv * hdim) * 2) \<and>
        f_gt F (aa_rope_base A) (f_zero F) \<and> he_launch (Env dev) ''launch partial RoPE kernel'' \<and>
        q = heads dev m nq hdim Q' \<and>
        k' = heads dev m nkv hdim (partial_rope_kernel F BF16
          (rmsnorm_kernel F BF16 K (t_data kn) (m * nkv) hdim (aa_eps A) True) (m * nkv * hdim) nkv hdim rhd p
          (aa_rope_base A))" for qn kn
    by (auto simp: nev norm_fits_def rope_eval [OF gpu m A'(8,12,10) len p] split: if_splits)
  show ?thesis unfolding eval norms run by blast
qed

lemma split_gate_fused:
  assumes gpu: "is_gpu dev" and A: "sized_args A nq nkv hdim rhd" and g: "has_gate A" and m: "0 < m"
    and Q: "length Q = m * (nq * (2 * hdim))" and n: "fused_norms A BF16 = Some (qn, kn)"
  shows "split_gate F (hip_backend (Env dev)) (mat dev k m xs) A (int m) p (mat dev (nq * (2 * hdim)) m Q) = Some (qq, qg) \<longleftrightarrow>
     alloc dev (m * (nq * hdim) * 2) \<and> he_launch (Env dev) ''launch fused Q/gate RMSNorm/RoPE'' \<and>
     device_eq (bf_device (t_buffer qn)) dev \<and> hdim * 2 \<le> bf_size (t_buffer qn) \<and>
     (let out = q_gate_rmsnorm_rope_kernel F BF16 Q (t_data qn) m nq hdim rhd p (aa_rope_base A) (aa_eps A) True
      in qq = mat dev (nq * hdim) m (fst out) \<and> qg = Some (mat dev (nq * hdim) m (snd out)))"
proof -
  have c: "\<not> is_cpu dev" using gpu by (simp add: is_gpu_not_cpu)
  note A' = sized_args_eqs [OF A]
  show ?thesis
    using g c gpu
    by (auto simp: split_gate_def Let_def A'(1-4) n create_fresh nat_products q_gate_eval [OF gpu m A'(5,7,8,12,10) Q]
        mat_def alloc_def)
qed

lemma turned_gated:
  assumes gpu: "is_gpu dev" and A: "sized_args A nq nkv hdim rhd" and g: "has_gate A" and m: "0 < m"
    and Q: "length Q = m * (nq * (2 * hdim))" and K: "length K = m * (nkv * hdim)" and p: "0 \<le> p"
  shows "turned (mat dev k m xs) A m p (mat dev (nq * (2 * hdim)) m Q) (mat dev (nkv * hdim) m K) = Some (q, k', gt) \<longleftrightarrow>
     (\<exists>qn kn. aa_q_norm A = Some qn \<and> aa_k_norm A = Some kn \<and> rotate_ok dev A nq nkv hdim qn kn m \<and>
        (case rotated F A nq nkv hdim rhd (t_data qn) (t_data kn) p m Q K of (q', k'', g') \<Rightarrow>
           q = heads dev m nq hdim q' \<and> k' = heads dev m nkv hdim k'' \<and>
           gt = map_option (mat dev (nq * hdim) m) g'))" (is "?l \<longleftrightarrow> ?r")
proof
  assume ?l
  then obtain qq where sp: "split_gate F (hip_backend (Env dev)) (mat dev k m xs) A (int m) p (mat dev (nq * (2 * hdim)) m Q) = Some (qq, gt)"
    and ro: "rotate_heads F reg (hip_backend (Env dev)) (mat dev k m xs) A (int m) p qq (mat dev (nkv * hdim) m K) = Some (q, k')"
    by (auto simp: turned_def Let_def Option.bind_eq_Some_conv)
  have "\<exists>Q'. qq = mat dev (nq * hdim) m Q'"
  proof (cases "fused_norms A BF16")
    case None
    with sp g gpu is_gpu_not_cpu [OF gpu] sized_args_eqs(1-3) [OF A] show ?thesis
      by (auto simp: split_gate_def Let_def create_fresh nat_products hip_split_q_gate_def launch_Some write_fresh
          split_q_gate_kernel_def mult.assoc mat_def split: if_splits)
  next
    case (Some nn)
    then obtain qn kn where "fused_norms A BF16 = Some (qn, kn)" by (cases nn) auto
    from split_gate_fused [OF gpu A g m Q this] sp show ?thesis by (auto simp: Let_def)
  qed
  then obtain Q' where Q': "qq = mat dev (nq * hdim) m Q'" by blast
  from ro [unfolded Q' rotate_gated [OF gpu A g m K p]] obtain qn kn where n: "aa_q_norm A = Some qn" "aa_k_norm A = Some kn"
    and r: "t_dtype qn = BF16" "norm_fits dev hdim kn" "device_eq dev (t_device kn)" "t_shape kn = [int hdim]"
        "he_launch (Env dev) ''launch RMSNorm kernel''" "alloc dev (m * (nkv * hdim) * 2)"
        "f_gt F (aa_rope_base A) (f_zero F)" "he_launch (Env dev) ''launch partial RoPE kernel''"
        "q = heads dev m nq hdim Q'"
        "k' = heads dev m nkv hdim (partial_rope_kernel F BF16
          (rmsnorm_kernel F BF16 K (t_data kn) (m * nkv) hdim (aa_eps A) True) (m * nkv * hdim) nkv hdim rhd p
          (aa_rope_base A))" by blast
  then have "fused_norms A BF16 = Some (qn, kn)" by (simp add: fused_norms_def norm_fits_def)
  from split_gate_fused [OF gpu A g m Q this] sp Q' r n m g show ?r
    by (auto simp: rotated_def Let_def rotate_ok_def norm_fits_def mult.assoc)
next
  assume ?r
  then obtain qn kn where n: "aa_q_norm A = Some qn" "aa_k_norm A = Some kn"
    and ok: "rotate_ok dev A nq nkv hdim qn kn m"
    and res: "case rotated F A nq nkv hdim rhd (t_data qn) (t_data kn) p m Q K of (q', k'', g') \<Rightarrow>
           q = heads dev m nq hdim q' \<and> k' = heads dev m nkv hdim k'' \<and>
           gt = map_option (mat dev (nq * hdim) m) g'" by (elim exE conjE)
  let ?out = "q_gate_rmsnorm_rope_kernel F BF16 Q (t_data qn) m nq hdim rhd p (aa_rope_base A) (aa_eps A) True"
  have f: "fused_norms A BF16 = Some (qn, kn)" using n ok by (simp add: fused_norms_def rotate_ok_def norm_fits_def)
  have sp: "split_gate F (hip_backend (Env dev)) (mat dev k m xs) A (int m) p (mat dev (nq * (2 * hdim)) m Q) =
      Some (mat dev (nq * hdim) m (fst ?out), gt)"
    unfolding split_gate_fused [OF gpu A g m Q f] using ok res g
    by (auto simp: rotate_ok_def norm_fits_def Let_def mult.assoc rotated_def)
  have "rotate_heads F reg (hip_backend (Env dev)) (mat dev k m xs) A (int m) p (mat dev (nq * hdim) m (fst ?out))
          (mat dev (nkv * hdim) m K) = Some (q, k')"
    unfolding rotate_gated [OF gpu A g m K p] using n ok res g
    by (auto simp: rotate_ok_def norm_fits_def mult.assoc rotated_def Let_def)
  with sp show ?l by (simp add: turned_def)
qed

lemma turned_Some:
  assumes gpu: "is_gpu dev" and A: "sized_args A nq nkv hdim rhd" and m: "0 < m"
    and Q: "length Q = m * q_width A nq hdim" and K: "length K = m * (nkv * hdim)" and p: "0 \<le> p"
  shows "turned (mat dev k m xs) A m p (mat dev (q_width A nq hdim) m Q) (mat dev (nkv * hdim) m K) = Some (q, k', gt) \<longleftrightarrow>
     (\<exists>qn kn. aa_q_norm A = Some qn \<and> aa_k_norm A = Some kn \<and> rotate_ok dev A nq nkv hdim qn kn m \<and>
        (case rotated F A nq nkv hdim rhd (t_data qn) (t_data kn) p m Q K of (q', k'', g') \<Rightarrow>
           q = heads dev m nq hdim q' \<and> k' = heads dev m nkv hdim k'' \<and>
           gt = map_option (mat dev (nq * hdim) m) g'))"
proof (cases "has_gate A")
  case True
  then show ?thesis using turned_gated [OF gpu A True m _ K p] Q by (simp add: q_width_def)
next
  case False
  have s: "split_gate F B i A (int m) p t = Some (t, None)" for B i t using False by (simp add: split_gate_def)
  have Q': "length Q = m * (nq * hdim)" using Q False by (simp add: q_width_def)
  have "turned (mat dev k m xs) A m p (mat dev (nq * hdim) m Q) (mat dev (nkv * hdim) m K) = Some (q, k', gt) \<longleftrightarrow>
      rotate_heads F reg (hip_backend (Env dev)) (mat dev k m xs) A (int m) p (mat dev (nq * hdim) m Q)
           (mat dev (nkv * hdim) m K) = Some (q, k') \<and> gt = None"
    by (auto simp: turned_def s Option.bind_eq_Some_conv)
  then show ?thesis
    using False unfolding rotate_plain [OF gpu A False m Q' K]
    by (auto simp: q_width_def rotated_def Let_def)
qed

text \<open>What \<open>attention_prepare\<close> computes, on the data of the tensors.\<close>

definition projects :: "device \<Rightarrow> nat \<Rightarrow> nat \<Rightarrow> 'f tensor \<Rightarrow> nat \<Rightarrow> 'f list \<Rightarrow> 'f list \<Rightarrow> bool" where
  "projects dev k m w n xs out \<longleftrightarrow>
     linear_forward F reg (mat dev k m xs) w True None = Some (mat dev n m out) \<and> length out = m * n"

lemma projects_result:
  assumes "is_gpu dev" and "length xs = m * k"
    and "linear_forward F reg (mat dev k m xs) w True None = Some z" and "t_shape w ! 0 = int n"
  shows "\<exists>out. z = mat dev n m out \<and> projects dev k m w n xs out \<and> (\<forall>x \<in> set out. stored F BF16 x)"
proof -
  have "out_width w = n" using assms(4) by (simp add: out_width_def)
  with linear_result [OF assms(1-3)] assms(3) show ?thesis by (auto simp: projects_def)
qed

lemma projects_split:
  assumes gpu: "is_gpu dev" and p: "projects dev k (m1 + m2) w n (xs @ ys) out" and w: "t_shape w ! 0 = int n"
    and len: "length xs = m1 * k" "length ys = m2 * k" and pos: "0 < m1" "0 < m2"
  shows "\<exists>u v. projects dev k m1 w n xs u \<and> projects dev k m2 w n ys v \<and> out = u @ v"
proof -
  have n: "out_width w = n" using w by (simp add: out_width_def)
  from row_op_split [OF linear_row_op [OF gpu, of k w] _ len pos] p show ?thesis
    unfolding n projects_def by fastforce
qed

definition prepares ::
  "device \<Rightarrow> nat \<Rightarrow> 'f attention_args \<Rightarrow> nat \<Rightarrow> nat \<Rightarrow> nat \<Rightarrow> nat \<Rightarrow> nat \<Rightarrow> int \<Rightarrow> 'f list \<Rightarrow>
   'f list \<Rightarrow> 'f list \<Rightarrow> 'f list \<Rightarrow> 'f list option \<Rightarrow> bool" where
  "prepares dev k A nq nkv hdim rhd m p xs q kk v g \<longleftrightarrow>
     (\<exists>Q K qn kn. projects dev k m (aa_wq A) (q_width A nq hdim) xs Q \<and>
        projects dev k m (aa_wk A) (nkv * hdim) xs K \<and> projects dev k m (aa_wv A) (nkv * hdim) xs v \<and>
        aa_q_norm A = Some qn \<and> aa_k_norm A = Some kn \<and> rotate_ok dev A nq nkv hdim qn kn m \<and>
        rotated F A nq nkv hdim rhd (t_data qn) (t_data kn) p m Q K = (q, kk, g))"

lemma q_width_shape: "sized_args A nq nkv hdim rhd \<Longrightarrow> t_shape (aa_wq A) ! 0 = int (q_width A nq hdim)"
  by (auto simp: sized_args_def has_gate_def q_width_def)

lemma prepares_split:
  assumes gpu: "is_gpu dev" and A: "sized_args A nq nkv hdim rhd"
    and p: "prepares dev k A nq nkv hdim rhd (m1 + m2) p (xs @ ys) q kk v g"
    and len: "length xs = m1 * k" "length ys = m2 * k" and pos: "0 < m1" "0 < m2"
  shows "\<exists>q1 k1 v1 g1 q2 k2 v2 g2. prepares dev k A nq nkv hdim rhd m1 p xs q1 k1 v1 g1 \<and>
     prepares dev k A nq nkv hdim rhd m2 (p + int m1) ys q2 k2 v2 g2 \<and>
     q = q1 @ q2 \<and> kk = k1 @ k2 \<and> v = v1 @ v2 \<and> g = join_gate g1 g2"
proof -
  from p obtain Q K qn kn where P: "projects dev k (m1 + m2) (aa_wq A) (q_width A nq hdim) (xs @ ys) Q"
      "projects dev k (m1 + m2) (aa_wk A) (nkv * hdim) (xs @ ys) K"
      "projects dev k (m1 + m2) (aa_wv A) (nkv * hdim) (xs @ ys) v"
    and n: "aa_q_norm A = Some qn" "aa_k_norm A = Some kn" and ok: "rotate_ok dev A nq nkv hdim qn kn (m1 + m2)"
    and r: "rotated F A nq nkv hdim rhd (t_data qn) (t_data kn) p (m1 + m2) Q K = (q, kk, g)"
    by (auto simp: prepares_def)
  have w: "t_shape (aa_wk A) ! 0 = int (nkv * hdim)" "t_shape (aa_wv A) ! 0 = int (nkv * hdim)"
    using A by (simp_all add: sized_args_def)
  from projects_split [OF gpu P(1) q_width_shape [OF A] len pos] obtain Q1 Q2 where
    Q: "projects dev k m1 (aa_wq A) (q_width A nq hdim) xs Q1" "projects dev k m2 (aa_wq A) (q_width A nq hdim) ys Q2"
       "Q = Q1 @ Q2" by blast
  from projects_split [OF gpu P(2) w(1) len pos] obtain K1 K2 where
    K: "projects dev k m1 (aa_wk A) (nkv * hdim) xs K1" "projects dev k m2 (aa_wk A) (nkv * hdim) ys K2"
       "K = K1 @ K2" by blast
  from projects_split [OF gpu P(3) w(2) len pos] obtain V1 V2 where
    V: "projects dev k m1 (aa_wv A) (nkv * hdim) xs V1" "projects dev k m2 (aa_wv A) (nkv * hdim) ys V2"
       "v = V1 @ V2" by blast
  obtain q1 k1 g1 where r1: "rotated F A nq nkv hdim rhd (t_data qn) (t_data kn) p m1 Q1 K1 = (q1, k1, g1)"
    by (cases "rotated F A nq nkv hdim rhd (t_data qn) (t_data kn) p m1 Q1 K1")
  obtain q2 k2 g2 where r2: "rotated F A nq nkv hdim rhd (t_data qn) (t_data kn) (p + int m1) m2 Q2 K2 = (q2, k2, g2)"
    by (cases "rotated F A nq nkv hdim rhd (t_data qn) (t_data kn) (p + int m1) m2 Q2 K2")
  note A' = sized_args_eqs [OF A]
  have lQ: "length Q1 = m1 * q_width A nq hdim" "length K1 = m1 * (nkv * hdim)"
    using Q(1) K(1) by (simp_all add: projects_def)
  from rotated_append [OF lQ A'(10,9,5,6,7) r1 r2] r Q(3) K(3)
  have "q = q1 @ q2" "kk = k1 @ k2" "g = join_gate g1 g2" by simp_all
  with Q(1,2) K(1,2) V n r1 r2 rotate_ok_parts [OF ok pos] show ?thesis
    unfolding prepares_def by blast
qed

lemma prepares_facts:
  assumes gpu: "is_gpu dev" and A: "sized_args A nq nkv hdim rhd" and len: "length xs = m * k"
    and p: "prepares dev k A nq nkv hdim rhd m p xs q kk v g"
  shows "length q = m * (nq * hdim)" "length kk = m * (nkv * hdim)" "length v = m * (nkv * hdim)"
    and "gate_length (m * (nq * hdim)) g" and "g = None \<longleftrightarrow> \<not> has_gate A"
    and "\<forall>x \<in> set kk. stored F BF16 x" and "\<forall>x \<in> set v. stored F BF16 x" and "0 < m"
    and "alloc dev (m * (nq * hdim * 2))"
proof -
  from p obtain Q K qn kn where V: "projects dev k m (aa_wv A) (nkv * hdim) xs v"
    and ok: "rotate_ok dev A nq nkv hdim qn kn m"
    and r: "rotated F A nq nkv hdim rhd (t_data qn) (t_data kn) p m Q K = (q, kk, g)"
    by (auto simp: prepares_def)
  from rotated_lengths [OF r] show "length q = m * (nq * hdim)" "length kk = m * (nkv * hdim)"
    "gate_length (m * (nq * hdim)) g" "g = None \<longleftrightarrow> \<not> has_gate A" by blast+
  from V show "length v = m * (nkv * hdim)" by (simp add: projects_def)
  from rotated_stored [OF storing r] show "\<forall>x \<in> set kk. stored F BF16 x" .
  have w: "t_shape (aa_wv A) ! 0 = int (nkv * hdim)" using A by (simp add: sized_args_def)
  from projects_result [OF gpu len _ w] V show "\<forall>x \<in> set v. stored F BF16 x"
    by (fastforce simp: projects_def)
  from ok show "0 < m" "alloc dev (m * (nq * hdim * 2))" by (simp_all add: rotate_ok_def)
qed

lemma prepare_iff:
  assumes gpu: "is_gpu dev" and A: "sized_args A nq nkv hdim rhd" and m: "0 < m"
    and len: "length xs = m * k" and p: "0 \<le> p"
  shows "attention_prepare F reg (hip_backend (Env dev)) (mat dev k m xs) A (int m) p False = Some (qt, kt, vt, gt, out) \<longleftrightarrow>
     (\<exists>q kk v g. prepares dev k A nq nkv hdim rhd m p xs q kk v g \<and> qt = heads dev m nq hdim q \<and>
        kt = heads dev m nkv hdim kk \<and> vt = mat dev (nkv * hdim) m v \<and>
        gt = map_option (mat dev (nq * hdim) m) g \<and> out = fresh dev 2 (m * (nq * hdim)))" (is "?l \<longleftrightarrow> ?r")
proof -
  let ?lin = "\<lambda>w. linear_forward F reg (mat dev k m xs) w True None"
  note A' = sized_args_eqs [OF A]
  have w: "t_shape (aa_wk A) ! 0 = int (nkv * hdim)" "t_shape (aa_wv A) ! 0 = int (nkv * hdim)"
    using A by (simp_all add: sized_args_def)
  have eval: "attention_prepare F reg (hip_backend (Env dev)) (mat dev k m xs) A (int m) p False =
     (case (?lin (aa_wq A), ?lin (aa_wk A), ?lin (aa_wv A)) of
        (Some q, Some kk, Some v) \<Rightarrow>
          Option.bind (turned (mat dev k m xs) A m p q kk) (\<lambda>(q_rot, k_rot, g).
            if alloc dev (m * (nq * hdim) * 2) then Some (q_rot, k_rot, v, g, fresh dev 2 (m * (nq * hdim))) else None)
      | _ \<Rightarrow> None)"
    using gpu
    by (simp add: attention_prepare_def project_qkv_def turned_def Let_def A'(1-4) create_fresh nat_products
        split: option.split) (auto simp: Option.bind_eq_Some_conv split: option.splits Option.bind_splits)
  show ?thesis
  proof
    assume ?l
    then obtain q kk v where l: "?lin (aa_wq A) = Some q" "?lin (aa_wk A) = Some kk" "?lin (aa_wv A) = Some v"
      and t: "turned (mat dev k m xs) A m p q kk = Some (qt, kt, gt)" and v: "v = vt" "out = fresh dev 2 (m * (nq * hdim))"
      unfolding eval by (auto simp: Option.bind_eq_Some_conv split: option.splits if_splits)
    from projects_result [OF gpu len l(1) q_width_shape [OF A]] obtain Q where
      Q: "q = mat dev (q_width A nq hdim) m Q" "projects dev k m (aa_wq A) (q_width A nq hdim) xs Q" by blast
    from projects_result [OF gpu len l(2) w(1)] obtain K where
      K: "kk = mat dev (nkv * hdim) m K" "projects dev k m (aa_wk A) (nkv * hdim) xs K" by blast
    from projects_result [OF gpu len l(3) w(2)] obtain V where
      V: "v = mat dev (nkv * hdim) m V" "projects dev k m (aa_wv A) (nkv * hdim) xs V" by blast
    have lens: "length Q = m * q_width A nq hdim" "length K = m * (nkv * hdim)"
      using Q K by (simp_all add: projects_def)
    from t [unfolded Q(1) K(1) turned_Some [OF gpu A m lens p]] obtain qn kn where
      n: "aa_q_norm A = Some qn" "aa_k_norm A = Some kn" "rotate_ok dev A nq nkv hdim qn kn m"
      and res: "case rotated F A nq nkv hdim rhd (t_data qn) (t_data kn) p m Q K of (q', k'', g') \<Rightarrow>
           qt = heads dev m nq hdim q' \<and> kt = heads dev m nkv hdim k'' \<and> gt = map_option (mat dev (nq * hdim) m) g'"
      by (elim exE conjE)
    obtain q' k'' g' where r: "rotated F A nq nkv hdim rhd (t_data qn) (t_data kn) p m Q K = (q', k'', g')"
      by (cases "rotated F A nq nkv hdim rhd (t_data qn) (t_data kn) p m Q K")
    have "prepares dev k A nq nkv hdim rhd m p xs q' k'' V g'"
      unfolding prepares_def using Q(2) K(2) V(2) n r by blast
    with res r V v show ?r by auto
  next
    assume ?r
    then obtain q kk v g Q K qn kn where P: "projects dev k m (aa_wq A) (q_width A nq hdim) xs Q"
        "projects dev k m (aa_wk A) (nkv * hdim) xs K" "projects dev k m (aa_wv A) (nkv * hdim) xs v"
      and n: "aa_q_norm A = Some qn" "aa_k_norm A = Some kn" and ok: "rotate_ok dev A nq nkv hdim qn kn m"
      and r: "rotated F A nq nkv hdim rhd (t_data qn) (t_data kn) p m Q K = (q, kk, g)"
      and res: "qt = heads dev m nq hdim q" "kt = heads dev m nkv hdim kk" "vt = mat dev (nkv * hdim) m v"
        "gt = map_option (mat dev (nq * hdim) m) g" "out = fresh dev 2 (m * (nq * hdim))"
      by (auto simp: prepares_def)
    have lens: "length Q = m * q_width A nq hdim" "length K = m * (nkv * hdim)"
      using P by (simp_all add: projects_def)
    have "turned (mat dev k m xs) A m p (mat dev (q_width A nq hdim) m Q) (mat dev (nkv * hdim) m K) = Some (qt, kt, gt)"
      unfolding turned_Some [OF gpu A m lens p] using n ok r res by auto
    with P ok res show ?l unfolding eval by (simp add: projects_def rotate_ok_def mult.assoc)
  qed
qed

section \<open>Attending over the cache\<close>

definition attend_data ::
  "nat \<Rightarrow> nat \<Rightarrow> nat \<Rightarrow> nat \<Rightarrow> nat \<Rightarrow> 'f list \<Rightarrow> 'f list \<Rightarrow> 'f list \<Rightarrow> 'f list option \<Rightarrow> 'f list \<times> 'f list \<times> nat \<Rightarrow>
   'f list \<times> 'f list \<times> 'f list" where
  "attend_data warp nq nkv hdim m q kk v g = (\<lambda>(K, V, L).
     (let w = nkv * hdim; K' = append_kv_cache_kernel K kk (m * w) w L;
          V' = append_kv_cache_kernel V v (m * w) w L
      in (cached_gqa_kernel F warp BF16 q K' V' g m (L + m) nq nkv hdim, K', V')))"

definition attend_launch :: "device \<Rightarrow> nat \<Rightarrow> bool" where
  "attend_launch dev m \<longleftrightarrow> he_select (Env dev) \<and>
     (if m = 1 then he_launch (Env dev) ''launch fused cached GQA current-token kernel''
      else he_launch (Env dev) ''launch KV cache append kernel'' \<and> he_launch (Env dev) ''launch cached GQA kernel'')"

lemma attend_launch_parts:
  "attend_launch dev (m1 + m2) \<Longrightarrow> 0 < m1 \<Longrightarrow> 0 < m2 \<Longrightarrow> attend_launch dev m1 \<and> attend_launch dev m2"
  using decode_launch by (auto simp: attend_launch_def split: if_splits)

lemma write_gpu: "length xs = length ys \<Longrightarrow> write_prefix xs (gpu_buffer dev w ys) = gpu_buffer dev w xs"
  by (simp add: write_prefix_def)

lemma gpu_size: "bf_size (gpu_buffer dev w xs) = w * length xs"
  by (simp add: bf_size_def)

lemma gate_fits:
  "gate_length n g \<Longrightarrow> b \<le> 2 * n \<Longrightarrow>
     list_all (fits dev) (gate_check (map_option (gpu_buffer dev 2) g) b)"
  by (cases g) (simp_all add: gate_check_def gate_length_def gpu_size)

lemma set_kvc:
  "set_cache_data (kvc dev s K V L cap) (gpu_buffer dev 2 K') (gpu_buffer dev 2 V') = kvc dev s K' V' L cap"
  by (simp add: set_cache_data_def kvc_def mk_tensor_def)

lemma current_token_eval:
  assumes gpu: "is_gpu dev" "device_eq dev' dev" and pos: "0 < nq" "0 < nkv" "0 < hdim" and nm: "nq mod nkv = 0"
    and len: "length q = nq * hdim" "length kk = nkv * hdim" "length v = nkv * hdim"
    and g: "gate_length (nq * hdim) g" and st: "\<forall>x \<in> set kk. stored F BF16 x" "\<forall>x \<in> set v. stored F BF16 x"
    and cap: "length K = cap * (nkv * hdim)" "length V = cap * (nkv * hdim)" "L < cap"
  shows "hip_cached_gqa_with_current_token (Env dev) (fresh dev 2 (nq * hdim)) (gpu_buffer dev 2 q)
           (gpu_buffer dev' 2 K) (gpu_buffer dev' 2 V) (gpu_buffer dev 2 kk) (gpu_buffer dev 2 v)
           (map_option (gpu_buffer dev 2) g) BF16 (int L + 1) (int nq) (int nkv) (int hdim) = Inr r \<longleftrightarrow>
     attend_launch dev 1 \<and>
     (case attend_data (he_warp (Env dev)) nq nkv hdim 1 q kk v g (K, V, L) of (o', K', V') \<Rightarrow>
        r = (gpu_buffer dev 2 o', gpu_buffer dev' 2 K', gpu_buffer dev' 2 V'))"
proof -
  let ?w = "nkv * hdim"
  have le: "Suc L * ?w \<le> cap * ?w" using cap(3) by (intro mult_le_mono1) simp
  have k: "cached_gqa_current_token_kernel F (he_warp (Env dev)) BF16 q K V kk v g (Suc L) nq nkv hdim =
      attend_data (he_warp (Env dev)) nq nkv hdim 1 q kk v g (K, V, L)"
    by (subst current_token_kernel_eq) (use assms le in \<open>simp_all add: attend_data_def Let_def\<close>)
  have n: "nat (int L + 1) = Suc L" "nat (int L * int nkv * int hdim) = L * ?w" by (simp_all add: nat_mult_distrib)
  have mod: "int nq mod int nkv = 0" by (simp only: zmod_int [symmetric] nm)
  have sz: "L * ?w * 2 \<le> 2 * (cap * ?w)" using cap(3) by simp
  obtain o' K' V' where at: "attend_data (he_warp (Env dev)) nq nkv hdim 1 q kk v g (K, V, L) = (o', K', V')"
    by (cases "attend_data (he_warp (Env dev)) nq nkv hdim 1 q kk v g (K, V, L)")
  then have lens: "length o' = nq * hdim" "length K' = length K" "length V' = length V"
    by (auto simp: attend_data_def Let_def)
  have gc: "map_option bf_data (map_option (gpu_buffer dev 2) g) = g"
    by (cases g) simp_all
  show ?thesis
    using assms(1-5) sz mod gate_fits [OF g, of "nq * hdim * 2" dev]
    by (auto simp: hip_cached_gqa_with_current_token_def Let_def launch_Some n nat_products k at [unfolded One_nat_def] len cap lens gpu_size
        write_fresh write_gpu gc float_kernel_dtype_def attend_launch_def split: if_splits)
qed

lemma append_eval:
  assumes gpu: "is_gpu dev" "device_eq dev' dev" and pos: "0 < nkv" "0 < hdim" "0 < m"
    and len: "length kk = m * (nkv * hdim)" "length v = m * (nkv * hdim)"
    and cap: "length K = cap * (nkv * hdim)" "length V = cap * (nkv * hdim)" "L + m \<le> cap"
  shows "hip_append_kv_cache (Env dev) (gpu_buffer dev' 2 K) (gpu_buffer dev' 2 V) (gpu_buffer dev 2 kk)
           (gpu_buffer dev 2 v) BF16 (int m) (int nkv) (int hdim) (int L) (int cap) = Inr r \<longleftrightarrow>
     he_select (Env dev) \<and> he_launch (Env dev) ''launch KV cache append kernel'' \<and>
     r = (gpu_buffer dev' 2 (append_kv_cache_kernel K kk (m * (nkv * hdim)) (nkv * hdim) L),
          gpu_buffer dev' 2 (append_kv_cache_kernel V v (m * (nkv * hdim)) (nkv * hdim) L))"
  using assms
  by (auto simp: hip_append_kv_cache_def Let_def launch_Some nat_products gpu_size write_gpu
      float_kernel_dtype_def)

lemma cached_eval:
  assumes gpu: "is_gpu dev" "device_eq dev' dev" and pos: "0 < nq" "0 < nkv" "0 < hdim" "0 < m" and nm: "nq mod nkv = 0"
    and len: "length q = m * (nq * hdim)" and g: "gate_length (m * (nq * hdim)) g"
    and cap: "length K = cap * (nkv * hdim)" "length V = cap * (nkv * hdim)" "L + m \<le> cap"
  shows "hip_cached_gqa (Env dev) (fresh dev 2 (m * (nq * hdim))) (gpu_buffer dev 2 q) (gpu_buffer dev' 2 K)
           (gpu_buffer dev' 2 V) (map_option (gpu_buffer dev 2) g) BF16 (int m) (int L + int m) (int nq) (int nkv)
           (int hdim) = Inr r \<longleftrightarrow>
     he_select (Env dev) \<and> he_launch (Env dev) ''launch cached GQA kernel'' \<and>
     r = gpu_buffer dev 2 (cached_gqa_kernel F (he_warp (Env dev)) BF16 q K V g m (L + m) nq nkv hdim)"
proof -
  have mod: "int nq mod int nkv = 0" by (simp only: zmod_int [symmetric] nm)
  have n: "nat (int L + int m) = L + m" "nat ((int L + int m) * int nkv * int hdim) = (L + m) * (nkv * hdim)"
    by (simp_all add: nat_mult_distrib nat_add_distrib)
  have sz: "(L + m) * (nkv * hdim) * 2 \<le> 2 * (cap * (nkv * hdim))" using cap(3) by simp
  have gc: "map_option bf_data (map_option (gpu_buffer dev 2) g) = g"
    by (cases g) simp_all
  show ?thesis
    using assms(1-6) sz mod gate_fits [OF g, of "m * (nq * hdim) * 2" dev]
    by (auto simp: hip_cached_gqa_def Let_def launch_Some n nat_products len cap gpu_size
        write_fresh write_gpu gc float_kernel_dtype_def)
qed

definition ready ::
  "device \<Rightarrow> nat \<Rightarrow> nat \<Rightarrow> int \<Rightarrow> 'f attention_cache \<Rightarrow> device \<Rightarrow> 'f list \<Rightarrow> 'f list \<Rightarrow> nat \<Rightarrow> bool" where
  "ready dev nkv hdim cap c dev' K V L \<longleftrightarrow> is_gpu dev' \<and> device_eq dev' dev \<and>
     length K = nat cap * (nkv * hdim) \<and> length V = nat cap * (nkv * hdim) \<and> kv_length c = int L \<and>
     (c = kvc dev' [cap, int nkv, int hdim] K V L cap \<or>
      c = kv_empty \<and> L = 0 \<and> dev' = dev \<and> alloc dev (nat cap * (nkv * hdim) * 2) \<and>
      K = replicate (nat cap * (nkv * hdim)) (he_junk (Env dev)) \<and> V = K)"

lemma prepare_cache_iff:
  assumes gpu: "is_gpu dev" and A: "sized_args A nq nkv hdim rhd" and wf: "kv_wf c" and cap: "0 < aa_max_seq_len A"
  shows "prepare_cache (hip_backend (Env dev)) (mat dev k m xs) A c = Some c1 \<longleftrightarrow>
     (\<exists>dev' K V L. ready dev nkv hdim (aa_max_seq_len A) c dev' K V L \<and>
        c1 = kvc dev' [aa_max_seq_len A, int nkv, int hdim] K V L (aa_max_seq_len A))"
proof -
  note A' = sized_args_eqs [OF A]
  obtain n where n: "aa_max_seq_len A = int n" "0 < n" using cap by (metis zero_less_imp_eq_int)
  consider (empty) "c = kv_empty" | (full) dev0 s K V L cap0 where "is_gpu dev0" "c = kvc dev0 s K V L cap0"
      "length K = nat (numel s)" "length V = nat (numel s)"
    using wf unfolding kv_wf_def by blast
  then show ?thesis
  proof cases
    case empty
    have "prepare_cache (hip_backend (Env dev)) (mat dev k m xs) A kv_empty =
        (if alloc dev (n * (nkv * hdim) * 2)
         then Some (kvc dev [int n, int nkv, int hdim] (replicate (n * (nkv * hdim)) (he_junk (Env dev)))
                      (replicate (n * (nkv * hdim)) (he_junk (Env dev))) 0 (int n)) else None)"
      using gpu by (simp add: prepare_cache_def kv_empty_def A'(1-4) n create_fresh nat_products Let_def kvc_def fresh_def)
    then show ?thesis using empty gpu n
      by (auto simp: ready_def kv_empty_def kvc_def)
  next
    case full
    have "prepare_cache (hip_backend (Env dev)) (mat dev k m xs) A c = Some c1 \<longleftrightarrow>
        cap0 = int n \<and> s = [int n, int nkv, int hdim] \<and> device_eq dev0 dev \<and> c1 = c"
      using full by (auto simp: prepare_cache_def A'(1-4) n Let_def)
    moreover have "c \<noteq> kv_empty" using full(2) by (simp add: kvc_def kv_empty_def)
    moreover have "numel [int n, int nkv, int hdim] = int (n * (nkv * hdim))" by simp
    ultimately show ?thesis using full n
      by (auto simp: ready_def nat_products kvc_def mk_tensor_def)
  qed
qed

lemma attend_data_lengths:
  "attend_data warp nq nkv hdim m q kk v g (K, V, L) = (o', K', V') \<Longrightarrow>
     length o' = m * (nq * hdim) \<and> length K' = length K \<and> length V' = length V"
  by (auto simp: attend_data_def Let_def)

lemma attend_data_append:
  assumes len: "length q1 = m1 * (nq * hdim)" "length k1 = m1 * (nkv * hdim)" "length v1 = m1 * (nkv * hdim)"
      "length k2 = m2 * (nkv * hdim)" "length v2 = m2 * (nkv * hdim)"
    and g: "gate_length (m1 * (nq * hdim)) g1" "g1 = None \<longleftrightarrow> g2 = None"
    and nm: "nq mod nkv = 0" "0 < nkv" and cap: "(L + m1) * (nkv * hdim) \<le> length K" "(L + m1) * (nkv * hdim) \<le> length V"
    and a1: "attend_data warp nq nkv hdim m1 q1 k1 v1 g1 (K, V, L) = (o1, K1, V1)"
    and a2: "attend_data warp nq nkv hdim m2 q2 k2 v2 g2 (K1, V1, L + m1) = (o2, K2, V2)"
  shows "attend_data warp nq nkv hdim (m1 + m2) (q1 @ q2) (k1 @ k2) (v1 @ v2) (join_gate g1 g2) (K, V, L) =
           (o1 @ o2, K2, V2)"
proof -
  let ?w = "nkv * hdim"
  from a1 have o1: "o1 = cached_gqa_kernel F warp BF16 q1 K1 V1 g1 m1 (L + m1) nq nkv hdim"
    and KV1: "K1 = append_kv_cache_kernel K k1 (m1 * ?w) ?w L" "V1 = append_kv_cache_kernel V v1 (m1 * ?w) ?w L"
    by (auto simp: attend_data_def Let_def)
  from a2 have o2: "o2 = cached_gqa_kernel F warp BF16 q2 K2 V2 g2 m2 (L + m1 + m2) nq nkv hdim"
    and KV2: "K2 = append_kv_cache_kernel K1 k2 (m2 * ?w) ?w (L + m1)" "V2 = append_kv_cache_kernel V1 v2 (m2 * ?w) ?w (L + m1)"
    by (auto simp: attend_data_def Let_def)
  have K2: "append_kv_cache_kernel K (k1 @ k2) ((m1 + m2) * ?w) ?w L = K2"
    unfolding KV1 KV2 by (rule append_kv_append [OF len(2,4)])
  have V2: "append_kv_cache_kernel V (v1 @ v2) ((m1 + m2) * ?w) ?w L = V2"
    unfolding KV1 KV2 by (rule append_kv_append [OF len(3,5)])
  have lens: "length K1 = length K" "length V1 = length V" unfolding KV1 by simp_all
  have "cached_gqa_kernel F warp BF16 (q1 @ q2) K2 V2 (join_gate g1 g2) (m1 + m2) (L + m1 + m2) nq nkv hdim = o1 @ o2"
    unfolding o1 o2
  proof (rule cached_gqa_split [OF len(1) g nm], goal_cases)
    case (1 s r)
    with cap(1) show ?case unfolding KV2 by (intro append_kv_front) (simp_all add: lens)
  next
    case (2 s r)
    with cap(2) show ?case unfolding KV2 by (intro append_kv_front) (simp_all add: lens)
  qed
  with K2 V2 show ?thesis by (simp add: attend_data_def Let_def add.assoc)
qed

lemma attend_iff:
  assumes gpu: "is_gpu dev" and A: "sized_args A nq nkv hdim rhd" and wf: "kv_wf c"
    and cap: "0 < aa_max_seq_len A" "kv_length c + int m \<le> aa_max_seq_len A" and len: "length xs = m * k"
    and p: "prepares dev k A nq nkv hdim rhd m p xs q kk v g"
  shows "attend_cached (hip_backend (Env dev)) (mat dev k m xs) A (int m) (heads dev m nq hdim q) (heads dev m nkv hdim kk)
           (mat dev (nkv * hdim) m v) (map_option (mat dev (nq * hdim) m) g) (fresh dev 2 (m * (nq * hdim))) c = (Some t, c') \<longleftrightarrow>
     (\<exists>dev' K V L o' K' V'. ready dev nkv hdim (aa_max_seq_len A) c dev' K V L \<and> attend_launch dev m \<and>
        attend_data (he_warp (Env dev)) nq nkv hdim m q kk v g (K, V, L) = (o', K', V') \<and>
        t = mat dev (nq * hdim) m o' \<and>
        c' = kvc dev' [aa_max_seq_len A, int nkv, int hdim] K' V' (L + m) (aa_max_seq_len A))"
    (is "?a = (Some t, c') \<longleftrightarrow> ?r")
proof -
  note A' = sized_args_eqs [OF A]
  note P = prepares_facts [OF gpu A len p]
  let ?B = "hip_backend (Env dev)" and ?max = "aa_max_seq_len A"
  obtain n where n: "?max = int n" "0 < n" using cap by (metis zero_less_imp_eq_int)
  have step: "?a = (Some t, c') \<longleftrightarrow> attend_launch dev m \<and>
      (\<exists>o' K' V'. attend_data (he_warp (Env dev)) nq nkv hdim m q kk v g (K, V, L) = (o', K', V') \<and>
        t = mat dev (nq * hdim) m o' \<and> c' = kvc dev' [?max, int nkv, int hdim] K' V' (L + m) ?max)"
    if r: "ready dev nkv hdim ?max c dev' K V L"
      and pc: "prepare_cache ?B (mat dev k m xs) A c = Some (kvc dev' [?max, int nkv, int hdim] K V L ?max)" for dev' K V L
  proof -
    have dv: "device_eq dev' dev" and lens: "length K = n * (nkv * hdim)" "length V = n * (nkv * hdim)"
      and L: "L + m \<le> n" using r cap n by (auto simp: ready_def)
    have gm: "map_option t_buffer (map_option (mat dev (nq * hdim) m) g) = map_option (gpu_buffer dev 2) g"
      by (cases g) simp_all
    obtain o' K' V' where at: "attend_data (he_warp (Env dev)) nq nkv hdim m q kk v g (K, V, L) = (o', K', V')"
      by (cases "attend_data (he_warp (Env dev)) nq nkv hdim m q kk v g (K, V, L)")
    have att: "attended A (mat dev k m xs) (int m) (gpu_buffer dev 2 o') = mat dev (nq * hdim) m o'"
      by (simp add: attended_def mat_def A'(1-3))
    let ?c = "kvc dev' [?max, int nkv, int hdim] K V L ?max"
    have body: "?a = (if int m = 1
        then (case hip_cached_gqa_with_current_token (Env dev) (fresh dev 2 (m * (nq * hdim))) (gpu_buffer dev 2 q)
                (gpu_buffer dev' 2 K) (gpu_buffer dev' 2 V) (gpu_buffer dev 2 kk) (gpu_buffer dev 2 v)
                (map_option (gpu_buffer dev 2) g) BF16 (int L + int m) (int nq) (int nkv) (int hdim) of
                Inl _ \<Rightarrow> (None, ?c)
              | Inr (o', kb, vb) \<Rightarrow> (Some (attended A (mat dev k m xs) (int m) o'),
                  (set_cache_data ?c kb vb)\<lparr>kv_length := int L + int m\<rparr>))
        else (case hip_append_kv_cache (Env dev) (gpu_buffer dev' 2 K) (gpu_buffer dev' 2 V) (gpu_buffer dev 2 kk)
                (gpu_buffer dev 2 v) BF16 (int m) (int nkv) (int hdim) (int L) ?max of
                Inl _ \<Rightarrow> (None, ?c)
              | Inr (kb, vb) \<Rightarrow>
                  (case hip_cached_gqa (Env dev) (fresh dev 2 (m * (nq * hdim))) (gpu_buffer dev 2 q) kb vb
                          (map_option (gpu_buffer dev 2) g) BF16 (int m) (int L + int m) (int nq) (int nkv) (int hdim) of
                     Inl _ \<Rightarrow> (None, set_cache_data ?c kb vb)
                   | Inr o' \<Rightarrow> (Some (attended A (mat dev k m xs) (int m) o'),
                       (set_cache_data ?c kb vb)\<lparr>kv_length := int L + int m\<rparr>))))"
      by (simp add: attend_cached_def pc Let_def A'(1-3) gm split: sum.split)
    have upd: "(kvc d s Ka Va L cp)\<lparr>kv_length := int L + int m\<rparr> = kvc d s Ka Va (L + m) cp" for d s Ka Va cp
      by (simp add: kvc_def)
    show ?thesis
    proof (cases "m = 1")
      case True
      note P1 = P [unfolded True mult_1]
      note ev = current_token_eval [OF gpu dv A'(5) _ A'(7) A'(11) P1(1,2,3,4,6,7) lens]
      let ?call = "hip_cached_gqa_with_current_token (Env dev) (fresh dev 2 (m * (nq * hdim))) (gpu_buffer dev 2 q)
           (gpu_buffer dev' 2 K) (gpu_buffer dev' 2 V) (gpu_buffer dev 2 kk) (gpu_buffer dev 2 v)
           (map_option (gpu_buffer dev 2) g) BF16 (int L + int m) (int nq) (int nkv) (int hdim)"
      have eq: "?call = Inr r \<longleftrightarrow>
        attend_launch dev 1 \<and> r = (gpu_buffer dev 2 o', gpu_buffer dev' 2 K', gpu_buffer dev' 2 V')" for r
        using ev A'(6) L True at by simp
      have m1: "(int m = 1) = True" using True by simp
      note body1 = body [unfolded m1 if_True]
      have "?a = (Some t, c') \<longleftrightarrow> attend_launch dev 1 \<and> t = mat dev (nq * hdim) m o' \<and> c' = kvc dev' [?max, int nkv, int hdim] K' V' (L + m) ?max"
      proof (cases "attend_launch dev 1")
        case launch: True
        with eq have call: "?call = Inr (gpu_buffer dev 2 o', gpu_buffer dev' 2 K', gpu_buffer dev' 2 V')" by blast
        show ?thesis unfolding body1 call sum.case prod.case set_kvc att upd using launch by auto
      next
        case False
        with eq obtain e where "?call = Inl e" by (cases ?call) blast+
        then show ?thesis unfolding body1 using False by simp
      qed
      with True at show ?thesis by simp
    next
      case False
      note ap = append_eval [OF gpu dv A'(6,7) P(8,2,3) lens L]
      let ?K = "append_kv_cache_kernel K kk (m * (nkv * hdim)) (nkv * hdim) L"
      let ?V = "append_kv_cache_kernel V v (m * (nkv * hdim)) (nkv * hdim) L"
      have KV: "length ?K = n * (nkv * hdim)" "length ?V = n * (nkv * hdim)" using lens by simp_all
      note ce = cached_eval [OF gpu dv A'(5,6,7) P(8) A'(11) P(1,4) KV L]
      have KVo: "K' = ?K" "V' = ?V" "o' = cached_gqa_kernel F (he_warp (Env dev)) BF16 q ?K ?V g m (L + m) nq nkv hdim"
        using at by (auto simp: attend_data_def Let_def)
      have m1: "(int m = 1) = False" using False by simp
      note body2 = body [unfolded m1 if_False n(1)]
      let ?append = "hip_append_kv_cache (Env dev) (gpu_buffer dev' 2 K) (gpu_buffer dev' 2 V) (gpu_buffer dev 2 kk)
                (gpu_buffer dev 2 v) BF16 (int m) (int nkv) (int hdim) (int L) (int n)"
      let ?attend = "hip_cached_gqa (Env dev) (fresh dev 2 (m * (nq * hdim))) (gpu_buffer dev 2 q) (gpu_buffer dev' 2 ?K)
                 (gpu_buffer dev' 2 ?V) (map_option (gpu_buffer dev 2) g) BF16 (int m) (int L + int m) (int nq) (int nkv)
                 (int hdim)"
      have launch: "attend_launch dev m \<longleftrightarrow> he_select (Env dev) \<and>
          he_launch (Env dev) ''launch KV cache append kernel'' \<and> he_launch (Env dev) ''launch cached GQA kernel''"
        using False by (simp add: attend_launch_def)
      have "?a = (Some t, c') \<longleftrightarrow> attend_launch dev m \<and>
          t = mat dev (nq * hdim) m o' \<and> c' = kvc dev' [int n, int nkv, int hdim] K' V' (L + m) (int n)"
      proof (cases "attend_launch dev m")
        case launched: True
        with ap launch have append: "?append = Inr (gpu_buffer dev' 2 ?K, gpu_buffer dev' 2 ?V)" by blast
        from launched ce launch have attend: "?attend = Inr (gpu_buffer dev 2 o')" unfolding KVo(3) by blast
        show ?thesis unfolding body2 append sum.case prod.case attend set_kvc att upd KVo(1,2) using launched by auto
      next
        case False
        show ?thesis
        proof (cases "?append")
          case (Inl e)
          then show ?thesis unfolding body2 using False by simp
        next
          case (Inr r)
          with ap have r: "r = (gpu_buffer dev' 2 ?K, gpu_buffer dev' 2 ?V)" by blast
          from False launch ce ap Inr obtain e where "?attend = Inl e" by (cases ?attend) blast+
          then show ?thesis unfolding body2 Inr sum.case r prod.case using False by simp
        qed
      qed
      with at show ?thesis unfolding n(1) by simp
    qed
  qed
  show ?thesis
  proof
    assume l: "?a = (Some t, c')"
    then obtain c1 where "prepare_cache ?B (mat dev k m xs) A c = Some c1"
      by (auto simp: attend_cached_def split: option.splits)
    moreover from this prepare_cache_iff [OF gpu A wf cap(1)] obtain dev' K V L where
      "ready dev nkv hdim ?max c dev' K V L" "c1 = kvc dev' [?max, int nkv, int hdim] K V L ?max" by blast
    ultimately show ?r using step l by blast
  next
    assume ?r
    then obtain dev' K V L where r: "ready dev nkv hdim ?max c dev' K V L"
      and rest: "attend_launch dev m \<and> (\<exists>o' K' V'. attend_data (he_warp (Env dev)) nq nkv hdim m q kk v g (K, V, L) = (o', K', V') \<and>
        t = mat dev (nq * hdim) m o' \<and> c' = kvc dev' [?max, int nkv, int hdim] K' V' (L + m) ?max)" by blast
    from r prepare_cache_iff [OF gpu A wf cap(1)] have
      "prepare_cache ?B (mat dev k m xs) A c = Some (kvc dev' [?max, int nkv, int hdim] K V L ?max)" by blast
    from step [OF r this] rest show "?a = (Some t, c')" by blast
  qed
qed

section \<open>The operator\<close>

lemma attention_Some:
  assumes gpu: "is_gpu dev" and wf: "kv_wf c" and len: "length xs = m * k"
  shows "attention_forward F reg (mat dev k m xs) A (Some c) = (Some z, c'') \<longleftrightarrow>
     (\<exists>nq nkv hdim rhd q kk v g dev' K V L o' K' V'.
        attention_validate (mat dev k m xs) A = Inr () \<and> sized_args A nq nkv hdim rhd \<and>
        0 < aa_max_seq_len A \<and> kv_length c + int m \<le> aa_max_seq_len A \<and>
        prepares dev k A nq nkv hdim rhd m (kv_length c) xs q kk v g \<and>
        ready dev nkv hdim (aa_max_seq_len A) c dev' K V L \<and> attend_launch dev m \<and>
        attend_data (he_warp (Env dev)) nq nkv hdim m q kk v g (K, V, L) = (o', K', V') \<and>
        linear_forward F reg (mat dev (nq * hdim) m o') (aa_wo A) True None = Some z \<and>
        c'' = Some (kvc dev' [aa_max_seq_len A, int nkv, int hdim] K' V' (L + m) (aa_max_seq_len A)))"
    (is "?l \<longleftrightarrow> ?r")
proof -
  have nc: "\<not> is_cpu dev" using gpu by (simp add: is_gpu_not_cpu)
  have p: "0 \<le> kv_length c" using wf by (auto simp: kv_wf_def kv_empty_def)
  have lead: "leading_rows [int m, int k] = int m" by (simp add: leading_rows_def)
  let ?B = "hip_backend (Env dev)"
  let ?prep = "attention_prepare F reg ?B (mat dev k m xs) A (int m) (kv_length c) False"
  let ?attend = "\<lambda>(q_rot, k_rot, v, q_gate, out). attend_cached ?B (mat dev k m xs) A (int m) q_rot k_rot v q_gate out c"
  have eval: "?l \<longleftrightarrow> attention_validate (mat dev k m xs) A = Inr () \<and> 0 < aa_max_seq_len A \<and>
      kv_length c + int m \<le> aa_max_seq_len A \<and>
      (\<exists>P t c1. ?prep = Some P \<and> ?attend P = (Some t, c1) \<and> linear_forward F reg t (aa_wo A) True None = Some z \<and>
         c'' = Some c1)"
    using nc gpu p
    by (auto simp: attention_forward_def Let_def lead Option.bind_eq_Some_conv split: sum.splits option.splits prod.splits if_splits)
  have pos: "0 < m" if "?prep = Some P" for P
  proof -
    from that gpu obtain q where "linear_forward F reg (mat dev k m xs) (aa_wq A) True None = Some q"
      by (auto simp: attention_prepare_def project_qkv_def Let_def Option.bind_eq_Some_conv split: option.splits)
    from linear_result [OF gpu len this] show ?thesis by blast
  qed
  show ?thesis
  proof
    assume ?l
    then obtain P t c1 where v: "attention_validate (mat dev k m xs) A = Inr ()" "0 < aa_max_seq_len A"
        "kv_length c + int m \<le> aa_max_seq_len A" and P: "?prep = Some P" and a: "?attend P = (Some t, c1)"
      and z: "linear_forward F reg t (aa_wo A) True None = Some z" "c'' = Some c1"
      unfolding eval by blast
    from validate_sizes [OF v(1)] obtain nq nkv hdim rhd where A: "sized_args A nq nkv hdim rhd" by blast
    obtain qt kt vt gt out where PP: "P = (qt, kt, vt, gt, out)" by (cases P)
    from P [unfolded PP prepare_iff [OF gpu A pos [OF P] len p]] obtain q kk v' g where
      pr: "prepares dev k A nq nkv hdim rhd m (kv_length c) xs q kk v' g"
      and PQ: "P = (heads dev m nq hdim q, heads dev m nkv hdim kk, mat dev (nkv * hdim) m v',
           map_option (mat dev (nq * hdim) m) g, fresh dev 2 (m * (nq * hdim)))" unfolding PP by blast
    from a [unfolded PQ prod.case attend_iff [OF gpu A wf v(2,3) len pr]] z v A pr show ?r by blast
  next
    assume ?r
    then obtain nq nkv hdim rhd q kk v g dev' K V L o' K' V' where
        v: "attention_validate (mat dev k m xs) A = Inr ()" and A: "sized_args A nq nkv hdim rhd"
      and cap: "0 < aa_max_seq_len A" "kv_length c + int m \<le> aa_max_seq_len A"
      and pr: "prepares dev k A nq nkv hdim rhd m (kv_length c) xs q kk v g"
      and rest: "ready dev nkv hdim (aa_max_seq_len A) c dev' K V L" "attend_launch dev m"
        "attend_data (he_warp (Env dev)) nq nkv hdim m q kk v g (K, V, L) = (o', K', V')"
        "linear_forward F reg (mat dev (nq * hdim) m o') (aa_wo A) True None = Some z"
        "c'' = Some (kvc dev' [aa_max_seq_len A, int nkv, int hdim] K' V' (L + m) (aa_max_seq_len A))" by blast
    have m: "0 < m" using prepares_facts(8) [OF gpu A len pr] .
    let ?P = "(heads dev m nq hdim q, heads dev m nkv hdim kk, mat dev (nkv * hdim) m v,
           map_option (mat dev (nq * hdim) m) g, fresh dev 2 (m * (nq * hdim)))"
    have "?prep = Some ?P" unfolding prepare_iff [OF gpu A m len p] using pr by blast
    moreover have "?attend ?P = (Some (mat dev (nq * hdim) m o'),
        kvc dev' [aa_max_seq_len A, int nkv, int hdim] K' V' (L + m) (aa_max_seq_len A))"
      unfolding prod.case attend_iff [OF gpu A wf cap len pr] using rest by blast
    ultimately show ?l unfolding eval using v cap rest by blast
  qed
qed

lemma validate_out:
  "attention_validate (mat dev k m xs) A = Inr () \<Longrightarrow> t_shape (aa_wo A) ! 0 = int k"
  by (auto simp: attention_validate_def Let_def and_then_Inr dim_def split: if_splits)

lemma ready_kv_wf:
  assumes "ready dev nkv hdim cap c dev' K V L" and "0 < cap" and "length K' = length K" and "length V' = length V"
  shows "kv_wf (kvc dev' [cap, int nkv, int hdim] K' V' L' cap)"
proof -
  have "nat (numel [cap, int nkv, int hdim]) = nat cap * (nkv * hdim)"
    using assms(2) by (simp add: nat_mult_distrib)
  with assms show ?thesis unfolding kv_wf_def ready_def by metis
qed

text \<open>The attention operator, with the cache it is given and leaves.\<close>

definition cached_attention :: "'f attention_args \<Rightarrow> 'f tensor \<Rightarrow> 'f attention_cache \<Rightarrow> 'f tensor option \<times> 'f attention_cache" where
  "cached_attention A t c = (case attention_forward F reg t A (Some c) of
     (out, c') \<Rightarrow> (out, case c' of None \<Rightarrow> c | Some c'' \<Rightarrow> c''))"

lemma cached_attention_iff:
  assumes gpu: "is_gpu dev" and wf: "kv_wf c" and len: "length xs = m * k"
  shows "cached_attention A (mat dev k m xs) c = (Some z, c') \<longleftrightarrow>
     attention_forward F reg (mat dev k m xs) A (Some c) = (Some z, Some c')"
proof -
  obtain out c2 where r: "attention_forward F reg (mat dev k m xs) A (Some c) = (out, c2)"
    by (cases "attention_forward F reg (mat dev k m xs) A (Some c)")
  have "c2 \<noteq> None" if "out = Some z"
    using attention_Some [OF gpu wf len, of A z c2] r that by blast
  then show ?thesis by (auto simp: cached_attention_def r split: option.splits)
qed

lemma cached_attention_state_op:
  assumes gpu: "is_gpu dev"
  shows "state_op kv_wf dev k dev k (cached_attention A)"
  unfolding state_op_def
proof (intro conjI allI impI, goal_cases)
  case (1 m xs c z c')
  from 1(3) [unfolded cached_attention_iff [OF gpu 1(1,2)] attention_Some [OF gpu 1(1,2)]]
  obtain nq hdim o' where v: "attention_validate (mat dev k m xs) A = Inr ()"
    and o': "length o' = m * (nq * hdim)" and l: "linear_forward F reg (mat dev (nq * hdim) m o') (aa_wo A) True None = Some z"
    using attend_data_lengths by blast
  have "out_width (aa_wo A) = k" using validate_out [OF v] by (simp add: out_width_def)
  with linear_result [OF gpu o' l] show ?case by auto
next
  case (2 m xs c z c')
  from 2(3) [unfolded cached_attention_iff [OF gpu 2(1,2)] attention_Some [OF gpu 2(1,2)]]
  obtain nq nkv hdim q kk v g dev' K V L o' K' V' where cap: "0 < aa_max_seq_len A"
    and r: "ready dev nkv hdim (aa_max_seq_len A) c dev' K V L"
    and a: "attend_data (he_warp (Env dev)) nq nkv hdim m q kk v g (K, V, L) = (o', K', V')"
    and c': "c' = kvc dev' [aa_max_seq_len A, int nkv, int hdim] K' V' (L + m) (aa_max_seq_len A)" by blast
  from ready_kv_wf [OF r cap] attend_data_lengths [OF a] show ?case unfolding c' by blast
next
  case (3 m1 m2 xs ys c z c')
  let ?max = "aa_max_seq_len A"
  have len: "length (xs @ ys) = (m1 + m2) * k" using 3(2,3) by (simp add: add_mult_distrib)
  from 3(6) [unfolded cached_attention_iff [OF gpu 3(1) len] attention_Some [OF gpu 3(1) len]]
  obtain nq nkv hdim rhd q kk v g dev' K V L o' K' V' where
      val: "attention_validate (mat dev k (m1 + m2) (xs @ ys)) A = Inr ()" and A: "sized_args A nq nkv hdim rhd"
    and cap: "0 < ?max" "kv_length c + int (m1 + m2) \<le> ?max"
    and pr: "prepares dev k A nq nkv hdim rhd (m1 + m2) (kv_length c) (xs @ ys) q kk v g"
    and r: "ready dev nkv hdim ?max c dev' K V L" and la: "attend_launch dev (m1 + m2)"
    and a: "attend_data (he_warp (Env dev)) nq nkv hdim (m1 + m2) q kk v g (K, V, L) = (o', K', V')"
    and z: "linear_forward F reg (mat dev (nq * hdim) (m1 + m2) o') (aa_wo A) True None = Some z"
    and c': "c' = kvc dev' [?max, int nkv, int hdim] K' V' (L + (m1 + m2)) ?max" by blast
  note A' = sized_args_eqs [OF A]
  from prepares_split [OF gpu A pr 3(2-5)] obtain q1 k1 v1 g1 q2 k2 v2 g2 where
      p1: "prepares dev k A nq nkv hdim rhd m1 (kv_length c) xs q1 k1 v1 g1"
    and p2: "prepares dev k A nq nkv hdim rhd m2 (kv_length c + int m1) ys q2 k2 v2 g2"
    and parts: "q = q1 @ q2" "kk = k1 @ k2" "v = v1 @ v2" "g = join_gate g1 g2" by blast
  note P1 = prepares_facts [OF gpu A 3(2) p1] and P2 = prepares_facts [OF gpu A 3(3) p2]
  from r have L: "kv_length c = int L" and KV: "length K = nat ?max * (nkv * hdim)" "length V = nat ?max * (nkv * hdim)"
    and dv: "is_gpu dev'" "device_eq dev' dev" by (auto simp: ready_def)
  have "L + m1 \<le> nat ?max" using cap L by simp
  then have fit: "(L + m1) * (nkv * hdim) \<le> length K" "(L + m1) * (nkv * hdim) \<le> length V"
    unfolding KV by (intro mult_le_mono1; simp)+
  obtain o1 K1 V1 where a1: "attend_data (he_warp (Env dev)) nq nkv hdim m1 q1 k1 v1 g1 (K, V, L) = (o1, K1, V1)"
    by (cases "attend_data (he_warp (Env dev)) nq nkv hdim m1 q1 k1 v1 g1 (K, V, L)")
  obtain o2 K2 V2 where a2: "attend_data (he_warp (Env dev)) nq nkv hdim m2 q2 k2 v2 g2 (K1, V1, L + m1) = (o2, K2, V2)"
    by (cases "attend_data (he_warp (Env dev)) nq nkv hdim m2 q2 k2 v2 g2 (K1, V1, L + m1)")
  have gg: "g1 = None \<longleftrightarrow> g2 = None" using P1(5) P2(5) by simp
  from attend_data_append [OF P1(1-3) P2(2,3) P1(4) gg A'(11,6) fit a1 a2] a
  have o': "o' = o1 @ o2" "K' = K2" "V' = V2" by (simp_all add: parts)
  note l1 = attend_data_lengths [OF a1] and l2 = attend_data_lengths [OF a2]
  have "length o' = (m1 + m2) * (nq * hdim)" using attend_data_lengths [OF a] by blast
  from linear_result [OF gpu this z] validate_out [OF val] obtain w where
    w: "z = mat dev k (m1 + m2) w" "length w = (m1 + m2) * k" by (auto simp: out_width_def)
  have "projects dev (nq * hdim) (m1 + m2) (aa_wo A) k (o1 @ o2) w"
    using z w unfolding projects_def o' by simp
  from projects_split [OF gpu this validate_out [OF val] _ _ 3(4,5)] l1 l2 obtain u1 u2 where
    u: "projects dev (nq * hdim) m1 (aa_wo A) k o1 u1" "projects dev (nq * hdim) m2 (aa_wo A) k o2 u2" "w = u1 @ u2"
    by blast
  let ?c1 = "kvc dev' [?max, int nkv, int hdim] K1 V1 (L + m1) ?max"
  have wf1: "kv_wf ?c1" using ready_kv_wf [OF r cap(1)] l1 by blast
  have launch: "attend_launch dev m1" "attend_launch dev m2"
    using attend_launch_parts [OF la 3(4,5)] by blast+
  have v1: "attention_validate (mat dev k m1 xs) A = Inr ()" and v2: "attention_validate (mat dev k m2 ys) A = Inr ()"
    using val validate_rows by metis+
  have r1: "ready dev nkv hdim ?max ?c1 dev' K1 V1 (L + m1)"
    using dv KV l1 unfolding ready_def by simp
  have cap1: "kv_length c + int m1 \<le> ?max" and cap2: "kv_length ?c1 + int m2 \<le> ?max" using cap L by simp_all
  have p2': "prepares dev k A nq nkv hdim rhd m2 (kv_length ?c1) ys q2 k2 v2 g2" using p2 L by simp
  have c'2: "c' = kvc dev' [?max, int nkv, int hdim] K2 V2 (L + m1 + m2) ?max" using c' o' by (simp add: add.assoc)
  have "cached_attention A (mat dev k m1 xs) c = (Some (mat dev k m1 u1), ?c1)"
    unfolding cached_attention_iff [OF gpu 3(1,2)] attention_Some [OF gpu 3(1,2)]
    using v1 A cap(1) cap1 p1 r launch(1) a1 u(1) unfolding projects_def by blast
  moreover have "cached_attention A (mat dev k m2 ys) ?c1 = (Some (mat dev k m2 u2), c')"
    unfolding cached_attention_iff [OF gpu wf1 3(3)] attention_Some [OF gpu wf1 3(3)]
    using v2 A cap(1) cap2 p2' r1 launch(2) a2 u(2) c'2 unfolding projects_def by blast
  ultimately show ?case using w(1) u unfolding projects_def by blast
qed

text \<open>The mixer of an attention layer.\<close>

lemma attention_reference_state_op:
  assumes gpu: "is_gpu dev" and W: "lw_is_attention W"
  shows "state_op kv_wf dev k dev k (\<lambda>t c. case qwen_attention_reference F reg cfg t W dev (Some c) n of
           (out, c') \<Rightarrow> (out, case c' of None \<Rightarrow> c | Some c'' \<Rightarrow> c''))"
  using cached_attention_state_op [OF gpu, of k "attention_args_of cfg W n"] gpu W
  by (simp add: qwen_attention_reference_def cached_attention_def [abs_def])

text \<open>A copy of a cache is the cache.\<close>

lemma kv_clone_same:
  assumes wf: "kv_wf c" and cl: "engine_kv_clone reg c = Some c'"
  shows "c' = c"
proof -
  from wf consider "c = kv_empty" | dev s K V L cap where "is_gpu dev" "c = kvc dev s K V L cap"
    "length K = nat (numel s)" "length V = nat (numel s)" unfolding kv_wf_def by blast
  then show ?thesis
  proof cases
    case 1
    with cl show ?thesis by (simp add: engine_kv_clone_def kv_clone_def kv_empty_def fails_def)
  next
    case 2
    have w: "write_prefix xs (fresh dev 2 (nat (numel s))) = gpu_buffer dev 2 xs" if "length xs = nat (numel s)" for xs
      using that by (rule write_fresh)
    from cl 2 show ?thesis
      by (auto simp: engine_kv_clone_def kv_clone_def Let_def create_fresh kv_reusable_def kv_empty_def
          hip_copy_def hip_synchronize_def select_device_def and_then_Inr t_nbytes_def t_numel_def t_mem_def w kvc_def mk_tensor_def
          split: option.splits if_splits)
  qed
qed

end

end
