(* ===== verification/Hip_DeltaNet.thy ===== *)
theory Hip_DeltaNet
  imports Hip_Attention
begin

text \<open>
  The gated DeltaNet operator is causal on the GPU: the convolution window and the recurrent
  state the first part of a chunk leaves are all the second part needs. The invariant
  \<open>dn_wf\<close> of the cache says what the operator keeps and what \<open>clone\<close> reproduces.
\<close>

section \<open>The cache invariant\<close>

definition conv_tensor :: "device \<Rightarrow> shape \<Rightarrow> 'f list \<Rightarrow> 'f tensor" where
  "conv_tensor dev s C = mk_tensor s BF16 dev (gpu_buffer dev 2 C)"

definition rec_tensor :: "device \<Rightarrow> shape \<Rightarrow> 'f list \<Rightarrow> 'f tensor" where
  "rec_tensor dev r R = mk_tensor r FP32 dev (gpu_buffer dev 4 R)"

definition dn_wf :: "'f deltanet_cache \<Rightarrow> bool" where
  "dn_wf c \<longleftrightarrow> c = dn_empty \<or>
     (\<exists>dev s r C R l. is_gpu dev \<and>
        c = \<lparr>dn_conv = Some (conv_tensor dev s C), dn_recurrent = Some (rec_tensor dev r R), dn_length = l\<rparr> \<and>
        length C = nat (numel s) \<and> length R = nat (numel r))"

lemma state_tensor_simps [simp]:
  "t_shape (conv_tensor dev s C) = s" "t_dtype (conv_tensor dev s C) = BF16"
  "t_device (conv_tensor dev s C) = dev" "t_buffer (conv_tensor dev s C) = gpu_buffer dev 2 C"
  "t_mem (conv_tensor dev s C) = DeviceMem"
  "t_shape (rec_tensor dev r R) = r" "t_dtype (rec_tensor dev r R) = FP32"
  "t_device (rec_tensor dev r R) = dev" "t_buffer (rec_tensor dev r R) = gpu_buffer dev 4 R"
  "t_mem (rec_tensor dev r R) = DeviceMem"
  by (simp_all add: conv_tensor_def rec_tensor_def t_mem_def)

lemma state_tensor_update [simp]:
  "conv_tensor dev s C\<lparr>t_buffer := gpu_buffer dev 2 C'\<rparr> = conv_tensor dev s C'"
  "rec_tensor dev r R\<lparr>t_buffer := gpu_buffer dev 4 R'\<rparr> = rec_tensor dev r R'"
  by (simp_all add: conv_tensor_def rec_tensor_def mk_tensor_def)

lemma dn_wf_empty [simp]: "dn_wf dn_empty"
  by (simp add: dn_wf_def)

lemma dn_wf_shape: "dn_wf c \<Longrightarrow> dn_initialized c \<or> c = dn_empty"
  by (auto simp: dn_wf_def dn_initialized_def)

section \<open>The sizes\<close>

definition channels :: "nat \<Rightarrow> nat \<Rightarrow> nat \<Rightarrow> nat \<Rightarrow> nat" where
  "channels nqk nv kd vd = nqk * kd * 2 + nv * vd"

definition delta_sizes :: "'f qwen_config \<Rightarrow> 'f layer_weights \<Rightarrow> nat \<Rightarrow> nat \<Rightarrow> nat \<Rightarrow> nat \<Rightarrow> nat \<Rightarrow> bool" where
  "delta_sizes cfg W nqk nv kd vd ks \<longleftrightarrow>
     linear_num_key_heads cfg = int nqk \<and> linear_num_value_heads cfg = int nv \<and>
     linear_key_head_dim cfg = int kd \<and> linear_value_head_dim cfg = int vd \<and>
     linear_conv_kernel_dim cfg = int ks \<and> 0 < nqk \<and> 0 < nv \<and> 0 < kd \<and> 0 < vd \<and> 1 < ks \<and> nv mod nqk = 0 \<and>
     t_shape (lw_in_proj_qkv W) ! 0 = int (channels nqk nv kd vd) \<and>
     t_shape (lw_in_proj_z W) ! 0 = int (nv * vd) \<and> t_shape (lw_in_proj_a W) ! 0 = int nv \<and>
     t_shape (lw_in_proj_b W) ! 0 = int nv"

context hip_machine
begin

definition zeroed :: "device \<Rightarrow> nat \<Rightarrow> nat \<Rightarrow> 'f tensor option \<Rightarrow> device \<Rightarrow> 'f list \<Rightarrow> bool" where
  "zeroed dev w n t dev' xs \<longleftrightarrow>
     t = None \<and> dev' = dev \<and> alloc dev (n * w) \<and> he_memcpy (Env dev) \<and> xs = replicate n (f_zero F)"

definition conv_ready :: "device \<Rightarrow> nat \<Rightarrow> nat \<Rightarrow> 'f deltanet_cache \<Rightarrow> device \<Rightarrow> 'f list \<Rightarrow> bool" where
  "conv_ready dev ch h c dev' C \<longleftrightarrow> is_gpu dev' \<and> device_eq dev' dev \<and> length C = ch * h \<and>
     (dn_conv c = Some (conv_tensor dev' [int ch, int h] C) \<or> zeroed dev 2 (ch * h) (dn_conv c) dev' C)"

definition rec_ready :: "device \<Rightarrow> nat \<Rightarrow> nat \<Rightarrow> nat \<Rightarrow> 'f deltanet_cache \<Rightarrow> device \<Rightarrow> 'f list \<Rightarrow> bool" where
  "rec_ready dev nv kd vd c dev' R \<longleftrightarrow> is_gpu dev' \<and> device_eq dev' dev \<and> length R = nv * (kd * vd) \<and>
     (dn_recurrent c = Some (rec_tensor dev' [int nv, int kd, int vd] R) \<or>
      zeroed dev 4 (nv * (kd * vd)) (dn_recurrent c) dev' R)"

text \<open>What the two state lookups find in a well-formed cache.\<close>

lemma conv_state_Some:
  assumes gpu: "is_gpu dev" and wf: "dn_wf c"
  shows "state_tensor (hip_backend (Env dev)) (dn_conv c) [int ch, int h] BF16 dev DeviceMem = Some st \<longleftrightarrow>
     (\<exists>dev' C. conv_ready dev ch h c dev' C \<and> st = conv_tensor dev' [int ch, int h] C)"
proof -
  have w: "write_prefix (replicate n x) (fresh dev 2 n) = gpu_buffer dev 2 (replicate n x)" for n x
    by (rule write_fresh) simp
  from wf consider "c = dn_empty" | dev0 s r C R l where "is_gpu dev0"
      "c = \<lparr>dn_conv = Some (conv_tensor dev0 s C), dn_recurrent = Some (rec_tensor dev0 r R), dn_length = l\<rparr>"
      "length C = nat (numel s)" unfolding dn_wf_def by blast
  then show ?thesis
  proof cases
    case 1
    with gpu show ?thesis
      by (auto simp: state_tensor_def dn_empty_def conv_ready_def zeroed_def create_fresh nat_products
          hip_memset_def select_device_def alloc_def w conv_tensor_def split: option.splits)
  next
    case 2
    have inj: "conv_tensor d s A = conv_tensor d' s' B \<longleftrightarrow> d = d' \<and> s = s' \<and> A = B" for d d' s s' A B
      by (auto simp: conv_tensor_def mk_tensor_def)
    from 2 gpu show ?thesis
      by (auto simp: state_tensor_def conv_ready_def zeroed_def inj nat_products)
  qed
qed

lemma rec_state_Some:
  assumes gpu: "is_gpu dev" and wf: "dn_recurrent c = None \<or> (\<exists>dev0 r R. is_gpu dev0 \<and> dn_recurrent c = Some (rec_tensor dev0 r R) \<and>
      length R = nat (numel r))"
  shows "state_tensor (hip_backend (Env dev)) (dn_recurrent c) [int nv, int kd, int vd] FP32 dev DeviceMem = Some st \<longleftrightarrow>
     (\<exists>dev' R. rec_ready dev nv kd vd c dev' R \<and> st = rec_tensor dev' [int nv, int kd, int vd] R)"
proof -
  have w: "write_prefix (replicate n x) (fresh dev 4 n) = gpu_buffer dev 4 (replicate n x)" for n x
    by (rule write_fresh) simp
  from wf consider "dn_recurrent c = None" | dev0 r R where "is_gpu dev0"
      "dn_recurrent c = Some (rec_tensor dev0 r R)" "length R = nat (numel r)" by auto
  then show ?thesis
  proof cases
    case 1
    with gpu show ?thesis
      by (auto simp: state_tensor_def rec_ready_def zeroed_def create_fresh nat_products
          hip_memset_def select_device_def alloc_def w rec_tensor_def split: option.splits)
  next
    case 2
    have inj: "rec_tensor d s A = rec_tensor d' s' B \<longleftrightarrow> d = d' \<and> s = s' \<and> A = B" for d d' s s' A B
      by (auto simp: rec_tensor_def mk_tensor_def)
    from 2 gpu show ?thesis
      by (auto simp: state_tensor_def rec_ready_def zeroed_def inj nat_products)
  qed
qed

section \<open>The operators on the data\<close>

definition conv_ok :: "device \<Rightarrow> nat \<Rightarrow> nat \<Rightarrow> nat \<Rightarrow> nat \<Rightarrow> nat \<Rightarrow> 'f tensor \<Rightarrow> nat \<Rightarrow> bool" where
  "conv_ok dev nqk nv kd vd ks w m \<longleftrightarrow>
     t_numel w = int (channels nqk nv kd vd * ks) \<and> t_dtype w = BF16 \<and>
     device_eq (bf_device (t_buffer w)) dev \<and> channels nqk nv kd vd * ks * 2 \<le> bf_size (t_buffer w) \<and>
     alloc dev (m * (nqk * kd * 2)) \<and> alloc dev (m * (nv * vd * 2)) \<and>
     he_select (Env dev) \<and> he_launch (Env dev) (conv_launch_name (int m))"

lemma conv_ok_parts:
  assumes "conv_ok dev nqk nv kd vd ks w (m1 + m2)" and "0 < m1" and "0 < m2"
  shows "conv_ok dev nqk nv kd vd ks w m1" and "conv_ok dev nqk nv kd vd ks w m2"
proof -
  have "he_launch (Env dev) (conv_launch_name (int m))"
    if "he_launch (Env dev) (conv_launch_name (int (m1 + m2)))" for m
    using that assms(2,3) delta_launch(1) by (auto simp: conv_launch_name_def split: if_splits)
  with assms(1) alloc_parts [of dev m1 m2]
  show "conv_ok dev nqk nv kd vd ks w m1" and "conv_ok dev nqk nv kd vd ks w m2" by (auto simp: conv_ok_def)
qed

definition qkv_of :: "device \<Rightarrow> nat \<Rightarrow> nat \<Rightarrow> nat \<Rightarrow> nat \<Rightarrow> nat \<Rightarrow> 'f list \<times> 'f list \<times> 'f list \<Rightarrow> 'f deltanet_qkv" where
  "qkv_of dev m nqk nv kd vd = (\<lambda>(q, k, v).
     \<lparr>dq_query = heads dev m nqk kd q, dq_key = heads dev m nqk kd k, dq_value = heads dev m nv vd v\<rparr>)"

lemma conv_kernel_eval:
  assumes gpu: "is_gpu dev" "device_eq dev' dev" and pos: "0 < m" "0 < nqk" "0 < nv" "0 < kd" "0 < vd" "1 < ks"
      "nv mod nqk = 0"
    and mode: "ks = 4 \<longrightarrow> adds_to_zero F"
    and X: "length X = m * channels nqk nv kd vd" and C: "length C = channels nqk nv kd vd * (ks - 1)"
    and k: "deltanet_grouped_conv_kernel F BF16 C X (t_data w) m nqk nv kd vd ks = ((q, k, v), C')"
  shows "hip_deltanet_grouped_conv (Env dev) (fresh dev 2 (m * (nqk * kd)), fresh dev 2 (m * (nqk * kd)),
           fresh dev 2 (m * (nv * vd))) (gpu_buffer dev' 2 C) (gpu_buffer dev 2 X) (t_buffer w) BF16 (int m)
           (int nqk) (int nv) (int kd) (int vd) (int ks) = Inr r \<longleftrightarrow>
     device_eq (bf_device (t_buffer w)) dev \<and> channels nqk nv kd vd * ks * 2 \<le> bf_size (t_buffer w) \<and>
     he_select (Env dev) \<and> he_launch (Env dev) (conv_launch_name (int m)) \<and>
     r = ((gpu_buffer dev 2 q, gpu_buffer dev 2 k, gpu_buffer dev 2 v), gpu_buffer dev' 2 C')"
proof -
  note len = grouped_conv_lengths [OF mode k]
  have C': "length C' = length C" using len(4) C by (simp add: channels_def)
  have nm: "int nv mod int nqk = 0" by (simp only: zmod_int [symmetric] pos(7))
  have w: "write_prefix C' (gpu_buffer dev' 2 C) = gpu_buffer dev' 2 C'" using write_gpu [OF C'] .
  have ch: "int nqk * int kd * 2 + int nv * int vd = int (channels nqk nv kd vd)" by (simp add: channels_def)
  have ks: "int ks - 1 = int (ks - 1)" using pos(6) by simp
  have nk: "nat (int m * (int nqk * int kd)) = m * (nqk * kd)" "nat (int m * (int nv * int vd)) = m * (nv * vd)"
    by (simp_all add: nat_mult_distrib)
  have nc: "nat (int (channels nqk nv kd vd) * int (ks - 1)) = channels nqk nv kd vd * (ks - 1)"
     "nat (int m * int (channels nqk nv kd vd)) = m * channels nqk nv kd vd"
     "nat (int (channels nqk nv kd vd) * int ks) = channels nqk nv kd vd * ks" by (simp_all only: nat_products)
  have k': "deltanet_grouped_conv_kernel F BF16 C X (bf_data (t_buffer w)) m nqk nv kd vd ks = ((q, k, v), C')"
    using k by (simp add: t_data_def)
  have sC: "channels nqk nv kd vd * (ks - 1) * 2 \<le> 2 * length C" by (simp add: C)
  have sX: "m * channels nqk nv kd vd * 2 \<le> 2 * length X" by (simp add: X)
  have sizes: "m * (nqk * kd) * 2 \<le> 2 * (m * (nqk * kd))" "m * (nv * vd) * 2 \<le> 2 * (m * (nv * vd))" by simp_all
  have dd: "device_eq dev dev" by (simp add: device_eq_def)
  have fk: "float_kernel_dtype BF16" by (simp add: float_kernel_dtype_def)
  have args: "(0 < int m \<and> 0 < int nqk \<and> 0 < int nv \<and> int nv mod int nqk = 0 \<and> 0 < int kd \<and> 0 < int vd \<and> 1 < int ks) = True"
    using pos nm by simp
  show ?thesis
    unfolding hip_deltanet_grouped_conv_def prod.case Let_def launch_Some [OF gpu(1)] ch ks nk nc nat_int
      hip_env(3) buffer.select_convs k' write_fresh [OF len(1)] write_fresh [OF len(2)] write_fresh [OF len(3)] w args
      list.pred_inject fits_simp gpu_size fresh_simps SizeOfDType.simps
    using gpu(2) sC sX sizes by (simp add: dd fk)
qed

lemma conv_Some:
  assumes gpu: "is_gpu dev" and wf: "dn_wf c" and pos: "0 < m" "0 < nqk" "0 < nv" "0 < kd" "0 < vd" "1 < ks"
      "nv mod nqk = 0"
    and mode: "ks = 4 \<longrightarrow> adds_to_zero F" and X: "length X = m * channels nqk nv kd vd"
  shows "grouped_causal_conv reg (mat dev (channels nqk nv kd vd) m X) w (int nqk) (int nv) (int kd) (int vd) (int ks) c =
           (Some Y, c1) \<longleftrightarrow>
     (\<exists>dev' C q k v C'. conv_ready dev (channels nqk nv kd vd) (ks - 1) c dev' C \<and> conv_ok dev nqk nv kd vd ks w m \<and>
        deltanet_grouped_conv_kernel F BF16 C X (t_data w) m nqk nv kd vd ks = ((q, k, v), C') \<and>
        Y = qkv_of dev m nqk nv kd vd (q, k, v) \<and>
        c1 = c\<lparr>dn_conv := Some (conv_tensor dev' [int (channels nqk nv kd vd), int (ks - 1)] C')\<rparr>)"
    (is "?l \<longleftrightarrow> ?r")
proof -
  let ?ch = "channels nqk nv kd vd" and ?B = "hip_backend (Env dev)"
  have nc: "\<not> is_cpu dev" using gpu by (simp add: is_gpu_not_cpu)
  have nm: "int nv mod int nqk = 0" by (simp only: zmod_int [symmetric] pos(7))
  have ch: "int nqk * int kd * 2 + int nv * int vd = int ?ch" by (simp add: channels_def)
  have ks: "int ks - 1 = int (ks - 1)" using pos(6) by simp
  have chk: "int ?ch * int ks = int (?ch * ks)" by simp
  have cr: "create_buffer ?B (int m * (int nqk * int kd)) BF16 DeviceMem =
        (if alloc dev (m * (nqk * kd * 2)) then Some (fresh dev 2 (m * (nqk * kd))) else None)"
      "create_buffer ?B (int m * (int nv * int vd)) BF16 DeviceMem =
        (if alloc dev (m * (nv * vd * 2)) then Some (fresh dev 2 (m * (nv * vd))) else None)"
    using gpu by (simp_all add: create_fresh nat_products mult.assoc)
  let ?run = "\<lambda>st. hip_deltanet_grouped_conv (Env dev) (fresh dev 2 (m * (nqk * kd)), fresh dev 2 (m * (nqk * kd)),
           fresh dev 2 (m * (nv * vd))) (t_buffer st) (gpu_buffer dev 2 X) (t_buffer w) BF16 (int m)
           (int nqk) (int nv) (int kd) (int vd) (int ks)"
  have eval: "?l \<longleftrightarrow> t_numel w = int (?ch * ks) \<and> t_dtype w = BF16 \<and>
      alloc dev (m * (nqk * kd * 2)) \<and> alloc dev (m * (nv * vd * 2)) \<and>
      (\<exists>st q k v st'. state_tensor ?B (dn_conv c) [int ?ch, int (ks - 1)] BF16 dev DeviceMem = Some st \<and>
         ?run st = Inr ((q, k, v), st') \<and>
         Y = \<lparr>dq_query = mk_tensor [int m, int nqk, int kd] BF16 dev q,
              dq_key = mk_tensor [int m, int nqk, int kd] BF16 dev k,
              dq_value = mk_tensor [int m, int nv, int vd] BF16 dev v\<rparr> \<and>
         c1 = c\<lparr>dn_conv := Some (st\<lparr>t_buffer := st'\<rparr>)\<rparr>)"
    using gpu nc nm pos
    unfolding grouped_causal_conv_def Let_def ch ks chk mat_simps
    by (auto simp: ndim_def cr split: option.splits sum.splits prod.splits if_splits)
  show ?thesis
  proof
    assume ?l
    then obtain st q k v st' where h: "t_numel w = int (?ch * ks)" "t_dtype w = BF16"
        "alloc dev (m * (nqk * kd * 2))" "alloc dev (m * (nv * vd * 2))"
      and st: "state_tensor ?B (dn_conv c) [int ?ch, int (ks - 1)] BF16 dev DeviceMem = Some st"
      and r: "?run st = Inr ((q, k, v), st')"
      and Y: "Y = \<lparr>dq_query = mk_tensor [int m, int nqk, int kd] BF16 dev q,
              dq_key = mk_tensor [int m, int nqk, int kd] BF16 dev k,
              dq_value = mk_tensor [int m, int nv, int vd] BF16 dev v\<rparr>"
        "c1 = c\<lparr>dn_conv := Some (st\<lparr>t_buffer := st'\<rparr>)\<rparr>" unfolding eval by blast
    from st [unfolded conv_state_Some [OF gpu wf]] obtain dev' C where
      rd: "conv_ready dev ?ch (ks - 1) c dev' C" and st': "st = conv_tensor dev' [int ?ch, int (ks - 1)] C" by blast
    from rd have C: "device_eq dev' dev" "length C = ?ch * (ks - 1)" by (simp_all add: conv_ready_def)
    obtain q' k' v' C' where kn: "deltanet_grouped_conv_kernel F BF16 C X (t_data w) m nqk nv kd vd ks = ((q', k', v'), C')"
      by (metis prod.exhaust)
    from r [unfolded st' state_tensor_simps conv_kernel_eval [OF gpu C(1) pos mode X C(2) kn]] h Y rd st' kn
    show ?r by (fastforce simp: conv_ok_def qkv_of_def heads_def)
  next
    assume ?r
    then obtain dev' C q k v C' where rd: "conv_ready dev ?ch (ks - 1) c dev' C" and ok: "conv_ok dev nqk nv kd vd ks w m"
      and kn: "deltanet_grouped_conv_kernel F BF16 C X (t_data w) m nqk nv kd vd ks = ((q, k, v), C')"
      and Y: "Y = qkv_of dev m nqk nv kd vd (q, k, v)"
        "c1 = c\<lparr>dn_conv := Some (conv_tensor dev' [int ?ch, int (ks - 1)] C')\<rparr>" by blast
    from rd have C: "device_eq dev' dev" "length C = ?ch * (ks - 1)" by (simp_all add: conv_ready_def)
    have "state_tensor ?B (dn_conv c) [int ?ch, int (ks - 1)] BF16 dev DeviceMem =
        Some (conv_tensor dev' [int ?ch, int (ks - 1)] C)" unfolding conv_state_Some [OF gpu wf] using rd by blast
    moreover have "?run (conv_tensor dev' [int ?ch, int (ks - 1)] C) =
        Inr ((gpu_buffer dev 2 q, gpu_buffer dev 2 k, gpu_buffer dev 2 v), gpu_buffer dev' 2 C')"
      unfolding state_tensor_simps conv_kernel_eval [OF gpu C(1) pos mode X C(2) kn] using ok by (simp add: conv_ok_def)
    ultimately show ?l unfolding eval using ok Y by (auto simp: conv_ok_def qkv_of_def heads_def)
  qed
qed

definition rec_args ::
  "device \<Rightarrow> nat \<Rightarrow> nat \<Rightarrow> nat \<Rightarrow> 'f layer_weights \<Rightarrow> 'f list \<Rightarrow> 'f list \<Rightarrow> 'f list \<Rightarrow> 'f recurrent_args" where
  "rec_args dev m nv vd W a b z =
     \<lparr>ra_a = mat dev nv m a, ra_b = mat dev nv m b, ra_z = heads dev m nv vd z, ra_a_log = lw_a_log W,
      ra_dt_bias = lw_dt_bias W, ra_norm_weight = lw_linear_attn_norm W\<rparr>"

abbreviation delta_weights :: "'f layer_weights \<Rightarrow> 'f list \<times> 'f list \<times> 'f list" where
  "delta_weights W \<equiv> (t_data (lw_a_log W), t_data (lw_dt_bias W), t_data (lw_linear_attn_norm W))"

definition rec_ok :: "device \<Rightarrow> nat \<Rightarrow> nat \<Rightarrow> nat \<Rightarrow> 'f layer_weights \<Rightarrow> 'f \<Rightarrow> nat \<Rightarrow> bool" where
  "rec_ok dev nv kd vd W eps m \<longleftrightarrow>
     t_dtype (lw_a_log W) = BF16 \<and> t_dtype (lw_dt_bias W) = BF16 \<and> t_dtype (lw_linear_attn_norm W) = BF16 \<and>
     t_numel (lw_a_log W) = int nv \<and> t_numel (lw_dt_bias W) = int nv \<and> t_numel (lw_linear_attn_norm W) = int vd \<and>
     f_gt F eps (f_zero F) \<and> alloc dev (m * (nv * vd * 2)) \<and>
     fits dev (t_buffer (lw_a_log W), nv * 2, '''') \<and> fits dev (t_buffer (lw_dt_bias W), nv * 2, '''') \<and>
     fits dev (t_buffer (lw_linear_attn_norm W), vd * 2, '''') \<and>
     he_select (Env dev) \<and> he_launch (Env dev) (recurrent_launch_name (int m) (int kd) (int vd))"

lemma rec_ok_parts:
  assumes "rec_ok dev nv kd vd W eps (m1 + m2)" and "0 < m1" and "0 < m2"
  shows "rec_ok dev nv kd vd W eps m1" and "rec_ok dev nv kd vd W eps m2"
proof -
  have "he_launch (Env dev) (recurrent_launch_name (int m) (int kd) (int vd))"
    if "he_launch (Env dev) (recurrent_launch_name (int (m1 + m2)) (int kd) (int vd))" for m
    using that assms(2,3) delta_launch(2) by (auto simp: recurrent_launch_name_def split: if_splits)
  with assms(1) alloc_parts [of dev m1 m2]
  show "rec_ok dev nv kd vd W eps m1" and "rec_ok dev nv kd vd W eps m2" by (auto simp: rec_ok_def)
qed

lemma rec_kernel_eval:
  assumes gpu: "is_gpu dev" "device_eq dev' dev" and pos: "0 < m" "0 < nqk" "0 < nv" "0 < kd" "0 < vd" "nv mod nqk = 0"
    and len: "length q = m * (nqk * kd)" "length k = m * (nqk * kd)" "length v = m * (nv * vd)"
      "length a = m * nv" "length b = m * nv" "length z = m * (nv * vd)"
    and R: "length R = nv * (kd * vd)" and out: "length out = m * (nv * vd)" "length R' = length R"
    and kn: "deltanet_recurrent_kernel F (he_warp (Env dev)) BF16 R (q, k, v) (a, b, z) (delta_weights W) m nqk nv kd vd vd eps =
        (out, R')"
  shows "hip_deltanet_recurrent (Env dev) (fresh dev 2 (m * (nv * vd))) (gpu_buffer dev' 4 R)
           (gpu_buffer dev 2 q, gpu_buffer dev 2 k, gpu_buffer dev 2 v)
           (gpu_buffer dev 2 a, gpu_buffer dev 2 b, t_buffer (lw_a_log W), t_buffer (lw_dt_bias W),
            t_buffer (lw_linear_attn_norm W), gpu_buffer dev 2 z) BF16 (int m) (int nqk) (int nv) (int kd) (int vd) eps = Inr r \<longleftrightarrow>
     fits dev (t_buffer (lw_a_log W), nv * 2, '''') \<and> fits dev (t_buffer (lw_dt_bias W), nv * 2, '''') \<and>
     fits dev (t_buffer (lw_linear_attn_norm W), vd * 2, '''') \<and> f_gt F eps (f_zero F) \<and>
     he_select (Env dev) \<and> he_launch (Env dev) (recurrent_launch_name (int m) (int kd) (int vd)) \<and>
     r = (gpu_buffer dev 2 out, gpu_buffer dev' 4 R')"
proof -
  have nm: "int nv mod int nqk = 0" by (simp only: zmod_int [symmetric] pos(6))
  have w: "write_prefix R' (gpu_buffer dev' 4 R) = gpu_buffer dev' 4 R'" using write_gpu [OF out(2)] .
  have nk: "nat (int m * int nqk * int kd) = m * (nqk * kd)" "nat (int m * int nv * int vd) = m * (nv * vd)"
    "nat (int m * int nv) = m * nv" "nat (int nv * int kd * int vd) = nv * (kd * vd)"
    by (simp_all add: nat_products)
  have kn': "deltanet_recurrent_kernel F (he_warp (Env dev)) BF16 R (q, k, v) (a, b, z)
      (bf_data (t_buffer (lw_a_log W)), bf_data (t_buffer (lw_dt_bias W)), bf_data (t_buffer (lw_linear_attn_norm W)))
      m nqk nv kd vd vd eps = (out, R')" using kn by (simp add: t_data_def)
  have dd: "device_eq dev dev" by (simp add: device_eq_def)
  have fk: "float_kernel_dtype BF16" by (simp add: float_kernel_dtype_def)
  have sizes: "m * (nqk * kd) * 2 \<le> 2 * length q" "m * (nqk * kd) * 2 \<le> 2 * length k" "m * (nv * vd) * 2 \<le> 2 * length v"
      "m * nv * 2 \<le> 2 * length a" "m * nv * 2 \<le> 2 * length b" "m * (nv * vd) * 2 \<le> 2 * length z"
      "nv * (kd * vd) * 4 \<le> 4 * length R" "m * (nv * vd) * 2 \<le> 2 * (m * (nv * vd))"
    by (simp_all only: len R mult.commute [of _ 2] mult.commute [of _ 4] le_refl)
  have args: "(0 < int m \<and> 0 < int nqk \<and> 0 < int nv \<and> int nv mod int nqk = 0 \<and> 0 < int kd \<and> 0 < int vd \<and> e) = e" for e
    using pos nm by simp
  show ?thesis
    unfolding hip_deltanet_recurrent_def prod.case Let_def launch_Some [OF gpu(1)] nk nat_int
      hip_env(3) buffer.select_convs kn' fst_conv snd_conv write_fresh [OF out(1)] w args
      list.pred_inject fits_simp gpu_size fresh_simps SizeOfDType.simps
    using gpu(2) sizes by (auto simp add: dd fk)
qed

lemma rec_Some:
  assumes gpu: "is_gpu dev" and wf: "dn_recurrent c = None \<or> (\<exists>dev0 r R. is_gpu dev0 \<and> dn_recurrent c = Some (rec_tensor dev0 r R) \<and>
      length R = nat (numel r))"
    and pos: "0 < m" "0 < nqk" "0 < nv" "0 < kd" "0 < vd" "nv mod nqk = 0"
    and len: "length q = m * (nqk * kd)" "length k = m * (nqk * kd)" "length v = m * (nv * vd)"
      "length a = m * nv" "length b = m * nv" "length z = m * (nv * vd)"
    and da: "decode_agrees F (he_warp (Env dev)) BF16 (delta_weights W) nqk nv kd vd vd eps"
  shows "deltanet_recurrent F reg (qkv_of dev m nqk nv kd vd (q, k, v)) (rec_args dev m nv vd W a b z)
           (int nqk) (int nv) (int kd) (int vd) eps c = (Some t, c1) \<longleftrightarrow>
     (\<exists>dev' R out R'. rec_ready dev nv kd vd c dev' R \<and> rec_ok dev nv kd vd W eps m \<and>
        deltanet_recurrent_kernel F (he_warp (Env dev)) BF16 R (q, k, v) (a, b, z) (delta_weights W) m nqk nv kd vd vd eps =
          (out, R') \<and>
        t = heads dev m nv vd out \<and>
        c1 = c\<lparr>dn_recurrent := Some (rec_tensor dev' [int nv, int kd, int vd] R'), dn_length := dn_length c + int m\<rparr>)"
    (is "?l \<longleftrightarrow> ?r")
proof -
  let ?B = "hip_backend (Env dev)"
  have nc: "\<not> is_cpu dev" using gpu by (simp add: is_gpu_not_cpu)
  have nm: "int nv mod int nqk = 0" by (simp only: zmod_int [symmetric] pos(6))
  have cr: "create_buffer ?B (int m * (int nv * int vd)) BF16 DeviceMem =
        (if alloc dev (m * (nv * vd * 2)) then Some (fresh dev 2 (m * (nv * vd))) else None)"
    using gpu by (simp add: create_fresh nat_products mult.assoc)
  let ?run = "\<lambda>st. hip_deltanet_recurrent (Env dev) (fresh dev 2 (m * (nv * vd))) (t_buffer st)
           (gpu_buffer dev 2 q, gpu_buffer dev 2 k, gpu_buffer dev 2 v)
           (gpu_buffer dev 2 a, gpu_buffer dev 2 b, t_buffer (lw_a_log W), t_buffer (lw_dt_bias W),
            t_buffer (lw_linear_attn_norm W), gpu_buffer dev 2 z) BF16 (int m) (int nqk) (int nv) (int kd) (int vd) eps"
  let ?c = "t_dtype (lw_a_log W) = BF16 \<and> t_dtype (lw_dt_bias W) = BF16 \<and> t_dtype (lw_linear_attn_norm W) = BF16 \<and>
     t_numel (lw_a_log W) = int nv \<and> t_numel (lw_dt_bias W) = int nv \<and> t_numel (lw_linear_attn_norm W) = int vd \<and>
     f_gt F eps (f_zero F)"
  have okc: "recurrent_ok F (qkv_of dev m nqk nv kd vd (q, k, v)) (rec_args dev m nv vd W a b z)
           (int nqk) (int nv) (int kd) (int vd) eps \<longleftrightarrow> ?c"
    using nc nm by (auto simp: recurrent_ok_def qkv_of_def rec_args_def Let_def ndim_def)
  have eval: "?l \<longleftrightarrow> ?c \<and> alloc dev (m * (nv * vd * 2)) \<and>
      (\<exists>st o' st'. state_tensor ?B (dn_recurrent c) [int nv, int kd, int vd] FP32 dev DeviceMem = Some st \<and>
         ?run st = Inr (o', st') \<and> t = mk_tensor [int m, int nv, int vd] BF16 dev o' \<and>
         c1 = c\<lparr>dn_recurrent := Some (st\<lparr>t_buffer := st'\<rparr>), dn_length := dn_length c + int m\<rparr>)"
    using gpu unfolding deltanet_recurrent_def okc
    by (auto simp: qkv_of_def rec_args_def Let_def cr split: option.splits sum.splits prod.splits if_splits)
  show ?thesis
  proof
    assume ?l
    then obtain st o' st' where h: ?c "alloc dev (m * (nv * vd * 2))"
      and st: "state_tensor ?B (dn_recurrent c) [int nv, int kd, int vd] FP32 dev DeviceMem = Some st"
      and r: "?run st = Inr (o', st')" and t: "t = mk_tensor [int m, int nv, int vd] BF16 dev o'"
        "c1 = c\<lparr>dn_recurrent := Some (st\<lparr>t_buffer := st'\<rparr>), dn_length := dn_length c + int m\<rparr>" unfolding eval by blast
    from st [unfolded rec_state_Some [OF gpu wf]] obtain dev' R where
      rd: "rec_ready dev nv kd vd c dev' R" and st': "st = rec_tensor dev' [int nv, int kd, int vd] R" by blast
    from rd have R: "device_eq dev' dev" "length R = nv * (kd * vd)" by (simp_all add: rec_ready_def)
    obtain out R' where kn: "deltanet_recurrent_kernel F (he_warp (Env dev)) BF16 R (q, k, v) (a, b, z) (delta_weights W)
        m nqk nv kd vd vd eps = (out, R')" by fastforce
    from recurrent_lengths [OF da kn] R have ol: "length out = m * (nv * vd)" "length R' = length R" by simp_all
    from r [unfolded st' state_tensor_simps rec_kernel_eval [OF gpu R(1) pos len R(2) ol kn]]
    have f: "fits dev (t_buffer (lw_a_log W), nv * 2, '''')" "fits dev (t_buffer (lw_dt_bias W), nv * 2, '''')"
      "fits dev (t_buffer (lw_linear_attn_norm W), vd * 2, '''')" "he_select (Env dev)"
      "he_launch (Env dev) (recurrent_launch_name (int m) (int kd) (int vd))" "o' = gpu_buffer dev 2 out" "st' = gpu_buffer dev' 4 R'"
      by simp_all
    have ok: "rec_ok dev nv kd vd W eps m" unfolding rec_ok_def using h f(1-5) by blast
    show ?r using rd ok kn t unfolding f(6,7) st' state_tensor_update heads_def by blast
  next
    assume ?r
    then obtain dev' R out R' where rd: "rec_ready dev nv kd vd c dev' R" and ok: "rec_ok dev nv kd vd W eps m"
      and kn: "deltanet_recurrent_kernel F (he_warp (Env dev)) BF16 R (q, k, v) (a, b, z) (delta_weights W)
        m nqk nv kd vd vd eps = (out, R')"
      and t: "t = heads dev m nv vd out"
        "c1 = c\<lparr>dn_recurrent := Some (rec_tensor dev' [int nv, int kd, int vd] R'), dn_length := dn_length c + int m\<rparr>"
      by blast
    from rd have R: "device_eq dev' dev" "length R = nv * (kd * vd)" by (simp_all add: rec_ready_def)
    from recurrent_lengths [OF da kn] R have ol: "length out = m * (nv * vd)" "length R' = length R" by simp_all
    have st: "state_tensor ?B (dn_recurrent c) [int nv, int kd, int vd] FP32 dev DeviceMem =
        Some (rec_tensor dev' [int nv, int kd, int vd] R)" unfolding rec_state_Some [OF gpu wf] using rd by blast
    have "?run (rec_tensor dev' [int nv, int kd, int vd] R) = Inr (gpu_buffer dev 2 out, gpu_buffer dev' 4 R')"
      unfolding state_tensor_simps rec_kernel_eval [OF gpu R(1) pos len R(2) ol kn] using ok unfolding rec_ok_def by blast
    moreover have ?c "alloc dev (m * (nv * vd * 2))" using ok unfolding rec_ok_def by blast+
    ultimately show ?l unfolding eval using st t unfolding heads_def by fastforce
  qed
qed

section \<open>The mixer\<close>

definition delta_step ::
  "device \<Rightarrow> nat \<Rightarrow> 'f layer_weights \<Rightarrow> nat \<Rightarrow> nat \<Rightarrow> nat \<Rightarrow> nat \<Rightarrow> nat \<Rightarrow> 'f \<Rightarrow> nat \<Rightarrow> 'f list \<Rightarrow>
   'f list \<Rightarrow> 'f list \<Rightarrow> 'f list \<Rightarrow> 'f list \<Rightarrow> 'f list \<Rightarrow> bool" where
  "delta_step dev k W nqk nv kd vd ks eps m xs C R out C' R' \<longleftrightarrow>
     (\<exists>X Z a b q kk v r.
        projects dev k m (lw_in_proj_qkv W) (channels nqk nv kd vd) xs X \<and>
        projects dev k m (lw_in_proj_z W) (nv * vd) xs Z \<and>
        projects dev k m (lw_in_proj_a W) nv xs a \<and> projects dev k m (lw_in_proj_b W) nv xs b \<and> 0 < m \<and>
        conv_ok dev nqk nv kd vd ks (lw_conv1d_weight W) m \<and>
        deltanet_grouped_conv_kernel F BF16 C X (t_data (lw_conv1d_weight W)) m nqk nv kd vd ks = ((q, kk, v), C') \<and>
        rec_ok dev nv kd vd W eps m \<and>
        deltanet_recurrent_kernel F (he_warp (Env dev)) BF16 R (q, kk, v) (a, b, Z) (delta_weights W) m nqk nv kd vd vd eps =
          (r, R') \<and>
        projects dev (nv * vd) m (lw_linear_out_proj W) (out_width (lw_linear_out_proj W)) r out)"

text \<open>The exactness of the arithmetic the two decode kernels need.\<close>

definition delta_exact :: "device \<Rightarrow> 'f layer_weights \<Rightarrow> nat \<Rightarrow> nat \<Rightarrow> nat \<Rightarrow> nat \<Rightarrow> nat \<Rightarrow> 'f \<Rightarrow> bool" where
  "delta_exact dev W nqk nv kd vd ks eps \<longleftrightarrow> (ks = 4 \<longrightarrow> adds_to_zero F) \<and>
     decode_agrees F (he_warp (Env dev)) BF16 (delta_weights W) nqk nv kd vd vd eps"

lemma delta_step_split:
  assumes gpu: "is_gpu dev" and sz: "delta_sizes cfg W nqk nv kd vd ks" and ex: "delta_exact dev W nqk nv kd vd ks eps"
    and len: "length xs = m1 * k" "length ys = m2 * k" and pos: "0 < m1" "0 < m2"
    and st: "delta_step dev k W nqk nv kd vd ks eps (m1 + m2) (xs @ ys) C R out C' R'"
  shows "\<exists>o1 C1 R1 o2. delta_step dev k W nqk nv kd vd ks eps m1 xs C R o1 C1 R1 \<and>
     delta_step dev k W nqk nv kd vd ks eps m2 ys C1 R1 o2 C' R' \<and> out = o1 @ o2"
proof -
  let ?ch = "channels nqk nv kd vd" and ?n = "out_width (lw_linear_out_proj W)"
  from st obtain X Z a b q kk v r where
      P: "projects dev k (m1 + m2) (lw_in_proj_qkv W) ?ch (xs @ ys) X"
        "projects dev k (m1 + m2) (lw_in_proj_z W) (nv * vd) (xs @ ys) Z"
        "projects dev k (m1 + m2) (lw_in_proj_a W) nv (xs @ ys) a"
        "projects dev k (m1 + m2) (lw_in_proj_b W) nv (xs @ ys) b"
    and cok: "conv_ok dev nqk nv kd vd ks (lw_conv1d_weight W) (m1 + m2)"
    and ck: "deltanet_grouped_conv_kernel F BF16 C X (t_data (lw_conv1d_weight W)) (m1 + m2) nqk nv kd vd ks = ((q, kk, v), C')"
    and rok: "rec_ok dev nv kd vd W eps (m1 + m2)"
    and rk: "deltanet_recurrent_kernel F (he_warp (Env dev)) BF16 R (q, kk, v) (a, b, Z) (delta_weights W) (m1 + m2)
        nqk nv kd vd vd eps = (r, R')"
    and o: "projects dev (nv * vd) (m1 + m2) (lw_linear_out_proj W) ?n r out"
    unfolding delta_step_def by blast
  have w: "t_shape (lw_in_proj_qkv W) ! 0 = int ?ch" "t_shape (lw_in_proj_z W) ! 0 = int (nv * vd)"
    "t_shape (lw_in_proj_a W) ! 0 = int nv" "t_shape (lw_in_proj_b W) ! 0 = int nv"
    using sz unfolding delta_sizes_def by blast+
  have mode: "ks = 4 \<longrightarrow> adds_to_zero F" and da: "decode_agrees F (he_warp (Env dev)) BF16 (delta_weights W) nqk nv kd vd vd eps"
    using ex unfolding delta_exact_def by blast+
  from projects_split [OF gpu P(1) w(1) len pos] obtain X1 X2 where X:
    "projects dev k m1 (lw_in_proj_qkv W) ?ch xs X1" "projects dev k m2 (lw_in_proj_qkv W) ?ch ys X2" "X = X1 @ X2" by blast
  from projects_split [OF gpu P(2) w(2) len pos] obtain Z1 Z2 where Z:
    "projects dev k m1 (lw_in_proj_z W) (nv * vd) xs Z1" "projects dev k m2 (lw_in_proj_z W) (nv * vd) ys Z2" "Z = Z1 @ Z2" by blast
  from projects_split [OF gpu P(3) w(3) len pos] obtain a1 a2 where a:
    "projects dev k m1 (lw_in_proj_a W) nv xs a1" "projects dev k m2 (lw_in_proj_a W) nv ys a2" "a = a1 @ a2" by blast
  from projects_split [OF gpu P(4) w(4) len pos] obtain b1 b2 where b:
    "projects dev k m1 (lw_in_proj_b W) nv xs b1" "projects dev k m2 (lw_in_proj_b W) nv ys b2" "b = b1 @ b2" by blast
  obtain q1 k1 v1 C1 where c1: "deltanet_grouped_conv_kernel F BF16 C X1 (t_data (lw_conv1d_weight W)) m1 nqk nv kd vd ks =
      ((q1, k1, v1), C1)" by (metis prod.exhaust)
  obtain q2 k2 v2 C2 where c2: "deltanet_grouped_conv_kernel F BF16 C1 X2 (t_data (lw_conv1d_weight W)) m2 nqk nv kd vd ks =
      ((q2, k2, v2), C2)" by (metis prod.exhaust)
  have lX: "length X1 = m1 * (nqk * kd * 2 + nv * vd)" using X(1) by (simp add: projects_def channels_def)
  from grouped_conv_append [OF mode lX c1 c2] ck X(3) have
    qkv: "q = q1 @ q2" "kk = k1 @ k2" "v = v1 @ v2" "C' = C2" by simp_all
  note l1 = grouped_conv_lengths(1-3) [OF mode c1]
  have lz: "length a1 = m1 * nv" "length b1 = m1 * nv" "length Z1 = m1 * (nv * vd)"
    using a(1) b(1) Z(1) by (simp_all add: projects_def)
  obtain r1 R1 where r1: "deltanet_recurrent_kernel F (he_warp (Env dev)) BF16 R (q1, k1, v1) (a1, b1, Z1) (delta_weights W) m1
      nqk nv kd vd vd eps = (r1, R1)" by fastforce
  obtain r2 R2 where r2: "deltanet_recurrent_kernel F (he_warp (Env dev)) BF16 R1 (q2, k2, v2) (a2, b2, Z2) (delta_weights W) m2
      nqk nv kd vd vd eps = (r2, R2)" by fastforce
  from recurrent_append [OF da l1 lz r1 r2] rk qkv a(3) b(3) Z(3) have
    r: "r = r1 @ r2" "R' = R2" by simp_all
  have lr: "length r1 = m1 * (nv * vd)" "length r2 = m2 * (nv * vd)"
    using recurrent_lengths(1) [OF da r1] recurrent_lengths(1) [OF da r2] by simp_all
  have shw: "t_shape (lw_linear_out_proj W) ! 0 = int ?n"
  proof -
    have "length r = (m1 + m2) * (nv * vd)" using lr r by (simp add: add_mult_distrib)
    from linear_result [OF gpu this, of "lw_linear_out_proj W"] o show ?thesis by (auto simp: projects_def)
  qed
  from projects_split [OF gpu o [unfolded r] shw lr pos] obtain o1 o2 where
    o12: "projects dev (nv * vd) m1 (lw_linear_out_proj W) ?n r1 o1"
      "projects dev (nv * vd) m2 (lw_linear_out_proj W) ?n r2 o2" "out = o1 @ o2" by blast
  have "delta_step dev k W nqk nv kd vd ks eps m1 xs C R o1 C1 R1"
    unfolding delta_step_def using X(1) Z(1) a(1) b(1) pos(1) conv_ok_parts(1) [OF cok pos] c1 rec_ok_parts(1) [OF rok pos] r1 o12(1)
    by blast
  moreover have "delta_step dev k W nqk nv kd vd ks eps m2 ys C1 R1 o2 C' R'"
    unfolding delta_step_def qkv(4) r(2)
    using X(2) Z(2) a(2) b(2) pos(2) conv_ok_parts(2) [OF cok pos] c2 rec_ok_parts(2) [OF rok pos] r2 o12(2) by blast
  ultimately show ?thesis using o12(3) by blast
qed

lemma delta_step_lengths:
  assumes gpu: "is_gpu dev" and ex: "delta_exact dev W nqk nv kd vd ks eps"
    and st: "delta_step dev k W nqk nv kd vd ks eps m xs C R out C' R'"
  shows "length out = m * out_width (lw_linear_out_proj W)" and "0 < m"
    and "length C = channels nqk nv kd vd * (ks - 1) \<Longrightarrow> length C' = length C"
    and "length R = nv * (kd * vd) \<Longrightarrow> length R' = length R"
proof -
  from st obtain X Z a b q kk v r where
      ck: "deltanet_grouped_conv_kernel F BF16 C X (t_data (lw_conv1d_weight W)) m nqk nv kd vd ks = ((q, kk, v), C')"
    and rk: "deltanet_recurrent_kernel F (he_warp (Env dev)) BF16 R (q, kk, v) (a, b, Z) (delta_weights W) m nqk nv kd vd vd eps =
        (r, R')"
    and o: "projects dev (nv * vd) m (lw_linear_out_proj W) (out_width (lw_linear_out_proj W)) r out" and m: "0 < m"
    unfolding delta_step_def by blast
  from ex have mode: "ks = 4 \<longrightarrow> adds_to_zero F"
    and da: "decode_agrees F (he_warp (Env dev)) BF16 (delta_weights W) nqk nv kd vd vd eps" by (simp_all add: delta_exact_def)
  show "length out = m * out_width (lw_linear_out_proj W)" using o by (simp add: projects_def)
  show "0 < m" by (rule m)
  show "length C' = length C" if "length C = channels nqk nv kd vd * (ks - 1)"
    using grouped_conv_lengths(4) [OF mode ck] that by (simp add: channels_def)
  show "length R' = length R" if "length R = nv * (kd * vd)"
    using recurrent_lengths(2) [OF da rk that] .
qed

text \<open>A successful run fixes the sizes.\<close>

lemma delta_sizes_ex:
  assumes gpu: "is_gpu dev" and len: "length xs = m * k"
    and s: "qwen_deltanet_reference F reg cfg (mat dev k m xs) W dev c = (Some z, c')"
  shows "\<exists>nqk nv kd vd ks. delta_sizes cfg W nqk nv kd vd ks"
proof -
  let ?lin = "\<lambda>w. linear_forward F reg (mat dev k m xs) w True None"
  from s obtain qkv Z a b X c1 z' a' b' where
      l: "?lin (lw_in_proj_qkv W) = Some qkv" "?lin (lw_in_proj_z W) = Some Z" "?lin (lw_in_proj_a W) = Some a"
        "?lin (lw_in_proj_b W) = Some b"
    and g: "grouped_causal_conv reg qkv (lw_conv1d_weight W) (linear_num_key_heads cfg) (linear_num_value_heads cfg)
        (linear_key_head_dim cfg) (linear_value_head_dim cfg) (linear_conv_kernel_dim cfg) c = (Some X, c1)"
    and r: "reshape a [int m, linear_num_value_heads cfg] = Some a'" "reshape b [int m, linear_num_value_heads cfg] = Some b'"
      "reshape Z [int m, linear_num_value_heads cfg, linear_value_head_dim cfg] = Some z'"
    by (auto simp: qwen_deltanet_reference_def Let_def split: option.splits prod.splits if_splits)
  from linear_result [OF gpu len l(1)] linear_result [OF gpu len l(2)] linear_result [OF gpu len l(3)]
    linear_result [OF gpu len l(4)] obtain X' Z' A B where
    q: "qkv = mat dev (out_width (lw_in_proj_qkv W)) m X'" "t_shape (lw_in_proj_qkv W) ! 0 = int (out_width (lw_in_proj_qkv W))" and
    Z: "Z = mat dev (out_width (lw_in_proj_z W)) m Z'" "t_shape (lw_in_proj_z W) ! 0 = int (out_width (lw_in_proj_z W))" and
    a: "a = mat dev (out_width (lw_in_proj_a W)) m A" "t_shape (lw_in_proj_a W) ! 0 = int (out_width (lw_in_proj_a W))" and
    b: "b = mat dev (out_width (lw_in_proj_b W)) m B" "t_shape (lw_in_proj_b W) ! 0 = int (out_width (lw_in_proj_b W))" and
    m: "0 < m" by auto
  from g gpu have ar: "0 < linear_num_key_heads cfg" "0 < linear_num_value_heads cfg" "0 < linear_key_head_dim cfg"
      "0 < linear_value_head_dim cfg" "1 < linear_conv_kernel_dim cfg"
      "linear_num_value_heads cfg mod linear_num_key_heads cfg = 0"
    and ch: "int (out_width (lw_in_proj_qkv W)) = linear_num_key_heads cfg * linear_key_head_dim cfg * 2 +
        linear_num_value_heads cfg * linear_value_head_dim cfg"
    by (auto simp: q(1) grouped_causal_conv_def Let_def hip_deltanet_grouped_conv_def launch_Some
        split: option.splits sum.splits prod.splits if_splits)
  obtain nqk nv kd vd ks where n: "linear_num_key_heads cfg = int nqk" "linear_num_value_heads cfg = int nv"
      "linear_key_head_dim cfg = int kd" "linear_value_head_dim cfg = int vd" "linear_conv_kernel_dim cfg = int ks"
    using ar(1-5) by (metis zero_less_imp_eq_int less_trans zero_less_one)
  have wa: "out_width (lw_in_proj_a W) = nv" "out_width (lw_in_proj_b W) = nv"
    using r(1,2) m by (auto simp: reshape_def a(1) b(1) n split: if_splits)
  have "int m * (int nv * int vd) = int m * int (out_width (lw_in_proj_z W))"
    using r(3) by (simp add: reshape_def Z(1) n split: if_splits)
  then have wz: "out_width (lw_in_proj_z W) = nv * vd" using m by (simp flip: of_nat_mult)
  have "nv mod nqk = 0" using ar(6) unfolding n zmod_int [symmetric] by simp
  moreover have "out_width (lw_in_proj_qkv W) = channels nqk nv kd vd"
    using ch unfolding n channels_def by (simp flip: of_nat_mult of_nat_add)
  ultimately have "delta_sizes cfg W nqk nv kd vd ks"
    using ar(1-5) q(2) Z(2) a(2) b(2) wa wz unfolding delta_sizes_def n by simp
  then show ?thesis by blast
qed

lemma delta_iff:
  assumes gpu: "is_gpu dev" and wf: "dn_wf c" and len: "length xs = m * k"
    and sz: "delta_sizes cfg W nqk nv kd vd ks" and ex: "delta_exact dev W nqk nv kd vd ks (rms_norm_eps cfg)"
  shows "qwen_deltanet_reference F reg cfg (mat dev k m xs) W dev c = (Some z, c') \<longleftrightarrow>
     (\<exists>dev' C dev'' R out C' R'. conv_ready dev (channels nqk nv kd vd) (ks - 1) c dev' C \<and>
        rec_ready dev nv kd vd c dev'' R \<and>
        delta_step dev k W nqk nv kd vd ks (rms_norm_eps cfg) m xs C R out C' R' \<and>
        z = mat dev (out_width (lw_linear_out_proj W)) m out \<and>
        c' = \<lparr>dn_conv = Some (conv_tensor dev' [int (channels nqk nv kd vd), int (ks - 1)] C'),
              dn_recurrent = Some (rec_tensor dev'' [int nv, int kd, int vd] R'), dn_length = dn_length c + int m\<rparr>)"
    (is "?l \<longleftrightarrow> ?r")
proof -
  let ?lin = "\<lambda>w. linear_forward F reg (mat dev k m xs) w True None"
  let ?eps = "rms_norm_eps cfg" and ?ch = "channels nqk nv kd vd" and ?n = "out_width (lw_linear_out_proj W)"
  have n: "linear_num_key_heads cfg = int nqk" "linear_num_value_heads cfg = int nv"
      "linear_key_head_dim cfg = int kd" "linear_value_head_dim cfg = int vd" "linear_conv_kernel_dim cfg = int ks"
    and pos: "0 < nqk" "0 < nv" "0 < kd" "0 < vd" "1 < ks" "nv mod nqk = 0"
    and w: "t_shape (lw_in_proj_qkv W) ! 0 = int ?ch" "t_shape (lw_in_proj_z W) ! 0 = int (nv * vd)"
      "t_shape (lw_in_proj_a W) ! 0 = int nv" "t_shape (lw_in_proj_b W) ! 0 = int nv"
    using sz unfolding delta_sizes_def by blast+
  have mode: "ks = 4 \<longrightarrow> adds_to_zero F" and da: "decode_agrees F (he_warp (Env dev)) BF16 (delta_weights W) nqk nv kd vd vd ?eps"
    using ex unfolding delta_exact_def by blast+
  let ?conv = "\<lambda>X. grouped_causal_conv reg (mat dev ?ch m X) (lw_conv1d_weight W) (int nqk) (int nv) (int kd) (int vd) (int ks) c"
  let ?rec = "\<lambda>Y a b z c1. deltanet_recurrent F reg Y (rec_args dev m nv vd W a b z) (int nqk) (int nv) (int kd) (int vd) ?eps c1"
  have sh: "reshape (mat dev nv m xs) [int m, int nv] = Some (mat dev nv m xs)"
    "reshape (mat dev (nv * vd) m xs) [int m, int nv, int vd] = Some (heads dev m nv vd xs)"
    "reshape (heads dev m nv vd xs) [int m, int nv * int vd] = Some (mat dev (nv * vd) m xs)" for xs
    by (simp_all add: reshape_def heads_def mat_def)
  have recwf: "dn_recurrent (c\<lparr>dn_conv := s\<rparr>) = None \<or> (\<exists>dev0 r R. is_gpu dev0 \<and>
      dn_recurrent (c\<lparr>dn_conv := s\<rparr>) = Some (rec_tensor dev0 r R) \<and> length R = nat (numel r))" for s
    using wf by (auto simp: dn_wf_def dn_empty_def)
  have rr: "rec_ready dev nv kd vd (c\<lparr>dn_conv := s\<rparr>) = rec_ready dev nv kd vd c" for s
    by (intro ext) (simp add: rec_ready_def)
  show ?thesis
  proof
    assume l: ?l
    then obtain qkv Z a b where
      lin: "?lin (lw_in_proj_qkv W) = Some qkv" "?lin (lw_in_proj_z W) = Some Z" "?lin (lw_in_proj_a W) = Some a"
        "?lin (lw_in_proj_b W) = Some b"
      by (auto simp: qwen_deltanet_reference_def Let_def split: option.splits prod.splits if_splits)
    from linear_result [OF gpu len lin(1)] have m: "0 < m" by blast
    from projects_result [OF gpu len lin(1) w(1)] obtain X' where
      X: "qkv = mat dev ?ch m X'" "projects dev k m (lw_in_proj_qkv W) ?ch xs X'" by blast
    from projects_result [OF gpu len lin(2) w(2)] obtain Z' where
      Z: "Z = mat dev (nv * vd) m Z'" "projects dev k m (lw_in_proj_z W) (nv * vd) xs Z'" by blast
    from projects_result [OF gpu len lin(3) w(3)] obtain a' where
      a: "a = mat dev nv m a'" "projects dev k m (lw_in_proj_a W) nv xs a'" by blast
    from projects_result [OF gpu len lin(4) w(4)] obtain b' where
      b: "b = mat dev nv m b'" "projects dev k m (lw_in_proj_b W) nv xs b'" by blast
    from l lin obtain Y c1 t where cv: "?conv X' = (Some Y, c1)" and rc: "?rec Y a' b' Z' c1 = (Some t, c')"
      and out: "Option.bind (reshape t [int m, int nv * int vd])
          (\<lambda>flat. linear_forward F reg flat (lw_linear_out_proj W) True None) = Some z"
      by (auto simp: qwen_deltanet_reference_def Let_def X(1) Z(1) a(1) b(1) n sh rec_args_def
          split: option.splits prod.splits if_splits)
    have lens: "length X' = m * ?ch" "length a' = m * nv" "length b' = m * nv" "length Z' = m * (nv * vd)"
      using X Z a b by (simp_all add: projects_def)
    from cv [unfolded conv_Some [OF gpu wf m pos(1-6) mode lens(1)]] obtain dev' C q kk v C' where
      crd: "conv_ready dev ?ch (ks - 1) c dev' C" and cok: "conv_ok dev nqk nv kd vd ks (lw_conv1d_weight W) m"
      and ck: "deltanet_grouped_conv_kernel F BF16 C X' (t_data (lw_conv1d_weight W)) m nqk nv kd vd ks = ((q, kk, v), C')"
      and Y: "Y = qkv_of dev m nqk nv kd vd (q, kk, v)"
        "c1 = c\<lparr>dn_conv := Some (conv_tensor dev' [int ?ch, int (ks - 1)] C')\<rparr>" by blast
    note l3 = grouped_conv_lengths(1-3) [OF mode ck]
    from rc [unfolded Y rec_Some [OF gpu recwf m pos(1-4,6) l3 lens(2-4) da] rr] obtain dev'' R r R' where
      rrd: "rec_ready dev nv kd vd c dev'' R" and rok: "rec_ok dev nv kd vd W ?eps m"
      and rk: "deltanet_recurrent_kernel F (he_warp (Env dev)) BF16 R (q, kk, v) (a', b', Z') (delta_weights W) m nqk nv kd vd vd ?eps =
          (r, R')"
      and t: "t = heads dev m nv vd r"
      and c': "c' = c\<lparr>dn_conv := Some (conv_tensor dev' [int ?ch, int (ks - 1)] C')\<rparr>
        \<lparr>dn_recurrent := Some (rec_tensor dev'' [int nv, int kd, int vd] R'), dn_length := dn_length c + int m\<rparr>"
      by (auto simp del: state_tensor_update)
    have lr: "length r = m * (nv * vd)" using recurrent_lengths(1) [OF da rk] .
    from out have "linear_forward F reg (mat dev (nv * vd) m r) (lw_linear_out_proj W) True None = Some z"
      by (simp add: t sh)
    from this linear_result [OF gpu lr this] obtain out' where
      o: "z = mat dev ?n m out'" "projects dev (nv * vd) m (lw_linear_out_proj W) ?n r out'" by (auto simp: projects_def)
    have ds: "delta_step dev k W nqk nv kd vd ks ?eps m xs C R out' C' R'"
      unfolding delta_step_def using X(2) Z(2) a(2) b(2) m cok ck rok rk o(2) by blast
    have "c' = \<lparr>dn_conv = Some (conv_tensor dev' [int ?ch, int (ks - 1)] C'),
              dn_recurrent = Some (rec_tensor dev'' [int nv, int kd, int vd] R'), dn_length = dn_length c + int m\<rparr>"
      unfolding c' by simp
    with crd rrd ds o(1) show ?r by blast
  next
    assume ?r
    then obtain dev' C dev'' R out C' R' where crd: "conv_ready dev ?ch (ks - 1) c dev' C"
      and rrd: "rec_ready dev nv kd vd c dev'' R" and ds: "delta_step dev k W nqk nv kd vd ks ?eps m xs C R out C' R'"
      and z: "z = mat dev ?n m out"
      and c': "c' = \<lparr>dn_conv = Some (conv_tensor dev' [int ?ch, int (ks - 1)] C'),
              dn_recurrent = Some (rec_tensor dev'' [int nv, int kd, int vd] R'), dn_length = dn_length c + int m\<rparr>" by blast
    from ds obtain X Z a b q kk v r where
        P: "projects dev k m (lw_in_proj_qkv W) ?ch xs X" "projects dev k m (lw_in_proj_z W) (nv * vd) xs Z"
          "projects dev k m (lw_in_proj_a W) nv xs a" "projects dev k m (lw_in_proj_b W) nv xs b" and m: "0 < m"
      and cok: "conv_ok dev nqk nv kd vd ks (lw_conv1d_weight W) m"
      and ck: "deltanet_grouped_conv_kernel F BF16 C X (t_data (lw_conv1d_weight W)) m nqk nv kd vd ks = ((q, kk, v), C')"
      and rok: "rec_ok dev nv kd vd W ?eps m"
      and rk: "deltanet_recurrent_kernel F (he_warp (Env dev)) BF16 R (q, kk, v) (a, b, Z) (delta_weights W) m nqk nv kd vd vd ?eps =
          (r, R')"
      and o: "projects dev (nv * vd) m (lw_linear_out_proj W) ?n r out" unfolding delta_step_def by blast
    have lens: "length X = m * ?ch" "length a = m * nv" "length b = m * nv" "length Z = m * (nv * vd)"
      using P by (simp_all add: projects_def)
    note l3 = grouped_conv_lengths(1-3) [OF mode ck]
    let ?c1 = "c\<lparr>dn_conv := Some (conv_tensor dev' [int ?ch, int (ks - 1)] C')\<rparr>"
    have cv: "?conv X = (Some (qkv_of dev m nqk nv kd vd (q, kk, v)), ?c1)"
      unfolding conv_Some [OF gpu wf m pos(1-6) mode lens(1)] using crd cok ck by blast
    have "c' = ?c1\<lparr>dn_recurrent := Some (rec_tensor dev'' [int nv, int kd, int vd] R'), dn_length := dn_length ?c1 + int m\<rparr>"
      unfolding c' by simp
    then have rc: "?rec (qkv_of dev m nqk nv kd vd (q, kk, v)) a b Z ?c1 = (Some (heads dev m nv vd r), c')"
      unfolding rec_Some [OF gpu recwf m pos(1-4,6) l3 lens(2-4) da] rr using rrd rok rk by blast
    show ?l
      using P o rc gpu z
      by (simp add: qwen_deltanet_reference_def Let_def n cv sh rec_args_def projects_def ndim_def)
  qed
qed

lemma ready_same_device:
  assumes "dn_wf c" and "conv_ready dev ch h c dev' C" and "rec_ready dev nv kd vd c dev'' R"
  shows "dev'' = dev'"
proof -
  have inj: "conv_tensor d s A = conv_tensor d' s' B \<Longrightarrow> d = d'" "rec_tensor d s A' = rec_tensor d' s' B' \<Longrightarrow> d = d'"
    for d d' s s' and A B A' B' :: "'f list" by (auto simp: conv_tensor_def rec_tensor_def mk_tensor_def)
  from assms show ?thesis
    by (auto simp: dn_wf_def conv_ready_def rec_ready_def zeroed_def dn_empty_def dest!: inj)
qed

lemma ready_dn_wf:
  assumes "is_gpu dev" and "length C = ch * h" and "length R = nv * (kd * vd)"
  shows "dn_wf \<lparr>dn_conv = Some (conv_tensor dev [int ch, int h] C),
           dn_recurrent = Some (rec_tensor dev [int nv, int kd, int vd] R), dn_length = l\<rparr>"
proof -
  have "length C = nat (numel [int ch, int h])" "length R = nat (numel [int nv, int kd, int vd])"
    using assms(2,3) by (simp_all add: nat_mult_distrib)
  with assms(1) show ?thesis unfolding dn_wf_def by blast
qed

lemma deltanet_reference_state_op:
  assumes gpu: "is_gpu dev"
    and exact: "\<And>nqk nv kd vd ks. delta_sizes cfg W nqk nv kd vd ks \<Longrightarrow>
      delta_exact dev W nqk nv kd vd ks (rms_norm_eps cfg)"
  shows "state_op dn_wf dev k dev (out_width (lw_linear_out_proj W)) (\<lambda>t c. qwen_deltanet_reference F reg cfg t W dev c)"
proof -
  let ?n = "out_width (lw_linear_out_proj W)" and ?eps = "rms_norm_eps cfg"
  show ?thesis
    unfolding state_op_def
  proof (intro conjI allI impI, goal_cases)
    case (1 m xs c z c')
    from delta_sizes_ex [OF gpu 1(2,3)] obtain nqk nv kd vd ks where sz: "delta_sizes cfg W nqk nv kd vd ks" by blast
    note ex = exact [OF sz]
    from 1(3) [unfolded delta_iff [OF gpu 1(1,2) sz ex]] obtain C R out C' R' where
      st: "delta_step dev k W nqk nv kd vd ks ?eps m xs C R out C' R'" and z: "z = mat dev ?n m out" by blast
    from delta_step_lengths(1) [OF gpu ex st] z show ?case by blast
  next
    case (2 m xs c z c')
    from delta_sizes_ex [OF gpu 2(2,3)] obtain nqk nv kd vd ks where sz: "delta_sizes cfg W nqk nv kd vd ks" by blast
    note ex = exact [OF sz]
    from 2(3) [unfolded delta_iff [OF gpu 2(1,2) sz ex]] obtain dev' C dev'' R out C' R' where
        cr: "conv_ready dev (channels nqk nv kd vd) (ks - 1) c dev' C" and rr: "rec_ready dev nv kd vd c dev'' R"
      and st: "delta_step dev k W nqk nv kd vd ks ?eps m xs C R out C' R'"
      and c': "c' = \<lparr>dn_conv = Some (conv_tensor dev' [int (channels nqk nv kd vd), int (ks - 1)] C'),
              dn_recurrent = Some (rec_tensor dev'' [int nv, int kd, int vd] R'), dn_length = dn_length c + int m\<rparr>" by blast
    from cr rr have l: "length C = channels nqk nv kd vd * (ks - 1)" "length R = nv * (kd * vd)" "is_gpu dev'"
      by (simp_all add: conv_ready_def rec_ready_def)
    have l': "length C' = channels nqk nv kd vd * (ks - 1)" "length R' = nv * (kd * vd)"
      using delta_step_lengths(3) [OF gpu ex st l(1)] delta_step_lengths(4) [OF gpu ex st l(2)] l by simp_all
    show ?case unfolding c' ready_same_device [OF 2(1) cr rr] by (rule ready_dn_wf [OF l(3) l'])
  next
    case (3 m1 m2 xs ys c z c')
    have len: "length (xs @ ys) = (m1 + m2) * k" using 3(2,3) by (simp add: add_mult_distrib)
    from delta_sizes_ex [OF gpu len 3(6)] obtain nqk nv kd vd ks where sz: "delta_sizes cfg W nqk nv kd vd ks" by blast
    note ex = exact [OF sz]
    let ?ch = "channels nqk nv kd vd"
    from 3(6) [unfolded delta_iff [OF gpu 3(1) len sz ex]] obtain dev' C dev'' R out C' R' where
        cr: "conv_ready dev ?ch (ks - 1) c dev' C" and rr: "rec_ready dev nv kd vd c dev'' R"
      and st: "delta_step dev k W nqk nv kd vd ks ?eps (m1 + m2) (xs @ ys) C R out C' R'"
      and z: "z = mat dev ?n (m1 + m2) out"
      and c': "c' = \<lparr>dn_conv = Some (conv_tensor dev' [int ?ch, int (ks - 1)] C'),
              dn_recurrent = Some (rec_tensor dev'' [int nv, int kd, int vd] R'), dn_length = dn_length c + int (m1 + m2)\<rparr>" by blast
    from cr rr have l: "length C = ?ch * (ks - 1)" "length R = nv * (kd * vd)" "is_gpu dev'" "device_eq dev' dev"
      by (simp_all add: conv_ready_def rec_ready_def)
    note same = ready_same_device [OF 3(1) cr rr]
    from delta_step_split [OF gpu sz ex 3(2-5) st] obtain o1 C1 R1 o2 where
        s1: "delta_step dev k W nqk nv kd vd ks ?eps m1 xs C R o1 C1 R1"
      and s2: "delta_step dev k W nqk nv kd vd ks ?eps m2 ys C1 R1 o2 C' R'" and o: "out = o1 @ o2" by blast
    have l1: "length C1 = ?ch * (ks - 1)" "length R1 = nv * (kd * vd)"
      using delta_step_lengths(3) [OF gpu ex s1 l(1)] delta_step_lengths(4) [OF gpu ex s1 l(2)] l by simp_all
    let ?c1 = "\<lparr>dn_conv = Some (conv_tensor dev' [int ?ch, int (ks - 1)] C1),
              dn_recurrent = Some (rec_tensor dev' [int nv, int kd, int vd] R1), dn_length = dn_length c + int m1\<rparr>"
    have wf1: "dn_wf ?c1" by (rule ready_dn_wf [OF l(3) l1])
    have cr1: "conv_ready dev ?ch (ks - 1) ?c1 dev' C1" and rr1: "rec_ready dev nv kd vd ?c1 dev' R1"
      using l l1 by (simp_all add: conv_ready_def rec_ready_def)
    have "qwen_deltanet_reference F reg cfg (mat dev k m1 xs) W dev c = (Some (mat dev ?n m1 o1), ?c1)"
      unfolding delta_iff [OF gpu 3(1,2) sz ex] using cr rr [unfolded same] s1 by blast
    moreover have "c' = \<lparr>dn_conv = Some (conv_tensor dev' [int ?ch, int (ks - 1)] C'),
              dn_recurrent = Some (rec_tensor dev' [int nv, int kd, int vd] R'), dn_length = dn_length ?c1 + int m2\<rparr>"
      unfolding c' same by simp
    then have "qwen_deltanet_reference F reg cfg (mat dev k m2 ys) W dev ?c1 = (Some (mat dev ?n m2 o2), c')"
      unfolding delta_iff [OF gpu wf1 3(3) sz ex] using cr1 rr1 s2 by blast
    ultimately show ?case
      using z o delta_step_lengths(1) [OF gpu ex s1] delta_step_lengths(1) [OF gpu ex s2] by blast
  qed
qed

text \<open>A copy of a cache is the cache.\<close>

lemma dn_clone_same:
  assumes wf: "dn_wf c" and cl: "engine_dn_clone reg c = Some c'"
  shows "c' = c"
proof -
  from wf consider "c = dn_empty" | dev s r C R l where "is_gpu dev"
    "c = \<lparr>dn_conv = Some (conv_tensor dev s C), dn_recurrent = Some (rec_tensor dev r R), dn_length = l\<rparr>"
    "length C = nat (numel s)" "length R = nat (numel r)" unfolding dn_wf_def by blast
  then show ?thesis
  proof cases
    case 1
    with cl show ?thesis by (simp add: engine_dn_clone_def dn_clone_def dn_empty_def fails_def)
  next
    case 2
    have w: "write_prefix xs (fresh dev w (nat (numel s))) = gpu_buffer dev w xs" if "length xs = nat (numel s)" for xs s w
      using that by (rule write_fresh)
    from cl 2 show ?thesis
      by (auto simp: engine_dn_clone_def dn_clone_def Let_def create_fresh dn_reusable_def dn_empty_def
          hip_copy_def hip_synchronize_def select_device_def and_then_Inr t_nbytes_def t_numel_def t_mem_def w
          conv_tensor_def rec_tensor_def mk_tensor_def
          split: option.splits if_splits)
  qed
qed

end

end
