(* ===== verification/Qwen_Machine.thy ===== *)
theory Qwen_Machine
  imports Speculative Hip_DeltaNet
begin

text \<open>
  The Qwen engine on GPUs meets the contract of \<open>Causal_Engine\<close>: the embedding lookup and
  the argmax kernels act row by row, the layers of \<open>qwen_stack\<close> are causal layers, and the
  copies of the caches are exact. The locale \<open>qwen_machine\<close> adds to \<open>hip_machine\<close> what is
  taken of the weights and of the arithmetic.
\<close>

section \<open>Embedding and argmax\<close>

definition row_token :: "'f fops \<Rightarrow> nat \<Rightarrow> 'f list \<Rightarrow> int" where
  "row_token F vocab row = row_argmax F vocab (\<lambda>c. row ! c)"

lemma row_argmax_cong:
  assumes "\<And>c. c < columns \<Longrightarrow> f c = g c"
  shows "row_argmax F columns f = row_argmax F columns g"
proof -
  have "lane_best F lanes columns f = lane_best F lanes columns g" for lanes
    unfolding lane_best_def by (intro ext fold_cong) (auto simp: strided_def assms)
  then show ?thesis by (simp add: row_argmax_def)
qed

lemma status_case_Inr:
  "(case r of Inl (Failed s) \<Rightarrow> Inl s | Inl _ \<Rightarrow> Inl e | Inr b \<Rightarrow> Inr (f b)) = Inr t \<longleftrightarrow> (\<exists>b. r = Inr b \<and> t = f b)"
  by (auto split: sum.splits failure.splits)

context hip_machine
begin

definition embedding_ok :: "device \<Rightarrow> 'f tensor \<Rightarrow> int list \<Rightarrow> bool" where
  "embedding_ok dev emb ids \<longleftrightarrow> t_dtype emb = BF16 \<and> ndim (t_shape emb) = 2 \<and> 0 \<le> t_shape emb ! 1 \<and>
     list_all (\<lambda>id. 0 \<le> id \<and> id < t_shape emb ! 0) ids \<and> he_memcpy (Env dev) \<and>
     he_launch (Env dev) ''launch embedding gather kernel'' \<and> device_eq (bf_device (t_buffer emb)) dev \<and>
     bytes_of (t_shape emb ! 0 * t_shape emb ! 1) BF16 \<le> bf_size (t_buffer emb)"

lemma embedding_Some:
  assumes gpu: "is_gpu dev" and ne: "ids \<noteq> []" and k: "k = nat (t_shape emb ! 1)"
  shows "lookup_embedding reg emb ids dev = Inr t \<longleftrightarrow>
     embedding_ok dev emb ids \<and> alloc dev (length ids * (k * 2)) \<and> alloc dev (length ids * 8) \<and>
     t = mat dev k (length ids) (embedding_gather_kernel F (t_data emb) ids (length ids) (t_shape emb ! 0) k)"
proof -
  let ?n = "length ids" and ?w = "t_shape emb ! Suc 0" and ?v = "t_shape emb ! 0"
  have pos: "0 \<le> int ?n * ?w \<longleftrightarrow> 0 \<le> ?w" using ne by (simp add: zero_le_mult_iff)
  have ids: "list_ex (\<lambda>id. id < 0 \<or> ?v \<le> id) ids \<longleftrightarrow> \<not> list_all (\<lambda>id. 0 \<le> id \<and> id < ?v) ids"
    by (induction ids) auto
  have nm: "nat (int ?n * ?w) = ?n * k" using k by (simp add: nat_mult_distrib)
  have w: "write_prefix (embedding_gather_kernel F (bf_data (t_buffer emb)) ids ?n ?v k) (fresh dev 2 (?n * k)) =
      gpu_buffer dev 2 (embedding_gather_kernel F (t_data emb) ids ?n ?v k)"
    unfolding t_data_def by (rule write_fresh) (simp add: embedding_gather_kernel_def)
  show ?thesis
  proof (cases "t_dtype emb = BF16 \<and> ndim (t_shape emb) = 2 \<and> list_all (\<lambda>id. 0 \<le> id \<and> id < ?v) ids \<and> 0 \<le> ?w")
    case False
    then show ?thesis using gpu
      by (auto simp: lookup_embedding_def embedding_ok_def Let_def ids create_fresh pos)
  next
    case True
    then have w': "?w = int k" using k by simp
    have "and_then (hip_memcpy_h2d (Env dev) x []) (\<lambda>_.
        hip_embedding_gather (Env dev) (fresh dev 2 (?n * k)) (t_buffer emb) ids BF16 (int ?n) ?v (int k)) = Inr b \<longleftrightarrow>
        he_select (Env dev) \<and> he_memcpy (Env dev) \<and> he_launch (Env dev) ''launch embedding gather kernel'' \<and>
        device_eq (bf_device (t_buffer emb)) dev \<and> bytes_of (?v * int k) BF16 \<le> bf_size (t_buffer emb) \<and>
        b = gpu_buffer dev 2 (embedding_gather_kernel F (t_data emb) ids ?n ?v k)" for x b
      using gpu by (auto simp: hip_memcpy_h2d_def and_then_Inr hip_embedding_gather_def launch_Some select_device_def
          float_kernel_dtype_def nat_mult_distrib w [unfolded t_data_def] t_data_def fails_def)
    with True gpu w' show ?thesis
      by (auto simp: lookup_embedding_def embedding_ok_def ids create_fresh pos status_case_Inr alloc_def mat_def
          nat_mult_distrib mult.assoc Let_def)
  qed
qed

lemma embedding_split:
  assumes gpu: "is_gpu dev" and ne: "xs \<noteq> []" "ys \<noteq> []"
    and e: "lookup_embedding reg emb (xs @ ys) dev = Inr t" and k: "k = nat (t_shape emb ! 1)"
  shows "\<exists>u v. lookup_embedding reg emb xs dev = Inr u \<and> lookup_embedding reg emb ys dev = Inr v \<and>
     rows_of k (length (xs @ ys)) (t_data t) = rows_of k (length xs) (t_data u) @ rows_of k (length ys) (t_data v)"
proof -
  let ?g = "\<lambda>ids. embedding_gather_kernel F (t_data emb) ids (length ids) (t_shape emb ! 0) k"
  have ne': "xs @ ys \<noteq> []" using ne by simp
  from e [unfolded embedding_Some [OF gpu ne' k]] have ok: "embedding_ok dev emb (xs @ ys)"
    and al: "alloc dev ((length xs + length ys) * (k * 2))" "alloc dev ((length xs + length ys) * 8)"
    and t: "t = mat dev k (length (xs @ ys)) (?g (xs @ ys))" by auto
  have "lookup_embedding reg emb xs dev = Inr (mat dev k (length xs) (?g xs))"
    unfolding embedding_Some [OF gpu ne(1) k] using ok alloc_parts(1) [OF al(1)] alloc_parts(1) [OF al(2)]
    by (simp add: embedding_ok_def)
  moreover have "lookup_embedding reg emb ys dev = Inr (mat dev k (length ys) (?g ys))"
    unfolding embedding_Some [OF gpu ne(2) k] using ok alloc_parts(2) [OF al(1)] alloc_parts(2) [OF al(2)]
    by (simp add: embedding_ok_def)
  moreover have "?g (xs @ ys) = ?g xs @ ?g ys" by (simp add: embedding_gather_append)
  moreover have "length (?g xs) = length xs * k" by (simp add: embedding_gather_kernel_def)
  ultimately show ?thesis using t by (simp add: rows_of_append)
qed

text \<open>The rows of the logits, and the token of a row.\<close>

lemma row_token_rows:
  assumes "length xs = m * vocab" and "r < m"
  shows "row_argmax F vocab (\<lambda>c. xs ! (r * vocab + c)) = row_token F vocab (rows_of vocab m xs ! r)"
proof -
  have "rows_of vocab m xs ! r ! c = xs ! (r * vocab + c)" if "c < vocab" for c
  proof -
    have "Suc r * vocab \<le> length xs" using assms by (simp only: assms(1) mult_le_mono1 Suc_leI)
    then show ?thesis using that assms(2) by (simp add: rows_of_def add.commute)
  qed
  then show ?thesis
    unfolding row_token_def by (intro row_argmax_cong) simp
qed

text \<open>The logits the head has produced on the final device, and kernels that launch.\<close>

definition argmax_ready :: "device \<Rightarrow> nat \<Rightarrow> 'f list list \<Rightarrow> bool" where
  "argmax_ready dev vocab rows \<longleftrightarrow> is_gpu dev \<and> rows \<noteq> [] \<and> list_all (\<lambda>r. length r = vocab) rows \<and>
     4 \<le> vocab \<and> alloc dev (length rows * (vocab * 2)) \<and> he_launch (Env dev) ''launch argmax kernel'' \<and>
     he_launch (Env dev) ''launch batched argmax kernel''"

lemma argmax_ready_facts:
  assumes r: "argmax_ready dev vocab rows"
  shows "rows_tensor dev vocab rows = Some (mat dev vocab (length rows) (concat rows))"
    and "length (concat rows) = length rows * vocab" and "is_gpu dev" and "he_select (Env dev)"
    and "alloc dev 8" and "alloc dev (length rows * 8)" and "0 < vocab"
proof -
  have al: "alloc dev (length rows * (vocab * 2))" and n: "1 \<le> length rows" and v: "8 \<le> vocab * 2"
    using r by (auto simp: argmax_ready_def Suc_le_eq)
  have le: "length rows * 8 \<le> length rows * (vocab * 2)" using v by (rule mult_le_mono2)
  show "alloc dev (length rows * 8)" by (rule alloc_mono [OF al le])
  then show "alloc dev 8" by (rule alloc_mono) (use n in simp)
qed (use r in \<open>auto simp: argmax_ready_def rows_tensor_Some concat_rows_length alloc_def\<close>)

lemma host_logits_copied:
  assumes "argmax_ready dev vocab rows" and "host_logits reg dev vocab rows = Some x"
  shows "he_memcpy (Env dev) \<and> he_sync (Env dev)"
  using assms(2) argmax_ready_facts [OF assms(1)]
  by (auto simp: host_logits_def hip_memcpy_d2h_def hip_synchronize_def and_then_Inr select_device_def fails_def
      split: sum.splits if_splits)

lemma argmax_last_value:
  assumes r: "argmax_ready dev vocab rows"
  shows "device_argmax_last reg dev vocab rows =
     (if he_memcpy (Env dev) then (he_sync (Env dev), row_token F vocab (last rows)) else (False, 0))"
proof -
  note f = argmax_ready_facts [OF r]
  have ne: "length rows - 1 < length rows" using r by (auto simp: argmax_ready_def)
  have "row_argmax F vocab (\<lambda>c. concat rows ! ((length rows - 1) * vocab + c)) = row_token F vocab (last rows)"
    unfolding row_token_rows [OF f(2) ne] using r
    by (simp add: argmax_ready_def rows_of_concat last_conv_nth)
  then have "hip_argmax_last_row (Env dev) (gpu_buffer dev 2 (concat rows)) BF16 (int (length rows)) (int vocab) =
      Inr (row_token F vocab (last rows))"
    using r f unfolding hip_argmax_last_row_def launch_Some [OF f(3)]
    by (simp add: argmax_ready_def argmax_last_row_kernel_def float_kernel_dtype_def bf_size_def nat_mult_distrib)
  then show ?thesis
    using f by (simp add: device_argmax_last_def create_fresh hip_memcpy_d2h_def hip_synchronize_def select_device_def
        fails_def)
qed

lemma argmax_rows_value:
  assumes r: "argmax_ready dev vocab rows"
  shows "device_argmax_rows reg dev vocab rows =
     (if he_memcpy (Env dev) then (he_sync (Env dev), map (row_token F vocab) rows)
      else (False, replicate (length rows) 0))"
proof -
  note f = argmax_ready_facts [OF r]
  have "argmax_rows_kernel F (concat rows) (length rows) vocab =
      map (\<lambda>i. row_token F vocab (rows_of vocab (length rows) (concat rows) ! i)) [0..<length rows]"
    unfolding argmax_rows_kernel_def by (rule map_cong [OF refl]) (simp add: row_token_rows [OF f(2)])
  also have "\<dots> = map (row_token F vocab) rows"
    using r by (intro nth_equalityI) (simp_all add: argmax_ready_def rows_of_concat)
  finally have "hip_argmax_rows (Env dev) (gpu_buffer dev 2 (concat rows)) BF16 (int (length rows)) (int vocab) =
      Inr (map (row_token F vocab) rows)"
    using r f unfolding hip_argmax_rows_def
    by (simp add: argmax_ready_def launch_Some float_kernel_dtype_def bf_size_def nat_mult_distrib)
  then show ?thesis
    using f by (simp add: device_argmax_rows_def create_fresh hip_memcpy_d2h_def hip_synchronize_def select_device_def
        fails_def)
qed

end

section \<open>Rows written in place\<close>

text \<open>Writing the last row of an activation into a buffer of the caller gives the row that the copy into
  a new buffer gives.\<close>

lemma last_row_copy_into_row:
  assumes "reg dev = Some (hip_backend E)" "last_row_copy reg x dev = Some t" "last_row_copy_into (hip_backend E) x dev out = Some t'"
    and w: "bf_width out = SizeOfDType (t_dtype x)" "bf_width (t_buffer x) = SizeOfDType (t_dtype x)"
  shows "t_shape t' = t_shape t \<and> take (nat (t_shape x ! 1)) (t_data t') = t_data t"
proof -
  let ?n = "nat (t_shape x ! 1)" and ?r = "nat (t_shape x ! 0 - 1)" and ?s = "SizeOfDType (t_dtype x)"
  have s: "?s \<noteq> 0" by (cases "t_dtype x") simp_all
  from assms(3) w have src: "?r * (?n * ?s) + ?n * ?s \<le> ?s * length (t_data x)"
    and t': "t_shape t' = [1, t_shape x ! 1]" "t_data t' = take ?n (drop (?r * ?n) (t_data x)) @ drop ?n (bf_data out)"
    by (auto simp: s last_row_copy_into_def Let_def hip_copy_to_offset_def and_then_Inr select_device_def from_result_def
        mk_tensor_def t_data_def bf_size_def split: if_splits sum.splits)
  from assms(1,2) w have t: "t_shape t = [1, t_shape x ! 1]" "t_data t = take ?n (drop (?r * ?n) (t_data x))"
    by (auto simp: s last_row_copy_def row_copy_def Let_def hip_copy_to_offset_def and_then_Inr select_device_def
        from_result_def mk_tensor_def t_data_def create_buffer_Some split: if_splits sum.splits option.splits)
  have "?s * (?r * ?n + ?n) \<le> ?s * length (t_data x)" using src by (simp add: algebra_simps)
  then have "?r * ?n + ?n \<le> length (t_data x)" using s by simp
  then show ?thesis by (simp add: t t')
qed

section \<open>The engine\<close>

text \<open>The final device and the device of every layer is a GPU, the vocabulary has at least four
  tokens, the argmax kernels launch, and the gate and the up projection of a layer are equally
  wide. The convolution of four taps and the decode kernel of the DeltaNet layers add in another
  order than the kernels for several tokens, which must not matter.\<close>

locale qwen_machine = hip_machine F reg Env
  for F :: "'f fops" and reg :: "'f backends" and Env :: "device \<Rightarrow> 'f hip_env" +
  fixes cfg :: "'f qwen_config" and W :: "'f distributed_weights" and first :: device and final :: device
  assumes gpus: "is_gpu first" "is_gpu final" "list_all (\<lambda>(L, d). is_gpu d) (dw_layers W)"
    and big_vocab: "4 \<le> t_shape (dw_lm_head W) ! 0"
    and argmax_launch: "he_launch (Env final) ''launch argmax kernel''"
      "he_launch (Env final) ''launch batched argmax kernel''"
    and same_widths: "list_all (\<lambda>(L, d). out_width (lw_mlp_gate_proj L) = out_width (lw_mlp_up_proj L)) (dw_layers W)"
    and exact_delta: "\<And>L d nqk nv kd vd ks. (L, d) \<in> set (dw_layers W) \<Longrightarrow> \<not> lw_is_attention L \<Longrightarrow>
      delta_sizes cfg L nqk nv kd vd ks \<Longrightarrow> delta_exact d L nqk nv kd vd ks (rms_norm_eps cfg)"
begin

lemma layer_causal:
  assumes gpu: "is_gpu source" "is_gpu dev" and same: "out_width (lw_mlp_gate_proj L) = out_width (lw_mlp_up_proj L)"
    and exact: "\<And>nqk nv kd vd ks. \<not> lw_is_attention L \<Longrightarrow> delta_sizes cfg L nqk nv kd vd ks \<Longrightarrow>
      delta_exact dev L nqk nv kd vd ks (rms_norm_eps cfg)"
  shows "causal_layer kv_wf dn_wf (qwen_layer_ops F reg cfg n width source L dev)"
  unfolding causal_layer_def
  by (auto simp: qwen_layer_ops_def intro!: rowwise_on_rows rowwise2_on_rows causal_mixer_on_rows
      to_device_row_op rmsnorm_row_op residual_row_op mlp_row_op attention_reference_state_op
      deltanet_reference_state_op gpu same exact)

lemma stack_causal:
  assumes "is_gpu source" and "set ls \<subseteq> set (dw_layers W)"
  shows "\<forall>L \<in> set (qwen_stack F reg cfg n width source ls). causal_layer kv_wf dn_wf L"
  using assms
proof (induction ls arbitrary: source)
  case Nil
  then show ?case by simp
next
  case (Cons x ls)
  obtain L dev where x: "x = (L, dev)" by (cases x)
  with Cons.prems gpus(3) same_widths have "is_gpu dev"
    "out_width (lw_mlp_gate_proj L) = out_width (lw_mlp_up_proj L)" by (auto simp: list_all_iff)
  moreover have "(L, dev) \<in> set (dw_layers W)" using Cons.prems x by simp
  ultimately show ?case
    using Cons.IH [of dev] Cons.prems x layer_causal [of source dev L] exact_delta by auto
qed

lemma last_device_gpu: "is_gpu (last_device first (dw_layers W))"
  using gpus last_in_set [of "dw_layers W"]
  by (cases "last (dw_layers W)") (force simp: last_device_def list_all_iff)

definition vocab :: nat where
  "vocab = nat (t_shape (dw_lm_head W) ! 0)"

lemma head_ready:
  assumes l: "on_rows final k (\<lambda>t. linear_forward F reg t (dw_lm_head W) True None) h = Some ls" and ne: "ls \<noteq> []"
  shows "argmax_ready final vocab ls"
proof -
  have v: "out_width (dw_lm_head W) = vocab" by (simp add: vocab_def out_width_def)
  from on_rows_Some [OF linear_row_op [OF gpus(2)] l] obtain ys where
    h: "list_all (\<lambda>r. length r = k) h" and z: "linear_forward F reg (mat final k (length h) (concat h)) (dw_lm_head W) True None =
      Some (mat final vocab (length h) ys)"
    and ys: "length ys = length h * vocab" and ls: "ls = rows_of vocab (length h) ys" unfolding v by blast
  from z [unfolded linear_Some [OF gpus(2) concat_rows_length [OF h]]] obtain n where
    "linear_ok final k n (dw_lm_head W)" "alloc final (length h * (n * 2))" by blast
  moreover from this(1) have "n = vocab" by (simp add: linear_ok_def vocab_def)
  ultimately show ?thesis
    using ne ls rows_of_all [OF ys] gpus(2) big_vocab argmax_launch by (auto simp: argmax_ready_def vocab_def)
qed

sublocale engine: causal_engine "qwen_engine F reg cfg W first final n" "row_token F vocab" kv_wf dn_wf
proof (unfold_locales, goal_cases)
  case (1 ids z)
  then show ?case by (auto simp: qwen_engine_def Let_def split: sum.splits)
next
  case (2 xs ys z)
  then obtain t where "lookup_embedding reg (dw_embed_tokens W) (xs @ ys) first = Inr t"
    "z = rows_of (nat (t_shape (dw_embed_tokens W) ! 1)) (length (xs @ ys)) (t_data t)"
    by (auto simp: qwen_engine_def Let_def split: sum.splits)
  with embedding_split [OF gpus(1) 2(1,2) this(1) refl] show ?case
    by (auto simp: qwen_engine_def Let_def)
next
  case 3
  then show ?case using stack_causal [OF gpus(1) subset_refl] by (simp add: qwen_engine_def Let_def)
next
  case 4
  then show ?case
    by (simp add: qwen_engine_def Let_def rowwise_on_rows [OF to_device_row_op [OF gpus(2)]])
next
  case 5
  then show ?case
    by (simp add: qwen_engine_def Let_def rowwise_on_rows [OF rmsnorm_row_op [OF gpus(2)]])
next
  case 6
  then show ?case
    by (simp add: qwen_engine_def Let_def rowwise_on_rows [OF linear_row_op [OF gpus(2)]])
next
  case 9
  then show ?case by (rule kv_wf_shape)
next
  case 10
  then show ?case by (rule dn_wf_shape)
next
  case (11 c c')
  then show ?case using kv_clone_same by (simp add: qwen_engine_def Let_def)
next
  case (12 c c')
  then show ?case using dn_clone_same by (simp add: qwen_engine_def Let_def)
next
  case (13 h ls t)
  then have r: "argmax_ready final vocab ls" by (intro head_ready) (auto simp: qwen_engine_def Let_def)
  from 13 argmax_last_value [OF r] host_logits_copied [OF r] show ?case
    by (auto simp: argmax_last_row_reference_def qwen_engine_def Let_def gpus(2) vocab_def [symmetric]
        split: if_splits option.splits)
next
  case (14 h ls t)
  then have r: "argmax_ready final vocab ls" by (intro head_ready) (auto simp: qwen_engine_def Let_def)
  from 14 argmax_rows_value [OF r] host_logits_copied [OF r] show ?case
    by (auto simp: argmax_rows_reference_def qwen_engine_def Let_def gpus(2) vocab_def [symmetric]
        split: if_splits option.splits)
qed simp_all

lemma engine_contract:
  "causal_engine (qwen_engine F reg cfg W first final n) (row_token F (nat (t_shape (dw_lm_head W) ! 0))) kv_wf dn_wf"
  using engine.causal_engine_axioms unfolding vocab_def .

end

end
