(* ===== verification/Exact_Arithmetic.thy ===== *)
theory Exact_Arithmetic
  imports Hip_Recurrent Kernel_Laws
begin

text \<open>
  Arithmetic without rounding, as the locale \<open>exact_fops\<close>: sums may be taken in any order.
  Then the tree reduction in shared memory, the wavefront shuffles and the plain loop give the
  same sum, and the decode kernel of a 128 by 128 DeltaNet state computes what the generic
  kernel computes.
\<close>

locale exact_fops =
  fixes F :: "'f fops"
  assumes add_assoc: "\<And>a b c. f_add F (f_add F a b) c = f_add F a (f_add F b c)"
    and add_commute: "\<And>a b. f_add F a b = f_add F b a"
    and add_zero: "\<And>a. f_add F (f_zero F) a = a"
    and mul_assoc: "\<And>a b c. f_mul F (f_mul F a b) c = f_mul F a (f_mul F b c)"
begin

sublocale total: comm_monoid_set "f_add F" "f_zero F"
  by unfold_locales (metis add_assoc add_commute add_zero)+

lemma adds_to_zero: "adds_to_zero F"
  by (simp add: adds_to_zero_def add_zero)

lemma add_left_commute: "f_add F a (f_add F b c) = f_add F b (f_add F a c)"
  by (metis add_assoc add_commute)

lemma fold_total:
  "distinct xs \<Longrightarrow> fold (\<lambda>i s. f_add F s (g i)) xs s = f_add F s (total.F g (set xs))"
proof (induction xs arbitrary: s)
  case Nil
  then show ?case by (simp add: add_commute [of s] add_zero)
next
  case (Cons x xs)
  then show ?case by (simp add: add_assoc)
qed

lemma acc_sum_total: "acc_sum F n g = total.F g {..<n}"
  unfolding acc_sum_def by (subst fold_total) (simp_all add: add_zero atLeast0LessThan)

lemma lane_sum_total: "lane_sum F lanes n g lane = total.F g {c \<in> {..<n}. c mod lanes = lane}"
proof -
  have "set (strided lanes n lane) = {c \<in> {..<n}. c mod lanes = lane}" by (auto simp: strided_def)
  then show ?thesis
    unfolding lane_sum_def by (subst fold_total) (simp_all add: add_zero strided_def)
qed

lemma total_halves: "total.F (\<lambda>i. f_add F (g i) (g (i + n))) {..<n::nat} = total.F g {..<n + n}"
proof -
  have "total.F g {..<n + n} = f_add F (total.F g {..<n}) (total.F g {n..<n + n})"
    by (subst total.union_disjoint [symmetric]) (auto intro!: arg_cong [where f = "total.F g"])
  also have "total.F g {n..<n + n} = total.F (\<lambda>i. g (i + n)) {..<n}"
    by (rule total.reindex_bij_witness [where i = "\<lambda>i. i + n" and j = "\<lambda>i. i - n"]) auto
  finally show ?thesis by (simp add: total.distrib)
qed

lemma tree_reduce_total:
  "2 * 2 ^ k \<le> length xs \<Longrightarrow> tree_reduce F (2 ^ k) xs ! 0 = total.F (\<lambda>i. xs ! i) {..<2 * 2 ^ k}"
proof (induction k arbitrary: xs)
  case 0
  then have ne: "xs \<noteq> []" by auto
  have "tree_reduce F 1 xs ! 0 = f_add F (xs ! 0) (xs ! 1)"
    using ne 0 by (simp add: tree_reduce.simps [of F "Suc 0"] tree_reduce.simps [of F 0] tree_step_def)
  also have "\<dots> = total.F (\<lambda>i. xs ! i) {..<2}"
    by (simp add: numeral_2_eq_2 lessThan_Suc add_commute add_zero)
  finally show ?case by simp
next
  case (Suc k)
  let ?s = "2 ^ Suc k :: nat" and ?ys = "tree_step F (2 ^ Suc k) xs"
  have step: "?ys ! i = f_add F (xs ! i) (xs ! (i + ?s))" if "i < ?s" for i
    using that Suc.prems by (simp add: tree_step_def)
  have "tree_reduce F ?s xs ! 0 = tree_reduce F (2 ^ k) ?ys ! 0"
    by (subst tree_reduce.simps) simp
  also have "\<dots> = total.F (\<lambda>i. ?ys ! i) {..<?s}"
    using Suc.IH [of ?ys] Suc.prems by (simp add: tree_step_def)
  also have "\<dots> = total.F (\<lambda>i. f_add F (xs ! i) (xs ! (i + ?s))) {..<?s}"
    by (rule total.cong) (simp_all only: lessThan_iff step)
  also have "\<dots> = total.F (\<lambda>i. xs ! i) {..<?s + ?s}" by (rule total_halves)
  finally show ?case by (simp add: mult_2)
qed

text \<open>The lanes of a block share out the elements.\<close>

lemma lanes_total:
  assumes "0 < (lanes::nat)"
  shows "total.F (\<lambda>lane. total.F g {c \<in> {..<n}. c mod lanes = lane}) {..<lanes} = total.F g {..<n}"
  by (rule total.group) (use assms in auto)

lemma block_sum_total: "block_sum F kBlockSize n g = total.F g {..<n}"
proof -
  let ?xs = "map (lane_sum F kBlockSize n g) [0..<kBlockSize]"
  have "block_sum F kBlockSize n g = tree_reduce F (2 ^ 7) ?xs ! 0"
    by (simp add: block_sum_def kBlockSize_def)
  also have "\<dots> = total.F (\<lambda>i. ?xs ! i) {..<2 * 2 ^ 7}"
    by (rule tree_reduce_total) (simp add: kBlockSize_def)
  also have "\<dots> = total.F (lane_sum F kBlockSize n g) {..<kBlockSize}"
    by (rule total.cong) (simp_all add: kBlockSize_def)
  finally show ?thesis unfolding lane_sum_total by (simp only: lanes_total kBlockSize_def zero_less_numeral)
qed

lemma shfl_reduce_total:
  "2 * 2 ^ k \<le> length xs \<Longrightarrow> shfl_reduce F (2 ^ k) xs ! 0 = total.F (\<lambda>i. xs ! i) {..<2 * 2 ^ k}"
proof (induction k arbitrary: xs)
  case 0
  then have ne: "xs \<noteq> []" by auto
  have "shfl_reduce F 1 xs ! 0 = f_add F (xs ! 0) (xs ! 1)"
    using ne 0 by (simp add: shfl_reduce.simps [of F "Suc 0"] shfl_reduce.simps [of F 0] shfl_step_def)
  also have "\<dots> = total.F (\<lambda>i. xs ! i) {..<2}"
    by (simp add: numeral_2_eq_2 lessThan_Suc add_commute add_zero)
  finally show ?case by simp
next
  case (Suc k)
  let ?s = "2 ^ Suc k :: nat" and ?ys = "shfl_step F (2 ^ Suc k) xs"
  have step: "?ys ! i = f_add F (xs ! i) (xs ! (i + ?s))" if "i < ?s" for i
    using that Suc.prems by (simp add: shfl_step_def)
  have "shfl_reduce F ?s xs ! 0 = shfl_reduce F (2 ^ k) ?ys ! 0"
    by (subst shfl_reduce.simps) simp
  also have "\<dots> = total.F (\<lambda>i. ?ys ! i) {..<?s}"
    using Suc.IH [of ?ys] Suc.prems by (simp add: shfl_step_def)
  also have "\<dots> = total.F (\<lambda>i. f_add F (xs ! i) (xs ! (i + ?s))) {..<?s}"
    by (rule total.cong) (simp_all only: lessThan_iff step)
  also have "\<dots> = total.F (\<lambda>i. xs ! i) {..<?s + ?s}" by (rule total_halves)
  finally show ?case by (simp add: mult_2)
qed

lemma wave_sum_total: "wave_sum F (2 * 2 ^ k) g = total.F g {..<2 * 2 ^ k}"
proof -
  let ?xs = "map g [0..<2 * 2 ^ k]"
  have "shfl_reduce F (2 ^ k) ?xs ! 0 = total.F (\<lambda>i. ?xs ! i) {..<2 * 2 ^ k}" by (rule shfl_reduce_total) simp
  also have "\<dots> = total.F g {..<2 * 2 ^ k}" by (rule total.cong) simp_all
  finally show ?thesis by (simp add: wave_sum_def)
qed

lemma waves_sum_total:
  assumes "warp = 2 * 2 ^ k" and "warp dvd n"
  shows "waves_sum F warp n g = total.F g {..<n}"
proof -
  have pos: "0 < warp" using assms by simp
  have "waves_sum F warp n g = total.F (\<lambda>w. total.F (\<lambda>lane. g (w * warp + lane)) {..<warp}) {..<n div warp}"
    unfolding waves_sum_def acc_sum_total assms(1) wave_sum_total ..
  also have "\<dots> = total.F (\<lambda>w. total.F g {c \<in> {..<n}. c div warp = w}) {..<n div warp}"
  proof (rule total.cong [OF refl])
    fix w assume "w \<in> {..<n div warp}"
    then have "Suc w * warp \<le> n div warp * warp" by (intro mult_le_mono1) simp
    then have le: "w * warp + warp \<le> n" using assms(2) by simp
    show "total.F (\<lambda>lane. g (w * warp + lane)) {..<warp} = total.F g {c \<in> {..<n}. c div warp = w}"
      by (rule total.reindex_bij_witness [where i = "\<lambda>c. c mod warp" and j = "\<lambda>l. w * warp + l"])
         (use pos le in \<open>auto simp: div_mult_mod_eq\<close>)
  qed
  also have "\<dots> = total.F g {..<n}"
    by (rule total.group) (use pos assms(2) in \<open>auto simp: div_less_iff_less_mult mult.commute elim!: dvdE\<close>)
  finally show ?thesis .
qed

text \<open>The two kernels of one head.\<close>

lemma recurrent_head_decode128_eq:
  assumes "warp = 2 * 2 ^ k" and "warp dvd 128"
  shows "recurrent_head_decode128 F warp d eps decay beta norm = recurrent_head F d 128 128 eps decay beta norm"
proof (intro ext)
  fix reads :: "(nat \<Rightarrow> 'f) \<times> (nat \<Rightarrow> 'f) \<times> (nat \<Rightarrow> 'f) \<times> (nat \<Rightarrow> 'f)" and state
  obtain q k v z where r: "reads = (q, k, v, z)" by (cases reads)
  show "recurrent_head_decode128 F warp d eps decay beta norm reads state =
      recurrent_head F d 128 128 eps decay beta norm reads state"
    unfolding recurrent_head_decode128_def recurrent_head_def waves_sum_total [OF assms] block_sum_total r
      prod.case add_zero Let_def mul_assoc of_nat_numeral ..
qed

theorem decode_agrees_exact:
  assumes "warp = 2 * 2 ^ k" and "warp dvd 128" and "nw \<noteq> nv"
  shows "decode_agrees F warp d weights nqk nv kd vd nw eps"
  unfolding decode_agrees_def recurrent_token_def
  by (auto simp: recurrent_head_decode128_eq [OF assms(1,2)] assms(3) split: prod.split)

end

end
