(* ===== verification/Cpu_Backend.thy ===== *)
theory Cpu_Backend
  imports Ops
begin

text \<open>
  \<open>CpuBackend\<close> (\<open>src/backends/cpu/cpu_backend.cc\<close>): host memory, plain copies and the
  reference matrix product. Every other kernel keeps the default of \<open>Backend\<close>, which is
  not implemented. A copy past the end of a buffer is undefined behaviour; the offset copy
  checks its ranges in 64-bit arithmetic first.
\<close>

section \<open>Memory\<close>

text \<open>\<open>HostAllocator::allocate\<close> gives a null pointer for size 0; \<open>heap\<close> says which sizes
  \<open>malloc\<close> grants.\<close>

definition host_allocate :: "(nat \<Rightarrow> bool) \<Rightarrow> nat \<Rightarrow> bool result" where
  "host_allocate heap nbytes =
     (if nbytes = 0 then Inr False
      else if heap nbytes then Inr True
      else fails OutOfMemory ''Failed to allocate host memory'')"

definition cpu_create :: "(nat \<Rightarrow> bool) \<Rightarrow> nat \<Rightarrow> memory_type \<Rightarrow> bool" where
  "cpu_create heap nbytes type = (case host_allocate heap nbytes of Inl _ \<Rightarrow> False | Inr _ \<Rightarrow> True)"

definition host_copy :: "'f buffer \<Rightarrow> 'f buffer \<Rightarrow> nat \<Rightarrow> 'f buffer result" where
  "host_copy dst src nbytes =
     (if bf_size dst < nbytes \<or> bf_size src < nbytes then Inl (Undef ''memcpy'')
      else Inr (write_prefix (take (nbytes div bf_width src) (bf_data src)) dst))"

definition cpu_memcpy_h2d :: "'f buffer \<Rightarrow> 'f list \<Rightarrow> 'f buffer result" where
  "cpu_memcpy_h2d dst src =
     (if length (bf_data dst) < length src then Inl (Undef ''memcpy'') else Inr (write_prefix src dst))"

definition cpu_memcpy_d2h :: "'f buffer \<Rightarrow> nat \<Rightarrow> 'f list result" where
  "cpu_memcpy_d2h src nbytes =
     (if bf_size src < nbytes then Inl (Undef ''memcpy'')
      else Inr (take (nbytes div bf_width src) (bf_data src)))"

definition cpu_memset :: "'f fops \<Rightarrow> 'f buffer \<Rightarrow> nat \<Rightarrow> 'f buffer result" where
  "cpu_memset F dst nbytes =
     (if bf_size dst < nbytes then Inl (Undef ''memset'')
      else Inr (write_prefix (replicate (nbytes div bf_width dst) (f_zero F)) dst))"

text \<open>The sum of two \<open>size_t\<close>.\<close>

definition size_add :: "nat \<Rightarrow> nat \<Rightarrow> nat" where
  "size_add a b = unat (of_nat a + of_nat b :: u64)"

definition cpu_copy_to_offset ::
  "'f buffer \<Rightarrow> nat \<Rightarrow> 'f buffer \<Rightarrow> nat \<Rightarrow> nat \<Rightarrow> 'f buffer result" where
  "cpu_copy_to_offset dst dst_offset src src_offset nbytes =
     (if bf_size dst < size_add dst_offset nbytes \<or> bf_size src < size_add src_offset nbytes
      then fails InvalidArgument ''CPU offset copy range is invalid''
      else if bf_size dst < dst_offset + nbytes \<or> bf_size src < src_offset + nbytes
      then Inl (Undef ''memcpy'')
      else (let w = bf_width dst; n = nbytes div w; at = dst_offset div w in
            Inr (dst\<lparr>bf_data := take at (bf_data dst) @ take n (drop (src_offset div w) (bf_data src)) @
                       drop (at + n) (bf_data dst)\<rparr>)))"

section \<open>The matrix product\<close>

definition gemm_a_idx :: "bool \<Rightarrow> nat \<Rightarrow> nat \<Rightarrow> nat \<Rightarrow> nat \<Rightarrow> nat" where
  "gemm_a_idx trans_a m k i j = (if trans_a then j * m + i else i * k + j)"

definition gemm_b_idx :: "bool \<Rightarrow> nat \<Rightarrow> nat \<Rightarrow> nat \<Rightarrow> nat \<Rightarrow> nat" where
  "gemm_b_idx trans_b n k i j = (if trans_b then j * k + i else i * n + j)"

definition naive_gemm_f32 ::
  "'f fops \<Rightarrow> bool \<Rightarrow> bool \<Rightarrow> nat \<Rightarrow> nat \<Rightarrow> nat \<Rightarrow> 'f \<Rightarrow> 'f \<Rightarrow> 'f list \<Rightarrow> 'f list \<Rightarrow> 'f list \<Rightarrow> 'f list" where
  "naive_gemm_f32 F trans_a trans_b m n k alpha beta a b c =
     for_loop m (\<lambda>i. for_loop n (\<lambda>j c.
       let acc = acc_sum F k (\<lambda>l. f_mul F (a ! gemm_a_idx trans_a m k i l) (b ! gemm_b_idx trans_b n k l j));
           index = i * n + j
       in c[index := (if beta = f_zero F then f_mul F alpha acc
                      else f_add F (f_mul F alpha acc) (f_mul F beta (c ! index)))])) c"

definition cpu_gemm ::
  "'f fops \<Rightarrow> 'f buffer \<Rightarrow> 'f buffer \<Rightarrow> 'f buffer \<Rightarrow> dtype \<times> dtype \<times> dtype \<times> dtype \<Rightarrow>
   bool \<Rightarrow> bool \<Rightarrow> int \<Rightarrow> int \<Rightarrow> int \<Rightarrow> 'f \<Rightarrow> 'f \<Rightarrow> 'f buffer result" where
  "cpu_gemm F c a b types trans_a trans_b m n k alpha beta =
     (if types \<noteq> (FP32, FP32, FP32, FP32)
      then fails UnsupportedDType ''CpuBackend reference GEMM only supports FP32''
      else Inr (c\<lparr>bf_data := naive_gemm_f32 F trans_a trans_b (nat m) (nat n) (nat k) alpha beta
                    (bf_data a) (bf_data b) (bf_data c)\<rparr>))"

section \<open>The backend\<close>

text \<open>The defaults of \<open>class Backend\<close>.\<close>

abbreviation unavailable :: "string \<Rightarrow> 'a result" where
  "unavailable m \<equiv> fails NotImplemented m"

definition cpu_backend :: "'f fops \<Rightarrow> (nat \<Rightarrow> bool) \<Rightarrow> 'f \<Rightarrow> device \<Rightarrow> 'f backend" where
  "cpu_backend F heap junk dev = \<lparr>
     bk_device = dev,
     bk_create = cpu_create heap,
     bk_synchronize = Inr (),
     bk_copy = host_copy,
     bk_copy_to_offset = cpu_copy_to_offset,
     bk_memcpy_h2d = cpu_memcpy_h2d,
     bk_memcpy_d2h = cpu_memcpy_d2h,
     bk_cast = (\<lambda>_ _ _ _ _. unavailable ''Backend cast unavailable''),
     bk_memset = cpu_memset F,
     bk_gemm = cpu_gemm F,
     bk_add = (\<lambda>_ _ _ _ _. unavailable ''Backend add unavailable''),
     bk_add_row_bias = (\<lambda>_ _ _ _ _. unavailable ''Backend row bias add unavailable''),
     bk_strided_copy = (\<lambda>_ _ _ _ _ _. unavailable ''Backend strided copy unavailable''),
     bk_embedding_gather = (\<lambda>_ _ _ _ _ _ _. unavailable ''Backend embedding gather unavailable''),
     bk_rmsnorm = (\<lambda>_ _ _ _ _ _ _ _. unavailable ''Backend RMSNorm unavailable''),
     bk_unary = (\<lambda>_ _ _ _ _ _. unavailable ''Backend unary kernel unavailable''),
     bk_silu_mul = (\<lambda>_ _ _ _ _. unavailable ''Backend fused SiLU multiply unavailable''),
     bk_split_q_gate = (\<lambda>_ _ _ _ _ _ _. unavailable ''Backend query/gate split unavailable''),
     bk_partial_rope = (\<lambda>_ _ _ _ _ _ _ _ _. unavailable ''Backend partial RoPE unavailable''),
     bk_qk_rmsnorm_rope = (\<lambda>_ _ _ _ _ _ _ _ _ _ _ _. unavailable ''Backend fused QK RMSNorm/RoPE unavailable''),
     bk_q_gate_rmsnorm_rope =
       (\<lambda>_ _ _ _ _ _ _ _ _ _ _ _ _. unavailable ''Backend fused Q/gate RMSNorm/RoPE unavailable''),
     bk_causal_gqa = (\<lambda>_ _ _ _ _ _ _ _ _ _. unavailable ''Backend causal GQA unavailable''),
     bk_append_kv_cache = (\<lambda>_ _ _ _ _ _ _ _ _ _. unavailable ''Backend KV cache append unavailable''),
     bk_cached_gqa = (\<lambda>_ _ _ _ _ _ _ _ _ _ _. unavailable ''Backend cached GQA unavailable''),
     bk_cached_gqa_with_current_token =
       (\<lambda>_ _ _ _ _ _ _ _ _ _ _ _. unavailable ''Backend fused cached GQA unavailable''),
     bk_causal_conv1d_silu = (\<lambda>_ _ _ _ _ _ _ _. unavailable ''Backend causal conv1d unavailable''),
     bk_deltanet_grouped_conv =
       (\<lambda>_ _ _ _ _ _ _ _ _ _ _. unavailable ''Backend grouped DeltaNet conv unavailable''),
     bk_deltanet_recurrent =
       (\<lambda>_ _ _ _ _ _ _ _ _ _ _. unavailable ''Backend DeltaNet recurrent kernel unavailable''),
     bk_argmax_last_row = (\<lambda>_ _ _ _. unavailable ''Backend argmax unavailable''),
     bk_argmax_rows = (\<lambda>_ _ _ _. unavailable ''Backend batched argmax unavailable''),
     bk_junk = junk\<rparr>"

lemma cpu_backend_simps [simp]:
  "bk_device (cpu_backend F heap junk dev) = dev"
  "bk_create (cpu_backend F heap junk dev) = cpu_create heap"
  "bk_synchronize (cpu_backend F heap junk dev) = Inr ()"
  "bk_copy (cpu_backend F heap junk dev) = host_copy"
  "bk_copy_to_offset (cpu_backend F heap junk dev) = cpu_copy_to_offset"
  "bk_memcpy_h2d (cpu_backend F heap junk dev) = cpu_memcpy_h2d"
  "bk_memcpy_d2h (cpu_backend F heap junk dev) = cpu_memcpy_d2h"
  "bk_memset (cpu_backend F heap junk dev) = cpu_memset F"
  "bk_gemm (cpu_backend F heap junk dev) = cpu_gemm F"
  "bk_junk (cpu_backend F heap junk dev) = junk"
  by (simp_all add: cpu_backend_def)

section \<open>Laws\<close>

text \<open>A loop that writes element \<open>i\<close> in step \<open>i\<close>, from the element that was there.\<close>

lemma for_loop_update:
  assumes "at + n \<le> length xs"
  shows "for_loop n (\<lambda>j c. c[at + j := f j (c ! (at + j))]) xs =
     take at xs @ map (\<lambda>j. f j (xs ! (at + j))) [0..<n] @ drop (at + n) xs"
  using assms
proof (induction n)
  case 0
  then show ?case by simp
next
  case (Suc n)
  have d: "drop (at + n) xs = xs ! (at + n) # drop (at + Suc n) xs"
    using Suc.prems by (simp add: Cons_nth_drop_Suc)
  have l: "length (take at xs) = at" using Suc.prems by simp
  show ?case using Suc d l by (simp add: nth_append list_update_append)
qed

lemma naive_gemm_loop:
  assumes "length c = m * n"
  shows "for_loop m (\<lambda>i. for_loop n (\<lambda>j c. c[i * n + j := f i j (c ! (i * n + j))])) c =
     concat (map (\<lambda>i. map (\<lambda>j. f i j (c ! (i * n + j))) [0..<n]) [0..<m])"
proof -
  have "for_loop r (\<lambda>i. for_loop n (\<lambda>j c. c[i * n + j := f i j (c ! (i * n + j))])) c =
     concat (map (\<lambda>i. map (\<lambda>j. f i j (c ! (i * n + j))) [0..<n]) [0..<r]) @ drop (r * n) c" if "r \<le> m" for r
    using that
  proof (induction r)
    case 0
    then show ?case by simp
  next
    case (Suc r)
    let ?done = "concat (map (\<lambda>i. map (\<lambda>j. f i j (c ! (i * n + j))) [0..<n]) [0..<r])"
    have len: "length ?done = r * n" by (subst length_concat_const [where k = n]) auto
    have le: "r * n + n \<le> m * n" using mult_le_mono1 [OF Suc.prems, of n] by simp
    have "for_loop n (\<lambda>j c. c[r * n + j := f r j (c ! (r * n + j))]) (?done @ drop (r * n) c) =
        ?done @ map (\<lambda>j. f r j ((?done @ drop (r * n) c) ! (r * n + j))) [0..<n] @ drop (r * n + n) c"
      using le assms len by (subst for_loop_update) (simp_all add: add.commute)
    moreover have "(?done @ drop (r * n) c) ! (r * n + j) = c ! (r * n + j)" if "j < n" for j
    proof -
      have "r * n \<le> length c" using le assms by linarith
      from nth_drop [OF this] that len show ?thesis by (simp add: nth_append)
    qed
    ultimately show ?case using Suc by (simp add: add.commute cong: map_cong)
  qed
  from this [of m] assms show ?thesis by simp
qed

text \<open>The product the loops compute: entry \<open>(i, j)\<close> is the sum over \<open>k\<close>.\<close>

definition product_entry :: "'f fops \<Rightarrow> bool \<Rightarrow> bool \<Rightarrow> nat \<Rightarrow> nat \<Rightarrow> nat \<Rightarrow> 'f list \<Rightarrow> 'f list \<Rightarrow> nat \<Rightarrow> nat \<Rightarrow> 'f" where
  "product_entry F trans_a trans_b m n k a b i j =
     acc_sum F k (\<lambda>l. f_mul F (if trans_a then a ! (l * m + i) else a ! (i * k + l))
                              (if trans_b then b ! (j * k + l) else b ! (l * n + j)))"

lemma naive_gemm_eq:
  assumes "length c = m * n"
  shows "naive_gemm_f32 F trans_a trans_b m n k alpha beta a b c =
     concat (map (\<lambda>i. map (\<lambda>j. let p = f_mul F alpha (product_entry F trans_a trans_b m n k a b i j) in
        if beta = f_zero F then p else f_add F p (f_mul F beta (c ! (i * n + j)))) [0..<n]) [0..<m])"
  unfolding naive_gemm_f32_def Let_def
  by (subst naive_gemm_loop [OF assms])
     (simp add: product_entry_def gemm_a_idx_def gemm_b_idx_def if_distrib [of "(!) _"] Let_def cong: if_cong)

lemma size_add_exact: "a + b < 2 ^ 64 \<Longrightarrow> size_add a b = a + b"
  by (simp add: size_add_def unat_of_nat flip: of_nat_add)

text \<open>With \<open>beta\<close> zero the result does not depend on what the destination held, and its rows are
  computed from the rows of the left operand.\<close>

definition naive_product :: "'f fops \<Rightarrow> bool \<Rightarrow> nat \<Rightarrow> nat \<Rightarrow> nat \<Rightarrow> 'f list \<Rightarrow> 'f list \<Rightarrow> 'f list" where
  "naive_product F trans_b m n k a b =
     naive_gemm_f32 F False trans_b m n k (f_one F) (f_zero F) a b (replicate (m * n) (f_zero F))"

lemma naive_product_eq:
  "naive_product F trans_b m n k a b =
     concat (map (\<lambda>i. map (\<lambda>j. f_mul F (f_one F) (product_entry F False trans_b m n k a b i j)) [0..<n]) [0..<m])"
  by (simp add: naive_product_def naive_gemm_eq)

lemma naive_product_length: "length (naive_product F trans_b m n k a b) = m * n"
  unfolding naive_product_eq by (subst length_concat_const [where k = n]) auto

lemma naive_product_append:
  assumes "length xs = m1 * k"
  shows "naive_product F trans_b (m1 + m2) n k (xs @ ys) b =
     naive_product F trans_b m1 n k xs b @ naive_product F trans_b m2 n k ys b"
  unfolding naive_product_eq product_entry_def
  by (rule concat_upt_split; intro map_cong [OF refl] arg_cong2 [where f = "f_mul F"] refl acc_sum_cong)
     (simp_all add: nth_row_front [OF assms] nth_row_back [OF assms])

end
