(* ===== verification/Reference_Machine.thy ===== *)
theory Reference_Machine
  imports Complex_Main Qwen_Machine Exact_Arithmetic Cpu_Backend
begin

text \<open>
  The assumptions of \<open>hip_machine\<close> and \<open>qwen_machine\<close> hold: on a driver that grants every
  request, with the reference product of the CPU backend rounded to the result type in the
  place of rocBLAS, and with any arithmetic without rounding. Two such arithmetics are given:
  the real numbers, on which the machine runs every model of the supported sizes, and the
  integers, which evaluate.
\<close>

section \<open>The driver\<close>

definition reference_gemm ::
  "'f fops \<Rightarrow> dtype \<times> dtype \<times> dtype \<times> dtype \<Rightarrow> bool \<Rightarrow> bool \<Rightarrow> nat \<Rightarrow> nat \<Rightarrow> nat \<Rightarrow> 'f \<Rightarrow> 'f \<Rightarrow>
   'f list \<Rightarrow> 'f list \<Rightarrow> 'f list \<Rightarrow> 'f list option" where
  "reference_gemm F types trans_a trans_b m n k alpha beta a b c =
     Some (map (f_store F (fst types)) (naive_product F trans_b m n k a b))"

definition reference_env :: "'f fops \<Rightarrow> 'f \<Rightarrow> device \<Rightarrow> 'f hip_env" where
  "reference_env F junk dev = \<lparr>
     he_device = dev, he_fops = F, he_warp = 64, he_select = True, he_launch = (\<lambda>_. True),
     he_memcpy = True, he_sync = True, he_create = (\<lambda>_ _. True), he_rocblas_handle = True,
     he_rocblas = reference_gemm F,
     he_junk = junk\<rparr>"

definition reference_backends :: "'f fops \<Rightarrow> 'f \<Rightarrow> 'f backends" where
  "reference_backends F junk dev =
     Some (if is_gpu dev then hip_backend (reference_env F junk dev)
           else cpu_backend F (\<lambda>_. True) junk dev)"

lemma reference_hip_machine:
  assumes "store_idem F"
  shows "hip_machine F (reference_backends F junk) (reference_env F junk)"
  by unfold_locales
     (use assms in \<open>auto simp: reference_env_def reference_gemm_def reference_backends_def naive_product_append naive_product_length\<close>)

section \<open>Real arithmetic\<close>

definition real_fops :: "real fops" where
  "real_fops = \<lparr>
     f_int = of_int, f_lit = (\<lambda>a b. of_int a / of_int b), f_add = (+), f_sub = (-), f_mul = (*), f_div = (/),
     f_neg = uminus, f_abs = abs, f_max = max, f_exp = exp, f_log1p = (\<lambda>x. ln (1 + x)), f_sqrt = sqrt,
     f_rsqrt = (\<lambda>x. 1 / sqrt x), f_sin = sin, f_cos = cos, f_tanh = tanh, f_pow = (powr), f_gt = (>),
     f_neg_inf = - (2 ^ 128), f_trunc_bf16 = (\<lambda>x. x), f_store = (\<lambda>_ x. x)\<rparr>"

interpretation real_exact: exact_fops real_fops
  by unfold_locales (simp_all add: real_fops_def store_idem_def)

interpretation real_hip: hip_machine real_fops "reference_backends real_fops 0" "reference_env real_fops 0"
  by (rule reference_hip_machine) (simp add: real_fops_def store_idem_def)

section \<open>Integer arithmetic\<close>

definition int_fops :: "int fops" where
  "int_fops = \<lparr>
     f_int = (\<lambda>x. x), f_lit = (div), f_add = (+), f_sub = (-), f_mul = (*), f_div = (div),
     f_neg = uminus, f_abs = abs, f_max = max, f_exp = (\<lambda>x. if x < 0 then 0 else 1), f_log1p = (\<lambda>x. x), f_sqrt = (\<lambda>_. 1),
     f_rsqrt = (\<lambda>_. 1), f_sin = (\<lambda>_. 0), f_cos = (\<lambda>_. 1), f_tanh = (\<lambda>x. x), f_pow = (\<lambda>_ _. 1), f_gt = (>),
     f_neg_inf = - 1000000, f_trunc_bf16 = (\<lambda>x. x), f_store = (\<lambda>_ x. x)\<rparr>"

interpretation int_exact: exact_fops int_fops
  by unfold_locales (simp_all add: int_fops_def store_idem_def)

interpretation int_hip: hip_machine int_fops "reference_backends int_fops 0" "reference_env int_fops 0"
  by (rule reference_hip_machine) (simp add: int_fops_def store_idem_def)

end
