(* ===== verification/Argmax_Laws.thy ===== *)
theory Argmax_Laws
  imports Decoder_Model Hip_Recurrent Kernel_Laws
begin

text \<open>
  What the two argmax procedures compute. Both return a column whose value no other value
  exceeds, when the comparison orders the values; they differ on ties only, where the host
  scan returns the first such column.
\<close>

section \<open>Orders\<close>

text \<open>The comparison of floats that are not NaN: a strict weak order.\<close>

definition weak_order :: "('f \<Rightarrow> 'f \<Rightarrow> bool) \<Rightarrow> bool" where
  "weak_order gt \<longleftrightarrow> (\<forall>a b. gt a b \<longrightarrow> \<not> gt b a) \<and> (\<forall>a b c. gt a b \<longrightarrow> gt a c \<or> gt c b)"

lemma weak_order_irrefl: "weak_order gt \<Longrightarrow> \<not> gt a a"
  unfolding weak_order_def by blast

lemma weak_order_le_trans: "weak_order gt \<Longrightarrow> \<not> gt a b \<Longrightarrow> \<not> gt b c \<Longrightarrow> \<not> gt a c"
  unfolding weak_order_def by blast

lemma weak_order_asym: "weak_order gt \<Longrightarrow> gt a b \<Longrightarrow> \<not> gt b a"
  by (simp add: weak_order_def)

section \<open>The kernel\<close>

text \<open>A candidate is the start value or a column with its value.\<close>

definition candidate :: "'f fops \<Rightarrow> nat set \<Rightarrow> (nat \<Rightarrow> 'f) \<Rightarrow> 'f \<times> nat \<Rightarrow> bool" where
  "candidate F C row b \<longleftrightarrow> b = (f_neg_inf F, 0) \<or> (snd b \<in> C \<and> fst b = row (snd b))"

definition better :: "'f fops \<Rightarrow> (nat \<Rightarrow> 'f) \<Rightarrow> nat \<Rightarrow> 'f \<times> nat \<Rightarrow> 'f \<times> nat" where
  "better F row c = (\<lambda>(best, index). if f_gt F (row c) best then (row c, c) else (best, index))"

lemma better_laws:
  assumes "weak_order (f_gt F)"
  shows "candidate F C row b \<Longrightarrow> c \<in> C \<Longrightarrow> candidate F C row (better F row c b)"
    and "\<not> f_gt F (fst b) (fst (better F row c b))" and "\<not> f_gt F (row c) (fst (better F row c b))"
  using weak_order_irrefl [OF assms] weak_order_asym [OF assms]
  by (auto simp: candidate_def better_def split: prod.splits)

lemma fold_best:
  assumes wo: "weak_order (f_gt F)"
  shows "candidate F C row b \<Longrightarrow> set cs \<subseteq> C \<Longrightarrow> candidate F C row (fold (better F row) cs b)"
    and "\<not> f_gt F (fst b) (fst (fold (better F row) cs b))"
    and "c \<in> set cs \<Longrightarrow> \<not> f_gt F (row c) (fst (fold (better F row) cs b))"
proof -
  have keep: "\<not> f_gt F (fst b) (fst (fold (better F row) cs b))" for b cs
  proof (induction cs arbitrary: b)
    case Nil
    then show ?case using weak_order_irrefl [OF wo] by simp
  next
    case (Cons x cs)
    show ?case
      using weak_order_le_trans [OF wo better_laws(2) [OF wo] Cons.IH, of b row x] by simp
  qed
  then show "\<not> f_gt F (fst b) (fst (fold (better F row) cs b))" .
  show "candidate F C row b \<Longrightarrow> set cs \<subseteq> C \<Longrightarrow> candidate F C row (fold (better F row) cs b)"
    by (induction cs arbitrary: b) (simp_all add: better_laws(1) [OF wo])
  show "c \<in> set cs \<Longrightarrow> \<not> f_gt F (row c) (fst (fold (better F row) cs b))"
  proof (induction cs arbitrary: b)
    case Nil
    then show ?case by simp
  next
    case (Cons x cs)
    show ?case
    proof (cases "c = x")
      case True
      from weak_order_le_trans [OF wo better_laws(3) [OF wo] keep, of row x cs b] True show ?thesis by simp
    next
      case False
      with Cons show ?thesis by simp
    qed
  qed
qed

lemma lane_best_laws:
  assumes "weak_order (f_gt F)"
  shows "candidate F {..<n} row (lane_best F lanes n row lane)"
    and "c < n \<Longrightarrow> c mod lanes = lane \<Longrightarrow> \<not> f_gt F (row c) (fst (lane_best F lanes n row lane))"
proof -
  have s: "set (strided lanes n lane) = {c. c < n \<and> c mod lanes = lane}" by (auto simp: strided_def)
  have "candidate F {..<n} row (f_neg_inf F, 0)" by (simp add: candidate_def)
  from fold_best(1) [OF assms this, of "strided lanes n lane"] s
  show "candidate F {..<n} row (lane_best F lanes n row lane)"
    by (auto simp: lane_best_def better_def [abs_def])
  show "c < n \<Longrightarrow> c mod lanes = lane \<Longrightarrow> \<not> f_gt F (row c) (fst (lane_best F lanes n row lane))"
    using fold_best(3) [OF assms, of c "strided lanes n lane" row "(f_neg_inf F, 0)"] s
    by (simp add: lane_best_def better_def [abs_def])
qed

lemma best_reduce_laws:
  assumes "weak_order (f_gt F)" and "2 * 2 ^ k \<le> length xs"
  shows "best_reduce F (2 ^ k) xs ! 0 \<in> (!) xs ` {..<2 * 2 ^ k}"
    and "i < 2 * 2 ^ k \<Longrightarrow> \<not> f_gt F (fst (xs ! i)) (fst (best_reduce F (2 ^ k) xs ! 0))"
proof -
  have "best_reduce F (2 ^ k) xs ! 0 \<in> (!) xs ` {..<2 * 2 ^ k} \<and>
     (\<forall>i < 2 * 2 ^ k. \<not> f_gt F (fst (xs ! i)) (fst (best_reduce F (2 ^ k) xs ! 0)))"
    using assms(2)
  proof (induction k arbitrary: xs)
    case 0
    then have ne: "xs \<noteq> []" by auto
    have "best_reduce F 1 xs ! 0 = (if f_gt F (fst (xs ! 1)) (fst (xs ! 0)) then xs ! 1 else xs ! 0)"
      using ne by (simp add: best_reduce.simps [of F "Suc 0"] best_reduce.simps [of F 0] best_step_def)
    moreover have "{..<2} = {0, Suc 0}" "i < 2 \<longleftrightarrow> i = 0 \<or> i = Suc 0" for i by auto
    ultimately show ?case
      using weak_order_irrefl [OF assms(1)] weak_order_asym [OF assms(1)] by auto
  next
    case (Suc k)
    let ?s = "2 ^ Suc k :: nat" and ?ys = "best_step F (2 ^ Suc k) xs"
    have red: "best_reduce F ?s xs = best_reduce F (2 ^ k) ?ys" by (subst best_reduce.simps) simp
    have step: "?ys ! i = (if f_gt F (fst (xs ! (i + ?s))) (fst (xs ! i)) then xs ! (i + ?s) else xs ! i)" if "i < ?s" for i
      using that Suc.prems by (simp add: best_step_def)
    have IH: "best_reduce F (2 ^ k) ?ys ! 0 \<in> (!) ?ys ` {..<?s}"
      "\<And>i. i < ?s \<Longrightarrow> \<not> f_gt F (fst (?ys ! i)) (fst (best_reduce F (2 ^ k) ?ys ! 0))"
      using Suc.IH [of ?ys] Suc.prems by (simp_all add: best_step_def)
    from IH(1) obtain i where i: "i < ?s" "best_reduce F (2 ^ k) ?ys ! 0 = ?ys ! i" by auto
    have "best_reduce F ?s xs ! 0 \<in> (!) xs ` {..<2 * ?s}" unfolding red i(2) step [OF i(1)] using i(1) by auto
    moreover have "\<not> f_gt F (fst (xs ! j)) (fst (best_reduce F ?s xs ! 0))" if "j < 2 * ?s" for j
    proof -
      define r where "r = (if j < ?s then j else j - ?s)"
      have r: "r < ?s" "j = r \<or> j = r + ?s" using that by (auto simp: r_def)
      have "\<not> f_gt F (fst (xs ! j)) (fst (?ys ! r))"
        unfolding step [OF r(1)] using r(2) weak_order_irrefl [OF assms(1)] weak_order_asym [OF assms(1)] by auto
      with IH(2) [OF r(1)] weak_order_le_trans [OF assms(1)] red show ?thesis by metis
    qed
    ultimately show ?case by blast
  qed
  then show "best_reduce F (2 ^ k) xs ! 0 \<in> (!) xs ` {..<2 * 2 ^ k}"
    and "i < 2 * 2 ^ k \<Longrightarrow> \<not> f_gt F (fst (xs ! i)) (fst (best_reduce F (2 ^ k) xs ! 0))" by auto
qed

theorem row_argmax_max:
  assumes wo: "weak_order (f_gt F)" and inf: "\<And>c. c < n \<Longrightarrow> f_gt F (row c) (f_neg_inf F)" and n: "0 < n"
  shows "\<exists>i < n. row_argmax F n row = int i \<and> (\<forall>c < n. \<not> f_gt F (row c) (row i))"
proof -
  let ?xs = "map (lane_best F kBlockSize n row) [0..<kBlockSize]" and ?r = "best_reduce F (kBlockSize div 2)"
  have l: "2 * 2 ^ 7 \<le> length ?xs" and k: "kBlockSize div 2 = 2 ^ 7" "kBlockSize = 2 * 2 ^ 7"
    by (simp_all add: kBlockSize_def)
  from best_reduce_laws(1) [OF wo l] obtain lane where lane: "lane < kBlockSize"
    "?r ?xs ! 0 = lane_best F kBlockSize n row lane" unfolding k(1) by (auto simp: k(2))
  have top: "\<not> f_gt F (row c) (fst (?r ?xs ! 0))" if "c < n" for c
  proof -
    have m: "c mod kBlockSize < 2 * 2 ^ 7" by (simp add: kBlockSize_def)
    have "\<not> f_gt F (row c) (fst (lane_best F kBlockSize n row (c mod kBlockSize)))"
      using lane_best_laws(2) [OF wo that refl] .
    moreover have "\<not> f_gt F (fst (?xs ! (c mod kBlockSize))) (fst (?r ?xs ! 0))"
      using best_reduce_laws(2) [OF wo l m] unfolding k(1) .
    moreover have "?xs ! (c mod kBlockSize) = lane_best F kBlockSize n row (c mod kBlockSize)"
      using m by (simp add: k)
    ultimately show ?thesis using weak_order_le_trans [OF wo] by metis
  qed
  have "candidate F {..<n} row (?r ?xs ! 0)" unfolding lane(2) by (rule lane_best_laws(1) [OF wo])
  with top [OF n] inf [OF n] have "snd (?r ?xs ! 0) < n" "fst (?r ?xs ! 0) = row (snd (?r ?xs ! 0))"
    by (auto simp: candidate_def)
  with top show ?thesis unfolding row_argmax_def by (intro exI [of _ "snd (?r ?xs ! 0)"]) simp
qed

lemma row_argmax_unique:
  assumes "weak_order (f_gt F)" and "\<And>c. c < n \<Longrightarrow> f_gt F (row c) (f_neg_inf F)" and "i < n"
    and "\<And>c. c < n \<Longrightarrow> c \<noteq> i \<Longrightarrow> f_gt F (row i) (row c)"
  shows "row_argmax F n row = int i"
proof -
  have "\<exists>j < n. row_argmax F n row = int j \<and> (\<forall>c < n. \<not> f_gt F (row c) (row j))"
    by (rule row_argmax_max [OF assms(1)]) (use assms in auto)
  then obtain j where j: "j < n" "row_argmax F n row = int j" "\<not> f_gt F (row i) (row j)"
    using assms(3) by auto
  from assms(4) [OF j(1)] j(3) have "j = i" by auto
  with j(2) show ?thesis by simp
qed

section \<open>The host scan\<close>

theorem host_argmax_first:
  assumes wo: "weak_order gt" and inf: "\<And>x. x \<in> set row \<Longrightarrow> gt x neg_inf" and ne: "row \<noteq> []"
  shows "\<exists>i < length row. host_argmax gt neg_inf start row = int i \<and> (\<forall>c < length row. \<not> gt (row ! c) (row ! i)) \<and>
     (\<forall>c < i. gt (row ! i) (row ! c))"
proof -
  let ?step = "\<lambda>id (best, res). if gt (row ! id) best then (row ! id, int id) else (best, res)"
  have "\<exists>i < k. fold ?step [0..<k] (neg_inf, start) = (row ! i, int i) \<and>
      (\<forall>c < k. \<not> gt (row ! c) (row ! i)) \<and> (\<forall>c < i. gt (row ! i) (row ! c))" if "0 < k" "k \<le> length row" for k
    using that
  proof (induction k)
    case 0
    then show ?case by simp
  next
    case (Suc k)
    show ?case
    proof (cases "k = 0")
      case True
      have "gt (row ! 0) neg_inf" using Suc.prems by (intro inf nth_mem) linarith
      then show ?thesis using True weak_order_irrefl [OF wo] by simp
    next
      case False
      with Suc obtain i where i: "i < k" "fold ?step [0..<k] (neg_inf, start) = (row ! i, int i)"
        "\<forall>c < k. \<not> gt (row ! c) (row ! i)" "\<forall>c < i. gt (row ! i) (row ! c)" by auto
      show ?thesis
      proof (cases "gt (row ! k) (row ! i)")
        case True
        have "gt (row ! k) (row ! c)" if "c < k" for c
          using wo True i(3) that unfolding weak_order_def by metis
        moreover from this have "\<not> gt (row ! c) (row ! k)" if "c < Suc k" for c
          using that weak_order_asym [OF wo] weak_order_irrefl [OF wo] by (metis less_antisym)
        ultimately show ?thesis using i True by (intro exI [of _ k]) simp
      next
        case False
        with i show ?thesis by (intro exI [of _ i]) (auto simp: less_Suc_eq)
      qed
    qed
  qed
  from this [of "length row"] ne show ?thesis by (auto simp: host_argmax_def)
qed

end
