(* ===== verification/Json.thy ===== *)
theory Json
  imports Prelude
begin

text \<open>
  The JSON documents the loaders read. The parser (\<open>nlohmann/json\<close>) is not part of the
  repository: the loaders take the outcome of parsing as an argument. Its documented values
  and checked accessors are written out here once: an object keeps its members in key order
  with distinct keys, an integer is a signed or unsigned 64-bit number, and \<open>get<T>\<close> throws on
  a value of another kind. A floating-point literal is a value of an abstract type
  \<open>'d\<close>; the conversions the loaders apply to it are arguments.
\<close>

section \<open>Values\<close>

datatype 'd json =
    JNull
  | JBool bool
  | JInt int
  | JFloat 'd
  | JString string
  | JArray "'d json list"
  | JObject "(string \<times> 'd json) list"

record ('d, 'f) json_numbers =
  jn_int_to_float :: "int \<Rightarrow> 'f"
  jn_double_to_float :: "'d \<Rightarrow> 'f"
  jn_double_to_int :: "'d \<Rightarrow> int"

section \<open>Accessors\<close>

fun is_object :: "'d json \<Rightarrow> bool" where
  "is_object (JObject _) = True"
| "is_object _ = False"

fun is_array :: "'d json \<Rightarrow> bool" where
  "is_array (JArray _) = True"
| "is_array _ = False"

fun is_string :: "'d json \<Rightarrow> bool" where
  "is_string (JString _) = True"
| "is_string _ = False"

fun is_boolean :: "'d json \<Rightarrow> bool" where
  "is_boolean (JBool _) = True"
| "is_boolean _ = False"

fun is_null :: "'d json \<Rightarrow> bool" where
  "is_null JNull = True"
| "is_null _ = False"

fun is_number_integer :: "'d json \<Rightarrow> bool" where
  "is_number_integer (JInt _) = True"
| "is_number_integer _ = False"

fun is_json_number :: "'d json \<Rightarrow> bool" where
  "is_json_number (JInt _) = True"
| "is_json_number (JFloat _) = True"
| "is_json_number _ = False"

text \<open>\<open>contains\<close> and a successful \<open>at\<close>: the member of an object.\<close>

fun member :: "'d json \<Rightarrow> string \<Rightarrow> 'd json option" where
  "member (JObject kvs) k = map_of kvs k"
| "member _ k = None"

fun elements :: "'d json \<Rightarrow> 'd json list" where
  "elements (JArray xs) = xs"
| "elements _ = []"

text \<open>The number a static cast to a signed integer of \<open>w\<close> bits keeps.\<close>

definition cast_i64 :: "int \<Rightarrow> int" where
  "cast_i64 n = sint (word_of_int n :: 64 word)"

definition cast_i32 :: "int \<Rightarrow> int" where
  "cast_i32 n = sint (word_of_int n :: 32 word)"

definition cast_u64 :: "int \<Rightarrow> int" where
  "cast_u64 n = uint (word_of_int n :: 64 word)"

definition wrong_type :: "'a result" where
  "wrong_type = Inl (Thrown ''json::type_error'')"

fun get_i64 :: "('d, 'f) json_numbers \<Rightarrow> 'd json \<Rightarrow> int result" where
  "get_i64 N (JInt n) = Inr (cast_i64 n)"
| "get_i64 N (JFloat d) = Inr (cast_i64 (jn_double_to_int N d))"
| "get_i64 N _ = wrong_type"

fun get_u64 :: "('d, 'f) json_numbers \<Rightarrow> 'd json \<Rightarrow> int result" where
  "get_u64 N (JInt n) = Inr (cast_u64 n)"
| "get_u64 N (JFloat d) = Inr (cast_u64 (jn_double_to_int N d))"
| "get_u64 N _ = wrong_type"

text \<open>The conversion to \<open>int\<close>, which also accepts a boolean.\<close>

fun get_i32 :: "('d, 'f) json_numbers \<Rightarrow> 'd json \<Rightarrow> int result" where
  "get_i32 N (JInt n) = Inr (cast_i32 n)"
| "get_i32 N (JFloat d) = Inr (cast_i32 (jn_double_to_int N d))"
| "get_i32 N (JBool b) = Inr (of_bool b)"
| "get_i32 N _ = wrong_type"

fun get_float :: "('d, 'f) json_numbers \<Rightarrow> 'd json \<Rightarrow> 'f option" where
  "get_float N (JInt n) = Some (jn_int_to_float N n)"
| "get_float N (JFloat d) = Some (jn_double_to_float N d)"
| "get_float N _ = None"

fun get_string :: "'d json \<Rightarrow> string result" where
  "get_string (JString s) = Inr s"
| "get_string _ = wrong_type"

fun get_bool :: "'d json \<Rightarrow> bool result" where
  "get_bool (JBool b) = Inr b"
| "get_bool _ = wrong_type"

text \<open>A fallible conversion of every element of a list, and \<open>get<std::vector<T>>\<close>.\<close>

fun convert_all :: "('a \<Rightarrow> 'b result) \<Rightarrow> 'a list \<Rightarrow> 'b list result" where
  "convert_all f [] = Inr []"
| "convert_all f (x # xs) =
     and_then (f x) (\<lambda>y. and_then (convert_all f xs) (\<lambda>ys. Inr (y # ys)))"

definition get_list :: "('d json \<Rightarrow> 'b result) \<Rightarrow> 'd json \<Rightarrow> 'b list result" where
  "get_list f j = (if is_array j then convert_all f (elements j) else wrong_type)"

text \<open>\<open>value(key, default)\<close>: the default where the key is missing; a value that is not an
  object is an error.\<close>

definition value_or :: "('d json \<Rightarrow> 'b result) \<Rightarrow> 'd json \<Rightarrow> string \<Rightarrow> 'b \<Rightarrow> 'b result" where
  "value_or f j k fallback =
     (if is_object j then (case member j k of None \<Rightarrow> Inr fallback | Some v \<Rightarrow> f v) else wrong_type)"

section \<open>Loading into a state\<close>

text \<open>A loader fills the fields of an object as it goes: what it has written stays when it
  returns an error or an exception leaves it.\<close>

type_synonym 's loaded = "'s \<times> unit result"

definition and_load :: "'s loaded \<Rightarrow> ('s \<Rightarrow> 's loaded) \<Rightarrow> 's loaded" where
  "and_load p f = (case snd p of Inl e \<Rightarrow> p | Inr _ \<Rightarrow> f (fst p))"

fun load_each :: "('a \<Rightarrow> 's \<Rightarrow> 's loaded) \<Rightarrow> 'a list \<Rightarrow> 's \<Rightarrow> 's loaded" where
  "load_each f [] s = (s, Inr ())"
| "load_each f (x # xs) s = and_load (f x s) (load_each f xs)"

text \<open>A fallible value on the way into a loader: its failure ends the loader.\<close>

definition loading :: "'b result \<Rightarrow> 's \<Rightarrow> ('b \<Rightarrow> 's loaded) \<Rightarrow> 's loaded" where
  "loading r s f = (case r of Inl e \<Rightarrow> (s, Inl e) | Inr b \<Rightarrow> f b)"

definition load_fails :: "status_code \<Rightarrow> string \<Rightarrow> 's \<Rightarrow> 's loaded" where
  "load_fails c m s = (s, fails c m)"

text \<open>What reading a JSON file gives.\<close>

datatype 'd json_file =
    FileMissing
  | FileUnreadable
  | FileMalformed string
  | FileJson "'d json"

section \<open>Laws\<close>

lemma and_load_Inr:
  "and_load p f = (s', Inr u) \<longleftrightarrow> snd p = Inr () \<and> f (fst p) = (s', Inr ())"
  by (cases p; cases "snd p") (auto simp: and_load_def)

lemma and_loadE:
  assumes "and_load p f = (s', Inr u)"
  obtains s where "p = (s, Inr ())" "f s = (s', Inr ())"
  using assms by (cases p) (auto simp: and_load_Inr)

lemma and_load_simps [simp]:
  "and_load (s, Inr u) f = f s"
  "and_load (s, Inl e) f = (s, Inl e)"
  by (simp_all add: and_load_def)

lemma loading_Inr:
  "loading r s f = (s', Inr u) \<longleftrightarrow> (\<exists>b. r = Inr b \<and> f b = (s', Inr ()))"
  by (cases r) (auto simp: loading_def)

lemma loading_simps [simp]:
  "loading (Inr b) s f = f b"
  "loading (Inl e) s f = (s, Inl e)"
  by (simp_all add: loading_def)

lemma load_fails_Inr [simp]: "load_fails c m s \<noteq> (s', Inr u)"
  by (simp add: load_fails_def fails_def)

text \<open>An invariant of every step of a loop is an invariant of the loop.\<close>

lemma load_each_invariant:
  assumes "P s" and "\<And>x t t'. x \<in> set xs \<Longrightarrow> P t \<Longrightarrow> f x t = (t', Inr ()) \<Longrightarrow> P t'"
    and "load_each f xs s = (s', Inr ())"
  shows "P s'"
  using assms
proof (induction xs arbitrary: s)
  case (Cons x xs)
  from Cons.prems(3) obtain t where t: "f x s = (t, Inr ())" "load_each f xs t = (s', Inr ())"
    by (cases "f x s") (auto simp: and_load_Inr)
  show ?case using Cons.IH [of t] Cons.prems(1, 2) t by auto
qed simp

lemma convert_all_length: "convert_all f xs = Inr ys \<Longrightarrow> length ys = length xs"
  by (induction xs arbitrary: ys) (auto simp: and_then_Inr)

lemma convert_all_nth:
  "convert_all f xs = Inr ys \<Longrightarrow> i < length xs \<Longrightarrow> f (xs ! i) = Inr (ys ! i)"
  by (induction xs arbitrary: ys i) (auto simp: and_then_Inr less_Suc_eq_0_disj)

lemma convert_all_set:
  assumes "convert_all f xs = Inr ys" "y \<in> set ys" shows "\<exists>x \<in> set xs. f x = Inr y"
proof -
  from assms(2) obtain i where "i < length ys" "y = ys ! i" by (auto simp: in_set_conv_nth)
  then show ?thesis
    using convert_all_nth [OF assms(1), of i] convert_all_length [OF assms(1)] by auto
qed

lemma cast_i64_id: "- (2 ^ 63) \<le> n \<Longrightarrow> n < 2 ^ 63 \<Longrightarrow> cast_i64 n = n"
  using signed_take_bit_int_eq_self [of 63 n] by (simp add: cast_i64_def signed_of_int)

lemma cast_i64_bounds: "- (2 ^ 63) \<le> cast_i64 n \<and> cast_i64 n < 2 ^ 63"
  using sint_ge [of "word_of_int n :: 64 word"] sint_less [of "word_of_int n :: 64 word"]
  by (simp add: cast_i64_def)

lemma cast_u64_nonneg: "0 \<le> cast_u64 n \<and> cast_u64 n < 2 ^ 64"
  using uint_lt2p [of "word_of_int n :: 64 word"] by (simp add: cast_u64_def)

lemma get_i64_bounds: "get_i64 N j = Inr n \<Longrightarrow> - (2 ^ 63) \<le> n \<and> n < 2 ^ 63"
  by (cases j) (use cast_i64_bounds in \<open>auto simp: wrong_type_def\<close>)

lemma get_u64_bounds: "get_u64 N j = Inr n \<Longrightarrow> 0 \<le> n \<and> n < 2 ^ 64"
  by (cases j) (use cast_u64_nonneg in \<open>auto simp: wrong_type_def\<close>)

lemma member_object: "member j k = Some v \<Longrightarrow> is_object j"
  by (cases j) auto

end
