(* ===== verification/Safetensors.thy ===== *)
theory Safetensors
  imports Tensor_Core Json "HOL-Library.Char_ord" "HOL-Library.List_Lexorder"
begin

text \<open>
  \<open>src/io/safetensor_loader.cc\<close>: opening a safetensors file or a sharded model directory and
  loading one tensor. The file system, the JSON parser, the decoding of the raw elements of a
  tensor and the staging allocator are arguments; the header, its checks and the slice of the
  file a tensor is read from are the code's.
\<close>

section \<open>The environment and the state\<close>

record ('d, 'f) store_env =
  se_numbers :: "('d, 'f) json_numbers"
  se_is_directory :: "string \<Rightarrow> bool"
  se_exists :: "string \<Rightarrow> bool"
  se_read :: "string \<Rightarrow> u8 list option"
  se_size :: "string \<Rightarrow> int"
  se_join :: "string \<Rightarrow> string \<Rightarrow> string"
  se_parse :: "u8 list \<Rightarrow> string + 'd json"
  se_decode :: "dtype \<Rightarrow> u8 list \<Rightarrow> 'f list"
  se_staging :: "device \<Rightarrow> nat \<Rightarrow> bool"

text \<open>\<open>SafeTensorInfo\<close>; the offsets are 64-bit and relative to the data section.\<close>

record tensor_info =
  ti_dtype :: dtype
  ti_shape :: shape
  ti_begin :: nat
  ti_end :: nat

record shard =
  sh_path :: string
  sh_offset :: nat
  sh_tensors :: "(string \<times> tensor_info) list"

record store =
  st_path :: string
  st_offset :: nat
  st_tensors :: "(string \<times> tensor_info) list"
  st_tensor_shards :: "(string \<times> string) list"
  st_shards :: "(string \<times> shard) list"

definition closed_store :: store where
  "closed_store = \<lparr>st_path = [], st_offset = 0, st_tensors = [], st_tensor_shards = [], st_shards = []\<rparr>"

definition store_is_open :: "store \<Rightarrow> bool" where
  "store_is_open S \<longleftrightarrow> st_path S \<noteq> []"

definition tensor_names :: "store \<Rightarrow> string list" where
  "tensor_names S = sort (map fst (st_tensors S))"

definition tensor_info_of :: "store \<Rightarrow> string \<Rightarrow> tensor_info option" where
  "tensor_info_of S name = map_of (st_tensors S) name"

text \<open>\<open>emplace\<close>: an entry that is there stays.\<close>

definition emplace :: "'k \<Rightarrow> 'v \<Rightarrow> ('k \<times> 'v) list \<Rightarrow> ('k \<times> 'v) list" where
  "emplace k v m = (if map_of m k = None then m @ [(k, v)] else m)"

section \<open>The header\<close>

definition ParseDType :: "string \<Rightarrow> dtype result" where
  "ParseDType v =
     (if v = ''F32'' then Inr FP32
      else if v = ''F16'' then Inr FP16
      else if v = ''BF16'' then Inr BF16
      else if v = ''F8_E4M3'' \<or> v = ''F8_E4M3FN'' then Inr FP8_E4M3
      else if v = ''F8_E5M2'' then Inr FP8_E5M2
      else if v = ''I8'' then Inr INT8
      else if v = ''I32'' then Inr INT32
      else if v = ''I64'' then Inr INT64
      else if v = ''U8'' then Inr UINT8
      else if v = ''BOOL'' then Inr BOOL
      else fails UnsupportedDType (''Unsupported safetensors dtype: '' @ v))"

definition ReadU64LittleEndian :: "u8 list \<Rightarrow> u64 option" where
  "ReadU64LittleEndian bs =
     (if length bs < 8 then None
      else Some (fold (\<lambda>i r. r OR push_bit (8 * i) (ucast (bs ! i))) [0..<8] 0))"

text \<open>\<open>Shape::numel\<close> multiplies in \<open>int64_t\<close>; an overflow is undefined.\<close>

definition checked_mul :: "int \<Rightarrow> int \<Rightarrow> int result" where
  "checked_mul a b =
     (if - (2 ^ 63) \<le> a * b \<and> a * b < 2 ^ 63 then Inr (a * b) else Inl (Undef ''signed overflow''))"

definition checked_numel :: "shape \<Rightarrow> int result" where
  "checked_numel s =
     (if s = [] then Inr 0
      else fold (\<lambda>d acc. and_then acc (\<lambda>a. checked_mul a d)) s (Inr 1))"

text \<open>The fields that are converted inside the \<open>try\<close> block: an exception becomes an error.\<close>

definition read_layout ::
  "('d, 'f) json_numbers \<Rightarrow> string \<Rightarrow> 'd json \<Rightarrow> 'd json \<Rightarrow> nat \<Rightarrow> (int list \<times> nat \<times> nat) result" where
  "read_layout N name shape_json offsets_json data_size =
     (case and_then (get_list (get_i64 N) shape_json) (\<lambda>dims.
           and_then (get_list (get_u64 N) offsets_json) (\<lambda>offsets. Inr (dims, offsets))) of
        Inl e \<Rightarrow> fails InvalidModel (''Invalid tensor fields for '' @ name)
      | Inr (dims, offsets) \<Rightarrow>
          if length offsets \<noteq> 2 \<or> offsets ! 1 < offsets ! 0 \<or> int data_size < offsets ! 1
          then fails InvalidModel (''Invalid data offsets for tensor: '' @ name)
          else Inr (dims, nat (offsets ! 0), nat (offsets ! 1)))"

definition read_tensor_info ::
  "('d, 'f) json_numbers \<Rightarrow> nat \<Rightarrow> string \<Rightarrow> 'd json \<Rightarrow> tensor_info result" where
  "read_tensor_info N data_size name entry =
     (case (member entry ''dtype'', member entry ''shape'', member entry ''data_offsets'') of
        (Some dtype_json, Some shape_json, Some offsets_json) \<Rightarrow>
          and_then (get_string dtype_json) (\<lambda>dtype_name.
          and_then (ParseDType dtype_name) (\<lambda>dt.
          and_then (read_layout N name shape_json offsets_json data_size) (\<lambda>(dims, b, e).
            if list_ex (\<lambda>d. d < 0) dims
            then fails InvalidModel (''Negative tensor dimension for: '' @ name)
            else
              and_then (checked_numel dims) (\<lambda>n.
                if cast_u64 (n * int (SizeOfDType dt)) \<noteq> int (e - b)
                then fails InvalidModel (''Tensor byte size does not match shape for: '' @ name)
                else Inr \<lparr>ti_dtype = dt, ti_shape = dims, ti_begin = b, ti_end = e\<rparr>))))
      | _ \<Rightarrow> fails InvalidModel (''Invalid tensor metadata for: '' @ name))"

text \<open>The items an iteration over a JSON value visits: the members of an object, the numbered
  elements of an array, and any other value once.\<close>

fun json_items :: "'d json \<Rightarrow> (string \<times> 'd json) list" where
  "json_items (JObject kvs) = kvs"
| "json_items (JArray xs) = map (\<lambda>(i, x). (string_of_nat i, x)) (enumerate 0 xs)"
| "json_items JNull = []"
| "json_items j = [([], j)]"

definition shard_entry ::
  "('d, 'f) json_numbers \<Rightarrow> nat \<Rightarrow> string \<times> 'd json \<Rightarrow> shard \<Rightarrow> shard loaded" where
  "shard_entry N data_size = (\<lambda>(name, entry) S.
     if name = ''__metadata__'' then (S, Inr ())
     else loading (read_tensor_info N data_size name entry) S
            (\<lambda>info. (S\<lparr>sh_tensors := emplace name info (sh_tensors S)\<rparr>, Inr ())))"

definition parse_shard :: "('d, 'f) store_env \<Rightarrow> string \<Rightarrow> shard result" where
  "parse_shard E path =
     (if \<not> se_exists E path then fails FileNotFound (''Safetensors file does not exist: '' @ path)
      else
        (case se_read E path of
           None \<Rightarrow> fails FileNotFound (''Failed to open safetensors file: '' @ path)
         | Some bytes \<Rightarrow>
             (case ReadU64LittleEndian bytes of
                None \<Rightarrow> fails InvalidModel ''Safetensors file is missing its header length''
              | Some word \<Rightarrow>
                  (let header_size = unat word; total = se_size E path in
                   if total < 8 \<or> total - 8 < int header_size
                   then fails InvalidModel ''Safetensors header length exceeds file size''
                   else if length bytes < 8 + header_size
                   then fails InvalidModel ''Failed to read safetensors header''
                   else
                     (case se_parse E (take header_size (drop 8 bytes)) of
                        Inl what \<Rightarrow> fails InvalidModel (''Invalid safetensors JSON header: '' @ what)
                      | Inr metadata \<Rightarrow>
                          (let data_size = nat total - 8 - header_size in
                           case load_each (shard_entry (se_numbers E) data_size) (json_items metadata)
                                  \<lparr>sh_path = [], sh_offset = 0, sh_tensors = []\<rparr> of
                             (S, Inl e) \<Rightarrow> Inl e
                           | (S, Inr _) \<Rightarrow> Inr (S\<lparr>sh_path := path, sh_offset := 8 + header_size\<rparr>)))))))"

section \<open>Opening\<close>

definition open_store :: "('d, 'f) store_env \<Rightarrow> string \<Rightarrow> store loaded" where
  "open_store E path =
     (if \<not> se_exists E path
      then load_fails FileNotFound (''Safetensors file does not exist: '' @ path) closed_store
      else
        loading (parse_shard E path) closed_store (\<lambda>shard.
          (closed_store\<lparr>st_path := path, st_offset := sh_offset shard, st_tensors := sh_tensors shard\<rparr>,
           Inr ())))"

text \<open>One entry of \<open>weight_map\<close>: its shard is parsed when it is met first.\<close>

definition index_entry ::
  "('d, 'f) store_env \<Rightarrow> string \<Rightarrow> string \<times> 'd json \<Rightarrow> store \<Rightarrow> store loaded" where
  "index_entry E path = (\<lambda>(name, shard_json) S.
     (case shard_json of
        JString shard_name \<Rightarrow>
          and_load
            (if map_of (st_shards S) shard_name = None
             then loading (parse_shard E (se_join E path shard_name)) S
                    (\<lambda>sh. (S\<lparr>st_shards := emplace shard_name sh (st_shards S)\<rparr>, Inr ()))
             else (S, Inr ()))
            (\<lambda>S.
               case map_of (st_shards S) shard_name of
                 None \<Rightarrow> (S, Inl (Thrown ''std::out_of_range''))
               | Some sh \<Rightarrow>
                   (case map_of (sh_tensors sh) name of
                      None \<Rightarrow> load_fails InvalidModel (''Tensor listed in index is missing from shard: '' @ name) S
                    | Some info \<Rightarrow>
                        (S\<lparr>st_tensors := emplace name info (st_tensors S),
                           st_tensor_shards := emplace name shard_name (st_tensor_shards S)\<rparr>, Inr ())))
      | _ \<Rightarrow> load_fails InvalidModel (''Invalid shard name for tensor: '' @ name) S))"

definition open_index :: "('d, 'f) store_env \<Rightarrow> string \<Rightarrow> 'd json \<Rightarrow> store \<Rightarrow> store loaded" where
  "open_index E path index S =
     (case member index ''weight_map'' of
        Some (JObject kvs) \<Rightarrow>
          and_load (load_each (index_entry E path) kvs closed_store) (\<lambda>S. (S\<lparr>st_path := path\<rparr>, Inr ()))
      | _ \<Rightarrow> load_fails InvalidModel ''Safetensors index has no valid weight_map'' S)"

definition open_model :: "('d, 'f) store_env \<Rightarrow> string \<Rightarrow> store \<Rightarrow> store loaded" where
  "open_model E path S =
     (if \<not> se_is_directory E path then open_store E path
      else
        (let index_path = se_join E path ''model.safetensors.index.json'';
             single_file = se_join E path ''model.safetensors''
         in if \<not> se_exists E index_path then
              (if se_exists E single_file then open_store E single_file
               else load_fails FileNotFound
                      (''Neither safetensors index nor model.safetensors exists: '' @ path) S)
            else
              (case se_read E index_path of
                 None \<Rightarrow> load_fails FileNotFound (''Failed to open safetensors index: '' @ index_path) S
               | Some bytes \<Rightarrow>
                   (case se_parse E bytes of
                      Inl what \<Rightarrow> load_fails InvalidModel (''Invalid safetensors index JSON: '' @ what) S
                    | Inr index \<Rightarrow> open_index E path index S))))"

section \<open>Loading a tensor\<close>

text \<open>The file and the start of the data section a tensor is read from.\<close>

definition tensor_source :: "store \<Rightarrow> string \<Rightarrow> (string \<times> nat) result" where
  "tensor_source S name =
     (if st_tensor_shards S = [] then Inr (st_path S, st_offset S)
      else
        (case map_of (st_tensor_shards S) name of
           None \<Rightarrow> fails InvalidModel (''No shard mapping for tensor: '' @ name)
         | Some shard_name \<Rightarrow>
             (case map_of (st_shards S) shard_name of
                None \<Rightarrow> fails InvalidModel (''Mapped shard is not loaded: '' @ shard_name)
              | Some sh \<Rightarrow> Inr (sh_path sh, sh_offset sh))))"

text \<open>The bytes \<open>read\<close> puts into the staging buffer.\<close>

definition read_slice :: "u8 list \<Rightarrow> nat \<Rightarrow> nat \<Rightarrow> u8 list option" where
  "read_slice bytes position count =
     (if count = 0 then Some []
      else if length bytes < position + count then None
      else Some (take count (drop position bytes)))"

definition load_tensor ::
  "('d, 'f) store_env \<Rightarrow> 'f backends \<Rightarrow> store \<Rightarrow> string \<Rightarrow> device \<Rightarrow> memory_type \<Rightarrow> 'f tensor result" where
  "load_tensor E reg S name dev mem =
     (case tensor_info_of S name of
        None \<Rightarrow> fails InvalidArgument (''Tensor not found in safetensors file: '' @ name)
      | Some info \<Rightarrow>
          (case reg dev of
             None \<Rightarrow> fails InvalidDevice ''No backend available for requested tensor device''
           | Some B \<Rightarrow>
               (let bytes = ti_end info - ti_begin info in
                case create_buffer B (int (bytes div SizeOfDType (ti_dtype info))) (ti_dtype info) mem of
                  None \<Rightarrow> fails OutOfMemory ''Failed to allocate tensor buffer''
                | Some buf \<Rightarrow>
                    and_then (tensor_source S name) (\<lambda>(path, offset).
                      case se_read E path of
                        None \<Rightarrow> fails FileNotFound (''Failed to reopen safetensors file: '' @ path)
                      | Some content \<Rightarrow>
                          if \<not> se_staging E dev bytes
                          then fails OutOfMemory (''Failed to allocate safetensors staging buffer: '' @ name)
                          else
                            (case read_slice content (offset + ti_begin info) bytes of
                               None \<Rightarrow> fails InvalidModel (''Failed to read tensor data: '' @ name)
                             | Some raw \<Rightarrow>
                                 and_then (bk_memcpy_h2d B buf (se_decode E (ti_dtype info) raw)) (\<lambda>buf.
                                 and_then (bk_synchronize B) (\<lambda>_.
                                   Inr (mk_tensor (ti_shape info) (ti_dtype info) dev buf))))))))"

text \<open>The conversion to FP32 reads the elements through the host pointer of the buffer; the
  value of a BF16 element is kept.\<close>

definition load_as_fp32 ::
  "('d, 'f) store_env \<Rightarrow> 'f backends \<Rightarrow> store \<Rightarrow> string \<Rightarrow> device \<Rightarrow> memory_type \<Rightarrow> 'f tensor result" where
  "load_as_fp32 E reg S name dev mem =
     (case tensor_info_of S name of
        None \<Rightarrow> fails InvalidArgument (''Tensor not found in safetensors model: '' @ name)
      | Some info \<Rightarrow>
          if ti_dtype info \<noteq> BF16 \<and> ti_dtype info \<noteq> FP32
          then fails UnsupportedDType ''Only BF16 and FP32 can be loaded as FP32''
          else
            and_then (load_tensor E reg S name dev mem) (\<lambda>source.
              if ti_dtype info = FP32 then Inr source
              else
                (case reg dev of
                   None \<Rightarrow> fails InvalidDevice ''No backend available for FP32 conversion''
                 | Some B \<Rightarrow>
                     (case create_buffer B (t_numel source) FP32 mem of
                        None \<Rightarrow> fails OutOfMemory ''Failed to allocate FP32 scale tensor''
                      | Some buf \<Rightarrow>
                          if is_gpu dev \<and> mem = DeviceMem \<and> 0 < t_numel source
                          then Inl (Undef ''host access to device memory'')
                          else if int (length (t_data source)) < t_numel source
                          then Inl (Undef ''read beyond the buffer'')
                          else Inr (mk_tensor (t_shape source) FP32 dev
                                 (write_prefix (take (nat (t_numel source)) (t_data source)) buf))))))"

section \<open>What an opened store promises\<close>

lemma emplace_map: "map_of (emplace k v m) k' = (if k' = k \<and> map_of m k = None then Some v else map_of m k')"
  by (auto simp: emplace_def map_add_def split: option.splits)

lemma emplace_set: "x \<in> set (emplace k v m) \<Longrightarrow> x \<in> set m \<or> x = (k, v)"
  by (auto simp: emplace_def split: if_splits)

lemma emplace_ne: "emplace k v m \<noteq> []"
  by (auto simp: emplace_def)

text \<open>A tensor whose bytes are inside a data section of the given size.\<close>

definition info_ok :: "nat \<Rightarrow> tensor_info \<Rightarrow> bool" where
  "info_ok data_size info \<longleftrightarrow>
     ti_begin info \<le> ti_end info \<and> ti_end info \<le> data_size \<and> list_all (\<lambda>d. 0 \<le> d) (ti_shape info) \<and>
     int (ti_end info - ti_begin info) = cast_u64 (numel (ti_shape info) * int (SizeOfDType (ti_dtype info)))"

lemma checked_numel_fold:
  "fold (\<lambda>d acc. and_then acc (\<lambda>a. checked_mul a d)) s r = Inr n \<Longrightarrow>
   \<exists>a. r = Inr a \<and> n = fold (\<lambda>d acc. acc * d) s a"
  by (induction s arbitrary: r) (fastforce simp: and_then_Inr checked_mul_def split: if_splits)+

lemma checked_numel: "checked_numel s = Inr n \<Longrightarrow> n = numel s"
  by (auto simp: checked_numel_def numel_def dest: checked_numel_fold split: if_splits)

lemma read_layout_bounds:
  assumes "read_layout N name shape_json offsets_json data_size = Inr (dims, b, e)"
  shows "b \<le> e" "e \<le> data_size"
proof -
  obtain offsets where o: "get_list (get_u64 N) offsets_json = Inr offsets"
    and l: "length offsets = 2" "offsets ! 0 \<le> offsets ! 1" "offsets ! 1 \<le> int data_size"
    and be: "b = nat (offsets ! 0)" "e = nat (offsets ! 1)"
    using assms by (auto simp: read_layout_def and_then_Inr and_then_def split: sum.splits if_splits)
  have "0 \<le> offsets ! i" if "i < 2" for i
  proof -
    have "offsets ! i \<in> set offsets" using that l by simp
    then obtain x where "get_u64 N x = Inr (offsets ! i)"
      using o convert_all_set by (fastforce simp: get_list_def wrong_type_def split: if_splits)
    then show ?thesis using get_u64_bounds by blast
  qed
  then show "b \<le> e" "e \<le> data_size" using l be by (auto simp: nat_le_eq_zle nat_le_iff)
qed

lemma read_tensor_info_ok:
  "read_tensor_info N data_size name entry = Inr info \<Longrightarrow> info_ok data_size info"
  by (auto simp: read_tensor_info_def info_ok_def and_then_Inr list_ex_iff list_all_iff not_less
      dest: read_layout_bounds checked_numel split: option.splits if_splits)

lemma parse_shard_ok:
  assumes "parse_shard E path = Inr sh"
  obtains bytes where "se_read E path = Some bytes" "sh_path sh = path"
    "8 \<le> se_size E path" "int (sh_offset sh) \<le> se_size E path"
    "\<forall>(name, info) \<in> set (sh_tensors sh). info_ok (nat (se_size E path) - sh_offset sh) info"
proof -
  obtain bytes where b: "se_read E path = Some bytes"
    using assms by (auto simp: parse_shard_def split: if_splits option.splits)
  obtain w where w: "ReadU64LittleEndian bytes = Some w"
    using assms by (auto simp: parse_shard_def b split: if_splits option.splits)
  let ?h = "unat w" and ?t = "se_size E path"
  let ?d = "nat ?t - 8 - ?h"
  have h: "8 \<le> ?t" "int ?h \<le> ?t - 8"
    using assms by (auto simp: parse_shard_def b w Let_def not_less split: if_splits)
  obtain S metadata where l: "load_each (shard_entry (se_numbers E) ?d) (json_items metadata)
        \<lparr>sh_path = [], sh_offset = 0, sh_tensors = []\<rparr> = (S, Inr ())"
    and sh: "sh = S\<lparr>sh_path := path, sh_offset := 8 + ?h\<rparr>"
    using assms by (auto simp: parse_shard_def b w Let_def split: if_splits sum.splits prod.splits)
  have "\<forall>name info. (name, info) \<in> set (sh_tensors S) \<longrightarrow> info_ok ?d info"
    by (rule load_each_invariant [where
          P = "\<lambda>S. \<forall>name info. (name, info) \<in> set (sh_tensors S) \<longrightarrow> info_ok ?d info", OF _ _ l])
       (auto simp: shard_entry_def loading_Inr dest!: emplace_set read_tensor_info_ok split: if_splits)
  then show thesis using that [OF b] h by (auto simp: sh)
qed

text \<open>Every tensor of the store has its bytes in the file it is read from.\<close>

definition tensor_readable :: "('d, 'f) store_env \<Rightarrow> store \<Rightarrow> string \<Rightarrow> tensor_info \<Rightarrow> bool" where
  "tensor_readable E S name info \<longleftrightarrow>
     (\<exists>path off bytes. tensor_source S name = Inr (path, off) \<and> se_read E path = Some bytes \<and>
        ti_begin info \<le> ti_end info \<and> off + ti_end info \<le> length bytes \<and>
        int (ti_end info - ti_begin info) =
          cast_u64 (numel (ti_shape info) * int (SizeOfDType (ti_dtype info))))"

lemma shard_readable:
  assumes sizes: "\<forall>p bs. se_read E p = Some bs \<longrightarrow> se_size E p = int (length bs)"
    and "parse_shard E path = Inr sh" "(name, info) \<in> set (sh_tensors sh)"
    and "tensor_source S name = Inr (sh_path sh, sh_offset sh)"
  shows "tensor_readable E S name info"
proof -
  from assms(2) obtain bytes where b: "se_read E path = Some bytes" "sh_path sh = path"
    "int (sh_offset sh) \<le> se_size E path" "info_ok (nat (se_size E path) - sh_offset sh) info"
    using assms(3) by (elim parse_shard_ok) blast
  moreover have "se_size E path = int (length bytes)" using sizes b(1) by blast
  ultimately show ?thesis using assms(4) by (auto simp: tensor_readable_def info_ok_def)
qed

text \<open>The loop over the index: every tensor belongs to a shard that was parsed.\<close>

definition index_ok :: "('d, 'f) store_env \<Rightarrow> store \<Rightarrow> bool" where
  "index_ok E S \<longleftrightarrow>
     (\<forall>name info. (name, info) \<in> set (st_tensors S) \<longrightarrow>
        (\<exists>shard_name sh path. map_of (st_tensor_shards S) name = Some shard_name \<and>
           map_of (st_shards S) shard_name = Some sh \<and> parse_shard E path = Inr sh \<and>
           (name, info) \<in> set (sh_tensors sh))) \<and>
     (\<forall>shard_name sh. map_of (st_shards S) shard_name = Some sh \<longrightarrow> (\<exists>path. parse_shard E path = Inr sh)) \<and>
     (\<forall>name. map_of (st_tensors S) name = None \<longrightarrow> map_of (st_tensor_shards S) name = None)"

lemma index_ok_closed: "index_ok E closed_store"
  by (simp add: index_ok_def closed_store_def)

lemma index_ok_shard:
  assumes "index_ok E S" "parse_shard E path = Inr sh"
  shows "index_ok E (S\<lparr>st_shards := emplace shard_name sh (st_shards S)\<rparr>)"
  using assms unfolding index_ok_def by (simp add: emplace_map) (metis option.distinct(1))

lemma index_ok_tensor:
  assumes "index_ok E S" "map_of (st_shards S) shard_name = Some sh" "map_of (sh_tensors sh) name = Some info"
  shows "index_ok E (S\<lparr>st_tensors := emplace name info (st_tensors S),
    st_tensor_shards := emplace name shard_name (st_tensor_shards S)\<rparr>)"
proof -
  obtain path where p: "parse_shard E path = Inr sh" using assms(1, 2) unfolding index_ok_def by blast
  have m: "(name, info) \<in> set (sh_tensors sh)" using assms(3) by (rule map_of_SomeD)
  show ?thesis
  proof (cases "map_of (st_tensors S) name")
    case None
    then have "map_of (st_tensor_shards S) name = None" using assms(1) by (simp add: index_ok_def)
    then show ?thesis using assms(1, 2) p m None
      unfolding index_ok_def by (fastforce simp: emplace_map dest!: emplace_set)
  next
    case (Some info')
    then obtain sn where "map_of (st_tensor_shards S) name = Some sn"
      using assms(1) map_of_SomeD unfolding index_ok_def by fastforce
    then show ?thesis using Some assms(1) by (simp add: emplace_def)
  qed
qed

lemma index_entry_ok:
  assumes "index_ok E S" "index_entry E path x S = (S', Inr ())"
  shows "index_ok E S'"
proof -
  obtain name shard_name where x: "x = (name, JString shard_name)"
    using assms(2) by (cases x) (auto simp: index_entry_def split: json.splits)
  let ?p = "if map_of (st_shards S) shard_name = None
             then loading (parse_shard E (se_join E path shard_name)) S
                    (\<lambda>sh. (S\<lparr>st_shards := emplace shard_name sh (st_shards S)\<rparr>, Inr ()))
             else (S, Inr ())"
  obtain S1 where p: "?p = (S1, Inr ())"
    and rest: "(case map_of (st_shards S1) shard_name of
                 None \<Rightarrow> (S1, Inl (Thrown ''std::out_of_range''))
               | Some sh \<Rightarrow>
                   (case map_of (sh_tensors sh) name of
                      None \<Rightarrow> load_fails InvalidModel (''Tensor listed in index is missing from shard: '' @ name) S1
                    | Some info \<Rightarrow>
                        (S1\<lparr>st_tensors := emplace name info (st_tensors S1),
                           st_tensor_shards := emplace name shard_name (st_tensor_shards S1)\<rparr>, Inr ()))) = (S', Inr ())"
    using assms(2) by (simp only: index_entry_def x prod.case json.case) (erule and_loadE)
  have "index_ok E S1" using p assms(1) index_ok_shard by (fastforce simp: loading_Inr split: if_splits)
  then show ?thesis using rest index_ok_tensor by (auto split: option.splits)
qed

lemma index_readable:
  assumes sizes: "\<forall>p bs. se_read E p = Some bs \<longrightarrow> se_size E p = int (length bs)"
    and ok: "index_ok E S" "(name, info) \<in> set (st_tensors S)"
  shows "tensor_readable E S name info"
proof -
  obtain sn sh path where t: "map_of (st_tensor_shards S) name = Some sn" "map_of (st_shards S) sn = Some sh"
    "parse_shard E path = Inr sh" "(name, info) \<in> set (sh_tensors sh)"
    using ok unfolding index_ok_def by blast
  then have "tensor_source S name = Inr (sh_path sh, sh_offset sh)"
    by (auto simp: tensor_source_def)
  then show ?thesis using shard_readable [OF sizes t(3, 4)] by blast
qed

lemma open_store_readable:
  assumes sizes: "\<forall>p bs. se_read E p = Some bs \<longrightarrow> se_size E p = int (length bs)"
    and "open_store E path = (S, Inr ())" "(name, info) \<in> set (st_tensors S)"
  shows "tensor_readable E S name info"
proof -
  obtain sh where p: "parse_shard E path = Inr sh"
    and S: "S = closed_store\<lparr>st_path := path, st_offset := sh_offset sh, st_tensors := sh_tensors sh\<rparr>"
    using assms(2) by (auto simp: open_store_def loading_Inr split: if_splits)
  have "sh_path sh = path" using p by (rule parse_shard_ok)
  then show ?thesis
    using shard_readable [OF sizes p, of name info S] assms(3)
    by (simp add: S tensor_source_def closed_store_def)
qed

text \<open>The store the model opens, in either of its forms.\<close>

lemma open_model_readable:
  assumes sizes: "\<forall>p bs. se_read E p = Some bs \<longrightarrow> se_size E p = int (length bs)"
    and o: "open_model E path S0 = (S, Inr ())" and m: "(name, info) \<in> set (st_tensors S)"
  shows "tensor_readable E S name info"
proof -
  from o consider p where "open_store E p = (S, Inr ())"
    | index where "open_index E path index S0 = (S, Inr ())"
    by (auto simp: open_model_def Let_def split: if_splits option.splits sum.splits)
  then show ?thesis
  proof cases
    case 1
    then show ?thesis using open_store_readable [OF sizes _ m] by blast
  next
    case 2
    then obtain kvs S1 where l: "load_each (index_entry E path) kvs closed_store = (S1, Inr ())"
      and S: "S = S1\<lparr>st_path := path\<rparr>"
      by (auto simp: open_index_def elim!: and_loadE split: option.splits json.splits)
    have "index_ok E S1"
      by (rule load_each_invariant [where P = "index_ok E", OF _ _ l])
         (auto intro: index_entry_ok index_ok_closed)
    then have "index_ok E S" by (simp add: S index_ok_def)
    then show ?thesis by (rule index_readable [OF sizes _ m])
  qed
qed

end
