(* ===== verification/Qwen_Config.thy ===== *)
theory Qwen_Config
  imports Qwen_Layers Json
begin

text \<open>
  \<open>src/models/qwen3_config.cc\<close>: \<open>Qwen3Config::load_json\<close>. The configuration is filled field by
  field, so an error leaves what was read before it. The two places that compute with
  \<open>float\<close> are arguments, as is whether the schedule of a given length can be reserved.
\<close>

section \<open>The defaults\<close>

definition default_config :: "'f fops \<Rightarrow> 'f qwen_config" where
  "default_config F = \<lparr>
     hidden_size = 5120, num_hidden_layers = 64, num_attention_heads = 24,
     num_key_value_heads = 4, head_dim = 256, rope_head_dim = 64, intermediate_size = 17408,
     vocab_size = 248320, max_position_embeddings = 262144,
     rope_theta = f_int F 10000000, rms_norm_eps = f_lit F 1 (-6),
     linear_num_key_heads = 16, linear_num_value_heads = 48, linear_key_head_dim = 128,
     linear_value_head_dim = 128, linear_conv_kernel_dim = 4, layer_types = [],
     full_attention_interval = 4, attn_output_gate = True, output_gate_type = ''swish'',
     mamba_ssm_dtype = ''float32'', use_cache = True, bos_token_id = -1, eos_token_ids = [],
     pad_token_id = -1, tie_word_embeddings = False, mtp_num_hidden_layers = 0,
     mtp_use_dedicated_embeddings = False\<rparr>"

section \<open>Reading fields\<close>

record ('d, 'f) config_env =
  ce_numbers :: "('d, 'f) json_numbers"
  ce_le_zero :: "'f \<Rightarrow> bool"
  ce_scale :: "int \<Rightarrow> 'f \<Rightarrow> int"
  ce_can_reserve :: "int \<Rightarrow> bool"

text \<open>A field of \<open>text_config\<close> where it is an object that has it, and of the root otherwise.\<close>

definition config_field :: "'d json \<Rightarrow> string \<Rightarrow> 'd json option" where
  "config_field root key =
     (case member root ''text_config'' of
        Some (JObject kvs) \<Rightarrow>
          (case map_of kvs key of Some v \<Rightarrow> Some v | None \<Rightarrow> member root key)
      | _ \<Rightarrow> member root key)"

definition read_i64 :: "'d json \<Rightarrow> string \<Rightarrow> int \<Rightarrow> int" where
  "read_i64 root key old =
     (case config_field root key of Some (JInt n) \<Rightarrow> cast_i64 n | _ \<Rightarrow> old)"

definition read_float :: "('d, 'f) json_numbers \<Rightarrow> 'd json \<Rightarrow> string \<Rightarrow> 'f \<Rightarrow> 'f" where
  "read_float N root key old =
     (case config_field root key of
        Some j \<Rightarrow> (case get_float N j of Some x \<Rightarrow> x | None \<Rightarrow> old) | None \<Rightarrow> old)"

definition read_bool :: "'d json \<Rightarrow> string \<Rightarrow> bool \<Rightarrow> bool" where
  "read_bool root key old =
     (case config_field root key of Some (JBool b) \<Rightarrow> b | _ \<Rightarrow> old)"

definition read_string :: "'d json \<Rightarrow> string \<Rightarrow> string \<Rightarrow> string" where
  "read_string root key old =
     (case config_field root key of Some (JString s) \<Rightarrow> s | _ \<Rightarrow> old)"

text \<open>The fields up to \<open>tie_word_embeddings\<close>; none of these reads can fail.\<close>

definition read_fields :: "('d, 'f) json_numbers \<Rightarrow> 'd json \<Rightarrow> 'f qwen_config \<Rightarrow> 'f qwen_config" where
  "read_fields N root C = C\<lparr>
     hidden_size := read_i64 root ''hidden_size'' (hidden_size C),
     num_hidden_layers := read_i64 root ''num_hidden_layers'' (num_hidden_layers C),
     num_attention_heads := read_i64 root ''num_attention_heads'' (num_attention_heads C),
     num_key_value_heads := read_i64 root ''num_key_value_heads'' (num_key_value_heads C),
     head_dim := read_i64 root ''head_dim'' (head_dim C),
     intermediate_size := read_i64 root ''intermediate_size'' (intermediate_size C),
     vocab_size := read_i64 root ''vocab_size'' (vocab_size C),
     max_position_embeddings := read_i64 root ''max_position_embeddings'' (max_position_embeddings C),
     rope_theta := read_float N root ''rope_theta'' (rope_theta C),
     rms_norm_eps := read_float N root ''rms_norm_eps'' (rms_norm_eps C),
     linear_num_key_heads := read_i64 root ''linear_num_key_heads'' (linear_num_key_heads C),
     linear_num_value_heads := read_i64 root ''linear_num_value_heads'' (linear_num_value_heads C),
     linear_key_head_dim := read_i64 root ''linear_key_head_dim'' (linear_key_head_dim C),
     linear_value_head_dim := read_i64 root ''linear_value_head_dim'' (linear_value_head_dim C),
     linear_conv_kernel_dim := read_i64 root ''linear_conv_kernel_dim'' (linear_conv_kernel_dim C),
     full_attention_interval := read_i64 root ''full_attention_interval'' (full_attention_interval C),
     attn_output_gate := read_bool root ''attn_output_gate'' (attn_output_gate C),
     output_gate_type := read_string root ''output_gate_type'' (output_gate_type C),
     mamba_ssm_dtype := read_string root ''mamba_ssm_dtype'' (mamba_ssm_dtype C),
     use_cache := read_bool root ''use_cache'' (use_cache C),
     bos_token_id := read_i64 root ''bos_token_id'' (bos_token_id C),
     pad_token_id := read_i64 root ''pad_token_id'' (pad_token_id C),
     tie_word_embeddings := read_bool root ''tie_word_embeddings'' (tie_word_embeddings C)\<rparr>"

definition read_mtp :: "'d json \<Rightarrow> 'f qwen_config \<Rightarrow> 'f qwen_config loaded" where
  "read_mtp root C =
     (let n = read_i64 root ''mtp_num_hidden_layers'' 0 in
      if n < 0 \<or> 2147483647 < n
      then load_fails InvalidModel ''mtp_num_hidden_layers must be non-negative'' C
      else (C\<lparr>mtp_num_hidden_layers := n,
              mtp_use_dedicated_embeddings :=
                read_bool root ''mtp_use_dedicated_embeddings'' (mtp_use_dedicated_embeddings C)\<rparr>, Inr ()))"

definition config_eos_entry ::
  "('d, 'f) json_numbers \<Rightarrow> 'd json \<Rightarrow> 'f qwen_config \<Rightarrow> 'f qwen_config loaded" where
  "config_eos_entry N j C =
     (if \<not> is_number_integer j
      then load_fails InvalidModel ''Qwen3 eos_token_id contains a non-integer value'' C
      else loading (get_i64 N j) C (\<lambda>i. (C\<lparr>eos_token_ids := eos_token_ids C @ [i]\<rparr>, Inr ())))"

definition read_eos ::
  "('d, 'f) json_numbers \<Rightarrow> 'd json \<Rightarrow> 'f qwen_config \<Rightarrow> 'f qwen_config loaded" where
  "read_eos N root C =
     (let C = C\<lparr>eos_token_ids := []\<rparr> in
      case config_field root ''eos_token_id'' of
        None \<Rightarrow> (C, Inr ())
      | Some eos \<Rightarrow>
          if is_number_integer eos then config_eos_entry N eos C
          else if is_array eos then load_each (config_eos_entry N) (elements eos) C
          else if is_null eos then (C, Inr ())
          else load_fails InvalidModel ''Qwen3 eos_token_id must be an integer or array'' C)"

text \<open>Signed division rounds towards zero; the divisor is positive here.\<close>

definition trunc_div :: "int \<Rightarrow> int \<Rightarrow> int" where
  "trunc_div a b = (if 0 \<le> a then a div b else - ((- a) div b))"

definition derive_head_dim :: "'d json \<Rightarrow> 'f qwen_config \<Rightarrow> 'f qwen_config" where
  "derive_head_dim root C =
     (if config_field root ''head_dim'' = None \<and> 0 < num_attention_heads C
      then C\<lparr>head_dim := trunc_div (hidden_size C) (num_attention_heads C)\<rparr> else C)"

definition read_rope ::
  "('d, 'f) config_env \<Rightarrow> 'd json \<Rightarrow> 'f qwen_config \<Rightarrow> 'f qwen_config" where
  "read_rope E root C =
     (case config_field root ''rope_parameters'' of
        Some (JObject rope) \<Rightarrow>
          (let C = (case map_of rope ''rope_theta'' of
                      None \<Rightarrow> C
                    | Some j \<Rightarrow>
                        (case get_float (ce_numbers E) j of None \<Rightarrow> C | Some x \<Rightarrow> C\<lparr>rope_theta := x\<rparr>))
           in case map_of rope ''partial_rotary_factor'' of
                None \<Rightarrow> C
              | Some j \<Rightarrow>
                  (case get_float (ce_numbers E) j of
                     None \<Rightarrow> C | Some x \<Rightarrow> C\<lparr>rope_head_dim := ce_scale E (head_dim C) x\<rparr>))
      | _ \<Rightarrow> C)"

section \<open>The layer schedule\<close>

definition scheduled_type :: "int \<Rightarrow> nat \<Rightarrow> layer_type" where
  "scheduled_type interval i =
     (if (int i + 1) mod interval = 0 then FullAttention else LinearAttention)"

definition schedule_entry ::
  "nat \<times> 'd json \<Rightarrow> 'f qwen_config \<Rightarrow> 'f qwen_config loaded" where
  "schedule_entry = (\<lambda>(i, j) C.
     (case j of
        JString kind \<Rightarrow>
          if kind = ''linear_attention''
          then (C\<lparr>layer_types := layer_types C @ [LinearAttention]\<rparr>, Inr ())
          else if kind = ''full_attention''
          then (C\<lparr>layer_types := layer_types C @ [FullAttention]\<rparr>, Inr ())
          else load_fails InvalidModel
                 (''Unknown Qwen3 layer type at index '' @ string_of_nat i @ '': '' @ kind) C
      | _ \<Rightarrow> load_fails InvalidModel ''Qwen3 layer_types contains a non-string value'' C))"

definition read_schedule ::
  "('d, 'f) config_env \<Rightarrow> 'd json \<Rightarrow> 'f qwen_config \<Rightarrow> 'f qwen_config loaded" where
  "read_schedule E root C =
     (let C = C\<lparr>layer_types := []\<rparr> in
      case config_field root ''layer_types'' of
        Some (JArray xs) \<Rightarrow> load_each schedule_entry (enumerate 0 xs) C
      | Some _ \<Rightarrow> load_fails InvalidModel ''Qwen3 layer_types must be an array'' C
      | None \<Rightarrow>
          if 0 < full_attention_interval C then
            (if num_hidden_layers C < 0 \<or> \<not> ce_can_reserve E (num_hidden_layers C)
             then (C, Inl (Thrown ''std::length_error''))
             else (C\<lparr>layer_types :=
                       map (scheduled_type (full_attention_interval C)) [0..<nat (num_hidden_layers C)]\<rparr>,
                   Inr ()))
          else (C, Inr ()))"

section \<open>Validation\<close>

definition dimensions_bad :: "('f \<Rightarrow> bool) \<Rightarrow> 'f qwen_config \<Rightarrow> bool" where
  "dimensions_bad le_zero C \<longleftrightarrow>
     hidden_size C \<le> 0 \<or> num_hidden_layers C \<le> 0 \<or>
     num_attention_heads C \<le> 0 \<or> num_key_value_heads C \<le> 0 \<or> head_dim C \<le> 0 \<or>
     rope_head_dim C \<le> 0 \<or> intermediate_size C \<le> 0 \<or> vocab_size C \<le> 0 \<or>
     max_position_embeddings C \<le> 0 \<or> le_zero (rope_theta C) \<or>
     le_zero (rms_norm_eps C) \<or> linear_num_key_heads C \<le> 0 \<or>
     linear_num_value_heads C \<le> 0 \<or> linear_key_head_dim C \<le> 0 \<or>
     linear_value_head_dim C \<le> 0 \<or> linear_conv_kernel_dim C \<le> 0 \<or>
     linear_num_value_heads C mod linear_num_key_heads C \<noteq> 0 \<or>
     num_attention_heads C mod num_key_value_heads C \<noteq> 0 \<or>
     head_dim C < rope_head_dim C \<or> rope_head_dim C mod 2 \<noteq> 0 \<or>
     full_attention_interval C \<le> 0 \<or>
     int (length (layer_types C)) \<noteq> num_hidden_layers C"

definition schedule_conflicts :: "'f qwen_config \<Rightarrow> bool" where
  "schedule_conflicts C \<longleftrightarrow>
     (\<exists>i \<in> set [0..<nat (num_hidden_layers C)].
        layer_types C ! i \<noteq> scheduled_type (full_attention_interval C) i)"

definition validate_config :: "('f \<Rightarrow> bool) \<Rightarrow> 'f qwen_config \<Rightarrow> unit result" where
  "validate_config le_zero C =
     (if dimensions_bad le_zero C then fails InvalidModel ''Invalid dimensions in Qwen3 config''
      else if schedule_conflicts C
      then fails InvalidModel ''Qwen3 layer_types conflicts with full_attention_interval''
      else if \<not> attn_output_gate C \<or> output_gate_type C \<noteq> ''swish'' \<or> mamba_ssm_dtype C \<noteq> ''float32''
      then fails InvalidModel ''Unsupported Qwen3 attention gate or SSM state configuration''
      else Inr ())"

definition load_config_json ::
  "('d, 'f) config_env \<Rightarrow> 'd json \<Rightarrow> 'f qwen_config \<Rightarrow> 'f qwen_config loaded" where
  "load_config_json E root C =
     and_load (read_mtp root (read_fields (ce_numbers E) root C)) (\<lambda>C.
     and_load (read_eos (ce_numbers E) root C) (\<lambda>C.
     and_load (read_schedule E root (read_rope E root (derive_head_dim root C))) (\<lambda>C.
     (C, validate_config (ce_le_zero E) C))))"

definition load_config ::
  "('d, 'f) config_env \<Rightarrow> 'd json_file \<Rightarrow> string \<Rightarrow> 'f qwen_config \<Rightarrow> 'f qwen_config loaded" where
  "load_config E file path C =
     (case file of
        FileMissing \<Rightarrow> load_fails FileNotFound (''Qwen3 config does not exist: '' @ path) C
      | FileUnreadable \<Rightarrow> load_fails FileNotFound (''Failed to open Qwen3 config: '' @ path) C
      | FileMalformed what \<Rightarrow> load_fails InvalidModel (''Invalid Qwen3 config JSON: '' @ what) C
      | FileJson root \<Rightarrow> load_config_json E root C)"

end
