(* ===== verification/Weights.thy ===== *)
theory Weights
  imports Safetensors Qwen_Config "HOL-Library.Signed_Division"
begin

text \<open>
  \<open>src/ops/quantized_weight.cc\<close>, \<open>src/models/qwen3_weights.cc\<close>,
  \<open>src/models/model_weight_schema.cc\<close> and \<open>src/models/weight_sharding.cc\<close>: the weights of a
  layer with their names in the checkpoint, their validation, and their distribution over the
  devices. A tensor that was not loaded is \<open>None\<close>.
\<close>

section \<open>Quantized weights\<close>

datatype scale_layout = NoScale | PerTensor | PerRow | PerColumn | Block2D

record quantization_spec =
  qs_layout :: scale_layout
  qs_block_rows :: int
  qs_block_columns :: int

definition dense_spec :: quantization_spec where
  "dense_spec = \<lparr>qs_layout = NoScale, qs_block_rows = 1, qs_block_columns = 1\<rparr>"

record 'f quantized_weight =
  qw_values :: "'f tensor option"
  qw_scales :: "'f tensor option"
  qw_spec :: quantization_spec

definition empty_weight :: "'f quantized_weight" where
  "empty_weight = \<lparr>qw_values = None, qw_scales = None, qw_spec = dense_spec\<rparr>"

definition has_scales :: "'f quantized_weight \<Rightarrow> bool" where
  "has_scales q \<longleftrightarrow> qw_scales q \<noteq> None"

definition block_count :: "int \<Rightarrow> int \<Rightarrow> int" where
  "block_count n block = (n + block - 1) sdiv block"

definition validate_scaled ::
  "quantization_spec \<Rightarrow> 'f tensor \<Rightarrow> 'f tensor \<Rightarrow> unit result" where
  "validate_scaled spec values scales =
     (if ndim (t_shape values) \<noteq> 2
      then fails InvalidArgument ''Scaled quantized weights must be matrices''
      else
        (let rows = t_shape values ! 0; columns = t_shape values ! 1 in
         if qs_layout spec = PerTensor \<and> t_numel scales \<noteq> 1
         then fails InvalidArgument ''Per-tensor scale must contain one value''
         else if qs_layout spec = PerRow \<and> t_numel scales \<noteq> rows
         then fails InvalidArgument ''Per-row scale count does not match rows''
         else if qs_layout spec = PerColumn \<and> t_numel scales \<noteq> columns
         then fails InvalidArgument ''Per-column scale count does not match columns''
         else if qs_layout spec = Block2D then
           (if qs_block_rows spec \<le> 0 \<or> qs_block_columns spec \<le> 0
            then fails InvalidArgument ''Block dimensions must be positive''
            else if t_shape scales \<noteq>
                 [block_count rows (qs_block_rows spec), block_count columns (qs_block_columns spec)]
            then fails InvalidArgument ''2D scale shape does not match weight blocks''
            else Inr ())
         else Inr ()))"

definition validate_weight :: "'f quantized_weight \<Rightarrow> unit result" where
  "validate_weight q =
     (case qw_values q of
        None \<Rightarrow> fails InvalidArgument ''Weight values are not loaded''
      | Some values \<Rightarrow>
          if qs_layout (qw_spec q) = NoScale then
            (if qw_scales q \<noteq> None
             then fails InvalidArgument ''Scales are present but scale layout is None''
             else if t_dtype values \<noteq> FP32 \<and> t_dtype values \<noteq> FP16 \<and> t_dtype values \<noteq> BF16
             then fails InvalidArgument ''Dense weight must be FP32, FP16, or BF16''
             else Inr ())
          else if t_dtype values \<noteq> FP8_E4M3
          then fails InvalidArgument ''Scaled weight values must be FP8_E4M3''
          else
            (case qw_scales q of
               None \<Rightarrow> fails InvalidArgument ''QuantizedWeight scales must be FP32''
             | Some scales \<Rightarrow>
                 if t_dtype scales \<noteq> FP32
                 then fails InvalidArgument ''QuantizedWeight scales must be FP32''
                 else validate_scaled (qw_spec q) values scales))"

definition weight_ok :: "'f quantized_weight \<Rightarrow> bool" where
  "weight_ok q \<longleftrightarrow> validate_weight q = Inr ()"

section \<open>The weights of a layer\<close>

record 'f loaded_layer =
  ll_index :: int
  ll_is_attention :: bool
  ll_input_layernorm :: "'f tensor option"
  ll_post_attention_layernorm :: "'f tensor option"
  ll_linear_attn_norm :: "'f tensor option"
  ll_q_norm :: "'f tensor option"
  ll_k_norm :: "'f tensor option"
  ll_a_log :: "'f tensor option"
  ll_conv1d_weight :: "'f tensor option"
  ll_dt_bias :: "'f tensor option"
  ll_in_proj_a :: "'f tensor option"
  ll_in_proj_b :: "'f tensor option"
  ll_in_proj_qkv :: "'f quantized_weight"
  ll_in_proj_z :: "'f quantized_weight"
  ll_linear_out_proj :: "'f quantized_weight"
  ll_q_proj :: "'f quantized_weight"
  ll_k_proj :: "'f quantized_weight"
  ll_v_proj :: "'f quantized_weight"
  ll_o_proj :: "'f quantized_weight"
  ll_mlp_gate_proj :: "'f quantized_weight"
  ll_mlp_up_proj :: "'f quantized_weight"
  ll_mlp_down_proj :: "'f quantized_weight"

definition empty_layer :: "'f loaded_layer" where
  "empty_layer = \<lparr>ll_index = -1, ll_is_attention = False, ll_input_layernorm = None,
     ll_post_attention_layernorm = None, ll_linear_attn_norm = None, ll_q_norm = None,
     ll_k_norm = None, ll_a_log = None, ll_conv1d_weight = None, ll_dt_bias = None,
     ll_in_proj_a = None, ll_in_proj_b = None, ll_in_proj_qkv = empty_weight,
     ll_in_proj_z = empty_weight, ll_linear_out_proj = empty_weight, ll_q_proj = empty_weight,
     ll_k_proj = empty_weight, ll_v_proj = empty_weight, ll_o_proj = empty_weight,
     ll_mlp_gate_proj = empty_weight, ll_mlp_up_proj = empty_weight,
     ll_mlp_down_proj = empty_weight\<rparr>"

definition validate_layer :: "'f loaded_layer \<Rightarrow> unit result" where
  "validate_layer L =
     (if ll_index L < 0 then fails InvalidArgument ''Invalid Qwen layer index''
      else if ll_input_layernorm L = None \<or> ll_post_attention_layernorm L = None
      then fails InvalidModel ''Qwen layer norms are not loaded''
      else if ll_is_attention L \<and>
        \<not> (weight_ok (ll_q_proj L) \<and> weight_ok (ll_k_proj L) \<and> weight_ok (ll_v_proj L) \<and> weight_ok (ll_o_proj L))
      then fails InvalidModel ''Qwen attention projections are not loaded''
      else if \<not> ll_is_attention L \<and>
        \<not> (weight_ok (ll_in_proj_qkv L) \<and> weight_ok (ll_in_proj_z L) \<and> weight_ok (ll_linear_out_proj L))
      then fails InvalidModel ''Qwen DeltaNet weights are incomplete''
      else if weight_ok (ll_mlp_gate_proj L) \<and> weight_ok (ll_mlp_up_proj L) \<and> weight_ok (ll_mlp_down_proj L)
      then Inr ()
      else fails InvalidModel ''Qwen MLP quantized weights are invalid'')"

record 'f loaded_mtp =
  lm_fc :: "'f tensor option"
  lm_norm :: "'f tensor option"
  lm_pre_fc_norm_embedding :: "'f tensor option"
  lm_pre_fc_norm_hidden :: "'f tensor option"
  lm_layers :: "'f loaded_layer list"

fun validate_mtp_layers :: "'f loaded_layer list \<Rightarrow> unit result" where
  "validate_mtp_layers [] = Inr ()"
| "validate_mtp_layers (L # Ls) =
     (if ll_q_norm L = None \<or> ll_k_norm L = None
      then fails InvalidModel ''Qwen MTP attention normalization weights are missing''
      else and_then (validate_layer L) (\<lambda>_. validate_mtp_layers Ls))"

definition validate_mtp :: "'f loaded_mtp \<Rightarrow> unit result" where
  "validate_mtp M =
     (case (lm_fc M, lm_norm M, lm_pre_fc_norm_embedding M, lm_pre_fc_norm_hidden M) of
        (Some fc, Some norm, Some emb, Some hid) \<Rightarrow>
          if ndim (t_shape fc) \<noteq> 2 \<or> ndim (t_shape norm) \<noteq> 1 \<or> ndim (t_shape emb) \<noteq> 1 \<or>
             ndim (t_shape hid) \<noteq> 1 \<or> t_shape norm \<noteq> t_shape emb \<or> t_shape norm \<noteq> t_shape hid \<or>
             t_shape fc ! 1 \<noteq> t_shape norm ! 0 * 2 \<or> t_shape fc ! 0 \<noteq> t_shape norm ! 0
          then fails InvalidModel ''Qwen MTP projection or normalization shapes are invalid''
          else if lm_layers M = [] then fails InvalidModel ''Qwen MTP decoder layers are missing''
          else validate_mtp_layers (lm_layers M)
      | _ \<Rightarrow> fails InvalidModel ''Qwen MTP projection or normalization weights are missing'')"

section \<open>The names of the checkpoint\<close>

definition layer_name :: "int \<Rightarrow> string \<Rightarrow> string" where
  "layer_name i rest = ''model.language_model.layers.'' @ string_of_int i @ ''.'' @ rest"

definition ends_with :: "string \<Rightarrow> string \<Rightarrow> bool" where
  "ends_with s e \<longleftrightarrow> length e \<le> length s \<and> drop (length s - length e) s = e"

text \<open>\<open>std::from_chars\<close> for \<open>int64_t\<close>: an optional minus sign and digits up to the end.\<close>

definition from_chars_i64 :: "string \<Rightarrow> int option" where
  "from_chars_i64 s =
     (let digits = (case s of c # cs \<Rightarrow> if c = CHR ''-'' then cs else s | [] \<Rightarrow> []);
          value = int (digits_value digits)
      in if digits = [] \<or> list_ex (\<lambda>c. (of_char c :: nat) < 48 \<or> 57 < (of_char c :: nat)) digits then None
         else if hd s = CHR ''-'' then (if value \<le> 2 ^ 63 then Some (- value) else None)
         else if value < 2 ^ 63 then Some value else None)"

record weight_key =
  wk_name :: string
  wk_layer :: int
  wk_is_scale :: bool

text \<open>\<open>Qwen3WeightSchema::resolve\<close>.\<close>

definition resolve_weight :: "string \<Rightarrow> weight_key result" where
  "resolve_weight name =
     (if name = [] then fails InvalidArgument ''Tensor name and output key are required''
      else
        (let pre = ''model.language_model.layers.'' in
         if take (length pre) name \<noteq> pre
         then Inr \<lparr>wk_name = name, wk_layer = -1, wk_is_scale = False\<rparr>
         else
           (let rest = drop (length pre) name; number = takeWhile (\<lambda>c. c \<noteq> CHR ''.'') rest in
            if CHR ''.'' \<notin> set rest \<or> number = []
            then fails InvalidModel (''Invalid Qwen layer tensor name: '' @ name)
            else
              (case from_chars_i64 number of
                 None \<Rightarrow> fails InvalidModel (''Invalid Qwen layer index: '' @ name)
               | Some layer \<Rightarrow>
                   Inr \<lparr>wk_name = name, wk_layer = layer,
                        wk_is_scale = ends_with name ''.weight_scale_inv''\<rparr>))))"

end
