(* ===== verification/Weight_Loader.thy ===== *)
theory Weight_Loader
  imports Weights "HOL-Library.Sublist"
begin

text \<open>
  \<open>Qwen3WeightLoader\<close> (\<open>src/models/qwen3_weights.cc\<close>): opening a model, loading one layer, the
  shared weights and the MTP head, and the contiguous distribution of the layers over GPUs. The
  placement planner of \<open>src/models/weight_sharding.cc\<close> is here as well.
\<close>

section \<open>Opening\<close>

record 'f weight_loader =
  wl_store :: "store option"
  wl_config :: "'f qwen_config"
  wl_vision :: bool

definition open_loader ::
  "('d, 'f) store_env \<Rightarrow> string \<Rightarrow> 'f qwen_config \<Rightarrow> bool \<Rightarrow> 'f weight_loader \<Rightarrow> 'f weight_loader loaded" where
  "open_loader E path cfg enable_vision L =
     (if enable_vision
      then load_fails NotImplemented ''Qwen vision loading is disabled in phase 1'' L
      else
        (case open_model E path closed_store of
           (S, Inl e) \<Rightarrow> (L, Inl e)
         | (S, Inr _) \<Rightarrow> (L\<lparr>wl_store := Some S, wl_config := cfg, wl_vision := enable_vision\<rparr>, Inr ())))"

definition json_file_of :: "('d, 'f) store_env \<Rightarrow> string \<Rightarrow> 'd json_file" where
  "json_file_of E path =
     (if \<not> se_exists E path then FileMissing
      else (case se_read E path of
              None \<Rightarrow> FileUnreadable
            | Some bytes \<Rightarrow> (case se_parse E bytes of Inl what \<Rightarrow> FileMalformed what | Inr j \<Rightarrow> FileJson j)))"

definition open_loader_config ::
  "('d, 'f) store_env \<Rightarrow> ('d, 'f) config_env \<Rightarrow> 'f fops \<Rightarrow> string \<Rightarrow> bool \<Rightarrow> 'f weight_loader \<Rightarrow>
   'f weight_loader loaded" where
  "open_loader_config E CE F path enable_vision L =
     (let config_path = se_join E path ''config.json'' in
      case load_config CE (json_file_of E config_path) config_path (default_config F) of
        (cfg, Inl e) \<Rightarrow> (L, Inl e)
      | (cfg, Inr _) \<Rightarrow> open_loader E path cfg enable_vision L)"

section \<open>Tensors and weights\<close>

definition missing_weight :: "string \<Rightarrow> 'a result" where
  "missing_weight name = fails InvalidModel (''Missing Qwen weight: '' @ name)"

definition has_tensor :: "store \<Rightarrow> string \<Rightarrow> bool" where
  "has_tensor S name \<longleftrightarrow> tensor_info_of S name \<noteq> None"

definition load_weight_tensor ::
  "('d, 'f) store_env \<Rightarrow> 'f backends \<Rightarrow> store \<Rightarrow> string \<Rightarrow> device \<Rightarrow> 'f tensor result" where
  "load_weight_tensor E reg S name dev =
     (if \<not> has_tensor S name then missing_weight name
      else load_tensor E reg S name dev (MemoryTypeForDevice dev))"

definition checked_weight :: "'f quantized_weight \<Rightarrow> 'f quantized_weight result" where
  "checked_weight q = and_then (validate_weight q) (\<lambda>_. Inr q)"

definition load_quantized ::
  "('d, 'f) store_env \<Rightarrow> 'f backends \<Rightarrow> store \<Rightarrow> string \<Rightarrow> device \<Rightarrow> 'f quantized_weight result" where
  "load_quantized E reg S base_name dev =
     (if \<not> ends_with base_name ''.weight''
      then fails InvalidArgument ''Quantized Qwen weight name must end with .weight''
      else
        (let scale_name = take (length base_name - length ''.weight'') base_name @ ''.weight_scale_inv'' in
         case tensor_info_of S base_name of
           None \<Rightarrow> missing_weight base_name
         | Some info \<Rightarrow>
             if ti_dtype info = BF16 \<or> ti_dtype info = FP16 \<or> ti_dtype info = FP32 then
               and_then (load_tensor E reg S base_name dev (MemoryTypeForDevice dev)) (\<lambda>values.
                 checked_weight \<lparr>qw_values = Some values, qw_scales = None, qw_spec = dense_spec\<rparr>)
             else if ti_dtype info \<noteq> FP8_E4M3 \<or> \<not> has_tensor S scale_name
             then fails UnsupportedDType
                    (''Expected dense BF16/FP16/FP32 or scaled FP8 Qwen weight: '' @ base_name)
             else
               and_then (load_tensor E reg S base_name dev (MemoryTypeForDevice dev)) (\<lambda>values.
               and_then (load_as_fp32 E reg S scale_name dev HostMem) (\<lambda>scales.
                 checked_weight \<lparr>qw_values = Some values, qw_scales = Some scales,
                   qw_spec = \<lparr>qs_layout = Block2D, qs_block_rows = 128, qs_block_columns = 128\<rparr>\<rparr>))))"

section \<open>One layer\<close>

definition load_attention ::
  "(string \<Rightarrow> 'f tensor result) \<Rightarrow> (string \<Rightarrow> 'f quantized_weight result) \<Rightarrow> 'f loaded_layer \<Rightarrow>
   'f loaded_layer result" where
  "load_attention tensor weight L =
     and_then (weight ''self_attn.q_proj.weight'') (\<lambda>q.
     and_then (weight ''self_attn.k_proj.weight'') (\<lambda>k.
     and_then (weight ''self_attn.v_proj.weight'') (\<lambda>v.
     and_then (weight ''self_attn.o_proj.weight'') (\<lambda>out.
     and_then (tensor ''self_attn.q_norm.weight'') (\<lambda>qn.
     and_then (tensor ''self_attn.k_norm.weight'') (\<lambda>kn.
       Inr (L\<lparr>ll_q_proj := q, ll_k_proj := k, ll_v_proj := v, ll_o_proj := out,
              ll_q_norm := Some qn, ll_k_norm := Some kn\<rparr>)))))))"

definition load_linear ::
  "(string \<Rightarrow> 'f tensor result) \<Rightarrow> (string \<Rightarrow> 'f quantized_weight result) \<Rightarrow> 'f loaded_layer \<Rightarrow>
   'f loaded_layer result" where
  "load_linear tensor weight L =
     and_then (tensor ''linear_attn.norm.weight'') (\<lambda>norm.
     and_then (tensor ''linear_attn.A_log'') (\<lambda>a_log.
     and_then (tensor ''linear_attn.conv1d.weight'') (\<lambda>conv.
     and_then (tensor ''linear_attn.dt_bias'') (\<lambda>dt_bias.
     and_then (tensor ''linear_attn.in_proj_a.weight'') (\<lambda>a.
     and_then (tensor ''linear_attn.in_proj_b.weight'') (\<lambda>b.
     and_then (weight ''linear_attn.in_proj_qkv.weight'') (\<lambda>qkv.
     and_then (weight ''linear_attn.in_proj_z.weight'') (\<lambda>z.
     and_then (weight ''linear_attn.out_proj.weight'') (\<lambda>out.
       Inr (L\<lparr>ll_linear_attn_norm := Some norm, ll_a_log := Some a_log, ll_conv1d_weight := Some conv,
              ll_dt_bias := Some dt_bias, ll_in_proj_a := Some a, ll_in_proj_b := Some b,
              ll_in_proj_qkv := qkv, ll_in_proj_z := z, ll_linear_out_proj := out\<rparr>))))))))))"

definition load_mlp ::
  "(string \<Rightarrow> 'f quantized_weight result) \<Rightarrow> 'f loaded_layer \<Rightarrow> 'f loaded_layer result" where
  "load_mlp weight L =
     and_then (weight ''mlp.gate_proj.weight'') (\<lambda>gate.
     and_then (weight ''mlp.up_proj.weight'') (\<lambda>up.
     and_then (weight ''mlp.down_proj.weight'') (\<lambda>down.
       and_then (validate_layer (L\<lparr>ll_mlp_gate_proj := gate, ll_mlp_up_proj := up, ll_mlp_down_proj := down\<rparr>)) (\<lambda>_.
         Inr (L\<lparr>ll_mlp_gate_proj := gate, ll_mlp_up_proj := up, ll_mlp_down_proj := down\<rparr>)))))"

definition load_norms ::
  "(string \<Rightarrow> 'f tensor result) \<Rightarrow> 'f loaded_layer \<Rightarrow> 'f loaded_layer result" where
  "load_norms tensor L =
     and_then (tensor ''input_layernorm.weight'') (\<lambda>input.
     and_then (tensor ''post_attention_layernorm.weight'') (\<lambda>post.
       Inr (L\<lparr>ll_input_layernorm := Some input, ll_post_attention_layernorm := Some post\<rparr>)))"

definition layer_kind :: "'f qwen_config \<Rightarrow> store \<Rightarrow> int \<Rightarrow> bool result" where
  "layer_kind cfg S i =
     (let has_attention = has_tensor S (layer_name i ''self_attn.q_proj.weight'');
          has_linear = has_tensor S (layer_name i ''linear_attn.in_proj_qkv.weight'');
          expected = (layer_types cfg ! nat i = FullAttention)
      in if has_attention = has_linear
         then fails InvalidModel (''Qwen layer '' @ string_of_int i @
                (if has_attention then '' contains both full-attention and linear-attention weights''
                 else '' contains neither full-attention nor linear-attention weights''))
         else if expected \<noteq> has_attention
         then fails InvalidModel (''Qwen layer '' @ string_of_int i @
                (if expected then '' is configured as full attention but checkpoint contains linear attention''
                 else '' is configured as linear attention but checkpoint contains full attention''))
         else Inr expected)"

definition load_layer ::
  "('d, 'f) store_env \<Rightarrow> 'f backends \<Rightarrow> 'f qwen_config \<Rightarrow> store \<Rightarrow> int \<Rightarrow> device \<Rightarrow> 'f loaded_layer result" where
  "load_layer E reg cfg S i dev =
     (let tensor = (\<lambda>name. load_weight_tensor E reg S (layer_name i name) dev);
          weight = (\<lambda>name. load_quantized E reg S (layer_name i name) dev)
      in if i < 0 \<or> num_hidden_layers cfg \<le> i then fails InvalidArgument ''Invalid Qwen layer request''
         else if int (length (layer_types cfg)) \<noteq> num_hidden_layers cfg
         then fails InvalidModel ''Qwen layer schedule is missing or incomplete''
         else
           and_then (load_norms tensor (empty_layer\<lparr>ll_index := i\<rparr>)) (\<lambda>L.
           and_then (layer_kind cfg S i) (\<lambda>attention.
           and_then ((if attention then load_attention else load_linear) tensor weight
                       (L\<lparr>ll_is_attention := attention\<rparr>)) (\<lambda>L.
             load_mlp weight L))))"

section \<open>Shared weights and the MTP head\<close>

definition load_mtp_layer ::
  "('d, 'f) store_env \<Rightarrow> 'f backends \<Rightarrow> store \<Rightarrow> device \<Rightarrow> nat \<Rightarrow> 'f loaded_layer result" where
  "load_mtp_layer E reg S dev i =
     (let pre = ''mtp.layers.'' @ string_of_nat i @ ''.'';
          tensor = (\<lambda>name. load_weight_tensor E reg S (pre @ name) dev);
          weight = (\<lambda>name. load_quantized E reg S (pre @ name) dev)
      in and_then (load_norms tensor (empty_layer\<lparr>ll_index := int i, ll_is_attention := True\<rparr>)) (\<lambda>L.
         and_then (load_attention tensor weight L) (\<lambda>L. load_mlp weight L)))"

definition load_mtp ::
  "('d, 'f) store_env \<Rightarrow> 'f backends \<Rightarrow> 'f qwen_config \<Rightarrow> store \<Rightarrow> device \<Rightarrow> 'f loaded_mtp result" where
  "load_mtp E reg cfg S dev =
     (if mtp_num_hidden_layers cfg \<le> 0
      then fails InvalidModel ''Checkpoint does not contain Qwen MTP layers''
      else
        and_then (load_weight_tensor E reg S ''mtp.fc.weight'' dev) (\<lambda>fc.
        and_then (load_weight_tensor E reg S ''mtp.norm.weight'' dev) (\<lambda>norm.
        and_then (load_weight_tensor E reg S ''mtp.pre_fc_norm_embedding.weight'' dev) (\<lambda>emb.
        and_then (load_weight_tensor E reg S ''mtp.pre_fc_norm_hidden.weight'' dev) (\<lambda>hid.
        and_then (convert_all (load_mtp_layer E reg S dev) [0..<nat (mtp_num_hidden_layers cfg)]) (\<lambda>layers.
          (let M = \<lparr>lm_fc = Some fc, lm_norm = Some norm, lm_pre_fc_norm_embedding = Some emb,
                    lm_pre_fc_norm_hidden = Some hid, lm_layers = layers\<rparr>
           in and_then (validate_mtp M) (\<lambda>_. Inr M))))))))"

record 'f shared_weights =
  sw_embed_tokens :: "'f tensor"
  sw_final_norm :: "'f tensor"
  sw_lm_head :: "'f tensor"

definition load_shared ::
  "('d, 'f) store_env \<Rightarrow> 'f backends \<Rightarrow> store \<Rightarrow> device \<Rightarrow> device \<Rightarrow> 'f shared_weights result" where
  "load_shared E reg S front back =
     and_then (load_weight_tensor E reg S ''model.language_model.embed_tokens.weight'' front) (\<lambda>embed.
     and_then (load_weight_tensor E reg S ''model.language_model.norm.weight'' back) (\<lambda>norm.
     and_then (load_weight_tensor E reg S ''lm_head.weight'' back) (\<lambda>head.
       Inr \<lparr>sw_embed_tokens = embed, sw_final_norm = norm, sw_lm_head = head\<rparr>)))"

section \<open>The distribution over devices\<close>

record device_partition =
  dp_device :: device
  dp_first :: int
  dp_last :: int
  dp_bytes :: u64

definition tensor_bytes :: "store \<Rightarrow> string \<Rightarrow> u64" where
  "tensor_bytes S name =
     (case tensor_info_of S name of None \<Rightarrow> 0 | Some info \<Rightarrow> of_nat (ti_end info - ti_begin info))"

definition layer_bytes :: "store \<Rightarrow> int \<Rightarrow> u64" where
  "layer_bytes S i =
     (let pre = ''model.language_model.layers.'' @ string_of_int i @ ''.'' in
      sum_list (map (tensor_bytes S) (filter (\<lambda>name. prefix pre name) (tensor_names S))))"

definition mtp_tensor :: "string \<Rightarrow> bool" where
  "mtp_tensor name \<longleftrightarrow>
     name = ''mtp.fc.weight'' \<or> name = ''mtp.norm.weight'' \<or>
     name = ''mtp.pre_fc_norm_embedding.weight'' \<or> name = ''mtp.pre_fc_norm_hidden.weight'' \<or>
     prefix ''mtp.layers.'' name"

definition mtp_bytes :: "'f qwen_config \<Rightarrow> store \<Rightarrow> u64" where
  "mtp_bytes cfg S =
     (if mtp_num_hidden_layers cfg \<le> 0 then 0
      else sum_list (map (tensor_bytes S) (filter mtp_tensor (tensor_names S))))"

text \<open>The bounds of the layers of device \<open>i\<close> of \<open>d\<close>, and the bytes of these layers.\<close>

definition plan_entry :: "store \<Rightarrow> int \<Rightarrow> int \<Rightarrow> nat \<times> device \<Rightarrow> device_partition" where
  "plan_entry S n d = (\<lambda>(i, dev).
     let first = n * int i div d; last = n * (int i + 1) div d - 1
     in \<lparr>dp_device = dev, dp_first = first, dp_last = last,
         dp_bytes = sum_list (map (layer_bytes S) [first..last])\<rparr>)"

definition add_bytes :: "nat \<Rightarrow> u64 \<Rightarrow> device_partition list \<Rightarrow> device_partition list" where
  "add_bytes i b ps = ps[i := (ps ! i)\<lparr>dp_bytes := dp_bytes (ps ! i) + b\<rparr>]"

definition plan_distributed ::
  "'f qwen_config \<Rightarrow> store \<Rightarrow> device list \<Rightarrow> device_partition list result" where
  "plan_distributed cfg S devices =
     (if devices = [] then fails InvalidArgument ''Distributed plan requires output and at least one device''
      else if list_ex (\<lambda>dev. \<not> is_gpu dev) devices
      then fails InvalidDevice ''Distributed Qwen plan requires GPU devices''
      else
        (let n = num_hidden_layers cfg; d = int (length devices) in
         if n \<le> 0 \<or> n < d
         then fails InvalidArgument ''Qwen device count must not exceed layer count''
         else
           (let ps = map (plan_entry S n d) (enumerate 0 devices); back = length devices - 1
            in Inr (add_bytes back (mtp_bytes cfg S)
                 (add_bytes back (tensor_bytes S ''lm_head.weight'')
                 (add_bytes back (tensor_bytes S ''model.language_model.norm.weight'')
                 (add_bytes 0 (tensor_bytes S ''model.language_model.embed_tokens.weight'') ps)))))))"

record 'f loaded_weights =
  ld_shared :: "'f shared_weights"
  ld_layers :: "('f loaded_layer \<times> device) list"
  ld_partitions :: "device_partition list"
  ld_total_bytes :: u64

text \<open>The loops over the partitions and their layers: each layer is stored at its index.\<close>

definition plan_layers :: "device_partition list \<Rightarrow> (int \<times> device) list" where
  "plan_layers ps = concat (map (\<lambda>p. map (\<lambda>i. (i, dp_device p)) [dp_first p..dp_last p]) ps)"

fun load_layers ::
  "(int \<Rightarrow> device \<Rightarrow> 'f loaded_layer result) \<Rightarrow> (int \<times> device) list \<Rightarrow> ('f loaded_layer \<times> device) list \<Rightarrow>
   ('f loaded_layer \<times> device) list result" where
  "load_layers f [] xs = Inr xs"
| "load_layers f ((i, dev) # rest) xs =
     and_then (f i dev) (\<lambda>L. load_layers f rest (xs[nat i := (L, dev)]))"

definition load_distributed ::
  "('d, 'f) store_env \<Rightarrow> 'f backends \<Rightarrow> 'f qwen_config \<Rightarrow> store \<Rightarrow> device list \<Rightarrow> 'f loaded_weights result" where
  "load_distributed E reg cfg S devices =
     (if devices = [] then fails InvalidArgument ''Distributed load requires output and at least one device''
      else if num_hidden_layers cfg < 0 then Inl (Thrown ''std::length_error'')
      else
        and_then (plan_distributed cfg S devices) (\<lambda>ps.
        and_then (load_layers (load_layer E reg cfg S) (plan_layers ps)
                    (replicate (nat (num_hidden_layers cfg)) (empty_layer, Cpu))) (\<lambda>layers.
        and_then (load_shared E reg S (hd devices) (last devices)) (\<lambda>shared.
          Inr \<lparr>ld_shared = shared, ld_layers = layers, ld_partitions = ps,
               ld_total_bytes = sum_list (map dp_bytes ps)\<rparr>))))"

text \<open>The loader's entry points, which need an opened store.\<close>

definition with_store :: "'f weight_loader \<Rightarrow> (store \<Rightarrow> 'a result) \<Rightarrow> 'a result" where
  "with_store L f =
     (case wl_store L of None \<Rightarrow> fails InvalidArgument ''Qwen loader is not open'' | Some S \<Rightarrow> f S)"

definition loader_load_distributed ::
  "('d, 'f) store_env \<Rightarrow> 'f backends \<Rightarrow> 'f weight_loader \<Rightarrow> device list \<Rightarrow> 'f loaded_weights result" where
  "loader_load_distributed E reg L devices =
     with_store L (\<lambda>S. load_distributed E reg (wl_config L) S devices)"

definition loader_load_shared ::
  "('d, 'f) store_env \<Rightarrow> 'f backends \<Rightarrow> 'f weight_loader \<Rightarrow> device \<Rightarrow> 'f shared_weights result" where
  "loader_load_shared E reg L dev = with_store L (\<lambda>S. load_shared E reg S dev dev)"

section \<open>The placement planner\<close>

datatype weight_partition_mode = Replicated | Layerwise

record weight_placement =
  wp_device :: device
  wp_index :: u32
  wp_count :: u32

definition validate_placement :: "weight_partition_mode \<Rightarrow> device list \<Rightarrow> unit result" where
  "validate_placement mode devices =
     (if devices = [] then fails InvalidArgument ''Weight sharding requires at least one device''
      else if mode = Layerwise \<and> length devices < 2
      then fails InvalidArgument ''Layer sharding requires at least two devices''
      else Inr ())"

definition plan_placement ::
  "weight_partition_mode \<Rightarrow> device list \<Rightarrow> string \<Rightarrow> int \<Rightarrow> weight_placement list result" where
  "plan_placement mode devices tensor_name layer_index =
     and_then (validate_placement mode devices) (\<lambda>_.
       if tensor_name = [] \<or> layer_index < -1
       then fails InvalidArgument ''Invalid tensor name or layer index''
       else if mode = Replicated then
         Inr (map (\<lambda>dev. \<lparr>wp_device = dev, wp_index = 0, wp_count = of_nat (length devices)\<rparr>) devices)
       else
         (let index = (if layer_index < 0 then 0 else nat layer_index mod length devices)
          in Inr [\<lparr>wp_device = devices ! index, wp_index = of_nat index,
                   wp_count = of_nat (length devices)\<rparr>]))"

section \<open>The plan covers the layers\<close>

lemma add_bytes_simps [simp]:
  "i < length ps \<Longrightarrow> map dp_device (add_bytes i b ps) = map dp_device ps"
  "i < length ps \<Longrightarrow> map dp_first (add_bytes i b ps) = map dp_first ps"
  "i < length ps \<Longrightarrow> map dp_last (add_bytes i b ps) = map dp_last ps"
  "length (add_bytes i b ps) = length ps"
  by (auto simp: add_bytes_def map_update list_update_id intro!: list_update_same_conv [THEN iffD2])

lemma boundaries_concat:
  assumes "\<And>i. b i \<le> b (Suc i)"
  shows "concat (map (\<lambda>i. [b i..b (Suc i) - 1]) [0..<k]) = [b 0..b k - 1 :: int]"
proof (induction k)
  case (Suc k)
  have "b 0 \<le> b k" using assms by (rule lift_Suc_mono_le) simp
  then show ?case using Suc assms [of k] upto_split1 [of "b 0" "b k" "b (Suc k) - 1"]
    by (cases "b k < b (Suc k)") auto
qed simp

definition boundary :: "int \<Rightarrow> int \<Rightarrow> nat \<Rightarrow> int" where
  "boundary n d i = n * int i div d"

lemma boundary_step:
  assumes "0 < d" "0 \<le> n"
  shows "boundary n d i + n div d \<le> boundary n d (Suc i)"
    "boundary n d (Suc i) \<le> boundary n d i + n div d + 1"
proof -
  have "n * int (Suc i) = n * int i + n" by (simp add: algebra_simps)
  then have "boundary n d (Suc i) = boundary n d i + n div d + (n * int i mod d + n mod d) div d"
    by (simp add: boundary_def div_add1_eq [of "n * int i" n d])
  moreover have "0 \<le> (n * int i mod d + n mod d) div d" using assms by (simp add: pos_imp_zdiv_nonneg_iff)
  moreover have "(n * int i mod d + n mod d) div d \<le> 1"
  proof -
    have "n * int i mod d + n mod d < 2 * d"
      using assms pos_mod_bound [of d "n * int i"] pos_mod_bound [of d n] by linarith
    moreover have "(n * int i mod d + n mod d) div d * d \<le> n * int i mod d + n mod d"
      using assms by (simp add: minus_mod_eq_div_mult [symmetric])
    ultimately have "(n * int i mod d + n mod d) div d * d < 2 * d" by linarith
    then have "(n * int i mod d + n mod d) div d < 2" using assms by simp
    then show ?thesis by simp
  qed
  ultimately show "boundary n d i + n div d \<le> boundary n d (Suc i)"
    "boundary n d (Suc i) \<le> boundary n d i + n div d + 1" by linarith+
qed

lemma boundary_ends: "boundary n d 0 = 0" "0 < k \<Longrightarrow> boundary n (int k) k = n"
  by (simp_all add: boundary_def)

lemma plan_entry_bounds:
  "dp_first (plan_entry S n d (i, dev)) = boundary n d i"
  "dp_last (plan_entry S n d (i, dev)) = boundary n d (Suc i) - 1"
  "dp_device (plan_entry S n d (i, dev)) = dev"
  by (simp_all add: plan_entry_def Let_def boundary_def add.commute)

text \<open>The partitions of a plan, without their byte counts.\<close>

lemma plan_shape:
  assumes "plan_distributed cfg S devices = Inr ps"
  shows "length ps = length devices" "map dp_device ps = devices"
    "0 < length devices" "int (length devices) \<le> num_hidden_layers cfg"
    "\<And>i. i < length ps \<Longrightarrow> dp_first (ps ! i) = boundary (num_hidden_layers cfg) (int (length devices)) i"
    "\<And>i. i < length ps \<Longrightarrow> dp_last (ps ! i) = boundary (num_hidden_layers cfg) (int (length devices)) (Suc i) - 1"
proof -
  let ?n = "num_hidden_layers cfg" and ?d = "int (length devices)"
  let ?qs = "map (plan_entry S ?n ?d) (enumerate 0 devices)"
  have d: "devices \<noteq> []" "?d \<le> ?n"
    and ps: "ps = add_bytes (length devices - 1) (mtp_bytes cfg S)
                 (add_bytes (length devices - 1) (tensor_bytes S ''lm_head.weight'')
                 (add_bytes (length devices - 1) (tensor_bytes S ''model.language_model.norm.weight'')
                 (add_bytes 0 (tensor_bytes S ''model.language_model.embed_tokens.weight'') ?qs)))"
    using assms by (auto simp: plan_distributed_def Let_def split: if_splits)
  have l: "length devices - 1 < length devices" using d by (cases devices) auto
  have maps: "map dp_device ps = map dp_device ?qs" "map dp_first ps = map dp_first ?qs"
    "map dp_last ps = map dp_last ?qs" using d l by (simp_all add: ps)
  show n: "length ps = length devices" by (simp add: ps)
  show "map dp_device ps = devices" unfolding maps(1)
    by (rule nth_equalityI) (simp_all add: nth_enumerate_eq plan_entry_bounds)
  show "0 < length devices" "?d \<le> ?n" using d by auto
  show "dp_first (ps ! i) = boundary ?n ?d i" if "i < length ps" for i
    using arg_cong [OF maps(2), of "\<lambda>xs. xs ! i"] that n by (simp add: nth_enumerate_eq plan_entry_bounds)
  show "dp_last (ps ! i) = boundary ?n ?d (Suc i) - 1" if "i < length ps" for i
    using arg_cong [OF maps(3), of "\<lambda>xs. xs ! i"] that n by (simp add: nth_enumerate_eq plan_entry_bounds)
qed

lemma plan_covers:
  assumes "plan_distributed cfg S devices = Inr ps"
  shows "concat (map (\<lambda>p. [dp_first p..dp_last p]) ps) = [0..num_hidden_layers cfg - 1]"
    "\<forall>p \<in> set ps. num_hidden_layers cfg div int (length devices) \<le> dp_last p - dp_first p + 1 \<and>
       dp_last p - dp_first p \<le> num_hidden_layers cfg div int (length devices)"
    "\<forall>p \<in> set ps. dp_first p \<le> dp_last p"
proof -
  let ?n = "num_hidden_layers cfg" and ?d = "int (length devices)"
  note s = plan_shape [OF assms]
  have pos: "0 < ?d" "0 \<le> ?n" using s(3, 4) by auto
  have mono: "boundary ?n ?d i \<le> boundary ?n ?d (Suc i)" for i
    using boundary_step(1) [OF pos, of i] pos by (smt (verit) pos_imp_zdiv_nonneg_iff)
  have "map (\<lambda>p. [dp_first p..dp_last p]) ps =
      map (\<lambda>i. [boundary ?n ?d i..boundary ?n ?d (Suc i) - 1]) [0..<length ps]"
    by (rule nth_equalityI) (simp_all add: s(5, 6))
  then show "concat (map (\<lambda>p. [dp_first p..dp_last p]) ps) = [0..?n - 1]"
    using boundaries_concat [of "boundary ?n ?d" "length ps", OF mono] s(1, 3)
    by (simp add: boundary_ends)
  show b: "\<forall>p \<in> set ps. ?n div ?d \<le> dp_last p - dp_first p + 1 \<and> dp_last p - dp_first p \<le> ?n div ?d"
  proof
    fix p assume "p \<in> set ps"
    then obtain i where "i < length ps" "p = ps ! i" by (auto simp: in_set_conv_nth)
    then show "?n div ?d \<le> dp_last p - dp_first p + 1 \<and> dp_last p - dp_first p \<le> ?n div ?d"
      using boundary_step [OF pos, of i] by (simp add: s(5, 6))
  qed
  have "1 \<le> ?n div ?d" using s(4) pos by (simp add: pos_imp_zdiv_pos_iff int_one_le_iff_zero_less)
  then show "\<forall>p \<in> set ps. dp_first p \<le> dp_last p" using b by fastforce
qed

section \<open>Every layer is loaded onto its device\<close>

lemma load_layers_in_order:
  assumes "load_layers f as xs = Inr ys" "map fst as = map int [k..<length xs]" "k \<le> length xs"
  shows "length ys = length xs \<and> take k ys = take k xs \<and> map snd (drop k ys) = map snd as \<and>
    (\<forall>i. k \<le> i \<longrightarrow> i < length ys \<longrightarrow> f (int i) (snd (ys ! i)) = Inr (fst (ys ! i)))"
  using assms
proof (induction as arbitrary: xs k)
  case Nil
  then show ?case by auto
next
  case (Cons a as)
  have k: "k < length xs" using Cons.prems(2) by (cases "k < length xs") auto
  then have a: "fst a = int k" "map fst as = map int [Suc k..<length xs]"
    using Cons.prems(2) by (auto simp: upt_conv_Cons)
  obtain dev where dev: "a = (int k, dev)" using a(1) by (cases a) auto
  then obtain L where L: "f (int k) dev = Inr L" "load_layers f as (xs[k := (L, dev)]) = Inr ys"
    using Cons.prems(1) by (auto simp: and_then_Inr)
  have ih: "length ys = length xs \<and> take (Suc k) ys = take (Suc k) (xs[k := (L, dev)]) \<and>
      map snd (drop (Suc k) ys) = map snd as \<and>
      (\<forall>i. Suc k \<le> i \<longrightarrow> i < length ys \<longrightarrow> f (int i) (snd (ys ! i)) = Inr (fst (ys ! i)))"
    using Cons.IH [OF L(2), of "Suc k"] a(2) k by simp
  then have yk: "ys ! k = (L, dev)" using k by (metis lessI nth_list_update_eq nth_take)
  have "take k ys = take k xs"
    using ih by (metis Suc_n_not_le_n min.absorb1 nat_le_linear take_take take_update_cancel le_refl)
  moreover have "drop k ys = ys ! k # drop (Suc k) ys" using k ih by (simp add: Cons_nth_drop_Suc)
  moreover have "f (int i) (snd (ys ! i)) = Inr (fst (ys ! i))" if "k \<le> i" "i < length ys" for i
    using that ih yk L(1) by (cases "i = k") auto
  ultimately show ?case using ih yk dev by simp
qed

lemma plan_layers_indices:
  "map fst (plan_layers ps) = concat (map (\<lambda>p. [dp_first p..dp_last p]) ps)"
  by (simp add: plan_layers_def map_concat comp_def)

lemma plan_layers_devices:
  "map snd (plan_layers ps) =
     concat (map (\<lambda>p. replicate (nat (dp_last p - dp_first p + 1)) (dp_device p)) ps)"
  by (simp add: plan_layers_def map_concat comp_def map_replicate_const)

lemma upto_ints: "[0..n - 1] = map int [0..<nat n]"
  by (rule nth_equalityI) simp_all

lemma load_distributed_layers:
  assumes "load_distributed E reg cfg S ds = Inr W"
  shows "plan_distributed cfg S ds = Inr (ld_partitions W)"
    "load_shared E reg S (hd ds) (last ds) = Inr (ld_shared W)"
    "map fst (plan_layers (ld_partitions W)) = map int [0..<nat (num_hidden_layers cfg)]"
    "length (ld_layers W) = nat (num_hidden_layers cfg)"
    "map snd (ld_layers W) = map snd (plan_layers (ld_partitions W))"
    "\<And>i. i < nat (num_hidden_layers cfg) \<Longrightarrow>
       load_layer E reg cfg S (int i) (snd (ld_layers W ! i)) = Inr (fst (ld_layers W ! i))"
proof -
  obtain ps layers shared where p: "plan_distributed cfg S ds = Inr ps"
    and l: "load_layers (load_layer E reg cfg S) (plan_layers ps)
              (replicate (nat (num_hidden_layers cfg)) (empty_layer, Cpu)) = Inr layers"
    and s: "load_shared E reg S (hd ds) (last ds) = Inr shared"
    and W: "ld_partitions W = ps" "ld_layers W = layers" "ld_shared W = shared"
    using assms by (auto simp: load_distributed_def and_then_Inr split: if_splits)
  have idx: "map fst (plan_layers ps) = map int [0..<nat (num_hidden_layers cfg)]"
    using plan_covers(1) [OF p] by (simp add: plan_layers_indices upto_ints)
  note order = load_layers_in_order [OF l, of 0, simplified, OF idx]
  show "plan_distributed cfg S ds = Inr (ld_partitions W)"
    "load_shared E reg S (hd ds) (last ds) = Inr (ld_shared W)"
    "map fst (plan_layers (ld_partitions W)) = map int [0..<nat (num_hidden_layers cfg)]"
    "length (ld_layers W) = nat (num_hidden_layers cfg)"
    "map snd (ld_layers W) = map snd (plan_layers (ld_partitions W))"
    using p s W idx order by simp_all
  show "load_layer E reg cfg S (int i) (snd (ld_layers W ! i)) = Inr (fst (ld_layers W ! i))"
    if "i < nat (num_hidden_layers cfg)" for i using order that W by simp
qed

lemma load_distributed_devices:
  assumes "load_distributed E reg cfg S ds = Inr W"
  shows "snd ` set (ld_layers W) \<subseteq> set ds" "\<forall>d \<in> set ds. is_gpu d" "ds \<noteq> []"
proof -
  note p = load_distributed_layers(1) [OF assms]
  have "set (map snd (ld_layers W)) \<subseteq> set (map dp_device (ld_partitions W))"
    unfolding load_distributed_layers(5) [OF assms] by (auto simp: plan_layers_devices set_replicate_conv_if)
  then show "snd ` set (ld_layers W) \<subseteq> set ds" by (simp add: plan_shape(2) [OF p])
  show "\<forall>d \<in> set ds. is_gpu d" "ds \<noteq> []"
    using p by (auto simp: plan_distributed_def list_ex_iff split: if_splits)
qed

text \<open>What a loaded layer is: of the kind the configuration lists, and validated.\<close>

lemma load_layer_kind:
  assumes "load_layer E reg cfg S i dev = Inr L"
  shows "ll_index L = i" "ll_is_attention L \<longleftrightarrow> layer_types cfg ! nat i = FullAttention"
    "validate_layer L = Inr ()"
  using assms
  by (auto simp: load_layer_def Let_def and_then_Inr load_norms_def layer_kind_def load_attention_def load_linear_def
      load_mlp_def split: if_splits)

section \<open>The contract between the distributed load and the loader of a layer\<close>

text \<open>\<open>load_distributed\<close> stores what \<open>load_layer\<close> gives: it relies on the layer being the requested one,
  of the kind the configuration lists, and validated.\<close>

locale layer_source =
  fixes load :: "int \<Rightarrow> device \<Rightarrow> 'f loaded_layer result"
    and attends :: "int \<Rightarrow> bool"
  assumes right_index: "\<And>i dev L. load i dev = Inr L \<Longrightarrow> ll_index L = i"
    and right_kind: "\<And>i dev L. load i dev = Inr L \<Longrightarrow> ll_is_attention L \<longleftrightarrow> attends i"
    and validated: "\<And>i dev L. load i dev = Inr L \<Longrightarrow> validate_layer L = Inr ()"
begin

lemma stored_layers:
  assumes "load_layers load as xs = Inr ys" "map fst as = map int [0..<length xs]" "i < length xs"
  shows "ll_index (fst (ys ! i)) = int i" "ll_is_attention (fst (ys ! i)) \<longleftrightarrow> attends (int i)"
    "validate_layer (fst (ys ! i)) = Inr ()"
proof -
  note order = load_layers_in_order [OF assms(1), of 0, simplified, OF assms(2)]
  then have l: "load (int i) (snd (ys ! i)) = Inr (fst (ys ! i))" using assms(3) by simp
  then show "ll_index (fst (ys ! i)) = int i" "ll_is_attention (fst (ys ! i)) \<longleftrightarrow> attends (int i)"
    "validate_layer (fst (ys ! i)) = Inr ()"
    using right_index [OF l] right_kind [OF l] validated [OF l] by simp_all
qed

end

interpretation checkpoint: layer_source "load_layer E reg cfg S" "\<lambda>i. layer_types cfg ! nat i = FullAttention"
  for E :: "('d, 'f) store_env" and reg cfg S
  by unfold_locales (auto dest: load_layer_kind)

text \<open>The layers of a distributed load, by the contract.\<close>

lemma loaded_layer_at:
  assumes "load_distributed E reg cfg S ds = Inr W" "i < nat (num_hidden_layers cfg)"
  shows "case ld_layers W ! i of (L, dev) \<Rightarrow>
    ll_index L = int i \<and> (ll_is_attention L \<longleftrightarrow> layer_types cfg ! i = FullAttention) \<and>
    validate_layer L = Inr () \<and> dev \<in> set ds"
proof -
  note d = load_distributed_layers [OF assms(1)]
  have l: "load_layers (load_layer E reg cfg S) (plan_layers (ld_partitions W))
      (replicate (nat (num_hidden_layers cfg)) (empty_layer, Cpu)) = Inr (ld_layers W)"
    using assms(1) by (auto simp: load_distributed_def and_then_Inr split: if_splits)
  have "snd (ld_layers W ! i) \<in> set ds"
    using assms d(4) load_distributed_devices(1) [OF assms(1)] by (metis image_subset_iff nth_mem)
  then show ?thesis
    using checkpoint.stored_layers [OF l, of i] d(3) assms(2) by (simp add: case_prod_beta)
qed

lemma load_mtp_layers:
  assumes "load_mtp E reg cfg S dev = Inr M"
  shows "0 < mtp_num_hidden_layers cfg" "length (lm_layers M) = nat (mtp_num_hidden_layers cfg)" "validate_mtp M = Inr ()"
  using assms by (auto simp: load_mtp_def Let_def and_then_Inr split: if_splits dest: convert_all_length)

lemma open_loader_store:
  "open_loader E path cfg v L = (L', Inr u) \<Longrightarrow>
   \<exists>S. open_model E path closed_store = (S, Inr ()) \<and> wl_store L' = Some S \<and> wl_config L' = cfg"
  by (auto simp: open_loader_def split: if_splits prod.splits sum.splits)

end
