(* ===== verification/Device_Layer.thy ===== *)
theory Device_Layer
  imports Core_Types
begin

text \<open>
  The registries and the choice of devices: \<open>BackendRegistry\<close>
  (\<open>src/backends/backend_registry.cc\<close>), \<open>DeviceManager\<close> (\<open>src/core/device_manager.cc\<close>),
  \<open>select_gpu_devices\<close> (\<open>src/models/qwen_reference.cc\<close>), \<open>KernelRegistry\<close>
  (\<open>src/ops/registry.cc\<close>) and \<open>MemoryPlanner\<close> (\<open>src/memory/memory_planner.cc\<close>). The
  singletons are states that the operations take and return; a mutex makes every operation one
  step. A backend object is a value of a type parameter. The order in which an unordered map is
  traversed is not specified: it is a list that the operations take.
\<close>

section \<open>The backend registry\<close>

type_synonym 'b factory = "device \<Rightarrow> 'b option"

record 'b backend_registry =
  factories :: "string \<Rightarrow> 'b factory option"
  backends :: "string \<Rightarrow> 'b option"

definition empty_registry :: "'b backend_registry" where
  "empty_registry = \<lparr>factories = (\<lambda>_. None), backends = (\<lambda>_. None)\<rparr>"

text \<open>Registering a name drops the backends made by the factory it replaces.\<close>

definition register_backend :: "string \<Rightarrow> 'b factory \<Rightarrow> 'b backend_registry \<Rightarrow> 'b backend_registry" where
  "register_backend name factory R =
     R\<lparr>factories := (factories R)(name \<mapsto> factory),
       backends := (\<lambda>key. if prefix (name @ '':'') key then None else backends R key)\<rparr>"

definition create_backend :: "'b backend_registry \<Rightarrow> device \<Rightarrow> 'b option" where
  "create_backend R d =
     (if dev_backend d = '''' then None
      else (case factories R (dev_backend d) of None \<Rightarrow> None | Some factory \<Rightarrow> factory d))"

definition backend_key :: "device \<Rightarrow> string" where
  "backend_key d =
     dev_backend d @ '':'' @ string_of_int (dev_id d) @ '':'' @ string_of_nat (device_type_value (dev_type d))"

definition get_backend :: "device \<Rightarrow> 'b backend_registry \<Rightarrow> 'b option \<times> 'b backend_registry" where
  "get_backend d R =
     (if dev_backend d = '''' then (None, R)
      else
        (case backends R (backend_key d) of
           Some b \<Rightarrow> (Some b, R)
         | None \<Rightarrow>
             (case factories R (dev_backend d) of
                None \<Rightarrow> (None, R)
              | Some factory \<Rightarrow>
                  (case factory d of
                     None \<Rightarrow> (None, R)
                   | Some b \<Rightarrow> (Some b, R\<lparr>backends := (backends R)(backend_key d \<mapsto> b)\<rparr>)))))"

definition has_backend :: "'b backend_registry \<Rightarrow> string \<Rightarrow> bool" where
  "has_backend R name \<longleftrightarrow> factories R name \<noteq> None"

section \<open>The device manager\<close>

text \<open>What the manager asks of a backend: the devices it reports, and whether it is available.\<close>

record 'b backend_probe =
  enumerate_devices :: "'b \<Rightarrow> device list"
  is_available :: "'b \<Rightarrow> bool"

record device_manager =
  devices :: "device list"
  manager_initialized :: bool

definition new_device_manager :: device_manager where
  "new_device_manager = \<lparr>devices = [], manager_initialized = False\<rparr>"

definition probe_device :: "string \<Rightarrow> device" where
  "probe_device name =
     \<lparr>dev_id = -1, dev_type = CPU, dev_backend = name, dev_unified = False\<rparr>"

definition usable_devices :: "'b backend_probe \<Rightarrow> 'b backend_registry \<Rightarrow> string \<Rightarrow> device list" where
  "usable_devices V R name =
     (if name = ''cpu'' then []
      else
        (case create_backend R (probe_device name) of
           None \<Rightarrow> []
         | Some probe \<Rightarrow>
             filter (\<lambda>d. case create_backend R d of None \<Rightarrow> False | Some b \<Rightarrow> is_available V b)
               (enumerate_devices V probe)))"

text \<open>The argument \<open>names\<close> is the result of \<open>backend_names\<close>.\<close>

definition initialize_devices ::
  "'b backend_probe \<Rightarrow> 'b backend_registry \<Rightarrow> string list \<Rightarrow> device_manager \<Rightarrow> device_manager" where
  "initialize_devices V R names M =
     (if manager_initialized M then M
      else M\<lparr>devices := Cpu # concat (map (usable_devices V R) names), manager_initialized := True\<rparr>)"

definition default_device :: "device_manager \<Rightarrow> device" where
  "default_device M =
     (if devices M = [] then Cpu
      else (case find is_gpu (devices M) of Some d \<Rightarrow> d | None \<Rightarrow> devices M ! 0))"

definition add_device :: "device \<Rightarrow> device_manager \<Rightarrow> device_manager" where
  "add_device d M = M\<lparr>devices := devices M @ [d]\<rparr>"

text \<open>The loop stops when as many devices as wanted are found; the test comes after the device is
  added, so that one is always taken.\<close>

fun select_loop :: "string \<Rightarrow> int \<Rightarrow> device list \<Rightarrow> device list \<Rightarrow> device list" where
  "select_loop name max_devices found [] = found"
| "select_loop name max_devices found (d # rest) =
     (if is_gpu d \<and> (if name = ''gpu'' then is_gpu d else dev_backend d = name)
      then (if max_devices \<le> int (length found) + 1 then found @ [d]
            else select_loop name max_devices (found @ [d]) rest)
      else select_loop name max_devices found rest)"

definition select_gpu_devices ::
  "'b backend_probe \<Rightarrow> 'b backend_registry \<Rightarrow> string list \<Rightarrow> string \<Rightarrow> int \<Rightarrow> device_manager \<Rightarrow>
   device list \<times> device_manager" where
  "select_gpu_devices V R names name max_devices M =
     (let M' = initialize_devices V R names M in (select_loop name max_devices [] (devices M'), M'))"

section \<open>The kernel registry\<close>

record kernel_key =
  op_name :: string
  key_device_type :: device_type
  key_dtype :: dtype

type_synonym 'k kernel_registry = "kernel_key \<Rightarrow> 'k option"

definition register_kernel ::
  "kernel_key \<Rightarrow> 'k \<Rightarrow> bool \<Rightarrow> 'k kernel_registry \<Rightarrow> bool \<times> 'k kernel_registry" where
  "register_kernel key function overwrite R =
     (if R key \<noteq> None \<and> \<not> overwrite then (False, R) else (True, R(key \<mapsto> function)))"

definition find_kernel :: "'k kernel_registry \<Rightarrow> kernel_key \<Rightarrow> 'k option" where
  "find_kernel R key = R key"

definition has_kernel :: "'k kernel_registry \<Rightarrow> kernel_key \<Rightarrow> bool" where
  "has_kernel R key \<longleftrightarrow> R key \<noteq> None"

definition unregister_kernel :: "kernel_key \<Rightarrow> 'k kernel_registry \<Rightarrow> bool \<times> 'k kernel_registry" where
  "unregister_kernel key R = (R key \<noteq> None, R(key := None))"

definition kernel_count :: "'k kernel_registry \<Rightarrow> nat" where
  "kernel_count R = card (dom R)"

text \<open>What \<open>register_kernels\<close> of the two backends registers: kernels that do nothing, under names that no
  operator asks for. A backend registers once; \<open>noop\<close> is the function that returns an OK status.\<close>

definition register_each :: "'k \<Rightarrow> kernel_key list \<Rightarrow> 'k kernel_registry \<Rightarrow> 'k kernel_registry" where
  "register_each noop keys R = fold (\<lambda>key R. snd (register_kernel key noop False R)) keys R"

definition cpu_register_kernels :: "'k \<Rightarrow> bool \<times> 'k kernel_registry \<Rightarrow> bool \<times> 'k kernel_registry" where
  "cpu_register_kernels noop = (\<lambda>(registered, R).
     (True, if registered then R
            else register_each noop (map (\<lambda>name. \<lparr>op_name = name, key_device_type = CPU, key_dtype = FP32\<rparr>)
              [''noop'', ''relu'', ''silu'', ''gelu'', ''rmsnorm'', ''rope'']) R))"

definition hip_register_kernels :: "'k \<Rightarrow> bool \<times> 'k kernel_registry \<Rightarrow> bool \<times> 'k kernel_registry" where
  "hip_register_kernels noop = (\<lambda>(registered, R).
     (True, if registered then R
            else register_each noop (map (\<lambda>type. \<lparr>op_name = ''noop'', key_device_type = type, key_dtype = FP32\<rparr>)
              [DiscreteGPU, IntegratedGPU]) R))"

lemma register_each_find:
  "find_kernel (register_each noop keys R) key =
     (if find_kernel R key = None \<and> key \<in> set keys then Some noop else find_kernel R key)"
  by (induction keys arbitrary: R) (auto simp: register_each_def find_kernel_def register_kernel_def)

text \<open>\<open>Linear::forward\<close> looks for a kernel named \<open>linear\<close>: neither backend provides one.\<close>

lemma no_linear_kernel:
  "find_kernel (snd (cpu_register_kernels noop (b, R))) \<lparr>op_name = ''linear'', key_device_type = type, key_dtype = d\<rparr> =
     find_kernel R \<lparr>op_name = ''linear'', key_device_type = type, key_dtype = d\<rparr>"
  "find_kernel (snd (hip_register_kernels noop (b, R))) \<lparr>op_name = ''linear'', key_device_type = type, key_dtype = d\<rparr> =
     find_kernel R \<lparr>op_name = ''linear'', key_device_type = type, key_dtype = d\<rparr>"
  by (auto simp: cpu_register_kernels_def hip_register_kernels_def register_each_find)

lemma register_kernels_once:
  "cpu_register_kernels noop (cpu_register_kernels noop x) = cpu_register_kernels noop x"
  "hip_register_kernels noop (hip_register_kernels noop x) = hip_register_kernels noop x"
  by (cases x, simp add: cpu_register_kernels_def hip_register_kernels_def)+

section \<open>The memory planner\<close>

record policy =
  policy_memory :: memory_type
  resident_limit :: u64
  allow_offload :: bool

definition kIgpuTotalBytes :: u64 where "kIgpuTotalBytes = 13 * 1024 * 1024 * 1024"
definition kDgpuTotalBytes :: u64 where "kDgpuTotalBytes = 8 * 1024 * 1024 * 1024"
definition kSafetyHeadroom :: u64 where "kSafetyHeadroom = 512 * 1024 * 1024"

text \<open>The sum of the sizes wraps.\<close>

definition select_policy :: "device \<Rightarrow> u64 \<Rightarrow> u64 \<Rightarrow> policy" where
  "select_policy d model_bytes kv_bytes =
     (if is_cpu d then \<lparr>policy_memory = HostMem, resident_limit = 0, allow_offload = False\<rparr>
      else
        (let total = (if dev_type d = IntegratedGPU then kIgpuTotalBytes else kDgpuTotalBytes);
             required = model_bytes + kv_bytes + kSafetyHeadroom in
         if dev_type d = IntegratedGPU
         then \<lparr>policy_memory = UnifiedMem, resident_limit = total - kSafetyHeadroom,
                allow_offload = \<not> (required \<le> total \<and> dev_unified d)\<rparr>
         else if required \<le> total
         then \<lparr>policy_memory = DeviceMem, resident_limit = total - kSafetyHeadroom, allow_offload = False\<rparr>
         else \<lparr>policy_memory = HostMem, resident_limit = 0, allow_offload = True\<rparr>))"

definition select_memory_type :: "device \<Rightarrow> u64 \<Rightarrow> memory_type" where
  "select_memory_type d model_bytes = policy_memory (select_policy d model_bytes 0)"

section \<open>Laws\<close>

text \<open>The key of the shared backends determines the device up to \<open>operator==\<close>.\<close>

lemma last_separator:
  assumes "c \<notin> set a" "c \<notin> set b"
  shows "x @ c # a = y @ c # b \<longleftrightarrow> x = y \<and> a = b"
proof
  assume eq: "x @ c # a = y @ c # b"
  have "takeWhile (\<lambda>z. z \<noteq> c) (rev (x @ c # a)) = rev a" "takeWhile (\<lambda>z. z \<noteq> c) (rev (y @ c # b)) = rev b"
    using assms by (auto simp: takeWhile_append)
  with eq have "a = b" by simp
  with eq show "x = y \<and> a = b" by simp
qed simp

lemma colon_not_digit: "CHR '':'' \<notin> set (string_of_nat n)"
  using string_of_nat_chars [of "CHR '':''" n] by auto

lemma string_of_int_inj: "string_of_int i = string_of_int j \<longleftrightarrow> i = j"
proof -
  have "CHR ''-'' \<notin> set (string_of_nat n)" for n
    using string_of_nat_chars [of "CHR ''-''" n] by auto
  then have "CHR ''-'' # string_of_nat m \<noteq> string_of_nat n" for m n
    by (metis list.set_intros(1))
  then show ?thesis by (auto simp: string_of_int_def string_of_nat_inj) (metis+)
qed

lemma backend_key_inj: "backend_key d = backend_key e \<longleftrightarrow> device_eq d e"
proof -
  have colon: "CHR '':'' \<notin> set (string_of_int i)" for i
    by (auto simp: string_of_int_def colon_not_digit)
  have key: "backend_key d = (dev_backend d @ CHR '':'' # string_of_int (dev_id d)) @
      CHR '':'' # string_of_nat (device_type_value (dev_type d))" for d
    by (simp add: backend_key_def)
  show ?thesis
    unfolding key last_separator [OF colon_not_digit colon_not_digit] last_separator [OF colon colon]
      string_of_int_inj string_of_nat_inj device_type_value_inj device_eq_def by blast
qed

lemma get_backend_after:
  assumes "get_backend d R = (Some b, R')"
  shows "fst (get_backend e R') = (if device_eq d e then Some b else fst (get_backend e R))"
proof (cases "device_eq d e")
  case True
  then have "backend_key e = backend_key d" "dev_backend e = dev_backend d"
    by (simp_all add: backend_key_inj device_eq_sym) (simp add: device_eq_def)
  with True assms show ?thesis by (auto simp: get_backend_def split: if_splits option.splits)
next
  case False
  then have "backend_key e \<noteq> backend_key d" by (auto simp: backend_key_inj dest: device_eq_sym)
  with False assms show ?thesis by (auto simp: get_backend_def split: if_splits option.splits)
qed

lemma get_backend_registered:
  "dev_backend d \<noteq> '''' \<Longrightarrow> fst (get_backend d (register_backend (dev_backend d) factory R)) = factory d"
  by (auto simp: get_backend_def register_backend_def backend_key_def split: option.splits)

text \<open>The selection takes the first devices that match.\<close>

lemma select_loop_take:
  "select_loop name n found ds =
    found @ take (nat (max 1 (n - int (length found))))
      (filter (\<lambda>d. is_gpu d \<and> (name = ''gpu'' \<or> dev_backend d = name)) ds)"
proof (induction ds arbitrary: found)
  case (Cons d ds)
  show ?case
  proof (cases "n \<le> int (length found) + 1")
    case True
    then have "nat (max 1 (n - int (length found))) = 1" by simp
    then show ?thesis using Cons True by auto
  next
    case False
    then have "nat (max 1 (n - int (length found))) = Suc (nat (max 1 (n - int (length (found @ [d])))))"
      by simp
    with False show ?thesis using Cons [of "found @ [d]"] Cons [of found] by auto
  qed
qed simp

section \<open>What the registry and the selection guarantee\<close>

text \<open>C30. A backend that \<open>get_backend\<close> returns is the one every later call for an equal device returns, and
  no other device's backend changes: the text key of the cache separates the devices exactly.\<close>

theorem get_backend_shared:
  assumes "get_backend d R = (Some b, R')"
  shows "fst (get_backend e R') = (if device_eq d e then Some b else fst (get_backend e R))"
  by (rule get_backend_after [OF assms])

theorem get_backend_shared_witness:
  "fst (get_backend Cpu (snd (get_backend Cpu (register_backend ''cpu'' (\<lambda>d. Some (1 :: nat)) empty_registry)))) = Some 1"
proof -
  have "get_backend Cpu (register_backend ''cpu'' (\<lambda>d. Some (1 :: nat)) empty_registry) =
      (Some 1, snd (get_backend Cpu (register_backend ''cpu'' (\<lambda>d. Some 1) empty_registry)))"
    by (simp add: get_backend_def register_backend_def empty_registry_def Cpu_def)
  from get_backend_shared [OF this, of Cpu] show ?thesis by simp
qed

text \<open>Replacing a backend's factory drops the shared backends of the old one: the next request is
  served by the new factory.\<close>

theorem register_backend_replaces:
  assumes "dev_backend d \<noteq> ''''"
  shows "fst (get_backend d (register_backend (dev_backend d) factory R)) = factory d
    \<and> create_backend (register_backend (dev_backend d) factory R) d = factory d"
  using get_backend_registered [OF assms] assms
  by (simp add: create_backend_def register_backend_def)

theorem register_backend_replaces_witness:
  "fst (get_backend Cpu (register_backend ''cpu'' (\<lambda>d. Some (2 :: nat))
     (snd (get_backend Cpu (register_backend ''cpu'' (\<lambda>d. Some 1) empty_registry))))) = Some 2"
  using register_backend_replaces [of Cpu "\<lambda>d. Some (2 :: nat)"
      "snd (get_backend Cpu (register_backend ''cpu'' (\<lambda>d. Some 1) empty_registry))"]
  by (simp add: Cpu_def)

text \<open>The selection returns the first GPUs of the manager's list that match the name, as many as asked
  for, and at least one when there is one.\<close>

theorem select_gpu_devices_first:
  "fst (select_gpu_devices V R names name max_devices M) =
    take (nat (max 1 max_devices))
      (filter (\<lambda>d. is_gpu d \<and> (name = ''gpu'' \<or> dev_backend d = name))
        (devices (initialize_devices V R names M)))"
  by (simp add: select_gpu_devices_def Let_def select_loop_take)

text \<open>When the planner places a model on a discrete GPU and the sizes do not wrap, model and cache fit
  into the resident limit it reports; a CPU always gets host memory.\<close>

theorem select_policy_resident:
  assumes "unat model_bytes + unat kv_bytes + unat kSafetyHeadroom < 2 ^ 64"
    "policy_memory (select_policy d model_bytes kv_bytes) = DeviceMem"
  shows "unat model_bytes + unat kv_bytes \<le> unat (resident_limit (select_policy d model_bytes kv_bytes))
    \<and> \<not> is_cpu d"
proof -
  from assms(2) have d: "\<not> is_cpu d" "dev_type d \<noteq> IntegratedGPU"
    and le: "model_bytes + kv_bytes + kSafetyHeadroom \<le> kDgpuTotalBytes"
    by (auto simp: select_policy_def Let_def split: if_splits)
  have "unat (model_bytes + kv_bytes + kSafetyHeadroom) = unat model_bytes + unat kv_bytes + unat kSafetyHeadroom"
    using assms(1) by (simp add: unat_word_ariths)
  with le have "unat model_bytes + unat kv_bytes + unat kSafetyHeadroom \<le> unat kDgpuTotalBytes"
    by (simp add: word_le_nat_alt)
  moreover have "unat kDgpuTotalBytes = 8589934592" "unat kSafetyHeadroom = 536870912"
    "unat (kDgpuTotalBytes - kSafetyHeadroom) = 8053063680"
    by (simp_all add: kDgpuTotalBytes_def kSafetyHeadroom_def)
  moreover have "resident_limit (select_policy d model_bytes kv_bytes) = kDgpuTotalBytes - kSafetyHeadroom"
    using d le by (simp add: select_policy_def Let_def)
  ultimately show ?thesis using d by simp
qed

definition discrete_gpu :: device where
  "discrete_gpu = \<lparr>dev_id = 0, dev_type = DiscreteGPU, dev_backend = ''hip'', dev_unified = False\<rparr>"

theorem select_policy_resident_witness:
  "policy_memory (select_policy discrete_gpu 1000 24) = DeviceMem
    \<and> (1024 :: nat) \<le> unat (resident_limit (select_policy discrete_gpu 1000 24))"
proof -
  have m: "policy_memory (select_policy discrete_gpu 1000 24) = DeviceMem"
    by (simp add: select_policy_def discrete_gpu_def is_cpu_def kSafetyHeadroom_def kDgpuTotalBytes_def)
  have "unat (1000 :: u64) + unat (24 :: u64) + unat kSafetyHeadroom < 2 ^ 64"
    by (simp add: kSafetyHeadroom_def)
  from select_policy_resident [OF this m] m show ?thesis by simp
qed


end
