(* ===== verification/Unicode_Utils.thy ===== *)
theory Unicode_Utils
  imports Prelude
begin

text \<open>
  \<open>src/tokenizer/unicode_utils.cc\<close>: UTF-8 decoding and encoding of code points, and the
  character classes the pre-tokenizer asks for. Bytes are \<open>u8\<close>, code points \<open>u32\<close>, and
  every mask and shift is the code's. The decoder is total on arbitrary bytes: what it does on
  an invalid lead byte, a broken continuation and a truncated sequence is written out.
\<close>

section \<open>UTF-8\<close>

definition utf8_sequence_length :: "u8 \<Rightarrow> nat" where
  "utf8_sequence_length c =
     (if c AND 0x80 = 0 then 1
      else if c AND 0xE0 = 0xC0 then 2
      else if c AND 0xF0 = 0xE0 then 3
      else if c AND 0xF8 = 0xF0 then 4
      else 1)"

lemma utf8_sequence_length_bounds:
  "0 < utf8_sequence_length c" "utf8_sequence_length c \<le> 4"
  by (auto simp: utf8_sequence_length_def)

text \<open>The inner loop: at most \<open>n\<close> continuation bytes, fewer where the text ends.\<close>

fun utf8_continue :: "nat \<Rightarrow> u32 \<Rightarrow> u8 list \<Rightarrow> u32" where
  "utf8_continue 0 cp bs = cp"
| "utf8_continue (Suc n) cp [] = cp"
| "utf8_continue (Suc n) cp (b # bs) =
     (if b AND 0xC0 \<noteq> 0x80 then 0
      else utf8_continue n (push_bit 6 cp OR ucast (b AND 0x3F)) bs)"

definition utf8_lead_bits :: "u8 \<Rightarrow> nat \<Rightarrow> u32" where
  "utf8_lead_bits c len = (if len = 1 then ucast c else ucast (c AND drop_bit len 0xFF))"

text \<open>The outer loop; the position \<open>i\<close> is the part of the text not yet read.\<close>

function utf8_to_codepoints :: "u8 list \<Rightarrow> u32 list" where
  "utf8_to_codepoints [] = []"
| "utf8_to_codepoints (c # cs) =
     (let len = utf8_sequence_length c in
      if len = 1 \<and> c AND 0x80 \<noteq> 0 then utf8_to_codepoints cs
      else
        let cp = utf8_continue (len - 1) (utf8_lead_bits c len) cs;
            rest = utf8_to_codepoints (drop len (c # cs))
        in if cp \<noteq> 0 then cp # rest else rest)"
  by pat_completeness auto
termination
  by (relation "measure length") (auto simp: utf8_sequence_length_bounds)

definition codepoint_to_utf8 :: "u32 \<Rightarrow> u8 list" where
  "codepoint_to_utf8 cp =
     (if cp \<le> 0x7F then [ucast cp]
      else if cp \<le> 0x7FF then
        [ucast (0xC0 OR drop_bit 6 cp), ucast (0x80 OR (cp AND 0x3F))]
      else if cp \<le> 0xFFFF then
        [ucast (0xE0 OR drop_bit 12 cp), ucast (0x80 OR (drop_bit 6 cp AND 0x3F)),
         ucast (0x80 OR (cp AND 0x3F))]
      else
        [ucast (0xF0 OR drop_bit 18 cp), ucast (0x80 OR (drop_bit 12 cp AND 0x3F)),
         ucast (0x80 OR (drop_bit 6 cp AND 0x3F)), ucast (0x80 OR (cp AND 0x3F))])"

definition codepoints_to_utf8 :: "u32 list \<Rightarrow> u8 list" where
  "codepoints_to_utf8 cps = concat (map codepoint_to_utf8 cps)"

section \<open>Character classes\<close>

datatype range_kind = RangeLetter | RangeNumber | RangeMark

definition k_ranges :: "(u32 \<times> u32 \<times> range_kind) list" where
  "k_ranges =
     map (\<lambda>(a, b). (a, b, RangeLetter))
       [(0x0041, 0x005A), (0x0061, 0x007A), (0x00C0, 0x00D6), (0x00D8, 0x00F6),
        (0x00F8, 0x00FF), (0x0100, 0x024F), (0x0250, 0x02AF), (0x0370, 0x03FF),
        (0x0400, 0x04FF), (0x0500, 0x052F), (0x0530, 0x058F), (0x0590, 0x05FF),
        (0x0600, 0x06FF)] @
     map (\<lambda>(a, b). (a, b, RangeMark))
       [(0x0300, 0x036F), (0x1AB0, 0x1AFF), (0x1DC0, 0x1DFF)] @
     map (\<lambda>(a, b). (a, b, RangeLetter))
       [(0x0900, 0x097F), (0x0980, 0x09FF), (0x0B80, 0x0BFF), (0x0C00, 0x0C7F),
        (0x0C80, 0x0CFF), (0x0E00, 0x0E7F), (0x0E80, 0x0EFF), (0x0F00, 0x0FFF),
        (0x10A0, 0x10FF), (0x1100, 0x11FF), (0x3400, 0x4DBF), (0x4E00, 0x9FFF),
        (0x20000, 0x2A6DF), (0x2A700, 0x2B73F), (0x2B740, 0x2B81F), (0x2B820, 0x2CEAF),
        (0x2CEB0, 0x2EBEF), (0xF900, 0xFAFF), (0x2F800, 0x2FA1F), (0xAC00, 0xD7AF),
        (0x3040, 0x309F), (0x30A0, 0x30FF), (0x31F0, 0x31FF), (0x3100, 0x312F),
        (0x31A0, 0x31BF), (0xA000, 0xA48F), (0x13A0, 0x13FF), (0x1200, 0x137F)] @
     map (\<lambda>(a, b). (a, b, RangeNumber))
       [(0x0030, 0x0039), (0x0660, 0x0669), (0x06F0, 0x06F9), (0x07C0, 0x07C9),
        (0x0966, 0x096F), (0x09E6, 0x09EF), (0x0B66, 0x0B6F), (0x0BE6, 0x0BEF),
        (0x0C66, 0x0C6F), (0x0CE6, 0x0CEF), (0x0D66, 0x0D6F), (0x0E50, 0x0E59),
        (0x0ED0, 0x0ED9), (0x0F20, 0x0F29), (0xFF10, 0xFF19)]"

lemma k_ranges_count: "length k_ranges = 59"
  by (simp add: k_ranges_def)

definition k_whitespace :: "u32 list" where
  "k_whitespace =
     [0x0009, 0x000A, 0x000B, 0x000C, 0x000D, 0x0020, 0x0085, 0x00A0,
      0x1680, 0x2000, 0x2001, 0x2002, 0x2003, 0x2004, 0x2005, 0x2006,
      0x2007, 0x2008, 0x2009, 0x200A, 0x2028, 0x2029, 0x202F, 0x205F,
      0x3000, 0x180E]"

definition is_in_ranges :: "u32 \<Rightarrow> range_kind \<Rightarrow> bool" where
  "is_in_ranges cp kind \<longleftrightarrow> (\<exists>(a, b, k) \<in> set k_ranges. k = kind \<and> a \<le> cp \<and> cp \<le> b)"

definition is_whitespace_cpt :: "u32 \<Rightarrow> bool" where
  "is_whitespace_cpt cp \<longleftrightarrow> cp \<in> set k_whitespace"

record codepoint_flags_rec =
  is_defined :: bool
  is_letter :: bool
  is_number :: bool
  is_mark :: bool
  is_whitespace :: bool

definition no_flags :: codepoint_flags_rec where
  "no_flags = \<lparr>is_defined = False, is_letter = False, is_number = False, is_mark = False,
     is_whitespace = False\<rparr>"

definition codepoint_flags :: "u32 \<Rightarrow> codepoint_flags_rec" where
  "codepoint_flags cp =
     (let f = no_flags\<lparr>is_defined := cp < 0x110000 \<and> (cp < 0xD800 \<or> 0xDFFF < cp)\<rparr> in
      if is_whitespace_cpt cp then f\<lparr>is_whitespace := True\<rparr>
      else if is_in_ranges cp RangeLetter then f\<lparr>is_letter := True\<rparr>
      else if is_in_ranges cp RangeNumber then f\<lparr>is_number := True\<rparr>
      else if is_in_ranges cp RangeMark then f\<lparr>is_mark := True\<rparr>
      else f)"

section \<open>Encoding and decoding agree\<close>

lemma bit_below:
  fixes w :: "'a :: len word"
  assumes "w < 2 ^ n" and "n < LENGTH('a)" and "bit w i"
  shows "i < n"
proof (rule ccontr)
  assume "\<not> i < n"
  with assms have "take_bit n w = w" by (simp add: less_mask_eq take_bit_eq_mask)
  with assms(3) \<open>\<not> i < n\<close> show False by (metis bit_take_bit_iff)
qed

lemma byte_eqI:
  fixes a b :: u8
  assumes "bit a 0 = bit b 0" "bit a 1 = bit b 1" "bit a 2 = bit b 2" "bit a 3 = bit b 3"
    "bit a 4 = bit b 4" "bit a 5 = bit b 5" "bit a 6 = bit b 6" "bit a 7 = bit b 7"
  shows "a = b"
proof (rule bit_word_eqI)
  fix n assume "n < LENGTH(8)"
  then have "n = 0 \<or> n = 1 \<or> n = 2 \<or> n = 3 \<or> n = 4 \<or> n = 5 \<or> n = 6 \<or> n = 7" by simp linarith
  then show "bit a n = bit b n" using assms by (elim disjE) simp_all
qed

lemma join_six: "push_bit 6 (drop_bit (n + 6) c) OR (drop_bit n c AND 0x3F) = drop_bit n (c::u32)"
proof -
  have m: "(0x3F :: u32) = mask 6" by (simp add: mask_eq_exp_minus_1)
  show ?thesis unfolding m by (rule bit_word_eqI) (auto simp: bit_simps)
qed

lemma marker_low_bits:
  "n < 6 \<Longrightarrow> \<not> bit (0x80 :: int) n" "n < 6 \<Longrightarrow> \<not> bit (0xC0 :: int) n"
  "n < 5 \<Longrightarrow> \<not> bit (0xE0 :: int) n" "n < 4 \<Longrightarrow> \<not> bit (0xF0 :: int) n"
proof -
  have four: "n < 4 \<Longrightarrow> n = 0 \<or> n = 1 \<or> n = 2 \<or> n = 3" by linarith
  have five: "n < 5 \<Longrightarrow> n < 4 \<or> n = 4" by linarith
  have six: "n < 6 \<Longrightarrow> n < 5 \<or> n = 5" by linarith
  show "n < 4 \<Longrightarrow> \<not> bit (0xF0 :: int) n" using four by auto
  show "n < 5 \<Longrightarrow> \<not> bit (0xE0 :: int) n" using four five by auto
  show "n < 6 \<Longrightarrow> \<not> bit (0x80 :: int) n" "n < 6 \<Longrightarrow> \<not> bit (0xC0 :: int) n"
    using four five six by auto
qed

lemma continuation_byte:
  "ucast (0x80 OR (x AND 0x3F) :: u32) AND 0xC0 = (0x80 :: u8)"
  "(ucast (ucast (0x80 OR (x AND 0x3F) :: u32) AND (0x3F :: u8)) :: u32) = x AND 0x3F"
proof -
  show "ucast (0x80 OR (x AND 0x3F) :: u32) AND 0xC0 = (0x80 :: u8)"
    by (rule byte_eqI) (simp_all add: bit_simps)
  have m: "(0x3F :: u32) = mask 6" "(0x3F :: u8) = mask 6" by (simp_all add: mask_eq_exp_minus_1)
  show "(ucast (ucast (0x80 OR (x AND 0x3F) :: u32) AND (0x3F :: u8)) :: u32) = x AND 0x3F"
    unfolding m by (rule bit_word_eqI) (auto simp: bit_simps marker_low_bits)
qed

lemma lead_byte_2:
  assumes "x < 2 ^ 5"
  shows "utf8_sequence_length (ucast (0xC0 OR x :: u32)) = 2"
    "utf8_lead_bits (ucast (0xC0 OR x :: u32)) 2 = x"
proof -
  have b: "i < 5" if "bit x i" for i using that assms by (intro bit_below [of x 5]) auto
  have "bit (ucast (0xC0 OR x :: u32) AND (0x80 :: u8)) 7" by (simp add: bit_simps)
  then have "ucast (0xC0 OR x :: u32) AND (0x80 :: u8) \<noteq> 0" by auto
  moreover have "ucast (0xC0 OR x :: u32) AND (0xE0 :: u8) = 0xC0"
    by (rule byte_eqI) (use b [of 5] in \<open>auto simp: bit_simps\<close>)
  ultimately show "utf8_sequence_length (ucast (0xC0 OR x :: u32)) = 2"
    by (simp add: utf8_sequence_length_def)
  have m: "drop_bit 2 (0xFF :: u8) = mask 6" by (simp add: mask_eq_exp_minus_1)
  have "ucast (ucast (0xC0 OR x :: u32) AND (mask 6 :: u8)) = x"
    by (rule bit_word_eqI) (use b in \<open>force simp: bit_simps marker_low_bits\<close>)
  then show "utf8_lead_bits (ucast (0xC0 OR x :: u32)) 2 = x"
    unfolding utf8_lead_bits_def m by simp
qed

lemma lead_byte_3:
  assumes "x < 2 ^ 4"
  shows "utf8_sequence_length (ucast (0xE0 OR x :: u32)) = 3"
    "utf8_lead_bits (ucast (0xE0 OR x :: u32)) 3 = x"
proof -
  have b: "i < 4" if "bit x i" for i using that assms by (intro bit_below [of x 4]) auto
  have "bit (ucast (0xE0 OR x :: u32) AND (0x80 :: u8)) 7"
    "bit (ucast (0xE0 OR x :: u32) AND (0xE0 :: u8)) 5" by (simp_all add: bit_simps)
  then have "ucast (0xE0 OR x :: u32) AND (0x80 :: u8) \<noteq> 0"
    "ucast (0xE0 OR x :: u32) AND (0xE0 :: u8) \<noteq> 0xC0" by auto
  moreover have "ucast (0xE0 OR x :: u32) AND (0xF0 :: u8) = 0xE0"
    by (rule byte_eqI) (use b [of 4] in \<open>auto simp: bit_simps\<close>)
  ultimately show "utf8_sequence_length (ucast (0xE0 OR x :: u32)) = 3"
    by (simp add: utf8_sequence_length_def)
  have m: "drop_bit 3 (0xFF :: u8) = mask 5" by (simp add: mask_eq_exp_minus_1)
  have "ucast (ucast (0xE0 OR x :: u32) AND (mask 5 :: u8)) = x"
    by (rule bit_word_eqI) (use b in \<open>force simp: bit_simps marker_low_bits\<close>)
  then show "utf8_lead_bits (ucast (0xE0 OR x :: u32)) 3 = x"
    unfolding utf8_lead_bits_def m by simp
qed

lemma lead_byte_4:
  assumes "x < 2 ^ 3"
  shows "utf8_sequence_length (ucast (0xF0 OR x :: u32)) = 4"
    "utf8_lead_bits (ucast (0xF0 OR x :: u32)) 4 = x"
proof -
  have b: "i < 3" if "bit x i" for i using that assms by (intro bit_below [of x 3]) auto
  have "bit (ucast (0xF0 OR x :: u32) AND (0x80 :: u8)) 7"
    "bit (ucast (0xF0 OR x :: u32) AND (0xE0 :: u8)) 5"
    "bit (ucast (0xF0 OR x :: u32) AND (0xF0 :: u8)) 4" by (simp_all add: bit_simps)
  then have "ucast (0xF0 OR x :: u32) AND (0x80 :: u8) \<noteq> 0"
    "ucast (0xF0 OR x :: u32) AND (0xE0 :: u8) \<noteq> 0xC0"
    "ucast (0xF0 OR x :: u32) AND (0xF0 :: u8) \<noteq> 0xE0" by auto
  moreover have "ucast (0xF0 OR x :: u32) AND (0xF8 :: u8) = 0xF0"
    by (rule byte_eqI) (use b [of 3] in \<open>auto simp: bit_simps\<close>)
  ultimately show "utf8_sequence_length (ucast (0xF0 OR x :: u32)) = 4"
    by (simp add: utf8_sequence_length_def)
  have m: "drop_bit 4 (0xFF :: u8) = mask 4" by (simp add: mask_eq_exp_minus_1)
  have "ucast (ucast (0xF0 OR x :: u32) AND (mask 4 :: u8)) = x"
    by (rule bit_word_eqI) (use b in \<open>force simp: bit_simps marker_low_bits\<close>)
  then show "utf8_lead_bits (ucast (0xF0 OR x :: u32)) 4 = x"
    unfolding utf8_lead_bits_def m by simp
qed

lemma lead_byte_1:
  assumes "cp \<le> 0x7F"
  shows "(ucast cp :: u8) AND 0x80 = 0" "(ucast (ucast cp :: u8) :: u32) = cp"
proof -
  have b: "i < 7" if "bit cp i" for i
    using that assms by (intro bit_below [of cp 7]) (auto simp: word_less_def word_le_def)
  show "(ucast cp :: u8) AND 0x80 = 0"
    by (rule byte_eqI) (use b [of 7] in \<open>auto simp: bit_simps\<close>)
  show "(ucast (ucast cp :: u8) :: u32) = cp"
    by (rule bit_word_eqI) (use b in \<open>force simp: bit_simps\<close>)
qed

text \<open>A code point the encoder can write: not NUL, and at most 21 bits.\<close>

definition encodable :: "u32 \<Rightarrow> bool" where
  "encodable cp \<longleftrightarrow> 0 < cp \<and> cp < 0x200000"

lemma unat_exp:
  assumes "n < 32" shows "unat (2 ^ n :: u32) = 2 ^ n"
proof -
  have "(2 :: nat) ^ n < 2 ^ 32" using assms by (intro power_strict_increasing) auto
  then show ?thesis using unat_of_nat [of "2 ^ n", where 'a = 32] by (simp add: take_bit_eq_mod)
qed

lemma utf8_continue_steps:
  "utf8_continue (Suc 0) cp (b # bs) =
     (if b AND 0xC0 \<noteq> 0x80 then 0 else push_bit 6 cp OR ucast (b AND 0x3F))"
  "utf8_continue 2 cp (b # bs) =
     (if b AND 0xC0 \<noteq> 0x80 then 0
      else utf8_continue (Suc 0) (push_bit 6 cp OR ucast (b AND 0x3F)) bs)"
  "utf8_continue 3 cp (b # bs) =
     (if b AND 0xC0 \<noteq> 0x80 then 0
      else utf8_continue 2 (push_bit 6 cp OR ucast (b AND 0x3F)) bs)"
  by (simp_all add: numeral_2_eq_2 numeral_3_eq_3)

lemma drop_bit_less:
  fixes cp :: u32
  assumes "cp < 2 ^ (n + k)" "n + k < 32"
  shows "drop_bit n cp < 2 ^ k"
proof -
  have c: "unat cp < 2 ^ n * 2 ^ k"
    using assms unat_exp [of "n + k"] by (simp add: word_less_nat_alt flip: power_add)
  have "unat (drop_bit n cp) = unat cp div 2 ^ n"
    by (simp only: unat_drop_bit_eq) (simp only: drop_bit_eq_div)
  also have "\<dots> < 2 ^ k" using c by (simp add: less_mult_imp_div_less mult.commute)
  finally show ?thesis using assms by (simp add: word_less_nat_alt unat_exp)
qed

lemma codepoint_to_utf8_length:
  "length (codepoint_to_utf8 cp) =
     (if cp \<le> 0x7F then 1 else if cp \<le> 0x7FF then 2 else if cp \<le> 0xFFFF then 3 else 4)"
  by (simp add: codepoint_to_utf8_def)

lemma utf8_lead_length:
  assumes "encodable cp"
  shows "utf8_sequence_length (hd (codepoint_to_utf8 cp)) = length (codepoint_to_utf8 cp)"
proof -
  consider "cp \<le> 0x7F" | "\<not> cp \<le> 0x7F" "cp < 2 ^ (6 + 5)" | "\<not> cp \<le> 0x7FF" "cp < 2 ^ (12 + 4)"
    | "\<not> cp \<le> 0xFFFF" "cp < 2 ^ (18 + 3)"
    using assms by (fastforce simp: encodable_def word_less_nat_alt word_le_nat_alt)
  then show ?thesis
  proof cases
    case 1 then show ?thesis
      by (simp add: codepoint_to_utf8_def utf8_sequence_length_def lead_byte_1)
  next
    case 2 then show ?thesis
      using lead_byte_2(1) [OF drop_bit_less [of cp 6 5]]
      by (simp add: codepoint_to_utf8_def word_less_nat_alt word_le_nat_alt)
  next
    case 3 then show ?thesis
      using lead_byte_3(1) [OF drop_bit_less [of cp 12 4]]
      by (simp add: codepoint_to_utf8_def word_less_nat_alt word_le_nat_alt)
  next
    case 4 then show ?thesis
      using lead_byte_4(1) [OF drop_bit_less [of cp 18 3]]
      by (simp add: codepoint_to_utf8_def word_less_nat_alt word_le_nat_alt)
  qed
qed

lemma join_six_0: "push_bit 6 (drop_bit 6 c) OR (c AND 0x3F) = (c::u32)"
  "push_bit 6 (drop_bit 12 c) OR (drop_bit 6 c AND 0x3F) = drop_bit 6 (c::u32)"
  "push_bit 6 (drop_bit 18 c) OR (drop_bit 12 c AND 0x3F) = drop_bit 12 (c::u32)"
  using join_six [of 0 c] join_six [of 6 c] join_six [of 12 c] by simp_all

lemma utf8_decode_one:
  assumes "encodable cp"
  shows "utf8_to_codepoints (codepoint_to_utf8 cp @ bs) = cp # utf8_to_codepoints bs"
proof -
  have nz: "cp \<noteq> 0" using assms by (auto simp: encodable_def)
  consider "cp \<le> 0x7F" | "\<not> cp \<le> 0x7F" "cp < 2 ^ (6 + 5)" | "\<not> cp \<le> 0x7FF" "cp < 2 ^ (12 + 4)"
    | "\<not> cp \<le> 0xFFFF" "cp < 2 ^ (18 + 3)"
    using assms by (fastforce simp: encodable_def word_less_nat_alt word_le_nat_alt)
  then show ?thesis
  proof cases
    case 1 then show ?thesis using assms
      by (simp add: codepoint_to_utf8_def utf8_sequence_length_def lead_byte_1 utf8_lead_bits_def nz)
  next
    case 2 then show ?thesis
      using lead_byte_2 [OF drop_bit_less [of cp 6 5]] assms
      by (simp add: codepoint_to_utf8_def word_less_nat_alt word_le_nat_alt
          continuation_byte utf8_continue_steps join_six_0 nz Let_def)
  next
    case 3 then show ?thesis
      using lead_byte_3 [OF drop_bit_less [of cp 12 4]] assms
      by (simp add: codepoint_to_utf8_def word_less_nat_alt word_le_nat_alt
          continuation_byte utf8_continue_steps join_six_0 nz Let_def)
  next
    case 4 then show ?thesis
      using lead_byte_4 [OF drop_bit_less [of cp 18 3]] assms
      by (simp add: codepoint_to_utf8_def word_less_nat_alt word_le_nat_alt
          continuation_byte utf8_continue_steps join_six_0 nz Let_def)
  qed
qed

lemma utf8_decode_encode:
  "\<forall>cp \<in> set cps. encodable cp \<Longrightarrow> utf8_to_codepoints (codepoints_to_utf8 cps @ bs) = cps @ utf8_to_codepoints bs"
  by (induction cps) (simp_all add: codepoints_to_utf8_def utf8_decode_one del: utf8_to_codepoints.simps)

end
