(* ===== verification/Qwen_Tokenizer.thy ===== *)
theory Qwen_Tokenizer
  imports Unicode_Utils Json "HOL-Library.AList"
begin

text \<open>
  \<open>src/tokenizer/qwen_tokenizer.cc\<close>: the byte-level BPE tokenizer. Text is a list of bytes;
  a hash map is the association list of its entries in the order an iteration visits them.
  Loading reads the parsed \<open>tokenizer.json\<close> and \<open>generation_config.json\<close>.
\<close>

type_synonym bytes = "u8 list"

definition string_bytes :: "string \<Rightarrow> bytes" where
  "string_bytes s = map of_char s"

definition bytes_string :: "bytes \<Rightarrow> string" where
  "bytes_string bs = map (\<lambda>b. char_of (unat b)) bs"

section \<open>The state\<close>

record tokenizer =
  tok_vocab :: "(bytes \<times> int) list"
  tok_id_to_token :: "bytes list"
  tok_merges :: "((bytes \<times> bytes) \<times> int) list"
  tok_added :: "(bytes \<times> int) list"
  tok_id_to_added :: "(int \<times> (bytes \<times> bool)) list"
  tok_bytes_to_unicode :: "(u8 \<times> u32) list"
  tok_unicode_to_bytes :: "(u32 \<times> u8) list"
  tok_eos :: "int list"
  tok_pad :: int
  tok_bos :: int

definition empty_tokenizer :: tokenizer where
  "empty_tokenizer = \<lparr>tok_vocab = [], tok_id_to_token = [], tok_merges = [], tok_added = [],
     tok_id_to_added = [], tok_bytes_to_unicode = [], tok_unicode_to_bytes = [],
     tok_eos = [], tok_pad = -1, tok_bos = -1\<rparr>"

definition tok_is_loaded :: "tokenizer \<Rightarrow> bool" where
  "tok_is_loaded T \<longleftrightarrow> tok_vocab T \<noteq> []"

definition is_eos_token :: "tokenizer \<Rightarrow> int \<Rightarrow> bool" where
  "is_eos_token T tid \<longleftrightarrow> tid \<in> set (tok_eos T)"

section \<open>The byte-level alphabet\<close>

text \<open>The printable bytes keep their code; the other 68 are numbered from 256 on.\<close>

definition printable_bytes :: "nat list" where
  "printable_bytes = [0x21..<0x7F] @ [0xA1..<0xAD] @ [0xAE..<0x100]"

definition byte_list :: "nat list" where
  "byte_list = printable_bytes @ filter (\<lambda>b. b \<notin> set printable_bytes) [0..<256]"

definition byte_codepoint :: "nat \<Rightarrow> u32" where
  "byte_codepoint i = (if i < 188 then of_nat (byte_list ! i) else of_nat (256 + (i - 188)))"

definition build_bytes_to_unicode :: "(u8 \<times> u32) list" where
  "build_bytes_to_unicode =
     fold (\<lambda>i m. AList.update (of_nat (byte_list ! i)) (byte_codepoint i) m)
       [0..<length byte_list] []"

definition build_unicode_to_bytes :: "(u8 \<times> u32) list \<Rightarrow> (u32 \<times> u8) list" where
  "build_unicode_to_bytes b2u = fold (\<lambda>(b, cp) m. AList.update cp b m) b2u []"

definition byte_encode :: "tokenizer \<Rightarrow> bytes \<Rightarrow> bytes" where
  "byte_encode T text =
     concat (map (\<lambda>b. case map_of (tok_bytes_to_unicode T) b of
                        None \<Rightarrow> [] | Some cp \<Rightarrow> codepoints_to_utf8 [cp]) text)"

section \<open>Added tokens\<close>

record segment =
  seg_text :: bytes
  seg_special :: bool
  seg_id :: int

text \<open>The longest added token the text goes on with, the empty token if there is none.\<close>

definition added_step :: "bytes \<Rightarrow> bytes \<times> int \<Rightarrow> bytes \<times> int \<Rightarrow> bytes \<times> int" where
  "added_step rest = (\<lambda>(t, tid) best.
     if t = [] then best
     else if take (length t) rest = t \<and> length (fst best) < length t then (t, tid)
     else best)"

definition best_added :: "(bytes \<times> int) list \<Rightarrow> bytes \<Rightarrow> bytes \<times> int" where
  "best_added added rest = fold (added_step rest) added ([], -1)"

lemma best_added_prefix:
  "take (length (fst (best_added added rest))) rest = fst (best_added added rest)"
  unfolding best_added_def
  by (rule fold_invariant [where Q = "\<lambda>_. True"]) (auto simp: added_step_def split: prod.splits)

function split_loop :: "(bytes \<times> int) list \<Rightarrow> bytes \<Rightarrow> segment list \<Rightarrow> segment list" where
  "split_loop added rest segments =
     (if rest = [] then segments
      else
        (case best_added added rest of (best, tid) \<Rightarrow>
           if best \<noteq> [] then
             split_loop added (drop (length best) rest)
               (segments @ [\<lparr>seg_text = best, seg_special = True, seg_id = tid\<rparr>])
           else if segments \<noteq> [] \<and> \<not> seg_special (last segments) then
             split_loop added (tl rest)
               (butlast segments @ [(last segments)\<lparr>seg_text := seg_text (last segments) @ [hd rest]\<rparr>])
           else
             split_loop added (tl rest)
               (segments @ [\<lparr>seg_text = [hd rest], seg_special = False, seg_id = -1\<rparr>])))"
  by pat_completeness auto
termination
  by (relation "measure (\<lambda>(_, rest, _). length rest)") (auto simp: Suc_leI)

declare split_loop.simps [simp del]

definition split_special_tokens :: "tokenizer \<Rightarrow> bytes \<Rightarrow> segment list" where
  "split_special_tokens T text = split_loop (tok_added T) text []"

section \<open>The pre-tokenizer\<close>

definition get_flags :: "u32 list \<Rightarrow> nat \<Rightarrow> codepoint_flags_rec" where
  "get_flags cpts pos = (if pos < length cpts then codepoint_flags (cpts ! pos) else no_flags)"

definition get_cpt :: "u32 list \<Rightarrow> nat \<Rightarrow> u32" where
  "get_cpt cpts pos = (if pos < length cpts then cpts ! pos else 0)"

text \<open>\<open>while (pos < n && P(pos)) ++pos\<close>.\<close>

function scan_while :: "(nat \<Rightarrow> bool) \<Rightarrow> nat \<Rightarrow> nat \<Rightarrow> nat" where
  "scan_while P n pos = (if pos < n \<and> P pos then scan_while P n (Suc pos) else pos)"
  by pat_completeness auto
termination
  by (relation "measure (\<lambda>(_, n, pos). n - pos)") auto

declare scan_while.simps [simp del]

lemma scan_while_ge: "pos \<le> scan_while P n pos"
proof (induction P n pos rule: scan_while.induct)
  case (1 P n pos)
  then show ?case by (subst scan_while.simps) (auto dest: Suc_leD)
qed

lemma scan_while_le: "pos \<le> n \<Longrightarrow> scan_while P n pos \<le> n"
proof (induction P n pos rule: scan_while.induct)
  case (1 P n pos)
  then show ?case by (subst scan_while.simps) auto
qed

definition ascii :: "char \<Rightarrow> u32" where
  "ascii c = of_char c"

definition lower_cpt :: "u32 \<Rightarrow> u32" where
  "lower_cpt c = (if ascii CHR ''A'' \<le> c \<and> c \<le> ascii CHR ''Z''
                  then c - ascii CHR ''A'' + ascii CHR ''a'' else c)"

text \<open>The first branch: the end of an English contraction.\<close>

definition contraction_end :: "u32 list \<Rightarrow> nat \<Rightarrow> nat option" where
  "contraction_end cpts pos =
     (if get_cpt cpts pos = ascii (CHR 0x27) \<and> pos + 1 < length cpts then
        (let cnl = lower_cpt (get_cpt cpts (pos + 1)) in
         if cnl \<in> {ascii CHR ''s'', ascii CHR ''t'', ascii CHR ''m'', ascii CHR ''d''} then Some (pos + 2)
         else if pos + 2 < length cpts then
           (let cnnl = lower_cpt (get_cpt cpts (pos + 2)) in
            if (cnl = ascii CHR ''r'' \<and> cnnl = ascii CHR ''e'') \<or>
               (cnl = ascii CHR ''v'' \<and> cnnl = ascii CHR ''e'') \<or>
               (cnl = ascii CHR ''l'' \<and> cnnl = ascii CHR ''l'')
            then Some (pos + 3) else None)
         else None)
      else None)"

definition is_rn :: "u32 \<Rightarrow> bool" where
  "is_rn c \<longleftrightarrow> c = 0x0D \<or> c = 0x0A"

definition is_word_flag :: "codepoint_flags_rec \<Rightarrow> bool" where
  "is_word_flag f \<longleftrightarrow> is_letter f \<or> is_mark f"

definition is_symbol_flag :: "codepoint_flags_rec \<Rightarrow> bool" where
  "is_symbol_flag f \<longleftrightarrow>
     \<not> is_whitespace f \<and> \<not> is_letter f \<and> \<not> is_mark f \<and> \<not> is_number f \<and> is_defined f"

text \<open>The last carriage return or line feed of a run of white space, plus one; zero when the
  run has none.\<close>

definition last_rn_end :: "u32 list \<Rightarrow> nat \<Rightarrow> nat \<Rightarrow> nat" where
  "last_rn_end cpts pos stop =
     fold (\<lambda>i e. if is_rn (get_cpt cpts i) then Suc i else e) [pos..<stop] 0"

text \<open>The white-space branches and the fallback.\<close>

definition whitespace_end :: "u32 list \<Rightarrow> nat \<Rightarrow> nat" where
  "whitespace_end cpts pos =
     (let n = length cpts;
          stop = scan_while (\<lambda>i. is_whitespace (get_flags cpts i)) n pos;
          rn = last_rn_end cpts pos stop
      in if 0 < rn then rn
         else if 1 < stop - pos \<and> stop < n then stop - 1
         else if 0 < stop - pos then stop
         else pos + 1)"

definition symbol_end :: "u32 list \<Rightarrow> nat \<Rightarrow> nat" where
  "symbol_end cpts pos =
     (let n = length cpts;
          start = (if get_cpt cpts pos = 0x20 then pos + 1 else pos);
          stop = scan_while (\<lambda>i. is_symbol_flag (get_flags cpts i)) n start
      in scan_while (\<lambda>i. is_rn (get_cpt cpts i)) n stop)"

text \<open>One round of the loop: where the piece that starts at \<open>pos\<close> ends.\<close>

definition piece_end :: "u32 list \<Rightarrow> nat \<Rightarrow> nat" where
  "piece_end cpts pos =
     (let n = length cpts; cpt = get_cpt cpts pos; flags = get_flags cpts pos in
      case contraction_end cpts pos of
        Some e \<Rightarrow> e
      | None \<Rightarrow>
          if \<not> is_rn cpt \<and> \<not> is_number flags \<and>
             (is_word_flag flags \<or> is_word_flag (get_flags cpts (pos + 1)))
          then scan_while (\<lambda>i. is_word_flag (get_flags cpts i)) n (pos + 1)
          else if is_number flags then pos + 1
          else if is_symbol_flag (if cpt = 0x20 then get_flags cpts (pos + 1) else flags)
          then symbol_end cpts pos
          else whitespace_end cpts pos)"

text \<open>Every round moves on, and not beyond the end of the text.\<close>

lemma last_rn_end_bounds:
  "pos \<le> stop \<Longrightarrow> 0 < last_rn_end cpts pos stop \<Longrightarrow>
     pos < last_rn_end cpts pos stop \<and> last_rn_end cpts pos stop \<le> stop"
proof (induction stop)
  case (Suc stop)
  show ?case
  proof (cases "pos = Suc stop")
    case True
    then show ?thesis using Suc.prems by (simp add: last_rn_end_def)
  next
    case False
    then have "[pos..<Suc stop] = [pos..<stop] @ [stop]" using Suc.prems by simp
    then have "last_rn_end cpts pos (Suc stop) =
        (if is_rn (get_cpt cpts stop) then Suc stop else last_rn_end cpts pos stop)"
      by (simp add: last_rn_end_def)
    then show ?thesis using Suc False by (auto split: if_splits)
  qed
qed (simp add: last_rn_end_def)

lemma piece_end_bounds:
  assumes "pos < length cpts"
  shows "pos < piece_end cpts pos" "piece_end cpts pos \<le> length cpts"
proof -
  have c: "pos < e \<and> e \<le> length cpts" if "contraction_end cpts pos = Some e" for e
    using that by (auto simp: contraction_end_def Let_def split: if_splits)
  have w: "pos < whitespace_end cpts pos \<and> whitespace_end cpts pos \<le> length cpts"
  proof -
    define stop where "stop = scan_while (\<lambda>i. is_whitespace (get_flags cpts i)) (length cpts) pos"
    have s: "pos \<le> stop" "stop \<le> length cpts"
      using assms scan_while_ge scan_while_le by (auto simp: stop_def less_imp_le)
    show ?thesis
      using last_rn_end_bounds [OF s(1), of cpts] s assms
      by (auto simp: whitespace_end_def Let_def simp flip: stop_def)
  qed
  have start: "(if get_cpt cpts pos = 0x20 then pos + 1 else pos) \<le> length cpts"
    using assms by simp
  have y: "symbol_end cpts pos \<le> length cpts"
    unfolding symbol_end_def Let_def by (intro scan_while_le start)
  have x: "pos < symbol_end cpts pos"
    if f: "is_symbol_flag (if get_cpt cpts pos = 0x20 then get_flags cpts (pos + 1) else get_flags cpts pos)"
  proof (cases "get_cpt cpts pos = 0x20")
    case True
    then show ?thesis
      using scan_while_ge [of "Suc pos" "\<lambda>i. is_symbol_flag (get_flags cpts i)" "length cpts"]
        scan_while_ge [of _ "\<lambda>i. is_rn (get_cpt cpts i)" "length cpts"]
      by (simp add: symbol_end_def Let_def) (meson Suc_le_lessD le_trans)
  next
    case False
    with f have "is_symbol_flag (get_flags cpts pos)" by simp
    then have "scan_while (\<lambda>i. is_symbol_flag (get_flags cpts i)) (length cpts) pos =
        scan_while (\<lambda>i. is_symbol_flag (get_flags cpts i)) (length cpts) (Suc pos)"
      using assms by (subst scan_while.simps) simp
    then show ?thesis
      using False scan_while_ge [of "Suc pos" "\<lambda>i. is_symbol_flag (get_flags cpts i)" "length cpts"]
        scan_while_ge [of _ "\<lambda>i. is_rn (get_cpt cpts i)" "length cpts"]
      by (simp add: symbol_end_def Let_def) (meson Suc_le_lessD le_trans)
  qed
  have l: "pos < scan_while P (length cpts) (Suc pos)" "scan_while P (length cpts) (Suc pos) \<le> length cpts"
    for P
    using scan_while_ge [of "Suc pos" P "length cpts"] scan_while_le [of "Suc pos" "length cpts" P] assms
    by auto
  show "pos < piece_end cpts pos"
    using c w x l by (simp add: piece_end_def Let_def split: option.split)
  show "piece_end cpts pos \<le> length cpts"
    using c w y l assms by (simp add: piece_end_def Let_def split: option.split)
qed

text \<open>The loop: \<open>pos\<close>, \<open>prev\<close> and the pieces found so far.\<close>

function pre_tokenize_loop :: "u32 list \<Rightarrow> nat \<Rightarrow> nat \<Rightarrow> bytes list \<Rightarrow> bytes list" where
  "pre_tokenize_loop cpts pos prev result =
     (if pos < length cpts then
        (let e = piece_end cpts pos in
         if prev < e then
           pre_tokenize_loop cpts e e
             (result @ [codepoints_to_utf8 (take (e - prev) (drop prev cpts))])
         else pre_tokenize_loop cpts e prev result)
      else result)"
  by pat_completeness auto
termination
  by (relation "measure (\<lambda>(cpts, pos, _). length cpts - pos)")
     (auto simp: piece_end_bounds diff_less_mono2)

declare pre_tokenize_loop.simps [simp del]

definition pre_tokenize :: "bytes \<Rightarrow> bytes list" where
  "pre_tokenize text =
     (let cpts = utf8_to_codepoints text in
      if cpts = [] then []
      else
        (let result = pre_tokenize_loop cpts 0 0 [] in
         if result = [] \<and> text \<noteq> [] then [text] else result))"

section \<open>Byte-pair merging\<close>

definition int64_max :: int where
  "int64_max = 9223372036854775807"

definition pair_rank :: "tokenizer \<Rightarrow> bytes list \<Rightarrow> nat \<Rightarrow> int" where
  "pair_rank T ws i =
     (case map_of (tok_merges T) (ws ! i, ws ! (i + 1)) of None \<Rightarrow> int64_max | Some r \<Rightarrow> r)"

text \<open>The first adjacent pair of the least rank; \<open>length ws\<close> if no pair has one.\<close>

definition best_pair :: "tokenizer \<Rightarrow> bytes list \<Rightarrow> nat" where
  "best_pair T ws =
     snd (fold (\<lambda>i (best_rank, best_idx).
                  if pair_rank T ws i < best_rank then (pair_rank T ws i, i)
                  else (best_rank, best_idx))
            [0..<length ws - 1] (int64_max, length ws))"

lemma best_pair_fold:
  "snd (fold (\<lambda>i (best_rank, best_idx).
          if pair_rank T ws i < best_rank then (pair_rank T ws i, i) else (best_rank, best_idx))
     xs (r, k)) \<in> set xs \<union> {k}"
  by (induction xs arbitrary: r k) (auto split: if_splits)

lemma best_pair_bound: "best_pair T ws < length ws \<Longrightarrow> Suc (best_pair T ws) < length ws"
  using best_pair_fold [of T ws "[0..<length ws - 1]" int64_max "length ws"]
  by (auto simp: best_pair_def)

definition merge_at :: "bytes list \<Rightarrow> nat \<Rightarrow> bytes list" where
  "merge_at ws i = take i ws @ [ws ! i @ ws ! (i + 1)] @ drop (i + 2) ws"

lemma merge_at_length: "Suc i < length ws \<Longrightarrow> length (merge_at ws i) = length ws - 1"
  by (simp add: merge_at_def)

function bpe_loop :: "tokenizer \<Rightarrow> bytes list \<Rightarrow> bytes list" where
  "bpe_loop T ws =
     (let i = best_pair T ws in
      if length ws \<le> i then ws else bpe_loop T (merge_at ws i))"
  by pat_completeness auto
termination
proof (relation "measure (\<lambda>(T, ws). length ws)", goal_cases)
  case (2 T ws i)
  then have "Suc i < length ws" using best_pair_bound [of T ws] by simp
  then show ?case by (simp add: merge_at_length)
qed simp

declare bpe_loop.simps [simp del]

definition bpe :: "tokenizer \<Rightarrow> bytes \<Rightarrow> bytes list" where
  "bpe T word =
     (let ws = map (\<lambda>c. codepoints_to_utf8 [c]) (utf8_to_codepoints word) in
      if length ws \<le> 1 then ws else bpe_loop T ws)"

section \<open>Encoding and decoding\<close>

definition token_ids_of :: "tokenizer \<Rightarrow> bytes list \<Rightarrow> int list" where
  "token_ids_of T tokens =
     concat (map (\<lambda>t. case map_of (tok_vocab T) t of None \<Rightarrow> [] | Some i \<Rightarrow> [i]) tokens)"

definition encode_piece :: "tokenizer \<Rightarrow> bytes \<Rightarrow> int list" where
  "encode_piece T piece = token_ids_of T (bpe T (byte_encode T piece))"

definition encode_segment :: "tokenizer \<Rightarrow> segment \<Rightarrow> int list" where
  "encode_segment T s =
     (if seg_special s then [seg_id s]
      else concat (map (encode_piece T) (pre_tokenize (seg_text s))))"

definition encode :: "tokenizer \<Rightarrow> bytes \<Rightarrow> int list" where
  "encode T text = concat (map (encode_segment T) (split_special_tokens T text))"

text \<open>The bytes of a vocabulary token; code points outside the alphabet are skipped.\<close>

definition token_bytes :: "tokenizer \<Rightarrow> bytes \<Rightarrow> bytes" where
  "token_bytes T token =
     concat (map (\<lambda>c. case map_of (tok_unicode_to_bytes T) c of None \<Rightarrow> [] | Some b \<Rightarrow> [b])
               (utf8_to_codepoints token))"

text \<open>The state of the loop is the output and the bytes that wait for \<open>flush_bytes\<close>.\<close>

definition decode_step :: "tokenizer \<Rightarrow> bool \<Rightarrow> int \<Rightarrow> bytes \<times> bytes \<Rightarrow> bytes \<times> bytes" where
  "decode_step T skip tid = (\<lambda>(output, pending).
     case map_of (tok_id_to_added T) tid of
       Some (content, special) \<Rightarrow>
         (output @ pending @ (if \<not> skip \<or> \<not> special then content else []), [])
     | None \<Rightarrow>
         if tid < 0 \<or> int (length (tok_id_to_token T)) \<le> tid then (output, pending)
         else (output, pending @ token_bytes T (tok_id_to_token T ! nat tid)))"

definition decode :: "tokenizer \<Rightarrow> int list \<Rightarrow> bool \<Rightarrow> bytes" where
  "decode T ids skip =
     (case fold (decode_step T skip) ids ([], []) of (output, pending) \<Rightarrow> output @ pending)"

section \<open>The chat template\<close>

definition chat_message :: "bytes \<times> bytes \<Rightarrow> bytes" where
  "chat_message = (\<lambda>(role, content).
     string_bytes ''<|im_start|>'' @ role @ [0x0A] @ content @ string_bytes ''<|im_end|>'' @ [0x0A])"

definition build_chat_prompt :: "(bytes \<times> bytes) list \<Rightarrow> bool \<Rightarrow> bool \<Rightarrow> bytes" where
  "build_chat_prompt messages add_generation_prompt enable_thinking =
     concat (map chat_message messages) @
     (if add_generation_prompt then
        string_bytes ''<|im_start|>assistant'' @ [0x0A] @
        (if enable_thinking then string_bytes ''<think>'' @ [0x0A]
         else string_bytes ''<think>'' @ [0x0A, 0x0A] @ string_bytes ''</think>'' @ [0x0A, 0x0A])
      else [])"

section \<open>Loading\<close>

text \<open>The environment of \<open>load\<close>: what the two files hold, the conversions of JSON numbers,
  the order in which an iteration visits the vocabulary's hash map, and the size beyond which
  a vector of strings cannot grow.\<close>

record ('d, 'f) tokenizer_files =
  tf_numbers :: "('d, 'f) json_numbers"
  tf_tokenizer :: "'d json_file"
  tf_generation :: "'d json_file"
  tf_order :: "(bytes \<times> int) list \<Rightarrow> (bytes \<times> int) list"
  tf_max_tokens :: int

text \<open>The key and value pairs an iterator visits; a value that is not an object has no keys.\<close>

fun keyed_items :: "'d json \<Rightarrow> (string \<times> 'd json) list result" where
  "keyed_items (JObject kvs) = Inr kvs"
| "keyed_items JNull = Inr []"
| "keyed_items (JArray []) = Inr []"
| "keyed_items _ = Inl (Thrown ''json::invalid_iterator'')"

fun indexed_items :: "'d json \<Rightarrow> 'd json list result" where
  "indexed_items (JArray xs) = Inr xs"
| "indexed_items JNull = Inr []"
| "indexed_items (JObject []) = Inr []"
| "indexed_items _ = wrong_type"

definition vocab_entry ::
  "('d, 'f) json_numbers \<Rightarrow> string \<times> 'd json \<Rightarrow> tokenizer \<times> int \<Rightarrow> (tokenizer \<times> int) loaded" where
  "vocab_entry N = (\<lambda>(token, j) (T, max_id).
     loading (get_i64 N j) (T, max_id)
       (\<lambda>i. ((T\<lparr>tok_vocab := AList.update (string_bytes token) i (tok_vocab T)\<rparr>, max max_id i), Inr ())))"

definition store_token :: "bytes \<times> int \<Rightarrow> tokenizer \<Rightarrow> tokenizer loaded" where
  "store_token = (\<lambda>(token, i) T.
     if 0 \<le> i \<and> i < int (length (tok_id_to_token T))
     then (T\<lparr>tok_id_to_token := (tok_id_to_token T)[nat i := token]\<rparr>, Inr ())
     else (T, Inl (Undef ''vector index out of range'')))"

definition load_vocab ::
  "('d, 'f) tokenizer_files \<Rightarrow> 'd json \<Rightarrow> tokenizer \<Rightarrow> tokenizer loaded" where
  "load_vocab E vocab T =
     loading (keyed_items vocab) T (\<lambda>kvs.
       case load_each (vocab_entry (tf_numbers E)) kvs (T, 0) of
         ((T, max_id), Inl e) \<Rightarrow> (T, Inl e)
       | ((T, max_id), Inr _) \<Rightarrow>
           if tf_max_tokens E < max_id + 1 then (T, Inl (Thrown ''std::length_error''))
           else
             load_each store_token (tf_order E (tok_vocab T))
               (T\<lparr>tok_vocab := tf_order E (tok_vocab T),
                  tok_id_to_token := replicate (nat (max_id + 1)) []\<rparr>))"

text \<open>A merge \<open>"a b"\<close>, split at the first space.\<close>

definition merge_entry ::
  "nat \<times> 'd json \<Rightarrow> tokenizer \<Rightarrow> tokenizer loaded" where
  "merge_entry = (\<lambda>(i, j) T.
     loading (get_string j) T (\<lambda>text.
       if CHR '' '' \<notin> set text then (T, Inr ())
       else
         (let first = takeWhile (\<lambda>c. c \<noteq> CHR '' '') text;
              second = drop (length first + 1) text
          in (T\<lparr>tok_merges :=
                 AList.update (string_bytes first, string_bytes second) (int i) (tok_merges T)\<rparr>, Inr ()))))"

definition load_merges :: "'d json \<Rightarrow> tokenizer \<Rightarrow> tokenizer loaded" where
  "load_merges merges T =
     loading (indexed_items merges) T (\<lambda>xs. load_each merge_entry (enumerate 0 xs) T)"

definition added_entry ::
  "('d, 'f) json_numbers \<Rightarrow> 'd json \<Rightarrow> tokenizer \<Rightarrow> tokenizer loaded" where
  "added_entry N j T =
     loading (value_or get_string j ''content'' []) T (\<lambda>content.
     loading (value_or (get_i32 N) j ''id'' (-1)) T (\<lambda>tid.
     loading (value_or get_bool j ''special'' False) T (\<lambda>special.
       if content = [] \<or> tid < 0 then (T, Inr ())
       else
         (T\<lparr>tok_added := AList.update (string_bytes content) tid (tok_added T),
            tok_id_to_added :=
              AList.update tid (string_bytes content, special) (tok_id_to_added T)\<rparr>, Inr ()))))"

definition load_added ::
  "('d, 'f) json_numbers \<Rightarrow> 'd json \<Rightarrow> tokenizer \<Rightarrow> tokenizer loaded" where
  "load_added N root T =
     (case member root ''added_tokens'' of
        Some (JArray xs) \<Rightarrow> load_each (added_entry N) xs T
      | _ \<Rightarrow> (T, Inr ()))"

text \<open>The EOS ids of \<open>generation_config.json\<close>.\<close>

definition eos_entry ::
  "('d, 'f) json_numbers \<Rightarrow> 'd json \<Rightarrow> tokenizer \<Rightarrow> tokenizer loaded" where
  "eos_entry N j T =
     (if \<not> is_number_integer j
      then load_fails InvalidModel ''generation_config.json contains a non-integer EOS id'' T
      else loading (get_i64 N j) T (\<lambda>i. (T\<lparr>tok_eos := tok_eos T @ [i]\<rparr>, Inr ())))"

definition load_eos ::
  "('d, 'f) json_numbers \<Rightarrow> 'd json \<Rightarrow> tokenizer \<Rightarrow> tokenizer loaded" where
  "load_eos N generation T =
     (case member generation ''eos_token_id'' of
        None \<Rightarrow> (T, Inr ())
      | Some eos \<Rightarrow>
          if is_number_integer eos then eos_entry N eos T
          else if is_array eos then load_each (eos_entry N) (elements eos) T
          else load_fails InvalidModel ''generation_config.json has invalid eos_token_id'' T)"

definition load_id ::
  "('d, 'f) json_numbers \<Rightarrow> 'd json \<Rightarrow> string \<Rightarrow> (int \<Rightarrow> tokenizer \<Rightarrow> tokenizer) \<Rightarrow>
   tokenizer \<Rightarrow> tokenizer loaded" where
  "load_id N generation key set_field T =
     (case member generation key of
        None \<Rightarrow> (T, Inr ())
      | Some j \<Rightarrow>
          if is_number_integer j then loading (get_i64 N j) T (\<lambda>i. (set_field i T, Inr ()))
          else (T, Inr ()))"

definition load_generation ::
  "('d, 'f) tokenizer_files \<Rightarrow> tokenizer \<Rightarrow> tokenizer loaded" where
  "load_generation E T =
     (case tf_generation E of
        FileMissing \<Rightarrow> (T, Inr ())
      | FileUnreadable \<Rightarrow> load_fails InvalidModel ''Invalid generation_config.json: '' T
      | FileMalformed what \<Rightarrow> load_fails InvalidModel (''Invalid generation_config.json: '' @ what) T
      | FileJson generation \<Rightarrow>
          and_load (load_eos (tf_numbers E) generation T) (\<lambda>T.
          and_load (load_id (tf_numbers E) generation ''pad_token_id'' (\<lambda>i T. T\<lparr>tok_pad := i\<rparr>) T) (\<lambda>T.
          load_id (tf_numbers E) generation ''bos_token_id'' (\<lambda>i T. T\<lparr>tok_bos := i\<rparr>) T)))"

definition load_bytes :: "tokenizer \<Rightarrow> tokenizer loaded" where
  "load_bytes T =
     (T\<lparr>tok_bytes_to_unicode := build_bytes_to_unicode,
        tok_unicode_to_bytes := build_unicode_to_bytes build_bytes_to_unicode\<rparr>, Inr ())"

definition load_model :: "('d, 'f) tokenizer_files \<Rightarrow> 'd json \<Rightarrow> tokenizer \<Rightarrow> tokenizer loaded" where
  "load_model E root T =
     (case member root ''model'' of
        Some (JObject kvs) \<Rightarrow>
          (let model = JObject kvs in
           loading (value_or get_string model ''type'' []) T (\<lambda>kind.
             if kind \<noteq> ''BPE'' then load_fails InvalidModel ''Only BPE tokenizers are supported'' T
             else
               (case member model ''vocab'' of
                  None \<Rightarrow> (T, Inl (Undef ''operator[] on a missing key''))
                | Some vocab \<Rightarrow>
                    and_load (load_vocab E vocab T) (\<lambda>T.
                      (case member model ''merges'' of
                         None \<Rightarrow> (T, Inl (Undef ''operator[] on a missing key''))
                       | Some merges \<Rightarrow> load_merges merges T)))))
      | _ \<Rightarrow> load_fails InvalidModel ''tokenizer.json missing model section'' T)"

definition load_tokenizer ::
  "('d, 'f) tokenizer_files \<Rightarrow> string \<Rightarrow> tokenizer loaded" where
  "load_tokenizer E model_dir =
     (let T = empty_tokenizer in
      case tf_tokenizer E of
        FileMissing \<Rightarrow> load_fails FileNotFound (''tokenizer.json not found in '' @ model_dir) T
      | FileUnreadable \<Rightarrow> load_fails FileNotFound ''Failed to open tokenizer.json'' T
      | FileMalformed what \<Rightarrow> load_fails InvalidModel (''Invalid tokenizer.json: '' @ what) T
      | FileJson root \<Rightarrow>
          and_load (load_model E root T) (\<lambda>T.
          and_load (load_added (tf_numbers E) root T) (\<lambda>T.
          and_load (load_generation E T) load_bytes)))"

end
