(* ===== verification/Generator_Load.thy ===== *)
theory Generator_Load
  imports Weight_Loader Device_Layer Qwen_Tokenizer Qwen_Layers
begin

text \<open>
  \<open>Generator::Impl::load\<close> (\<open>src/generator.cc\<close>): the choice of the devices, the configuration, the
  weights and the tokenizer, in the order of the code, over the state a generator keeps between
  two calls. An exception leaves \<open>load\<close> where it is thrown. At the end, what \<open>generate\<close> takes
  from that state.
\<close>

section \<open>State and environment\<close>

record ('r, 's, 't, 'f) generator_state =
  gs_impl :: "('r, 's, 't) impl"
  gs_config :: "'f qwen_config"
  gs_devices :: "device list"
  gs_weights :: "'f loaded_weights"
  gs_mtp :: "'f loaded_mtp"
  gs_tokenizer :: tokenizer

text \<open>A tensor that was not loaded is a default \<open>Tensor\<close>, without elements.\<close>

definition default_tensor :: "'f tensor" where
  "default_tensor = mk_tensor [] FP32 Cpu \<lparr>bf_device = Cpu, bf_mem = HostMem, bf_width = 4, bf_data = []\<rparr>"

definition no_weights :: "'f loaded_weights" where
  "no_weights = \<lparr>
     ld_shared = \<lparr>sw_embed_tokens = default_tensor, sw_final_norm = default_tensor, sw_lm_head = default_tensor\<rparr>,
     ld_layers = [], ld_partitions = [], ld_total_bytes = 0\<rparr>"

definition no_mtp :: "'f loaded_mtp" where
  "no_mtp = \<lparr>lm_fc = None, lm_norm = None, lm_pre_fc_norm_embedding = None,
     lm_pre_fc_norm_hidden = None, lm_layers = []\<rparr>"

definition new_generator :: "'f fops \<Rightarrow> generator_options \<Rightarrow> ('r, 's, 't, 'f) generator_state" where
  "new_generator F opts = \<lparr>
     gs_impl = \<lparr>impl_loaded = False, impl_options = opts, attention_caches = [],
                mtp_attention_caches = [], deltanet_caches = []\<rparr>,
     gs_config = default_config F, gs_devices = [], gs_weights = no_weights, gs_mtp = no_mtp,
     gs_tokenizer = empty_tokenizer\<rparr>"

text \<open>The environment: the file system, the conversions of the configuration, the limits of the
  tokenizer's containers and the order of its vocabulary, and the registered backends with the
  order in which the device manager meets their names.\<close>

record ('d, 'f) load_env =
  le_store :: "('d, 'f) store_env"
  le_config :: "('d, 'f) config_env"
  le_order :: "(bytes \<times> int) list \<Rightarrow> (bytes \<times> int) list"
  le_max_tokens :: int
  le_probe :: "'f backend backend_probe"
  le_registry :: "'f backend backend_registry"
  le_names :: "string list"

definition tokenizer_files_of :: "('d, 'f) load_env \<Rightarrow> string \<Rightarrow> ('d, 'f) tokenizer_files" where
  "tokenizer_files_of V dir = \<lparr>
     tf_numbers = se_numbers (le_store V),
     tf_tokenizer = json_file_of (le_store V) (se_join (le_store V) dir ''tokenizer.json''),
     tf_generation = json_file_of (le_store V) (se_join (le_store V) dir ''generation_config.json''),
     tf_order = le_order V, tf_max_tokens = le_max_tokens V\<rparr>"

text \<open>A failed step gives a status with a code of the interface; an exception passes through.\<close>

datatype load_error = LoadStatus api_status | LoadAborted failure

fun load_error_of :: "api_status_code \<Rightarrow> failure \<Rightarrow> load_error" where
  "load_error_of c (Failed s) = LoadStatus (ApiStatus c (st_message s))"
| "load_error_of c f = LoadAborted f"

definition load_refused :: "api_status_code \<Rightarrow> string \<Rightarrow> load_error + 'a" where
  "load_refused c m = Inl (LoadStatus (ApiStatus c m))"

section \<open>load\<close>

definition resize_dn :: "nat \<Rightarrow> ('s, 't) dn_cache list \<Rightarrow> ('s, 't) dn_cache list" where
  "resize_dn n cs = take n cs @ replicate (n - length cs) dn_empty"

definition finish_load ::
  "('r, 's, 't, 'f) generator_state \<Rightarrow> ('r, 's, 't, 'f) generator_state" where
  "finish_load G =
     (let n = nat (num_hidden_layers (gs_config G)); I = gs_impl G in
      G\<lparr>gs_impl := I\<lparr>attention_caches := resize_caches n (attention_caches I),
          mtp_attention_caches :=
            resize_caches (nat (mtp_num_hidden_layers (gs_config G))) (mtp_attention_caches I),
          deltanet_caches := resize_dn n (deltanet_caches I), impl_loaded := True\<rparr>\<rparr>)"

definition load_generator_tokenizer ::
  "('d, 'f) load_env \<Rightarrow> string \<Rightarrow> ('r, 's, 't, 'f) generator_state \<Rightarrow>
   ('r, 's, 't, 'f) generator_state \<times> (load_error + unit)" where
  "load_generator_tokenizer V dir G =
     (case load_tokenizer (tokenizer_files_of V dir) dir of
        (T, Inl e) \<Rightarrow> (G\<lparr>gs_tokenizer := T\<rparr>, Inl (load_error_of ApiInvalidModel e))
      | (T, Inr _) \<Rightarrow> (finish_load (G\<lparr>gs_tokenizer := T\<rparr>), Inr ()))"

text \<open>A reload replaces \<open>weights_\<close> with everything in it, the MTP weights included.\<close>

definition load_generator_weights ::
  "('d, 'f) load_env \<Rightarrow> string \<Rightarrow> 'f weight_loader \<Rightarrow> ('r, 's, 't, 'f) generator_state \<Rightarrow>
   ('r, 's, 't, 'f) generator_state \<times> (load_error + unit)" where
  "load_generator_weights V dir L G =
     (let reg = create_backend (le_registry V); E = le_store V in
      case loader_load_distributed E reg L (gs_devices G) of
        Inl e \<Rightarrow> (G, Inl (load_error_of ApiUnknown e))
      | Inr W \<Rightarrow>
          (let G = G\<lparr>gs_weights := W, gs_mtp := no_mtp\<rparr> in
           if enable_mtp (impl_options (gs_impl G)) then
             (case with_store L (\<lambda>S. load_mtp E reg (wl_config L) S (last (gs_devices G))) of
                Inl e \<Rightarrow> (G, Inl (load_error_of ApiInvalidModel e))
              | Inr M \<Rightarrow> load_generator_tokenizer V dir (G\<lparr>gs_mtp := M\<rparr>))
           else load_generator_tokenizer V dir G))"

definition closed_loader :: "'f fops \<Rightarrow> 'f weight_loader" where
  "closed_loader F = \<lparr>wl_store = None, wl_config = default_config F, wl_vision = False\<rparr>"

definition load_generator_model ::
  "('d, 'f) load_env \<Rightarrow> 'f fops \<Rightarrow> string \<Rightarrow> ('r, 's, 't, 'f) generator_state \<Rightarrow>
   ('r, 's, 't, 'f) generator_state \<times> (load_error + unit)" where
  "load_generator_model V F dir G =
     (let E = le_store V; path = se_join E dir ''config.json'' in
      case load_config (le_config V) (json_file_of E path) path (gs_config G) of
        (C, Inl e) \<Rightarrow> (G\<lparr>gs_config := C\<rparr>, Inl (load_error_of ApiInvalidModel e))
      | (C, Inr _) \<Rightarrow>
          (case open_loader E dir C False (closed_loader F) of
             (L, Inl e) \<Rightarrow> (G\<lparr>gs_config := C\<rparr>, Inl (load_error_of ApiInvalidModel e))
           | (L, Inr _) \<Rightarrow> load_generator_weights V dir L (G\<lparr>gs_config := C\<rparr>)))"

text \<open>The devices: those of the requested backend, or the CPU for the backend of that name.\<close>

definition clamp_devices :: "generator_options \<Rightarrow> generator_options" where
  "clamp_devices opts = (if max_devices opts \<le> 0 then opts\<lparr>max_devices := 1\<rparr> else opts)"

definition choose_devices ::
  "('d, 'f) load_env \<Rightarrow> generator_options \<Rightarrow> device_manager \<Rightarrow> device list \<times> device_manager" where
  "choose_devices V opts M =
     (case select_gpu_devices (le_probe V) (le_registry V) (le_names V) (backend_name opts)
             (max_devices opts) (initialize_devices (le_probe V) (le_registry V) (le_names V) M) of
        (ds, M') \<Rightarrow> (if ds = [] \<and> backend_name opts = ''cpu'' then [Cpu] else ds, M'))"

definition load_model_into ::
  "('d, 'f) load_env \<Rightarrow> 'f fops \<Rightarrow> device_manager \<Rightarrow> ('r, 's, 't, 'f) generator_state \<Rightarrow>
   device_manager \<times> ('r, 's, 't, 'f) generator_state \<times> (load_error + unit)" where
  "load_model_into V F M G =
     (let dir = model_dir (impl_options (gs_impl G)) in
      if dir = [] then (M, G, load_refused ApiInvalidArgument ''model_dir is empty'')
      else if \<not> se_is_directory (le_store V) dir
      then (M, G, load_refused ApiFileNotFound (''model directory does not exist: '' @ dir))
      else
        (let opts = clamp_devices (impl_options (gs_impl G)) in
         case choose_devices V opts M of
           (ds, M') \<Rightarrow>
             (let G = G\<lparr>gs_impl := (gs_impl G)\<lparr>impl_options := opts\<rparr>, gs_devices := ds\<rparr> in
              if ds = []
              then (M', G, load_refused ApiInvalidDevice (''no device is available for backend: '' @ backend_name opts))
              else (M', load_generator_model V F dir G))))"

section \<open>What generate takes from the state\<close>

text \<open>The operators read the values of a quantized weight.\<close>

definition tensor_or_default :: "'f tensor option \<Rightarrow> 'f tensor" where
  "tensor_or_default t = (case t of None \<Rightarrow> default_tensor | Some t \<Rightarrow> t)"

definition layer_weights_of :: "'f loaded_layer \<Rightarrow> 'f layer_weights" where
  "layer_weights_of L = (let v = (\<lambda>q. tensor_or_default (qw_values q)) in \<lparr>
     lw_is_attention = ll_is_attention L,
     lw_input_layernorm = tensor_or_default (ll_input_layernorm L),
     lw_post_attention_layernorm = tensor_or_default (ll_post_attention_layernorm L),
     lw_linear_attn_norm = tensor_or_default (ll_linear_attn_norm L),
     lw_q_norm = ll_q_norm L, lw_k_norm = ll_k_norm L,
     lw_a_log = tensor_or_default (ll_a_log L),
     lw_conv1d_weight = tensor_or_default (ll_conv1d_weight L),
     lw_dt_bias = tensor_or_default (ll_dt_bias L),
     lw_in_proj_a = tensor_or_default (ll_in_proj_a L),
     lw_in_proj_b = tensor_or_default (ll_in_proj_b L),
     lw_in_proj_qkv = v (ll_in_proj_qkv L), lw_in_proj_z = v (ll_in_proj_z L),
     lw_linear_out_proj = v (ll_linear_out_proj L),
     lw_q_proj = v (ll_q_proj L), lw_k_proj = v (ll_k_proj L), lw_v_proj = v (ll_v_proj L),
     lw_o_proj = v (ll_o_proj L), lw_mlp_gate_proj = v (ll_mlp_gate_proj L),
     lw_mlp_up_proj = v (ll_mlp_up_proj L), lw_mlp_down_proj = v (ll_mlp_down_proj L)\<rparr>)"

definition mtp_weights_of :: "'f loaded_mtp \<Rightarrow> 'f mtp_weights" where
  "mtp_weights_of M = \<lparr>
     mw_fc = tensor_or_default (lm_fc M), mw_norm = tensor_or_default (lm_norm M),
     mw_pre_fc_norm_embedding = tensor_or_default (lm_pre_fc_norm_embedding M),
     mw_pre_fc_norm_hidden = tensor_or_default (lm_pre_fc_norm_hidden M),
     mw_layers = map layer_weights_of (lm_layers M)\<rparr>"

definition engine_weights_of :: "'f loaded_weights \<Rightarrow> 'f loaded_mtp \<Rightarrow> 'f distributed_weights" where
  "engine_weights_of W M = \<lparr>
     dw_embed_tokens = sw_embed_tokens (ld_shared W), dw_final_norm = sw_final_norm (ld_shared W),
     dw_lm_head = sw_lm_head (ld_shared W), dw_mtp = mtp_weights_of M,
     dw_layers = map (\<lambda>(L, dev). (layer_weights_of L, dev)) (ld_layers W)\<rparr>"

definition codec_of :: "'f qwen_config \<Rightarrow> tokenizer \<Rightarrow> text_codec" where
  "codec_of C T = \<lparr>
     tk_chat_prompt = (\<lambda>prompt thinking.
        bytes_string (build_chat_prompt [(string_bytes ''user'', string_bytes prompt)] True thinking)),
     tk_encode = (\<lambda>s. encode T (string_bytes s)),
     tk_decode = (\<lambda>ids skip. bytes_string (decode T ids skip)),
     tk_eos_ids = tok_eos T, cfg_eos_ids = eos_token_ids C,
     cfg_max_positions = max_position_embeddings C\<rparr>"

text \<open>\<open>generate\<close> on the state: the caches of a request hold the prompt and the new tokens. \<open>reg\<close>
  gives the shared backend of a device.\<close>

definition generate_from ::
  "'f fops \<Rightarrow> 'f backends \<Rightarrow> bool \<times> bool \<Rightarrow> nat \<Rightarrow> bool \<Rightarrow> generation_options \<Rightarrow>
   ('f tensor, 'f tensor, 'f tensor, 'f) generator_state \<Rightarrow>
   (generation_result \<times> ('f tensor, 'f tensor, 'f tensor) impl) api_result" where
  "generate_from F reg flags width result_given opts G =
     (let T = codec_of (gs_config G) (gs_tokenizer G);
          prompt = (if use_chat_template opts then tk_chat_prompt T (prompt_text opts) (enable_thinking opts)
                    else prompt_text opts);
          max_cache_len = int (length (tk_encode T prompt)) + max_new_tokens opts;
          final = last (gs_devices G);
          E = qwen_engine F reg (gs_config G) (engine_weights_of (gs_weights G) (gs_mtp G))
                (hd (gs_devices G)) final max_cache_len
      in generate E T (reg final \<noteq> None) flags width result_given opts (gs_impl G))"

end
