(* ===== verification/Small_Model.thy ===== *)
theory Small_Model
  imports Reference_Machine Argmax_Laws Generator_Load
begin

text \<open>
  A model small enough to evaluate in the kernel: one DeltaNet layer, one gated attention
  layer and one MTP layer of width 2 over four tokens, in integer arithmetic on the reference
  machine. It meets the assumptions of \<open>qwen_machine\<close>, and its operators are evaluated one by
  one, so that a generation can be followed from the prompt to the text.
\<close>

section \<open>A small model\<close>

definition gpu0 :: device where
  "gpu0 = \<lparr>dev_id = 0, dev_type = DiscreteGPU, dev_backend = ''hip'', dev_unified = False\<rparr>"

definition small_config :: "int qwen_config" where
  "small_config = \<lparr>
     hidden_size = 2, num_hidden_layers = 2, num_attention_heads = 1, num_key_value_heads = 1,
     head_dim = 2, rope_head_dim = 2, intermediate_size = 2, vocab_size = 4,
     max_position_embeddings = 16, rope_theta = 10, rms_norm_eps = 1,
     linear_num_key_heads = 1, linear_num_value_heads = 1, linear_key_head_dim = 1,
     linear_value_head_dim = 1, linear_conv_kernel_dim = 2,
     layer_types = [LinearAttention, FullAttention], full_attention_interval = 2,
     attn_output_gate = True, output_gate_type = ''swish'', mamba_ssm_dtype = ''float32'',
     use_cache = True, bos_token_id = 0, eos_token_ids = [3], pad_token_id = 0,
     tie_word_embeddings = False, mtp_num_hidden_layers = 1, mtp_use_dedicated_embeddings = False\<rparr>"

definition weight :: "nat \<Rightarrow> nat \<Rightarrow> int list \<Rightarrow> int tensor" where
  "weight n k xs = mat gpu0 k n xs"

definition weight_vector :: "nat \<Rightarrow> int list \<Rightarrow> int tensor" where
  "weight_vector n xs = mk_tensor [int n] BF16 gpu0 (gpu_buffer gpu0 2 xs)"

text \<open>A layer has the weights of its kind; the others are default tensors, as the loader leaves them.\<close>

definition small_layer :: "bool \<Rightarrow> int layer_weights" where
  "small_layer attention =
     (let other = \<lparr>
        lw_is_attention = attention,
        lw_input_layernorm = weight_vector 2 [0, 0], lw_post_attention_layernorm = weight_vector 2 [0, 1],
        lw_linear_attn_norm = default_tensor, lw_q_norm = None, lw_k_norm = None,
        lw_a_log = default_tensor, lw_conv1d_weight = default_tensor, lw_dt_bias = default_tensor,
        lw_in_proj_a = default_tensor, lw_in_proj_b = default_tensor, lw_in_proj_qkv = default_tensor,
        lw_in_proj_z = default_tensor, lw_linear_out_proj = default_tensor,
        lw_q_proj = default_tensor, lw_k_proj = default_tensor, lw_v_proj = default_tensor,
        lw_o_proj = default_tensor,
        lw_mlp_gate_proj = weight 2 2 [1, 0, 0, 1], lw_mlp_up_proj = weight 2 2 [1, 1, 1, 0],
        lw_mlp_down_proj = weight 2 2 [0, 1, 1, 0]\<rparr>
      in if attention then other\<lparr>
           lw_q_norm := Some (weight_vector 2 [0, 0]), lw_k_norm := Some (weight_vector 2 [0, 0]),
           lw_q_proj := weight 4 2 [1, 0, 0, 1, 1, 1, 0, 1], lw_k_proj := weight 2 2 [0, 1, 1, 0],
           lw_v_proj := weight 2 2 [1, 1, 0, 1], lw_o_proj := weight 2 2 [1, 0, 1, 1]\<rparr>
         else other\<lparr>
           lw_linear_attn_norm := weight_vector 1 [1], lw_a_log := weight_vector 1 [0],
           lw_conv1d_weight := weight 3 2 [1, 1, 1, 0, 1, 1], lw_dt_bias := weight_vector 1 [0],
           lw_in_proj_a := weight 1 2 [1, 0], lw_in_proj_b := weight 1 2 [0, 1],
           lw_in_proj_qkv := weight 3 2 [1, 0, 0, 1, 1, 1], lw_in_proj_z := weight 1 2 [1, 1],
           lw_linear_out_proj := weight 2 1 [1, - 1]\<rparr>)"

definition small_weights :: "int distributed_weights" where
  "small_weights = \<lparr>
     dw_embed_tokens = weight 4 2 [1, 0, 0, 1, 1, 1, 2, 1],
     dw_final_norm = weight_vector 2 [0, 0],
     dw_lm_head = weight 4 2 [1, 2, 0, 3, 2, 0, - 1, 1],
     dw_mtp = \<lparr>mw_fc = weight 2 4 [1, 0, 0, 0, 0, 1, 0, 0], mw_norm = weight_vector 2 [0, 0],
               mw_pre_fc_norm_embedding = weight_vector 2 [0, 0],
               mw_pre_fc_norm_hidden = weight_vector 2 [0, 0], mw_layers = [small_layer True]\<rparr>,
     dw_layers = [(small_layer False, gpu0), (small_layer True, gpu0)]\<rparr>"

definition small_engine :: "(int list, int tensor, int tensor, int tensor, int list, int) engine" where
  "small_engine = qwen_engine int_fops (reference_backends int_fops 0) small_config small_weights gpu0 gpu0 2"

definition small_codec :: text_codec where
  "small_codec = \<lparr>tk_chat_prompt = (\<lambda>s _. s), tk_encode = map (\<lambda>c. of_char c mod 4),
     tk_decode = (\<lambda>ids _. map (\<lambda>i. char_of (nat i + 48)) ids), tk_eos_ids = [3], cfg_eos_ids = [3],
     cfg_max_positions = 16\<rparr>"

definition small_impl :: "bool \<Rightarrow> (int tensor, int tensor, int tensor) impl" where
  "small_impl mtp = \<lparr>impl_loaded = True,
     impl_options = \<lparr>model_dir = ''m'', backend_name = ''hip'', max_devices = 1, enable_mtp = mtp\<rparr>,
     attention_caches = [kv_empty, kv_empty], mtp_attention_caches = [kv_empty],
     deltanet_caches = [dn_empty, dn_empty]\<rparr>"

definition small_options :: "bool \<Rightarrow> nat \<Rightarrow> generation_options" where
  "small_options speculative n = \<lparr>prompt_text = ''1'', max_new_tokens = int n, use_chat_template = False,
     enable_thinking = False, enable_speculative_mtp = speculative\<rparr>"

section \<open>Evaluation\<close>

abbreviation small_backends :: "int backends" where
  "small_backends \<equiv> reference_backends int_fops 0"

lemma gpu0_simps [simp]: "is_gpu gpu0" "\<not> is_cpu gpu0"
  by (simp_all add: gpu0_def is_gpu_def is_cpu_def)

lemma small_backend [simp]: "small_backends gpu0 = Some (hip_backend (reference_env int_fops 0 gpu0))"
  by (simp add: reference_backends_def)

lemma reference_env_simps [simp]:
  "he_device (reference_env F j d) = d" "he_fops (reference_env F j d) = F"
  "he_warp (reference_env F j d) = 64" "he_select (reference_env F j d)"
  "he_launch (reference_env F j d) name" "he_memcpy (reference_env F j d)" "he_sync (reference_env F j d)"
  "he_create (reference_env F j d) n m" "he_rocblas_handle (reference_env F j d)"
  "he_rocblas (reference_env F j d) = reference_gemm F" "he_junk (reference_env F j d) = j"
  by (simp_all add: reference_env_def)

lemma int_fops_simps [simp]:
  "f_int int_fops = (\<lambda>x. x)" "f_lit int_fops = (div)" "f_add int_fops = (+)" "f_sub int_fops = (-)"
  "f_mul int_fops = (*)" "f_div int_fops = (div)" "f_neg int_fops = uminus" "f_abs int_fops = abs"
  "f_max int_fops = max" "f_exp int_fops = (\<lambda>x. if x < 0 then 0 else 1)" "f_log1p int_fops = (\<lambda>x. x)"
  "f_rsqrt int_fops = (\<lambda>_. 1)" "f_sin int_fops = (\<lambda>_. 0)" "f_cos int_fops = (\<lambda>_. 1)"
  "f_pow int_fops = (\<lambda>_ _. 1)" "f_gt int_fops = (>)" "f_neg_inf int_fops = - 1000000"
  "f_store int_fops = (\<lambda>_ x. x)"
  by (simp_all add: int_fops_def)

lemma block_sum_int: "block_sum int_fops kBlockSize n g = acc_sum int_fops n g"
  by (simp only: int_exact.block_sum_total int_exact.acc_sum_total)

lemma upt_numeral: "[a..<numeral n] = (if a < numeral n then a # [Suc a..<numeral n] else [])"
  by (rule upt_rec)

lemma upt_one: "[0..<Suc 0] = [0]"
  by simp

text \<open>The definitions the operators unfold to.\<close>

lemmas frame_evals = ndim_def dim_def numel_def leading_rows_def Let_def compute_strides_def mk_tensor_def t_numel_def t_nbytes_def
  t_mem_def t_data_def bf_size_def write_prefix_def create_buffer_def from_result_def select_device_def
  launch_frame_def validate_kernel_buffer_def hip_status_def float_kernel_dtype_def acc_sum_def acc_max_def block_sum_int
  upt_numeral upt_one mat_def weight_def weight_vector_def reshape_def

lemmas linear_evals = linear_forward_def linear_validate_def linear_output_shape_def linear_forward_into_def
  hip_gemm_def rocblas_dtype_def reference_gemm_def naive_product_eq product_entry_def

lemmas row_evals = frame_evals linear_evals qwen_rmsnorm_reference_def rmsnorm_forward_def rmsnorm_validate_def
  hip_rmsnorm_def rmsnorm_kernel_def rmsnorm_row_def make_residual_def hip_add_def add_kernel_def
  qwen_mlp_reference_def hip_silu_mul_def silu_mul_kernel_def f_silu_def to_device_def
  lookup_embedding_def hip_memcpy_h2d_def hip_embedding_gather_def embedding_gather_kernel_def

lemmas attention_evals = frame_evals linear_evals qwen_attention_reference_def attention_forward_def attention_args_of_def
  attention_validate_def attention_prepare_def project_qkv_def split_gate_def rotate_heads_def attend_cached_def
  has_gate_def fused_norms_def prepare_cache_def set_cache_data_def attended_def gate_check_def
  hip_q_gate_rmsnorm_rope_def q_gate_rmsnorm_rope_kernel_def fused_head_def rope_value_def Hip_Kernels.rope_theta_def
  rmsnorm_forward_def rmsnorm_validate_def hip_rmsnorm_def rmsnorm_kernel_def rmsnorm_row_def
  rope_partial_def hip_partial_rope_def partial_rope_kernel_def
  hip_cached_gqa_with_current_token_def cached_gqa_current_token_kernel_def append_kv_cache_kernel_def
  gqa_select_def gqa_head_def gated_store_def f_sigmoid_def

lemmas deltanet_evals = frame_evals linear_evals qwen_deltanet_reference_def grouped_causal_conv_def state_tensor_def
  hip_memset_def hip_deltanet_grouped_conv_def deltanet_grouped_conv_kernel_def conv_token_def conv_output_def
  conv_shift_def rows_of_def f_silu_def deltanet_recurrent_def recurrent_ok_def hip_deltanet_recurrent_def
  deltanet_recurrent_kernel_def recurrent_token_def recurrent_head_def head_decay_def f_sigmoid_def token_rows_of_def

text \<open>An operator on one row.\<close>

lemma on_rows_one:
  "f (mat gpu0 2 1 r) = Some (mat gpu0 n 1 r') \<Longrightarrow> length r = 2 \<Longrightarrow> length r' = n \<Longrightarrow> on_rows gpu0 2 f [r] = Some [r']"
  by (simp add: on_rows_def rows_tensor_def rows_of_def)

lemma on_rows2_one:
  "f (mat gpu0 2 1 r) (mat gpu0 2 1 q) = Some (mat gpu0 n 1 r') \<Longrightarrow> length r = 2 \<Longrightarrow> length q = 2 \<Longrightarrow>
   length r' = n \<Longrightarrow> on_rows2 gpu0 2 f [r] [q] = Some [r']"
  by (simp add: on_rows2_def rows_tensor_def rows_of_def)

lemma on_rows_state_one:
  "f (mat gpu0 2 1 r) c = (Some (mat gpu0 n 1 r'), c') \<Longrightarrow> length r = 2 \<Longrightarrow> length r' = n \<Longrightarrow>
   on_rows_state gpu0 2 f [r] c = (Some [r'], c')"
  by (simp add: on_rows_state_def rows_tensor_def rows_of_def)

section \<open>The first token\<close>

abbreviation layer_0 where
  "layer_0 \<equiv> qwen_layer_ops int_fops small_backends small_config 2 2 gpu0 (small_layer False) gpu0"

abbreviation layer_1 where
  "layer_1 \<equiv> qwen_layer_ops int_fops small_backends small_config 2 2 gpu0 (small_layer True) gpu0"

definition dn_after :: "(int tensor, int tensor) dn_cache" where
  "dn_after = \<lparr>dn_conv = Some (mk_tensor [3, 1] BF16 gpu0 (gpu_buffer gpu0 2 [0, 1, 1])),
     dn_recurrent = Some (mk_tensor [1, 1, 1] FP32 gpu0 (gpu_buffer gpu0 4 [0])), dn_length = 1\<rparr>"

definition kv_after :: "int tensor kv_cache" where
  "kv_after = \<lparr>kv_key = Some (mk_tensor [2, 1, 2] BF16 gpu0 (gpu_buffer gpu0 2 [1, 0, 0, 0])),
     kv_value = Some (mk_tensor [2, 1, 2] BF16 gpu0 (gpu_buffer gpu0 2 [1, 1, 0, 0])),
     kv_length = 1, kv_capacity = 2\<rparr>"

lemma small_layer_simps [simp]:
  "is_attention_layer layer_0 = False" "is_attention_layer layer_1 = True"
  by (simp_all add: qwen_layer_ops_def small_layer_def)

lemma small_moves [simp]: "length r = 2 \<Longrightarrow> move_to layer_0 [r] = Some [r]" "length r = 2 \<Longrightarrow> move_to layer_1 [r] = Some [r]"
  by (simp_all add: qwen_layer_ops_def on_rows_one to_device_def)

lemma layer_0_first:
  "input_norm layer_0 [[0, 1]] = Some [[0, 1]]"
  "deltanet_mixer layer_0 [[0, 1]] dn_empty = (Some [[0, 0]], dn_after)"
  "residual layer_0 [[0, 1]] [[0, 0]] = Some [[0, 1]]"
  "post_norm layer_0 [[0, 1]] = Some [[0, 2]]"
  "mlp layer_0 [[0, 2]] = Some [[0, 0]]"
proof -
  show "deltanet_mixer layer_0 [[0, 1]] dn_empty = (Some [[0, 0]], dn_after)"
    unfolding qwen_layer_ops_def layer_ops.simps
    by (rule on_rows_state_one)
       (simp_all add: deltanet_evals small_layer_def small_config_def dn_empty_def dn_after_def)
qed (simp_all add: qwen_layer_ops_def small_layer_def small_config_def on_rows_one on_rows2_one row_evals)

text \<open>The attention of the first row, step by step.\<close>

abbreviation small_args where
  "small_args \<equiv> attention_args_of small_config (small_layer True) 2"

abbreviation heads_row where
  "heads_row xs \<equiv> mk_tensor [1, 1, 2] BF16 gpu0 (gpu_buffer gpu0 2 xs)"

lemma attention_validate:
  "attention_validate (mat gpu0 2 1 [0, 1]) small_args = Inr ()"
  by (simp add: attention_evals small_layer_def small_config_def kv_empty_def kv_after_def)

lemma attention_project:
  "project_qkv int_fops small_backends (mat gpu0 2 1 [0, 1]) small_args =
     Some (mat gpu0 4 1 [0, 1, 1, 1], mat gpu0 2 1 [1, 0], mat gpu0 2 1 [1, 1])"
  by (simp add: attention_evals small_layer_def small_config_def kv_empty_def kv_after_def)

lemma attention_gate:
  "split_gate int_fops (hip_backend (reference_env int_fops 0 gpu0)) (mat gpu0 2 1 [0, 1]) small_args 1 0
     (mat gpu0 4 1 [0, 1, 1, 1]) = Some (mat gpu0 2 1 [0, 1], Some (mat gpu0 2 1 [1, 1]))"
  by (simp add: attention_evals small_layer_def small_config_def kv_empty_def kv_after_def)

lemma attention_rotate:
  "rotate_heads int_fops small_backends (hip_backend (reference_env int_fops 0 gpu0)) (mat gpu0 2 1 [0, 1])
     small_args 1 0 (mat gpu0 2 1 [0, 1]) (mat gpu0 2 1 [1, 0]) = Some (heads_row [0, 1], heads_row [1, 0])"
  by (simp add: attention_evals small_layer_def small_config_def kv_empty_def kv_after_def)

lemma attention_attend:
  "attend_cached (hip_backend (reference_env int_fops 0 gpu0)) (mat gpu0 2 1 [0, 1]) small_args 1 (heads_row [0, 1])
     (heads_row [1, 0]) (mat gpu0 2 1 [1, 1]) (Some (mat gpu0 2 1 [1, 1])) (gpu_buffer gpu0 2 [0, 0]) kv_empty =
     (Some (mat gpu0 2 1 [1, 1]), kv_after)"
proof -
  have kernel: "cached_gqa_current_token_kernel int_fops 64 BF16 [0, 1] (replicate 4 0) (replicate 4 0) [1, 0] [1, 1]
      (Some [1, 1]) (Suc 0) (Suc 0) (Suc 0) 2 = ([1, 1], [1, 0, 0, 0], [1, 1, 0, 0])"
    by (simp add: cached_gqa_current_token_kernel_def gqa_select_def gqa_head_def Let_def acc_sum_def acc_max_def
        upt_numeral append_kv_cache_kernel_def gated_store_def f_sigmoid_def)
  show ?thesis
    by (simp add: attend_cached_def prepare_cache_def set_cache_data_def attended_def attention_args_of_def
        hip_cached_gqa_with_current_token_def kernel frame_evals gate_check_def small_config_def kv_empty_def kv_after_def)
qed

lemma attention_output:
  "linear_forward int_fops small_backends (mat gpu0 2 1 [1, 1]) (aa_wo small_args) True None = Some (mat gpu0 2 1 [1, 2])"
  by (simp add: attention_evals small_layer_def small_config_def kv_empty_def kv_after_def)

lemmas attention_steps = attention_validate attention_project attention_gate attention_rotate attention_attend attention_output

lemma attention_first:
  "attention_forward int_fops small_backends (mat gpu0 2 1 [0, 1]) small_args (Some kv_empty) =
     (Some (mat gpu0 2 1 [1, 2]), Some kv_after)"
proof -
  have sizes: "leading_rows [1, 2] = 1" "kv_length kv_empty = 0" "aa_max_seq_len small_args = 2"
    "aa_num_q_heads small_args = 1" "aa_head_dim small_args = 2"
    by (simp_all add: leading_rows_def kv_empty_def attention_args_of_def small_config_def)
  have buffer: "create_buffer (hip_backend (reference_env int_fops 0 gpu0)) 2 BF16 DeviceMem = Some (gpu_buffer gpu0 2 [0, 0])"
    by (simp add: create_buffer_def numeral_2_eq_2)
  show ?thesis
    by (simp add: attention_forward_def attention_prepare_def attention_steps sizes buffer del: One_nat_def)
qed

lemma small_mixer: "lw_is_attention (small_layer a) = a"
  by (simp add: small_layer_def Let_def)

lemma layer_1_first:
  "input_norm layer_1 [[0, 1]] = Some [[0, 1]]"
  "attention_mixer layer_1 [[0, 1]] kv_empty = (Some [[1, 2]], kv_after)"
  "residual layer_1 [[0, 1]] [[1, 2]] = Some [[1, 3]]"
  "post_norm layer_1 [[1, 3]] = Some [[1, 6]]"
  "mlp layer_1 [[1, 6]] = Some [[6, 7]]"
  "residual layer_1 [[1, 3]] [[6, 7]] = Some [[7, 10]]"
proof -
  show "attention_mixer layer_1 [[0, 1]] kv_empty = (Some [[1, 2]], kv_after)"
    unfolding qwen_layer_ops_def layer_ops.simps
    by (rule on_rows_state_one) (simp_all add: qwen_attention_reference_def attention_first small_mixer del: One_nat_def flip: numeral_2_eq_2)
qed (simp_all add: qwen_layer_ops_def small_layer_def small_config_def on_rows_one on_rows2_one row_evals)

lemma final_first:
  "eng_embed small_engine [1] = Inr [[0, 1]]"
  "eng_to_final small_engine [[7, 10]] = Some [[7, 10]]"
  "eng_final_norm small_engine [[7, 10]] = Some [[7, 10]]"
  "eng_lm_head small_engine [[7, 10]] = Some [[27, 30, 14, 3]]"
  by (simp_all add: small_engine_def qwen_engine_def small_weights_def small_config_def on_rows_one row_evals rows_of_def
      last_device_def)

lemma small_layers: "eng_layers small_engine = [layer_0, layer_1]"
  by (simp add: small_engine_def qwen_engine_def small_weights_def row_evals)

lemma row_argmax_first: "row_argmax int_fops 4 (\<lambda>c. [27, 30, 14, 3] ! c) = 1"
proof -
  have "row_argmax int_fops 4 (\<lambda>c. [27, 30, 14, 3] ! c) = int 1"
    by (rule row_argmax_unique) (auto simp: weak_order_def less_Suc_eq numeral_eq_Suc)
  then show ?thesis by simp
qed

lemma argmax_first: "argmax_last_row_reference small_engine [[27, 30, 14, 3]] = Some 1"
proof -
  have "device_argmax_last small_backends gpu0 4 [[27, 30, 14, 3]] = (True, 1)"
    by (simp add: device_argmax_last_def rows_tensor_def mat_simps hip_argmax_last_row_def launch_frame_def
        validate_kernel_buffer_def select_device_def hip_status_def float_kernel_dtype_def bf_size_def
        argmax_last_row_kernel_def row_argmax_first create_buffer_def hip_memcpy_d2h_def hip_synchronize_def)
  then show ?thesis
    by (simp add: argmax_last_row_reference_def small_engine_def qwen_engine_def small_weights_def weight_def Let_def)
qed

section \<open>The machine\<close>

interpretation small: qwen_machine int_fops small_backends "reference_env int_fops 0" small_config small_weights gpu0 gpu0
proof (rule qwen_machine.intro)
  show "hip_machine int_fops small_backends (reference_env int_fops 0)" ..
  show "qwen_machine_axioms int_fops (reference_env int_fops 0) small_config small_weights gpu0 gpu0"
    by unfold_locales
       (auto simp: small_weights_def small_layer_def weight_def out_width_def small_config_def int_exact.adds_to_zero
         int_hip.delta_exact_def decode_agrees_def delta_sizes_def)
qed

lemma small_run:
  "\<exists>r I. generate small_engine small_codec True (False, False) 2 True (small_options False 1) (small_impl False) = Inr (r, I) \<and>
     token_ids r = [1]"
  by (simp add: generate_def check_request_def small_options_def small_impl_def small_codec_def Let_def generate_ids_def
      reset_impl_def plain_step_def plain_forward_def mtp_probe_def layer_mix_def layer_tail_def score_probe_def
      finish_result_def small_layers layer_0_first layer_1_first final_first argmax_first)

text \<open>The speculative path for one token: the MTP head reads the prompt row as well.\<close>

lemma on_rows_four:
  "f (mat gpu0 4 1 r) = Some (mat gpu0 n 1 r') \<Longrightarrow> length r = 4 \<Longrightarrow> length r' = n \<Longrightarrow> on_rows gpu0 4 f [r] = Some [r']"
  by (simp add: on_rows_def rows_tensor_def rows_of_def)

lemma on_rows2_wide:
  "f (mat gpu0 2 1 r) (mat gpu0 2 1 q) = Some (mat gpu0 4 1 r') \<Longrightarrow> length r = 2 \<Longrightarrow> length q = 2 \<Longrightarrow>
   length r' = 4 \<Longrightarrow> on_rows2 gpu0 2 f [r] [q] = Some [r']"
  by (rule on_rows2_one)

lemma row_copy_first:
  "row_copy small_backends (mat gpu0 2 1 [7, 10]) 0 gpu0 = Some (mat gpu0 2 1 [7, 10])"
  by (simp add: row_copy_def frame_evals hip_copy_to_offset_def)

lemma concat_first:
  "concat_mtp_inputs small_backends (mat gpu0 2 1 [0, 1]) (mat gpu0 2 1 [7, 10]) gpu0 = Some (mat gpu0 4 1 [0, 1, 7, 10])"
  by (simp add: concat_mtp_inputs_def frame_evals hip_copy_to_offset_def)

lemma fc_first:
  "linear_forward int_fops small_backends (mat gpu0 4 1 [0, 1, 7, 10]) (mw_fc (dw_mtp small_weights)) True None =
     Some (mat gpu0 2 1 [0, 1])"
  by (simp add: row_evals small_weights_def)

lemma mtp_first:
  "eng_embed_to_final small_engine [[0, 1]] = Some [[0, 1]]"
  "eng_row_copy small_engine [[7, 10]] 0 = Some [7, 10]"
  "eng_mtp_norm_embedding small_engine [[0, 1]] = Some [[0, 1]]"
  "eng_mtp_norm_hidden small_engine [[7, 10]] = Some [[7, 10]]"
  "eng_mtp_concat small_engine [[0, 1]] [[7, 10]] = Some [[0, 1, 7, 10]]"
  "eng_mtp_fc small_engine [[0, 1, 7, 10]] = Some [[0, 1]]"
  "eng_mtp_norm small_engine [[7, 10]] = Some [[7, 10]]"
proof -
  have width: "nat (t_shape (dw_embed_tokens small_weights) ! 1) = 2"
    by (simp add: small_weights_def weight_def)
  have row: "rows_tensor gpu0 2 [[7, 10]] = Some (mat gpu0 2 1 [7, 10])"
    by (simp add: rows_tensor_def)
  show "eng_row_copy small_engine [[7, 10]] 0 = Some [7, 10]"
    by (simp add: small_engine_def qwen_engine_def Let_def width row row_copy_first del: One_nat_def)
  show "eng_mtp_concat small_engine [[0, 1]] [[7, 10]] = Some [[0, 1, 7, 10]]"
    by (simp add: small_engine_def qwen_engine_def Let_def width on_rows2_wide concat_first del: One_nat_def)
  show "eng_mtp_fc small_engine [[0, 1, 7, 10]] = Some [[0, 1]]"
    by (simp add: small_engine_def qwen_engine_def Let_def width on_rows_four fc_first del: One_nat_def)
qed (simp_all add: small_engine_def qwen_engine_def small_weights_def small_config_def on_rows_one row_evals)

lemma small_mtp_layers: "eng_mtp_layers small_engine = [layer_1]"
  by (simp add: small_engine_def qwen_engine_def small_weights_def row_evals)

lemma small_mtp_run:
  "qwen_mtp_forward_reference small_engine [[0, 1]] [[7, 10]] [] = (Some [[7, 10]], [kv_after])"
  by (simp add: qwen_mtp_forward_reference_def mtp_first small_mtp_layers resize_caches_def run_mtp_layer_def layer_1_first
      layer_mix_def layer_tail_def)

text \<open>It runs for every request for one token whose prompt is the token 1.\<close>

lemma small_spec_run_for:
  assumes "tk_encode T (prompt_text opts) = [1]" "prompt_text opts \<noteq> []" "\<not> use_chat_template opts"
    "2 \<le> cfg_max_positions T" "max_new_tokens opts = 1" "enable_speculative_mtp opts"
  shows "\<exists>r I. generate small_engine T True (False, False) 2 True opts (small_impl True) = Inr (r, I) \<and> token_ids r = [1]"
  using assms
  by (simp add: generate_def check_request_def small_impl_def Let_def generate_ids_def
      reset_impl_def speculative_decode_def spec_prefill_def target_forward_def run_layer_def spec_loop.simps spec_round_def
      produced_def append_token_def layer_mix_def layer_tail_def zero_counters_def swap_attention_caches_def
      finish_result_def small_layers small_mtp_layers layer_0_first layer_1_first final_first argmax_first mtp_first
      small_mtp_run)

lemma small_spec_run:
  "\<exists>r I. generate small_engine small_codec True (False, False) 2 True (small_options True 1) (small_impl True) = Inr (r, I) \<and>
     token_ids r = [1]"
  by (rule small_spec_run_for) (simp_all add: small_options_def small_codec_def)

end
