(* ===== verification/Speculation_Counts.thy ===== *)
theory Speculation_Counts
  imports Generator
begin

text \<open>
  The bookkeeping of the speculative loop, whatever the engine computes: a round that succeeds
  adds at least one token and never more than are asked for, and the counters of the result
  balance.
\<close>

definition counts_ok :: "request \<Rightarrow> ('h, 'r, 's, 't) spec_state \<Rightarrow> bool" where
  "counts_ok q st \<longleftrightarrow>
     (let c = counters st in
      rq_prompt_count q \<le> length (generated st) \<and> proposed c = accepted c + rejected c \<and>
      0 \<le> accepted c \<and> 0 \<le> rejected c \<and> 0 \<le> corrections c \<and> corrections c \<le> rounds c \<and>
      decode_count c = int (produced q st))"

lemma propose_lengths:
  "propose E q n t h sc = Inr (cs, ks, sc') \<Longrightarrow> length cs \<le> n \<and> length ks = length cs"
proof (induction E q n t h sc arbitrary: cs ks sc' rule: propose.induct)
  case (2 E q n input hidden scratch)
  then show ?case by (fastforce split: sum.splits option.splits prod.splits if_splits)
qed simp

lemma recover_mtp_counters:
  "recover_mtp E a t n h l ks st = Inr st' \<Longrightarrow>
     generated st' = generated st \<and>
     counters st' = (counters st)\<lparr>recovery_tokens := recovery_tokens (counters st) + 1\<rparr>"
  by (auto simp: recover_mtp_def Let_def split: if_splits option.splits sum.splits prod.splits)

lemma commit_full_counters:
  "counters (commit_full E cs ps h v k st) =
     (counters st)\<lparr>decode_count := decode_count (counters st) + 1 + int (length cs),
       accepted := accepted (counters st) + int (length cs)\<rparr>"
  by (simp add: commit_full_def Let_def)

lemma reject_suffix_counters:
  assumes "reject_suffix E q cs ps a ks st = Inr (st', stop)" "a < length cs"
    "rq_prompt_count q \<le> length (generated st)" "produced q st + Suc a \<le> rq_max_new q"
  shows "accepted (counters st') = accepted (counters st) + int a
    \<and> rejected (counters st') = rejected (counters st) + int (length cs - a)
    \<and> proposed (counters st') = proposed (counters st)
    \<and> corrections (counters st') = corrections (counters st) + 1 \<and> rounds (counters st') = rounds (counters st)
    \<and> decode_count (counters st') - int (length (generated st')) = decode_count (counters st) - int (length (generated st))
    \<and> length (generated st) < length (generated st') \<and> produced q st' \<le> rq_max_new q"
  using assms
  by (auto simp: reject_suffix_def Let_def produced_def dest!: recover_mtp_counters
      split: if_splits option.splits sum.splits prod.splits)

lemma spec_round_counts:
  assumes r: "spec_round E profile q st = Inr (st', stop)" and ok: "counts_ok q st"
    and room: "produced q st < rq_max_new q"
  shows "counts_ok q st' \<and> produced q st < produced q st' \<and> produced q st' \<le> rq_max_new q"
  using r
proof (cases rule: spec_round_cases)
  case final
  with ok room show ?thesis by (auto simp: counts_ok_def Let_def produced_def)
next
  case (settle sc cs ks sc' v st1)
  have len: "length cs < rq_max_new q - produced q st"
    using propose_lengths [OF settle(4)] room settle(2) by auto
  obtain ps h va vd where "v = (ps, h, va, vd)" by (cases v)
  with settle(7) have "settle_round E q cs (sc # ks) sc' (ps, h, va, vd) st1 = Inr (st', stop)" by simp
  then show ?thesis
  proof (cases rule: settle_round_cases)
    case commit
    from ok len settle(5) show ?thesis
      by (auto simp: commit(2) commit_full_generated commit_full_counters counts_ok_def count_proposal_def Let_def produced_def)
  next
    case (reject s0)
    have "rq_prompt_count q \<le> length (generated st1)" "produced q st1 + Suc (match_length ps cs) \<le> rq_max_new q"
      using ok len reject(1) settle(5) by (auto simp: counts_ok_def Let_def produced_def)
    from reject_suffix_counters [OF reject(2,1) this] ok settle(5) reject(1) show ?thesis
      by (auto simp: counts_ok_def count_proposal_def Let_def produced_def)
  qed
qed

lemma spec_loop_counts:
  assumes "spec_loop E profile q st = Inr st'" "counts_ok q st" "produced q st \<le> rq_max_new q"
  shows "counts_ok q st' \<and> produced q st' \<le> rq_max_new q"
  using assms
proof (induction E profile q st rule: spec_loop.induct)
  case (1 E profile q st)
  show ?case
  proof (cases "produced q st < rq_max_new q")
    case False
    with 1(2-4) show ?thesis by (simp add: spec_loop.simps [of E profile q st])
  next
    case True
    with 1(2) obtain st1 stop where r: "spec_round E profile q st = Inr (st1, stop)"
      and after: "if stop then st' = st1 else spec_loop E profile q st1 = Inr st'"
      by (auto simp: spec_loop.simps [of E profile q st] split: sum.splits if_splits)
    from spec_round_counts [OF r 1(3) True] have ok: "counts_ok q st1" "produced q st1 \<le> rq_max_new q" by auto
    with after 1(1) [OF True r] show ?thesis by (auto split: if_splits)
  qed
qed

lemma spec_prefill_counts:
  "spec_prefill E ids I = Inr st \<Longrightarrow> generated st = ids \<and> counters st = zero_counters"
  by (auto simp: spec_prefill_def split: option.splits prod.splits sum.splits)

section \<open>Where generation stops\<close>

text \<open>Tokens appended to a sequence: at least one, an end-of-sequence id at most at the end.\<close>

definition adds_tokens :: "request \<Rightarrow> int list \<Rightarrow> int list \<Rightarrow> int list \<Rightarrow> bool" where
  "adds_tokens q gen gen' ts \<longleftrightarrow> gen' = gen @ ts \<and> ts \<noteq> [] \<and> (\<forall>t \<in> set (butlast ts). \<not> is_eos q t)"

lemma adds_tokens_trans:
  "adds_tokens q g g' ts \<Longrightarrow> adds_tokens q g' g'' us \<Longrightarrow> \<not> is_eos q (last ts) \<Longrightarrow> adds_tokens q g g'' (ts @ us)"
  by (auto simp: adds_tokens_def butlast_append in_set_butlast_appendI)
    (metis append_butlast_last_id in_set_conv_decomp insert_iff list.set(2) rotate1.simps(2) set_rotate1)

lemma propose_ends:
  "propose E q n t h sc = Inr (cs, ks, sc') \<Longrightarrow> \<forall>c \<in> set (butlast cs). \<not> is_eos q c"
proof (induction E q n t h sc arbitrary: cs ks sc' rule: propose.induct)
  case (2 E q n input hidden scratch)
  then show ?case by (fastforce split: sum.splits option.splits prod.splits if_splits)
qed simp

lemma reject_suffix_tokens:
  assumes "reject_suffix E q cs ps a ks st = Inr (st', stop)" "a < length cs"
    "rq_prompt_count q \<le> length (generated st)" "produced q st + Suc a < rq_max_new q"
  shows "generated st' = generated st @ next_target st # take a cs @ [ps ! a]
    \<and> (stop \<longleftrightarrow> rq_max_new q \<le> produced q st' \<or> is_eos q (ps ! a))"
  using assms
  by (auto simp: reject_suffix_def Let_def produced_def dest!: recover_mtp_counters
      split: if_splits option.splits sum.splits prod.splits)

lemma spec_round_tokens:
  assumes r: "spec_round E profile q st = Inr (st', stop)" and pc: "rq_prompt_count q \<le> length (generated st)"
    and room: "produced q st < rq_max_new q"
  shows "\<exists>ts. adds_tokens q (generated st) (generated st') ts \<and> produced q st + length ts \<le> rq_max_new q
    \<and> (stop \<longleftrightarrow> rq_max_new q \<le> produced q st + length ts \<or> is_eos q (last ts))"
  using r
proof (cases rule: spec_round_cases)
  case final
  with pc room show ?thesis
    by (intro exI [of _ "[next_target st]"]) (auto simp: adds_tokens_def produced_def)
next
  case (settle sc cs ks sc' v st1)
  have len: "length cs < rq_max_new q - produced q st" and eos: "\<forall>c \<in> set (butlast cs). \<not> is_eos q c"
    using propose_lengths [OF settle(4)] propose_ends [OF settle(4)] room settle(2) by auto
  have st1: "generated st1 = generated st" "next_target st1 = next_target st" using settle(5) by simp_all
  obtain ps h va vd where "v = (ps, h, va, vd)" by (cases v)
  with settle(7) have "settle_round E q cs (sc # ks) sc' (ps, h, va, vd) st1 = Inr (st', stop)" by simp
  then show ?thesis
  proof (cases rule: settle_round_cases)
    case commit
    then have "generated st' = generated st @ next_target st # cs" by (simp add: commit_full_generated st1)
    with commit(3) pc len eos settle(1) show ?thesis
      by (intro exI [of _ "next_target st # cs"]) (auto simp: adds_tokens_def produced_def)
  next
    case (reject s0)
    let ?a = "match_length ps cs" and ?ts = "next_target st # take (match_length ps cs) cs @ [ps ! match_length ps cs]"
    have "rq_prompt_count q \<le> length (generated st1)" "produced q st1 + Suc ?a < rq_max_new q"
      using pc len reject(1) by (auto simp: st1 produced_def)
    note tokens = reject_suffix_tokens [OF reject(2,1) this]
    have "take ?a cs = take ?a (butlast cs)" using reject(1) by (simp add: take_butlast)
    then have "\<forall>t \<in> set (butlast ?ts). \<not> is_eos q t"
      using eos settle(1) by (auto simp: butlast_append dest: in_set_takeD)
    with tokens reject(1,3) pc len show ?thesis
      by (intro exI [of _ ?ts]) (auto simp: adds_tokens_def produced_def st1)
  qed
qed

definition ends_right :: "request \<Rightarrow> nat \<Rightarrow> int list \<Rightarrow> bool" where
  "ends_right q room ts \<longleftrightarrow> length ts \<le> room \<and> (length ts < room \<longrightarrow> is_eos q (last ts))"

lemma spec_loop_tokens:
  assumes "spec_loop E profile q st = Inr st'" "rq_prompt_count q \<le> length (generated st)" "produced q st < rq_max_new q"
  shows "\<exists>ts. adds_tokens q (generated st) (generated st') ts \<and> ends_right q (rq_max_new q - produced q st) ts"
  using assms
proof (induction E profile q st rule: spec_loop.induct)
  case (1 E profile q st)
  from 1(2,4) obtain st1 stop where r: "spec_round E profile q st = Inr (st1, stop)"
    and after: "if stop then st' = st1 else spec_loop E profile q st1 = Inr st'"
    by (auto simp: spec_loop.simps [of E profile q st] split: sum.splits if_splits)
  from spec_round_tokens [OF r 1(3,4)] obtain ts where ts: "adds_tokens q (generated st) (generated st1) ts"
    "produced q st + length ts \<le> rq_max_new q"
    "stop \<longleftrightarrow> rq_max_new q \<le> produced q st + length ts \<or> is_eos q (last ts)" by blast
  have g: "produced q st1 = produced q st + length ts" "rq_prompt_count q \<le> length (generated st1)"
    using ts(1) 1(3) by (auto simp: adds_tokens_def produced_def)
  show ?case
  proof (cases stop)
    case True
    with after ts show ?thesis by (intro exI [of _ ts]) (auto simp: ends_right_def)
  next
    case False
    with ts(2,3) g have "produced q st1 < rq_max_new q" "\<not> is_eos q (last ts)" by auto
    with 1(1) [OF 1(4) r] False after g obtain us where us: "adds_tokens q (generated st1) (generated st') us"
      "ends_right q (rq_max_new q - produced q st1) us" by auto
    then have "us \<noteq> []" by (simp add: adds_tokens_def)
    with adds_tokens_trans [OF ts(1) us(1)] us(2) g(1) \<open>\<not> is_eos q (last ts)\<close> ts(2) show ?thesis
      by (intro exI [of _ "ts @ us"]) (auto simp: ends_right_def)
  qed
qed

lemma plain_step_tokens:
  "plain_step E profile speculative use_mtp q step st = Inr (st', stop) \<Longrightarrow>
     \<exists>t. pl_generated st' = pl_generated st @ [t] \<and> (stop \<longleftrightarrow> is_eos q t)"
  by (auto simp: plain_step_def Let_def split: option.splits sum.splits prod.splits if_splits)

lemma plain_loop_tokens:
  "plain_loop E profile speculative use_mtp q n step st = Inr st' \<Longrightarrow> 0 < n \<Longrightarrow>
     \<exists>ts. adds_tokens q (pl_generated st) (pl_generated st') ts \<and> ends_right q n ts"
proof (induction n arbitrary: step st)
  case (Suc n)
  from Suc.prems(1) obtain st1 stop where s: "plain_step E profile speculative use_mtp q step st = Inr (st1, stop)"
    and after: "if stop then st' = st1 else plain_loop E profile speculative use_mtp q n (Suc step) st1 = Inr st'"
    by (auto split: sum.splits if_splits)
  from plain_step_tokens [OF s] obtain t where t: "pl_generated st1 = pl_generated st @ [t]" "stop \<longleftrightarrow> is_eos q t" by blast
  then have one: "adds_tokens q (pl_generated st) (pl_generated st1) [t]" by (simp add: adds_tokens_def)
  show ?case
  proof (cases "stop \<or> n = 0")
    case True
    with after one t have "st' = st1" by (auto split: if_splits)
    with one t True show ?thesis by (intro exI [of _ "[t]"]) (auto simp: ends_right_def)
  next
    case False
    with after Suc.IH obtain us where us: "adds_tokens q (pl_generated st1) (pl_generated st') us" "ends_right q n us" by auto
    with adds_tokens_trans [OF one us(1)] False t show ?thesis
      by (intro exI [of _ "[t] @ us"]) (auto simp: ends_right_def adds_tokens_def)
  qed
qed simp

lemma generate_ids_tokens:
  assumes "generate_ids E flags q ids opts I = Inr (gen, c, I')" "rq_prompt_count q = length ids" "0 < rq_max_new q"
  shows "\<exists>ts. adds_tokens q ids gen ts \<and> ends_right q (rq_max_new q) ts"
proof (cases "enable_speculative_mtp opts \<and> eng_mtp_layers E \<noteq> []")
  case True
  with assms(1) obtain st0 st where "spec_prefill E ids I = Inr st0" "spec_loop E (snd flags) q st0 = Inr st" "gen = generated st"
    by (auto simp: generate_ids_def speculative_decode_def split: sum.splits)
  with spec_prefill_counts [OF this(1)] spec_loop_tokens [OF this(2)] assms(2,3) show ?thesis
    by (simp add: produced_def)
next
  case False
  with assms(1) obtain st where "plain_loop E (fst flags) (enable_speculative_mtp opts) (enable_mtp (impl_options I)) q
      (rq_max_new q) 0 \<lparr>pl_generated = ids, pl_attention = attention_caches I, pl_deltanet = deltanet_caches I,
        pl_mtp = mtp_attention_caches I, pl_counters = zero_counters\<rparr> = Inr st" "gen = pl_generated st"
    by (auto simp: generate_ids_def simp del: de_Morgan_conj split: sum.splits)
  with plain_loop_tokens [OF this(1)] assms(3) show ?thesis by simp
qed

lemma generate_tokens:
  assumes "generate E T backend_ok flags width result_given opts I0 = Inr (r, I')"
  shows "token_ids r \<noteq> [] \<and> length (token_ids r) \<le> nat (max_new_tokens opts)
    \<and> (\<forall>t \<in> set (butlast (token_ids r)). t \<notin> set (merge_eos T))
    \<and> (length (token_ids r) < nat (max_new_tokens opts) \<longrightarrow> last (token_ids r) \<in> set (merge_eos T))"
proof -
  define ids where "ids = tk_encode T (if use_chat_template opts
      then tk_chat_prompt T (prompt_text opts) (enable_thinking opts) else prompt_text opts)"
  let ?q = "\<lparr>rq_eos = merge_eos T, rq_prompt_count = length ids, rq_max_new = nat (max_new_tokens opts), rq_width = width\<rparr>"
  from assms obtain gen c where g: "generate_ids E flags ?q ids opts (reset_impl I0) = Inr (gen, c, I')"
    and r: "r = finish_result T (length ids) gen c" and pos: "0 < max_new_tokens opts"
    by (auto simp: generate_def Let_def ids_def check_request_def split: sum.splits if_splits)
  from generate_ids_tokens [OF g] pos obtain ts where "adds_tokens ?q ids gen ts" "ends_right ?q (nat (max_new_tokens opts)) ts"
    by auto
  then show ?thesis by (auto simp: r finish_result_def adds_tokens_def ends_right_def is_eos_def)
qed

end
