(* ===== verification/DeltaNet_Convolution.thy ===== *)
theory DeltaNet_Convolution
  imports Kernel_Laws Hip_Backend DeltaNet_Op
begin

text \<open>
  The two convolution operators of \<open>GatedDeltaNet\<close> (\<open>src/ops/delta_net.cc\<close>) on the HIP backend: what a
  successful call has computed, in terms of the kernels of \<open>Hip_Recurrent\<close>.
\<close>

lemma launch_frame_Inr: "launch_frame E bs aok amsg dok dmsg name x = Inr y \<Longrightarrow> aok \<and> y = x"
  by (auto simp: launch_frame_def hip_status_def and_then_Inr split: if_splits)

lemma causal_conv_data:
  assumes "reg (t_device x) = Some (hip_backend E)" and "causal_conv reg x w ks c = (Some out, c1)"
    and s: "t_shape x = [m, ch]"
  obtains st final where
    "state_tensor (hip_backend E) (dn_conv c) [ch, ks - 1] (t_dtype x) (t_device x) (t_mem x) = Some st"
    "causal_conv1d_silu_kernel (he_fops E) (t_dtype x) (t_data st) (t_data x) (t_data w) (nat m) (nat ch) (nat ks) =
       (t_data out, final)"
    "c1 = c\<lparr>dn_conv := Some (st\<lparr>t_buffer := write_prefix final (t_buffer st)\<rparr>)\<rparr>"
proof -
  note run = assms(2) [unfolded causal_conv_def Let_def s t_numel_def numel_2]
  from run assms(1) obtain st where
      st: "state_tensor (hip_backend E) (dn_conv c) [ch, ks - 1] (t_dtype x) (t_device x) (t_mem x) = Some st"
    by (auto split: if_splits option.splits)
  from run assms(1) st obtain ob where ob: "create_buffer (hip_backend E) (m * ch) (t_dtype x) (t_mem x) = Some ob"
    by (auto split: if_splits option.splits)
  from run assms(1) st ob obtain out' st' where
      run': "hip_causal_conv1d_silu E ob (t_buffer st) (t_buffer x) (t_buffer w) (t_dtype x) m ch ks = Inr (out', st')"
    by (auto split: if_splits sum.splits)
  with run assms(1) st ob have res: "out = mk_tensor [m, ch] (t_dtype x) (t_device x) out'"
      "c1 = c\<lparr>dn_conv := Some (st\<lparr>t_buffer := st'\<rparr>)\<rparr>"
    by (auto split: if_splits)
  obtain o1 final where k: "causal_conv1d_silu_kernel (he_fops E) (t_dtype x) (t_data st) (t_data x) (t_data w)
      (nat m) (nat ch) (nat ks) = (o1, final)" by fastforce
  from launch_frame_Inr [OF run' [unfolded hip_causal_conv1d_silu_def Let_def]] k
  have pos: "0 < m" "0 < ch" and o: "out' = write_prefix o1 ob" "st' = write_prefix final (t_buffer st)"
    by (simp_all add: t_data_def)
  from ob have "length (bf_data ob) = nat m * nat ch"
    using pos by (auto simp: create_buffer_Some nat_mult_distrib)
  with causal_conv_length [OF k] have "t_data out = o1" by (simp add: res(1) o(1) mk_tensor_def t_data_def write_prefix_full)
  with that st k res(2) o(2) show ?thesis by simp
qed

lemma grouped_conv_data:
  assumes "reg (t_device x) = Some (hip_backend E)" and "grouped_causal_conv reg x w nqk nv kd vd ks c = (Some g, c2)"
    and s: "t_shape x = [m, ch]" and mode: "ks = 4 \<longrightarrow> adds_to_zero (he_fops E)"
  obtains st final where "ch = nqk * kd * 2 + nv * vd" "0 < nqk" "0 < nv" "0 < kd" "0 < vd"
    "state_tensor (hip_backend E) (dn_conv c) [ch, ks - 1] (t_dtype x) (t_device x) (t_mem x) = Some st"
    "deltanet_grouped_conv_kernel (he_fops E) (t_dtype x) (t_data st) (t_data x) (t_data w) (nat m) (nat nqk) (nat nv)
       (nat kd) (nat vd) (nat ks) = ((t_data (dq_query g), t_data (dq_key g), t_data (dq_value g)), final)"
    "c2 = c\<lparr>dn_conv := Some (st\<lparr>t_buffer := write_prefix final (t_buffer st)\<rparr>)\<rparr>"
proof -
  note run = assms(2) [unfolded grouped_causal_conv_def Let_def s]
  from run have ch: "ch = nqk * kd * 2 + nv * vd" by (auto split: if_splits)
  from run assms(1) obtain st where
      st: "state_tensor (hip_backend E) (dn_conv c) [ch, ks - 1] (t_dtype x) (t_device x) (t_mem x) = Some st"
    by (auto split: if_splits option.splits)
  from run assms(1) st [unfolded ch] obtain qb vb where
      b: "create_buffer (hip_backend E) (m * (nqk * kd)) (t_dtype x) (t_mem x) = Some qb"
      "create_buffer (hip_backend E) (m * (nv * vd)) (t_dtype x) (t_mem x) = Some vb"
    by (auto split: if_splits option.splits)
  from run assms(1) st [unfolded ch] b obtain q' k' v' st' where
      run': "hip_deltanet_grouped_conv E (qb, qb, vb) (t_buffer st) (t_buffer x) (t_buffer w) (t_dtype x) m nqk nv kd vd ks =
        Inr ((q', k', v'), st')"
    by (auto split: if_splits sum.splits)
  with run assms(1) st [unfolded ch] b
  have res: "t_data (dq_query g) = bf_data q'" "t_data (dq_key g) = bf_data k'" "t_data (dq_value g) = bf_data v'"
      "c2 = c\<lparr>dn_conv := Some (st\<lparr>t_buffer := st'\<rparr>)\<rparr>"
    by (auto simp: mk_tensor_def t_data_def split: if_splits)
  obtain q k v final where kn: "deltanet_grouped_conv_kernel (he_fops E) (t_dtype x) (t_data st) (t_data x) (t_data w)
      (nat m) (nat nqk) (nat nv) (nat kd) (nat vd) (nat ks) = ((q, k, v), final)" by (metis prod.exhaust)
  from launch_frame_Inr [OF run' [unfolded hip_deltanet_grouped_conv_def prod.case Let_def]] kn
  have pos: "0 < m" "0 < nqk" "0 < nv" "0 < kd" "0 < vd"
    and o: "q' = write_prefix q qb" "k' = write_prefix k qb" "v' = write_prefix v vb" "st' = write_prefix final (t_buffer st)"
    by (simp_all add: t_data_def)
  from mode have mode': "nat ks = 4 \<longrightarrow> adds_to_zero (he_fops E)" by auto
  note len = grouped_conv_lengths(1-3) [OF mode' kn]
  have "length (bf_data qb) = length q" "length (bf_data qb) = length k" "length (bf_data vb) = length v"
    using b pos len by (auto simp: create_buffer_Some nat_mult_distrib)
  then have "t_data (dq_query g) = q" "t_data (dq_key g) = k" "t_data (dq_value g) = v"
    by (simp_all add: res o write_prefix_full)
  with that ch st kn pos res(4) o(4) show ?thesis by simp
qed

end
