(* ===== verification/Core_Properties.thy ===== *)
theory Core_Properties
  imports Small_Model Speculation_Counts DeltaNet_Convolution
begin

text \<open>
  What the numeric core guarantees, each as one statement over the definitions of the
  components, with an instance evaluated where the statement has hypotheses: strided copies,
  the matrix product, the kernels on chunks of a sequence, argmax, caches and requests.
\<close>

section \<open>Strided copies\<close>




text \<open>C17. The GPU kernel and the host's index counter agree: the source index the kernel computes for element
  \<open>i\<close> by division is the one the host reaches after \<open>i\<close> increments.\<close>

theorem strided_copy_same_order:
  assumes "\<forall>d \<in> set s. 0 < d" "length strides = length s"
  shows "strided_walk n src s strides (replicate (length s) 0) =
    map (\<lambda>i. src ! nat (kernel_source_index s strides (int i))) [0..<n]"
  using strided_walk_coordinates [of s 0 n src strides] assms
  by (simp add: coordinates_zero kernel_source_index_eq)

theorem strided_copy_same_order_witness:
  "strided_walk 6 [1, 2, 3, 4, 5, 6 :: int] [1, 3, 2] [6, 1, 3] [0, 0, 0] =
    map (\<lambda>i. [1, 2, 3, 4, 5, 6] ! nat (kernel_source_index [1, 3, 2] [6, 1, 3] (int i))) [0..<6]"
  using strided_copy_same_order [of "[1, 3, 2]" "[6, 1, 3]" 6 "[1, 2, 3, 4, 5, 6 :: int]"]
  by (simp add: numeral_3_eq_3)

text \<open>The contiguity test accepts exactly the strides of the dense row-major layout.\<close>

theorem contiguity_test_exact:
  assumes "length strides = length s"
  shows "check_contiguous s strides \<longleftrightarrow> strides = map (\<lambda>i. prod_list (drop (Suc i) s)) [0..<length s]"
  using check_contiguous_iff [OF assms] by (simp add: compute_strides_eq)

theorem contiguity_test_exact_witness: "check_contiguous [2, 3, 4] [12, 4, 1] \<and> \<not> check_contiguous [2, 3] [1, 2]"
  using contiguity_test_exact [of "[12, 4, 1]" "[2, 3, 4]"] contiguity_test_exact [of "[1, 2]" "[2, 3]"]
  by (simp add: numeral_3_eq_3 numeral_2_eq_2)

section \<open>Copies and the matrix product on the host\<close>

text \<open>C18. Entry \<open>(i, j)\<close> of the host's matrix product is \<open>alpha\<close> times the sum of the products plus \<open>beta\<close>
  times the entry that was there, and with \<open>beta\<close> zero the old entry does not matter.\<close>

theorem host_gemm_entry:
  assumes "length c = m * n" "i < m" "j < n"
  shows "naive_gemm_f32 F trans_a trans_b m n k alpha beta a b c ! (i * n + j) =
    (let p = f_mul F alpha (acc_sum F k (\<lambda>l. f_mul F
           (if trans_a then a ! (l * m + i) else a ! (i * k + l)) (if trans_b then b ! (j * k + l) else b ! (l * n + j))))
     in if beta = f_zero F then p else f_add F p (f_mul F beta (c ! (i * n + j))))"
proof -
  have "concat (map (\<lambda>i. map (f i) [0..<n]) [0..<m]) ! (i * n + j) = f i j" for f :: "nat \<Rightarrow> nat \<Rightarrow> 'a"
    using assms(2,3)
  proof (induction m)
    case (Suc m)
    have len: "length (concat (map (\<lambda>i. map (f i) [0..<n]) [0..<m])) = m * n"
      by (subst length_concat_const [where k = n]) auto
    show ?case
    proof (cases "i < m")
      case True
      have "i * n + j < m * n" by (rule row_index [OF True Suc.prems(2)])
      with True Suc show ?thesis by (simp add: nth_append len)
    next
      case False
      with Suc.prems show ?thesis by (simp add: nth_append len less_Suc_eq)
    qed
  qed simp
  then show ?thesis by (simp add: naive_gemm_eq [OF assms(1)] product_entry_def Let_def)
qed

theorem host_gemm_entry_witness:
  "naive_gemm_f32 int_fops False True 2 2 2 2 1 [1, 2, 3, 4] [5, 6, 7, 8] [10, 20, 30, 40] ! 3 = 146"
  using host_gemm_entry [of "[10, 20, 30, 40 :: int]" 2 2 1 1 int_fops False True 2 2 1 "[1, 2, 3, 4]" "[5, 6, 7, 8]"]
  by (simp add: acc_sum_def Let_def numeral_2_eq_2 numeral_3_eq_3)

text \<open>A copy between buffers whose ranges are below \<open>2 ^ 64\<close> and inside the buffers succeeds and changes
  the destination's range only.\<close>

theorem cpu_copy_in_range:
  assumes "dst_offset + nbytes < 2 ^ 64" "src_offset + nbytes < 2 ^ 64"
    "dst_offset + nbytes \<le> bf_size dst" "src_offset + nbytes \<le> bf_size src"
  shows "cpu_copy_to_offset dst dst_offset src src_offset nbytes =
    (let w = bf_width dst; n = nbytes div w; start = dst_offset div w in
     Inr (dst\<lparr>bf_data := take start (bf_data dst) @ take n (drop (src_offset div w) (bf_data src)) @
                drop (start + n) (bf_data dst)\<rparr>))"
  using assms by (simp add: cpu_copy_to_offset_def size_add_exact)

definition host_buffer :: "int list \<Rightarrow> int buffer" where
  "host_buffer xs = \<lparr>bf_device = Cpu, bf_mem = HostMem, bf_width = 4, bf_data = xs\<rparr>"

theorem cpu_copy_in_range_witness:
  "cpu_copy_to_offset (host_buffer [1, 2, 3]) 4 (host_buffer [7, 9]) 4 4 = Inr (host_buffer [1, 9, 3])"
  using cpu_copy_in_range [of 4 4 4 "host_buffer [1, 2, 3]" "host_buffer [7, 9]"]
  by (simp add: host_buffer_def bf_size_def Let_def drop_Cons' take_Cons')

text \<open>C19. The range test of the copy adds in \<open>size_t\<close>, so that an offset near \<open>2 ^ 64\<close> passes it and the copy
  leaves the buffer: \<open>n\<close> bytes at the offset \<open>2 ^ 64 - n\<close> are accepted for every pair of buffers that
  hold \<open>n\<close> bytes.\<close>

theorem cpu_copy_range_wraps:
  assumes "0 < nbytes" "nbytes \<le> bf_size dst" "nbytes \<le> bf_size src" "bf_size dst < 2 ^ 64"
  shows "cpu_copy_to_offset dst (2 ^ 64 - nbytes) src 0 nbytes = Inl (Undef ''memcpy'')"
proof -
  have "size_add (2 ^ 64 - nbytes) nbytes = 0"
    using assms by (simp add: size_add_def flip: of_nat_add)
  moreover have "size_add 0 nbytes = nbytes" using assms by (simp add: size_add_exact)
  ultimately show ?thesis using assms by (simp add: cpu_copy_to_offset_def)
qed

theorem cpu_copy_range_wraps_witness:
  "cpu_copy_to_offset (host_buffer [1, 2]) (2 ^ 64 - 4) (host_buffer [3]) 0 4 = Inl (Undef ''memcpy'')"
  by (rule cpu_copy_range_wraps) (simp_all add: host_buffer_def bf_size_def)

section \<open>Kernels on chunks\<close>

lemma int_fops_stored [simp]: "stored int_fops d x"
  by (simp add: stored_def)







text \<open>C13. The grouped convolution is the plain causal convolution with its rows cut into query, key and
  value: on a GPU, where both operators succeed, they leave the same cache, and the three results
  hold the three parts of every row (with four taps, where adding to zero is exact).\<close>

theorem grouped_convolution_splits:
  assumes "reg (t_device x) = Some (hip_backend E)" "t_shape x = [m, ch]" "ks = 4 \<longrightarrow> adds_to_zero (he_fops E)"
    and "causal_conv reg x w ks c = (Some out, c1)"
    and "grouped_causal_conv reg x w nqk nv kd vd ks c = (Some g, c2)"
  shows "c1 = c2 \<and> (t_data (dq_query g), t_data (dq_key g), t_data (dq_value g)) =
    split_rows (nat nqk * nat kd) (rows_of (nat ch) (nat m) (t_data out))"
proof -
  from grouped_conv_data [OF assms(1,5,2,3)] obtain st final where ch: "ch = nqk * kd * 2 + nv * vd"
    and pos: "0 < nqk" "0 < nv" "0 < kd" "0 < vd"
    and st: "state_tensor (hip_backend E) (dn_conv c) [ch, ks - 1] (t_dtype x) (t_device x) (t_mem x) = Some st"
    and g: "deltanet_grouped_conv_kernel (he_fops E) (t_dtype x) (t_data st) (t_data x) (t_data w) (nat m) (nat nqk) (nat nv)
       (nat kd) (nat vd) (nat ks) = ((t_data (dq_query g), t_data (dq_key g), t_data (dq_value g)), final)"
    and c2: "c2 = c\<lparr>dn_conv := Some (st\<lparr>t_buffer := write_prefix final (t_buffer st)\<rparr>)\<rparr>" by blast
  from causal_conv_data [OF assms(1,4,2)] st obtain final' where
      k: "causal_conv1d_silu_kernel (he_fops E) (t_dtype x) (t_data st) (t_data x) (t_data w) (nat m) (nat ch) (nat ks) =
       (t_data out, final')"
    and c1: "c1 = c\<lparr>dn_conv := Some (st\<lparr>t_buffer := write_prefix final' (t_buffer st)\<rparr>)\<rparr>" by (metis option.inject)
  have "nat ch = nat nqk * nat kd * 2 + nat nv * nat vd"
    unfolding ch using pos by (simp add: nat_add_distrib nat_mult_distrib)
  moreover have "nat ks = 4 \<longrightarrow> adds_to_zero (he_fops E)" using assms(3) by auto
  ultimately show ?thesis using g k c1 c2 by (simp add: grouped_conv_splits)
qed

definition conv_input :: "int tensor" where
  "conv_input = mk_tensor [2, 3] BF16 gpu0 (gpu_buffer gpu0 2 [1, 2, 3, 4, 5, 6])"

definition conv_taps :: "int tensor" where
  "conv_taps = mk_tensor [3, 2] BF16 gpu0 (gpu_buffer gpu0 2 [1, 1, 1, 0, 1, 1])"

theorem grouped_convolution_splits_witness:
  "\<exists>out c1 g. causal_conv small_backends conv_input conv_taps 2 dn_empty = (Some out, c1) \<and>
     grouped_causal_conv small_backends conv_input conv_taps 1 1 1 1 2 dn_empty = (Some g, c1) \<and>
     (t_data (dq_query g), t_data (dq_key g), t_data (dq_value g)) = split_rows 1 (rows_of 3 2 (t_data out))"
proof -
  note run = deltanet_evals conv_input_def conv_taps_def dn_empty_def
  obtain out c1 where c: "causal_conv small_backends conv_input conv_taps 2 dn_empty = (Some out, c1)"
    by (simp add: causal_conv_def hip_causal_conv1d_silu_def causal_conv1d_silu_kernel_def run)
  obtain g c2 where g: "grouped_causal_conv small_backends conv_input conv_taps 1 1 1 1 2 dn_empty = (Some g, c2)"
    by (simp add: run)
  have "small_backends (t_device conv_input) = Some (hip_backend (reference_env int_fops 0 gpu0))"
    "t_shape conv_input = [2, 3]" "(2 :: int) = 4 \<longrightarrow> adds_to_zero (he_fops (reference_env int_fops 0 gpu0))"
    by (simp_all add: conv_input_def)
  from grouped_convolution_splits [OF this c g] c g show ?thesis by simp
qed

text \<open>C14. In exact arithmetic the recurrent kernel gives the same outputs and the same state for a chunk as for
  its two parts, although a single token of a 128 by 128 state takes a kernel that sums across
  waves instead of in a tree.\<close>

theorem recurrent_chunks_exact:
  assumes "warp = 2 * 2 ^ j" "warp dvd 128" "nw \<noteq> nv"
    "length q1 = m1 * (nqk * kd)" "length k1 = m1 * (nqk * kd)" "length v1 = m1 * (nv * vd)"
    "length a1 = m1 * nv" "length b1 = m1 * nv" "length z1 = m1 * (nv * vd)"
  shows "deltanet_recurrent_kernel real_fops warp d st (q1 @ q2, k1 @ k2, v1 @ v2) (a1 @ a2, b1 @ b2, z1 @ z2)
      weights (m1 + m2) nqk nv kd vd nw eps =
    (case deltanet_recurrent_kernel real_fops warp d st (q1, k1, v1) (a1, b1, z1) weights m1 nqk nv kd vd nw eps of
       (o1, st1) \<Rightarrow>
         (case deltanet_recurrent_kernel real_fops warp d st1 (q2, k2, v2) (a2, b2, z2) weights m2 nqk nv kd vd nw eps of
            (o2, st2) \<Rightarrow> (o1 @ o2, st2)))"
  using recurrent_append [OF real_exact.decode_agrees_exact [OF assms(1-3)] assms(4-)] by (auto split: prod.splits)

theorem recurrent_chunks_exact_witness:
  "deltanet_recurrent_kernel real_fops 64 BF16 (replicate 16384 0) (replicate 256 1, replicate 256 1, replicate 256 1)
      ([1, 1], [1, 1], replicate 256 1) ([1], [1], replicate 128 1) 2 1 1 128 128 128 0 =
    (case deltanet_recurrent_kernel real_fops 64 BF16 (replicate 16384 0) (replicate 128 1, replicate 128 1, replicate 128 1)
        ([1], [1], replicate 128 1) ([1], [1], replicate 128 1) 1 1 1 128 128 128 0 of
       (o1, st1) \<Rightarrow>
         (case deltanet_recurrent_kernel real_fops 64 BF16 st1 (replicate 128 1, replicate 128 1, replicate 128 1)
            ([1], [1], replicate 128 1) ([1], [1], replicate 128 1) 1 1 1 128 128 128 0 of
            (o2, st2) \<Rightarrow> (o1 @ o2, st2)))"
  using recurrent_chunks_exact [of 64 5 128 1 "replicate 128 1" 1 1 128 "replicate 128 1" "replicate 128 1" 128
      "[1]" "[1]" "replicate 128 1" BF16 "replicate 16384 0" "replicate 128 1" "replicate 128 1" "replicate 128 1"
      "[1]" "[1]" "replicate 128 1" "([1], [1], replicate 128 1)" 1 0]
  by (simp del: One_nat_def add: one_add_one flip: replicate_add)

section \<open>Argmax\<close>

text \<open>The token the single-row kernel chooses is the last one the batched kernel chooses.\<close>

theorem argmax_last_of_batch:
  assumes "0 < rows"
  shows "argmax_last_row_kernel F xs rows columns = last (argmax_rows_kernel F xs rows columns)"
  by (rule argmax_last_is_batched [OF assms])

theorem argmax_last_of_batch_witness:
  "argmax_last_row_kernel int_fops [1, 5, 9, 2] 2 2 = last (argmax_rows_kernel int_fops [1, 5, 9, 2] 2 2)"
  by (rule argmax_last_of_batch) simp

text \<open>C15. Where the largest logit of a row is unique, the GPU's reduction and the host's scan choose the same
  token, that of the largest logit.\<close>

theorem argmax_device_host:
  assumes "weak_order (f_gt F)" "\<forall>x \<in> set row. f_gt F x (f_neg_inf F)" "i < length row"
    "\<forall>c < length row. c \<noteq> i \<longrightarrow> f_gt F (row ! i) (row ! c)"
  shows "row_argmax F (length row) (\<lambda>c. row ! c) = int i
    \<and> host_argmax (f_gt F) (f_neg_inf F) start row = int i"
proof -
  have ne: "row \<noteq> []" and low: "\<And>x. x \<in> set row \<Longrightarrow> f_gt F x (f_neg_inf F)" using assms(2,3) by auto
  from host_argmax_first [OF assms(1) low ne, of start] obtain j
    where j: "j < length row" "host_argmax (f_gt F) (f_neg_inf F) start row = int j"
      "\<forall>c < length row. \<not> f_gt F (row ! c) (row ! j)" by auto
  from assms(3,4) j(1,3) have "j = i" by blast
  moreover have "row_argmax F (length row) (\<lambda>c. row ! c) = int i"
    by (rule row_argmax_unique [OF assms(1)]) (use assms low in auto)
  ultimately show ?thesis using j(2) by simp
qed

lemma weak_order_int: "weak_order (\<lambda>x y :: int. y < x)"
  by (auto simp: weak_order_def)

theorem argmax_device_host_witness:
  "row_argmax int_fops 3 (\<lambda>c. [4, 9, 7] ! c) = 1 \<and> host_argmax (>) (- 1000000) 0 [4, 9, 7 :: int] = 1"
  using argmax_device_host [of int_fops "[4, 9, 7]" 1 0]
  by (simp add: weak_order_int numeral_3_eq_3 All_less_Suc)

section \<open>Caches\<close>

text \<open>Truncating an attention cache accepts exactly the lengths between 0 and the capacity, keeps the stored
  rows and changes the length only. A length beyond the current one is accepted too.\<close>

theorem kv_truncate_effect:
  assumes "kv_truncate c n = Inr c'" "kv_initialized c"
  shows "c' = c\<lparr>kv_length := n\<rparr> \<and> 0 \<le> n \<and> n \<le> kv_capacity c"
  using assms by (auto simp: kv_truncate_def kv_initialized_def split: if_splits option.splits)

theorem kv_truncate_effect_witness:
  "kv_truncate kv_after 2 = Inr (kv_after\<lparr>kv_length := 2\<rparr>) \<and> kv_length kv_after = 1 \<and> kv_capacity kv_after = 2"
proof -
  obtain c' where c': "kv_truncate kv_after 2 = Inr c'"
    by (simp add: kv_truncate_def kv_after_def ndim_def)
  have "kv_initialized kv_after" by (simp add: kv_initialized_def kv_after_def)
  from kv_truncate_effect [OF c' this] c' show ?thesis by (simp add: kv_after_def)
qed

lemma deltanet_recurrent_state:
  assumes "deltanet_recurrent F reg X A nqk nv kd vd eps c0 = (Some out, c)"
  shows "\<exists>st. dn_recurrent c = Some st \<and> t_dtype st = FP32"
  using assms
  by (auto simp: deltanet_recurrent_def Let_def state_tensor_def split: if_splits option.splits sum.splits prod.splits)

text \<open>C20. The cache a DeltaNet layer leaves cannot be restored as a checkpoint: its recurrent state is FP32, and
  \<open>restore\<close> rejects every checkpoint whose two states differ in their element type.\<close>

theorem deltanet_checkpoint_rejected:
  assumes "qwen_deltanet_reference F reg cfg input W dev c0 = (Some out, c)" "dn_conv c = Some conv" "t_dtype conv \<noteq> FP32"
  shows "dn_restore d c = fails InvalidArgument ''DeltaNet cache restore state is incompatible''"
proof -
  from assms(1) have "\<exists>st. dn_recurrent c = Some st \<and> t_dtype st = FP32"
    by (auto simp: qwen_deltanet_reference_def Let_def dest: deltanet_recurrent_state
        split: if_splits option.splits prod.splits)
  with assms(2,3) show ?thesis
    by (auto simp: dn_restore_def restore_compatible_def)
qed

theorem deltanet_checkpoint_rejected_witness:
  "dn_restore dn_empty dn_after = fails InvalidArgument ''DeltaNet cache restore state is incompatible''"
proof -
  have "qwen_deltanet_reference int_fops small_backends small_config (mat gpu0 2 1 [0, 1]) (small_layer False) gpu0 dn_empty
      = (Some (mat gpu0 2 1 [0, 0]), dn_after)"
    by (simp_all add: deltanet_evals small_layer_def small_config_def dn_empty_def dn_after_def)
  from deltanet_checkpoint_rejected [OF this] show ?thesis by (simp add: dn_after_def)
qed

section \<open>Requests and results\<close>



text \<open>C4. A generation that succeeds, on any engine and in either loop, produces at least one token and at most as many
  as asked for; an end-of-sequence id can only be the last one, and it is the reason when there are fewer.\<close>

theorem generate_stops:
  assumes "generate E T backend_ok flags width result_given opts I0 = Inr (r, I')"
  shows "token_ids r \<noteq> [] \<and> length (token_ids r) \<le> nat (max_new_tokens opts)
    \<and> (\<forall>t \<in> set (butlast (token_ids r)). t \<notin> set (merge_eos T))
    \<and> (length (token_ids r) < nat (max_new_tokens opts) \<longrightarrow> last (token_ids r) \<in> set (merge_eos T))"
  by (rule generate_tokens [OF assms])

theorem generate_stops_witness:
  "\<exists>r I. generate small_engine small_codec True (False, False) 2 True (small_options True 1) (small_impl True) = Inr (r, I)
     \<and> length (token_ids r) \<le> 1 \<and> token_ids r \<noteq> []"
proof -
  from small_spec_run obtain r I where
    g: "generate small_engine small_codec True (False, False) 2 True (small_options True 1) (small_impl True) = Inr (r, I)"
    by blast
  from generate_stops [OF g] g show ?thesis by (auto simp: small_options_def)
qed

text \<open>C5. Every round of the speculative loop that succeeds makes progress: it produces at least one token, and
  never more than are still asked for. This is what ends the loop.\<close>

theorem speculative_round_progress:
  assumes "spec_round E profile q st = Inr (st', stop)" "rq_prompt_count q \<le> length (generated st)"
    "produced q st < rq_max_new q"
  shows "produced q st < produced q st' \<and> produced q st' \<le> rq_max_new q \<and> take (length (generated st)) (generated st') = generated st"
proof -
  from spec_round_tokens [OF assms] obtain ts where "generated st' = generated st @ ts" "0 < length ts"
    "produced q st + length ts \<le> rq_max_new q" by (auto simp: adds_tokens_def)
  with assms(2) show ?thesis by (simp add: produced_def del: length_greater_0_conv)
qed

definition small_state :: "(int list, int tensor, int tensor, int tensor) spec_state" where
  "small_state = \<lparr>generated = [1], st_attention = [kv_empty, kv_after], st_deltanet = [dn_after, dn_empty],
     st_mtp = [kv_after], next_target = 1, target_hidden = Some [7, 10], counters = zero_counters\<rparr>"

definition small_request :: request where
  "small_request = \<lparr>rq_eos = [3], rq_prompt_count = 1, rq_max_new = 1, rq_width = 8\<rparr>"

theorem speculative_round_progress_witness:
  "\<exists>st' stop. spec_round small_engine False small_request small_state = Inr (st', stop) \<and> produced small_request st' = 1"
proof -
  obtain st' stop where r: "spec_round small_engine False small_request small_state = Inr (st', stop)"
    by (simp add: spec_round_def small_request_def small_state_def produced_def)
  have "rq_prompt_count small_request \<le> length (generated small_state)"
    "produced small_request small_state = 0" "rq_max_new small_request = 1"
    by (simp_all add: small_request_def small_state_def produced_def)
  with speculative_round_progress [OF r] r show ?thesis by fastforce
qed

text \<open>C6. The counters a speculative generation reports balance: every proposed token was accepted or rejected,
  there are no more corrections than rounds, and every token of the result was counted.\<close>

theorem speculation_accounts:
  assumes "speculative_decode E profile q ids I = Inr st" "rq_prompt_count q = length ids"
  shows "proposed (counters st) = accepted (counters st) + rejected (counters st)
    \<and> corrections (counters st) \<le> rounds (counters st)
    \<and> decode_count (counters st) = int (length (generated st) - length ids)"
proof -
  from assms(1) obtain st0 where p: "spec_prefill E ids I = Inr st0" and l: "spec_loop E profile q st0 = Inr st"
    by (auto simp: speculative_decode_def split: sum.splits)
  from spec_prefill_counts [OF p] assms(2) have "counts_ok q st0" "produced q st0 \<le> rq_max_new q"
    by (auto simp: counts_ok_def Let_def produced_def zero_counters_def)
  from spec_loop_counts [OF l this] assms(2) show ?thesis by (auto simp: counts_ok_def Let_def produced_def)
qed

theorem speculation_accounts_witness:
  "\<exists>st. speculative_decode small_engine False small_request [1] (small_impl True) = Inr st
    \<and> decode_count (counters st) = int (length (generated st) - 1) \<and> generated st = [1, 1]"
proof -
  obtain st where s: "speculative_decode small_engine False small_request [1] (small_impl True) = Inr st" "generated st = [1, 1]"
    by (simp add: small_impl_def small_request_def speculative_decode_def spec_prefill_def target_forward_def run_layer_def
        spec_loop.simps spec_round_def produced_def append_token_def layer_mix_def layer_tail_def swap_attention_caches_def
        small_layers layer_0_first layer_1_first final_first argmax_first mtp_first small_mtp_run)
  from speculation_accounts [OF s(1)] s show ?thesis by (auto simp: small_request_def)
qed

end
