(* ===== verification/Memory_Pool.thy ===== *)
theory Memory_Pool
  imports Core_Types Complex_Main "HOL-Library.Multiset"
begin

text \<open>
  \<open>MemoryPool\<close> (\<open>src/memory/memory_pool.cc\<close>): a caching allocator over a backend
  allocator. Freed blocks go to the free list of their bucket and are handed out again. The
  state of the pool is a record; the heap behind it is threaded through the operations, and
  the locale \<open>allocator\<close> states what an allocator promises, and the pool is shown to keep that promise too. A pointer is a number, 0 the null pointer;
  the growth factor, a double, is a rational number, and its product with a size is exact. The
  pool has a backend, so its allocator is not null; the flag \<open>active\<close> of a block, which nothing
  reads, and the mutex that makes every operation one step are left out.
\<close>

section \<open>Allocators\<close>

type_synonym ptr = nat

text \<open>\<open>class Allocator\<close>: a failed allocation leaves the heap as it was; \<open>deallocate\<close> returns a
  status beside the heap.\<close>

record 'h heap_ops =
  ho_allocate :: "nat \<Rightarrow> 'h \<Rightarrow> (ptr \<times> 'h) result"
  ho_deallocate :: "ptr \<Rightarrow> 'h \<Rightarrow> status \<times> 'h"

text \<open>\<open>HostAllocator\<close> of the CPU backend over the C library's heap: \<open>malloc\<close> chooses an address, or
  none. The heap lists the blocks in use, an address with the size asked for.\<close>

type_synonym host_heap = "(ptr \<times> nat) list"

definition malloc_allocate :: "(host_heap \<Rightarrow> nat \<Rightarrow> ptr option) \<Rightarrow> nat \<Rightarrow> host_heap \<Rightarrow> (ptr \<times> host_heap) result" where
  "malloc_allocate malloc n h =
     (if n = 0 then Inr (0, h)
      else (case malloc h n of
              None \<Rightarrow> fails OutOfMemory ''Failed to allocate host memory''
            | Some p \<Rightarrow> Inr (p, (p, n) # h)))"

definition malloc_deallocate :: "ptr \<Rightarrow> host_heap \<Rightarrow> status \<times> host_heap" where
  "malloc_deallocate p h = (status_OK, filter (\<lambda>e. fst e \<noteq> p) h)"

definition malloc_allocator :: "(host_heap \<Rightarrow> nat \<Rightarrow> ptr option) \<Rightarrow> host_heap heap_ops" where
  "malloc_allocator malloc = \<lparr>ho_allocate = malloc_allocate malloc, ho_deallocate = malloc_deallocate\<rparr>"

text \<open>What \<open>malloc\<close> promises: an address that is neither null nor in use. One that hands out the
  next address while the total stays below a limit keeps the promise.\<close>

definition malloc_fresh :: "(host_heap \<Rightarrow> nat \<Rightarrow> ptr option) \<Rightarrow> bool" where
  "malloc_fresh malloc \<longleftrightarrow> (\<forall>h n p. malloc h n = Some p \<longrightarrow> p \<noteq> 0 \<and> map_of h p = None)"

definition bounded_malloc :: "nat \<Rightarrow> host_heap \<Rightarrow> nat \<Rightarrow> ptr option" where
  "bounded_malloc limit h n =
     (if sum_list (map snd h) + n \<le> limit then Some (Suc (foldr max (map fst h) 0)) else None)"

section \<open>The pool\<close>

record pool_options =
  min_bucket_size :: nat
  max_bucket_size :: nat
  bucket_growth :: rat
  max_pooled_bytes :: nat

definition default_pool_options :: pool_options where
  "default_pool_options = \<lparr>min_bucket_size = 256, max_bucket_size = 64 * 1024 * 1024, bucket_growth = 2,
     max_pooled_bytes = 256 * 1024 * 1024\<rparr>"

text \<open>The buckets: sizes growing by the factor, or by doubling where the factor does not grow.
  The conversion of a double that no \<open>size_t\<close> holds is undefined. The loop ends when the size
  exceeds the largest one; \<open>None\<close> is the loop that does not end.\<close>

definition next_bucket :: "rat \<Rightarrow> nat \<Rightarrow> nat result" where
  "next_bucket growth s =
     (let grown = nat \<lceil>of_nat s * growth\<rceil> in
      if 2 ^ 64 \<le> grown then Inl (Undef ''bucket size out of range'')
      else Inr (if grown \<le> s then s * 2 mod 2 ^ 64 else grown))"

partial_function (option) bucket_loop :: "rat \<Rightarrow> nat \<Rightarrow> nat \<Rightarrow> nat list \<Rightarrow> nat list result option" where
  "bucket_loop growth largest s buckets =
     (if s \<le> largest
      then (case next_bucket growth s of
              Inl e \<Rightarrow> Some (Inl e)
            | Inr s' \<Rightarrow> bucket_loop growth largest s' (buckets @ [s]))
      else Some (Inr buckets))"

definition pool_buckets :: "pool_options \<Rightarrow> nat list result option" where
  "pool_buckets opts =
     map_option (\<lambda>r. and_then r (\<lambda>buckets.
         Inr (if buckets = [] \<or> last buckets < max_bucket_size opts
              then buckets @ [max_bucket_size opts] else buckets)))
       (bucket_loop (bucket_growth opts) (max_bucket_size opts) (min_bucket_size opts) [])"

record block =
  block_ptr :: ptr
  block_size :: nat

text \<open>An active block: its bucket, \<open>None\<close> for a direct allocation, and its size.\<close>

record pool =
  pl_options :: pool_options
  bucket_sizes :: "nat list"
  free_blocks :: "nat \<Rightarrow> block list"
  active_blocks :: "ptr \<Rightarrow> (nat option \<times> nat) option"
  pooled_bytes :: nat
  active_bytes :: nat
  total_allocs :: nat
  cache_hits :: nat

definition new_pool :: "pool_options \<Rightarrow> pool result option" where
  "new_pool options0 =
     (let opts = (if bucket_growth options0 < 101 / 100 then options0\<lparr>bucket_growth := 2\<rparr> else options0) in
      map_option (\<lambda>r. and_then r (\<lambda>buckets.
          Inr \<lparr>pl_options = opts, bucket_sizes = buckets, free_blocks = (\<lambda>_. []),
            active_blocks = (\<lambda>_. None), pooled_bytes = 0, active_bytes = 0, total_allocs = 0, cache_hits = 0\<rparr>))
        (pool_buckets opts))"

text \<open>\<open>lower_bound\<close>: the first bucket that is large enough, the last one when none is.\<close>

fun lower_bound :: "nat list \<Rightarrow> nat \<Rightarrow> nat" where
  "lower_bound [] n = 0"
| "lower_bound (s # rest) n = (if n \<le> s then 0 else Suc (lower_bound rest n))"

definition bucket_index :: "pool \<Rightarrow> nat \<Rightarrow> nat" where
  "bucket_index P n =
     (let requested = max n (min_bucket_size (pl_options P)); i = lower_bound (bucket_sizes P) requested in
      if i = length (bucket_sizes P) then length (bucket_sizes P) - 1 else i)"

definition pool_allocate :: "'h heap_ops \<Rightarrow> nat \<Rightarrow> pool \<times> 'h \<Rightarrow> (ptr \<times> pool \<times> 'h) result" where
  "pool_allocate H n = (\<lambda>(P, h).
     (if n = 0 then Inr (0, P, h)
      else if max_bucket_size (pl_options P) < n
      then and_then (ho_allocate H n h) (\<lambda>(p, h').
             Inr (p, P\<lparr>active_blocks := (active_blocks P)(p \<mapsto> (None, n)),
                       active_bytes := active_bytes P + n, total_allocs := total_allocs P + 1\<rparr>, h'))
      else
        (let bucket = bucket_index P n in
         (case free_blocks P bucket of
            block # rest \<Rightarrow>
              Inr (block_ptr block,
                   P\<lparr>free_blocks := (free_blocks P)(bucket := rest),
                     active_blocks := (active_blocks P)(block_ptr block \<mapsto> (Some bucket, block_size block)),
                     active_bytes := active_bytes P + block_size block,
                     pooled_bytes := pooled_bytes P - block_size block,
                     total_allocs := total_allocs P + 1, cache_hits := cache_hits P + 1\<rparr>, h)
          | [] \<Rightarrow>
              (let alloc_size = bucket_sizes P ! bucket in
               and_then (ho_allocate H alloc_size h) (\<lambda>(p, h').
                 Inr (p, P\<lparr>active_blocks := (active_blocks P)(p \<mapsto> (Some bucket, alloc_size)),
                           active_bytes := active_bytes P + alloc_size,
                           total_allocs := total_allocs P + 1\<rparr>, h')))))))"

definition pool_deallocate :: "'h heap_ops \<Rightarrow> ptr \<Rightarrow> pool \<times> 'h \<Rightarrow> status \<times> pool \<times> 'h" where
  "pool_deallocate H p = (\<lambda>(P, h).
     (if p = 0 then (status_OK, P, h)
      else
        (case active_blocks P p of
           None \<Rightarrow> (Status InvalidArgument ''MemoryPool: deallocating unknown pointer'', P, h)
         | Some (bucket, n) \<Rightarrow>
             (let P' = P\<lparr>active_bytes := active_bytes P - n, active_blocks := (active_blocks P)(p := None)\<rparr>;
                  limit = max_pooled_bytes (pl_options P) in
              (case bucket of
                 None \<Rightarrow> (status_OK, P', snd (ho_deallocate H p h))
               | Some b \<Rightarrow>
                   (if 0 < limit \<and> limit < pooled_bytes P + n
                    then (status_OK, P', snd (ho_deallocate H p h))
                    else (status_OK,
                          P'\<lparr>free_blocks := (free_blocks P)(b := free_blocks P b @ [\<lparr>block_ptr = p, block_size = n\<rparr>]),
                             pooled_bytes := pooled_bytes P + n\<rparr>, h)))))))"

text \<open>The pool is itself an \<open>Allocator\<close>.\<close>

definition pool_allocator :: "'h heap_ops \<Rightarrow> (pool \<times> 'h) heap_ops" where
  "pool_allocator H = \<lparr>ho_allocate = pool_allocate H, ho_deallocate = pool_deallocate H\<rparr>"

text \<open>The cached blocks in the order of the buckets. A block's bucket is one of the list's.\<close>

definition cached_blocks :: "pool \<Rightarrow> block list" where
  "cached_blocks P = concat (map (free_blocks P) [0..<length (bucket_sizes P)])"

definition release_cache :: "'h heap_ops \<Rightarrow> pool \<times> 'h \<Rightarrow> pool \<times> 'h" where
  "release_cache H = (\<lambda>(P, h).
     (P\<lparr>free_blocks := (\<lambda>_. []), pooled_bytes := 0\<rparr>,
      fold (\<lambda>block h. snd (ho_deallocate H (block_ptr block) h)) (cached_blocks P) h))"

section \<open>The buckets\<close>

text \<open>With a smallest bucket of size 0 the constructor does not return, whatever the factor.\<close>

lemma next_bucket_zero [simp]: "next_bucket growth 0 = Inr 0"
  by (simp add: next_bucket_def Let_def)

lemma bucket_loop_pos: "bucket_loop growth largest s buckets = Some r \<Longrightarrow> s \<noteq> 0"
proof (rule bucket_loop.raw_induct [where P = "\<lambda>growth largest s buckets r. s \<noteq> 0"], goal_cases)
  case (1 loop growth largest s buckets r)
  from 1(2) [of growth largest 0 "buckets @ [s]" r] 1(3)
  show ?case by (cases "s = 0") auto
qed

lemma bucket_loop_zero: "bucket_loop growth largest 0 acc = None"
  using bucket_loop_pos by (cases "bucket_loop growth largest 0 acc") fastforce+

text \<open>Otherwise it ends: below \<open>2 ^ 63\<close> every step grows, and the sizes are increasing.\<close>

lemma next_bucket_grows:
  assumes "0 < s" "of_nat s * growth < 2 ^ 63" "s < 2 ^ 63"
  obtains s' where "next_bucket growth s = Inr s'" "s < s'"
proof -
  from assms(2) have "\<lceil>of_nat s * growth\<rceil> \<le> (2 ^ 63 :: int)" unfolding ceiling_le_iff by simp
  then have "nat \<lceil>of_nat s * growth\<rceil> \<le> nat (2 ^ 63)" by (rule nat_mono)
  then have "nat \<lceil>of_nat s * growth\<rceil> < 2 ^ 64" by simp
  moreover from assms(3) have "s * 2 mod 2 ^ 64 = s * 2" by simp
  ultimately show ?thesis using assms(1) that by (auto simp: next_bucket_def Let_def not_le)
qed

lemma bucket_loop_total:
  assumes "0 < s" "0 < growth" "of_nat largest * growth < 2 ^ 63" "largest < 2 ^ 63"
  shows "\<exists>bs. bucket_loop growth largest s acc = Some (Inr (acc @ bs)) \<and> sorted_wrt (<) bs
    \<and> (\<forall>b\<in>set bs. s \<le> b \<and> b \<le> largest)"
  using assms(1)
proof (induction "Suc largest - s" arbitrary: s acc rule: less_induct)
  case less
  show ?case
  proof (cases "s \<le> largest")
    case False
    then show ?thesis by (intro exI [of _ "[]"]) (simp add: bucket_loop.simps)
  next
    case True
    then have "of_nat s * growth \<le> of_nat largest * growth" using assms(2) by simp
    with assms(3) have below: "of_nat s * growth < 2 ^ 63" by linarith
    from True assms(4) have "s < 2 ^ 63" by simp
    from next_bucket_grows [OF less.prems below this] obtain s'
      where s': "next_bucket growth s = Inr s'" "s < s'" .
    from s'(2) True have "Suc largest - s' < Suc largest - s" by linarith
    from less.hyps [OF this, of "acc @ [s]"] s'(2) obtain bs
      where "bucket_loop growth largest s' (acc @ [s]) = Some (Inr ((acc @ [s]) @ bs))"
        "sorted_wrt (<) bs" "\<forall>b\<in>set bs. s' \<le> b \<and> b \<le> largest" by auto
    with True s' show ?thesis
      by (intro exI [of _ "s # bs"]) (subst bucket_loop.simps, auto)
  qed
qed

text \<open>The largest bucket holds every pooled request.\<close>

lemma pool_buckets_last: "pool_buckets opts = Some (Inr bs) \<Longrightarrow> bs \<noteq> [] \<and> max_bucket_size opts \<le> last bs"
  by (auto simp: pool_buckets_def and_then_Inr split: if_splits)

lemma lower_bound_le: "lower_bound xs n \<le> length xs"
  by (induction xs) auto

lemma lower_bound_nth: "lower_bound xs n < length xs \<Longrightarrow> n \<le> xs ! lower_bound xs n"
  by (induction xs) auto

lemma lower_bound_before: "i < lower_bound xs n \<Longrightarrow> xs ! i < n"
proof (induction xs arbitrary: i)
  case (Cons x xs)
  then show ?case by (cases i) (auto split: if_splits)
qed simp

lemma bucket_index_less: "bucket_sizes P \<noteq> [] \<Longrightarrow> bucket_index P n < length (bucket_sizes P)"
  using lower_bound_le [of "bucket_sizes P" "max n (min_bucket_size (pl_options P))"]
  by (auto simp: bucket_index_def Let_def le_less)

lemma bucket_index_fits:
  assumes "bucket_sizes P \<noteq> []" "n \<le> last (bucket_sizes P)"
  shows "n \<le> bucket_sizes P ! bucket_index P n"
proof (cases "lower_bound (bucket_sizes P) (max n (min_bucket_size (pl_options P))) = length (bucket_sizes P)")
  case True
  with assms show ?thesis by (simp add: bucket_index_def Let_def last_conv_nth)
next
  case False
  then have "lower_bound (bucket_sizes P) (max n (min_bucket_size (pl_options P))) < length (bucket_sizes P)"
    using lower_bound_le by (metis le_less)
  from lower_bound_nth [OF this] False show ?thesis by (simp add: bucket_index_def Let_def)
qed

section \<open>What an allocator promises\<close>

locale allocator =
  fixes H :: "'h heap_ops" and blocks :: "'h \<Rightarrow> ptr \<Rightarrow> nat option" and ok :: "'h \<Rightarrow> bool"
  assumes allocate_null: "ho_allocate H 0 h = Inr (0, h)"
    and null_free: "ok h \<Longrightarrow> blocks h 0 = None"
    and allocate_fresh: "ok h \<Longrightarrow> 0 < n \<Longrightarrow> ho_allocate H n h = Inr (p, h') \<Longrightarrow> blocks h p = None \<and> p \<noteq> 0"
    and allocate_ok: "ok h \<Longrightarrow> 0 < n \<Longrightarrow> ho_allocate H n h = Inr (p, h') \<Longrightarrow> ok h'"
    and allocate_blocks: "ok h \<Longrightarrow> 0 < n \<Longrightarrow> ho_allocate H n h = Inr (p, h') \<Longrightarrow>
      \<exists>m\<ge>n. blocks h' = (blocks h)(p \<mapsto> m)"
    and deallocate_ok: "ok h \<Longrightarrow> blocks h p \<noteq> None \<Longrightarrow> ok (snd (ho_deallocate H p h))"
    and deallocate_blocks: "ok h \<Longrightarrow> blocks h p \<noteq> None \<Longrightarrow>
      blocks (snd (ho_deallocate H p h)) = (blocks h)(p := None)"

lemma map_of_filter_ne: "map_of (filter (\<lambda>e. fst e \<noteq> p) h) = (map_of h)(p := None)"
  by (induction h) (auto simp: fun_eq_iff)

lemma malloc_allocator_laws:
  "malloc_fresh malloc \<Longrightarrow> allocator (malloc_allocator malloc) map_of (\<lambda>h. map_of h 0 = None)"
  by unfold_locales
    (auto simp: malloc_allocator_def malloc_allocate_def malloc_deallocate_def malloc_fresh_def map_of_filter_ne
      split: option.splits)

lemma foldr_max_upper: "x \<in> set xs \<Longrightarrow> x \<le> foldr max xs (0 :: nat)"
  by (induction xs) auto

lemma bounded_malloc_fresh: "malloc_fresh (bounded_malloc limit)"
proof -
  have "map_of h (Suc (foldr max (map fst h) 0)) = None" for h :: host_heap
    using foldr_max_upper [of _ "map fst h"] by (force simp: map_of_eq_None_iff)
  then show ?thesis by (auto simp: malloc_fresh_def bounded_malloc_def)
qed

interpretation host: allocator "malloc_allocator (bounded_malloc limit)" map_of "\<lambda>h. map_of h 0 = None"
  for limit by (rule malloc_allocator_laws) (rule bounded_malloc_fresh)

section \<open>The pool's invariant\<close>

definition block_wf :: "('h \<Rightarrow> ptr \<Rightarrow> nat option) \<Rightarrow> 'h \<Rightarrow> ptr \<Rightarrow> nat \<Rightarrow> bool" where
  "block_wf blocks h p n \<longleftrightarrow> p \<noteq> 0 \<and> (\<exists>m\<ge>n. blocks h p = Some m)"

definition pool_blocks :: "pool \<times> 'h \<Rightarrow> ptr \<Rightarrow> nat option" where
  "pool_blocks = (\<lambda>(P, h) p. map_option snd (active_blocks P p))"

definition active_sum :: "pool \<Rightarrow> nat" where
  "active_sum P = (\<Sum>p\<in>dom (active_blocks P). snd (the (active_blocks P p)))"

definition buckets_wf :: "pool \<Rightarrow> bool" where
  "buckets_wf P \<longleftrightarrow> bucket_sizes P \<noteq> [] \<and> max_bucket_size (pl_options P) \<le> last (bucket_sizes P)
     \<and> (\<forall>b\<ge>length (bucket_sizes P). free_blocks P b = [])
     \<and> (\<forall>b. \<forall>block\<in>set (free_blocks P b). block_size block = bucket_sizes P ! b)
     \<and> (\<forall>p b n. active_blocks P p = Some (Some b, n) \<longrightarrow> b < length (bucket_sizes P) \<and> n = bucket_sizes P ! b)"

definition counters_wf :: "pool \<Rightarrow> bool" where
  "counters_wf P \<longleftrightarrow> finite (dom (active_blocks P)) \<and> active_bytes P = active_sum P
     \<and> pooled_bytes P = sum_list (map block_size (cached_blocks P))
     \<and> (0 < max_pooled_bytes (pl_options P) \<longrightarrow> pooled_bytes P \<le> max_pooled_bytes (pl_options P))
     \<and> cache_hits P \<le> total_allocs P"

definition pointers_wf :: "('h \<Rightarrow> ptr \<Rightarrow> nat option) \<Rightarrow> pool \<times> 'h \<Rightarrow> bool" where
  "pointers_wf blocks = (\<lambda>(P, h).
     distinct (map block_ptr (cached_blocks P))
     \<and> (\<forall>block\<in>set (cached_blocks P). active_blocks P (block_ptr block) = None
          \<and> block_wf blocks h (block_ptr block) (block_size block))
     \<and> (\<forall>p b n. active_blocks P p = Some (b, n) \<longrightarrow> block_wf blocks h p n))"

definition pool_ok :: "('h \<Rightarrow> ptr \<Rightarrow> nat option) \<Rightarrow> ('h \<Rightarrow> bool) \<Rightarrow> pool \<times> 'h \<Rightarrow> bool" where
  "pool_ok blocks ok = (\<lambda>(P, h). ok h \<and> buckets_wf P \<and> counters_wf P \<and> pointers_wf blocks (P, h))"

text \<open>Taking a block from a bucket, and putting one back.\<close>

lemma upt_split: "b < n \<Longrightarrow> [0..<n] = [0..<b] @ b # [Suc b..<n]"
  by (metis append_Cons append_Nil append_eq_append_conv2 le_add1 less_imp_add_positive less_or_eq_imp_le upt_add_eq_append upt_conv_Cons zero_le)

lemma cached_blocks_upd:
  assumes "b < length (bucket_sizes P)"
  shows "mset (cached_blocks (P\<lparr>free_blocks := (free_blocks P)(b := xs)\<rparr>)) + mset (free_blocks P b)
    = mset (cached_blocks P) + mset xs"
proof -
  have "map ((free_blocks P)(b := xs)) [0..<b] = map (free_blocks P) [0..<b]"
    "map ((free_blocks P)(b := xs)) [Suc b..<length (bucket_sizes P)]
     = map (free_blocks P) [Suc b..<length (bucket_sizes P)]" by auto
  then show ?thesis by (simp add: cached_blocks_def upt_split [OF assms] ac_simps)
qed

lemma cached_blocks_cong [simp]:
  "cached_blocks (P\<lparr>active_blocks := a\<rparr>) = cached_blocks P"
  "cached_blocks (P\<lparr>active_bytes := n\<rparr>) = cached_blocks P"
  "cached_blocks (P\<lparr>pooled_bytes := n\<rparr>) = cached_blocks P"
  "cached_blocks (P\<lparr>total_allocs := n\<rparr>) = cached_blocks P"
  "cached_blocks (P\<lparr>cache_hits := n\<rparr>) = cached_blocks P"
  by (simp_all add: cached_blocks_def)

lemma active_sum_upd:
  assumes "finite (dom (active_blocks P))" "active_blocks P p = None" "active_blocks Q = (active_blocks P)(p \<mapsto> (b, n))"
  shows "active_sum Q = active_sum P + n"
proof -
  from assms(2) have "p \<notin> dom (active_blocks P)" by auto
  with assms(1) show ?thesis
    by (simp add: active_sum_def assms(3)) (rule sum.cong, auto)
qed

lemma active_sum_remove:
  assumes "finite (dom (active_blocks P))" "active_blocks P p = Some (b, n)" "active_blocks Q = (active_blocks P)(p := None)"
  shows "active_sum Q = active_sum P - n" "n \<le> active_sum P"
proof -
  have "active_sum P = n + (\<Sum>q\<in>dom (active_blocks P) - {p}. snd (the (active_blocks P q)))"
    unfolding active_sum_def using assms(1,2) by (subst sum.remove [of _ p]) auto
  moreover have "active_sum Q = (\<Sum>q\<in>dom (active_blocks P) - {p}. snd (the (active_blocks P q)))"
    unfolding active_sum_def assms(3) by (rule sum.cong) auto
  ultimately show "active_sum Q = active_sum P - n" "n \<le> active_sum P" by simp_all
qed

lemma pool_ok_add:
  assumes ok: "pool_ok blocks okh (P, h)" and okh': "okh h'"
    and fresh: "blocks h p = None" "p \<noteq> 0" and upd: "blocks h' = (blocks h)(p \<mapsto> m')" "m \<le> m'"
    and bk: "\<And>b. bk = Some b \<Longrightarrow> b < length (bucket_sizes P) \<and> m = bucket_sizes P ! b"
  shows "pool_ok blocks okh
    (P\<lparr>active_blocks := (active_blocks P)(p \<mapsto> (bk, m)), active_bytes := active_bytes P + m,
       total_allocs := total_allocs P + 1\<rparr>, h')"
proof -
  let ?P = "P\<lparr>active_blocks := (active_blocks P)(p \<mapsto> (bk, m)), active_bytes := active_bytes P + m,
       total_allocs := total_allocs P + 1\<rparr>"
  from ok have pw: "pointers_wf blocks (P, h)" and cw: "counters_wf P" and bw: "buckets_wf P"
    by (auto simp: pool_ok_def)
  have none: "active_blocks P p = None"
    using pw fresh by (cases "active_blocks P p") (fastforce simp: pointers_wf_def block_wf_def)+
  have notin: "\<forall>block\<in>set (cached_blocks P). block_ptr block \<noteq> p"
    using pw fresh by (fastforce simp: pointers_wf_def block_wf_def)
  have "pointers_wf blocks (?P, h')"
    using pw notin fresh upd by (auto simp: pointers_wf_def block_wf_def)
  moreover have "active_sum ?P = active_sum P + m"
    using cw none by (intro active_sum_upd [of _ p _ bk]) (auto simp: counters_wf_def)
  then have "counters_wf ?P" using cw by (auto simp: counters_wf_def)
  moreover have "buckets_wf ?P" using bw bk by (auto simp: buckets_wf_def)
  ultimately show ?thesis using okh' by (simp add: pool_ok_def)
qed

lemma pool_ok_hit:
  assumes ok: "pool_ok blocks okh (P, h)" and free: "free_blocks P b = block # rest"
  shows "pool_ok blocks okh
    (P\<lparr>free_blocks := (free_blocks P)(b := rest),
       active_blocks := (active_blocks P)(block_ptr block \<mapsto> (Some b, block_size block)),
       active_bytes := active_bytes P + block_size block, pooled_bytes := pooled_bytes P - block_size block,
       total_allocs := total_allocs P + 1, cache_hits := cache_hits P + 1\<rparr>, h)"
    and "active_blocks P (block_ptr block) = None" and "block_ptr block \<noteq> 0"
    and "block_size block = bucket_sizes P ! b"
proof -
  let ?F = "P\<lparr>free_blocks := (free_blocks P)(b := rest)\<rparr>"
  let ?P = "P\<lparr>free_blocks := (free_blocks P)(b := rest),
       active_blocks := (active_blocks P)(block_ptr block \<mapsto> (Some b, block_size block)),
       active_bytes := active_bytes P + block_size block, pooled_bytes := pooled_bytes P - block_size block,
       total_allocs := total_allocs P + 1, cache_hits := cache_hits P + 1\<rparr>"
  from ok have pw: "pointers_wf blocks (P, h)" and cw: "counters_wf P" and bw: "buckets_wf P"
    and okh: "okh h" by (auto simp: pool_ok_def)
  have b: "b < length (bucket_sizes P)"
    using bw free by (cases "b < length (bucket_sizes P)") (auto simp: buckets_wf_def not_less)
  have ms: "mset (cached_blocks P) = add_mset block (mset (cached_blocks ?F))"
    using cached_blocks_upd [OF b, of rest] free by simp
  have eq: "cached_blocks ?P = cached_blocks ?F" by (simp add: cached_blocks_def)
  have "mset (map block_ptr (cached_blocks P)) = mset (block_ptr block # map block_ptr (cached_blocks ?F))"
    using ms by (metis list.simps(9) mset.simps(2) mset_map)
  then have dist: "distinct (block_ptr block # map block_ptr (cached_blocks ?F))"
    using pw mset_eq_imp_distinct_iff by (fastforce simp: pointers_wf_def)
  have sets: "set (cached_blocks P) = insert block (set (cached_blocks ?F))"
    using ms by (metis set_mset_add_mset_insert set_mset_mset)
  have sum: "sum_list (map block_size (cached_blocks P)) = block_size block + sum_list (map block_size (cached_blocks ?F))"
    using ms by (metis (no_types, lifting) list.simps(9) mset.simps(2) mset_map sum_list.Cons sum_mset_sum_list)
  from pw sets show none: "active_blocks P (block_ptr block) = None"
    and nn: "block_ptr block \<noteq> 0" by (auto simp: pointers_wf_def block_wf_def)
  from bw free show sz: "block_size block = bucket_sizes P ! b" by (auto simp: buckets_wf_def)
  from dist have notin: "\<forall>block'\<in>set (cached_blocks ?F). block_ptr block' \<noteq> block_ptr block"
    by (auto simp: image_iff)
  have "pointers_wf blocks (?P, h)"
    using pw dist notin sets none by (auto simp: pointers_wf_def eq)
  moreover have "active_sum ?P = active_sum P + block_size block"
    using cw none by (intro active_sum_upd [of _ "block_ptr block" _ "Some b"]) (auto simp: counters_wf_def)
  then have "counters_wf ?P" using cw sum by (auto simp: counters_wf_def eq)
  moreover have "buckets_wf ?P" using bw b sz free by (auto simp: buckets_wf_def split: if_splits)
  ultimately show "pool_ok blocks okh (?P, h)" using okh by (simp add: pool_ok_def)
qed

lemma pool_ok_release:
  assumes ok: "pool_ok blocks okh (P, h)" and act: "active_blocks P p = Some (bk, n)"
    and okh': "okh h'" and upd: "blocks h' = (blocks h)(p := None)"
  shows "pool_ok blocks okh
    (P\<lparr>active_bytes := active_bytes P - n, active_blocks := (active_blocks P)(p := None)\<rparr>, h')"
proof -
  let ?P = "P\<lparr>active_bytes := active_bytes P - n, active_blocks := (active_blocks P)(p := None)\<rparr>"
  from ok have pw: "pointers_wf blocks (P, h)" and cw: "counters_wf P" and bw: "buckets_wf P"
    by (auto simp: pool_ok_def)
  have "\<forall>block\<in>set (cached_blocks P). block_ptr block \<noteq> p"
    using pw act by (fastforce simp: pointers_wf_def)
  then have "pointers_wf blocks (?P, h')"
    using pw upd by (auto simp: pointers_wf_def block_wf_def)
  moreover have "active_sum ?P = active_sum P - n"
    using cw act by (intro active_sum_remove [of _ p bk]) (auto simp: counters_wf_def)
  then have "counters_wf ?P" using cw by (auto simp: counters_wf_def)
  moreover have "buckets_wf ?P" using bw by (auto simp: buckets_wf_def split: if_splits)
  ultimately show ?thesis using okh' by (simp add: pool_ok_def)
qed

lemma pool_ok_cache:
  assumes ok: "pool_ok blocks okh (P, h)" and act: "active_blocks P p = Some (Some b, n)"
    and room: "\<not> (0 < max_pooled_bytes (pl_options P) \<and> max_pooled_bytes (pl_options P) < pooled_bytes P + n)"
  shows "pool_ok blocks okh
    (P\<lparr>active_bytes := active_bytes P - n, active_blocks := (active_blocks P)(p := None),
       free_blocks := (free_blocks P)(b := free_blocks P b @ [\<lparr>block_ptr = p, block_size = n\<rparr>]),
       pooled_bytes := pooled_bytes P + n\<rparr>, h)"
proof -
  let ?block = "\<lparr>block_ptr = p, block_size = n\<rparr>"
  let ?F = "P\<lparr>free_blocks := (free_blocks P)(b := free_blocks P b @ [?block])\<rparr>"
  let ?P = "P\<lparr>active_bytes := active_bytes P - n, active_blocks := (active_blocks P)(p := None),
       free_blocks := (free_blocks P)(b := free_blocks P b @ [?block]), pooled_bytes := pooled_bytes P + n\<rparr>"
  from ok have pw: "pointers_wf blocks (P, h)" and cw: "counters_wf P" and bw: "buckets_wf P"
    and okh: "okh h" by (auto simp: pool_ok_def)
  from bw act have b: "b < length (bucket_sizes P)" and n: "n = bucket_sizes P ! b"
    by (auto simp: buckets_wf_def)
  have eq: "cached_blocks ?P = cached_blocks ?F" by (simp add: cached_blocks_def)
  have ms: "mset (cached_blocks ?F) = add_mset ?block (mset (cached_blocks P))"
    using cached_blocks_upd [OF b, of "free_blocks P b @ [?block]"] by simp
  have notin: "\<forall>block\<in>set (cached_blocks P). block_ptr block \<noteq> p"
    using pw act by (fastforce simp: pointers_wf_def)
  have "mset (map block_ptr (cached_blocks ?F)) = mset (p # map block_ptr (cached_blocks P))"
    using ms by simp
  then have "distinct (map block_ptr (cached_blocks ?F)) \<longleftrightarrow> distinct (p # map block_ptr (cached_blocks P))"
    by (rule mset_eq_imp_distinct_iff)
  then have dist: "distinct (map block_ptr (cached_blocks ?F))"
    using pw notin by (auto simp: pointers_wf_def)
  have sets: "set (cached_blocks ?F) = insert ?block (set (cached_blocks P))"
    using ms by (metis set_mset_add_mset_insert set_mset_mset)
  have "mset (map block_size (cached_blocks ?F)) = mset (n # map block_size (cached_blocks P))"
    using ms by simp
  then have sum: "sum_list (map block_size (cached_blocks ?F)) = n + sum_list (map block_size (cached_blocks P))"
    by (metis sum_list.Cons sum_mset_sum_list)
  have "pointers_wf blocks (?P, h)"
    using pw dist notin sets act unfolding pointers_wf_def prod.case eq by auto
  moreover have "active_sum ?P = active_sum P - n"
    using cw act by (intro active_sum_remove [of _ p "Some b"]) (auto simp: counters_wf_def)
  then have "counters_wf ?P" using cw sum room unfolding counters_wf_def eq by auto
  moreover have "buckets_wf ?P" using bw b n by (auto simp: buckets_wf_def split: if_splits)
  ultimately show ?thesis using okh by (simp add: pool_ok_def)
qed

section \<open>The pool keeps the promise\<close>

lemma pool_fits: "buckets_wf P \<Longrightarrow> n \<le> max_bucket_size (pl_options P) \<Longrightarrow>
    bucket_index P n < length (bucket_sizes P) \<and> n \<le> bucket_sizes P ! bucket_index P n"
  using bucket_index_less [of P n] bucket_index_fits [of P n] by (auto simp: buckets_wf_def)

lemmas pool_allocate_cases = pool_allocate_def Let_def and_then_Inr

context allocator begin

lemma pool_allocate_laws:
  assumes ok: "pool_ok blocks ok (P, h)" and n: "0 < n" and alloc: "pool_allocate H n (P, h) = Inr (p, S)"
  shows "pool_ok blocks ok S \<and> p \<noteq> 0 \<and> pool_blocks (P, h) p = None
    \<and> (\<exists>m\<ge>n. pool_blocks S = (pool_blocks (P, h))(p \<mapsto> m))"
proof -
  have okh: "ok h" and bw: "buckets_wf P" using assms(1) by (auto simp: pool_ok_def)
  have new: ?thesis
    if alloc: "ho_allocate H m h = Inr (p, h')" "n \<le> m"
      and bk: "\<And>b. bk = Some b \<Longrightarrow> b < length (bucket_sizes P) \<and> m = bucket_sizes P ! b"
      and S: "S = (P\<lparr>active_blocks := (active_blocks P)(p \<mapsto> (bk, m)), active_bytes := active_bytes P + m,
       total_allocs := total_allocs P + 1\<rparr>, h')" for m h' bk
  proof -
    from alloc(2) n have m: "0 < m" by simp
    from allocate_fresh [OF okh m alloc(1)] have fresh: "blocks h p = None" "p \<noteq> 0" by auto
    from allocate_blocks [OF okh m alloc(1)] obtain m' where m': "m \<le> m'" "blocks h' = (blocks h)(p \<mapsto> m')" by auto
    from pool_ok_add [OF ok allocate_ok [OF okh m alloc(1)] fresh m'(2,1) bk] S
    have "pool_ok blocks ok S" by simp
    moreover have "active_blocks P p = None"
      using ok fresh by (cases "active_blocks P p") (fastforce simp: pool_ok_def pointers_wf_def block_wf_def)+
    ultimately show ?thesis using fresh alloc(2) S
      by (auto simp: pool_blocks_def fun_eq_iff)
  qed
  show ?thesis
  proof (cases "max_bucket_size (pl_options P) < n")
    case True
    with alloc n obtain h' where "ho_allocate H n h = Inr (p, h')"
      "S = (P\<lparr>active_blocks := (active_blocks P)(p \<mapsto> (None, n)), active_bytes := active_bytes P + n,
         total_allocs := total_allocs P + 1\<rparr>, h')" by (auto simp: pool_allocate_cases)
    from new [OF this(1) _ _ this(2)] show ?thesis by simp
  next
    case False
    then have fits: "bucket_index P n < length (bucket_sizes P)" "n \<le> bucket_sizes P ! bucket_index P n"
      using pool_fits [OF bw] by auto
    show ?thesis
    proof (cases "free_blocks P (bucket_index P n)")
      case Nil
      with alloc n False obtain h' where "ho_allocate H (bucket_sizes P ! bucket_index P n) h = Inr (p, h')"
        "S = (P\<lparr>active_blocks := (active_blocks P)(p \<mapsto> (Some (bucket_index P n), bucket_sizes P ! bucket_index P n)),
           active_bytes := active_bytes P + bucket_sizes P ! bucket_index P n,
           total_allocs := total_allocs P + 1\<rparr>, h')" by (auto simp: pool_allocate_cases)
      from new [OF this(1) fits(2) _ this(2)] fits(1) show ?thesis by simp
    next
      case (Cons block rest)
      from pool_ok_hit [OF ok Cons] alloc n False fits Cons show ?thesis
        by (auto simp: pool_allocate_cases pool_blocks_def fun_eq_iff)
    qed
  qed
qed

lemma pool_deallocate_laws:
  assumes ok: "pool_ok blocks ok (P, h)" and act: "active_blocks P p = Some (bk, n)"
  shows "pool_ok blocks ok (snd (pool_deallocate H p (P, h))) \<and> fst (pool_deallocate H p (P, h)) = status_OK
    \<and> pool_blocks (snd (pool_deallocate H p (P, h))) = (pool_blocks (P, h))(p := None)"
proof -
  from ok act have wf: "block_wf blocks h p n" and okh: "ok h" by (auto simp: pool_ok_def pointers_wf_def)
  then have p: "p \<noteq> 0" "blocks h p \<noteq> None" by (auto simp: block_wf_def)
  note rel = pool_ok_release [OF ok act deallocate_ok [OF okh p(2)] deallocate_blocks [OF okh p(2)]]
  show ?thesis
  proof (cases bk)
    case None
    with rel p act show ?thesis by (auto simp: pool_deallocate_def pool_blocks_def fun_eq_iff)
  next
    case (Some b)
    with act have act': "active_blocks P p = Some (Some b, n)" by simp
    from rel p act' Some pool_ok_cache [OF ok act'] show ?thesis
      by (auto simp: pool_deallocate_def pool_blocks_def Let_def fun_eq_iff)
  qed
qed

lemma pool_is_allocator: "allocator (pool_allocator H) pool_blocks (pool_ok blocks ok)"
proof
  fix S S' :: "pool \<times> 'h" and p n
  obtain P h where S: "S = (P, h)" by (cases S)
  show "ho_allocate (pool_allocator H) 0 S = Inr (0, S)"
    by (simp add: S pool_allocator_def pool_allocate_def)
  show "pool_ok blocks ok S \<Longrightarrow> pool_blocks S 0 = None"
    by (cases "active_blocks P 0") (auto simp: S pool_ok_def pointers_wf_def block_wf_def pool_blocks_def)
  {
    assume "pool_ok blocks ok S" "0 < n" "ho_allocate (pool_allocator H) n S = Inr (p, S')"
    from pool_allocate_laws [of P h n p S'] this
    show "pool_blocks S p = None \<and> p \<noteq> 0" "pool_ok blocks ok S'"
      "\<exists>m\<ge>n. pool_blocks S' = (pool_blocks S)(p \<mapsto> m)"
      by (simp_all add: S pool_allocator_def)
  }
  {
    assume "pool_ok blocks ok S" "pool_blocks S p \<noteq> None"
    then show "pool_ok blocks ok (snd (ho_deallocate (pool_allocator H) p S))"
      "pool_blocks (snd (ho_deallocate (pool_allocator H) p S)) = (pool_blocks S)(p := None)"
      using pool_deallocate_laws [of P h p] by (auto simp: S pool_allocator_def pool_blocks_def)
  }
qed

lemma deallocate_fold:
  assumes "ok h" "distinct (map block_ptr bs)" "\<forall>block\<in>set bs. blocks h (block_ptr block) \<noteq> None"
  shows "ok (fold (\<lambda>block h. snd (ho_deallocate H (block_ptr block) h)) bs h)
    \<and> blocks (fold (\<lambda>block h. snd (ho_deallocate H (block_ptr block) h)) bs h) = blocks h |` (- block_ptr ` set bs)"
  using assms
proof (induction bs arbitrary: h)
  case (Cons b bs)
  then have "ok h" "blocks h (block_ptr b) \<noteq> None" by auto
  note here = deallocate_ok [OF this] deallocate_blocks [OF this]
  have "\<forall>block\<in>set bs. blocks (snd (ho_deallocate H (block_ptr b) h)) (block_ptr block) \<noteq> None"
    using Cons.prems by (auto simp: here image_iff)
  from Cons.IH [OF here(1) _ this] Cons.prems(2) show ?case
    by (auto simp: here restrict_map_def fun_eq_iff)
qed (simp add: restrict_map_def)

lemma release_cache_laws:
  assumes "pool_ok blocks ok (P, h)"
  shows "pool_ok blocks ok (release_cache H (P, h))"
    and "pool_blocks (release_cache H (P, h)) = pool_blocks (P, h)"
    and "blocks (snd (release_cache H (P, h))) = blocks h |` (- block_ptr ` set (cached_blocks P))"
proof -
  have pw: "pointers_wf blocks (P, h)" using assms by (simp add: pool_ok_def)
  have "\<forall>block\<in>set (cached_blocks P). blocks h (block_ptr block) \<noteq> None"
    using pw by (fastforce simp: pointers_wf_def block_wf_def)
  then have f: "ok (snd (release_cache H (P, h)))"
    "blocks (snd (release_cache H (P, h))) = blocks h |` (- block_ptr ` set (cached_blocks P))"
    using deallocate_fold [of h "cached_blocks P"] assms
    by (auto simp: release_cache_def pool_ok_def pointers_wf_def)
  have c: "cached_blocks (fst (release_cache H (P, h))) = []"
    by (simp add: cached_blocks_def release_cache_def)
  have a: "active_blocks (fst (release_cache H (P, h))) = active_blocks P"
    by (simp add: release_cache_def)
  have "\<forall>p b n. active_blocks P p = Some (b, n) \<longrightarrow> p \<notin> block_ptr ` set (cached_blocks P)"
    using pw by (fastforce simp: pointers_wf_def)
  then have "pointers_wf blocks (release_cache H (P, h))"
    using pw f(2) c a by (cases "release_cache H (P, h)") (auto simp: pointers_wf_def block_wf_def)
  then show "pool_ok blocks ok (release_cache H (P, h))"
    using assms f(1) c by (cases "release_cache H (P, h)")
      (auto simp: pool_ok_def buckets_wf_def counters_wf_def active_sum_def release_cache_def)
  show "pool_blocks (release_cache H (P, h)) = pool_blocks (P, h)"
    by (simp add: release_cache_def pool_blocks_def)
  show "blocks (snd (release_cache H (P, h))) = blocks h |` (- block_ptr ` set (cached_blocks P))"
    by (rule f(2))
qed

end

text \<open>A new pool satisfies the invariant, so every run of operations on it does.\<close>

lemma new_pool_ok:
  assumes "new_pool opts = Some (Inr P)" "ok h"
  shows "pool_ok blocks ok (P, h)"
proof -
  from assms(1) obtain bs where "pool_buckets (pl_options P) = Some (Inr bs)" "bucket_sizes P = bs"
    "free_blocks P = (\<lambda>_. [])" "active_blocks P = (\<lambda>_. None)" "pooled_bytes P = 0" "active_bytes P = 0"
    "cache_hits P = 0"
    by (auto simp: new_pool_def Let_def and_then_Inr split: if_splits)
  moreover have "cached_blocks P = []" using calculation(3) by (simp add: cached_blocks_def)
  ultimately show ?thesis using pool_buckets_last assms(2)
    by (fastforce simp: pool_ok_def buckets_wf_def counters_wf_def pointers_wf_def active_sum_def)
qed

datatype pool_op = Allocate nat | Deallocate ptr | ReleaseCache

fun pool_step :: "'h heap_ops \<Rightarrow> pool_op \<Rightarrow> pool \<times> 'h \<Rightarrow> pool \<times> 'h" where
  "pool_step H (Allocate n) S = (case pool_allocate H n S of Inl _ \<Rightarrow> S | Inr (p, S') \<Rightarrow> S')"
| "pool_step H (Deallocate p) S = snd (pool_deallocate H p S)"
| "pool_step H ReleaseCache S = release_cache H S"

context allocator begin

lemma pool_step_ok:
  assumes "pool_ok blocks ok S"
  shows "pool_ok blocks ok (pool_step H operation S)"
proof -
  obtain P h where S: "S = (P, h)" by (cases S)
  show ?thesis
  proof (cases operation)
    case (Allocate n)
    show ?thesis
    proof (cases "pool_allocate H n (P, h)")
      case (Inr r)
      have "pool_ok blocks ok (snd r)"
      proof (cases "n = 0")
        case True
        with Inr assms show ?thesis by (auto simp: S pool_allocate_def)
      next
        case False
        with Inr assms pool_allocate_laws [of P h n "fst r" "snd r"] show ?thesis by (simp add: S)
      qed
      with Inr Allocate show ?thesis by (simp add: S split_def)
    qed (use Allocate assms in \<open>simp add: S\<close>)
  next
    case (Deallocate p)
    show ?thesis
    proof (cases "active_blocks P p")
      case None
      then show ?thesis using Deallocate assms by (simp add: S pool_deallocate_def)
    next
      case (Some r)
      then show ?thesis using Deallocate assms pool_deallocate_laws [of P h p "fst r" "snd r"]
        by (simp add: S)
    qed
  next
    case ReleaseCache
    then show ?thesis using assms release_cache_laws(1) by (simp add: S)
  qed
qed

lemma pool_run_ok: "pool_ok blocks ok S \<Longrightarrow> pool_ok blocks ok (fold (pool_step H) operations S)"
  by (induction operations arbitrary: S) (simp_all add: pool_step_ok)

end

interpretation pooled: allocator "pool_allocator (malloc_allocator (bounded_malloc limit))" pool_blocks
    "pool_ok map_of (\<lambda>h. map_of h 0 = None)" for limit
  by (rule host.pool_is_allocator)

section \<open>What the pool guarantees\<close>

text \<open>Any run of allocations, deallocations and releases on a new pool over the host's heap.\<close>

definition pool_run :: "(host_heap \<Rightarrow> nat \<Rightarrow> ptr option) \<Rightarrow> pool \<Rightarrow> pool_op list \<Rightarrow> pool \<times> host_heap" where
  "pool_run malloc P operations = fold (pool_step (malloc_allocator malloc)) operations (P, [])"

lemma pool_run_wf:
  assumes "malloc_fresh malloc" "new_pool opts = Some (Inr P)"
  shows "pool_ok map_of (\<lambda>h. map_of h 0 = None) (pool_run malloc P operations)"
  unfolding pool_run_def
  by (rule allocator.pool_run_ok [OF malloc_allocator_laws [OF assms(1)] new_pool_ok [OF assms(2)]]) simp

text \<open>C21. After any run of operations on a new pool its counters are exact: the pooled bytes are
  the sizes of the cached blocks and stay below the high-water mark, the active bytes are the sizes
  of the blocks handed out, and cached and active blocks are pairwise different live blocks of the heap.\<close>

theorem pool_run_accounts:
  assumes "malloc_fresh malloc" "new_pool opts = Some (Inr P)" "pool_run malloc P operations = (Q, h)"
  shows "pooled_bytes Q = sum_list (map block_size (cached_blocks Q))
    \<and> active_bytes Q = (\<Sum>p\<in>dom (active_blocks Q). snd (the (active_blocks Q p)))
    \<and> (max_pooled_bytes (pl_options Q) = 0 \<or> pooled_bytes Q \<le> max_pooled_bytes (pl_options Q))
    \<and> distinct (map block_ptr (cached_blocks Q))
    \<and> block_ptr ` set (cached_blocks Q) \<inter> dom (active_blocks Q) = {}
    \<and> block_ptr ` set (cached_blocks Q) \<union> dom (active_blocks Q) \<subseteq> dom (map_of h)"
proof -
  from pool_run_wf [OF assms(1,2), of operations] assms(3)
  have "counters_wf Q" "pointers_wf map_of (Q, h)" by (auto simp: pool_ok_def)
  then show ?thesis
    by (fastforce simp: counters_wf_def pointers_wf_def active_sum_def block_wf_def)
qed

definition tiny_options :: pool_options where
  "tiny_options = \<lparr>min_bucket_size = 1, max_bucket_size = 4, bucket_growth = 2, max_pooled_bytes = 6\<rparr>"

definition tiny_pool :: pool where
  "tiny_pool = \<lparr>pl_options = tiny_options, bucket_sizes = [1, 2, 4], free_blocks = (\<lambda>_. []),
     active_blocks = (\<lambda>_. None), pooled_bytes = 0, active_bytes = 0, total_allocs = 0, cache_hits = 0\<rparr>"

lemma tiny_pool_new: "new_pool tiny_options = Some (Inr tiny_pool)"
  by (simp add: new_pool_def pool_buckets_def tiny_pool_def tiny_options_def bucket_loop.simps next_bucket_def)

theorem pool_run_accounts_witness:
  "\<exists>Q h. pool_run (bounded_malloc 100) tiny_pool [Allocate 3, Allocate 9, Deallocate 1, Allocate 4] = (Q, h)
    \<and> pooled_bytes Q = sum_list (map block_size (cached_blocks Q)) \<and> active_bytes Q = 13"
proof -
  obtain Q h where run: "pool_run (bounded_malloc 100) tiny_pool [Allocate 3, Allocate 9, Deallocate 1, Allocate 4] = (Q, h)"
    by fastforce
  moreover have "active_bytes Q = 13" using run
    by (auto simp: pool_run_def tiny_pool_def tiny_options_def pool_allocate_def pool_deallocate_def bucket_index_def
      malloc_allocator_def malloc_allocate_def bounded_malloc_def)
  ultimately show ?thesis
    using pool_run_accounts [OF bounded_malloc_fresh tiny_pool_new run] by auto
qed

text \<open>C22. An allocation of a positive size from a pool in any reachable state returns a block that was not
  handed out before, that the heap holds with at least the size asked for, and leaves every other
  active block as it is.\<close>

theorem pool_allocate_safe:
  assumes "malloc_fresh malloc" "new_pool opts = Some (Inr P)" "0 < n"
    "pool_run malloc P operations = (P', h')" "pool_allocate (malloc_allocator malloc) n (P', h') = Inr (p, Q, h)"
  shows "p \<noteq> 0 \<and> active_blocks P' p = None
    \<and> (\<exists>bucket m room. active_blocks Q p = Some (bucket, m) \<and> n \<le> m \<and> m \<le> room \<and> map_of h p = Some room)
    \<and> (\<forall>q. q \<noteq> p \<longrightarrow> active_blocks Q q = active_blocks P' q)"
proof -
  from pool_run_wf [OF assms(1,2), of operations]
  have ok: "pool_ok map_of (\<lambda>h. map_of h 0 = None) (P', h')" by (simp only: assms(4))
  from allocator.pool_allocate_laws [OF malloc_allocator_laws [OF assms(1)] ok assms(3,5)]
  obtain m where okQ: "pool_ok map_of (\<lambda>h. map_of h 0 = None) (Q, h)" and p: "p \<noteq> 0"
    "pool_blocks (P', h') p = None" "n \<le> m" "pool_blocks (Q, h) = (pool_blocks (P', h'))(p \<mapsto> m)" by auto
  from p(2) have "active_blocks P' p = None" by (simp add: pool_blocks_def)
  moreover from fun_cong [OF p(4), of p] obtain bk where bk: "active_blocks Q p = Some (bk, m)"
    by (auto simp: pool_blocks_def)
  moreover from okQ bk have "\<exists>room\<ge>m. map_of h p = Some room"
    by (auto simp: pool_ok_def pointers_wf_def block_wf_def)
  moreover have "\<forall>q. q \<noteq> p \<longrightarrow> active_blocks Q q = active_blocks P' q"
    using assms(3,5) by (auto simp: pool_allocate_cases split: if_splits list.splits)
  ultimately show ?thesis using p(1,3) by blast
qed

theorem pool_allocate_safe_witness:
  "pool_run (bounded_malloc 100) tiny_pool [] = (tiny_pool, [])
    \<and> (\<exists>Q h. pool_allocate (malloc_allocator (bounded_malloc 100)) 3 (tiny_pool, []) = Inr (1, Q, h)
         \<and> active_blocks Q 1 \<noteq> None)"
proof -
  have run: "pool_run (bounded_malloc 100) tiny_pool [] = (tiny_pool, [])" by (simp add: pool_run_def)
  obtain Q h where "pool_allocate (malloc_allocator (bounded_malloc 100)) 3 (tiny_pool, []) = Inr (1, Q, h)"
    by (auto simp: tiny_pool_def tiny_options_def pool_allocate_def bucket_index_def malloc_allocator_def
      malloc_allocate_def bounded_malloc_def)
  with run pool_allocate_safe [OF bounded_malloc_fresh tiny_pool_new _ run this] show ?thesis by auto
qed

text \<open>Freeing a block twice is rejected: the second call returns \<open>InvalidArgument\<close> and changes nothing.\<close>

theorem pool_double_free:
  assumes "pool_deallocate H p S = (status_OK, S')" "p \<noteq> 0"
  shows "pool_deallocate H p S' = (Status InvalidArgument ''MemoryPool: deallocating unknown pointer'', S')"
proof -
  obtain P h where S: "S = (P, h)" by (cases S)
  from assms have "active_blocks (fst S') p = None"
    by (auto simp: S pool_deallocate_def Let_def status_OK_def split: option.splits if_splits)
  then show ?thesis using assms(2) by (cases S') (simp add: pool_deallocate_def)
qed

theorem pool_double_free_witness:
  "pool_deallocate (malloc_allocator (bounded_malloc 9)) 1 (pool_run (bounded_malloc 9) tiny_pool [Allocate 4, Deallocate 1])
    = (Status InvalidArgument ''MemoryPool: deallocating unknown pointer'',
       pool_run (bounded_malloc 9) tiny_pool [Allocate 4, Deallocate 1])"
proof (rule pool_double_free)
  show "pool_deallocate (malloc_allocator (bounded_malloc 9)) 1 (pool_run (bounded_malloc 9) tiny_pool [Allocate 4])
    = (status_OK, pool_run (bounded_malloc 9) tiny_pool [Allocate 4, Deallocate 1])"
    by (simp add: pool_run_def tiny_pool_def tiny_options_def pool_allocate_def pool_deallocate_def bucket_index_def
      malloc_allocator_def malloc_allocate_def bounded_malloc_def)
qed simp

text \<open>C23. The constructor returns, with increasing bucket sizes that end in the largest one, whenever the
  smallest bucket is not empty and the sizes stay below \<open>2 ^ 63\<close>.\<close>

theorem new_pool_returns:
  assumes "0 < min_bucket_size opts" "of_nat (max_bucket_size opts) * max 2 (bucket_growth opts) < 2 ^ 63"
  shows "\<exists>P. new_pool opts = Some (Inr P) \<and> sorted_wrt (<) (bucket_sizes P)
    \<and> last (bucket_sizes P) = max_bucket_size opts"
proof -
  let ?opts = "if bucket_growth opts < 101 / 100 then opts\<lparr>bucket_growth := 2\<rparr> else opts"
  let ?g = "bucket_growth ?opts"
  let ?m = "max_bucket_size opts"
  have g: "0 < ?g" "?g \<le> max 2 (bucket_growth opts)" by auto
  have "of_nat ?m * ?g \<le> of_nat ?m * max 2 (bucket_growth opts)"
    by (rule mult_left_mono [OF g(2)]) simp
  with assms(2) have below: "of_nat ?m * ?g < 2 ^ 63" by linarith
  have "(of_nat ?m :: rat) * 2 \<le> of_nat ?m * max 2 (bucket_growth opts)"
    by (rule mult_left_mono) simp_all
  with assms(2) have "(of_nat ?m :: rat) < 2 ^ 63" by linarith
  then have "?m < 2 ^ 63" by (metis of_nat_less_iff of_nat_numeral of_nat_power)
  from bucket_loop_total [OF assms(1) g(1) below this, of "[]"] obtain bs
    where bs: "bucket_loop ?g ?m (min_bucket_size opts) [] = Some (Inr bs)" "sorted_wrt (<) bs"
      "\<forall>b\<in>set bs. min_bucket_size opts \<le> b \<and> b \<le> ?m" by auto
  let ?bs = "if bs = [] \<or> last bs < ?m then bs @ [?m] else bs"
  have "sorted_wrt (<) ?bs \<and> last ?bs = ?m"
  proof (cases "bs = [] \<or> last bs < ?m")
    case True
    moreover have "b < ?m" if "last bs < ?m" "b \<in> set bs" for b
      using that bs(2) by (cases bs rule: rev_cases) (auto simp: sorted_wrt_append)
    ultimately show ?thesis using bs(2) by (auto simp: sorted_wrt_append)
  next
    case False
    with bs(3) have "last bs = ?m" by (meson last_in_set le_antisym not_less)
    with False bs(2) show ?thesis by simp
  qed
  then show ?thesis using bs(1)
    by (auto simp: new_pool_def pool_buckets_def Let_def split: if_splits)
qed

theorem new_pool_returns_witness:
  "\<exists>P. new_pool default_pool_options = Some (Inr P) \<and> sorted_wrt (<) (bucket_sizes P)
    \<and> last (bucket_sizes P) = 67108864"
  using new_pool_returns [of default_pool_options] by (simp add: default_pool_options_def)

text \<open>C24. With a smallest bucket of size 0, which the growth check of the constructor does not exclude,
  the constructor does not return.\<close>

theorem new_pool_zero_diverges: "min_bucket_size opts = 0 \<Longrightarrow> new_pool opts = None"
  by (simp add: new_pool_def Let_def pool_buckets_def bucket_loop_zero)

theorem new_pool_zero_diverges_witness: "new_pool (tiny_options\<lparr>min_bucket_size := 0\<rparr>) = None"
  by (rule new_pool_zero_diverges) simp

end
