(* ===== verification/Hip_Memory.thy ===== *)
theory Hip_Memory
  imports Memory_Pool Device_Layer
begin

text \<open>
  The memory and the devices of \<open>HipBackend\<close> (\<open>src/backends/hip/hip_backend.cc\<close>): the allocator
  over the HIP runtime, the memory pools that every backend of a device shares, the buffers made
  from them, the shared rocBLAS handles, and the devices the backend reports. The HIP runtime is
  the record \<open>hip_driver\<close>; it has one heap for each device and type of memory.
\<close>

unbundle bit_operations_syntax

section \<open>The runtime and its allocator\<close>

text \<open>A failed call gives the runtime's message.\<close>

record ('h, 'b) hip_driver =
  hd_select :: "int \<Rightarrow> bool"
  hd_malloc :: "nat \<Rightarrow> 'h \<Rightarrow> string + ptr \<times> 'h"
  hd_malloc_managed :: "nat \<Rightarrow> 'h \<Rightarrow> string + ptr \<times> 'h"
  hd_host_malloc :: "nat \<Rightarrow> 'h \<Rightarrow> string + ptr \<times> 'h"
  hd_free :: "ptr \<Rightarrow> 'h \<Rightarrow> string option \<times> 'h"
  hd_host_free :: "ptr \<Rightarrow> 'h \<Rightarrow> string option \<times> 'h"
  hd_device_count :: "int option"
  hd_integrated :: "int \<Rightarrow> bool option"
  hd_create_handle :: "int \<Rightarrow> 'b option"

definition hip_error_to_status :: "string option \<Rightarrow> status" where
  "hip_error_to_status err = (case err of None \<Rightarrow> status_OK | Some m \<Rightarrow> Status BackendError m)"

definition hip_allocation :: "string + ptr \<times> 'h \<Rightarrow> (ptr \<times> 'h) result" where
  "hip_allocation r = (case r of Inl m \<Rightarrow> fails BackendError m | Inr x \<Rightarrow> Inr x)"

definition hip_allocate :: "('h, 'b) hip_driver \<Rightarrow> memory_type \<Rightarrow> nat \<Rightarrow> 'h \<Rightarrow> (ptr \<times> 'h) result" where
  "hip_allocate D type n h =
     (if n = 0 then Inr (0, h)
      else hip_allocation
        (case type of
           DeviceMem \<Rightarrow> hd_malloc D n h
         | UnifiedMem \<Rightarrow> hd_malloc_managed D n h
         | HostMem \<Rightarrow> hd_host_malloc D n h
         | HostPinnedMem \<Rightarrow> hd_host_malloc D n h))"

definition hip_deallocate :: "('h, 'b) hip_driver \<Rightarrow> memory_type \<Rightarrow> ptr \<Rightarrow> 'h \<Rightarrow> status \<times> 'h" where
  "hip_deallocate D type p h =
     (if p = 0 then (status_OK, h)
      else (case (if type = DeviceMem \<or> type = UnifiedMem then hd_free D p h else hd_host_free D p h) of
              (err, h') \<Rightarrow> (hip_error_to_status err, h')))"

definition hip_allocator :: "('h, 'b) hip_driver \<Rightarrow> memory_type \<Rightarrow> 'h heap_ops" where
  "hip_allocator D type = \<lparr>ho_allocate = hip_allocate D type, ho_deallocate = hip_deallocate D type\<rparr>"

section \<open>The shared pools\<close>

fun memory_type_value :: "memory_type \<Rightarrow> nat" where
  "memory_type_value DeviceMem = 0"
| "memory_type_value UnifiedMem = 1"
| "memory_type_value HostPinnedMem = 2"
| "memory_type_value HostMem = 3"

definition pool_key :: "int \<Rightarrow> memory_type \<Rightarrow> u64" where
  "pool_key device_id type =
     push_bit 32 (ucast (word_of_int device_id :: u32)) OR of_nat (memory_type_value type)"

definition hip_pool_options :: pool_options where
  "hip_pool_options = default_pool_options\<lparr>max_bucket_size := 8 * 1024 * 1024, bucket_growth := 5 / 4,
     max_pooled_bytes := 256 * 1024 * 1024\<rparr>"

record 'h hip_memory =
  hm_pools :: "u64 \<Rightarrow> pool option"
  hm_heaps :: "u64 \<Rightarrow> 'h"

text \<open>\<open>None\<close> is the constructor of a pool that does not return.\<close>

definition shared_memory_pool ::
  "int \<Rightarrow> memory_type \<Rightarrow> 'h hip_memory \<Rightarrow> (pool \<times> 'h hip_memory) result option" where
  "shared_memory_pool device_id type M =
     (let key = pool_key device_id type in
      case hm_pools M key of
        Some P \<Rightarrow> Some (Inr (P, M))
      | None \<Rightarrow>
          map_option (\<lambda>r. and_then r (\<lambda>P. Inr (P, M\<lparr>hm_pools := (hm_pools M)(key \<mapsto> P)\<rparr>)))
            (new_pool hip_pool_options))"

section \<open>Buffers\<close>

text \<open>The pointer of the new buffer, or none.\<close>

definition create_hip_buffer ::
  "('h, 'b) hip_driver \<Rightarrow> int \<Rightarrow> nat \<Rightarrow> memory_type \<Rightarrow> 'h hip_memory \<Rightarrow> (ptr option \<times> 'h hip_memory) result option" where
  "create_hip_buffer D device_id n type M =
     (if \<not> hd_select D device_id then Some (Inr (None, M))
      else
        map_option (\<lambda>r. and_then r (\<lambda>(P, M).
            let key = pool_key device_id type in
            case pool_allocate (hip_allocator D type) n (P, hm_heaps M key) of
              Inl _ \<Rightarrow> Inr (None, M)
            | Inr (p, P', h') \<Rightarrow>
                Inr (Some p, M\<lparr>hm_pools := (hm_pools M)(key \<mapsto> P'), hm_heaps := (hm_heaps M)(key := h')\<rparr>)))
          (shared_memory_pool device_id type M))"

text \<open>The deleter of a buffer, which keeps the pool alive.\<close>

definition delete_hip_buffer ::
  "('h, 'b) hip_driver \<Rightarrow> int \<Rightarrow> memory_type \<Rightarrow> ptr \<Rightarrow> 'h hip_memory \<Rightarrow> 'h hip_memory" where
  "delete_hip_buffer D device_id type p M =
     (let key = pool_key device_id type in
      case hm_pools M key of
        None \<Rightarrow> M
      | Some P \<Rightarrow>
          (case pool_deallocate (hip_allocator D type) p (P, hm_heaps M key) of
             (_, P', h') \<Rightarrow>
               M\<lparr>hm_pools := (hm_pools M)(key \<mapsto> P'), hm_heaps := (hm_heaps M)(key := h')\<rparr>))"

section \<open>Devices and handles\<close>

definition shared_rocblas_handle ::
  "('h, 'b) hip_driver \<Rightarrow> int \<Rightarrow> (int \<Rightarrow> 'b option) \<Rightarrow> 'b option \<times> (int \<Rightarrow> 'b option)" where
  "shared_rocblas_handle D device_id handles =
     (case handles device_id of
        Some b \<Rightarrow> (Some b, handles)
      | None \<Rightarrow>
          if \<not> hd_select D device_id then (None, handles)
          else
            (case hd_create_handle D device_id of
               None \<Rightarrow> (None, handles)
             | Some b \<Rightarrow> (Some b, handles(device_id \<mapsto> b))))"

definition enumerate_hip_devices :: "('h, 'b) hip_driver \<Rightarrow> device list" where
  "enumerate_hip_devices D =
     (case hd_device_count D of
        None \<Rightarrow> []
      | Some found \<Rightarrow>
          if found \<le> 0 then []
          else
            concat (map (\<lambda>i.
                case hd_integrated D (int i) of
                  None \<Rightarrow> []
                | Some unified \<Rightarrow>
                    [\<lparr>dev_id = int i, dev_type = (if unified then IntegratedGPU else DiscreteGPU),
                      dev_backend = ''hip'', dev_unified = unified\<rparr>])
              [0..<nat found]))"

definition hip_is_available :: "('h, 'b) hip_driver \<Rightarrow> device \<Rightarrow> 'b option \<Rightarrow> bool" where
  "hip_is_available D dev handle \<longleftrightarrow>
     (case hd_device_count D of
        None \<Rightarrow> False
      | Some found \<Rightarrow> 0 \<le> dev_id dev \<and> dev_id dev < found \<and> handle \<noteq> None)"

datatype copy_kind = HostToDevice | DeviceToHost | DeviceToDevice

definition copy_direction :: "memory_type \<Rightarrow> memory_type \<Rightarrow> copy_kind" where
  "copy_direction dst src =
     (if src = HostMem \<and> (dst = DeviceMem \<or> dst = UnifiedMem) then HostToDevice
      else if (src = DeviceMem \<or> src = UnifiedMem) \<and> dst = HostMem then DeviceToHost
      else DeviceToDevice)"

section \<open>What the runtime promises\<close>

text \<open>An allocation gives an address that is neither null nor in use and room for the size asked for;
  freeing a block that is in use takes away that block alone.\<close>

definition malloc_keeps ::
  "('h \<Rightarrow> ptr \<Rightarrow> nat option) \<Rightarrow> ('h \<Rightarrow> bool) \<Rightarrow> (nat \<Rightarrow> 'h \<Rightarrow> string + ptr \<times> 'h) \<Rightarrow> bool" where
  "malloc_keeps blocks ok f \<longleftrightarrow> (\<forall>n h p h'. ok h \<and> 0 < n \<and> f n h = Inr (p, h') \<longrightarrow>
     p \<noteq> 0 \<and> blocks h p = None \<and> ok h' \<and> (\<exists>m\<ge>n. blocks h' = (blocks h)(p \<mapsto> m)))"

definition free_keeps ::
  "('h \<Rightarrow> ptr \<Rightarrow> nat option) \<Rightarrow> ('h \<Rightarrow> bool) \<Rightarrow> (ptr \<Rightarrow> 'h \<Rightarrow> string option \<times> 'h) \<Rightarrow> bool" where
  "free_keeps blocks ok f \<longleftrightarrow> (\<forall>p h. ok h \<and> blocks h p \<noteq> None \<longrightarrow>
     ok (snd (f p h)) \<and> blocks (snd (f p h)) = (blocks h)(p := None))"

definition hip_runtime_laws ::
  "('h, 'b) hip_driver \<Rightarrow> ('h \<Rightarrow> ptr \<Rightarrow> nat option) \<Rightarrow> ('h \<Rightarrow> bool) \<Rightarrow> bool" where
  "hip_runtime_laws D blocks ok \<longleftrightarrow> (\<forall>h. ok h \<longrightarrow> blocks h 0 = None)
     \<and> malloc_keeps blocks ok (hd_malloc D) \<and> malloc_keeps blocks ok (hd_malloc_managed D)
     \<and> malloc_keeps blocks ok (hd_host_malloc D)
     \<and> free_keeps blocks ok (hd_free D) \<and> free_keeps blocks ok (hd_host_free D)"

lemma hip_allocation_Inr [simp]: "hip_allocation r = Inr x \<longleftrightarrow> r = Inr x"
  by (cases r) (auto simp: hip_allocation_def)

lemma malloc_keepsD:
  "malloc_keeps blocks ok f \<Longrightarrow> ok h \<Longrightarrow> 0 < n \<Longrightarrow> f n h = Inr (p, h') \<Longrightarrow>
    p \<noteq> 0 \<and> blocks h p = None \<and> ok h' \<and> (\<exists>m\<ge>n. blocks h' = (blocks h)(p \<mapsto> m))"
  unfolding malloc_keeps_def by blast

lemma hip_allocate_Inr:
  assumes "hip_runtime_laws D blocks ok" "ok h" "0 < n" "hip_allocate D type n h = Inr (p, h')"
  shows "p \<noteq> 0 \<and> blocks h p = None \<and> ok h' \<and> (\<exists>m\<ge>n. blocks h' = (blocks h)(p \<mapsto> m))"
proof -
  from assms(3,4) obtain f where "f \<in> {hd_malloc D, hd_malloc_managed D, hd_host_malloc D}" "f n h = Inr (p, h')"
    by (cases type) (auto simp: hip_allocate_def)
  with assms(1) show ?thesis
    using malloc_keepsD [where blocks = blocks and ok = ok and f = f and h = h and n = n and p = p and h' = h'] assms(2,3)
    by (auto simp: hip_runtime_laws_def)
qed

lemma hip_deallocate_keeps:
  assumes "hip_runtime_laws D blocks ok" "ok h" "blocks h p \<noteq> None"
  shows "ok (snd (hip_deallocate D type p h))"
    and "blocks (snd (hip_deallocate D type p h)) = (blocks h)(p := None)"
proof -
  have "p \<noteq> 0" using assms by (cases "p = 0") (auto simp: hip_runtime_laws_def)
  then show "ok (snd (hip_deallocate D type p h))"
    "blocks (snd (hip_deallocate D type p h)) = (blocks h)(p := None)"
    using assms by (auto simp: hip_deallocate_def hip_runtime_laws_def free_keeps_def split_def)
qed

text \<open>So the allocator over the runtime keeps the promise that the pool relies on.\<close>

lemma hip_allocator_laws:
  assumes "hip_runtime_laws D blocks ok"
  shows "allocator (hip_allocator D type) blocks ok"
proof
  fix h h' p n
  show "ho_allocate (hip_allocator D type) 0 h = Inr (0, h)"
    by (simp add: hip_allocator_def hip_allocate_def)
  show "ok h \<Longrightarrow> blocks h 0 = None" using assms by (simp add: hip_runtime_laws_def)
  assume "ok h"
  { assume "0 < n" "ho_allocate (hip_allocator D type) n h = Inr (p, h')"
    with hip_allocate_Inr [OF assms \<open>ok h\<close>, of n type p h']
    show "blocks h p = None \<and> p \<noteq> 0" "ok h'" "\<exists>m\<ge>n. blocks h' = (blocks h)(p \<mapsto> m)"
      by (auto simp: hip_allocator_def) }
  { assume "blocks h p \<noteq> None"
    with hip_deallocate_keeps [OF assms \<open>ok h\<close>, of p type]
    show "ok (snd (ho_deallocate (hip_allocator D type) p h))"
      "blocks (snd (ho_deallocate (hip_allocator D type) p h)) = (blocks h)(p := None)"
      by (auto simp: hip_allocator_def) }
qed

text \<open>A runtime over the bounded heap, for devices below a number.\<close>

definition limited_malloc :: "nat \<Rightarrow> nat \<Rightarrow> host_heap \<Rightarrow> string + ptr \<times> host_heap" where
  "limited_malloc limit n h =
     (case bounded_malloc limit h n of None \<Rightarrow> Inl ''out of memory'' | Some p \<Rightarrow> Inr (p, (p, n) # h))"

definition limited_free :: "ptr \<Rightarrow> host_heap \<Rightarrow> string option \<times> host_heap" where
  "limited_free p h = (None, filter (\<lambda>e. fst e \<noteq> p) h)"

definition limited_driver :: "nat \<Rightarrow> nat \<Rightarrow> (host_heap, unit) hip_driver" where
  "limited_driver limit ndev =
     \<lparr>hd_select = (\<lambda>i. 0 \<le> i \<and> i < int ndev), hd_malloc = limited_malloc limit,
      hd_malloc_managed = limited_malloc limit, hd_host_malloc = limited_malloc limit,
      hd_free = limited_free, hd_host_free = limited_free,
      hd_device_count = Some (int ndev), hd_integrated = (\<lambda>_. Some False), hd_create_handle = (\<lambda>_. Some ())\<rparr>"

lemma limited_driver_laws: "hip_runtime_laws (limited_driver limit ndev) map_of (\<lambda>h. map_of h 0 = None)"
  using bounded_malloc_fresh [of limit]
  by (auto simp: hip_runtime_laws_def limited_driver_def malloc_keeps_def free_keeps_def limited_malloc_def
    limited_free_def malloc_fresh_def map_of_filter_ne split: option.splits)

lemma limited_driver_simps [simp]:
  "hd_select (limited_driver limit ndev) i \<longleftrightarrow> 0 \<le> i \<and> i < int ndev"
  "0 < n \<Longrightarrow> ho_allocate (hip_allocator (limited_driver limit ndev) type) n h = hip_allocation (limited_malloc limit n h)"
  by (cases type; simp add: limited_driver_def hip_allocator_def hip_allocate_def)+

interpretation hip: allocator "hip_allocator (limited_driver limit ndev) type" map_of
    "\<lambda>h. map_of h 0 = None" for limit ndev type
  by (rule hip_allocator_laws) (rule limited_driver_laws)

section \<open>The pools of all devices\<close>

text \<open>The key tells every device and type of memory apart.\<close>

lemma memory_type_value_less: "memory_type_value type < 4"
  by (cases type) simp_all

lemma memory_type_value_inj: "memory_type_value s = memory_type_value t \<longleftrightarrow> s = t"
  by (cases s; cases t) simp_all

lemma pool_key_fields:
  "drop_bit 32 (pool_key d t) = ucast (word_of_int d :: u32)"
  "take_bit 32 (pool_key d t) = of_nat (memory_type_value t)"
proof -
  have v: "of_nat (memory_type_value t) = (take_bit 32 (of_nat (memory_type_value t)) :: u64)"
    by (cases t) (simp_all add: take_bit_eq_mod)
  have "drop_bit 32 (of_nat (memory_type_value t) :: u64) = 0"
    by (subst v) (simp add: drop_bit_take_bit)
  moreover have "drop_bit 32 (push_bit 32 (ucast (w :: u32)) :: u64) = ucast w" for w
    by (rule bit_word_eqI) (auto simp: bit_simps dest: bit_imp_le_length)
  ultimately show "drop_bit 32 (pool_key d t) = ucast (word_of_int d :: u32)"
    by (simp add: pool_key_def drop_bit_or)
  have "take_bit 32 (push_bit 32 (ucast (w :: u32)) :: u64) = 0" for w
    by (rule bit_word_eqI) (auto simp: bit_simps)
  then show "take_bit 32 (pool_key d t) = of_nat (memory_type_value t)"
    by (simp add: pool_key_def take_bit_or flip: v)
qed

lemma ucast_u32_inj:
  assumes "(ucast (v :: u32) :: u64) = ucast w"
  shows "v = w"
proof -
  have "uint (ucast v :: u64) = uint v" for v :: u32
    using uint_lt2p [of v] by (simp add: unsigned_ucast_eq take_bit_int_eq_self)
  with assms show ?thesis by (metis word_uint_eq_iff)
qed

lemma pool_key_inj:
  assumes "pool_key d s = pool_key e t" "- (2 ^ 31) \<le> d" "d < 2 ^ 31" "- (2 ^ 31) \<le> e" "e < 2 ^ 31"
  shows "d = e \<and> s = t"
proof
  have "(ucast (word_of_int d :: u32) :: u64) = ucast (word_of_int e :: u32)"
    using pool_key_fields(1) [of d s] pool_key_fields(1) [of e t] assms(1) by simp
  then have "(word_of_int d :: u32) = word_of_int e" by (rule ucast_u32_inj)
  then have "sint (word_of_int d :: u32) = sint (word_of_int e :: u32)" by simp
  then show "d = e" using assms(2-) by (simp add: signed_of_int signed_take_bit_int_eq_self)
  have "of_nat (memory_type_value s) = (of_nat (memory_type_value t) :: u64)"
    using pool_key_fields(2) [of d s] pool_key_fields(2) [of e t] assms(1) by simp
  then show "s = t"
    by (cases s; cases t) simp_all
qed

definition hip_live :: "'h hip_memory \<Rightarrow> u64 \<Rightarrow> ptr \<Rightarrow> nat option" where
  "hip_live M key p =
     (case hm_pools M key of None \<Rightarrow> None | Some P \<Rightarrow> pool_blocks (P, hm_heaps M key) p)"

definition hip_memory_ok :: "('h \<Rightarrow> ptr \<Rightarrow> nat option) \<Rightarrow> ('h \<Rightarrow> bool) \<Rightarrow> 'h hip_memory \<Rightarrow> bool" where
  "hip_memory_ok blocks ok M \<longleftrightarrow> (\<forall>key. hm_pools M key = None \<longrightarrow> ok (hm_heaps M key))
     \<and> (\<forall>key P. hm_pools M key = Some P \<longrightarrow> pool_ok blocks ok (P, hm_heaps M key))"

lemma hip_pool_options_simps [simp]:
  "max_bucket_size hip_pool_options = 8388608" "min_bucket_size hip_pool_options = 256"
  "max_pooled_bytes hip_pool_options = 268435456"
  by (simp_all add: hip_pool_options_def default_pool_options_def)

text \<open>The pool's constructor returns; its first bucket has 256 bytes.\<close>

lemma hip_pool_new:
  obtains bs where "new_pool hip_pool_options = Some (Inr \<lparr>pl_options = hip_pool_options, bucket_sizes = 256 # bs,
    free_blocks = (\<lambda>_. []), active_blocks = (\<lambda>_. None), pooled_bytes = 0, active_bytes = 0, total_allocs = 0,
    cache_hits = 0\<rparr>)"
proof -
  obtain bs where "bucket_loop (5 / 4) (8 * 1024 * 1024) 320 [256] = Some (Inr (256 # bs))"
    using bucket_loop_total [of 320 "5 / 4" "8 * 1024 * 1024" "[256]"] by auto
  then have "bucket_loop (5 / 4) (8 * 1024 * 1024) 256 [] = Some (Inr (256 # bs))"
    by (simp add: bucket_loop.simps [of _ _ 256] next_bucket_def)
  then have "\<exists>bs. new_pool hip_pool_options = Some (Inr \<lparr>pl_options = hip_pool_options, bucket_sizes = 256 # bs,
    free_blocks = (\<lambda>_. []), active_blocks = (\<lambda>_. None), pooled_bytes = 0, active_bytes = 0, total_allocs = 0,
    cache_hits = 0\<rparr>)"
    by (simp add: new_pool_def pool_buckets_def hip_pool_options_def default_pool_options_def Let_def)
  then show ?thesis using that by blast
qed

lemma shared_pool_ok:
  assumes "hip_memory_ok blocks ok M"
  obtains P M' where "shared_memory_pool d type M = Some (Inr (P, M'))" "hip_memory_ok blocks ok M'"
    "hm_pools M' (pool_key d type) = Some P" "hip_live M' = hip_live M" "hm_heaps M' = hm_heaps M"
proof (cases "hm_pools M (pool_key d type)")
  case None
  let ?k = "pool_key d type"
  obtain P where P: "new_pool hip_pool_options = Some (Inr P)" using hip_pool_new by blast
  let ?M = "M\<lparr>hm_pools := (hm_pools M)(?k \<mapsto> P)\<rparr>"
  from assms None have "ok (hm_heaps M ?k)" by (auto simp: hip_memory_ok_def)
  with new_pool_ok [of hip_pool_options P ok "hm_heaps M ?k" blocks] P
  have "hip_memory_ok blocks ok ?M" using assms by (auto simp: hip_memory_ok_def)
  moreover have "pool_blocks (P, hm_heaps M ?k) = (\<lambda>_. None)"
    using P by (auto simp: pool_blocks_def new_pool_def Let_def and_then_Inr split: if_splits)
  then have "hip_live ?M = hip_live M" using None by (auto simp: hip_live_def fun_eq_iff split: option.splits)
  moreover have "shared_memory_pool d type M = Some (Inr (P, ?M))"
    using None P by (simp add: shared_memory_pool_def Let_def)
  ultimately show ?thesis using that [of P ?M] by simp
next
  case (Some P)
  then have "shared_memory_pool d type M = Some (Inr (P, M))" by (simp add: shared_memory_pool_def Let_def)
  then show ?thesis using that [of P M] assms Some by simp
qed

lemma hip_memory_ok_upd:
  assumes "hip_memory_ok blocks ok M" "pool_ok blocks ok (P, h)"
  shows "hip_memory_ok blocks ok
    (M\<lparr>hm_pools := (hm_pools M)(key \<mapsto> P), hm_heaps := (hm_heaps M)(key := h)\<rparr>)"
  using assms by (auto simp: hip_memory_ok_def)

lemma hip_live_upd:
  "hip_live (M\<lparr>hm_pools := (hm_pools M)(key \<mapsto> P), hm_heaps := (hm_heaps M)(key := h)\<rparr>)
    = (hip_live M)(key := pool_blocks (P, h))"
  by (auto simp: hip_live_def fun_eq_iff split: option.splits)

lemma create_hip_buffer_some:
  assumes "create_hip_buffer D d n type M = Some (Inr (Some p, M'))"
  obtains P N P' h' where "hd_select D d" "shared_memory_pool d type M = Some (Inr (P, N))"
    "pool_allocate (hip_allocator D type) n (P, hm_heaps N (pool_key d type)) = Inr (p, P', h')"
    "M' = N\<lparr>hm_pools := (hm_pools N)(pool_key d type \<mapsto> P'), hm_heaps := (hm_heaps N)(pool_key d type := h')\<rparr>"
proof -
  have sel: "hd_select D d" using assms by (auto simp: create_hip_buffer_def split: if_splits)
  with assms obtain P N where N: "shared_memory_pool d type M = Some (Inr (P, N))"
    by (auto simp: create_hip_buffer_def and_then_Inr)
  show ?thesis
  proof (cases "pool_allocate (hip_allocator D type) n (P, hm_heaps N (pool_key d type))")
    case (Inl e)
    then show ?thesis using assms sel N by (simp add: create_hip_buffer_def Let_def)
  next
    case (Inr x)
    then show ?thesis using assms sel N that by (cases x) (simp add: create_hip_buffer_def Let_def)
  qed
qed

text \<open>Creating a buffer always returns. A buffer that it gives is new.\<close>

lemma create_hip_buffer_laws:
  assumes laws: "hip_runtime_laws D blocks ok" and M: "hip_memory_ok blocks ok M" and n: "0 < n"
  shows "\<exists>r M'. create_hip_buffer D d n type M = Some (Inr (r, M')) \<and> hip_memory_ok blocks ok M'
    \<and> (case r of None \<Rightarrow> hip_live M' = hip_live M
       | Some p \<Rightarrow> p \<noteq> 0 \<and> hip_live M (pool_key d type) p = None
           \<and> (\<exists>m\<ge>n. hip_live M' = (hip_live M)(pool_key d type := (hip_live M (pool_key d type))(p \<mapsto> m))))"
proof (cases "hd_select D d")
  case False
  then show ?thesis using M by (simp add: create_hip_buffer_def)
next
  case True
  let ?k = "pool_key d type"
  obtain P N where N: "shared_memory_pool d type M = Some (Inr (P, N))" "hip_memory_ok blocks ok N"
    "hm_pools N ?k = Some P" "hip_live N = hip_live M" "hm_heaps N = hm_heaps M"
    by (rule shared_pool_ok [OF M])
  have ok: "pool_ok blocks ok (P, hm_heaps N ?k)"
    using N(2,3) by (auto simp: hip_memory_ok_def)
  have live: "hip_live M ?k = pool_blocks (P, hm_heaps N ?k)"
    using N(3,4) by (metis (no_types, lifting) hip_live_def option.simps(5) ext)
  show ?thesis
  proof (cases "pool_allocate (hip_allocator D type) n (P, hm_heaps N ?k)")
    case (Inl e)
    then show ?thesis using True N by (simp add: create_hip_buffer_def Let_def)
  next
    case (Inr x)
    obtain p P' h' where x: "x = (p, P', h')" by (cases x)
    from allocator.pool_allocate_laws [OF hip_allocator_laws [OF laws] ok n Inr [unfolded x]]
    have p: "pool_ok blocks ok (P', h')" "p \<noteq> 0" "hip_live M ?k p = None"
      "\<exists>m\<ge>n. pool_blocks (P', h') = (hip_live M ?k)(p \<mapsto> m)" by (auto simp: live)
    have "create_hip_buffer D d n type M = Some (Inr (Some p,
        N\<lparr>hm_pools := (hm_pools N)(?k \<mapsto> P'), hm_heaps := (hm_heaps N)(?k := h')\<rparr>))"
      using True N(1) Inr x by (simp add: create_hip_buffer_def Let_def)
    with hip_memory_ok_upd [OF N(2) p(1), of ?k] p(2-4) show ?thesis
      by (auto simp: hip_live_upd N(4))
  qed
qed

text \<open>Deleting a buffer frees its block alone.\<close>

lemma delete_hip_buffer_laws:
  assumes laws: "hip_runtime_laws D blocks ok" and M: "hip_memory_ok blocks ok M"
  shows "hip_memory_ok blocks ok (delete_hip_buffer D d type p M)
    \<and> hip_live (delete_hip_buffer D d type p M)
      = (hip_live M)(pool_key d type := (hip_live M (pool_key d type))(p := None))"
proof (cases "hm_pools M (pool_key d type)")
  case None
  then have "hip_live M (pool_key d type) = (\<lambda>_. None)" by (simp add: hip_live_def fun_eq_iff)
  then show ?thesis using None M by (auto simp: delete_hip_buffer_def Let_def fun_eq_iff)
next
  case (Some P)
  let ?k = "pool_key d type"
  have ok: "pool_ok blocks ok (P, hm_heaps M ?k)"
    using M Some by (auto simp: hip_memory_ok_def)
  have live: "hip_live M ?k = pool_blocks (P, hm_heaps M ?k)" using Some by (simp add: hip_live_def fun_eq_iff)
  obtain s P' h' where del: "pool_deallocate (hip_allocator D type) p (P, hm_heaps M ?k) = (s, P', h')"
    by (cases "pool_deallocate (hip_allocator D type) p (P, hm_heaps M ?k)") auto
  have "pool_ok blocks ok (P', h') \<and> pool_blocks (P', h') = (hip_live M ?k)(p := None)"
  proof (cases "active_blocks P p")
    case None
    then have "P' = P \<and> h' = hm_heaps M ?k" using del by (auto simp: pool_deallocate_def split: if_splits)
    moreover have "hip_live M ?k p = None" using None by (simp add: live pool_blocks_def)
    ultimately show ?thesis using ok live by (auto simp: fun_eq_iff)
  next
    case (Some b)
    then show ?thesis
      using allocator.pool_deallocate_laws [OF hip_allocator_laws [OF laws] ok, of p "fst b" "snd b" type]
      by (simp add: del live)
  qed
  moreover have "delete_hip_buffer D d type p M
      = M\<lparr>hm_pools := (hm_pools M)(?k \<mapsto> P'), hm_heaps := (hm_heaps M)(?k := h')\<rparr>"
    using Some del by (simp add: delete_hip_buffer_def Let_def)
  ultimately show ?thesis using hip_memory_ok_upd [OF M] by (simp add: hip_live_upd)
qed

section \<open>Runs of creations and deletions\<close>

datatype hip_op = CreateBuffer int nat memory_type | DeleteBuffer int memory_type ptr

fun hip_step :: "('h, 'b) hip_driver \<Rightarrow> hip_op \<Rightarrow> 'h hip_memory \<Rightarrow> 'h hip_memory" where
  "hip_step D (CreateBuffer d n type) M =
     (case create_hip_buffer D d n type M of Some (Inr (r, M')) \<Rightarrow> M' | _ \<Rightarrow> M)"
| "hip_step D (DeleteBuffer d type p) M = delete_hip_buffer D d type p M"

definition hip_run :: "('h, 'b) hip_driver \<Rightarrow> 'h \<Rightarrow> hip_op list \<Rightarrow> 'h hip_memory" where
  "hip_run D h operations = fold (hip_step D) operations \<lparr>hm_pools = (\<lambda>_. None), hm_heaps = (\<lambda>_. h)\<rparr>"

text \<open>An empty request keeps the pools as they are, apart from a new one.\<close>

lemma create_hip_buffer_null:
  assumes "hip_memory_ok blocks ok M"
  shows "\<exists>r M'. create_hip_buffer D d 0 type M = Some (Inr (r, M')) \<and> hip_memory_ok blocks ok M'
    \<and> hip_live M' = hip_live M"
proof (cases "hd_select D d")
  case True
  obtain P N where N: "shared_memory_pool d type M = Some (Inr (P, N))" "hip_memory_ok blocks ok N"
    "hm_pools N (pool_key d type) = Some P" "hip_live N = hip_live M" "hm_heaps N = hm_heaps M"
    by (rule shared_pool_ok [OF assms])
  have same: "N\<lparr>hm_pools := (hm_pools N)(pool_key d type \<mapsto> P)\<rparr> = N" using N(3) by (simp add: map_upd_triv)
  have "create_hip_buffer D d 0 type M = Some (Inr (Some 0, N))"
    using True N(1,5) same by (simp add: create_hip_buffer_def Let_def pool_allocate_def)
  then show ?thesis using N(2,4) by simp
qed (use assms in \<open>simp add: create_hip_buffer_def\<close>)

lemma hip_step_ok:
  assumes "hip_runtime_laws D blocks ok" "hip_memory_ok blocks ok M"
  shows "hip_memory_ok blocks ok (hip_step D operation M)"
proof (cases operation)
  case (CreateBuffer d n type)
  show ?thesis
  proof (cases "n = 0")
    case True
    with create_hip_buffer_null [OF assms(2), of D d type] CreateBuffer show ?thesis by auto
  next
    case False
    with create_hip_buffer_laws [OF assms, of n d type] CreateBuffer show ?thesis by auto
  qed
next
  case (DeleteBuffer d type p)
  then show ?thesis using delete_hip_buffer_laws [OF assms] by simp
qed

lemma hip_run_ok:
  assumes "hip_runtime_laws D blocks ok" "ok h"
  shows "hip_memory_ok blocks ok (hip_run D h operations)"
proof -
  have "hip_memory_ok blocks ok M \<Longrightarrow> hip_memory_ok blocks ok (fold (hip_step D) operations M)" for M
    by (induction operations arbitrary: M) (simp_all add: hip_step_ok [OF assms(1)])
  then show ?thesis using assms(2) by (simp add: hip_run_def hip_memory_ok_def)
qed

section \<open>Reuse\<close>

text \<open>A pool never changes its options or its buckets, so every shared pool keeps the options of the backend.\<close>

lemma pool_allocate_options:
  "pool_allocate H n (P, h) = Inr (p, P', h') \<Longrightarrow> pl_options P' = pl_options P \<and> bucket_sizes P' = bucket_sizes P"
  by (auto simp: pool_allocate_cases split: if_splits list.splits)

lemma pool_deallocate_options:
  "pool_deallocate H p (P, h) = (s, P', h') \<Longrightarrow> pl_options P' = pl_options P \<and> bucket_sizes P' = bucket_sizes P"
  by (auto simp: pool_deallocate_def Let_def split: if_splits option.splits)

lemma hip_pool_new_options: "new_pool hip_pool_options = Some (Inr P) \<Longrightarrow> pl_options P = hip_pool_options"
  by (auto simp: new_pool_def Let_def and_then_Inr hip_pool_options_def)

definition hip_options_kept :: "'h hip_memory \<Rightarrow> bool" where
  "hip_options_kept M \<longleftrightarrow> (\<forall>key P. hm_pools M key = Some P \<longrightarrow> pl_options P = hip_pool_options)"

lemma hip_options_kept_empty: "hip_options_kept \<lparr>hm_pools = (\<lambda>_. None), hm_heaps = f\<rparr>"
  by (simp add: hip_options_kept_def)

lemma hip_options_kept_upd:
  assumes "hip_options_kept M" "pl_options P = hip_pool_options"
  shows "hip_options_kept (M\<lparr>hm_pools := (hm_pools M)(key \<mapsto> P), hm_heaps := f\<rparr>)"
  using assms unfolding hip_options_kept_def by simp

lemma shared_pool_options:
  assumes "hip_options_kept M" "shared_memory_pool d type M = Some (Inr (P, N))"
  shows "hip_options_kept N \<and> pl_options P = hip_pool_options"
proof (cases "hm_pools M (pool_key d type)")
  case None
  with assms(2) have "new_pool hip_pool_options = Some (Inr P)"
    "N = M\<lparr>hm_pools := (hm_pools M)(pool_key d type \<mapsto> P)\<rparr>"
    by (auto simp: shared_memory_pool_def Let_def and_then_Inr)
  with hip_pool_new_options assms(1) show ?thesis by (simp add: hip_options_kept_def)
next
  case (Some Q)
  with assms(2) have "P = Q" "N = M" by (simp_all add: shared_memory_pool_def Let_def)
  with Some assms(1) show ?thesis by (simp add: hip_options_kept_def)
qed

lemma create_hip_buffer_options:
  assumes "hip_options_kept M" "create_hip_buffer D d n type M = Some (Inr (r, M'))"
  shows "hip_options_kept M'"
proof (cases "hd_select D d")
  case True
  with assms(2) obtain P N where N: "shared_memory_pool d type M = Some (Inr (P, N))"
    by (auto simp: create_hip_buffer_def and_then_Inr)
  note kept = shared_pool_options [OF assms(1) N]
  show ?thesis
  proof (cases "pool_allocate (hip_allocator D type) n (P, hm_heaps N (pool_key d type))")
    case (Inl e)
    then show ?thesis using assms(2) True N kept by (simp add: create_hip_buffer_def Let_def)
  next
    case (Inr x)
    obtain p P' h' where x: "x = (p, P', h')" by (cases x)
    from pool_allocate_options [OF Inr [unfolded x]] kept have "pl_options P' = hip_pool_options" by simp
    moreover have "M' = N\<lparr>hm_pools := (hm_pools N)(pool_key d type \<mapsto> P'), hm_heaps := (hm_heaps N)(pool_key d type := h')\<rparr>"
      using assms(2) True N Inr x by (simp add: create_hip_buffer_def Let_def)
    ultimately show ?thesis using kept hip_options_kept_upd by metis
  qed
qed (use assms in \<open>simp add: create_hip_buffer_def\<close>)

lemma hip_step_options: "hip_options_kept M \<Longrightarrow> hip_options_kept (hip_step D operation M)"
proof (cases operation)
  case (CreateBuffer d n type)
  assume "hip_options_kept M"
  then show ?thesis using CreateBuffer create_hip_buffer_options [of M D d n type]
    by (auto split: option.splits sum.splits)
next
  case (DeleteBuffer d type p)
  assume M: "hip_options_kept M"
  let ?k = "pool_key d type"
  show ?thesis
  proof (cases "hm_pools M ?k")
    case (Some P)
    obtain s P' h' where del: "pool_deallocate (hip_allocator D type) p (P, hm_heaps M ?k) = (s, P', h')"
      by (cases "pool_deallocate (hip_allocator D type) p (P, hm_heaps M ?k)") auto
    from pool_deallocate_options [OF del] M Some have "pl_options P' = hip_pool_options"
      by (simp add: hip_options_kept_def)
    from hip_options_kept_upd [OF M this] show ?thesis
      using DeleteBuffer Some del by (simp add: delete_hip_buffer_def Let_def)
  qed (use DeleteBuffer M in \<open>simp add: delete_hip_buffer_def Let_def\<close>)
qed

lemma hip_run_options: "hip_options_kept (hip_run D h operations)"
proof -
  have "hip_options_kept M \<Longrightarrow> hip_options_kept (fold (hip_step D) operations M)" for M :: "'a hip_memory"
    by (induction operations arbitrary: M) (simp_all add: hip_step_options)
  then show ?thesis unfolding hip_run_def by (simp add: hip_options_kept_empty)
qed

text \<open>A block that a pool takes back serves the next request of the same size, whatever the heap behind
  the pool does.\<close>

lemma pool_allocate_hit:
  assumes "free_blocks P (bucket_index P n) = block # rest" "0 < n" "n \<le> max_bucket_size (pl_options P)"
  shows "\<exists>P'. pool_allocate H n (P, h) = Inr (block_ptr block, P', h)"
proof -
  have "\<not> max_bucket_size (pl_options P) < n" "n \<noteq> 0" using assms(2,3) by auto
  then show ?thesis using assms(1) unfolding pool_allocate_def split_conv Let_def by (simp only: if_False list.case simp_thms) blast
qed

lemma pool_reuse:
  assumes "pool_allocate H n (P, h) = Inr (p, P', h')" "0 < n" "n \<le> max_bucket_size (pl_options P)" "p \<noteq> 0"
    and "pool_blocks (P', h') p = Some m" "pooled_bytes P' + m \<le> max_pooled_bytes (pl_options P')"
  shows "\<exists>Q. snd (pool_deallocate H p (P', h')) = (Q, h')
    \<and> (\<forall>H'. \<exists>q Q'. pool_allocate H' n (Q, h') = Inr (q, Q', h'))"
proof -
  let ?b = "bucket_index P n"
  note opts = pool_allocate_options [OF assms(1)]
  have act: "active_blocks P' p = Some (Some ?b, m)"
    using assms(1,2,3,5) by (auto simp: pool_allocate_cases pool_blocks_def split: list.splits if_splits)
  obtain Q where Q: "snd (pool_deallocate H p (P', h')) = (Q, h')"
    "free_blocks Q ?b = free_blocks P' ?b @ [\<lparr>block_ptr = p, block_size = m\<rparr>]"
    "pl_options Q = pl_options P" "bucket_sizes Q = bucket_sizes P"
    using act assms(4,6) opts by (simp add: pool_deallocate_def Let_def)
  from Q(3,4) have "bucket_index Q n = ?b" by (simp add: bucket_index_def Let_def)
  moreover have "free_blocks Q ?b \<noteq> []" using Q(2) by simp
  then obtain block rest where "free_blocks Q ?b = block # rest" by (auto simp: neq_Nil_conv)
  ultimately have "\<exists>q Q'. pool_allocate H' n (Q, h') = Inr (q, Q', h')" for H'
    using pool_allocate_hit [of Q n block rest H' h'] assms(2,3) Q(3) by auto
  with Q(1) show ?thesis by blast
qed

section \<open>What the backend guarantees\<close>

text \<open>C25. After any run of creations and deletions on the devices, creating a buffer of a positive size
  returns. A pointer that it gives is not null, was not in use in its device and type of memory, and has
  room for the size; every other block of every device stays as it was, and so do all blocks when there
  is no pointer.\<close>

theorem hip_buffers_disjoint:
  assumes "hip_runtime_laws D blocks ok" "ok h" "0 < n"
  shows "\<exists>r M'. create_hip_buffer D d n type (hip_run D h operations) = Some (Inr (r, M'))
    \<and> (case r of
         None \<Rightarrow> hip_live M' = hip_live (hip_run D h operations)
       | Some p \<Rightarrow> p \<noteq> 0 \<and> hip_live (hip_run D h operations) (pool_key d type) p = None
           \<and> (\<exists>m\<ge>n. hip_live M' (pool_key d type) p = Some m)
           \<and> (\<forall>key q. (key, q) \<noteq> (pool_key d type, p) \<longrightarrow>
                hip_live M' key q = hip_live (hip_run D h operations) key q))"
proof -
  from create_hip_buffer_laws [OF assms(1) hip_run_ok [OF assms(1,2)] assms(3)]
  obtain r M' where "create_hip_buffer D d n type (hip_run D h operations) = Some (Inr (r, M'))"
    and r: "case r of None \<Rightarrow> hip_live M' = hip_live (hip_run D h operations)
      | Some p \<Rightarrow> p \<noteq> 0 \<and> hip_live (hip_run D h operations) (pool_key d type) p = None
          \<and> (\<exists>m\<ge>n. hip_live M' = (hip_live (hip_run D h operations))(pool_key d type :=
               (hip_live (hip_run D h operations) (pool_key d type))(p \<mapsto> m)))" by blast
  then show ?thesis by (cases r) (auto simp: fun_eq_iff)
qed

theorem hip_buffers_disjoint_witness:
  "let D = limited_driver (2 ^ 30) 1; k = pool_key 0 DeviceMem; M = hip_run D [] [CreateBuffer 0 9437184 DeviceMem] in
    hip_live M k 1 = Some 9437184
    \<and> (\<exists>M'. create_hip_buffer D 0 100 DeviceMem M = Some (Inr (Some 2, M')) \<and> hip_live M' k 1 = Some 9437184
         \<and> (\<exists>m\<ge>100. hip_live M' k 2 = Some m))"
proof -
  let ?D = "limited_driver (2 ^ 30) 1" and ?k = "pool_key 0 DeviceMem"
  let ?M = "hip_run ?D [] [CreateBuffer 0 9437184 DeviceMem]"
  obtain bs where bs: "new_pool hip_pool_options = Some (Inr \<lparr>pl_options = hip_pool_options, bucket_sizes = 256 # bs,
    free_blocks = (\<lambda>_. []), active_blocks = (\<lambda>_. None), pooled_bytes = 0, active_bytes = 0, total_allocs = 0,
    cache_hits = 0\<rparr>)" by (rule hip_pool_new)
  note evals = hip_run_def create_hip_buffer_def shared_memory_pool_def bs Let_def pool_allocate_def
    hip_allocation_def limited_malloc_def bounded_malloc_def bucket_index_def
  have one: "hip_live ?M ?k 1 = Some 9437184" by (simp add: evals hip_live_def pool_blocks_def)
  moreover have "\<exists>M'. create_hip_buffer ?D 0 100 DeviceMem ?M = Some (Inr (Some 2, M'))"
    by (simp add: evals)
  then obtain M' where M': "create_hip_buffer ?D 0 100 DeviceMem ?M = Some (Inr (Some 2, M'))" ..
  moreover have "0 < (100 :: nat)" by simp
  note hip_buffers_disjoint [OF limited_driver_laws _ this, of "[]" "2 ^ 30" 1 0 DeviceMem
    "[CreateBuffer 0 9437184 DeviceMem]", unfolded M']
  then have "(\<exists>m\<ge>100. hip_live M' ?k 2 = Some m)
      \<and> (\<forall>key q. (key, q) \<noteq> (?k, 2) \<longrightarrow> hip_live M' key q = hip_live ?M key q)" by simp
  then have "hip_live M' ?k 1 = hip_live ?M ?k 1" "\<exists>m\<ge>100. hip_live M' ?k 2 = Some m" by auto
  ultimately show ?thesis using one unfolding Let_def by metis
qed

text \<open>C26. A block that goes back to its pool serves the next request of the same size: once a buffer of at
  most 8 MiB has been created in any reachable state and deleted below the pool's limit, the same
  creation gives a pointer and leaves the heap alone, even when the runtime has no memory left.\<close>

theorem deleted_hip_buffer_reused:
  assumes "hip_runtime_laws D blocks ok" "ok h" "0 < n" "n \<le> 8 * 1024 * 1024"
    and "create_hip_buffer D d n type (hip_run D h operations) = Some (Inr (Some p, M))"
    and "hm_pools M (pool_key d type) = Some P" "hip_live M (pool_key d type) p = Some m"
      "pooled_bytes P + m \<le> 256 * 1024 * 1024"
    and "hd_select D' d"
  shows "\<exists>q M'. create_hip_buffer D' d n type (delete_hip_buffer D d type p M) = Some (Inr (Some q, M'))
    \<and> hm_heaps M' = hm_heaps M"
proof -
  let ?k = "pool_key d type" and ?M = "hip_run D h operations"
  have kept: "hip_options_kept ?M" by (rule hip_run_options)
  obtain P0 N P' h' where "shared_memory_pool d type ?M = Some (Inr (P0, N))"
    "pool_allocate (hip_allocator D type) n (P0, hm_heaps N ?k) = Inr (p, P', h')"
    "M = N\<lparr>hm_pools := (hm_pools N)(?k \<mapsto> P'), hm_heaps := (hm_heaps N)(?k := h')\<rparr>"
    by (rule create_hip_buffer_some [OF assms(5)])
  with assms(6) have N: "shared_memory_pool d type ?M = Some (Inr (P0, N))"
    "pool_allocate (hip_allocator D type) n (P0, hm_heaps N ?k) = Inr (p, P, h')"
    "hm_heaps M = (hm_heaps N)(?k := h')" by simp_all
  have "p \<noteq> 0"
    using create_hip_buffer_laws [OF assms(1) hip_run_ok [OF assms(1,2), of operations] assms(3), of d type] assms(5)
    by auto
  moreover have "pl_options P0 = hip_pool_options" using shared_pool_options [OF kept N(1)] by simp
  then have "n \<le> max_bucket_size (pl_options P0)" "max_pooled_bytes (pl_options P) = 256 * 1024 * 1024"
    using assms(4) pool_allocate_options [OF N(2)] by (simp_all add: hip_pool_options_def)
  moreover have "pool_blocks (P, h') p = Some m" using assms(6,7) N(3) by (simp add: hip_live_def)
  ultimately obtain Q where Q: "snd (pool_deallocate (hip_allocator D type) p (P, h')) = (Q, h')"
    "\<forall>H'. \<exists>q Q'. pool_allocate H' n (Q, h') = Inr (q, Q', h')"
    using pool_reuse [OF N(2) assms(3), of m] assms(8) by auto
  obtain q Q' where q: "pool_allocate (hip_allocator D' type) n (Q, h') = Inr (q, Q', h')"
    using Q(2) by blast
  have del: "delete_hip_buffer D d type p M = M\<lparr>hm_pools := (hm_pools M)(?k \<mapsto> Q)\<rparr>"
    using assms(6) N(3) Q(1)
    by (cases "pool_deallocate (hip_allocator D type) p (P, h')")
      (simp add: delete_hip_buffer_def Let_def fun_upd_idem)
  then show ?thesis using assms(9) q N(3)
    by (auto simp: create_hip_buffer_def shared_memory_pool_def Let_def)
qed

theorem deleted_hip_buffer_reused_witness:
  "let D = limited_driver 1000 1; M0 = hip_run D [] [] in
    \<exists>M. create_hip_buffer D 0 100 DeviceMem M0 = Some (Inr (Some 1, M))
      \<and> (\<exists>q M'. create_hip_buffer (limited_driver 0 1) 0 100 DeviceMem (delete_hip_buffer D 0 DeviceMem 1 M)
           = Some (Inr (Some q, M')) \<and> hm_heaps M' = hm_heaps M)"
proof -
  let ?D = "limited_driver 1000 1" and ?k = "pool_key 0 DeviceMem"
  let ?M0 = "hip_run ?D [] []"
  obtain bs where bs: "new_pool hip_pool_options = Some (Inr \<lparr>pl_options = hip_pool_options, bucket_sizes = 256 # bs,
    free_blocks = (\<lambda>_. []), active_blocks = (\<lambda>_. None), pooled_bytes = 0, active_bytes = 0, total_allocs = 0,
    cache_hits = 0\<rparr>)" by (rule hip_pool_new)
  have "\<exists>M P. create_hip_buffer ?D 0 100 DeviceMem ?M0 = Some (Inr (Some 1, M)) \<and> hm_pools M ?k = Some P
    \<and> pooled_bytes P = 0 \<and> hip_live M ?k 1 = Some 256"
    by (simp add: hip_run_def create_hip_buffer_def shared_memory_pool_def bs Let_def pool_allocate_def
      hip_allocation_def limited_malloc_def bounded_malloc_def bucket_index_def hip_live_def pool_blocks_def)
  then obtain M P where M: "create_hip_buffer ?D 0 100 DeviceMem ?M0 = Some (Inr (Some 1, M))"
    and P: "hm_pools M ?k = Some P" "pooled_bytes P = 0" "hip_live M ?k 1 = Some 256" by blast
  have "\<exists>q M'. create_hip_buffer (limited_driver 0 1) 0 100 DeviceMem (delete_hip_buffer ?D 0 DeviceMem 1 M)
      = Some (Inr (Some q, M')) \<and> hm_heaps M' = hm_heaps M"
    by (rule deleted_hip_buffer_reused [OF limited_driver_laws _ _ _ M P(1,3)])
      (simp_all add: P(2))
  with M show ?thesis by (auto simp: Let_def)
qed

end
