(* ===== verification/Streams.thy ===== *)
theory Streams
  imports Hip_Memory
begin

text \<open>
  The streams and events of both backends (\<open>src/backends/cpu/cpu_backend.cc\<close>,
  \<open>src/backends/hip/hip_backend.cc\<close>), and the stream of a shared rocBLAS handle. The host runs every
  operation at once, so its streams have nothing to wait for and its events are readings of the
  clock. The streams of a GPU belong to the HIP runtime; what its calls answer is the record
  \<open>stream_driver\<close>. A rocBLAS handle is shared by every backend of a device, and which stream it
  runs on is remembered for each thread.
\<close>

section \<open>Host events\<close>

text \<open>\<open>HostStream::synchronize\<close>, \<open>HostEvent::wait\<close> and \<open>HostEvent::synchronize\<close> succeed at once.\<close>

record host_event =
  ev_timestamp :: int
  ev_recorded :: bool

definition new_host_event :: host_event where
  "new_host_event = \<lparr>ev_timestamp = 0, ev_recorded = False\<rparr>"

definition host_event_record :: "int \<Rightarrow> host_event \<Rightarrow> host_event" where
  "host_event_record now e = e\<lparr>ev_timestamp := now, ev_recorded := True\<rparr>"

text \<open>An event of another backend is \<open>None\<close>; \<open>ms\<close> converts ticks of the clock to milliseconds.\<close>

definition host_elapsed :: "(int \<Rightarrow> 'f) \<Rightarrow> bool \<Rightarrow> host_event \<Rightarrow> host_event option \<Rightarrow> 'f result" where
  "host_elapsed ms output_given e start =
     (if \<not> output_given then fails InvalidArgument ''CPU event output cannot be null''
      else (case start of
              None \<Rightarrow> fails InvalidArgument ''CPU events must be recorded before timing''
            | Some b \<Rightarrow>
                if \<not> ev_recorded b \<or> \<not> ev_recorded e
                then fails InvalidArgument ''CPU events must be recorded before timing''
                else Inr (ms (ev_timestamp e - ev_timestamp b))))"

text \<open>Times of consecutive intervals add up.\<close>

lemma host_elapsed_chain:
  assumes "host_elapsed ms True b (Some a) = Inr x" "host_elapsed ms True c (Some b) = Inr y"
    and "\<And>i j. ms (i + j) = ms i + ms j"
  shows "host_elapsed ms True c (Some a) = Inr (x + y)"
  using assms(1,2) assms(3) [of "ev_timestamp b - ev_timestamp a" "ev_timestamp c - ev_timestamp b"]
  by (auto simp: host_elapsed_def split: if_splits)

section \<open>HIP streams and events\<close>

text \<open>A call of the runtime answers \<open>None\<close> on success and its message otherwise.\<close>

record ('s, 'e, 'f) stream_driver =
  sd_select :: "int \<Rightarrow> bool"
  sd_stream_create :: "'s option"
  sd_event_create :: "'e option"
  sd_stream_synchronize :: "'s \<Rightarrow> string option"
  sd_event_record :: "'e \<Rightarrow> 's \<Rightarrow> string option"
  sd_stream_wait :: "'s \<Rightarrow> 'e \<Rightarrow> string option"
  sd_event_synchronize :: "'e \<Rightarrow> string option"
  sd_elapsed :: "'e \<Rightarrow> 'e \<Rightarrow> string + 'f"

definition create_hip_stream :: "('s, 'e, 'f) stream_driver \<Rightarrow> int \<Rightarrow> 's option" where
  "create_hip_stream D device_id = (if sd_select D device_id then sd_stream_create D else None)"

definition create_hip_event :: "('s, 'e, 'f) stream_driver \<Rightarrow> int \<Rightarrow> 'e option" where
  "create_hip_event D device_id = (if sd_select D device_id then sd_event_create D else None)"

definition hip_stream_synchronize :: "('s, 'e, 'f) stream_driver \<Rightarrow> 's \<Rightarrow> status" where
  "hip_stream_synchronize D s = hip_error_to_status (sd_stream_synchronize D s)"

text \<open>A null stream is dereferenced here, while the host events ignore their stream.\<close>

definition hip_event_record :: "('s, 'e, 'f) stream_driver \<Rightarrow> 'e \<Rightarrow> 's option \<Rightarrow> status result" where
  "hip_event_record D e stream =
     (case stream of
        None \<Rightarrow> Inl (Undef ''null stream'')
      | Some s \<Rightarrow> Inr (hip_error_to_status (sd_event_record D e s)))"

definition hip_event_wait :: "('s, 'e, 'f) stream_driver \<Rightarrow> 'e \<Rightarrow> 's option \<Rightarrow> status result" where
  "hip_event_wait D e stream =
     (case stream of
        None \<Rightarrow> Inl (Undef ''null stream'')
      | Some s \<Rightarrow> Inr (hip_error_to_status (sd_stream_wait D s e)))"

definition hip_event_synchronize :: "('s, 'e, 'f) stream_driver \<Rightarrow> 'e \<Rightarrow> status" where
  "hip_event_synchronize D e = hip_error_to_status (sd_event_synchronize D e)"

definition hip_elapsed ::
  "('s, 'e, 'f) stream_driver \<Rightarrow> bool \<Rightarrow> 'e \<Rightarrow> 'e option \<Rightarrow> 'f result" where
  "hip_elapsed D output_given e start =
     (if \<not> output_given then fails InvalidArgument ''HIP event output cannot be null''
      else (case start of
              None \<Rightarrow> fails InvalidArgument ''HIP events must belong to the same HIP backend''
            | Some b \<Rightarrow>
                (case sd_elapsed D b e of Inl m \<Rightarrow> fails BackendError m | Inr x \<Rightarrow> Inr x)))"

text \<open>The stream a kernel is launched on: the default stream for none, or for one of another backend.\<close>

definition native_stream :: "'s \<Rightarrow> 's option \<Rightarrow> 's" where
  "native_stream null_stream stream = (case stream of None \<Rightarrow> null_stream | Some s \<Rightarrow> s)"

section \<open>The stream of a rocBLAS handle\<close>

text \<open>rocBLAS answers \<open>None\<close> on success; its message may be null.\<close>

definition rocblas_error_to_status :: "string option option \<Rightarrow> status" where
  "rocblas_error_to_status err =
     (case err of
        None \<Rightarrow> status_OK
      | Some message \<Rightarrow>
          Status BackendError (case message of None \<Rightarrow> ''Unknown rocBLAS error'' | Some m \<Rightarrow> m))"

type_synonym ('h, 's, 'r) set_stream = "'h \<Rightarrow> 's \<Rightarrow> 'r \<Rightarrow> string option option \<times> 'r"

type_synonym ('h, 's) last_streams = "'h \<Rightarrow> 's option"

definition set_rocblas_stream_if_changed ::
  "('h, 's, 'r) set_stream \<Rightarrow> 'h \<Rightarrow> 's \<Rightarrow> ('h, 's) last_streams \<times> 'r \<Rightarrow>
   status \<times> ('h, 's) last_streams \<times> 'r" where
  "set_rocblas_stream_if_changed set_stream handle stream = (\<lambda>(last_streams, R).
     (if last_streams handle = Some stream then (status_OK, last_streams, R)
      else (case set_stream handle stream R of (err, R') \<Rightarrow>
              let st = rocblas_error_to_status err in
              (st, if st_ok st then last_streams(handle \<mapsto> stream) else last_streams, R'))))"

text \<open>\<open>last_streams\<close> is a thread-local variable: a call by a thread sees its own copy, and the
  runtime is shared.\<close>

definition stream_call ::
  "('h, 's, 'r) set_stream \<Rightarrow> 't \<times> 'h \<times> 's \<Rightarrow> ('t \<Rightarrow> ('h, 's) last_streams) \<times> 'r \<Rightarrow>
   status \<times> ('t \<Rightarrow> ('h, 's) last_streams) \<times> 'r" where
  "stream_call set_stream = (\<lambda>(thread, handle, stream) (locals, R).
     (case set_rocblas_stream_if_changed set_stream handle stream (locals thread, R) of
        (st, last_streams, R') \<Rightarrow> (st, locals(thread := last_streams), R')))"

definition stream_calls ::
  "('h, 's, 'r) set_stream \<Rightarrow> ('t \<times> 'h \<times> 's) list \<Rightarrow> ('t \<Rightarrow> ('h, 's) last_streams) \<times> 'r \<Rightarrow>
   ('t \<Rightarrow> ('h, 's) last_streams) \<times> 'r" where
  "stream_calls set_stream calls x = fold (\<lambda>c x. snd (stream_call set_stream c x)) calls x"

text \<open>What \<open>rocblas_set_stream\<close> promises: it sets the stream of its handle, or it fails and changes
  nothing. \<open>stream_of\<close> is the stream a handle runs on.\<close>

definition sets_stream :: "('h, 's, 'r) set_stream \<Rightarrow> ('r \<Rightarrow> 'h \<Rightarrow> 's) \<Rightarrow> bool" where
  "sets_stream set_stream stream_of \<longleftrightarrow>
     (\<forall>h s R. case set_stream h s R of
        (err, R') \<Rightarrow> stream_of R' = (if err = None then (stream_of R)(h := s) else stream_of R))"

lemma sets_streamD:
  "sets_stream set_stream stream_of \<Longrightarrow> set_stream h s R = (err, R') \<Longrightarrow>
     stream_of R' = (if err = None then (stream_of R)(h := s) else stream_of R)"
  unfolding sets_stream_def by (metis (mono_tags, lifting) case_prod_conv)

lemma rocblas_error_ok [simp]: "st_ok (rocblas_error_to_status err) \<longleftrightarrow> err = None"
  by (auto simp: rocblas_error_to_status_def split: option.splits)

text \<open>The cache of a handle's owner is right, and no other thread has an entry for it.\<close>

definition streams_known ::
  "('h \<Rightarrow> 't) \<Rightarrow> ('r \<Rightarrow> 'h \<Rightarrow> 's) \<Rightarrow> ('t \<Rightarrow> ('h, 's) last_streams) \<times> 'r \<Rightarrow> bool" where
  "streams_known owner stream_of = (\<lambda>(locals, R).
     \<forall>t h s. locals t h = Some s \<longrightarrow> t = owner h \<and> stream_of R h = s)"

lemma stream_call_known:
  assumes law: "sets_stream set_stream stream_of" and known: "streams_known owner stream_of x"
    and call: "stream_call set_stream (owner h, h, s) x = (st, locals', R')"
  shows "streams_known owner stream_of (locals', R')" and "st_ok st \<Longrightarrow> stream_of R' h = s"
proof -
  obtain locals R where x: "x = (locals, R)" by (cases x)
  obtain err R1 where r: "set_stream h s R = (err, R1)" by (cases "set_stream h s R")
  note set = sets_streamD [OF law r]
  have K: "t = owner k" "stream_of R k = u" if "locals t k = Some u" for t k u
    using known that by (auto simp: streams_known_def x)
  consider (kept) "locals (owner h) h = Some s" "st = status_OK" "locals' = locals" "R' = R"
    | (done_call) "err = None" "st = status_OK" "R' = R1" "locals' = locals(owner h := (locals (owner h))(h \<mapsto> s))"
    | (failed) "err \<noteq> None" "\<not> st_ok st" "R' = R1" "locals' = locals"
    using call by (cases err)
      (auto simp: stream_call_def set_rocblas_stream_if_changed_def x r Let_def rocblas_error_to_status_def
        split: if_splits option.splits)
  then have "streams_known owner stream_of (locals', R') \<and> (st_ok st \<longrightarrow> stream_of R' h = s)"
  proof cases
    case kept
    with known K(2) show ?thesis by (simp add: x)
  next
    case done_call
    have others: "locals t h = None" if "t \<noteq> owner h" for t using K(1) [of t h] that by (cases "locals t h") auto
    from done_call set others show ?thesis by (auto simp: streams_known_def dest: K split: if_splits)
  next
    case failed
    with set known show ?thesis by (simp add: streams_known_def x)
  qed
  then show "streams_known owner stream_of (locals', R')" and "st_ok st \<Longrightarrow> stream_of R' h = s" by blast+
qed

lemma stream_calls_known:
  assumes law: "sets_stream set_stream stream_of"
  shows "streams_known owner stream_of x \<Longrightarrow> \<forall>(t, h, s) \<in> set calls. t = owner h \<Longrightarrow>
     streams_known owner stream_of (stream_calls set_stream calls x)"
proof (induction calls arbitrary: x)
  case Nil
  then show ?case by (simp add: stream_calls_def)
next
  case (Cons c calls)
  obtain t h s where c: "c = (t, h, s)" by (cases c)
  obtain st locals' R' where call: "stream_call set_stream (owner h, h, s) x = (st, locals', R')"
    by (cases "stream_call set_stream (owner h, h, s) x")
  from Cons.prems have "t = owner h" by (simp add: c)
  with call Cons.IH [OF stream_call_known(1) [OF law Cons.prems(1) call]] Cons.prems(2)
  show ?case by (simp add: stream_calls_def c)
qed

text \<open>C29. As long as every rocBLAS handle is used by one thread, a call that succeeds leaves the handle on
  the stream it was called for, also when the call to rocBLAS was skipped because the thread
  remembers the stream.\<close>

theorem rocblas_stream_is_requested:
  assumes "sets_stream set_stream stream_of" and "\<forall>(t, h, s) \<in> set calls. t = owner h"
    and "stream_call set_stream (owner h, h, s) (stream_calls set_stream calls (\<lambda>_. Map.empty, R)) = (st, locals', R')"
    and "st_ok st"
  shows "stream_of R' h = s"
proof -
  have "streams_known owner stream_of (\<lambda>_. Map.empty, R)" by (simp add: streams_known_def)
  from stream_call_known(2) [OF assms(1) stream_calls_known [OF assms(1) this assms(2)] assms(3,4)] show ?thesis .
qed

text \<open>A runtime for two threads: handles and streams are numbers, and a handle cannot be set to stream 0.\<close>

definition plain_set_stream :: "(nat, nat, nat \<Rightarrow> nat) set_stream" where
  "plain_set_stream h s R = (if s = 0 then (Some None, R) else (None, R(h := s)))"

lemma plain_sets_stream: "sets_stream plain_set_stream (\<lambda>R. R)"
  by (simp add: sets_stream_def plain_set_stream_def)

theorem rocblas_stream_is_requested_witness:
  "\<exists>locals' R'. stream_call plain_set_stream (1, 7, 2)
       (stream_calls plain_set_stream [(1, 7, 2), (0, 4, 3), (1, 7, 0)] (\<lambda>_ :: nat. Map.empty, \<lambda>_. 9)) =
       (status_OK, locals', R') \<and> R' 7 = 2"
proof -
  obtain locals' R' where call: "stream_call plain_set_stream (1, 7, 2)
       (stream_calls plain_set_stream [(1, 7, 2), (0, 4, 3), (1, 7, 0)] (\<lambda>_ :: nat. Map.empty, \<lambda>_. 9)) =
       (status_OK, locals', R')"
    by (simp add: stream_calls_def stream_call_def set_rocblas_stream_if_changed_def plain_set_stream_def
        rocblas_error_to_status_def Let_def)
  have owned: "\<forall>(t, h, s) \<in> set [(1, 7, 2), (0, 4, 3), (1, 7 :: nat, 0 :: nat)]. t = (if h = 7 then 1 else 0 :: nat)"
    by simp
  from rocblas_stream_is_requested [OF plain_sets_stream owned, of 7 2] call show ?thesis by auto
qed

text \<open>Two threads that share a handle: the second call of the first thread is skipped and succeeds, but
  the handle runs on the stream of the other thread.\<close>

lemma shared_handle_keeps_other_stream:
  assumes "sets_stream set_stream stream_of" and "t1 \<noteq> t2" and "s1 \<noteq> s2"
    and "\<And>s R. fst (set_stream h s R) = None"
  shows "\<exists>locals' R'. stream_call set_stream (t1, h, s1)
       (stream_calls set_stream [(t1, h, s1), (t2, h, s2)] (\<lambda>_. Map.empty, R)) = (status_OK, locals', R') \<and>
     stream_of R' h = s2"
proof -
  obtain R1 R2 where r: "set_stream h s1 R = (None, R1)" "set_stream h s2 R1 = (None, R2)"
    using assms(4) by (metis prod.collapse)
  from sets_streamD [OF assms(1) r(2)] have "stream_of R2 h = s2" by simp
  with r assms(2) show ?thesis
    by (simp add: stream_calls_def stream_call_def set_rocblas_stream_if_changed_def rocblas_error_to_status_def
        Let_def)
qed

end
