(* ===== verification/DeltaNet_Workspaces.thy ===== *)
theory DeltaNet_Workspaces
  imports Core_Types
begin

text \<open>
  The workspace buffers of \<open>src/ops/delta_net.cc\<close>: the grouped convolution and the recurrent
  operator keep the buffers of their results in two static vectors and take one again when nothing
  else holds it, which they read off its use count. The state names the buffers by numbers; it has the
  two vectors, the size of every buffer, and how many tensors and local variables hold it. The
  operators of \<open>DeltaNet_Op\<close> take a fresh buffer instead: the theorems here are why they may.
\<close>

section \<open>Buffers and their holders\<close>

record workspace =
  ws_buffer :: nat
  ws_device :: device
  ws_type :: memory_type

datatype workspace_pool = GroupedConv | Recurrent

record workspaces =
  ws_pools :: "workspace_pool \<Rightarrow> workspace list"
  ws_size :: "nat \<Rightarrow> nat"
  ws_holders :: "nat \<Rightarrow> nat"
  ws_next :: nat

definition no_workspaces :: workspaces where
  "no_workspaces = \<lparr>ws_pools = (\<lambda>_. []), ws_size = (\<lambda>_. 0), ws_holders = (\<lambda>_. 0), ws_next = 0\<rparr>"

definition pooled :: "workspaces \<Rightarrow> nat list" where
  "pooled S = map ws_buffer (ws_pools S GroupedConv @ ws_pools S Recurrent)"

text \<open>\<open>shared_ptr::use_count\<close>: the entries of both vectors, and the holders outside.\<close>

definition use_count :: "workspaces \<Rightarrow> nat \<Rightarrow> nat" where
  "use_count S b = count_list (pooled S) b + ws_holders S b"

definition hold :: "nat \<Rightarrow> workspaces \<Rightarrow> workspaces" where
  "hold b S = S\<lparr>ws_holders := (ws_holders S)(b := ws_holders S b + 1)\<rparr>"

definition release :: "nat \<Rightarrow> workspaces \<Rightarrow> workspaces" where
  "release b S = S\<lparr>ws_holders := (ws_holders S)(b := ws_holders S b - 1)\<rparr>"

section \<open>The operations\<close>

definition workspace_fits :: "device \<Rightarrow> nat \<Rightarrow> memory_type \<Rightarrow> workspaces \<Rightarrow> workspace \<Rightarrow> bool" where
  "workspace_fits dev bytes m S e \<longleftrightarrow>
     use_count S (ws_buffer e) = 1 \<and> device_eq (ws_device e) dev \<and> ws_type e = m \<and>
     bytes \<le> ws_size S (ws_buffer e)"

text \<open>\<open>create\<close> is whether the backend grants a new buffer of a size.\<close>

definition acquire_deltanet_workspace ::
  "(nat \<Rightarrow> memory_type \<Rightarrow> bool) \<Rightarrow> device \<Rightarrow> nat \<Rightarrow> memory_type \<Rightarrow> workspace_pool \<Rightarrow> workspaces \<Rightarrow>
   nat option \<times> workspaces" where
  "acquire_deltanet_workspace create dev bytes m p S =
     (case List.find (workspace_fits dev bytes m S) (ws_pools S p) of
        Some e \<Rightarrow> (Some (ws_buffer e), hold (ws_buffer e) S)
      | None \<Rightarrow>
          if \<not> create bytes m then (None, S)
          else (let b = ws_next S in
            (Some b, S\<lparr>ws_next := b + 1, ws_size := (ws_size S)(b := bytes), ws_holders := (ws_holders S)(b := 1),
               ws_pools := (ws_pools S)(p := ws_pools S p @ [\<lparr>ws_buffer = b, ws_device = dev, ws_type = m\<rparr>])\<rparr>)))"

definition release_all :: "nat option list \<Rightarrow> workspaces \<Rightarrow> workspaces" where
  "release_all bs S = fold (\<lambda>b S. case b of None \<Rightarrow> S | Some b \<Rightarrow> release b S) bs S"

text \<open>The results of \<open>grouped_causal_conv\<close>: three buffers one after the other, all of them asked for
  before the first is tested; they stay held by the tensors of the result when the kernel succeeds
  and are dropped otherwise.\<close>

definition grouped_conv_buffers ::
  "(nat \<Rightarrow> memory_type \<Rightarrow> bool) \<Rightarrow> device \<Rightarrow> nat \<Rightarrow> nat \<Rightarrow> memory_type \<Rightarrow> bool \<Rightarrow> workspaces \<Rightarrow>
   (nat \<times> nat \<times> nat) option \<times> workspaces" where
  "grouped_conv_buffers create dev qk_bytes v_bytes m kernel_ok S =
     (case acquire_deltanet_workspace create dev qk_bytes m GroupedConv S of (q, S1) \<Rightarrow>
     (case acquire_deltanet_workspace create dev qk_bytes m GroupedConv S1 of (k, S2) \<Rightarrow>
     (case acquire_deltanet_workspace create dev v_bytes m GroupedConv S2 of (v, S3) \<Rightarrow>
        (case (q, k, v) of
           (Some qb, Some kb, Some vb) \<Rightarrow>
             if kernel_ok then (Some (qb, kb, vb), S3) else (None, release_all [q, k, v] S3)
         | _ \<Rightarrow> (None, release_all [q, k, v] S3)))))"

definition recurrent_buffer ::
  "(nat \<Rightarrow> memory_type \<Rightarrow> bool) \<Rightarrow> device \<Rightarrow> nat \<Rightarrow> memory_type \<Rightarrow> bool \<Rightarrow> workspaces \<Rightarrow> nat option \<times> workspaces" where
  "recurrent_buffer create dev bytes m kernel_ok S =
     (case acquire_deltanet_workspace create dev bytes m Recurrent S of
        (Some b, S1) \<Rightarrow> if kernel_ok then (Some b, S1) else (None, release b S1)
      | (None, S1) \<Rightarrow> (None, S1))"

text \<open>What may happen to the buffers: the two operators, and tensors that are copied or destroyed.\<close>

inductive workspaces_reachable :: "workspaces \<Rightarrow> bool" where
  start: "workspaces_reachable no_workspaces"
| grouped: "workspaces_reachable S \<Longrightarrow> workspaces_reachable (snd (grouped_conv_buffers create dev n1 n2 m ok S))"
| recurrent: "workspaces_reachable S \<Longrightarrow> workspaces_reachable (snd (recurrent_buffer create dev n m ok S))"
| copied: "workspaces_reachable S \<Longrightarrow> 0 < ws_holders S b \<Longrightarrow> workspaces_reachable (hold b S)"
| dropped: "workspaces_reachable S \<Longrightarrow> 0 < ws_holders S b \<Longrightarrow> workspaces_reachable (release b S)"

section \<open>The invariant\<close>

text \<open>No buffer is in the vectors twice, and only buffers that exist are held.\<close>

definition workspaces_ok :: "workspaces \<Rightarrow> bool" where
  "workspaces_ok S \<longleftrightarrow> distinct (pooled S) \<and> (\<forall>b \<in> set (pooled S). b < ws_next S) \<and>
     (\<forall>b. 0 < ws_holders S b \<longrightarrow> b < ws_next S)"

lemma holder_simps [simp]:
  "ws_pools (hold b S) = ws_pools S" "ws_size (hold b S) = ws_size S" "ws_next (hold b S) = ws_next S"
  "ws_holders (hold b S) = (ws_holders S)(b := ws_holders S b + 1)" "pooled (hold b S) = pooled S"
  "ws_pools (release b S) = ws_pools S" "ws_size (release b S) = ws_size S" "ws_next (release b S) = ws_next S"
  "ws_holders (release b S) = (ws_holders S)(b := ws_holders S b - 1)" "pooled (release b S) = pooled S"
  by (simp_all add: hold_def release_def pooled_def)

lemma release_all_simps [simp]:
  "release_all [] S = S" "release_all (None # bs) S = release_all bs S"
  "release_all (Some b # bs) S = release_all bs (release b S)"
  by (simp_all add: release_all_def)

lemma workspaces_ok_hold: "workspaces_ok S \<Longrightarrow> b < ws_next S \<Longrightarrow> workspaces_ok (hold b S)"
  by (auto simp: workspaces_ok_def)

lemma workspaces_ok_release: "workspaces_ok S \<Longrightarrow> workspaces_ok (release b S)"
  by (auto simp: workspaces_ok_def split: if_splits)

lemma workspaces_ok_release_all: "workspaces_ok S \<Longrightarrow> workspaces_ok (release_all bs S)"
  by (induction bs arbitrary: S) (auto simp: release_all_def workspaces_ok_release split: option.splits)

text \<open>An acquired buffer was held by nobody, is held once now, and is large enough; nothing else
  changes.\<close>

definition acquired :: "nat \<Rightarrow> nat \<Rightarrow> workspaces \<Rightarrow> workspaces \<Rightarrow> bool" where
  "acquired b bytes S S' \<longleftrightarrow> ws_holders S b = 0 \<and> ws_holders S' = (ws_holders S)(b := 1) \<and> bytes \<le> ws_size S' b \<and>
     b < ws_next S' \<and> ws_next S \<le> ws_next S' \<and> (\<forall>c < ws_next S. ws_size S' c = ws_size S c)"

lemma workspace_pooled: "e \<in> set (ws_pools S p) \<Longrightarrow> ws_buffer e \<in> set (pooled S)"
  by (cases p) (auto simp: pooled_def)

lemma acquire_cases:
  assumes "acquire_deltanet_workspace create dev bytes m p S = (r, S')"
  obtains (reused) e where "List.find (workspace_fits dev bytes m S) (ws_pools S p) = Some e"
      "e \<in> set (ws_pools S p)" "workspace_fits dev bytes m S e" "r = Some (ws_buffer e)" "S' = hold (ws_buffer e) S"
  | (refused) "List.find (workspace_fits dev bytes m S) (ws_pools S p) = None" "\<not> create bytes m" "r = None" "S' = S"
  | (created) "List.find (workspace_fits dev bytes m S) (ws_pools S p) = None" "create bytes m" "r = Some (ws_next S)"
      "S' = S\<lparr>ws_next := ws_next S + 1, ws_size := (ws_size S)(ws_next S := bytes),
         ws_holders := (ws_holders S)(ws_next S := 1),
         ws_pools := (ws_pools S)(p := ws_pools S p @ [\<lparr>ws_buffer = ws_next S, ws_device = dev, ws_type = m\<rparr>])\<rparr>"
proof (cases "List.find (workspace_fits dev bytes m S) (ws_pools S p)")
  case None
  with assms refused created show ?thesis
    by (auto simp: acquire_deltanet_workspace_def Let_def split: if_splits)
next
  case (Some e)
  then have "e \<in> set (ws_pools S p)" "workspace_fits dev bytes m S e" by (auto simp: find_Some_iff)
  with Some assms reused show ?thesis by (auto simp: acquire_deltanet_workspace_def)
qed

lemma acquire_ok:
  assumes ok: "workspaces_ok S" and a: "acquire_deltanet_workspace create dev bytes m p S = (r, S')"
  shows "workspaces_ok S'" and "r = Some b \<Longrightarrow> acquired b bytes S S'" and "r = None \<Longrightarrow> S' = S"
proof -
  have "workspaces_ok S' \<and> (r = Some b \<longrightarrow> acquired b bytes S S') \<and> (r = None \<longrightarrow> S' = S)" using a
  proof (cases rule: acquire_cases)
    case (reused e)
    note e = workspace_pooled [OF reused(2)]
    from e ok have "ws_buffer e < ws_next S" "count_list (pooled S) (ws_buffer e) \<noteq> 0"
      by (auto simp: workspaces_ok_def count_list_0_iff)
    with reused(3) have "ws_holders S (ws_buffer e) = 0" "bytes \<le> ws_size S (ws_buffer e)"
      by (auto simp: workspace_fits_def use_count_def)
    with reused(4,5) \<open>ws_buffer e < ws_next S\<close> show ?thesis
      by (auto simp: acquired_def workspaces_ok_hold [OF ok])
  next
    case refused
    with ok show ?thesis by simp
  next
    case created
    from ok have fresh: "ws_next S \<notin> set (pooled S)" "ws_holders S (ws_next S) = 0"
      by (auto simp: workspaces_ok_def)
    have "set (pooled S') = insert (ws_next S) (set (pooled S))" using created(4) by (cases p) (auto simp: pooled_def)
    moreover have "distinct (pooled S')" using ok fresh(1) created(4) by (cases p) (auto simp: workspaces_ok_def pooled_def)
    ultimately have "workspaces_ok S'"
      using ok by (auto simp: workspaces_ok_def created(4) less_Suc_eq split: if_splits)
    with created(3,4) fresh show ?thesis by (auto simp: acquired_def)
  qed
  then show "workspaces_ok S'" and "r = Some b \<Longrightarrow> acquired b bytes S S'" and "r = None \<Longrightarrow> S' = S" by blast+
qed

lemma grouped_conv_buffers_ok:
  assumes "workspaces_ok S"
  shows "workspaces_ok (snd (grouped_conv_buffers create dev n1 n2 m ok S))"
proof -
  obtain q S1 where 1: "acquire_deltanet_workspace create dev n1 m GroupedConv S = (q, S1)" by fastforce
  obtain k S2 where 2: "acquire_deltanet_workspace create dev n1 m GroupedConv S1 = (k, S2)" by fastforce
  obtain v S3 where 3: "acquire_deltanet_workspace create dev n2 m GroupedConv S2 = (v, S3)" by fastforce
  have "workspaces_ok S3" by (rule acquire_ok(1) [OF acquire_ok(1) [OF acquire_ok(1) [OF assms 1] 2] 3])
  then show ?thesis
    by (auto simp: grouped_conv_buffers_def 1 2 3 workspaces_ok_release_all workspaces_ok_release split: option.splits)
qed

lemma recurrent_buffer_ok:
  assumes "workspaces_ok S"
  shows "workspaces_ok (snd (recurrent_buffer create dev n m ok S))"
  using acquire_ok(1) [OF assms] by (auto simp: recurrent_buffer_def workspaces_ok_release split: prod.splits option.splits)

lemma reachable_workspaces_ok: "workspaces_reachable S \<Longrightarrow> workspaces_ok S"
proof (induction rule: workspaces_reachable.induct)
  case start
  show ?case by (simp add: workspaces_ok_def no_workspaces_def pooled_def)
next
  case (copied S b)
  then have "b < ws_next S" by (auto simp: workspaces_ok_def)
  with copied.IH show ?case by (rule workspaces_ok_hold)
qed (simp_all add: grouped_conv_buffers_ok recurrent_buffer_ok workspaces_ok_release)

section \<open>Exclusive results\<close>



section \<open>Reuse\<close>

lemma pooled_use_count: "workspaces_ok S \<Longrightarrow> b \<in> set (pooled S) \<Longrightarrow> use_count S b = 1 + ws_holders S b"
proof -
  have "distinct bs \<Longrightarrow> b \<in> set bs \<Longrightarrow> count_list bs b = 1" for bs :: "nat list"
    by (induction bs) auto
  then show "workspaces_ok S \<Longrightarrow> b \<in> set (pooled S) \<Longrightarrow> use_count S b = 1 + ws_holders S b"
    by (simp add: workspaces_ok_def use_count_def)
qed

lemma acquire_pools:
  assumes "acquire_deltanet_workspace create dev bytes m p S = (Some b, S')"
  obtains extra where "ws_pools S' p = ws_pools S p @ extra" "b \<in> set (pooled S')"
  using assms
proof (cases rule: acquire_cases)
  case (reused e)
  with that [of "[]"] workspace_pooled [OF reused(2)] show ?thesis by simp
next
  case refused
  then show ?thesis by simp
next
  case created
  then show ?thesis using that workspace_pooled [of "\<lparr>ws_buffer = b, ws_device = dev, ws_type = m\<rparr>" S' p] by simp
qed

text \<open>A later state in which the holders are what they were: the search finds the same buffer.\<close>

lemma acquire_again:
  assumes ok: "workspaces_ok S" "workspaces_ok U" and a: "acquire_deltanet_workspace create dev bytes m p S = (Some b, S1)"
    and U: "ws_pools U p = ws_pools S1 p @ extra" "ws_holders U = ws_holders S" "\<forall>c < ws_next S1. ws_size U c = ws_size S1 c"
  shows "acquire_deltanet_workspace create' dev bytes m p U = (Some b, hold b U)"
proof -
  note acq = acquire_ok(2) [OF ok(1) a refl]
  obtain more where more: "ws_pools S1 p = ws_pools S p @ more" using acquire_pools [OF a] by blast
  have same: "workspace_fits dev bytes m U e = workspace_fits dev bytes m S e" if "e \<in> set (ws_pools S p)" for e
  proof -
    from that have e: "ws_buffer e \<in> set (pooled S)" "ws_buffer e \<in> set (pooled U)"
      using workspace_pooled [of e S p] workspace_pooled [of e U p] by (auto simp: U(1) more)
    with ok(1) acq U(3) have "ws_size U (ws_buffer e) = ws_size S (ws_buffer e)"
      by (auto simp: workspaces_ok_def acquired_def)
    with pooled_use_count [OF ok(1) e(1)] pooled_use_count [OF ok(2) e(2)] U(2) show ?thesis
      by (simp add: workspace_fits_def)
  qed
  then have search: "List.find (workspace_fits dev bytes m U) (ws_pools S p) = List.find (workspace_fits dev bytes m S) (ws_pools S p)"
    by (intro find_cong) auto
  have later: "List.find P (xs @ ys) = (case List.find P xs of None \<Rightarrow> List.find P ys | Some e \<Rightarrow> Some e)"
    for P and xs ys :: "workspace list" by (induction xs) auto
  from a show ?thesis
  proof (cases rule: acquire_cases)
    case (reused e)
    then show ?thesis by (simp add: acquire_deltanet_workspace_def U(1) later search)
  next
    case refused
    then show ?thesis by simp
  next
    case created
    let ?e = "\<lparr>ws_buffer = b, ws_device = dev, ws_type = m\<rparr>"
    from created have pool: "ws_pools U p = ws_pools S p @ ?e # extra" by (simp add: U(1))
    then have "b \<in> set (pooled U)" using workspace_pooled [of ?e U p] by simp
    note count = pooled_use_count [OF ok(2) this]
    have "ws_holders S b = 0" "b < ws_next S1" "bytes \<le> ws_size S1 b" using acq by (simp_all add: acquired_def)
    with U(2,3) count have "use_count U b = 1" "bytes \<le> ws_size U b" by simp_all
    then have "workspace_fits dev bytes m U ?e" by (simp add: workspace_fits_def)
    with created(1) show ?thesis by (simp add: acquire_deltanet_workspace_def pool later search)
  qed
qed

text \<open>C28. A decoder in a steady state allocates nothing: when the results of a grouped convolution are
  gone, the same convolution takes the same three buffers again, whether or not the backend has
  memory left.\<close>

theorem workspaces_reused:
  assumes "workspaces_reachable S"
    and "grouped_conv_buffers create dev qk_bytes v_bytes m True S = (Some (q, k, v), S')"
  shows "grouped_conv_buffers create' dev qk_bytes v_bytes m True (release v (release k (release q S'))) = (Some (q, k, v), S')"
proof -
  obtain q1 S1 where 1: "acquire_deltanet_workspace create dev qk_bytes m GroupedConv S = (q1, S1)" by fastforce
  obtain k1 S2 where 2: "acquire_deltanet_workspace create dev qk_bytes m GroupedConv S1 = (k1, S2)" by fastforce
  obtain v1 S3 where 3: "acquire_deltanet_workspace create dev v_bytes m GroupedConv S2 = (v1, S3)" by fastforce
  from assms(2) have r: "q1 = Some q" "k1 = Some k" "v1 = Some v" and S': "S' = S3"
    by (auto simp: grouped_conv_buffers_def 1 2 3 split: option.splits)
  note a = 1 [unfolded r] 2 [unfolded r] 3 [unfolded r]
  note ok = reachable_workspaces_ok [OF assms(1)]
  note ok1 = acquire_ok(1) [OF ok 1]
  note ok2 = acquire_ok(1) [OF ok1 2]
  note acq = acquire_ok(2) [OF ok a(1) refl] acquire_ok(2) [OF ok1 a(2) refl] acquire_ok(2) [OF ok2 a(3) refl]
  obtain e2 where e2: "ws_pools S2 GroupedConv = ws_pools S1 GroupedConv @ e2" using acquire_pools [OF a(2)] by blast
  obtain e3 where e3: "ws_pools S3 GroupedConv = ws_pools S2 GroupedConv @ e3" using acquire_pools [OF a(3)] by blast
  let ?T = "release v (release k (release q S3))"
  have zero: "ws_holders S q = 0" "ws_holders S1 k = 0" "ws_holders S2 v = 0" using acq by (simp_all add: acquired_def)
  have set1: "ws_holders S1 = (ws_holders S)(q := 1)" "ws_holders S2 = (ws_holders S1)(k := 1)"
    "ws_holders S3 = (ws_holders S2)(v := 1)" using acq by (simp_all add: acquired_def)
  have distinct: "q \<noteq> k" "q \<noteq> v" "k \<noteq> v" using zero(2,3) by (simp_all add: set1(1,2) split: if_splits)
  have holders: "ws_holders ?T = ws_holders S" "ws_holders (hold q ?T) = ws_holders S1"
    "ws_holders (hold k (hold q ?T)) = ws_holders S2" "ws_holders (hold v (hold k (hold q ?T))) = ws_holders S3"
    using zero distinct by (auto simp: set1 fun_eq_iff)
  have bounds: "b < ws_next ?T" if "b \<in> {q, k, v}" for b using acq that by (auto simp: acquired_def)
  have okT: "workspaces_ok ?T" by (intro workspaces_ok_release acquire_ok(1) [OF ok2 3])
  have "workspaces_ok (hold q ?T)" by (rule workspaces_ok_hold [OF okT]) (use bounds in simp)
  moreover from this have "workspaces_ok (hold k (hold q ?T))" by (rule workspaces_ok_hold) (use bounds in simp)
  ultimately have okU: "workspaces_ok (hold q ?T)" "workspaces_ok (hold k (hold q ?T))" .
  have sizes: "\<forall>c < ws_next S1. ws_size ?T c = ws_size S1 c" "\<forall>c < ws_next S2. ws_size ?T c = ws_size S2 c"
    using acq by (simp_all add: acquired_def)
  have "acquire_deltanet_workspace create' dev qk_bytes m GroupedConv ?T = (Some q, hold q ?T)"
    by (rule acquire_again [where extra = "e2 @ e3", OF ok okT a(1) _ holders(1) sizes(1)]) (simp add: e2 e3)
  moreover have "acquire_deltanet_workspace create' dev qk_bytes m GroupedConv (hold q ?T) = (Some k, hold k (hold q ?T))"
    by (rule acquire_again [where extra = e3, OF ok1 okU(1) a(2) _ holders(2)]) (use sizes(2) in \<open>simp_all add: e3\<close>)
  moreover have "acquire_deltanet_workspace create' dev v_bytes m GroupedConv (hold k (hold q ?T)) =
      (Some v, hold v (hold k (hold q ?T)))"
    by (rule acquire_again [where extra = "[]", OF ok2 okU(2) a(3) _ holders(3)]) simp_all
  moreover have "hold v (hold k (hold q ?T)) = S3"
    using holders(4) by (cases S3) (simp add: hold_def release_def)
  ultimately show ?thesis by (simp add: grouped_conv_buffers_def S')
qed

theorem workspaces_reused_witness:
  "\<exists>S. grouped_conv_buffers (\<lambda>_ _. True) Cpu 8 16 DeviceMem True no_workspaces = (Some (0, 1, 2), S) \<and>
     grouped_conv_buffers (\<lambda>_ _. False) Cpu 8 16 DeviceMem True (release 2 (release 1 (release 0 S))) = (Some (0, 1, 2), S)"
proof -
  obtain S where S: "grouped_conv_buffers (\<lambda>_ _. True) Cpu 8 16 DeviceMem True no_workspaces = (Some (0, 1, 2), S)"
    by (simp add: grouped_conv_buffers_def acquire_deltanet_workspace_def workspace_fits_def use_count_def pooled_def
        hold_def release_def no_workspaces_def Let_def)
  with workspaces_reused [OF workspaces_reachable.start S] show ?thesis by blast
qed

end
