(* ===== verification/Tokenizer_Laws.thy ===== *)
theory Tokenizer_Laws
  imports Qwen_Tokenizer "HOL-Library.Multiset"
begin

text \<open>
  What the tokenizer promises: the byte alphabet is a bijection, UTF-8 encoding is undone by
  decoding, the pre-tokenizer and the merge loop cut a text into pieces without losing a byte,
  and decoding undoes encoding for a tokenizer that was loaded from a closed vocabulary.
\<close>

section \<open>Association lists as hash maps\<close>

lemma map_of_update [simp]: "map_of (AList.update k v m) = (map_of m)(k \<mapsto> v)"
  by (rule AList.update_conv')

lemma map_of_fold_update:
  assumes "distinct (map f xs)"
  shows "map_of (fold (\<lambda>i m. AList.update (f i) (g i) m) xs m) k =
    (case map_of (map (\<lambda>i. (f i, g i)) xs) k of None \<Rightarrow> map_of m k | Some v \<Rightarrow> Some v)"
  using assms
proof (induction xs arbitrary: m)
  case (Cons x xs)
  then have "f x \<notin> f ` set xs" by simp
  then have "map_of (map (\<lambda>i. (f i, g i)) xs) (f x) = None"
    by (simp add: map_of_eq_None_iff image_image)
  then show ?case using Cons by (auto split: option.splits)
qed simp

section \<open>The byte alphabet\<close>

lemma printable_bytes_set: "set printable_bytes = {0x21..<0x7F} \<union> {0xA1..<0xAD} \<union> {0xAE..<0x100}"
  by (simp only: printable_bytes_def set_append set_upt Un_assoc)

lemma printable_bytes_length: "length printable_bytes = 188"
  by (simp add: printable_bytes_def)

lemma byte_list_distinct: "distinct byte_list"
  by (auto simp: byte_list_def printable_bytes_def)

lemma byte_list_set: "set byte_list = {0..<256}"
  by (auto simp: byte_list_def printable_bytes_set)

lemma byte_list_length: "length byte_list = 256"
  using distinct_card [OF byte_list_distinct] by (simp add: byte_list_set)

lemma byte_list_less: "i < 256 \<Longrightarrow> byte_list ! i < 256"
  using byte_list_set byte_list_length nth_mem [of i byte_list] by auto

definition byte_index :: "u8 \<Rightarrow> nat" where
  "byte_index b = (SOME i. i < 256 \<and> byte_list ! i = unat b)"

lemma byte_index: "byte_index b < 256" "byte_list ! byte_index b = unat b"
proof -
  have "unat b \<in> set byte_list"
    using unsigned_less [of b] by (simp add: byte_list_set)
  then have "\<exists>i < 256. byte_list ! i = unat b"
    by (metis in_set_conv_nth byte_list_length)
  then have "byte_index b < 256 \<and> byte_list ! byte_index b = unat b"
    unfolding byte_index_def by (rule someI_ex)
  then show "byte_index b < 256" "byte_list ! byte_index b = unat b" by auto
qed

lemma byte_codepoint_unat:
  "i < 256 \<Longrightarrow> unat (byte_codepoint i) = (if i < 188 then byte_list ! i else i + 68)"
  using byte_list_less [of i]
  by (auto simp: byte_codepoint_def unsigned_of_nat take_bit_eq_mod simp del: of_nat_add)

lemma byte_codepoint_inj: "inj_on byte_codepoint {0..<256}"
proof (rule inj_onI)
  fix i j assume ij: "i \<in> {0..<256}" "j \<in> {0..<256}" "byte_codepoint i = byte_codepoint j"
  then have "(if i < 188 then byte_list ! i else i + 68) = (if j < 188 then byte_list ! j else j + 68)"
    by (metis byte_codepoint_unat atLeastLessThan_iff)
  then show "i = j"
    using ij byte_list_less [of i] byte_list_less [of j] nth_eq_iff_index_eq [OF byte_list_distinct, of i j]
    by (auto simp: byte_list_length split: if_splits)
qed

lemma byte_codepoint_pos:
  assumes "i < 256" shows "0 < unat (byte_codepoint i) \<and> unat (byte_codepoint i) < 324"
proof (cases "i < 188")
  case True
  then have "byte_list ! i \<in> set printable_bytes"
    using nth_mem [of i printable_bytes] by (simp add: byte_list_def nth_append printable_bytes_length)
  then show ?thesis using True by (auto simp: byte_codepoint_unat printable_bytes_set)
qed (use assms in \<open>simp add: byte_codepoint_unat\<close>)

definition byte_char :: "u8 \<Rightarrow> u32" where
  "byte_char b = byte_codepoint (byte_index b)"

lemma byte_keys: "map (\<lambda>i. of_nat (byte_list ! i) :: u8) [0..<256] = map of_nat byte_list"
  by (rule nth_equalityI) (simp_all add: byte_list_length)

lemma byte_keys_distinct: "distinct (map of_nat byte_list :: u8 list)"
proof -
  have "inj_on (of_nat :: nat \<Rightarrow> u8) (set byte_list)"
    by (rule inj_onI) (drule arg_cong [of _ _ unat],
      simp add: byte_list_set unsigned_of_nat take_bit_eq_mod)
  then show ?thesis using byte_list_distinct by (simp add: distinct_map)
qed

lemma build_bytes_to_unicode: "map_of build_bytes_to_unicode b = Some (byte_char b)"
proof -
  have d: "distinct (map (\<lambda>i. of_nat (byte_list ! i) :: u8) [0..<256])"
    by (simp only: byte_keys byte_keys_distinct)
  have "(b, byte_char b) \<in> set (map (\<lambda>i. (of_nat (byte_list ! i) :: u8, byte_codepoint i)) [0..<256])"
    using byte_index [of b] by (auto simp: byte_char_def image_iff intro!: bexI [of _ "byte_index b"])
  moreover have "distinct (map fst (map (\<lambda>i. (of_nat (byte_list ! i) :: u8, byte_codepoint i)) [0..<256]))"
    using d by (simp add: comp_def)
  ultimately have "map_of (map (\<lambda>i. (of_nat (byte_list ! i) :: u8, byte_codepoint i)) [0..<256]) b =
      Some (byte_char b)" by (simp only: map_of_eq_Some_iff)
  then show ?thesis
    by (simp only: build_bytes_to_unicode_def byte_list_length map_of_fold_update [OF d] option.case)
qed

lemma byte_char_inj: "byte_char a = byte_char b \<longleftrightarrow> a = b"
proof
  assume "byte_char a = byte_char b"
  then have "byte_index a = byte_index b"
    using byte_codepoint_inj byte_index by (auto simp: byte_char_def inj_on_def)
  then have "unat a = unat b" using byte_index by metis
  then show "a = b" by (rule unsigned_word_eqI)
qed simp

lemma byte_char_encodable: "encodable (byte_char b)"
  using byte_codepoint_pos [of "byte_index b"] byte_index [of b]
  by (simp add: encodable_def byte_char_def word_less_nat_alt)

lemma build_unicode_to_bytes: "map_of (build_unicode_to_bytes build_bytes_to_unicode) (byte_char b) = Some b"
proof -
  let ?m = build_bytes_to_unicode
  have keys: "distinct (map fst ?m)"
    unfolding build_bytes_to_unicode_def
    by (rule fold_invariant [where Q = "\<lambda>_. True"]) (auto simp: distinct_update)
  have mem: "x \<in> set ?m \<longleftrightarrow> snd x = byte_char (fst x)" for x
    using map_of_eq_Some_iff [OF keys, of "fst x" "snd x"] build_bytes_to_unicode [of "fst x"] by auto
  have "inj_on snd (set ?m)"
    by (rule inj_onI) (auto simp: mem byte_char_inj prod_eq_iff)
  then have d: "distinct (map snd ?m)"
    using keys by (simp add: distinct_map)
  have m: "map_of (map (\<lambda>i. (snd i, fst i)) ?m) (byte_char b) = Some b"
    using d mem [of "(b, byte_char b)"] by (intro map_of_is_SomeI) (auto simp: comp_def image_iff intro: rev_bexI)
  have "build_unicode_to_bytes ?m = fold (\<lambda>i m. AList.update (snd i) (fst i) m) ?m []"
    unfolding build_unicode_to_bytes_def by (rule fold_cong) auto
  then show ?thesis by (simp add: map_of_fold_update [OF d] m)
qed

text \<open>A tokenizer whose byte maps are the built ones.\<close>

definition alphabet_loaded :: "tokenizer \<Rightarrow> bool" where
  "alphabet_loaded T \<longleftrightarrow>
     tok_bytes_to_unicode T = build_bytes_to_unicode \<and>
     tok_unicode_to_bytes T = build_unicode_to_bytes build_bytes_to_unicode"

lemma byte_encode_eq:
  "alphabet_loaded T \<Longrightarrow> byte_encode T text = codepoints_to_utf8 (map byte_char text)"
  by (simp add: byte_encode_def alphabet_loaded_def build_bytes_to_unicode codepoints_to_utf8_def comp_def)

lemma utf8_to_codepoints_encoded:
  "\<forall>cp \<in> set cps. encodable cp \<Longrightarrow> utf8_to_codepoints (codepoints_to_utf8 cps) = cps"
  using utf8_decode_encode [of cps "[]"] by simp

lemma token_bytes_encode: "alphabet_loaded T \<Longrightarrow> token_bytes T (byte_encode T text) = text"
  by (simp add: token_bytes_def byte_encode_eq utf8_to_codepoints_encoded byte_char_encodable
      comp_def build_unicode_to_bytes alphabet_loaded_def)

lemma byte_encode_append: "byte_encode T (a @ b) = byte_encode T a @ byte_encode T b"
  by (simp add: byte_encode_def)

section \<open>The merge loop\<close>

lemma merge_at_map:
  fixes h :: "bytes \<Rightarrow> bytes"
  assumes "\<And>a b. h (a @ b) = h a @ h b" "Suc i < length ws"
  shows "merge_at (map h ws) i = map h (merge_at ws i)"
  using assms by (simp add: merge_at_def take_map drop_map)

lemma concat_merge_at:
  assumes "Suc i < length ws" shows "concat (merge_at ws i) = concat ws"
proof -
  have "ws = take i ws @ ws ! i # ws ! Suc i # drop (i + 2) ws"
    using assms by (metis Cons_nth_drop_Suc Suc_lessD add_2_eq_Suc' append_take_drop_id)
  then have "concat ws = concat (take i ws @ ws ! i # ws ! Suc i # drop (i + 2) ws)" by simp
  then show ?thesis by (simp add: merge_at_def)
qed

text \<open>A pair that is merged has a merge rule.\<close>

lemma best_pair_ranked:
  assumes "best_pair T ws < length ws"
  shows "\<exists>r. map_of (tok_merges T) (ws ! best_pair T ws, ws ! Suc (best_pair T ws)) = Some r"
proof -
  let ?step = "\<lambda>i (best_rank, best_idx).
    if pair_rank T ws i < best_rank then (pair_rank T ws i, i) else (best_rank, best_idx)"
  have "fst p \<le> int64_max \<Longrightarrow> snd p < length ws \<longrightarrow> pair_rank T ws (snd p) < int64_max \<Longrightarrow>
    fst (fold ?step xs p) \<le> int64_max \<and>
    (snd (fold ?step xs p) < length ws \<longrightarrow> pair_rank T ws (snd (fold ?step xs p)) < int64_max)" for xs p
    by (induction xs arbitrary: p) (auto split: prod.splits)
  from this [of "(int64_max, length ws)" "[0..<length ws - 1]"] assms
  have "pair_rank T ws (best_pair T ws) < int64_max" by (simp add: best_pair_def)
  then show ?thesis by (auto simp: pair_rank_def split: option.splits)
qed

text \<open>The loop on the pieces of an encoded text works on the pieces of the text: it cuts the
  same text, and every token it makes is a single byte or the two sides of a merge rule.\<close>

lemma bpe_loop_pieces:
  fixes h :: "bytes \<Rightarrow> bytes"
  assumes "\<And>a b. h (a @ b) = h a @ h b"
    and "\<And>a b r. map_of (tok_merges T) (a, b) = Some r \<Longrightarrow> V (a @ b)"
    and "\<forall>p \<in> set ps. V (h p)"
  shows "\<exists>qs. bpe_loop T (map h ps) = map h qs \<and> concat qs = concat ps \<and> (\<forall>q \<in> set qs. V (h q))"
  using assms(3)
proof (induction "length ps" arbitrary: ps rule: less_induct)
  case less
  let ?i = "best_pair T (map h ps)"
  show ?case
  proof (cases "length (map h ps) \<le> ?i")
    case True
    then show ?thesis using less.prems by (subst bpe_loop.simps) (auto simp: Let_def)
  next
    case False
    then have i: "Suc ?i < length ps" using best_pair_bound [of T "map h ps"] by simp
    from False obtain r where "map_of (tok_merges T) (map h ps ! ?i, map h ps ! Suc ?i) = Some r"
      using best_pair_ranked [of T "map h ps"] by auto
    then have "V (h (ps ! ?i @ ps ! Suc ?i))" using i assms(1, 2) by (simp add: nth_map)
    then have v: "\<forall>p \<in> set (merge_at ps ?i). V (h p)"
      using less.prems by (auto simp: merge_at_def dest: in_set_takeD in_set_dropD)
    have "bpe_loop T (map h ps) = bpe_loop T (map h (merge_at ps ?i))"
      using False i by (subst bpe_loop.simps) (simp add: Let_def merge_at_map [OF assms(1)])
    moreover have "length (merge_at ps ?i) < length ps" using i by (simp add: merge_at_length)
    ultimately show ?thesis using less.hyps [OF _ v] concat_merge_at [OF i] by simp
  qed
qed

lemma bpe_pieces:
  assumes "alphabet_loaded T"
    and "\<And>a b r. map_of (tok_merges T) (a, b) = Some r \<Longrightarrow> V (a @ b)"
    and "\<forall>b \<in> set text. V (byte_encode T [b])"
  shows "\<exists>qs. bpe T (byte_encode T text) = map (byte_encode T) qs \<and> concat qs = text \<and>
    (\<forall>q \<in> set qs. V (byte_encode T q))"
proof -
  let ?ps = "map (\<lambda>b. [b]) text"
  have ws: "map (\<lambda>c. codepoints_to_utf8 [c]) (utf8_to_codepoints (byte_encode T text)) =
      map (byte_encode T) ?ps"
    by (simp add: byte_encode_eq assms(1) utf8_to_codepoints_encoded byte_char_encodable)
  have c: "concat ?ps = text" by (simp add: concat_map_singleton [of "\<lambda>b. b", simplified])
  have v: "\<forall>p \<in> set ?ps. V (byte_encode T p)" using assms(3) by auto
  show ?thesis
  proof (cases "length ?ps \<le> 1")
    case True
    then have "bpe T (byte_encode T text) = map (byte_encode T) ?ps"
      unfolding bpe_def Let_def ws by simp
    then show ?thesis using c v by blast
  next
    case False
    then have "bpe T (byte_encode T text) = bpe_loop T (map (byte_encode T) ?ps)"
      unfolding bpe_def Let_def ws by simp
    then show ?thesis
      using bpe_loop_pieces [where h = "byte_encode T" and V = V, OF byte_encode_append assms(2) v] c
      by simp
  qed
qed

section \<open>Cutting a text\<close>

lemma codepoints_to_utf8_append:
  "codepoints_to_utf8 (a @ b) = codepoints_to_utf8 a @ codepoints_to_utf8 b"
  by (simp add: codepoints_to_utf8_def)

lemma codepoints_to_utf8_Nil [simp]: "codepoints_to_utf8 [] = []"
  by (simp add: codepoints_to_utf8_def)

lemma pre_tokenize_loop_concat:
  "pos \<le> length cpts \<Longrightarrow>
   concat (pre_tokenize_loop cpts pos pos result) =
     concat result @ codepoints_to_utf8 (drop pos cpts)"
proof (induction "length cpts - pos" arbitrary: pos result rule: less_induct)
  case less
  show ?case
  proof (cases "pos < length cpts")
    case True
    define e where "e = piece_end cpts pos"
    have e: "pos < e" "e \<le> length cpts" using piece_end_bounds [OF True] by (simp_all add: e_def)
    have "drop pos cpts = take (e - pos) (drop pos cpts) @ drop e cpts"
      using e by (metis append_take_drop_id drop_drop le_add_diff_inverse2 less_imp_le)
    then have cut: "codepoints_to_utf8 (drop pos cpts) =
        codepoints_to_utf8 (take (e - pos) (drop pos cpts)) @ codepoints_to_utf8 (drop e cpts)"
      by (metis codepoints_to_utf8_append)
    have "pre_tokenize_loop cpts pos pos result =
        pre_tokenize_loop cpts e e (result @ [codepoints_to_utf8 (take (e - pos) (drop pos cpts))])"
      using True e by (subst pre_tokenize_loop.simps) (simp add: Let_def flip: e_def)
    then show ?thesis using less.hyps [of e] e cut by simp
  next
    case False
    then show ?thesis using less.prems by (subst pre_tokenize_loop.simps) (simp add: codepoints_to_utf8_def)
  qed
qed

text \<open>Valid text: the UTF-8 encoding of code points other than NUL.\<close>

definition valid_utf8 :: "bytes \<Rightarrow> bool" where
  "valid_utf8 text \<longleftrightarrow>
     list_all encodable (utf8_to_codepoints text) \<and>
     codepoints_to_utf8 (utf8_to_codepoints text) = text"

lemma valid_utf8_iff:
  "valid_utf8 text \<longleftrightarrow> (\<exists>cps. (\<forall>cp \<in> set cps. encodable cp) \<and> text = codepoints_to_utf8 cps)"
  by (metis list_all_iff utf8_to_codepoints_encoded valid_utf8_def)

lemma pre_tokenize_concat: "valid_utf8 text \<Longrightarrow> concat (pre_tokenize text) = text"
  using pre_tokenize_loop_concat [of 0 "utf8_to_codepoints text" "[]"]
  by (auto simp: pre_tokenize_def Let_def valid_utf8_def codepoints_to_utf8_def)

subsection \<open>Boundaries\<close>

definition continuation :: "u8 \<Rightarrow> bool" where
  "continuation b \<longleftrightarrow> b AND 0xC0 = 0x80"

lemma codepoint_tail_continuation: "b \<in> set (tl (codepoint_to_utf8 cp)) \<Longrightarrow> continuation b"
  by (auto simp: codepoint_to_utf8_def continuation_def continuation_byte split: if_splits)

lemma codepoint_to_utf8_ne: "codepoint_to_utf8 cp \<noteq> []"
  by (simp add: codepoint_to_utf8_def)

lemma valid_utf8_append: "valid_utf8 a \<Longrightarrow> valid_utf8 b \<Longrightarrow> valid_utf8 (a @ b)"
  unfolding valid_utf8_iff by (metis codepoints_to_utf8_append set_append Un_iff)

lemma valid_utf8_Nil [simp]: "valid_utf8 []"
  by (auto simp: valid_utf8_def codepoints_to_utf8_def)

lemma utf8_split_lead:
  "\<forall>cp \<in> set cps. encodable cp \<Longrightarrow> codepoints_to_utf8 cps = u @ b # r \<Longrightarrow> \<not> continuation b \<Longrightarrow>
   valid_utf8 u \<and> valid_utf8 (b # r)"
proof (induction cps arbitrary: u)
  case (Cons c cps)
  let ?c = "codepoint_to_utf8 c"
  have eq: "?c @ codepoints_to_utf8 cps = u @ b # r"
    using Cons.prems(2) by (simp add: codepoints_to_utf8_def)
  show ?case
  proof (cases "u = []")
    case True
    then show ?thesis using Cons.prems(1, 2) unfolding valid_utf8_iff
      by (metis append_Nil codepoints_to_utf8_Nil list.set(1) empty_iff)
  next
    case False
    from eq consider us where "u = ?c @ us" "codepoints_to_utf8 cps = us @ b # r"
      | us where "?c = u @ b # us"
      unfolding append_eq_append_conv2 append_eq_Cons_conv by fastforce
    then show ?thesis
    proof cases
      case 1
      have "valid_utf8 ?c" using Cons.prems(1)
        by (auto simp: valid_utf8_iff codepoints_to_utf8_def intro!: exI [of _ "[c]"])
      then show ?thesis using Cons.IH [OF _ 1(2)] Cons.prems 1(1) valid_utf8_append by auto
    next
      case 2
      then have "b \<in> set (tl ?c)" using False by (cases u) auto
      then show ?thesis using codepoint_tail_continuation Cons.prems(3) by blast
    qed
  qed
qed (simp add: codepoints_to_utf8_def)

lemma utf8_cancel:
  "\<forall>cp \<in> set bs. encodable cp \<Longrightarrow> valid_utf8 (codepoints_to_utf8 bs @ r) \<Longrightarrow> valid_utf8 r"
proof (induction bs)
  case (Cons c bs)
  let ?t = "codepoint_to_utf8 c @ codepoints_to_utf8 bs @ r"
  have t: "valid_utf8 ?t" using Cons.prems by (simp add: codepoints_to_utf8_def)
  have d: "utf8_to_codepoints ?t = c # utf8_to_codepoints (codepoints_to_utf8 bs @ r)"
    using Cons.prems by (simp add: utf8_decode_one)
  have "codepoint_to_utf8 c @ codepoints_to_utf8 (utf8_to_codepoints (codepoints_to_utf8 bs @ r)) = ?t"
    using t unfolding valid_utf8_def d by (simp add: codepoints_to_utf8_def)
  then have "valid_utf8 (codepoints_to_utf8 bs @ r)"
    using t d by (simp add: valid_utf8_def)
  then show ?case using Cons by simp
qed (simp add: codepoints_to_utf8_def)

lemma continuation_bits: "continuation b \<Longrightarrow> bit b 7 \<and> \<not> bit b 6"
proof -
  assume "continuation b"
  then have "bit (b AND 0xC0) i = bit (0x80 :: u8) i" for i by (simp add: continuation_def)
  from this [of 6] this [of 7] show ?thesis by (simp add: bit_simps)
qed

lemma masked_bit: "b AND m = (v :: u8) \<Longrightarrow> bit m i \<Longrightarrow> bit b i = bit v i"
  by (auto simp: bit_simps)

lemma lead_byte_bits:
  "utf8_sequence_length b \<noteq> 1 \<Longrightarrow> bit b 6" "b AND 0x80 = 0 \<Longrightarrow> \<not> bit b 7"
proof -
  show "b AND 0x80 = 0 \<Longrightarrow> \<not> bit b 7" using masked_bit [of b "0x80" 0 7] by simp
  show "utf8_sequence_length b \<noteq> 1 \<Longrightarrow> bit b 6"
    using masked_bit [of b "0xE0" "0xC0" 6] masked_bit [of b "0xF0" "0xE0" 6]
      masked_bit [of b "0xF8" "0xF0" 6]
    by (auto simp: utf8_sequence_length_def split: if_splits)
qed

lemma lead_not_continuation:
  assumes "encodable cp" shows "\<not> continuation (hd (codepoint_to_utf8 cp))"
proof (cases "cp \<le> 0x7F")
  case True
  then show ?thesis
    using lead_byte_1(1) [OF True] continuation_bits lead_byte_bits(2)
    by (fastforce simp: codepoint_to_utf8_def)
next
  case False
  then have "utf8_sequence_length (hd (codepoint_to_utf8 cp)) \<noteq> 1"
    using utf8_lead_length [OF assms] by (simp add: codepoint_to_utf8_length)
  then show ?thesis using continuation_bits lead_byte_bits(1) by blast
qed

lemma valid_utf8_lead:
  assumes "valid_utf8 t" "t \<noteq> []" shows "\<not> continuation (hd t)"
proof -
  from assms obtain c cps where "encodable c" "t = codepoint_to_utf8 c @ codepoints_to_utf8 cps"
    unfolding valid_utf8_iff codepoints_to_utf8_def by (metis concat.simps(2) list.exhaust list.set_intros(1) list.simps(8,9) concat.simps(1))
  then show ?thesis using lead_not_continuation by (simp add: codepoint_to_utf8_ne)
qed

text \<open>A valid token inside a valid text starts and ends at code point boundaries.\<close>

lemma valid_utf8_split:
  assumes "valid_utf8 (u @ t @ r)" "valid_utf8 t" "t \<noteq> []"
  shows "valid_utf8 u" "valid_utf8 r"
proof -
  obtain b t' where t: "t = b # t'" using assms(3) by (cases t) auto
  from assms(1) obtain cps where "\<forall>cp \<in> set cps. encodable cp" "codepoints_to_utf8 cps = u @ b # t' @ r"
    unfolding valid_utf8_iff t by auto
  then have "valid_utf8 u \<and> valid_utf8 (b # t' @ r)"
    using utf8_split_lead valid_utf8_lead [OF assms(2, 3)] t by simp
  moreover from assms(2) obtain ts where "\<forall>cp \<in> set ts. encodable cp" "t = codepoints_to_utf8 ts"
    unfolding valid_utf8_iff by auto
  moreover from calculation have "valid_utf8 (codepoints_to_utf8 ts @ r)" using t by (metis append_Cons)
  ultimately show "valid_utf8 u" "valid_utf8 r" using utf8_cancel [of ts r] by auto
qed

section \<open>Splitting at added tokens\<close>

lemma best_added_fold: "fold (added_step rest) added best \<in> set added \<union> {best}"
proof (induction added arbitrary: best)
  case (Cons x added)
  have "added_step rest x best \<in> {x, best}" by (cases x) (simp add: added_step_def)
  then show ?case using Cons [of "added_step rest x best"] by auto
qed simp

lemma best_added_member:
  "fst (best_added added rest) \<noteq> [] \<Longrightarrow> best_added added rest \<in> set added"
  using best_added_fold [of rest added "([], -1)"] by (auto simp: best_added_def)

definition open_text :: "segment list \<Rightarrow> bytes" where
  "open_text segs = (if segs \<noteq> [] \<and> \<not> seg_special (last segs) then seg_text (last segs) else [])"

text \<open>Every segment is an added token or valid text, the last of which may still be open.\<close>

definition segment_ok :: "(bytes \<times> int) list \<Rightarrow> segment \<Rightarrow> bool" where
  "segment_ok added s \<longleftrightarrow>
     (if seg_special s then (seg_text s, seg_id s) \<in> set added else valid_utf8 (seg_text s))"

definition segments_ok :: "(bytes \<times> int) list \<Rightarrow> segment list \<Rightarrow> bytes \<Rightarrow> bool" where
  "segments_ok added segs rest \<longleftrightarrow>
     valid_utf8 (open_text segs @ rest) \<and>
     (\<forall>s \<in> set (butlast segs). segment_ok added s) \<and>
     (segs \<noteq> [] \<longrightarrow> seg_special (last segs) \<longrightarrow> segment_ok added (last segs))"

lemma segments_ok_all:
  "segments_ok added segs rest \<Longrightarrow> valid_utf8 (open_text segs) \<Longrightarrow> \<forall>s \<in> set segs. segment_ok added s"
  by (cases segs rule: rev_cases) (auto simp: segments_ok_def open_text_def segment_ok_def)

lemma split_loop_segments:
  assumes "\<forall>(t, i) \<in> set added. valid_utf8 t"
  shows "segments_ok added segs rest \<Longrightarrow>
    concat (map seg_text (split_loop added rest segs)) = concat (map seg_text segs) @ rest \<and>
    (\<forall>s \<in> set (split_loop added rest segs). segment_ok added s)"
  using assms
proof (induction added rest segs rule: split_loop.induct)
  case (1 added rest segs)
  obtain best tid where best: "best_added added rest = (best, tid)" by fastforce
  have pre: "rest = best @ drop (length best) rest"
    using best_added_prefix [of added rest] best by (metis append_take_drop_id fst_conv)
  consider (finished) "rest = []" | (special) "rest \<noteq> []" "best \<noteq> []"
    | (extend) "rest \<noteq> []" "best = []" "segs \<noteq> []" "\<not> seg_special (last segs)"
    | (fresh) "rest \<noteq> []" "best = []" "segs = [] \<or> seg_special (last segs)" by blast
  then show ?case
  proof cases
    case finished
    then show ?thesis using 1(4) segments_ok_all [OF 1(4)]
      by (subst (1 2) split_loop.simps) (simp add: segments_ok_def)
  next
    case special
    let ?segs = "segs @ [\<lparr>seg_text = best, seg_special = True, seg_id = tid\<rparr>]"
    have mem: "(best, tid) \<in> set added" using best_added_member [of added rest] best special by simp
    then have "valid_utf8 best" using 1(5) by auto
    then have v: "valid_utf8 (open_text segs)" "valid_utf8 (drop (length best) rest)"
      using valid_utf8_split [of "open_text segs" best "drop (length best) rest"] special(2)
        1(4) [unfolded segments_ok_def] by (simp_all flip: pre)
    have ok: "segments_ok added ?segs (drop (length best) rest)"
      using segments_ok_all [OF 1(4) v(1)] v(2) mem
      by (auto simp: segments_ok_def open_text_def segment_ok_def)
    have "split_loop added rest segs = split_loop added (drop (length best) rest) ?segs"
      using special best by (subst split_loop.simps) simp
    then show ?thesis
      using 1(1) [OF special(1) best [symmetric] special(2) ok 1(5)] pre by simp
  next
    case extend
    let ?segs = "butlast segs @ [(last segs)\<lparr>seg_text := seg_text (last segs) @ [hd rest]\<rparr>]"
    have ok: "segments_ok added ?segs (tl rest)"
      using 1(4) extend by (auto simp: segments_ok_def open_text_def)
    have "split_loop added rest segs = split_loop added (tl rest) ?segs"
      using extend best by (subst split_loop.simps) simp
    moreover have "concat (map seg_text segs) = concat (map seg_text (butlast segs)) @ seg_text (last segs)"
      using extend(3) by (cases segs rule: rev_cases) simp_all
    ultimately show ?thesis
      using 1(2) [OF extend(1) best [symmetric] _ _ ok 1(5)] extend by simp
  next
    case fresh
    let ?segs = "segs @ [\<lparr>seg_text = [hd rest], seg_special = False, seg_id = -1\<rparr>]"
    have "open_text segs = []" using fresh by (auto simp: open_text_def)
    then have ok: "segments_ok added ?segs (tl rest)"
      using 1(4) fresh segments_ok_all [OF 1(4)] by (auto simp: segments_ok_def open_text_def)
    have "split_loop added rest segs = split_loop added (tl rest) ?segs"
      using fresh best by (subst split_loop.simps) auto
    then show ?thesis
      using 1(3) [OF fresh(1) best [symmetric] _ _ ok 1(5)] fresh by auto
  qed
qed

lemma split_special_tokens_segments:
  assumes "\<forall>(t, i) \<in> set (tok_added T). valid_utf8 t" "valid_utf8 s"
  shows "concat (map seg_text (split_special_tokens T s)) = s"
    "\<forall>g \<in> set (split_special_tokens T s). segment_ok (tok_added T) g"
  using split_loop_segments [OF assms(1), of "[]" s] assms(2)
  by (simp_all add: split_special_tokens_def segments_ok_def open_text_def)

section \<open>Decoding undoes encoding\<close>

text \<open>What the tables of a tokenizer have to satisfy: an id names one token, the ids of added
  tokens are apart from those of the vocabulary, and a merge makes a token of the
  vocabulary.\<close>

definition ids_distinct :: "tokenizer \<Rightarrow> bool" where
  "ids_distinct T \<longleftrightarrow>
     distinct (map snd (tok_vocab T)) \<and>
     (\<forall>(t, i) \<in> set (tok_vocab T). map_of (tok_id_to_added T) i = None) \<and>
     (\<forall>(t, i) \<in> set (tok_added T). map_option fst (map_of (tok_id_to_added T) i) = Some t)"

definition merges_closed :: "tokenizer \<Rightarrow> bool" where
  "merges_closed T \<longleftrightarrow>
     (\<forall>((a, b), r) \<in> set (tok_merges T). map_of (tok_vocab T) (a @ b) \<noteq> None)"

definition added_valid :: "tokenizer \<Rightarrow> bool" where
  "added_valid T \<longleftrightarrow> (\<forall>(t, i) \<in> set (tok_added T). valid_utf8 t)"

definition covers_bytes :: "tokenizer \<Rightarrow> bytes \<Rightarrow> bool" where
  "covers_bytes T s \<longleftrightarrow> (\<forall>b \<in> set s. map_of (tok_vocab T) (byte_encode T [b]) \<noteq> None)"

text \<open>The bytes of a text outside its added tokens are tokens.\<close>

definition covers :: "tokenizer \<Rightarrow> bytes \<Rightarrow> bool" where
  "covers T s \<longleftrightarrow>
     (\<forall>g \<in> set (split_special_tokens T s). seg_special g \<or> covers_bytes T (seg_text g))"

text \<open>The table from ids to tokens inverts the vocabulary.\<close>

definition table_inverts :: "tokenizer \<Rightarrow> bool" where
  "table_inverts T \<longleftrightarrow>
     (\<forall>(t, i) \<in> set (tok_vocab T).
        0 \<le> i \<and> i < int (length (tok_id_to_token T)) \<and> tok_id_to_token T ! nat i = t)"

lemma decode_step_vocab:
  assumes "table_inverts T" "ids_distinct T" "map_of (tok_vocab T) t = Some i"
  shows "decode_step T skip i (out, pending) = (out, pending @ token_bytes T t)"
proof -
  have m: "(t, i) \<in> set (tok_vocab T)" using assms(3) by (rule map_of_SomeD)
  then have "map_of (tok_id_to_added T) i = None" using assms(2) by (auto simp: ids_distinct_def)
  moreover have "0 \<le> i \<and> i < int (length (tok_id_to_token T)) \<and> tok_id_to_token T ! nat i = t"
    using assms(1) m by (auto simp: table_inverts_def)
  ultimately show ?thesis by (simp add: decode_step_def)
qed

lemma decode_tokens:
  assumes "alphabet_loaded T" "table_inverts T" "ids_distinct T"
    and "\<forall>q \<in> set qs. map_of (tok_vocab T) (byte_encode T q) \<noteq> None"
  shows "fold (decode_step T skip) (token_ids_of T (map (byte_encode T) qs)) (out, pending) =
    (out, pending @ concat qs)"
  using assms(4)
proof (induction qs arbitrary: pending)
  case (Cons q qs)
  then obtain i where i: "map_of (tok_vocab T) (byte_encode T q) = Some i" by auto
  then show ?case
    using Cons decode_step_vocab [OF assms(2, 3) i] token_bytes_encode [OF assms(1)]
    by (simp add: token_ids_of_def)
qed (simp add: token_ids_of_def)

lemma encode_piece_decodes:
  assumes "alphabet_loaded T" "table_inverts T" "ids_distinct T" "merges_closed T" "covers_bytes T piece"
  shows "fold (decode_step T skip) (encode_piece T piece) (out, pending) = (out, pending @ piece)"
proof -
  have m: "map_of (tok_vocab T) (a @ b) \<noteq> None" if "map_of (tok_merges T) (a, b) = Some r" for a b r
    using assms(4) map_of_SomeD [OF that] by (auto simp: merges_closed_def)
  obtain qs where "bpe T (byte_encode T piece) = map (byte_encode T) qs" "concat qs = piece"
      "\<forall>q \<in> set qs. map_of (tok_vocab T) (byte_encode T q) \<noteq> None"
    using bpe_pieces [where V = "\<lambda>t. map_of (tok_vocab T) t \<noteq> None", OF assms(1), of piece] m assms(5)
    unfolding covers_bytes_def by blast
  then show ?thesis using decode_tokens [OF assms(1-3)] by (simp add: encode_piece_def)
qed

lemma encode_pieces_decode:
  assumes "alphabet_loaded T" "table_inverts T" "ids_distinct T" "merges_closed T"
    and "covers_bytes T (concat pieces)"
  shows "fold (decode_step T skip) (concat (map (encode_piece T) pieces)) (out, pending) =
    (out, pending @ concat pieces)"
  using assms(5)
proof (induction pieces arbitrary: pending)
  case (Cons p pieces)
  then have "covers_bytes T p" "covers_bytes T (concat pieces)" by (auto simp: covers_bytes_def)
  then show ?case using Cons encode_piece_decodes [OF assms(1-4)] by simp
qed simp

lemma encode_segments_decode:
  assumes "alphabet_loaded T" "table_inverts T" "ids_distinct T" "merges_closed T"
    and "\<forall>g \<in> set gs. segment_ok (tok_added T) g" "\<forall>g \<in> set gs. seg_special g \<or> covers_bytes T (seg_text g)"
  shows "case fold (decode_step T False) (concat (map (encode_segment T) gs)) (out, pending) of
    (out', pend') \<Rightarrow> out' @ pend' = out @ pending @ concat (map seg_text gs)"
  using assms(5, 6)
proof (induction gs arbitrary: out pending)
  case (Cons g gs)
  show ?case
  proof (cases "seg_special g")
    case True
    then have "map_option fst (map_of (tok_id_to_added T) (seg_id g)) = Some (seg_text g)"
      using Cons.prems(1) assms(3) by (auto simp: segment_ok_def ids_distinct_def)
    then obtain sp where "map_of (tok_id_to_added T) (seg_id g) = Some (seg_text g, sp)" by auto
    then have "fold (decode_step T False) (encode_segment T g) (out, pending) =
        (out @ pending @ seg_text g, [])"
      using True by (simp add: encode_segment_def decode_step_def)
    then show ?thesis using Cons.IH [of "out @ pending @ seg_text g" "[]"] Cons.prems by simp
  next
    case False
    then have v: "valid_utf8 (seg_text g)" using Cons.prems(1) by (simp add: segment_ok_def)
    have "fold (decode_step T False) (encode_segment T g) (out, pending) =
        (out, pending @ seg_text g)"
      using encode_pieces_decode [OF assms(1-4), of "pre_tokenize (seg_text g)" False out pending]
        pre_tokenize_concat [OF v] Cons.prems(2) False by (simp add: encode_segment_def)
    then show ?thesis using Cons.IH [of out "pending @ seg_text g"] Cons.prems by simp
  qed
qed simp

lemma decode_encode_tables:
  assumes "alphabet_loaded T" "table_inverts T" "ids_distinct T" "merges_closed T" "added_valid T"
    and "valid_utf8 s" "covers T s"
  shows "decode T (encode T s) False = s"
  using encode_segments_decode [OF assms(1-4) split_special_tokens_segments(2), of s "[]" "[]"]
    split_special_tokens_segments [of T s] assms(5-7)
  by (auto simp: decode_def encode_def added_valid_def covers_def split: prod.splits)

section \<open>Loading\<close>

lemma store_tokens:
  assumes "load_each store_token kvs T = (T', Inr ())" "distinct (map snd kvs)"
  shows "tok_vocab T' = tok_vocab T" "length (tok_id_to_token T') = length (tok_id_to_token T)"
    "\<forall>(t, i) \<in> set kvs. 0 \<le> i \<and> i < int (length (tok_id_to_token T')) \<and> tok_id_to_token T' ! nat i = t"
proof -
  have "tok_vocab T' = tok_vocab T \<and> length (tok_id_to_token T') = length (tok_id_to_token T) \<and>
      (\<forall>j. 0 \<le> j \<longrightarrow> j \<notin> snd ` set kvs \<longrightarrow> tok_id_to_token T' ! nat j = tok_id_to_token T ! nat j) \<and>
      (\<forall>(t, i) \<in> set kvs. 0 \<le> i \<and> i < int (length (tok_id_to_token T')) \<and> tok_id_to_token T' ! nat i = t)"
    using assms
  proof (induction kvs arbitrary: T)
    case (Cons kv kvs)
    obtain t i where kv: "kv = (t, i)" by fastforce
    from Cons.prems(1) have i: "0 \<le> i" "i < int (length (tok_id_to_token T))"
      and rest: "load_each store_token kvs (T\<lparr>tok_id_to_token := (tok_id_to_token T)[nat i := t]\<rparr>) = (T', Inr ())"
      by (auto simp: kv store_token_def and_load_def split: if_splits)
    have j: "nat j \<noteq> nat i" if "0 \<le> j" "j \<noteq> i" for j using that i by auto
    show ?case using Cons.IH [OF rest] Cons.prems(2) i j by (auto simp: kv image_iff)
  qed auto
  then show "tok_vocab T' = tok_vocab T" "length (tok_id_to_token T') = length (tok_id_to_token T)"
    "\<forall>(t, i) \<in> set kvs. 0 \<le> i \<and> i < int (length (tok_id_to_token T')) \<and> tok_id_to_token T' ! nat i = t"
    by auto
qed

text \<open>The loaders after the vocabulary leave it and the id table alone.\<close>

definition same_tables :: "tokenizer \<Rightarrow> tokenizer \<Rightarrow> bool" where
  "same_tables T T' \<longleftrightarrow> tok_vocab T' = tok_vocab T \<and> tok_id_to_token T' = tok_id_to_token T"

lemma load_each_same:
  assumes "\<And>x t t'. x \<in> set xs \<Longrightarrow> f x t = (t', Inr ()) \<Longrightarrow> same_tables t t'"
    and "load_each f xs T = (T', Inr ())"
  shows "same_tables T T'"
proof (rule load_each_invariant [where P = "same_tables T", OF _ _ assms(2)])
  show "same_tables T T" by (simp add: same_tables_def)
  show "same_tables T t'" if "x \<in> set xs" "same_tables T t" "f x t = (t', Inr ())" for x t t'
    using assms(1) [OF that(1, 3)] that(2) by (simp add: same_tables_def)
qed

lemma load_merges_same: "load_merges merges T = (T', Inr ()) \<Longrightarrow> same_tables T T'"
  by (auto simp: load_merges_def loading_Inr merge_entry_def Let_def same_tables_def
      dest!: load_each_same [rotated] split: if_splits)

lemma same_tables_trans: "same_tables T T1 \<Longrightarrow> same_tables T1 T2 \<Longrightarrow> same_tables T T2"
  by (simp add: same_tables_def)

lemma same_tables_refl: "same_tables T T"
  by (simp add: same_tables_def)

lemma added_entry_same: "added_entry N j T = (T', Inr ()) \<Longrightarrow> same_tables T T'"
  by (auto simp: added_entry_def loading_Inr same_tables_def split: if_splits)

lemma added_entries_same:
  "load_each (added_entry N) xs T = (T', Inr ()) \<Longrightarrow> same_tables T T'"
  by (erule load_each_same [rotated]) (erule added_entry_same)

lemma load_added_same: "load_added N root T = (T', Inr ()) \<Longrightarrow> same_tables T T'"
  by (auto simp: load_added_def same_tables_refl dest: added_entries_same split: option.splits json.splits)

lemma eos_entry_same: "eos_entry N j T = (T', Inr ()) \<Longrightarrow> same_tables T T'"
  by (auto simp: eos_entry_def loading_Inr same_tables_def split: if_splits)

lemma eos_entries_same:
  "load_each (eos_entry N) xs T = (T', Inr ()) \<Longrightarrow> same_tables T T'"
  by (erule load_each_same [rotated]) (erule eos_entry_same)

lemma load_eos_same: "load_eos N g T = (T', Inr ()) \<Longrightarrow> same_tables T T'"
  by (auto simp: load_eos_def same_tables_refl dest: eos_entries_same eos_entry_same split: option.splits if_splits)

lemma load_id_same:
  "load_id N g k f T = (T', Inr ()) \<Longrightarrow> (\<And>i t. same_tables t (f i t)) \<Longrightarrow> same_tables T T'"
  by (auto simp: load_id_def same_tables_refl loading_Inr split: option.splits if_splits)

lemma same_tables_pad: "same_tables t (t\<lparr>tok_pad := i\<rparr>)"
  and same_tables_bos: "same_tables t (t\<lparr>tok_bos := i\<rparr>)"
  by (simp_all add: same_tables_def)

lemma load_generation_same: "load_generation E T = (T', Inr ()) \<Longrightarrow> same_tables T T'"
proof (cases "tf_generation E")
  case (FileJson g)
  assume "load_generation E T = (T', Inr ())"
  then obtain T1 T2 where "load_eos (tf_numbers E) g T = (T1, Inr ())"
    and p: "load_id (tf_numbers E) g ''pad_token_id'' (\<lambda>i T. T\<lparr>tok_pad := i\<rparr>) T1 = (T2, Inr ())"
    and b: "load_id (tf_numbers E) g ''bos_token_id'' (\<lambda>i T. T\<lparr>tok_bos := i\<rparr>) T2 = (T', Inr ())"
    by (auto simp: load_generation_def FileJson elim!: and_loadE)
  then show ?thesis
    using load_eos_same load_id_same [OF p same_tables_pad] load_id_same [OF b same_tables_bos]
      same_tables_trans by blast
qed (auto simp: load_generation_def same_tables_refl)


lemma store_tokens_vocab:
  "load_each store_token kvs T = (T', Inr ()) \<Longrightarrow> tok_vocab T' = tok_vocab T"
  by (rule load_each_invariant [where P = "\<lambda>t. tok_vocab t = tok_vocab T"])
     (auto simp: store_token_def split: if_splits)

lemma load_vocab_tables:
  assumes "load_vocab E vocab T = (T', Inr ())" "distinct (map snd (tok_vocab T'))"
  shows "table_inverts T'"
proof -
  from assms(1) obtain kvs where k: "keyed_items vocab = Inr kvs" by (auto simp: load_vocab_def loading_Inr)
  obtain T1 m r where e: "load_each (vocab_entry (tf_numbers E)) kvs (T, 0) = ((T1, m), r)"
    by (metis prod.exhaust)
  from assms(1) have
    l: "load_each store_token (tf_order E (tok_vocab T1))
          (T1\<lparr>tok_vocab := tf_order E (tok_vocab T1), tok_id_to_token := replicate (nat (m + 1)) []\<rparr>) =
        (T', Inr ())"
    by (auto simp: load_vocab_def k e split: sum.splits if_splits)
  have v: "tok_vocab T' = tf_order E (tok_vocab T1)"
    using store_tokens_vocab [OF l] by simp
  show ?thesis
    using store_tokens(3) [OF l] assms(2) by (simp add: v table_inverts_def)
qed

lemma load_model_tables:
  fixes E :: "('d, 'f) tokenizer_files"
  assumes "load_model E root T = (T', Inr ())" "distinct (map snd (tok_vocab T'))"
  shows "table_inverts T'"
proof -
  from assms(1) obtain vocab T1 and merges :: "'d json" where v: "load_vocab E vocab T = (T1, Inr ())"
    and m: "load_merges merges T1 = (T', Inr ())"
    by (auto simp: load_model_def loading_Inr Let_def elim!: and_loadE split: option.splits json.splits if_splits)
  have s: "same_tables T1 T'" by (rule load_merges_same [OF m])
  then have "table_inverts T1" using load_vocab_tables [OF v] assms(2) by (simp add: same_tables_def)
  then show ?thesis using s by (simp add: same_tables_def table_inverts_def)
qed

text \<open>A tokenizer that \<open>load\<close> has accepted.\<close>

lemma load_tokenizer_tables:
  assumes "load_tokenizer E dir = (T, Inr ())"
  shows "alphabet_loaded T" "distinct (map snd (tok_vocab T)) \<Longrightarrow> table_inverts T"
proof -
  from assms obtain root where root: "tf_tokenizer E = FileJson root"
    by (auto simp: load_tokenizer_def split: json_file.splits)
  from assms obtain T1 T2 T3 where m: "load_model E root empty_tokenizer = (T1, Inr ())"
    and a: "load_added (tf_numbers E) root T1 = (T2, Inr ())"
    and g: "load_generation E T2 = (T3, Inr ())" and b: "load_bytes T3 = (T, Inr ())"
    by (auto simp: load_tokenizer_def root elim!: and_loadE)
  show "alphabet_loaded T" using b by (auto simp: load_bytes_def alphabet_loaded_def)
  have s: "same_tables T1 T"
    using load_added_same [OF a] load_generation_same [OF g] b
    by (auto simp: load_bytes_def same_tables_def)
  show "table_inverts T" if "distinct (map snd (tok_vocab T))"
    using load_model_tables [OF m] that s by (simp add: same_tables_def table_inverts_def)
qed

end
