(* ===== verification/Tokenizer_Properties.thy ===== *)
theory Tokenizer_Properties
  imports Tokenizer_Laws
begin

text \<open>
  The properties of the tokenizer, with a small tokenizer loaded from JSON that their witnesses
  evaluate, and the state a failed load leaves behind.
\<close>

section \<open>A small tokenizer\<close>

definition small_tok_json :: "unit json" where
  "small_tok_json = JObject
     [(''added_tokens'', JArray [JObject
         [(''content'', JString ''<e>''), (''id'', JInt 3), (''special'', JBool True)]]),
      (''model'', JObject
        [(''merges'', JArray [JString ''a b'']),
         (''type'', JString ''BPE''),
         (''vocab'', JObject [(''a'', JInt 0), (''ab'', JInt 2), (''b'', JInt 1)])])]"

definition small_files :: "unit json_file \<Rightarrow> (unit, unit) tokenizer_files" where
  "small_files generation = \<lparr>
     tf_numbers = \<lparr>jn_int_to_float = (\<lambda>_. ()), jn_double_to_float = (\<lambda>_. ()), jn_double_to_int = (\<lambda>_. 0)\<rparr>,
     tf_tokenizer = FileJson small_tok_json,
     tf_generation = generation,
     tf_order = (\<lambda>kvs. kvs),
     tf_max_tokens = 1000\<rparr>"

definition small_generation :: "unit json_file" where
  "small_generation = FileJson (JObject [(''eos_token_id'', JInt 3)])"

definition small_tok :: tokenizer where
  "small_tok = \<lparr>
     tok_vocab = [([0x61], 0), ([0x61, 0x62], 2), ([0x62], 1)],
     tok_id_to_token = [[0x61], [0x62], [0x61, 0x62]],
     tok_merges = [(([0x61], [0x62]), 0)],
     tok_added = [([0x3C, 0x65, 0x3E], 3)],
     tok_id_to_added = [(3, ([0x3C, 0x65, 0x3E], True))],
     tok_bytes_to_unicode = build_bytes_to_unicode,
     tok_unicode_to_bytes = build_unicode_to_bytes build_bytes_to_unicode,
     tok_eos = [3], tok_pad = -1, tok_bos = -1\<rparr>"

lemma small_casts: "cast_i64 0 = 0" "cast_i64 1 = 1" "cast_i64 2 = 2" "cast_i64 3 = 3" "cast_i32 3 = 3"
  by (simp_all add: cast_i64_def cast_i32_def)

lemma small_bytes:
  "string_bytes ''a'' = [0x61]" "string_bytes ''b'' = [0x62]" "string_bytes ''ab'' = [0x61, 0x62]"
  "string_bytes ''<e>'' = [0x3C, 0x65, 0x3E]"
  by (simp_all add: string_bytes_def of_char_def)

lemma small_vocab_loaded:
  assumes "tf_order f = (\<lambda>kvs. kvs)" "tf_max_tokens f = 1000"
  shows "load_vocab f (JObject [(''a'', JInt 0), (''ab'', JInt 2), (''b'', JInt 1)]) empty_tokenizer =
   (empty_tokenizer\<lparr>tok_vocab := [([0x61], 0), ([0x61, 0x62], 2), ([0x62], 1)],
      tok_id_to_token := [[0x61], [0x62], [0x61, 0x62]]\<rparr>, Inr ())"
  by (simp add: load_vocab_def assms vocab_entry_def store_token_def small_casts small_bytes
      empty_tokenizer_def numeral_3_eq_3)

lemma small_files_simps:
  "tf_tokenizer (small_files g) = FileJson small_tok_json" "tf_generation (small_files g) = g"
  "tf_order (small_files g) = (\<lambda>kvs. kvs)" "tf_max_tokens (small_files g) = 1000"
  by (simp_all add: small_files_def)

text \<open>Every set of files with these contents loads to this tokenizer.\<close>

lemma small_tok_loaded:
  assumes "tf_tokenizer f = FileJson small_tok_json" "tf_generation f = small_generation"
    "tf_order f = (\<lambda>kvs. kvs)" "tf_max_tokens f = 1000"
  shows "load_tokenizer f dir = (small_tok, Inr ())"
  by (simp add: load_tokenizer_def assms(1,2) small_tok_json_def small_generation_def load_model_def Let_def value_or_def
        small_vocab_loaded [OF assms(3,4), unfolded empty_tokenizer_def]
        load_merges_def merge_entry_def enumerate_eq_zip small_bytes load_added_def added_entry_def small_casts
        load_generation_def load_eos_def eos_entry_def load_id_def load_bytes_def small_tok_def empty_tokenizer_def)

lemma small_loaded: "load_tokenizer (small_files small_generation) ''m'' = (small_tok, Inr ())"
  by (rule small_tok_loaded) (simp_all add: small_files_simps)

lemma small_failed:
  "load_tokenizer (small_files (FileMalformed ''end of input'')) ''m'' =
   (small_tok\<lparr>tok_bytes_to_unicode := [], tok_unicode_to_bytes := [], tok_eos := []\<rparr>,
    fails InvalidModel ''Invalid generation_config.json: end of input'')"
  by (simp add: load_tokenizer_def small_files_simps small_tok_json_def load_model_def Let_def value_or_def
        small_vocab_loaded [OF small_files_simps(3,4), unfolded empty_tokenizer_def]
        load_merges_def merge_entry_def enumerate_eq_zip small_bytes load_added_def added_entry_def small_casts
        load_generation_def load_fails_def fails_def small_tok_def empty_tokenizer_def)

lemma byte_char_at:
  assumes "i < 256" shows "byte_char (of_nat (byte_list ! i)) = byte_codepoint i"
proof -
  let ?b = "of_nat (byte_list ! i) :: u8"
  have "unat ?b = byte_list ! i"
    using byte_list_less [OF assms] by (simp add: unsigned_of_nat take_bit_eq_mod)
  then have "byte_list ! byte_index ?b = byte_list ! i" using byte_index(2) [of ?b] by simp
  then have "byte_index ?b = i"
    using nth_eq_iff_index_eq [OF byte_list_distinct, of "byte_index ?b" i] byte_index(1) [of ?b] assms
    by (simp add: byte_list_length)
  then show ?thesis by (simp add: byte_char_def)
qed

lemma byte_char_ab: "byte_char 0x61 = 0x61" "byte_char 0x62 = 0x62"
  using byte_char_at [of 64] byte_char_at [of 65]
  by (simp_all add: byte_list_def printable_bytes_def byte_codepoint_def nth_append del: upt_Suc)


lemma small_alphabet: "alphabet_loaded small_tok"
  by (simp add: alphabet_loaded_def small_tok_def)

lemma small_added: "tok_added small_tok = [([0x3C, 0x65, 0x3E], 3)]"
  by (simp add: small_tok_def)

section \<open>A load that failed\<close>

lemma load_each_state:
  assumes "\<And>x t. P t \<Longrightarrow> P (fst (f x t))" "P s" shows "P (fst (load_each f xs s))"
  using assms(2)
proof (induction xs arbitrary: s)
  case (Cons x xs)
  then have "P (fst (f x s))" using assms(1) by blast
  then show ?case using Cons.IH by (auto simp: and_load_def split: sum.splits)
qed simp

lemma and_load_state:
  "P (fst p) \<Longrightarrow> (\<And>t. P t \<Longrightarrow> P (fst (f t))) \<Longrightarrow> P (fst (and_load p f))"
  by (auto simp: and_load_def split: sum.splits)

lemma loading_state: "P s \<Longrightarrow> (\<And>b. P (fst (f b))) \<Longrightarrow> P (fst (loading r s f))"
  by (cases r) (auto simp: loading_def)

definition no_alphabet :: "tokenizer \<Rightarrow> bool" where
  "no_alphabet T \<longleftrightarrow> tok_bytes_to_unicode T = []"

lemma no_alphabet_simps [simp]:
  "no_alphabet (T\<lparr>tok_pad := i\<rparr>) = no_alphabet T"
  "no_alphabet (T\<lparr>tok_bos := i\<rparr>) = no_alphabet T"
  "no_alphabet empty_tokenizer"
  by (simp_all add: no_alphabet_def empty_tokenizer_def)

lemma load_vocab_no_alphabet:
  assumes "no_alphabet T" shows "no_alphabet (fst (load_vocab E vocab T))"
proof -
  have s: "no_alphabet (fst (load_each store_token kvs t))" if "no_alphabet t" for kvs t
    by (rule load_each_state [where P = no_alphabet])
       (use that in \<open>auto simp: store_token_def no_alphabet_def split: prod.splits\<close>)
  have v: "no_alphabet (fst (fst (load_each (vocab_entry N) kvs p)))" if "no_alphabet (fst p)"
    for N :: "('a, 'b) json_numbers" and kvs p
    by (rule load_each_state [where P = "\<lambda>p. no_alphabet (fst p)"])
       (use that in \<open>auto simp: vocab_entry_def no_alphabet_def loading_def split: prod.splits sum.splits\<close>)
  show ?thesis unfolding load_vocab_def
  proof (rule loading_state [where P = no_alphabet, OF assms])
    fix kvs
    obtain T1 m r where e: "load_each (vocab_entry (tf_numbers E)) kvs (T, 0) = ((T1, m), r)"
      by (metis prod.exhaust)
    have "no_alphabet T1" using v [of "(T, 0)" "tf_numbers E" kvs] assms e by simp
    then show "no_alphabet (fst (case load_each (vocab_entry (tf_numbers E)) kvs (T, 0) of
         ((T, max_id), Inl e) \<Rightarrow> (T, Inl e)
       | ((T, max_id), Inr _) \<Rightarrow>
           if tf_max_tokens E < max_id + 1 then (T, Inl (Thrown ''std::length_error''))
           else
             load_each store_token (tf_order E (tok_vocab T))
               (T\<lparr>tok_vocab := tf_order E (tok_vocab T),
                  tok_id_to_token := replicate (nat (max_id + 1)) []\<rparr>)))"
      using s by (auto simp: e no_alphabet_def split: sum.splits)
  qed
qed

lemma merge_entries_no_alphabet:
  "no_alphabet T \<Longrightarrow> no_alphabet (fst (load_each merge_entry xs T))"
  by (rule load_each_state [where P = no_alphabet])
     (auto simp: merge_entry_def no_alphabet_def loading_def Let_def split: prod.splits sum.splits)

lemma added_entries_no_alphabet:
  "no_alphabet T \<Longrightarrow> no_alphabet (fst (load_each (added_entry N) xs T))"
  by (rule load_each_state [where P = no_alphabet])
     (auto simp: added_entry_def no_alphabet_def loading_def split: sum.splits)

lemma eos_entry_no_alphabet: "no_alphabet T \<Longrightarrow> no_alphabet (fst (eos_entry N j T))"
  by (auto simp: eos_entry_def no_alphabet_def loading_def load_fails_def split: sum.splits)

lemma eos_entries_no_alphabet:
  "no_alphabet T \<Longrightarrow> no_alphabet (fst (load_each (eos_entry N) xs T))"
  by (rule load_each_state [where P = no_alphabet]) (rule eos_entry_no_alphabet)

lemma load_id_no_alphabet:
  "no_alphabet T \<Longrightarrow> (\<And>i t. no_alphabet t \<Longrightarrow> no_alphabet (f i t)) \<Longrightarrow>
   no_alphabet (fst (load_id N g k f T))"
  by (auto simp: load_id_def loading_def split: option.splits sum.splits)

lemma load_generation_no_alphabet:
  "no_alphabet T \<Longrightarrow> no_alphabet (fst (load_generation E T))"
  by (cases "tf_generation E")
     (auto simp: load_generation_def load_fails_def load_eos_def eos_entry_no_alphabet eos_entries_no_alphabet
       intro!: and_load_state [where P = no_alphabet] load_id_no_alphabet split: option.splits)

lemma load_model_no_alphabet:
  assumes "no_alphabet T" shows "no_alphabet (fst (load_model E root T))"
proof -
  have m: "no_alphabet (fst (load_merges merges t))" if "no_alphabet t" for merges :: "'a json" and t
    unfolding load_merges_def
    by (rule loading_state [where P = no_alphabet]) (use that merge_entries_no_alphabet in auto)
  show ?thesis
    using assms load_vocab_no_alphabet [OF assms, of E]
    by (auto simp: load_model_def load_fails_def Let_def m intro!: loading_state [where P = no_alphabet]
        and_load_state [where P = no_alphabet] split: option.splits json.splits)
qed

lemma load_tokenizer_failed:
  assumes "load_tokenizer E dir = (T, Inl e)" shows "no_alphabet T"
proof (cases "tf_tokenizer E")
  case (FileJson root)
  let ?p = "and_load (load_model E root empty_tokenizer) (\<lambda>T.
          and_load (load_added (tf_numbers E) root T) (load_generation E))"
  have a: "no_alphabet (fst (load_added (tf_numbers E) root t))" if "no_alphabet t" for t
    using that added_entries_no_alphabet by (auto simp: load_added_def split: option.splits json.splits)
  have p: "no_alphabet (fst ?p)"
    by (intro and_load_state [where P = no_alphabet] load_model_no_alphabet load_generation_no_alphabet a) auto
  have "load_tokenizer E dir = and_load ?p load_bytes"
    by (auto simp: load_tokenizer_def FileJson and_load_def split: sum.splits)
  then have "and_load ?p load_bytes = (T, Inl e)" using assms by simp
  then have "fst ?p = T" by (auto simp: and_load_def load_bytes_def split: sum.splits)
  then show ?thesis using p by simp
qed (use assms in \<open>auto simp: load_tokenizer_def load_fails_def\<close>)

lemma split_loop_special:
  "\<forall>s \<in> set segs. seg_special s \<longrightarrow> (seg_text s, seg_id s) \<in> set added \<Longrightarrow>
   \<forall>s \<in> set (split_loop added rest segs). seg_special s \<longrightarrow> (seg_text s, seg_id s) \<in> set added"
proof (induction added rest segs rule: split_loop.induct)
  case (1 added rest segs)
  obtain best tid where best: "best_added added rest = (best, tid)" by fastforce
  have mem: "best \<noteq> [] \<Longrightarrow> (best, tid) \<in> set added" using best_added_member [of added rest] best by simp
  consider (finished) "rest = []" | (special) "rest \<noteq> []" "best \<noteq> []"
    | (extend) "rest \<noteq> []" "best = []" "segs \<noteq> [] \<and> \<not> seg_special (last segs)"
    | (fresh) "rest \<noteq> []" "best = []" "\<not> (segs \<noteq> [] \<and> \<not> seg_special (last segs))" by blast
  then show ?case
  proof cases
    case finished
    then show ?thesis using 1(4) by (subst split_loop.simps) simp
  next
    case special
    then show ?thesis using 1(1) [OF special(1) best [symmetric] special(2)] 1(4) mem best
      by (subst split_loop.simps) auto
  next
    case extend
    then have "\<forall>s \<in> set (butlast segs @ [(last segs)\<lparr>seg_text := seg_text (last segs) @ [hd rest]\<rparr>]).
        seg_special s \<longrightarrow> (seg_text s, seg_id s) \<in> set added"
      using 1(4) by (auto dest: in_set_butlastD)
    then show ?thesis using 1(2) [OF extend(1) best [symmetric] _ extend(3)] extend best
      by (subst split_loop.simps) simp
  next
    case fresh
    then show ?thesis using 1(3) [OF fresh(1) best [symmetric] _ fresh(3)] 1(4) best
      by (subst split_loop.simps) auto
  qed
qed

lemma encode_no_alphabet:
  assumes "no_alphabet T" shows "set (encode T s) \<subseteq> snd ` set (tok_added T)"
proof -
  have "byte_encode T p = []" for p using assms by (simp add: byte_encode_def no_alphabet_def)
  then have p: "encode_piece T p = []" for p
    by (simp add: encode_piece_def bpe_def token_ids_of_def)
  have "set (encode_segment T g) \<subseteq> snd ` set (tok_added T)" if "g \<in> set (split_special_tokens T s)" for g
    using split_loop_special [of "[]" "tok_added T" s] that p
    by (cases "seg_special g") (force simp: encode_segment_def split_special_tokens_def)+
  then show ?thesis by (force simp: encode_def)
qed
section \<open>Properties\<close>

text \<open>C33. Decoding the UTF-8 encoding of code points gives the code points back, for every
  code point other than NUL that fits the four-byte form.\<close>

theorem utf8_round_trip:
  assumes "\<forall>cp \<in> set cps. 0 < cp \<and> cp < 0x200000"
  shows "utf8_to_codepoints (codepoints_to_utf8 cps) = cps"
  using assms by (intro utf8_to_codepoints_encoded) (simp add: encodable_def)

theorem utf8_round_trip_witness:
  "utf8_to_codepoints (codepoints_to_utf8 [0x41, 0xE9, 0x20AC, 0x1F600]) = [0x41, 0xE9, 0x20AC, 0x1F600]"
  by (rule utf8_round_trip) simp

text \<open>C32. Decoding the ids of a valid text gives the text back, byte for byte, for a tokenizer
  that \<open>load\<close> accepted and whose files describe a closed vocabulary: ids name one token,
  added tokens are valid text, every merge makes a token and every byte of the text is one.\<close>

theorem tokenizer_round_trip:
  assumes "load_tokenizer E dir = (T, Inr ())"
    and "ids_distinct T" "merges_closed T" "added_valid T"
    and "valid_utf8 s" "covers T s"
  shows "decode T (encode T s) False = s"
  using decode_encode_tables [OF load_tokenizer_tables [OF assms(1)]] assms(2-6)
  by (simp add: ids_distinct_def)

theorem tokenizer_round_trip_witness:
  "load_tokenizer (small_files small_generation) ''m'' = (small_tok, Inr ()) \<and>
   decode small_tok (encode small_tok [0x61, 0x62, 0x3C, 0x65, 0x3E, 0x62]) False =
     [0x61, 0x62, 0x3C, 0x65, 0x3E, 0x62]"
proof -
  let ?s = "[0x61, 0x62, 0x3C, 0x65, 0x3E, 0x62] :: bytes"
  have "ids_distinct small_tok" "merges_closed small_tok"
    by (auto simp: ids_distinct_def merges_closed_def small_tok_def)
  moreover have "added_valid small_tok" "valid_utf8 ?s"
    by (simp_all add: added_valid_def small_tok_def valid_utf8_def utf8_sequence_length_def
        utf8_lead_bits_def encodable_def codepoints_to_utf8_def codepoint_to_utf8_def)
  moreover have "covers small_tok ?s"
    by (simp add: covers_def split_special_tokens_def small_added split_loop.simps best_added_def added_step_def
        covers_bytes_def byte_encode_eq [OF small_alphabet] byte_char_ab)
       (simp add: small_tok_def codepoints_to_utf8_def codepoint_to_utf8_def)
  ultimately show ?thesis
    using tokenizer_round_trip [OF small_loaded, of ?s] small_loaded by simp
qed

text \<open>C34. The pre-tokenizer cuts a valid text into pieces without losing or moving a byte.\<close>

theorem pre_tokenize_cuts:
  assumes "valid_utf8 s"
  shows "concat (pre_tokenize s) = s"
  using assms by (rule pre_tokenize_concat)

theorem pre_tokenize_cuts_witness:
  "concat (pre_tokenize [0x61, 0x62, 0x20, 0xE2, 0x82, 0xAC]) = [0x61, 0x62, 0x20, 0xE2, 0x82, 0xAC]"
  by (rule pre_tokenize_cuts)
     (simp add: valid_utf8_def utf8_sequence_length_def utf8_lead_bits_def encodable_def
        codepoints_to_utf8_def codepoint_to_utf8_def utf8_continue_steps)

text \<open>C35. A tokenizer whose load failed never gives an id of its vocabulary, only ids of added
  tokens, although it may count as loaded.\<close>

theorem failed_load_encodes_added_only:
  assumes "load_tokenizer E dir = (T, Inl e)"
  shows "set (encode T s) \<subseteq> snd ` set (tok_added T)"
  using load_tokenizer_failed [OF assms] by (rule encode_no_alphabet)

theorem failed_load_encodes_added_only_witness:
  "(let p = load_tokenizer (small_files (FileMalformed ''end of input'')) ''m'' in
    snd p \<noteq> Inr () \<and> tok_is_loaded (fst p) \<and>
    set (encode (fst p) [0x61]) \<subseteq> snd ` set (tok_added (fst p)))"
  using failed_load_encodes_added_only [OF small_failed [unfolded fails_def], of "[0x61]"]
  by (simp add: small_failed tok_is_loaded_def small_tok_def fails_def)

end
