(* ===== verification/Small_Checkpoint.thy ===== *)
theory Small_Checkpoint
  imports Weight_Loader Reference_Machine
begin

text \<open>
  A checkpoint small enough to evaluate: a directory with a configuration, a tokenizer and one
  safetensors file. The configuration has two layers, a DeltaNet layer and an attention layer.
  Every tensor is the same two by two BF16 matrix. On the reference backends it loads onto two
  GPUs.
\<close>

section \<open>The files\<close>

definition small_numbers :: "(unit, int) json_numbers" where
  "small_numbers = \<lparr>jn_int_to_float = (\<lambda>n. n), jn_double_to_float = (\<lambda>_. 1), jn_double_to_int = (\<lambda>_. 0)\<rparr>"

definition small_names :: "string list" where
  "small_names = map (layer_name 0) [''input_layernorm.weight'', ''post_attention_layernorm.weight'',
     ''linear_attn.norm.weight'', ''linear_attn.A_log'', ''linear_attn.conv1d.weight'', ''linear_attn.dt_bias'',
     ''linear_attn.in_proj_a.weight'', ''linear_attn.in_proj_b.weight'', ''linear_attn.in_proj_qkv.weight'',
     ''linear_attn.in_proj_z.weight'', ''linear_attn.out_proj.weight'',
     ''mlp.gate_proj.weight'', ''mlp.up_proj.weight'', ''mlp.down_proj.weight''] @
   map (layer_name 1) [''input_layernorm.weight'', ''post_attention_layernorm.weight'',
     ''self_attn.q_proj.weight'', ''self_attn.k_proj.weight'', ''self_attn.v_proj.weight'',
     ''self_attn.o_proj.weight'', ''self_attn.q_norm.weight'', ''self_attn.k_norm.weight'',
     ''mlp.gate_proj.weight'', ''mlp.up_proj.weight'', ''mlp.down_proj.weight''] @
   [''model.language_model.embed_tokens.weight'', ''model.language_model.norm.weight'', ''lm_head.weight'']"

definition small_entry :: "unit json" where
  "small_entry = JObject [(''data_offsets'', JArray [JInt 0, JInt 8]), (''dtype'', JString ''BF16''),
     (''shape'', JArray [JInt 2, JInt 2])]"

definition small_info :: tensor_info where
  "small_info = \<lparr>ti_dtype = BF16, ti_shape = [2, 2], ti_begin = 0, ti_end = 8\<rparr>"

definition ckpt_config :: "unit json" where
  "ckpt_config = JObject [(''full_attention_interval'', JInt 2), (''head_dim'', JInt 256),
     (''num_hidden_layers'', JInt 2), (''rms_norm_eps'', JInt 1)]"

definition ckpt_tokenizer :: "unit json" where
  "ckpt_tokenizer = JObject [(''model'', JObject [(''merges'', JArray []), (''type'', JString ''BPE''),
     (''vocab'', JObject [])])]"

definition small_parse :: "u8 list \<Rightarrow> string + unit json" where
  "small_parse bs =
     (if bs = [1] then Inr ckpt_config
      else if bs = [2] then Inr ckpt_tokenizer
      else if bs = [3] then Inr (JObject (map (\<lambda>n. (n, small_entry)) small_names))
      else Inl ''parse_error'')"

definition ckpt_bytes :: "u8 list" where
  "ckpt_bytes = [1, 0, 0, 0, 0, 0, 0, 0, 3, 7, 0, 8, 0, 9, 0, 10, 0]"

definition small_read :: "string \<Rightarrow> u8 list option" where
  "small_read p =
     (if p = ''m/config.json'' then Some [1]
      else if p = ''m/tokenizer.json'' then Some [2]
      else if p = ''m/model.safetensors'' then Some ckpt_bytes
      else None)"

definition small_env :: "(unit, int) store_env" where
  "small_env = \<lparr>se_numbers = small_numbers, se_is_directory = (\<lambda>p. p = ''m''),
     se_exists = (\<lambda>p. small_read p \<noteq> None), se_read = small_read,
     se_size = (\<lambda>p. case small_read p of None \<Rightarrow> 0 | Some bs \<Rightarrow> int (length bs)),
     se_join = (\<lambda>a b. a @ ''/'' @ b), se_parse = small_parse,
     se_decode = (\<lambda>d raw. map (\<lambda>i. uint (raw ! (i * SizeOfDType d))) [0..<length raw div SizeOfDType d]),
     se_staging = (\<lambda>_ _. True)\<rparr>"

section \<open>Opening\<close>

definition small_store :: store where
  "small_store = closed_store\<lparr>st_path := ''m/model.safetensors'', st_offset := 9,
     st_tensors := map (\<lambda>n. (n, small_info)) small_names\<rparr>"

lemma small_entry_read: "read_tensor_info small_numbers 8 name small_entry = Inr small_info"
  by (simp add: read_tensor_info_def small_entry_def small_info_def read_layout_def get_list_def cast_i64_id
      cast_u64_def ParseDType_def checked_numel_def checked_mul_def)

lemma small_names_distinct: "distinct small_names" "''__metadata__'' \<notin> set small_names"
  by code_simp+

text \<open>The header of a shard: every entry that reads as tensor information is kept.\<close>

lemma shard_entries:
  assumes "\<And>n j info. (n, j, info) \<in> set es \<Longrightarrow> read_tensor_info N k n j = Inr info"
    and "distinct (map fst es)" "''__metadata__'' \<notin> fst ` set es" "fst ` set (sh_tensors S) \<inter> fst ` set es = {}"
  shows "load_each (shard_entry N k) (map (\<lambda>(n, j, info). (n, j)) es) S =
    (S\<lparr>sh_tensors := sh_tensors S @ map (\<lambda>(n, j, info). (n, info)) es\<rparr>, Inr ())"
  using assms
proof (induction es arbitrary: S)
  case (Cons e es)
  obtain n j info where e: "e = (n, j, info)" by (cases e)
  have "map_of (sh_tensors S) n = None" using Cons.prems(4) by (force simp: map_of_eq_None_iff e)
  moreover have "read_tensor_info N k n j = Inr info" by (rule Cons.prems(1)) (simp add: e)
  ultimately have "shard_entry N k (n, j) S = (S\<lparr>sh_tensors := sh_tensors S @ [(n, info)]\<rparr>, Inr ())"
    using Cons.prems(3) by (auto simp: shard_entry_def emplace_def e)
  moreover have "fst ` set (sh_tensors (S\<lparr>sh_tensors := sh_tensors S @ [(n, info)]\<rparr>)) \<inter> fst ` set es = {}"
    using Cons.prems(2,4) by (auto simp: e)
  ultimately show ?case using Cons.IH Cons.prems by (simp add: e)
qed simp

lemma small_entries:
  assumes "distinct ns" "''__metadata__'' \<notin> set ns" "fst ` set (sh_tensors S) \<inter> set ns = {}"
  shows "load_each (shard_entry small_numbers 8) (map (\<lambda>n. (n, small_entry)) ns) S =
    (S\<lparr>sh_tensors := sh_tensors S @ map (\<lambda>n. (n, small_info)) ns\<rparr>, Inr ())"
proof -
  let ?es = "map (\<lambda>n. (n, small_entry, small_info)) ns"
  have "load_each (shard_entry small_numbers 8) (map (\<lambda>(n, j, info). (n, j)) ?es) S =
      (S\<lparr>sh_tensors := sh_tensors S @ map (\<lambda>(n, j, info). (n, info)) ?es\<rparr>, Inr ())"
    by (rule shard_entries) (use assms in \<open>auto simp: small_entry_read comp_def image_image\<close>)
  then show ?thesis by (simp add: comp_def)
qed

lemma small_header: "ReadU64LittleEndian ckpt_bytes = Some 1" "length ckpt_bytes = 17"
  "take (Suc 0) (drop 8 ckpt_bytes) = [3]"
  by code_simp+

lemma small_shard:
  "parse_shard small_env ''m/model.safetensors'' =
     Inr \<lparr>sh_path = ''m/model.safetensors'', sh_offset = 9, sh_tensors = map (\<lambda>n. (n, small_info)) small_names\<rparr>"
proof -
  have r: "se_read small_env ''m/model.safetensors'' = Some ckpt_bytes" "se_exists small_env ''m/model.safetensors''"
    "se_size small_env ''m/model.safetensors'' = 17" "se_numbers small_env = small_numbers"
    "se_parse small_env [3] = Inr (JObject (map (\<lambda>n. (n, small_entry)) small_names))"
    by (simp_all add: small_env_def small_read_def small_header small_parse_def)
  show ?thesis
    by (simp add: parse_shard_def r small_header Let_def small_entries small_names_distinct)
qed

lemma small_opens: "open_model small_env ''m'' S0 = (small_store, Inr ())"
proof -
  have j: "se_is_directory small_env ''m''" "se_exists small_env ''m/model.safetensors''"
    "\<not> se_exists small_env ''m/model.safetensors.index.json''"
    "\<And>n. se_join small_env ''m'' n = ''m/'' @ n"
    by (simp_all add: small_env_def small_read_def)
  then show ?thesis by (simp add: open_model_def Let_def open_store_def small_shard small_store_def)
qed

section \<open>Loading\<close>

definition nth_gpu :: "int \<Rightarrow> device" where
  "nth_gpu i = \<lparr>dev_id = i, dev_type = DiscreteGPU, dev_backend = ''hip'', dev_unified = False\<rparr>"

lemma nth_gpu_is_gpu [simp]: "is_gpu (nth_gpu i)"
  by (simp add: is_gpu_def nth_gpu_def)

definition two_layers :: "int qwen_config" where
  "two_layers = (default_config int_fops)\<lparr>num_hidden_layers := 2, full_attention_interval := 2,
     rms_norm_eps := 1, layer_types := [LinearAttention, FullAttention]\<rparr>"

lemma two_layers_simps [simp]:
  "num_hidden_layers two_layers = 2" "mtp_num_hidden_layers two_layers = 0"
  "layer_types two_layers = [LinearAttention, FullAttention]"
  by (simp_all add: two_layers_def default_config_def)

definition small_tensor :: "device \<Rightarrow> int tensor" where
  "small_tensor dev = mk_tensor [2, 2] BF16 dev
     \<lparr>bf_device = dev, bf_mem = DeviceMem, bf_width = 2, bf_data = [7, 8, 9, 10]\<rparr>"

definition small_weight :: "device \<Rightarrow> int quantized_weight" where
  "small_weight dev = \<lparr>qw_values = Some (small_tensor dev), qw_scales = None, qw_spec = dense_spec\<rparr>"

text \<open>GPUs of the reference machine.\<close>

definition on_gpus :: "int backends \<Rightarrow> bool" where
  "on_gpus reg \<longleftrightarrow> (\<forall>i. reg (nth_gpu i) = Some (hip_backend (reference_env int_fops 0 (nth_gpu i))))"

lemma reference_on_gpus: "on_gpus (reference_backends int_fops 0)"
  by (simp add: on_gpus_def reference_backends_def)

lemma reference_gpu:
  "create_buffer (hip_backend (reference_env int_fops 0 dev)) n d m =
     (if n < 0 then None else Some \<lparr>bf_device = dev, bf_mem = m, bf_width = SizeOfDType d, bf_data = replicate (nat n) 0\<rparr>)"
  "hip_synchronize (reference_env int_fops 0 dev) = Inr ()"
  "hip_memcpy_h2d (reference_env int_fops 0 dev) buf xs = Inr (write_prefix xs buf)"
  by (simp_all add: create_buffer_def reference_env_def hip_synchronize_def hip_memcpy_h2d_def select_device_def)

lemma small_info_of: "tensor_info_of small_store n = (if n \<in> set small_names then Some small_info else None)"
  by (simp add: tensor_info_of_def small_store_def map_of_map_restrict restrict_map_def)

lemma small_source: "tensor_source small_store n = Inr (''m/model.safetensors'', 9)"
  by (simp add: tensor_source_def small_store_def closed_store_def)

lemma small_slice:
  "se_read small_env ''m/model.safetensors'' = Some ckpt_bytes"
  "read_slice ckpt_bytes 9 8 = Some [7, 0, 8, 0, 9, 0, 10, 0]"
  "se_decode small_env BF16 [7, 0, 8, 0, 9, 0, 10, 0] = [7, 8, 9, 10]" "se_staging small_env dev n"
  by (simp_all add: small_env_def small_read_def read_slice_def ckpt_bytes_def upt_rec)

lemma small_load_tensor:
  assumes "n \<in> set small_names" "on_gpus reg"
  shows "load_tensor small_env reg small_store n (nth_gpu i) DeviceMem = Inr (small_tensor (nth_gpu i))"
proof -
  have "reg (nth_gpu i) = Some (hip_backend (reference_env int_fops 0 (nth_gpu i)))"
    using assms(2) by (simp add: on_gpus_def)
  then show ?thesis
    using assms by (simp add: load_tensor_def small_info_of small_info_def reference_gpu small_source small_slice Let_def
      small_tensor_def write_prefix_def)
qed

lemma small_load_weight:
  assumes "n \<in> set small_names" "on_gpus reg"
  shows "load_weight_tensor small_env reg small_store n (nth_gpu i) = Inr (small_tensor (nth_gpu i))"
    "ends_with n ''.weight'' \<Longrightarrow>
     load_quantized small_env reg small_store n (nth_gpu i) = Inr (small_weight (nth_gpu i))"
proof -
  have m: "MemoryTypeForDevice (nth_gpu i) = DeviceMem"
    by (simp add: MemoryTypeForDevice_def is_cpu_def nth_gpu_def)
  note l = assms small_load_tensor [OF assms]
  show "load_weight_tensor small_env reg small_store n (nth_gpu i) = Inr (small_tensor (nth_gpu i))"
    using l by (simp add: load_weight_tensor_def has_tensor_def small_info_of m)
  show "load_quantized small_env reg small_store n (nth_gpu i) = Inr (small_weight (nth_gpu i))"
    if "ends_with n ''.weight''"
    using l that by (simp add: load_quantized_def small_info_of small_info_def m checked_weight_def validate_weight_def
      dense_spec_def small_weight_def small_tensor_def Let_def)
qed

lemma ends_with_append: "ends_with r e \<Longrightarrow> ends_with (a @ r) e"
  by (auto simp: ends_with_def)

lemma ends_with_layer_name: "ends_with r e \<Longrightarrow> ends_with (layer_name i r) e"
  unfolding layer_name_def by (intro ends_with_append)

lemma small_absent:
  "layer_name 0 ''self_attn.q_proj.weight'' \<notin> set small_names"
  "layer_name 1 ''linear_attn.in_proj_qkv.weight'' \<notin> set small_names"
  by code_simp+

lemma small_present:
  "r \<in> {''input_layernorm.weight'', ''post_attention_layernorm.weight'',
     ''linear_attn.norm.weight'', ''linear_attn.A_log'', ''linear_attn.conv1d.weight'', ''linear_attn.dt_bias'',
     ''linear_attn.in_proj_a.weight'', ''linear_attn.in_proj_b.weight'', ''linear_attn.in_proj_qkv.weight'',
     ''linear_attn.in_proj_z.weight'', ''linear_attn.out_proj.weight'',
     ''mlp.gate_proj.weight'', ''mlp.up_proj.weight'', ''mlp.down_proj.weight''} \<Longrightarrow> layer_name 0 r \<in> set small_names"
  "r \<in> {''input_layernorm.weight'', ''post_attention_layernorm.weight'',
     ''self_attn.q_proj.weight'', ''self_attn.k_proj.weight'', ''self_attn.v_proj.weight'',
     ''self_attn.o_proj.weight'', ''self_attn.q_norm.weight'', ''self_attn.k_norm.weight'',
     ''mlp.gate_proj.weight'', ''mlp.up_proj.weight'', ''mlp.down_proj.weight''} \<Longrightarrow> layer_name 1 r \<in> set small_names"
  "n \<in> {''model.language_model.embed_tokens.weight'', ''model.language_model.norm.weight'', ''lm_head.weight''} \<Longrightarrow>
     n \<in> set small_names"
  unfolding small_names_def by (elim insertE emptyE; simp)+

lemma small_weight_ok: "weight_ok (small_weight dev)"
  by (simp add: weight_ok_def validate_weight_def small_weight_def small_tensor_def dense_spec_def)

lemma ckpt_layers:
  assumes "on_gpus reg"
  shows "\<exists>L. load_layer small_env reg two_layers small_store 0 (nth_gpu i) = Inr L"
    "\<exists>L. load_layer small_env reg two_layers small_store 1 (nth_gpu i) = Inr L"
  using assms
  by (simp_all add: load_layer_def Let_def load_norms_def layer_kind_def has_tensor_def
      small_info_of small_absent small_present small_load_weight ends_with_layer_name ends_with_def [of "_ # _"]
      load_linear_def load_attention_def load_mlp_def validate_layer_def small_weight_ok)

lemma small_plan:
  "\<exists>ps. plan_distributed two_layers small_store [nth_gpu 0, nth_gpu 1] = Inr ps \<and>
     plan_layers ps = [(0, nth_gpu 0), (1, nth_gpu 1)]"
  by (simp add: plan_distributed_def Let_def plan_entry_def add_bytes_def plan_layers_def upto_rec1)

lemma small_load:
  assumes "on_gpus reg"
  shows "\<exists>W. load_distributed small_env reg two_layers small_store [nth_gpu 0, nth_gpu 1] = Inr W"
proof -
  obtain L0 L1 where L: "load_layer small_env reg two_layers small_store 0 (nth_gpu 0) = Inr L0"
    "load_layer small_env reg two_layers small_store 1 (nth_gpu 1) = Inr L1"
    using ckpt_layers [OF assms] by blast
  obtain ps where "plan_distributed two_layers small_store [nth_gpu 0, nth_gpu 1] = Inr ps"
    "plan_layers ps = [(0, nth_gpu 0), (1, nth_gpu 1)]" using small_plan by blast
  moreover have "\<exists>sw. load_shared small_env reg small_store (nth_gpu 0) (nth_gpu 1) = Inr sw"
    using assms by (simp add: load_shared_def small_load_weight small_present)
  ultimately show ?thesis using L by (auto simp: load_distributed_def)
qed

end
