(* ===== verification/Config_Properties.thy ===== *)
theory Config_Properties
  imports Qwen_Config Reference_Machine
begin

text \<open>
  What an accepted configuration promises to the layers: the schedule of the attention layers and
  the head sizes.
\<close>

section \<open>Accepted configurations\<close>

lemma load_config_valid:
  assumes "load_config E file path C0 = (C, Inr ())"
  shows "\<not> dimensions_bad (ce_le_zero E) C" "\<not> schedule_conflicts C"
    "attn_output_gate C" "output_gate_type C = ''swish''" "mamba_ssm_dtype C = ''float32''"
proof -
  obtain root where "file = FileJson root"
    using assms by (auto simp: load_config_def split: json_file.splits)
  then have "validate_config (ce_le_zero E) C = Inr ()"
    using assms by (auto simp: load_config_def load_config_json_def elim!: and_loadE)
  then show "\<not> dimensions_bad (ce_le_zero E) C" "\<not> schedule_conflicts C"
    "attn_output_gate C" "output_gate_type C = ''swish''" "mamba_ssm_dtype C = ''float32''"
    by (auto simp: validate_config_def split: if_splits)
qed

lemma scheduled_type_Suc:
  "scheduled_type (int k) i = FullAttention \<longleftrightarrow> Suc i mod k = 0"
proof -
  have "(int i + 1) mod int k = int (Suc i mod k)" by (simp add: zmod_int add.commute)
  then show ?thesis by (simp add: scheduled_type_def)
qed

lemma full_layers_count:
  "length (filter (\<lambda>t. t = FullAttention) (map (scheduled_type (int k)) [0..<n])) = n div k"
  by (induction n) (simp_all add: scheduled_type_Suc div_Suc)

lemma accepted_schedule:
  assumes "\<not> dimensions_bad le_zero C" "\<not> schedule_conflicts C"
  shows "layer_types C = map (scheduled_type (full_attention_interval C)) [0..<nat (num_hidden_layers C)]"
  using assms by (intro nth_equalityI) (auto simp: dimensions_bad_def schedule_conflicts_def)

section \<open>Properties\<close>

definition four_layers_env :: "(unit, int) config_env" where
  "four_layers_env = \<lparr>ce_numbers = \<lparr>jn_int_to_float = (\<lambda>n. n), jn_double_to_float = (\<lambda>_. 1), jn_double_to_int = (\<lambda>_. 0)\<rparr>,
     ce_le_zero = (\<lambda>x. x \<le> 0), ce_scale = (\<lambda>h x. h * x), ce_can_reserve = (\<lambda>n. n < 1000)\<rparr>"

definition four_layers :: "unit json" where
  "four_layers = JObject [(''head_dim'', JInt 256), (''num_hidden_layers'', JInt 4),
     (''rms_norm_eps'', JInt 1), (''text_config'', JObject [(''full_attention_interval'', JInt 2)])]"

lemma four_layers_loaded:
  "load_config four_layers_env (FileJson four_layers) ''config.json'' (default_config int_fops) =
   ((default_config int_fops)\<lparr>num_hidden_layers := 4, full_attention_interval := 2, rms_norm_eps := 1,
      layer_types := [LinearAttention, FullAttention, LinearAttention, FullAttention]\<rparr>, Inr ())"
  by (simp add: load_config_def load_config_json_def read_mtp_def read_fields_def read_eos_def read_rope_def
      derive_head_dim_def read_schedule_def read_i64_def read_float_def read_bool_def read_string_def
      config_field_def four_layers_def four_layers_env_def default_config_def int_fops_def Let_def cast_i64_id
      validate_config_def dimensions_bad_def schedule_conflicts_def scheduled_type_def upt_rec)

text \<open>C40. An accepted configuration has the schedule its interval describes, whether the file lists
  the layer types or leaves them out: one layer in \<open>full_attention_interval\<close> attends.\<close>

theorem accepted_config_schedule:
  assumes "load_config E file path C0 = (C, Inr ())"
  shows "layer_types C = map (scheduled_type (full_attention_interval C)) [0..<nat (num_hidden_layers C)] \<and>
    int (length (filter (\<lambda>t. t = FullAttention) (layer_types C))) =
      num_hidden_layers C div full_attention_interval C"
proof -
  note v = load_config_valid [OF assms]
  have s: "layer_types C = map (scheduled_type (full_attention_interval C)) [0..<nat (num_hidden_layers C)]"
    by (rule accepted_schedule [OF v(1, 2)])
  have "0 < full_attention_interval C" "0 < num_hidden_layers C"
    using v(1) by (auto simp: dimensions_bad_def)
  then obtain k n where kn: "full_attention_interval C = int k" "num_hidden_layers C = int n"
    by (metis zero_less_imp_eq_int)
  show ?thesis using s full_layers_count [of k n] by (simp add: kn zdiv_int)
qed

theorem accepted_config_schedule_witness:
  "layer_types (fst (load_config four_layers_env (FileJson four_layers) ''config.json'' (default_config int_fops))) =
     map (scheduled_type 2) [0..<4]"
  using accepted_config_schedule [OF four_layers_loaded] by (simp add: four_layers_loaded)

text \<open>The head counts and widths an accepted configuration gives the attention and DeltaNet layers
  are those their checks ask for: positive, with whole query groups per key head, an even
  rotary part inside the head, and whole value groups per linear key head.\<close>

theorem accepted_config_heads:
  assumes "load_config E file path C0 = (C, Inr ())"
  shows "let A = attention_args_of C W n in
    0 < aa_num_q_heads A \<and> 0 < aa_num_kv_heads A \<and> 0 < aa_head_dim A \<and> 0 < aa_rope_head_dim A \<and>
    aa_num_q_heads A mod aa_num_kv_heads A = 0 \<and> aa_rope_head_dim A mod 2 = 0 \<and>
    aa_rope_head_dim A \<le> aa_head_dim A \<and> 0 < linear_num_key_heads C \<and>
    linear_num_value_heads C mod linear_num_key_heads C = 0 \<and> 0 < linear_conv_kernel_dim C"
  using load_config_valid(1) [OF assms]
  by (auto simp: attention_args_of_def dimensions_bad_def Let_def)

theorem accepted_config_heads_witness:
  "\<forall>W. 0 < aa_rope_head_dim (attention_args_of
     (fst (load_config four_layers_env (FileJson four_layers) ''config.json'' (default_config int_fops))) W 8)"
proof
  fix W
  show "0 < aa_rope_head_dim (attention_args_of
     (fst (load_config four_layers_env (FileJson four_layers) ''config.json'' (default_config int_fops))) W 8)"
    using accepted_config_heads [OF four_layers_loaded, of W 8] by (simp add: four_layers_loaded Let_def)
qed

end
