(* ===== verification/Generator_Properties.thy ===== *)
theory Generator_Properties
  imports Generator_Load Small_Checkpoint Config_Properties
begin

text \<open>
  What a successful \<open>Generator::load_model\<close> leaves behind, and that it cannot succeed without a
  GPU: the CPU that \<open>load\<close> falls back to is refused by the plan of the distributed load.
\<close>

section \<open>The steps of a successful load\<close>

lemma load_tokenizer_step:
  assumes "load_generator_tokenizer V dir G = (G', Inr u)"
  obtains T where "load_tokenizer (tokenizer_files_of V dir) dir = (T, Inr ())"
    "G' = finish_load (G\<lparr>gs_tokenizer := T\<rparr>)"
  using assms by (auto simp: load_generator_tokenizer_def split: prod.splits sum.splits)

lemma load_weights_step:
  assumes "load_generator_weights V dir L G = (G', Inr u)" "wl_store L = Some S"
  obtains W Mt where
    "load_distributed (le_store V) (create_backend (le_registry V)) (wl_config L) S (gs_devices G) = Inr W"
    "enable_mtp (impl_options (gs_impl G)) \<longrightarrow>
     load_mtp (le_store V) (create_backend (le_registry V)) (wl_config L) S (last (gs_devices G)) = Inr Mt"
    "\<not> enable_mtp (impl_options (gs_impl G)) \<longrightarrow> Mt = no_mtp"
    "load_generator_tokenizer V dir (G\<lparr>gs_weights := W, gs_mtp := Mt\<rparr>) = (G', Inr ())"
proof (cases "enable_mtp (impl_options (gs_impl G))")
  case True
  then show ?thesis using assms that
    by (auto simp: load_generator_weights_def loader_load_distributed_def with_store_def Let_def split: sum.splits)
next
  case False
  then show ?thesis using assms that
    by (auto simp: load_generator_weights_def loader_load_distributed_def with_store_def Let_def split: sum.splits)
qed

lemma load_model_step:
  assumes "load_generator_model V F dir G = (G', Inr u)"
  obtains C S W Mt T doc path where
    "load_config (le_config V) doc path (gs_config G) = (C, Inr ())"
    "open_model (le_store V) dir closed_store = (S, Inr ())"
    "load_distributed (le_store V) (create_backend (le_registry V)) C S (gs_devices G) = Inr W"
    "enable_mtp (impl_options (gs_impl G)) \<longrightarrow>
     load_mtp (le_store V) (create_backend (le_registry V)) C S (last (gs_devices G)) = Inr Mt"
    "\<not> enable_mtp (impl_options (gs_impl G)) \<longrightarrow> Mt = no_mtp"
    "load_tokenizer (tokenizer_files_of V dir) dir = (T, Inr ())"
    "G' = finish_load (G\<lparr>gs_config := C, gs_weights := W, gs_mtp := Mt, gs_tokenizer := T\<rparr>)"
proof -
  let ?path = "se_join (le_store V) dir ''config.json''"
  obtain C L where c: "load_config (le_config V) (json_file_of (le_store V) ?path) ?path (gs_config G) = (C, Inr ())"
    and o: "open_loader (le_store V) dir C False (closed_loader F) = (L, Inr ())"
    and w: "load_generator_weights V dir L (G\<lparr>gs_config := C\<rparr>) = (G', Inr ())"
    using assms by (auto simp: load_generator_model_def Let_def split: prod.splits sum.splits)
  obtain S where S: "open_model (le_store V) dir closed_store = (S, Inr ())" "wl_store L = Some S" "wl_config L = C"
    using open_loader_store [OF o] by blast
  from load_weights_step [OF w S(2)] obtain W Mt where
    l: "load_distributed (le_store V) (create_backend (le_registry V)) C S (gs_devices G) = Inr W"
      "enable_mtp (impl_options (gs_impl G)) \<longrightarrow>
       load_mtp (le_store V) (create_backend (le_registry V)) C S (last (gs_devices G)) = Inr Mt"
      "\<not> enable_mtp (impl_options (gs_impl G)) \<longrightarrow> Mt = no_mtp"
    and t: "load_generator_tokenizer V dir (G\<lparr>gs_config := C, gs_weights := W, gs_mtp := Mt\<rparr>) = (G', Inr ())"
    by (auto simp: S(3))
  from load_tokenizer_step [OF t] obtain T where "load_tokenizer (tokenizer_files_of V dir) dir = (T, Inr ())"
    "G' = finish_load (G\<lparr>gs_config := C, gs_weights := W, gs_mtp := Mt, gs_tokenizer := T\<rparr>)" by auto
  then show thesis using that [OF c S(1) l] by blast
qed

lemma load_into_step:
  assumes "load_model_into V F M G = (M', G', Inr u)"
  obtains ds where "choose_devices V (clamp_devices (impl_options (gs_impl G))) M = (ds, M')" "ds \<noteq> []"
    "load_generator_model V F (model_dir (impl_options (gs_impl G)))
       (G\<lparr>gs_impl := (gs_impl G)\<lparr>impl_options := clamp_devices (impl_options (gs_impl G))\<rparr>, gs_devices := ds\<rparr>) =
     (G', Inr ())"
  using assms by (auto simp: load_model_into_def load_refused_def Let_def split: prod.splits if_splits)

lemma clamp_devices_simps [simp]:
  "enable_mtp (clamp_devices opts) = enable_mtp opts" "backend_name (clamp_devices opts) = backend_name opts"
  "model_dir (clamp_devices opts) = model_dir opts"
  by (simp_all add: clamp_devices_def)

lemma resized_lengths [simp]: "length (resize_caches n cs) = n" "length (resize_dn n ds) = n"
  by (simp_all add: resize_caches_def resize_dn_def)

section \<open>The properties\<close>

text \<open>What a successful load leaves behind.\<close>

lemma loaded_generator_facts:
  assumes "load_model_into V F M G = (M', G', Inr ())"
  shows "impl_loaded (gs_impl G') \<and> gs_devices G' \<noteq> [] \<and> (\<forall>d \<in> set (gs_devices G'). is_gpu d) \<and>
    (let C = gs_config G'; n = nat (num_hidden_layers C); W = gs_weights G'; I = gs_impl G' in
     layer_types C = map (scheduled_type (full_attention_interval C)) [0..<n] \<and>
     length (ld_layers W) = n \<and>
     (\<forall>i < n. case ld_layers W ! i of (L, dev) \<Rightarrow>
        ll_index L = int i \<and> (ll_is_attention L \<longleftrightarrow> layer_types C ! i = FullAttention) \<and>
        validate_layer L = Inr () \<and> dev \<in> set (gs_devices G')) \<and>
     length (attention_caches I) = n \<and> length (deltanet_caches I) = n \<and>
     length (mtp_attention_caches I) = nat (mtp_num_hidden_layers C) \<and>
     (if enable_mtp (impl_options I)
      then 0 < mtp_num_hidden_layers C \<and> validate_mtp (gs_mtp G') = Inr () \<and>
        length (lm_layers (gs_mtp G')) = nat (mtp_num_hidden_layers C)
      else gs_mtp G' = no_mtp))"
proof -
  from load_into_step [OF assms] obtain ds where ds: "ds \<noteq> []" and
    m: "load_generator_model V F (model_dir (impl_options (gs_impl G)))
       (G\<lparr>gs_impl := (gs_impl G)\<lparr>impl_options := clamp_devices (impl_options (gs_impl G))\<rparr>, gs_devices := ds\<rparr>) =
     (G', Inr ())" by blast
  obtain C S W Mt T doc path where
    c: "load_config (le_config V) doc path (gs_config G) = (C, Inr ())"
    and l: "load_distributed (le_store V) (create_backend (le_registry V)) C S ds = Inr W"
    and mtp: "enable_mtp (impl_options (gs_impl G)) \<longrightarrow>
         load_mtp (le_store V) (create_backend (le_registry V)) C S (last ds) = Inr Mt"
      "\<not> enable_mtp (impl_options (gs_impl G)) \<longrightarrow> Mt = no_mtp"
    and G': "G' = finish_load (G\<lparr>gs_impl := (gs_impl G)\<lparr>impl_options := clamp_devices (impl_options (gs_impl G))\<rparr>,
        gs_devices := ds, gs_config := C, gs_weights := W, gs_mtp := Mt, gs_tokenizer := T\<rparr>)"
    by (rule load_model_step [OF m, simplified]) blast
  note v = load_config_valid [OF c] and d = load_distributed_layers [OF l]
  let ?n = "nat (num_hidden_layers C)"
  have layers: "case ld_layers W ! i of (L, dev) \<Rightarrow>
      ll_index L = int i \<and> (ll_is_attention L \<longleftrightarrow> layer_types C ! i = FullAttention) \<and>
      validate_layer L = Inr () \<and> dev \<in> set ds" if "i < ?n" for i
    by (rule loaded_layer_at [OF l that])
  have "if enable_mtp (impl_options (gs_impl G))
      then 0 < mtp_num_hidden_layers C \<and> validate_mtp Mt = Inr () \<and> length (lm_layers Mt) = nat (mtp_num_hidden_layers C)
      else Mt = no_mtp"
    using mtp load_mtp_layers by (auto split: if_splits)
  then show ?thesis
    using ds layers d(4) load_distributed_devices(2) [OF l] accepted_schedule [OF v(1, 2)]
    by (simp add: G' finish_load_def Let_def)
qed

text \<open>C8. A generator that was loaded is consistent: it has GPUs only, a configuration with a valid
  schedule, for every layer the validated weights of the kind of the schedule on one of its
  devices, MTP weights exactly when they were asked for, and one cache for every layer.\<close>

theorem loaded_generator_consistent:
  assumes "load_model_into V F M G = (M', G', Inr ())"
  shows "impl_loaded (gs_impl G') \<and> gs_devices G' \<noteq> [] \<and> (\<forall>d \<in> set (gs_devices G'). is_gpu d) \<and>
    (let C = gs_config G'; n = nat (num_hidden_layers C); W = gs_weights G'; I = gs_impl G' in
     layer_types C = map (scheduled_type (full_attention_interval C)) [0..<n] \<and>
     length (ld_layers W) = n \<and>
     (\<forall>i < n. case ld_layers W ! i of (L, dev) \<Rightarrow>
        ll_index L = int i \<and> (ll_is_attention L \<longleftrightarrow> layer_types C ! i = FullAttention) \<and>
        validate_layer L = Inr () \<and> dev \<in> set (gs_devices G')) \<and>
     length (attention_caches I) = n \<and> length (deltanet_caches I) = n \<and>
     length (mtp_attention_caches I) = nat (mtp_num_hidden_layers C) \<and>
     (if enable_mtp (impl_options I)
      then 0 < mtp_num_hidden_layers C \<and> validate_mtp (gs_mtp G') = Inr () \<and>
        length (lm_layers (gs_mtp G')) = nat (mtp_num_hidden_layers C)
      else gs_mtp G' = no_mtp))"
  by (rule loaded_generator_facts [OF assms])

text \<open>The devices of a CPU generator.\<close>

lemma select_loop_none:
  "\<forall>d \<in> set ds. is_gpu d \<longrightarrow> name \<noteq> ''gpu'' \<and> dev_backend d \<noteq> name \<Longrightarrow> select_loop name k found ds = found"
  by (induction ds) auto

lemma initialize_devices_again:
  "initialize_devices P R N (initialize_devices P R N M) = initialize_devices P R N M"
  by (simp add: initialize_devices_def)

lemma choose_cpu:
  assumes "backend_name opts = ''cpu''"
    and "\<forall>d \<in> set (devices (initialize_devices (le_probe V) (le_registry V) (le_names V) M)).
      is_gpu d \<longrightarrow> dev_backend d \<noteq> ''cpu''"
  shows "fst (choose_devices V opts M) = [Cpu]"
proof -
  have "select_loop ''cpu'' (max_devices opts) []
      (devices (initialize_devices (le_probe V) (le_registry V) (le_names V) M)) = []"
    using assms(2) by (intro select_loop_none) auto
  then show ?thesis
    using assms(1) by (simp add: choose_devices_def select_gpu_devices_def initialize_devices_again Let_def)
qed

text \<open>C9. A generator for the CPU backend, the default of \<open>GeneratorOptions\<close>, never loads: with a valid
  configuration and a checkpoint that opens, the plan of the distributed load refuses the CPU
  that \<open>load\<close> chose.\<close>

theorem cpu_generator_refused:
  assumes "backend_name (impl_options (gs_impl G)) = ''cpu''"
    and "\<forall>d \<in> set (devices (initialize_devices (le_probe V) (le_registry V) (le_names V) M)).
      is_gpu d \<longrightarrow> dev_backend d \<noteq> ''cpu''"
    and "model_dir (impl_options (gs_impl G)) = dir" "dir \<noteq> []" "se_is_directory (le_store V) dir"
    and "path = se_join (le_store V) dir ''config.json''"
    and "load_config (le_config V) (json_file_of (le_store V) path) path (gs_config G) = (C, Inr ())"
    and "open_model (le_store V) dir closed_store = (S, Inr ())"
  shows "snd (snd (load_model_into V F M G)) =
    load_refused ApiUnknown ''Distributed Qwen plan requires GPU devices''"
proof -
  let ?opts = "clamp_devices (impl_options (gs_impl G))"
  have "backend_name ?opts = ''cpu''" using assms(1) by (simp add: clamp_devices_def)
  then obtain M' where ds: "choose_devices V ?opts M = ([Cpu], M')"
    using choose_cpu [OF _ assms(2)] by (metis prod.collapse)
  have "0 < num_hidden_layers C" using load_config_valid(1) [OF assms(7)] by (auto simp: dimensions_bad_def)
  moreover have "\<not> is_gpu Cpu" by (simp add: is_gpu_def Cpu_def)
  ultimately have "load_distributed (le_store V) (create_backend (le_registry V)) C S [Cpu] =
      fails InvalidDevice ''Distributed Qwen plan requires GPU devices''"
    by (simp add: load_distributed_def plan_distributed_def)
  then show ?thesis
    using assms ds
    by (simp add: load_model_into_def load_generator_model_def Let_def open_loader_def load_generator_weights_def
        loader_load_distributed_def with_store_def load_refused_def fails_def)
qed

text \<open>A failed load keeps the loaded flag: after a failed reload the generator still accepts
  requests, over whatever the failed load left behind.\<close>

lemma failed_load_keeps_flag:
  assumes "load_model_into V F M G = (M', G', Inl e)"
  shows "impl_loaded (gs_impl G') = impl_loaded (gs_impl G)"
  using assms
  by (auto simp: load_model_into_def load_refused_def load_generator_model_def load_generator_weights_def
      load_generator_tokenizer_def Let_def split: prod.splits sum.splits if_splits)

section \<open>On a small checkpoint\<close>

definition small_config_env :: "(unit, int) config_env" where
  "small_config_env = \<lparr>ce_numbers = small_numbers, ce_le_zero = (\<lambda>x. x \<le> 0), ce_scale = (\<lambda>h x. h * x),
     ce_can_reserve = (\<lambda>n. n < 1000)\<rparr>"

definition small_registry :: "int backend backend_registry" where
  "small_registry = register_backend ''hip'' (reference_backends int_fops 0) empty_registry"

definition small_load_env :: "(unit, int) load_env" where
  "small_load_env = \<lparr>le_store = small_env, le_config = small_config_env, le_order = (\<lambda>m. m), le_max_tokens = 1000,
     le_probe = \<lparr>enumerate_devices = (\<lambda>_. [nth_gpu 0, nth_gpu 1]), is_available = (\<lambda>_. True)\<rparr>,
     le_registry = small_registry, le_names = [''hip'']\<rparr>"

definition small_generator :: "string \<Rightarrow> (int tensor, int tensor, int tensor, int) generator_state" where
  "small_generator name = new_generator int_fops
     \<lparr>model_dir = ''m'', backend_name = name, max_devices = 2, enable_mtp = False\<rparr>"

lemma small_config_loaded:
  "load_config small_config_env (json_file_of small_env ''m/config.json'') ''m/config.json'' (default_config int_fops) =
     (two_layers, Inr ())"
proof -
  have "json_file_of small_env ''m/config.json'' = FileJson ckpt_config"
    by (simp add: json_file_of_def small_env_def small_read_def small_parse_def)
  then show ?thesis
    by (simp add: load_config_def load_config_json_def read_mtp_def read_fields_def read_eos_def read_rope_def
      derive_head_dim_def read_schedule_def read_i64_def read_float_def read_bool_def read_string_def
      config_field_def ckpt_config_def small_config_env_def small_numbers_def default_config_def int_fops_def Let_def
      cast_i64_id validate_config_def dimensions_bad_def schedule_conflicts_def scheduled_type_def upt_rec two_layers_def)
qed

lemma small_tokenizer_loaded:
  "\<exists>T. load_tokenizer (tokenizer_files_of small_load_env ''m'') ''m'' = (T, Inr ())"
proof -
  have f: "tf_tokenizer (tokenizer_files_of small_load_env ''m'') = FileJson ckpt_tokenizer"
    "tf_generation (tokenizer_files_of small_load_env ''m'') = FileMissing"
    "tf_max_tokens (tokenizer_files_of small_load_env ''m'') = 1000"
    "tf_order (tokenizer_files_of small_load_env ''m'') = (\<lambda>m. m)"
    by (simp_all add: tokenizer_files_of_def small_load_env_def json_file_of_def small_env_def small_read_def small_parse_def)
  show ?thesis
    by (simp add: load_tokenizer_def f load_model_def ckpt_tokenizer_def value_or_def load_vocab_def load_merges_def
        load_added_def load_generation_def load_bytes_def empty_tokenizer_def Let_def)
qed

lemma small_devices:
  "initialize_devices (le_probe small_load_env) (le_registry small_load_env) (le_names small_load_env) new_device_manager =
     \<lparr>devices = [Cpu, nth_gpu 0, nth_gpu 1], manager_initialized = True\<rparr>"
  by (simp add: initialize_devices_def new_device_manager_def small_load_env_def usable_devices_def create_backend_def
      small_registry_def register_backend_def empty_registry_def probe_device_def nth_gpu_def reference_backends_def)

lemma small_registry_on_gpus: "on_gpus (create_backend small_registry)"
  by (simp add: on_gpus_def create_backend_def small_registry_def register_backend_def empty_registry_def
      nth_gpu_def reference_backends_def is_gpu_def)

lemma small_generator_loads:
  "\<exists>M' G'. load_model_into small_load_env int_fops new_device_manager (small_generator ''hip'') = (M', G', Inr ())"
proof -
  let ?V = small_load_env and ?G = "small_generator ''hip''"
  have j: "se_join small_env ''m'' ''config.json'' = ''m/config.json''" "se_is_directory small_env ''m''"
    "le_store ?V = small_env" "le_config ?V = small_config_env" "le_registry ?V = small_registry"
    by (simp_all add: small_env_def small_load_env_def)
  have opts: "clamp_devices (impl_options (gs_impl ?G)) = \<lparr>model_dir = ''m'', backend_name = ''hip'', max_devices = 2, enable_mtp = False\<rparr>"
    "impl_options (gs_impl ?G) = \<lparr>model_dir = ''m'', backend_name = ''hip'', max_devices = 2, enable_mtp = False\<rparr>"
    "gs_config ?G = default_config int_fops"
    by (simp_all add: clamp_devices_def small_generator_def new_generator_def)
  have ds: "\<exists>M'. choose_devices ?V (clamp_devices (impl_options (gs_impl ?G))) new_device_manager = ([nth_gpu 0, nth_gpu 1], M')"
    unfolding choose_devices_def select_gpu_devices_def initialize_devices_again Let_def small_devices opts
    by (simp add: is_gpu_def nth_gpu_def Cpu_def clamp_devices_def initialize_devices_def)
  obtain W where "load_distributed small_env (create_backend small_registry) two_layers small_store [nth_gpu 0, nth_gpu 1] = Inr W"
    using small_load [OF small_registry_on_gpus] by blast
  moreover obtain T where "load_tokenizer (tokenizer_files_of ?V ''m'') ''m'' = (T, Inr ())"
    using small_tokenizer_loaded by blast
  ultimately show ?thesis
    using ds by (auto simp: load_model_into_def opts j load_generator_model_def small_config_loaded Let_def open_loader_def
      small_opens load_generator_weights_def loader_load_distributed_def with_store_def load_generator_tokenizer_def)
qed

theorem loaded_generator_consistent_witness:
  "\<exists>M' G'. load_model_into small_load_env int_fops new_device_manager (small_generator ''hip'') = (M', G', Inr ()) \<and>
     impl_loaded (gs_impl G') \<and> length (ld_layers (gs_weights G')) = nat (num_hidden_layers (gs_config G'))"
proof -
  obtain M' G' where g: "load_model_into small_load_env int_fops new_device_manager (small_generator ''hip'') = (M', G', Inr ())"
    using small_generator_loads by blast
  show ?thesis using loaded_generator_consistent [OF g] g by (auto simp: Let_def)
qed

theorem cpu_generator_refused_witness:
  "snd (snd (load_model_into small_load_env int_fops new_device_manager (small_generator ''cpu''))) =
     load_refused ApiUnknown ''Distributed Qwen plan requires GPU devices''"
proof (rule cpu_generator_refused [where dir = "''m''" and path = "''m/config.json''" and C = two_layers and S = small_store])
  show "\<forall>d \<in> set (devices (initialize_devices (le_probe small_load_env) (le_registry small_load_env)
      (le_names small_load_env) new_device_manager)). is_gpu d \<longrightarrow> dev_backend d \<noteq> ''cpu''"
    unfolding small_devices by (simp add: nth_gpu_def Cpu_def is_gpu_def)
  show "load_config (le_config small_load_env) (json_file_of (le_store small_load_env) ''m/config.json'') ''m/config.json''
      (gs_config (small_generator ''cpu'')) = (two_layers, Inr ())"
    using small_config_loaded by (simp add: small_load_env_def small_generator_def new_generator_def)
qed (simp_all add: small_generator_def new_generator_def small_load_env_def small_opens, simp_all add: small_env_def)

end
