(* ===== verification/Loaded_Generation.thy ===== *)
theory Loaded_Generation
  imports Generator_Properties Qwen_Machine
begin

text \<open>
  Loading and generating together: the state that a successful \<open>Generator::load_model\<close> leaves is one on
  which \<open>Generator::generate\<close> continues the prompt greedily. What the decoding theory asks of the
  devices of a model is what the load has checked; what is left are limits of the kernels, which the
  load does not check.
\<close>

section \<open>What the load does not check\<close>

text \<open>The argmax kernel needs four columns, the fused MLP equal widths, and the DeltaNet kernels for one
  token agree with those for many only where their sums do.\<close>

definition kernels_agree ::
  "'f fops \<Rightarrow> (device \<Rightarrow> 'f hip_env) \<Rightarrow> 'f qwen_config \<Rightarrow> 'f layer_weights \<Rightarrow> device \<Rightarrow> bool" where
  "kernels_agree F Env cfg L dev \<longleftrightarrow>
     out_width (lw_mlp_gate_proj L) = out_width (lw_mlp_up_proj L) \<and>
     (\<not> lw_is_attention L \<longrightarrow>
        (\<forall>nqk nv kd vd ks. delta_sizes cfg L nqk nv kd vd ks \<longrightarrow>
           (ks = 4 \<longrightarrow> adds_to_zero F) \<and>
           decode_agrees F (he_warp (Env dev)) BF16
             (t_data (lw_a_log L), t_data (lw_dt_bias L), t_data (lw_linear_attn_norm L)) nqk nv kd vd vd (rms_norm_eps cfg)))"

definition model_supported ::
  "'f fops \<Rightarrow> (device \<Rightarrow> 'f hip_env) \<Rightarrow> 'f qwen_config \<Rightarrow> 'f distributed_weights \<Rightarrow> device \<Rightarrow> bool" where
  "model_supported F Env cfg W final \<longleftrightarrow>
     4 \<le> t_shape (dw_lm_head W) ! 0 \<and>
     he_launch (Env final) ''launch argmax kernel'' \<and>
     he_launch (Env final) ''launch batched argmax kernel'' \<and>
     list_all (\<lambda>(L, dev). kernels_agree F Env cfg L dev) (dw_layers W)"

lemma supported_qwen_machine:
  assumes m: "hip_machine F reg Env" and s: "model_supported F Env cfg W final"
    and gpus: "is_gpu first" "is_gpu final" "list_all (\<lambda>(L, dev). is_gpu dev) (dw_layers W)"
  shows "qwen_machine F reg Env cfg W first final"
proof (rule qwen_machine.intro [OF m])
  have l: "kernels_agree F Env cfg L dev" if "(L, dev) \<in> set (dw_layers W)" for L dev
    using s that by (auto simp: model_supported_def list_all_iff)
  show "qwen_machine_axioms F Env cfg W first final"
  proof
    show "list_all (\<lambda>(L, d). out_width (lw_mlp_gate_proj L) = out_width (lw_mlp_up_proj L)) (dw_layers W)"
      using l by (auto simp: list_all_iff kernels_agree_def)
    show "hip_machine.delta_exact F Env d L nqk nv kd vd ks (rms_norm_eps cfg)"
      if "(L, d) \<in> set (dw_layers W)" "\<not> lw_is_attention L" "delta_sizes cfg L nqk nv kd vd ks"
      for L d nqk nv kd vd ks
      using l [OF that(1)] that(2,3) by (auto simp: kernels_agree_def hip_machine.delta_exact_def [OF m])
  qed (use s gpus in \<open>auto simp: model_supported_def\<close>)
qed

section \<open>What the load has checked\<close>

text \<open>The weights the engine takes from a loaded generator are on its GPUs.\<close>

lemma loaded_layers_on_gpus:
  assumes "load_model_into V F M G = (M', G', Inr ())"
  shows "is_gpu (hd (gs_devices G'))" "is_gpu (last (gs_devices G'))"
    "list_all (\<lambda>(L, dev). is_gpu dev) (dw_layers (engine_weights_of (gs_weights G') (gs_mtp G')))"
proof -
  note c = loaded_generator_facts [OF assms, unfolded Let_def]
  then show "is_gpu (hd (gs_devices G'))" "is_gpu (last (gs_devices G'))" by auto
  have "is_gpu dev" if "(L, dev) \<in> set (ld_layers (gs_weights G'))" for L dev
  proof -
    from that obtain i where "i < length (ld_layers (gs_weights G'))" "ld_layers (gs_weights G') ! i = (L, dev)"
      by (auto simp: in_set_conv_nth)
    with c have "dev \<in> set (gs_devices G')" by fastforce
    with c show ?thesis by blast
  qed
  then show "list_all (\<lambda>(L, dev). is_gpu dev) (dw_layers (engine_weights_of (gs_weights G') (gs_mtp G')))"
    by (auto simp: engine_weights_of_def list_all_iff)
qed

text \<open>Every request starts from empty caches, one for each layer of the configuration.\<close>

lemma loaded_caches:
  assumes "load_model_into V F M G = (M', G', Inr ())"
  shows "attention_caches (reset_impl (gs_impl G')) = replicate (nat (num_hidden_layers (gs_config G'))) kv_empty"
    "deltanet_caches (reset_impl (gs_impl G')) = replicate (nat (num_hidden_layers (gs_config G'))) dn_empty"
  using loaded_generator_facts [OF assms] by (simp_all add: Let_def reset_impl_def)

lemma loaded_machine:
  assumes "load_model_into V F M G = (M', G', Inr ())" "hip_machine F reg Env"
    and "model_supported F Env (gs_config G') (engine_weights_of (gs_weights G') (gs_mtp G')) (last (gs_devices G'))"
  shows "qwen_machine F reg Env (gs_config G') (engine_weights_of (gs_weights G') (gs_mtp G'))
    (hd (gs_devices G')) (last (gs_devices G'))"
  by (rule supported_qwen_machine [OF assms(2,3) loaded_layers_on_gpus [OF assms(1)]])

end
