(* ===== verification/Model_Checkpoint.thy ===== *)
theory Model_Checkpoint
  imports Loaded_Generation Small_Model Small_Checkpoint Tokenizer_Properties
begin

text \<open>
  The small model as files: a directory with the configuration, the tokenizer and the weights of
  \<open>Small_Model\<close> in one safetensors file. It loads, and a speculative generation runs on what was loaded.
\<close>

section \<open>The files\<close>

definition linear_tensors :: "(string \<times> int list \<times> int list) list" where
  "linear_tensors = [
     (''input_layernorm.weight'', [2], [0, 0]),
     (''post_attention_layernorm.weight'', [2], [0, 1]),
     (''linear_attn.norm.weight'', [1], [1]),
     (''linear_attn.A_log'', [1], [0]),
     (''linear_attn.conv1d.weight'', [3, 2], [1, 1, 1, 0, 1, 1]),
     (''linear_attn.dt_bias'', [1], [0]),
     (''linear_attn.in_proj_a.weight'', [1, 2], [1, 0]),
     (''linear_attn.in_proj_b.weight'', [1, 2], [0, 1]),
     (''linear_attn.in_proj_qkv.weight'', [3, 2], [1, 0, 0, 1, 1, 1]),
     (''linear_attn.in_proj_z.weight'', [1, 2], [1, 1]),
     (''linear_attn.out_proj.weight'', [2, 1], [1, - 1]),
     (''mlp.gate_proj.weight'', [2, 2], [1, 0, 0, 1]),
     (''mlp.up_proj.weight'', [2, 2], [1, 1, 1, 0]),
     (''mlp.down_proj.weight'', [2, 2], [0, 1, 1, 0])]"

definition attention_tensors :: "(string \<times> int list \<times> int list) list" where
  "attention_tensors = [
     (''input_layernorm.weight'', [2], [0, 0]),
     (''post_attention_layernorm.weight'', [2], [0, 1]),
     (''self_attn.q_proj.weight'', [4, 2], [1, 0, 0, 1, 1, 1, 0, 1]),
     (''self_attn.k_proj.weight'', [2, 2], [0, 1, 1, 0]),
     (''self_attn.v_proj.weight'', [2, 2], [1, 1, 0, 1]),
     (''self_attn.o_proj.weight'', [2, 2], [1, 0, 1, 1]),
     (''self_attn.q_norm.weight'', [2], [0, 0]),
     (''self_attn.k_norm.weight'', [2], [0, 0]),
     (''mlp.gate_proj.weight'', [2, 2], [1, 0, 0, 1]),
     (''mlp.up_proj.weight'', [2, 2], [1, 1, 1, 0]),
     (''mlp.down_proj.weight'', [2, 2], [0, 1, 1, 0])]"

definition shared_tensors :: "(string \<times> int list \<times> int list) list" where
  "shared_tensors = [
     (''model.language_model.embed_tokens.weight'', [4, 2], [1, 0, 0, 1, 1, 1, 2, 1]),
     (''model.language_model.norm.weight'', [2], [0, 0]),
     (''lm_head.weight'', [4, 2], [1, 2, 0, 3, 2, 0, - 1, 1])]"

definition mtp_tensors :: "(string \<times> int list \<times> int list) list" where
  "mtp_tensors = [
     (''mtp.fc.weight'', [2, 4], [1, 0, 0, 0, 0, 1, 0, 0]),
     (''mtp.norm.weight'', [2], [0, 0]),
     (''mtp.pre_fc_norm_embedding.weight'', [2], [0, 0]),
     (''mtp.pre_fc_norm_hidden.weight'', [2], [0, 0])]"

definition named :: "string \<Rightarrow> (string \<times> int list \<times> int list) list \<Rightarrow> (string \<times> int list \<times> int list) list" where
  "named pre ts = map (\<lambda>(n, t). (pre @ n, t)) ts"

definition model_tensors :: "(string \<times> int list \<times> int list) list" where
  "model_tensors = named ''model.language_model.layers.0.'' linear_tensors @
     named ''model.language_model.layers.1.'' attention_tensors @ shared_tensors @ mtp_tensors @
     named ''mtp.layers.0.'' attention_tensors"

text \<open>The data of the tensors one after the other, two bytes for an element.\<close>

fun place :: "nat \<Rightarrow> (string \<times> int list \<times> int list) list \<Rightarrow> (string \<times> tensor_info) list" where
  "place b [] = []"
| "place b ((n, shape, xs) # ts) =
     (n, \<lparr>ti_dtype = BF16, ti_shape = shape, ti_begin = b, ti_end = b + 2 * length xs\<rparr>) # place (b + 2 * length xs) ts"

definition model_data :: "u8 list" where
  "model_data = concat (map (\<lambda>(n, shape, xs). concat (map (\<lambda>x. [word_of_int x, 0]) xs)) model_tensors)"

definition info_entry :: "tensor_info \<Rightarrow> unit json" where
  "info_entry info = JObject [(''data_offsets'', JArray [JInt (int (ti_begin info)), JInt (int (ti_end info))]),
     (''dtype'', JString ''BF16''), (''shape'', JArray (map JInt (ti_shape info)))]"

definition model_config_json :: "unit json" where
  "model_config_json = JObject [(''bos_token_id'', JInt 0), (''eos_token_id'', JInt 3), (''full_attention_interval'', JInt 2),
     (''head_dim'', JInt 2), (''hidden_size'', JInt 2), (''intermediate_size'', JInt 2),
     (''linear_conv_kernel_dim'', JInt 2), (''linear_key_head_dim'', JInt 1), (''linear_num_key_heads'', JInt 1),
     (''linear_num_value_heads'', JInt 1), (''linear_value_head_dim'', JInt 1), (''max_position_embeddings'', JInt 16),
     (''mtp_num_hidden_layers'', JInt 1), (''num_attention_heads'', JInt 1), (''num_hidden_layers'', JInt 2),
     (''num_key_value_heads'', JInt 1), (''pad_token_id'', JInt 0), (''rms_norm_eps'', JInt 1),
     (''rope_parameters'', JObject [(''partial_rotary_factor'', JInt 1), (''rope_theta'', JInt 10)]), (''vocab_size'', JInt 4)]"

definition model_parse :: "u8 list \<Rightarrow> string + unit json" where
  "model_parse bs =
     (if bs = [1] then Inr model_config_json
      else if bs = [2] then Inr small_tok_json
      else if bs = [3] then Inr (JObject (map (\<lambda>(n, info). (n, info_entry info)) (place 0 model_tensors)))
      else if bs = [4] then Inr (JObject [(''eos_token_id'', JInt 3)])
      else Inl ''parse_error'')"

definition model_file :: "u8 list" where
  "model_file = [1, 0, 0, 0, 0, 0, 0, 0, 3] @ model_data"

definition model_read :: "string \<Rightarrow> u8 list option" where
  "model_read p =
     (if p = ''m/config.json'' then Some [1]
      else if p = ''m/tokenizer.json'' then Some [2]
      else if p = ''m/generation_config.json'' then Some [4]
      else if p = ''m/model.safetensors'' then Some model_file
      else None)"

definition model_env :: "(unit, int) store_env" where
  "model_env = \<lparr>se_numbers = small_numbers, se_is_directory = (\<lambda>p. p = ''m''),
     se_exists = (\<lambda>p. model_read p \<noteq> None), se_read = model_read,
     se_size = (\<lambda>p. case model_read p of None \<Rightarrow> 0 | Some bs \<Rightarrow> int (length bs)),
     se_join = (\<lambda>a b. a @ ''/'' @ b), se_parse = model_parse,
     se_decode = (\<lambda>d raw. map (\<lambda>i. sint (raw ! (i * SizeOfDType d))) [0..<length raw div SizeOfDType d]),
     se_staging = (\<lambda>_ _. True)\<rparr>"

definition model_store :: store where
  "model_store = closed_store\<lparr>st_path := ''m/model.safetensors'', st_offset := 9, st_tensors := place 0 model_tensors\<rparr>"

section \<open>Opening\<close>

lemma model_sizes: "length model_data = 302" "length model_file = 311"
  by code_simp+

lemma model_names: "distinct (map fst (place 0 model_tensors))" "''__metadata__'' \<notin> fst ` set (place 0 model_tensors)"
  by code_simp+

lemma model_entries:
  "list_all (\<lambda>(n, info). read_tensor_info small_numbers 302 n (info_entry info) = Inr info) (place 0 model_tensors)"
  by code_simp

lemma model_header: "ReadU64LittleEndian model_file = Some 1" "take (Suc 0) (drop 8 model_file) = [3]"
  by code_simp+

lemma model_shard:
  "parse_shard model_env ''m/model.safetensors'' =
     Inr \<lparr>sh_path = ''m/model.safetensors'', sh_offset = 9, sh_tensors = place 0 model_tensors\<rparr>"
proof -
  let ?es = "map (\<lambda>(n, info). (n, info_entry info, info)) (place 0 model_tensors)"
  have r: "se_read model_env ''m/model.safetensors'' = Some model_file" "se_exists model_env ''m/model.safetensors''"
    "se_size model_env ''m/model.safetensors'' = 311" "se_numbers model_env = small_numbers"
    "se_parse model_env [3] = Inr (JObject (map (\<lambda>(n, info). (n, info_entry info)) (place 0 model_tensors)))"
    by (simp_all add: model_env_def model_read_def model_sizes model_parse_def)
  have "load_each (shard_entry small_numbers 302) (map (\<lambda>(n, j, info). (n, j)) ?es) S =
      (S\<lparr>sh_tensors := sh_tensors S @ map (\<lambda>(n, j, info). (n, info)) ?es\<rparr>, Inr ())"
    if "sh_tensors S = []" for S
    by (rule shard_entries) (use model_entries model_names that in \<open>auto simp: list_all_iff comp_def split_def image_image\<close>)
  then have "load_each (shard_entry small_numbers 302) (map (\<lambda>(n, info). (n, info_entry info)) (place 0 model_tensors)) S =
      (S\<lparr>sh_tensors := place 0 model_tensors\<rparr>, Inr ())" if "sh_tensors S = []" for S
    using that by (simp add: comp_def split_def)
  then show ?thesis
    by (simp add: parse_shard_def r model_header model_sizes Let_def)
qed

lemma model_opens: "open_model model_env ''m'' S0 = (model_store, Inr ())"
proof -
  have j: "se_is_directory model_env ''m''" "se_exists model_env ''m/model.safetensors''"
    "\<not> se_exists model_env ''m/model.safetensors.index.json''"
    "\<And>n. se_join model_env ''m'' n = ''m/'' @ n"
    by (simp_all add: model_env_def model_read_def)
  then show ?thesis by (simp add: open_model_def Let_def open_store_def model_shard model_store_def)
qed

section \<open>Loading\<close>

definition model_tensor :: "int list \<Rightarrow> int list \<Rightarrow> int tensor" where
  "model_tensor shape xs = mk_tensor shape BF16 gpu0 (gpu_buffer gpu0 2 xs)"

definition model_weight :: "int list \<Rightarrow> int list \<Rightarrow> int quantized_weight" where
  "model_weight shape xs = \<lparr>qw_values = Some (model_tensor shape xs), qw_scales = None, qw_spec = dense_spec\<rparr>"

text \<open>Each tensor of the table is found, with its values in the file.\<close>

definition holds_tensor :: "string \<times> int list \<times> int list \<Rightarrow> bool" where
  "holds_tensor = (\<lambda>(n, shape, xs).
     (case tensor_info_of model_store n of
        None \<Rightarrow> False
      | Some info \<Rightarrow>
          ti_dtype info = BF16 \<and> ti_shape info = shape \<and> ti_end info - ti_begin info = 2 * length xs \<and>
          (case read_slice model_file (9 + ti_begin info) (2 * length xs) of
             None \<Rightarrow> False | Some raw \<Rightarrow> se_decode model_env BF16 raw = xs)))"

lemma model_tensors_held: "list_all holds_tensor model_tensors"
  by code_simp

lemma gpu0_nth: "gpu0 = nth_gpu 0"
  by (simp add: gpu0_def nth_gpu_def)

lemma model_source: "tensor_source model_store n = Inr (''m/model.safetensors'', 9)"
  by (simp add: tensor_source_def model_store_def closed_store_def)

lemma model_load_tensor:
  assumes "(n, shape, xs) \<in> set model_tensors" "on_gpus reg"
  shows "load_tensor model_env reg model_store n gpu0 DeviceMem = Inr (model_tensor shape xs)"
    and "\<exists>info. tensor_info_of model_store n = Some info \<and> ti_dtype info = BF16"
proof -
  from assms(1) model_tensors_held have "holds_tensor (n, shape, xs)" by (simp add: list_all_iff)
  then obtain info raw where info: "tensor_info_of model_store n = Some info" "ti_dtype info = BF16" "ti_shape info = shape"
      "ti_end info - ti_begin info = 2 * length xs"
    and raw: "read_slice model_file (9 + ti_begin info) (2 * length xs) = Some raw" "se_decode model_env BF16 raw = xs"
    by (auto simp: holds_tensor_def split: option.splits)
  have reg: "reg gpu0 = Some (hip_backend (reference_env int_fops 0 gpu0))"
    using assms(2) by (simp add: on_gpus_def gpu0_nth)
  have env: "se_read model_env ''m/model.safetensors'' = Some model_file" "se_staging model_env dev k" for dev k
    by (simp_all add: model_env_def model_read_def)
  show "load_tensor model_env reg model_store n gpu0 DeviceMem = Inr (model_tensor shape xs)"
    by (simp add: load_tensor_def info reg reference_gpu model_source env raw Let_def model_tensor_def write_prefix_def)
  show "\<exists>info. tensor_info_of model_store n = Some info \<and> ti_dtype info = BF16" using info by blast
qed

lemma model_load_weight:
  assumes "(n, shape, xs) \<in> set model_tensors" "on_gpus reg"
  shows "load_weight_tensor model_env reg model_store n gpu0 = Inr (model_tensor shape xs)"
    and "ends_with n ''.weight'' \<Longrightarrow>
      load_quantized model_env reg model_store n gpu0 = Inr (model_weight shape xs)"
proof -
  have m: "MemoryTypeForDevice gpu0 = DeviceMem" by (simp add: MemoryTypeForDevice_def)
  note l = model_load_tensor(1) [OF assms(1,2)]
  obtain info where i: "tensor_info_of model_store n = Some info" "ti_dtype info = BF16"
    using model_load_tensor(2) [OF assms(1,2)] by blast
  show "load_weight_tensor model_env reg model_store n gpu0 = Inr (model_tensor shape xs)"
    using l i by (simp add: load_weight_tensor_def has_tensor_def m)
  show "load_quantized model_env reg model_store n gpu0 = Inr (model_weight shape xs)"
    if "ends_with n ''.weight''"
    using l i that by (simp add: load_quantized_def m checked_weight_def validate_weight_def dense_spec_def
      model_weight_def model_tensor_def Let_def)
qed

text \<open>The tensor of a table, by its name.\<close>

definition table_tensor :: "(string \<times> int list \<times> int list) list \<Rightarrow> string \<Rightarrow> int tensor" where
  "table_tensor ts n = (case map_of ts n of None \<Rightarrow> default_tensor | Some (shape, xs) \<Rightarrow> model_tensor shape xs)"

definition table_weight :: "(string \<times> int list \<times> int list) list \<Rightarrow> string \<Rightarrow> int quantized_weight" where
  "table_weight ts n = \<lparr>qw_values = Some (table_tensor ts n), qw_scales = None, qw_spec = dense_spec\<rparr>"

definition in_table :: "(string \<times> int list \<times> int list) list \<Rightarrow> string \<Rightarrow> bool" where
  "in_table ts n \<longleftrightarrow> map_of ts n \<noteq> None"

lemma table_load:
  assumes "list_all (\<lambda>(n, t). (pre @ n, t) \<in> set model_tensors) ts" "on_gpus reg" "in_table ts n"
  shows "load_weight_tensor model_env reg model_store (pre @ n) gpu0 = Inr (table_tensor ts n)"
    "ends_with n ''.weight'' \<Longrightarrow> load_quantized model_env reg model_store (pre @ n) gpu0 = Inr (table_weight ts n)"
proof -
  from assms(3) obtain shape xs where n: "map_of ts n = Some (shape, xs)" by (auto simp: in_table_def)
  with assms(1) have m: "(pre @ n, shape, xs) \<in> set model_tensors" by (auto simp: list_all_iff dest!: map_of_SomeD)
  show "load_weight_tensor model_env reg model_store (pre @ n) gpu0 = Inr (table_tensor ts n)"
    using model_load_weight(1) [OF m assms(2)] by (simp add: table_tensor_def n)
  show "load_quantized model_env reg model_store (pre @ n) gpu0 = Inr (table_weight ts n)" if "ends_with n ''.weight''"
    using model_load_weight(2) [OF m assms(2) ends_with_append [OF that]]
    by (simp add: table_tensor_def table_weight_def model_weight_def n)
qed

lemma model_parts:
  "list_all (\<lambda>(n, t). (''model.language_model.layers.0.'' @ n, t) \<in> set model_tensors) linear_tensors"
  "list_all (\<lambda>(n, t). (''model.language_model.layers.1.'' @ n, t) \<in> set model_tensors) attention_tensors"
  "list_all (\<lambda>(n, t). ([] @ n, t) \<in> set model_tensors) (shared_tensors @ mtp_tensors)"
  "list_all (\<lambda>(n, t). (''mtp.layers.0.'' @ n, t) \<in> set model_tensors) attention_tensors"
  unfolding model_tensors_def named_def list_all_iff by force+

lemma model_layer_names:
  "layer_name 0 r = ''model.language_model.layers.0.'' @ r" "layer_name 1 r = ''model.language_model.layers.1.'' @ r"
proof -
  have "string_of_int 0 = ''0''" "string_of_int 1 = ''1''" by code_simp+
  then show "layer_name 0 r = ''model.language_model.layers.0.'' @ r" "layer_name 1 r = ''model.language_model.layers.1.'' @ r"
    by (simp_all add: layer_name_def)
qed

lemmas linear_load = table_load [OF model_parts(1), folded model_layer_names]
lemmas attention_load = table_load [OF model_parts(2), folded model_layer_names]
lemmas shared_load = table_load [OF model_parts(3), unfolded append_Nil]
lemmas mtp_load = table_load [OF model_parts(4), simplified append.simps]

lemma model_kinds:
  "has_tensor model_store (layer_name 0 ''linear_attn.in_proj_qkv.weight'')"
  "has_tensor model_store (layer_name 1 ''self_attn.q_proj.weight'')"
  "\<not> has_tensor model_store (layer_name 0 ''self_attn.q_proj.weight'')"
  "\<not> has_tensor model_store (layer_name 1 ''linear_attn.in_proj_qkv.weight'')"
  by code_simp+

lemma table_names:
  "n \<in> {''input_layernorm.weight'', ''post_attention_layernorm.weight'', ''linear_attn.norm.weight'',
     ''linear_attn.A_log'', ''linear_attn.conv1d.weight'', ''linear_attn.dt_bias'', ''linear_attn.in_proj_a.weight'',
     ''linear_attn.in_proj_b.weight'', ''linear_attn.in_proj_qkv.weight'', ''linear_attn.in_proj_z.weight'',
     ''linear_attn.out_proj.weight'', ''mlp.gate_proj.weight'', ''mlp.up_proj.weight'', ''mlp.down_proj.weight''} \<Longrightarrow>
   in_table linear_tensors n"
  "n \<in> {''input_layernorm.weight'', ''post_attention_layernorm.weight'', ''self_attn.q_proj.weight'',
     ''self_attn.k_proj.weight'', ''self_attn.v_proj.weight'', ''self_attn.o_proj.weight'', ''self_attn.q_norm.weight'',
     ''self_attn.k_norm.weight'', ''mlp.gate_proj.weight'', ''mlp.up_proj.weight'', ''mlp.down_proj.weight''} \<Longrightarrow>
   in_table attention_tensors n"
  "n \<in> {''model.language_model.embed_tokens.weight'', ''model.language_model.norm.weight'', ''lm_head.weight'',
     ''mtp.fc.weight'', ''mtp.norm.weight'', ''mtp.pre_fc_norm_embedding.weight'', ''mtp.pre_fc_norm_hidden.weight''} \<Longrightarrow>
   in_table (shared_tensors @ mtp_tensors) n"
  unfolding in_table_def linear_tensors_def attention_tensors_def shared_tensors_def mtp_tensors_def
  by (elim insertE emptyE; simp)+

lemma table_weight_ok: "in_table ts n \<Longrightarrow> weight_ok (table_weight ts n)"
  by (auto simp: weight_ok_def validate_weight_def table_weight_def table_tensor_def in_table_def dense_spec_def
    model_tensor_def)

lemmas ends_simps = ends_with_def

text \<open>The weights the engine takes from a loaded layer are those of the small model.\<close>

lemmas layer_loads = load_layer_def load_mtp_layer_def Let_def load_norms_def layer_kind_def model_kinds table_names
  load_linear_def load_attention_def load_mlp_def validate_layer_def table_weight_ok

lemmas loaded_values = layer_weights_of_def small_layer_def Let_def tensor_or_default_def table_weight_def table_tensor_def
  linear_tensors_def attention_tensors_def model_tensor_def weight_def weight_vector_def mat_def empty_layer_def
  empty_weight_def

lemma model_layer_0:
  assumes "on_gpus reg"
  shows "\<exists>L. load_layer model_env reg small_config model_store 0 gpu0 = Inr L \<and> layer_weights_of L = small_layer False"
  by (simp add: layer_loads assms linear_load ends_with_def small_config_def) (simp add: loaded_values)

lemma model_layer_1:
  assumes "on_gpus reg"
  shows "\<exists>L. load_layer model_env reg small_config model_store 1 gpu0 = Inr L \<and> layer_weights_of L = small_layer True"
  by (simp add: layer_loads assms attention_load ends_with_def small_config_def) (simp add: loaded_values)

lemma model_mtp_layer:
  assumes "on_gpus reg"
  shows "\<exists>L. load_mtp_layer model_env reg model_store gpu0 0 = Inr L \<and> layer_weights_of L = small_layer True
    \<and> validate_mtp_layers [L] = Inr ()"
proof -
  have "string_of_nat 0 = ''0''" by code_simp
  then show ?thesis
    by (simp add: layer_loads assms mtp_load ends_with_def) (simp add: loaded_values)
qed

end
