(* ===== verification/Checkpoint_Run.thy ===== *)
theory Checkpoint_Run
  imports Model_Checkpoint
begin

text \<open>
  A generator over the files of \<open>Model_Checkpoint\<close>: it loads onto one GPU, with the prediction head, and a
  speculative request runs on the loaded state. So the assumptions of \<open>loaded_generation_is_greedy\<close> hold
  together.
\<close>

section \<open>Loading the generator\<close>

definition model_load_env :: "(unit, int) load_env" where
  "model_load_env = \<lparr>le_store = model_env, le_config = small_config_env, le_order = (\<lambda>m. m), le_max_tokens = 1000,
     le_probe = \<lparr>enumerate_devices = (\<lambda>_. [gpu0]), is_available = (\<lambda>_. True)\<rparr>,
     le_registry = small_registry, le_names = [''hip'']\<rparr>"

definition model_generator_options :: generator_options where
  "model_generator_options = \<lparr>model_dir = ''m'', backend_name = ''hip'', max_devices = 1, enable_mtp = True\<rparr>"

definition model_generator :: "(int tensor, int tensor, int tensor, int) generator_state" where
  "model_generator = new_generator int_fops model_generator_options"

lemma model_config_loaded:
  "load_config small_config_env (json_file_of model_env ''m/config.json'') ''m/config.json'' (default_config int_fops) =
     (small_config, Inr ())"
proof -
  have "json_file_of model_env ''m/config.json'' = FileJson model_config_json"
    by (simp add: json_file_of_def model_env_def model_read_def model_parse_def)
  then show ?thesis
    by (simp add: load_config_def load_config_json_def read_mtp_def read_fields_def read_eos_def config_eos_entry_def
      read_rope_def derive_head_dim_def read_schedule_def read_i64_def read_float_def read_bool_def read_string_def
      config_field_def model_config_json_def small_config_env_def small_numbers_def default_config_def int_fops_def Let_def
      cast_i64_id validate_config_def dimensions_bad_def schedule_conflicts_def scheduled_type_def upt_rec small_config_def)
qed

lemma model_tokenizer_loaded: "load_tokenizer (tokenizer_files_of model_load_env ''m'') dir = (small_tok, Inr ())"
  by (rule small_tok_loaded)
    (simp_all add: tokenizer_files_of_def model_load_env_def json_file_of_def model_env_def model_read_def model_parse_def
      small_generation_def)

lemma model_shared_loaded:
  assumes "on_gpus reg"
  shows "load_shared model_env reg model_store gpu0 gpu0 = Inr
    \<lparr>sw_embed_tokens = dw_embed_tokens small_weights, sw_final_norm = dw_final_norm small_weights,
     sw_lm_head = dw_lm_head small_weights\<rparr>"
  by (simp add: load_shared_def shared_load assms table_names)
    (simp add: small_weights_def loaded_values shared_tensors_def)

lemma model_mtp_loaded:
  assumes "on_gpus reg"
  shows "\<exists>Mt. load_mtp model_env reg small_config model_store gpu0 = Inr Mt \<and> mtp_weights_of Mt = dw_mtp small_weights"
proof -
  obtain L where "load_mtp_layer model_env reg model_store gpu0 0 = Inr L" "layer_weights_of L = small_layer True"
    "validate_mtp_layers [L] = Inr ()" using model_mtp_layer [OF assms] by blast
  then show ?thesis
    by (simp add: load_mtp_def shared_load assms table_names small_config_def validate_mtp_def)
      (simp add: small_weights_def loaded_values shared_tensors_def mtp_tensors_def mtp_weights_of_def ndim_def)
qed

lemma model_distributed:
  assumes "on_gpus reg"
  shows "\<exists>W. load_distributed model_env reg small_config model_store [gpu0] = Inr W \<and>
    (\<forall>Mt. mtp_weights_of Mt = dw_mtp small_weights \<longrightarrow> engine_weights_of W Mt = small_weights)"
proof -
  obtain L0 L1 where L: "load_layer model_env reg small_config model_store 0 gpu0 = Inr L0" "layer_weights_of L0 = small_layer False"
    "load_layer model_env reg small_config model_store 1 gpu0 = Inr L1" "layer_weights_of L1 = small_layer True"
    using model_layer_0 [OF assms] model_layer_1 [OF assms] by blast
  obtain ps where "plan_distributed small_config model_store [gpu0] = Inr ps" "plan_layers ps = [(0, gpu0), (1, gpu0)]"
    by (simp add: plan_distributed_def Let_def plan_entry_def add_bytes_def plan_layers_def upto_rec1 small_config_def)
  moreover have "num_hidden_layers small_config = 2" by (simp add: small_config_def)
  ultimately show ?thesis
    using L by (simp add: load_distributed_def model_shared_loaded [OF assms] engine_weights_of_def)
      (simp add: small_weights_def numeral_2_eq_2)
qed

lemma model_devices:
  "initialize_devices (le_probe model_load_env) (le_registry model_load_env) (le_names model_load_env) new_device_manager =
     \<lparr>devices = [Cpu, gpu0], manager_initialized = True\<rparr>"
  by (simp add: initialize_devices_def new_device_manager_def model_load_env_def usable_devices_def create_backend_def
      small_registry_def register_backend_def empty_registry_def probe_device_def gpu0_def reference_backends_def)

lemma model_generator_loads:
  "\<exists>M' G'. load_model_into model_load_env int_fops new_device_manager model_generator = (M', G', Inr ()) \<and>
     gs_config G' = small_config \<and> gs_devices G' = [gpu0] \<and> gs_tokenizer G' = small_tok \<and>
     engine_weights_of (gs_weights G') (gs_mtp G') = small_weights \<and> gs_impl G' = small_impl True"
proof -
  let ?V = model_load_env and ?G = model_generator
  have j: "se_join model_env ''m'' ''config.json'' = ''m/config.json''" "se_is_directory model_env ''m''"
    "le_store ?V = model_env" "le_config ?V = small_config_env" "le_registry ?V = small_registry"
    by (simp_all add: model_env_def model_load_env_def)
  have opts: "clamp_devices model_generator_options = model_generator_options"
    "impl_options (gs_impl ?G) = model_generator_options" "gs_config ?G = default_config int_fops"
    "model_dir model_generator_options = ''m''" "enable_mtp model_generator_options"
    by (simp_all add: clamp_devices_def model_generator_def new_generator_def model_generator_options_def)
  have sizes: "num_hidden_layers small_config = 2" "mtp_num_hidden_layers small_config = 1"
    by (simp_all add: small_config_def)
  have ds: "\<exists>M'. choose_devices ?V model_generator_options new_device_manager = ([gpu0], M')"
    unfolding choose_devices_def select_gpu_devices_def initialize_devices_again Let_def model_devices
    by (simp add: is_gpu_def gpu0_def Cpu_def model_generator_options_def initialize_devices_def)
  obtain W where W: "load_distributed model_env (create_backend small_registry) small_config model_store [gpu0] = Inr W"
    "\<And>Mt. mtp_weights_of Mt = dw_mtp small_weights \<Longrightarrow> engine_weights_of W Mt = small_weights"
    using model_distributed [OF small_registry_on_gpus] by blast
  obtain Mt where Mt: "load_mtp model_env (create_backend small_registry) small_config model_store gpu0 = Inr Mt"
    "mtp_weights_of Mt = dw_mtp small_weights"
    using model_mtp_loaded [OF small_registry_on_gpus] by blast
  show ?thesis
    using ds W(1) W(2) [OF Mt(2)] Mt(1)
    by (auto simp: load_model_into_def opts j load_generator_model_def model_config_loaded Let_def open_loader_def
        model_opens load_generator_weights_def loader_load_distributed_def with_store_def load_generator_tokenizer_def
        model_tokenizer_loaded finish_load_def)
      (simp_all add: small_impl_def model_generator_def new_generator_def sizes resize_caches_def resize_dn_def
        model_generator_options_def numeral_2_eq_2)
qed

section \<open>A request\<close>

definition model_request :: generation_options where
  "model_request = \<lparr>prompt_text = ''b'', max_new_tokens = 1, use_chat_template = False,
     enable_thinking = False, enable_speculative_mtp = True\<rparr>"

lemma model_prompt: "prompt_ids (codec_of small_config small_tok) model_request = [1]"
proof -
  have pre: "pre_tokenize [0x62] = [[0x62]]" "codepoints_to_utf8 [0x62] = [0x62]" "utf8_to_codepoints [0x62] = [0x62]"
    by code_simp+
  have "bpe small_tok [0x62] = [[0x62]]" unfolding bpe_def pre(3) by (simp add: pre(2))
  then have "encode small_tok [0x62] = [1]"
    by (simp add: encode_def split_special_tokens_def small_added split_loop.simps best_added_def added_step_def
      encode_segment_def pre(1,2) encode_piece_def byte_encode_eq [OF small_alphabet] byte_char_ab)
      (simp add: token_ids_of_def small_tok_def)
  then show ?thesis by (simp add: prompt_ids_def model_request_def codec_of_def small_bytes)
qed

lemma model_supported_small: "model_supported int_fops (reference_env int_fops 0) small_config small_weights gpu0"
proof -
  have "kernels_agree int_fops (reference_env int_fops 0) small_config L dev"
    if "(L, dev) \<in> set (dw_layers small_weights)" for L dev
    using small.exact_delta [OF that] small.same_widths that
    unfolding kernels_agree_def int_hip.delta_exact_def list_all_iff by fast
  then show ?thesis using small.big_vocab small.argmax_launch by (auto simp: model_supported_def list_all_iff)
qed

end
