(* ===== verification/Fp8_Dequant.thy ===== *)
theory Fp8_Dequant
  imports Complex_Main Weights Cpu_Backend
begin

text \<open>
  \<open>FP8Dequantizer\<close> (\<open>src/ops/fp8_dequant.cc\<close>): the decoding of an E4M3 byte and the two
  conversions of an FP8 tensor to FP32. The input is a tensor of bytes; \<open>std::ldexp\<close> is an
  argument. Reading the memory of a GPU from the host, or beyond a buffer, is undefined.
\<close>

unbundle bit_operations_syntax

section \<open>One byte\<close>

definition decode_e4m3 :: "'f fops \<Rightarrow> ('f \<Rightarrow> int \<Rightarrow> 'f) \<Rightarrow> u8 \<Rightarrow> 'f" where
  "decode_e4m3 F ldexp v =
     (let negative = (v AND 0x80 \<noteq> 0);
          exponent = uint (drop_bit 3 v AND 0x0F);
          mantissa = uint (v AND 0x07);
          magnitude =
            (if exponent = 0 then ldexp (f_int F mantissa) (- 9)
             else ldexp (f_add F (f_one F) (f_div F (f_int F mantissa) (f_int F 8))) (exponent - 7))
      in if negative then f_neg F magnitude else magnitude)"

section \<open>One scale for each run of elements\<close>

definition has_data :: "'a tensor \<Rightarrow> bool" where
  "has_data t \<longleftrightarrow> t_data t \<noteq> []"

definition host_visible :: "'a tensor \<Rightarrow> bool" where
  "host_visible t \<longleftrightarrow> \<not> (is_gpu (t_device t) \<and> t_mem t = DeviceMem)"

text \<open>The value and the scale of element \<open>i\<close>. The loop stops at the first element without one.\<close>

definition scaled_element ::
  "'f fops \<Rightarrow> ('f \<Rightarrow> int \<Rightarrow> 'f) \<Rightarrow> u8 tensor \<Rightarrow> 'f tensor option \<Rightarrow> int \<Rightarrow> nat \<Rightarrow> 'f result" where
  "scaled_element F ldexp input scales block_size i =
     and_then
       (case scales of
          None \<Rightarrow> Inr (f_one F)
        | Some sc \<Rightarrow>
            (let scale_index = int i div block_size in
             if t_numel sc \<le> scale_index
             then fails InvalidArgument ''FP8Dequantizer scales do not cover input''
             else if int (length (t_data sc)) \<le> scale_index then Inl (Undef ''read beyond the buffer'')
             else Inr (t_data sc ! nat scale_index)))
       (\<lambda>scale.
          if length (t_data input) \<le> i then Inl (Undef ''read beyond the buffer'')
          else Inr (f_mul F (decode_e4m3 F ldexp (t_data input ! i)) scale))"

definition dequantize ::
  "'f fops \<Rightarrow> ('f \<Rightarrow> int \<Rightarrow> 'f) \<Rightarrow> 'f backends \<Rightarrow> u8 tensor \<Rightarrow> 'f tensor option \<Rightarrow> int \<Rightarrow> 'f tensor result" where
  "dequantize F ldexp reg input scales block_size =
     (if t_dtype input \<noteq> FP8_E4M3
      then fails UnsupportedDType ''FP8Dequantizer expects FP8_E4M3 input''
      else if \<not> has_data input then fails InvalidArgument ''FP8Dequantizer input has no data''
      else if block_size \<le> 0 then fails InvalidArgument ''FP8Dequantizer block_size must be positive''
      else if (case scales of None \<Rightarrow> False | Some sc \<Rightarrow> \<not> has_data sc \<or> t_dtype sc \<noteq> FP32)
      then fails InvalidArgument ''FP8Dequantizer scales must be an FP32 tensor''
      else
        (case reg (t_device input) of
           None \<Rightarrow> fails InvalidDevice ''No backend available for FP8 dequantization''
         | Some B \<Rightarrow>
             (case create_buffer B (t_numel input) FP32 (t_mem input) of
                None \<Rightarrow> fails OutOfMemory ''Failed to allocate FP8 dequantization output''
              | Some buf \<Rightarrow>
                  if 0 < t_numel input \<and>
                     \<not> (host_visible input \<and> (case scales of None \<Rightarrow> True | Some sc \<Rightarrow> host_visible sc))
                  then Inl (Undef ''host access to device memory'')
                  else
                    and_then (convert_all (scaled_element F ldexp input scales block_size)
                                [0..<nat (t_numel input)]) (\<lambda>decoded.
                      Inr (mk_tensor (t_shape input) FP32 (t_device input) (write_prefix decoded buf))))))"

section \<open>One scale for each block of a matrix\<close>

definition dequantize_2d ::
  "'f fops \<Rightarrow> ('f \<Rightarrow> int \<Rightarrow> 'f) \<Rightarrow> 'f backends \<Rightarrow> u8 tensor \<Rightarrow> 'f tensor \<Rightarrow> int \<Rightarrow> int \<Rightarrow> 'f tensor result" where
  "dequantize_2d F ldexp reg input scales block_rows block_columns =
     (if t_dtype input \<noteq> FP8_E4M3 \<or> t_dtype scales \<noteq> FP32
      then fails UnsupportedDType ''2D FP8 dequantization expects FP8 and FP32 scales''
      else if ndim (t_shape input) \<noteq> 2 \<or> ndim (t_shape scales) \<noteq> 2 \<or> \<not> has_data input \<or>
              \<not> has_data scales \<or> block_rows \<le> 0 \<or> block_columns \<le> 0
      then fails InvalidArgument ''Invalid 2D FP8 dequantization arguments''
      else
        (let rows = t_shape input ! 0; columns = t_shape input ! 1;
             scale_rows = block_count rows block_rows;
             scale_columns = block_count columns block_columns
         in if t_shape scales \<noteq> [scale_rows, scale_columns]
            then fails InvalidArgument ''2D FP8 scale shape does not match input blocks''
            else
              (case reg (t_device input) of
                 None \<Rightarrow> fails InvalidDevice ''No backend available for FP8 dequantization''
               | Some B \<Rightarrow>
                   (case create_buffer B (t_numel input) FP32 (t_mem input) of
                      None \<Rightarrow> fails OutOfMemory ''Failed to allocate FP8 dequantization output''
                    | Some buf \<Rightarrow>
                        if 0 < rows \<and> 0 < columns \<and> \<not> (host_visible input \<and> host_visible scales)
                        then Inl (Undef ''host access to device memory'')
                        else if 0 < rows \<and> 0 < columns \<and>
                          (int (length (t_data input)) < rows * columns \<or>
                           int (length (t_data scales)) < scale_rows * scale_columns)
                        then Inl (Undef ''read beyond the buffer'')
                        else
                          (let decoded =
                             for_loop (nat rows) (\<lambda>row. for_loop (nat columns) (\<lambda>column xs.
                               let scale_row = row div nat block_rows;
                                   scale_column = column div nat block_columns;
                                   scale_index = scale_row * nat scale_columns + scale_column;
                                   index = row * nat columns + column
                               in xs[index := f_mul F (decode_e4m3 F ldexp (t_data input ! index))
                                                      (t_data scales ! scale_index)])) (bf_data buf)
                           in Inr (mk_tensor (t_shape input) FP32 (t_device input)
                                     (buf\<lparr>bf_data := decoded\<rparr>)))))))"

section \<open>The value of every element\<close>

lemma block_count_div: "0 < b \<Longrightarrow> 0 < n \<Longrightarrow> block_count n b = (n + b - 1) div b"
  by (simp add: block_count_def signed_divide_int_def)

lemma block_index:
  assumes "0 < b" "int i < n"
  shows "int (i div nat b) < (n + b - 1) div b"
proof -
  have "int (i div nat b) = int i div b" using assms by (simp add: zdiv_int)
  moreover have "int i div b + 1 = (int i + b) div b" using assms by simp
  moreover have "(int i + b) div b \<le> (n + b - 1) div b" using assms by (intro zdiv_mono1) auto
  ultimately show ?thesis by linarith
qed

lemma block_pair_index:
  assumes "0 < br" "0 < bc" "int r < rows" "int c < columns"
    and "((rows + br - 1) div br) * ((columns + bc - 1) div bc) \<le> int n"
  shows "r div nat br * nat ((columns + bc - 1) div bc) + c div nat bc < n"
proof -
  let ?m = "(columns + bc - 1) div bc"
  have c: "int (c div nat bc) < ?m" using assms by (intro block_index)
  have r: "int (r div nat br) + 1 \<le> (rows + br - 1) div br" using block_index [of br r rows] assms by simp
  have "int (r div nat br * nat ?m + c div nat bc) < (int (r div nat br) + 1) * ?m"
    using c by (simp add: algebra_simps)
  also have "\<dots> \<le> (rows + br - 1) div br * ?m" using r c by (intro mult_right_mono) auto
  finally show ?thesis using assms(5) by linarith
qed

text \<open>The last code of the range, a NaN in the E4M3FN format, is decoded as 480.\<close>

lemma decode_top:
  assumes "f_int F = of_int" "f_add F = (+)" "f_div F = (/)" "\<And>x e. ldexp x e = x * 2 powi e"
  shows "decode_e4m3 F ldexp 0x7F = (480 :: real)"
  by (simp add: decode_e4m3_def Let_def assms)

end
