(* ===== verification/Loader_Properties.thy ===== *)
theory Loader_Properties
  imports Small_Checkpoint Fp8_Dequant
begin

text \<open>
  What loading a checkpoint promises: a tensor of an opened model is the slice of its file the
  header names, a blockwise FP8 matrix is decoded with the scale of each block, the plan of a
  distributed load covers the layers, and the load puts each layer on its device.
\<close>

section \<open>The bytes of a plan\<close>

lemma sum_list_add_at:
  "i < length xs \<Longrightarrow> sum_list (xs[i := xs ! i + b]) = sum_list xs + (b :: 'a :: ab_group_add)"
  by (induction xs arbitrary: i) (auto simp: algebra_simps split: nat.splits)

lemma add_bytes_sum:
  "i < length ps \<Longrightarrow> sum_list (map dp_bytes (add_bytes i b ps)) = sum_list (map dp_bytes ps) + b"
  using sum_list_add_at [of i "map dp_bytes ps" b] by (simp add: add_bytes_def map_update)

lemma plan_entries_bytes:
  "sum_list (map dp_bytes (map (plan_entry S n d) xs)) =
     sum_list (map (layer_bytes S) (concat (map (\<lambda>p. [dp_first p..dp_last p]) (map (plan_entry S n d) xs))))"
  by (induction xs) (auto simp: plan_entry_def Let_def split: prod.splits)

lemma add_bytes_cover:
  "i < length ps \<Longrightarrow> map (\<lambda>p. [dp_first p..dp_last p]) (add_bytes i b ps) = map (\<lambda>p. [dp_first p..dp_last p]) ps"
  by (auto simp: add_bytes_def map_update list_update_id intro!: list_update_same_conv [THEN iffD2])

lemma plan_bytes:
  assumes "plan_distributed cfg S devices = Inr ps"
  shows "sum_list (map dp_bytes ps) =
    sum_list (map (layer_bytes S) [0..num_hidden_layers cfg - 1]) +
    tensor_bytes S ''model.language_model.embed_tokens.weight'' +
    tensor_bytes S ''model.language_model.norm.weight'' + tensor_bytes S ''lm_head.weight'' + mtp_bytes cfg S"
proof -
  let ?qs = "map (plan_entry S (num_hidden_layers cfg) (int (length devices))) (enumerate 0 devices)"
  have d: "devices \<noteq> []"
    and ps: "ps = add_bytes (length devices - 1) (mtp_bytes cfg S)
                 (add_bytes (length devices - 1) (tensor_bytes S ''lm_head.weight'')
                 (add_bytes (length devices - 1) (tensor_bytes S ''model.language_model.norm.weight'')
                 (add_bytes 0 (tensor_bytes S ''model.language_model.embed_tokens.weight'') ?qs)))"
    using assms by (auto simp: plan_distributed_def Let_def split: if_splits)
  have l: "length devices - 1 < length devices" using d by (cases devices) auto
  have "map (\<lambda>p. [dp_first p..dp_last p]) ps = map (\<lambda>p. [dp_first p..dp_last p]) ?qs"
    using d l by (simp add: ps add_bytes_cover del: map_map)
  then have "sum_list (map dp_bytes ?qs) = sum_list (map (layer_bytes S) [0..num_hidden_layers cfg - 1])"
    using plan_covers(1) [OF assms] by (simp only: plan_entries_bytes)
  then show ?thesis using d l by (simp add: ps add_bytes_sum del: map_map)
qed

section \<open>The properties\<close>

text \<open>C38. The plan of a distributed load gives each device a run of consecutive layers, in order,
  which together are all the layers, as evenly as possible, and accounts for every byte it
  loads.\<close>

theorem plan_distributed_covers:
  assumes "devices \<noteq> []" "\<forall>dev \<in> set devices. is_gpu dev" "int (length devices) \<le> num_hidden_layers cfg"
  shows "\<exists>ps. plan_distributed cfg S devices = Inr ps \<and> map dp_device ps = devices \<and>
    concat (map (\<lambda>p. [dp_first p..dp_last p]) ps) = [0..num_hidden_layers cfg - 1] \<and>
    (\<forall>p \<in> set ps. dp_first p \<le> dp_last p \<and>
       num_hidden_layers cfg div int (length devices) \<le> dp_last p - dp_first p + 1 \<and>
       dp_last p - dp_first p \<le> num_hidden_layers cfg div int (length devices)) \<and>
    sum_list (map dp_bytes ps) =
      sum_list (map (layer_bytes S) [0..num_hidden_layers cfg - 1]) +
      tensor_bytes S ''model.language_model.embed_tokens.weight'' +
      tensor_bytes S ''model.language_model.norm.weight'' + tensor_bytes S ''lm_head.weight'' +
      mtp_bytes cfg S"
proof -
  have "0 < length devices" using assms(1) by simp
  then have "0 < num_hidden_layers cfg" using assms(3) by linarith
  then obtain ps where p: "plan_distributed cfg S devices = Inr ps"
    using assms by (auto simp: plan_distributed_def Let_def list_ex_iff)
  show ?thesis
    using plan_shape(2) [OF p] plan_covers [OF p] plan_bytes [OF p] p by blast
qed

text \<open>C37. A distributed load puts every layer on the device whose partition holds it, where it is
  what loading that layer alone gives, and the shared weights on the first and the last device.\<close>

theorem load_distributed_places_layers:
  assumes "load_distributed E reg cfg S devices = Inr W"
  shows "plan_distributed cfg S devices = Inr (ld_partitions W) \<and>
    load_shared E reg S (hd devices) (last devices) = Inr (ld_shared W) \<and>
    length (ld_layers W) = nat (num_hidden_layers cfg) \<and>
    (\<forall>p \<in> set (ld_partitions W). \<forall>i. dp_first p \<le> i \<and> i \<le> dp_last p \<longrightarrow>
       snd (ld_layers W ! nat i) = dp_device p \<and>
       load_layer E reg cfg S i (dp_device p) = Inr (fst (ld_layers W ! nat i)))"
proof -
  note l = load_distributed_layers [OF assms]
  have "snd (ld_layers W ! nat i) = dp_device q \<and> load_layer E reg cfg S i (dp_device q) = Inr (fst (ld_layers W ! nat i))"
    if q: "q \<in> set (ld_partitions W)" "dp_first q \<le> i" "i \<le> dp_last q" for q i
  proof -
    have "(i, dp_device q) \<in> set (plan_layers (ld_partitions W))" using q by (force simp: plan_layers_def)
    then obtain k where k: "k < length (plan_layers (ld_partitions W))" "plan_layers (ld_partitions W) ! k = (i, dp_device q)"
      by (auto simp: in_set_conv_nth)
    have n: "length (plan_layers (ld_partitions W)) = nat (num_hidden_layers cfg)"
      using arg_cong [OF l(3), of length] by simp
    then have ik: "i = int k" using arg_cong [OF l(3), of "\<lambda>xs. xs ! k"] k by simp
    have "snd (ld_layers W ! k) = dp_device q"
      using arg_cong [OF l(5), of "\<lambda>xs. xs ! k"] k n l(4) by simp
    then show ?thesis using l(6) [of k] k ik n by simp
  qed
  then show ?thesis using l by blast
qed

text \<open>C36. Every tensor of a model that was opened can be loaded when memory is available: its elements
  are decoded from the bytes of its file between the offsets of the header, which are inside the
  file.\<close>

theorem opened_tensor_loads:
  assumes "open_model E path S0 = (S, Inr ())" "tensor_info_of S name = Some info"
    and "\<forall>p bs. se_read E p = Some bs \<longrightarrow> se_size E p = int (length bs)"
    and "\<forall>d raw. length (se_decode E d raw) = length raw div SizeOfDType d"
    and "reg dev = Some B" "\<forall>n. bk_create B n mem" "\<forall>n. se_staging E dev n" "bk_synchronize B = Inr ()"
    and "\<forall>buf xs. length xs \<le> length (bf_data buf) \<longrightarrow> bk_memcpy_h2d B buf xs = Inr (write_prefix xs buf)"
  shows "\<exists>src offset bytes T. tensor_source S name = Inr (src, offset) \<and> se_read E src = Some bytes \<and>
    ti_begin info \<le> ti_end info \<and> offset + ti_end info \<le> length bytes \<and>
    int (ti_end info - ti_begin info) = cast_u64 (numel (ti_shape info) * int (SizeOfDType (ti_dtype info))) \<and>
    load_tensor E reg S name dev mem = Inr T \<and> t_shape T = ti_shape info \<and>
    t_dtype T = ti_dtype info \<and> t_device T = dev \<and> t_mem T = mem \<and>
    t_data T = se_decode E (ti_dtype info)
      (take (ti_end info - ti_begin info) (drop (offset + ti_begin info) bytes))"
proof -
  have "(name, info) \<in> set (st_tensors S)" using assms(2) by (simp add: tensor_info_of_def map_of_SomeD)
  then have "tensor_readable E S name info" by (rule open_model_readable [OF assms(3, 1)])
  then obtain src offset bytes where r: "tensor_source S name = Inr (src, offset)" "se_read E src = Some bytes"
    "ti_begin info \<le> ti_end info" "offset + ti_end info \<le> length bytes"
    "int (ti_end info - ti_begin info) = cast_u64 (numel (ti_shape info) * int (SizeOfDType (ti_dtype info)))"
    unfolding tensor_readable_def by blast
  let ?n = "ti_end info - ti_begin info" and ?d = "ti_dtype info"
  let ?xs = "se_decode E ?d (take ?n (drop (offset + ti_begin info) bytes))"
  define buf where "buf = \<lparr>bf_device = bk_device B, bf_mem = mem, bf_width = SizeOfDType ?d,
    bf_data = replicate (?n div SizeOfDType ?d) (bk_junk B)\<rparr>"
  have c: "create_buffer B (int (?n div SizeOfDType ?d)) ?d mem = Some buf"
    using assms(6) by (simp add: create_buffer_Some buf_def)
  have "length ?xs = length (bf_data buf)" using assms(4) r(3, 4) by (simp add: buf_def min_absorb2)
  then have "bk_memcpy_h2d B buf ?xs = Inr (write_prefix ?xs buf)" "bf_data (write_prefix ?xs buf) = ?xs"
    using assms(9) by (simp_all add: write_prefix_full)
  moreover have "read_slice bytes (offset + ti_begin info) ?n = Some (take ?n (drop (offset + ti_begin info) bytes))"
    using r(3, 4) by (simp add: read_slice_def)
  ultimately have "load_tensor E reg S name dev mem =
      Inr (mk_tensor (ti_shape info) ?d dev (write_prefix ?xs buf))" "bf_data (write_prefix ?xs buf) = ?xs"
    using assms(2, 5, 7, 8) c r(1, 2) by (simp_all add: load_tensor_def Let_def)
  then show ?thesis using r by (auto simp: buf_def)
qed

text \<open>C39. A matrix of E4M3 bytes whose scales have the shape of its blocks is converted: every
  element is its decoded byte times the scale of its block, and no read leaves a buffer.\<close>

theorem dequantize_2d_blocks:
  assumes "t_dtype input = FP8_E4M3" "t_shape input = [rows, columns]" "0 < rows" "0 < columns"
    and "t_dtype scales = FP32"
    and "t_shape scales = [(rows + br - 1) div br, (columns + bc - 1) div bc]" "0 < br" "0 < bc"
    and "rows * columns \<le> int (length (t_data input))"
    and "((rows + br - 1) div br) * ((columns + bc - 1) div bc) \<le> int (length (t_data scales))"
    and "host_visible input" "host_visible scales"
    and "reg (t_device input) = Some B" "bk_create B (nat (rows * columns) * 4) (t_mem input)"
  shows "\<exists>out. dequantize_2d F L reg input scales br bc = Inr out \<and>
    t_shape out = [rows, columns] \<and> t_dtype out = FP32 \<and> t_device out = t_device input \<and>
    length (t_data out) = nat rows * nat columns \<and>
    (\<forall>r c. r < nat rows \<and> c < nat columns \<longrightarrow>
       (let s = r div nat br * nat ((columns + bc - 1) div bc) + c div nat bc
        in s < length (t_data scales) \<and>
           t_data out ! (r * nat columns + c) =
             f_mul F (decode_e4m3 F L (t_data input ! (r * nat columns + c))) (t_data scales ! s)))"
proof -
  let ?m = "(columns + bc - 1) div bc"
  let ?s = "\<lambda>r c. r div nat br * nat ?m + c div nat bc"
  let ?v = "\<lambda>r c. f_mul F (decode_e4m3 F L (t_data input ! (r * nat columns + c))) (t_data scales ! ?s r c)"
  define buf where "buf = \<lparr>bf_device = bk_device B, bf_mem = t_mem input, bf_width = 4,
    bf_data = replicate (nat (rows * columns)) (bk_junk B)\<rparr>"
  have n: "numel [rows, columns] = rows * columns" by (simp add: numel_def)
  have pos: "0 < rows * columns" "0 < (rows + br - 1) div br" "0 < ?m"
    using assms by (simp_all add: pos_imp_zdiv_pos_iff)
  then have "0 < (rows + br - 1) div br * ?m" by simp
  then have "0 < length (t_data scales)" "0 < length (t_data input)"
    using assms(9, 10) pos(1) by linarith+
  then have data: "t_data input \<noteq> []" "t_data scales \<noteq> []" by simp_all
  have c: "create_buffer B (t_numel input) FP32 (t_mem input) = Some buf"
    using assms pos by (simp add: create_buffer_Some t_numel_def n buf_def)
  have len: "length (bf_data buf) = nat rows * nat columns"
    using assms by (simp add: buf_def nat_mult_distrib)
  have "dequantize_2d F L reg input scales br bc = Inr (mk_tensor [rows, columns] FP32 (t_device input)
      (buf\<lparr>bf_data := concat (map (\<lambda>r. map (?v r) [0..<nat columns]) [0..<nat rows])\<rparr>))"
    using assms data c naive_gemm_loop [OF len, of "\<lambda>r c _. ?v r c"]
    by (simp add: dequantize_2d_def Let_def ndim_def has_data_def block_count_div not_less)
  moreover have "?s r c < length (t_data scales)" if "r < nat rows" "c < nat columns" for r c
    by (rule block_pair_index [OF assms(7, 8) _ _ assms(10)]) (use that in auto)
  moreover have "r * nat columns + c < nat rows * nat columns" if "r < nat rows" "c < nat columns" for r c
    using that mult_le_mono1 [of "Suc r" "nat rows" "nat columns"] by simp
  ultimately show ?thesis by (auto simp: concat_map_upt Let_def)
qed

section \<open>On a small checkpoint\<close>

theorem plan_distributed_covers_witness:
  "\<exists>ps. plan_distributed two_layers small_store [nth_gpu 0, nth_gpu 1] = Inr ps \<and>
     map dp_device ps = [nth_gpu 0, nth_gpu 1] \<and> concat (map (\<lambda>p. [dp_first p..dp_last p]) ps) = [0, 1]"
  using plan_distributed_covers [of "[nth_gpu 0, nth_gpu 1]" two_layers small_store]
  by (auto simp: upto_rec1)

theorem load_distributed_places_layers_witness:
  "\<exists>W. load_distributed small_env (reference_backends int_fops 0) two_layers small_store [nth_gpu 0, nth_gpu 1] = Inr W \<and>
     length (ld_layers W) = 2 \<and> plan_distributed two_layers small_store [nth_gpu 0, nth_gpu 1] = Inr (ld_partitions W)"
proof -
  obtain W where W: "load_distributed small_env (reference_backends int_fops 0) two_layers small_store
    [nth_gpu 0, nth_gpu 1] = Inr W" using small_load [OF reference_on_gpus] by blast
  show ?thesis using load_distributed_places_layers [OF W] W by auto
qed

theorem opened_tensor_loads_witness:
  "\<exists>T. open_model small_env ''m'' closed_store = (small_store, Inr ()) \<and>
     load_tensor small_env (reference_backends int_fops 0) small_store ''lm_head.weight'' (nth_gpu 0) DeviceMem = Inr T \<and>
     t_shape T = [2, 2] \<and> t_dtype T = BF16"
proof -
  let ?B = "hip_backend (reference_env int_fops 0 (nth_gpu 0))"
  have S: "open_model small_env ''m'' closed_store = (small_store, Inr ())"
    "tensor_info_of small_store ''lm_head.weight'' = Some small_info"
    by (simp_all add: small_opens small_info_of small_present)
  have env: "\<forall>p bs. se_read small_env p = Some bs \<longrightarrow> se_size small_env p = int (length bs)"
    "\<forall>d raw. length (se_decode small_env d raw) = length raw div SizeOfDType d"
    "\<forall>n. se_staging small_env (nth_gpu 0) n"
    by (simp_all add: small_env_def)
  have gpu: "reference_backends int_fops 0 (nth_gpu 0) = Some ?B" "bk_synchronize ?B = Inr ()"
    "\<forall>buf xs. length xs \<le> length (bf_data buf) \<longrightarrow> bk_memcpy_h2d ?B buf xs = Inr (write_prefix xs buf)"
    using reference_on_gpus by (simp_all add: on_gpus_def reference_gpu)
  have mem: "\<forall>n. bk_create ?B n DeviceMem" by (simp add: reference_env_def)
  from opened_tensor_loads [where mem = DeviceMem and B = ?B and dev = "nth_gpu 0" and
      reg = "reference_backends int_fops 0", OF S env(1, 2) gpu(1) mem env(3) gpu(2, 3)]
  obtain T where "load_tensor small_env (reference_backends int_fops 0) small_store ''lm_head.weight'' (nth_gpu 0)
      DeviceMem = Inr T" "t_shape T = [2, 2]" "t_dtype T = BF16" by (auto simp: small_info_def)
  then show ?thesis using S(1) by blast
qed

text \<open>The matrix of \<open>tests/ops_fp8_dequant_test.cc\<close>: three rows of four values in blocks of
  two by two.\<close>

definition fp8_input :: "u8 tensor" where
  "fp8_input = mk_tensor [3, 4] FP8_E4M3 Cpu \<lparr>bf_device = Cpu, bf_mem = HostMem, bf_width = 1,
     bf_data = [0x38, 0x38, 0x38, 0x38, 0x40, 0x40, 0x40, 0x40, 0x38, 0x38, 0x40, 0x40]\<rparr>"

definition fp8_scales :: "int tensor" where
  "fp8_scales = mk_tensor [2, 2] FP32 Cpu
     \<lparr>bf_device = Cpu, bf_mem = HostMem, bf_width = 4, bf_data = [1, 2, 3, 4]\<rparr>"

theorem dequantize_2d_blocks_witness:
  "\<exists>out. dequantize_2d int_fops (\<lambda>x e. x * 2 ^ nat e) (reference_backends int_fops 0) fp8_input fp8_scales 2 2 = Inr out \<and>
     t_shape out = [3, 4] \<and> t_data out ! 10 = 8"
proof -
  let ?L = "\<lambda>x e. x * 2 ^ nat e :: int" and ?R = "reference_backends int_fops 0"
  have "?R Cpu = Some (cpu_backend int_fops (\<lambda>_. True) 0 Cpu)"
    by (simp add: reference_backends_def is_gpu_def Cpu_def)
  from dequantize_2d_blocks [of fp8_input 3 4 fp8_scales 2 2 ?R "cpu_backend int_fops (\<lambda>_. True) 0 Cpu" int_fops ?L] this
  obtain out where o: "dequantize_2d int_fops ?L ?R fp8_input fp8_scales 2 2 = Inr out" "t_shape out = [3, 4]"
    "\<forall>r c. r < 3 \<and> c < 4 \<longrightarrow> t_data out ! (r * 4 + c) = f_mul int_fops (decode_e4m3 int_fops ?L (t_data fp8_input ! (r * 4 + c)))
       (t_data fp8_scales ! (r div 2 * 2 + c div 2))"
    by (auto simp: fp8_input_def fp8_scales_def host_visible_def is_gpu_def Cpu_def Let_def cpu_create_def host_allocate_def)
  have "t_data out ! 10 = 8"
    using o(3) [rule_format, of 2 2]
    by (simp add: fp8_input_def fp8_scales_def decode_e4m3_def Let_def int_fops_def)
  then show ?thesis using o by blast
qed

section \<open>Boundaries of the header check\<close>

text \<open>The byte size the header check computes wraps: a tensor of \<open>2 ^ 61\<close> integers without any bytes
  is accepted.\<close>

lemma wrapped_size_accepted:
  "read_tensor_info small_numbers 0 name (JObject [(''data_offsets'', JArray [JInt 0, JInt 0]),
     (''dtype'', JString ''I64''), (''shape'', JArray [JInt (2 ^ 61)])]) =
   Inr \<lparr>ti_dtype = INT64, ti_shape = [2 ^ 61], ti_begin = 0, ti_end = 0\<rparr>"
  by (simp add: read_tensor_info_def read_layout_def get_list_def cast_i64_id cast_u64_def ParseDType_def
      checked_numel_def checked_mul_def)

text \<open>A tensor without dimensions, which the format allows for a scalar, is taken to be empty: with
  its one element it is refused.\<close>

lemma scalar_refused:
  "read_tensor_info small_numbers 8 name (JObject [(''data_offsets'', JArray [JInt 0, JInt 4]),
     (''dtype'', JString ''F32''), (''shape'', JArray [])]) =
   fails InvalidModel (''Tensor byte size does not match shape for: '' @ name)"
  by (simp add: read_tensor_info_def read_layout_def get_list_def cast_u64_def ParseDType_def checked_numel_def)

end
