(* ===== verification/Spec2Isabelle.thy ===== *)
theory Spec2Isabelle
  imports Core_Properties Streams DeltaNet_Workspaces Tokenizer_Properties Checkpoint_Run Loader_Properties
begin

text \<open>
  A model of the HybridAI inference engine, a C++ library that runs Qwen3-style decoder models
  (gated grouped-query attention and gated DeltaNet layers, with an optional multi-token
  prediction head) on CPUs and AMD GPUs.

  \<^bold>\<open>The program.\<close> \<open>Generator::load_model\<close> (\<open>src/generator.cc\<close>) chooses the devices, reads
  \<open>config.json\<close>, opens the safetensors checkpoint, loads every layer onto one device of the plan
  and loads the tokenizer. \<open>Generator::generate\<close> encodes the prompt and decodes token by token:
  either the plain loop, one forward pass for each token, or the speculative loop, in which the
  prediction head proposes tokens that the model verifies. A forward pass runs the layers of
  \<open>src/models/qwen_reference.cc\<close> over caches; the layers call the operators of \<open>src/ops/\<close>, and these
  the virtual functions of a backend, \<open>src/backends/cpu\<close> or \<open>src/backends/hip\<close>.

  \<^bold>\<open>Conventions.\<close> A fallible operation returns a \<open>result\<close>: a value, a failed \<open>Status\<close>, an exception
  or undefined behaviour (\<open>Prelude\<close>). A null tensor is \<open>None\<close>. A loader that fills an object in
  place returns the object also when it fails (\<open>loaded\<close> of \<open>Json\<close>). Singletons and caches are states
  passed along. Machine integers are words where they wrap, and integers where the code stays in
  range. The values of all float types are one abstract type \<open>'f\<close> with the processor's operations in
  the record \<open>fops\<close>; every sum keeps the order of the code, and rounding to a narrower type is
  \<open>f_store\<close>.

  \<^bold>\<open>Theories, from the bottom.\<close>
  \<^item> Values: \<open>Prelude\<close> (\<open>src/core/status.h\<close>, lists, loops), \<open>Core_Types\<close> (\<open>dtype.h\<close>, \<open>device.h\<close>,
    \<open>shape.h\<close>), \<open>Float_Ops\<close> (arithmetic and reductions), \<open>Tensor_Core\<close> (\<open>tensor.cc\<close>, the backend
    interface).
  \<^item> Backends: \<open>Cpu_Backend\<close>; \<open>Hip_Kernels\<close> and \<open>Hip_Recurrent\<close> (the \<open>.hip\<close> kernels), \<open>Hip_Backend\<close>
    (the checks and launches around them), \<open>Hip_Memory\<close> (allocator, shared pools, buffers and devices
    of the HIP backend, over \<open>Memory_Pool\<close>), \<open>Streams\<close> (streams and events of both backends, the stream
    of a shared rocBLAS handle).
  \<^item> Operators: \<open>Ops\<close>, \<open>Attention_Op\<close>, \<open>DeltaNet_Op\<close> (\<open>src/ops/\<close>), \<open>DeltaNet_Workspaces\<close>
    (the reuse of result buffers in \<open>delta_net.cc\<close>), \<open>Fp8_Dequant\<close>.
  \<^item> Decoding: \<open>Decoder_Model\<close> (layer loop, prediction head, cache snapshots over any engine),
    \<open>Generator\<close> (both loops and \<open>generate\<close>), \<open>Qwen_Layers\<close> (the operators as an engine).
  \<^item> Memory and devices: \<open>Memory_Pool\<close>, \<open>Device_Layer\<close> (registries, device manager, planner).
  \<^item> Text: \<open>Unicode_Utils\<close>, \<open>Qwen_Tokenizer\<close>.
  \<^item> Loading: \<open>Json\<close> (values and accessors), \<open>Qwen_Config\<close>, \<open>Safetensors\<close>, \<open>Weights\<close>, \<open>Weight_Loader\<close>,
    \<open>Generator_Load\<close> (\<open>Generator::Impl::load\<close> and what \<open>generate\<close> takes from its state).

  \<^bold>\<open>What is proved.\<close>
  \<^item> Decoding is correct: \<open>Causal_Engine\<close> states, as a locale, what the decode loops need of an engine
    (row by row operators, causal mixers). \<open>Speculative\<close> proves there that both loops give the greedy
    continuation, by an invariant of the speculative round; \<open>Speculation_Counts\<close> gives its progress
    and its counters. \<open>Row_Laws\<close>, \<open>Hip_Attention\<close>, \<open>Hip_DeltaNet\<close> and \<open>Qwen_Machine\<close> discharge the
    contract for the Qwen operators on GPUs (the locales \<open>hip_machine\<close> and \<open>qwen_machine\<close> hold what is
    taken of the driver, of rocBLAS and of the shapes). \<open>Reference_Machine\<close> and \<open>Small_Model\<close> show that
    these assumptions hold, on a machine and on a model that evaluates.
  \<^item> Loading and decoding together: \<open>Loaded_Generation\<close> shows that a checkpoint that loads gives an engine of
    that contract (\<open>model_supported\<close> holds the shapes the loader does not check), and the last theorem of
    this theory goes from the files to the text. \<open>Model_Checkpoint\<close> is the small model as a safetensors
    checkpoint, and \<open>Checkpoint_Run\<close> loads it and answers a request.
  \<^item> Kernels: \<open>Kernel_Laws\<close>, \<open>Argmax_Laws\<close>, \<open>Exact_Arithmetic\<close> (equality of differently ordered sums
    in exact arithmetic) and \<open>Core_Properties\<close> (strided copies, matrix product, chunks, caches; \<open>DeltaNet_Convolution\<close> has the lemmas for the two convolution operators).
  \<^item> Memory pool, GPU buffers, workspaces, rocBLAS streams and registries: their invariants over every run
    of operations, with termination of the bucket loop, in the theories of the components.
  \<^item> Tokenizer: \<open>Tokenizer_Laws\<close> and \<open>Tokenizer_Properties\<close>, up to the round trip of encoding and
    decoding for a loaded tokenizer.
  \<^item> Loading: \<open>Config_Properties\<close> (accepted configurations), \<open>Loader_Properties\<close> (a tensor is the slice
    of the file its header names; the plan covers the layers; each layer is loaded onto its device;
    FP8 blocks) and \<open>Generator_Properties\<close> (a loaded generator is consistent; a CPU generator cannot
    load). \<open>Small_Checkpoint\<close> is a checkpoint on which the hypotheses hold.

  \<^bold>\<open>Recursion and bounds.\<close> No loop of the program runs on fuel: \<open>plain_loop\<close> counts down from
  \<open>max_new_tokens\<close>, the bound of the loop in the code. The bucket loop of the memory pool is a partial
  function, as it may run forever; every other loop is a recursion with a termination proof.

  \<^bold>\<open>Parameters.\<close> Code outside the repository is an argument: the floating-point unit and \<open>cmath\<close>
  (\<open>fops\<close>, \<open>ldexp\<close>), the HIP runtime and rocBLAS (\<open>hip_env\<close>, \<open>hip_driver\<close>), the heap (\<open>heap\<close>, the allocators of the
  pool), the file system and \<open>nlohmann::json\<close>'s parser (\<open>store_env\<close>, \<open>json_file\<close>), the order of unordered
  containers, and the environment variables \<open>generate\<close> reads.

  \<^bold>\<open>Not modelled.\<close> The command line, the demos (\<open>src/demo/qwen_infer.cc\<close> is an earlier copy of the
  generator with its own reporting), benchmarks and tests; \<open>src/core/platform.cc\<close>, which asks the
  operating system; clock readings and profile output of \<open>generate\<close>; the asynchrony of GPU copies and
  launches, which the code follows by a synchronization where the host reads the result; the rocBLAS
  probe of the Windows build and the stubs of a build without HIP; mutexes, which make an operation of
  a registry or of the pool one step; the vendored JSON library.
\<close>







end
